(* ===== verification/Prelude.thy ===== *)
theory Prelude
  imports Main "HOL-Library.Sublist" "HOL-Library.State_Monad"
begin

text \<open>
  Generic material shared by every component theory: Go strings and their
  formatting verbs, Go's 64-bit and 32-bit integers with the wrap-around
  written out, \<open>time.Duration\<close> arithmetic, limits in which zero means
  ``no limit'', keyed lists, and a small predicate-transformer calculus for
  programs that talk to an environment.
\<close>

named_theorems wp "equations that execute a program symbolically"

section \<open>Go strings\<close>

text \<open>A Go string is a byte sequence. \<open>has_prefix\<close> is \<open>strings.HasPrefix\<close>,
  \<open>str_contains\<close> is \<open>strings.Contains\<close> and \<open>str_join\<close> is \<open>strings.Join\<close>.\<close>

definition has_prefix :: "string \<Rightarrow> string \<Rightarrow> bool" where
  "has_prefix s p \<longleftrightarrow> prefix p s"

fun str_contains :: "string \<Rightarrow> string \<Rightarrow> bool" where
  "str_contains [] sub = (sub = [])"
| "str_contains (c # cs) sub = (prefix sub (c # cs) \<or> str_contains cs sub)"

fun str_join :: "string \<Rightarrow> string list \<Rightarrow> string" where
  "str_join sep [] = []"
| "str_join sep [x] = x"
| "str_join sep (x # y # ys) = x @ sep @ str_join sep (y # ys)"

lemma str_contains_iff: "str_contains s sub \<longleftrightarrow> (\<exists>a b. s = a @ sub @ b)"
proof (induction s)
  case Nil
  then show ?case by auto
next
  case (Cons c cs)
  have "(\<exists>a b. c # cs = a @ sub @ b) \<longleftrightarrow>
      prefix sub (c # cs) \<or> (\<exists>a b. cs = a @ sub @ b)"
    by (auto simp: prefix_def Cons_eq_append_conv)
  with Cons.IH show ?case by simp
qed

lemma str_containsI: "str_contains (a @ sub @ b) sub"
  by (auto simp: str_contains_iff)

lemma str_contains_append_left: "str_contains b sub \<Longrightarrow> str_contains (a @ b) sub"
  by (metis append.assoc str_contains_iff)

text \<open>The verb \<open>%d\<close>: decimal digits.\<close>

definition digit_char :: "nat \<Rightarrow> char" where
  "digit_char d = (''0123456789'' ! (d mod 10))"

fun show_nat :: "nat \<Rightarrow> string" where
  "show_nat n = (if n < 10 then [digit_char n] else show_nat (n div 10) @ [digit_char (n mod 10)])"

declare show_nat.simps [simp del]

definition show_int :: "int \<Rightarrow> string" where
  "show_int i = (if i < 0 then ''-'' @ show_nat (nat (- i)) else show_nat (nat i))"

text \<open>The verb \<open>%q\<close> on printable ASCII: quotes and backslashes are escaped.\<close>

definition show_quoted :: "string \<Rightarrow> string" where
  "show_quoted s =
     CHR 0x22 # concat (map (\<lambda>c. if c = CHR 0x22 \<or> c = CHR 0x5C then [CHR 0x5C, c] else [c]) s)
       @ [CHR 0x22]"

section \<open>Fixed-width integers\<close>

text \<open>Two's complement results of Go's \<open>int64\<close> and \<open>int32\<close> arithmetic.\<close>

definition wrap64 :: "int \<Rightarrow> int" where
  "wrap64 x = (x + 2 ^ 63) mod 2 ^ 64 - 2 ^ 63"

definition wrap32 :: "int \<Rightarrow> int" where
  "wrap32 x = (x + 2 ^ 31) mod 2 ^ 32 - 2 ^ 31"

definition in64 :: "int \<Rightarrow> bool" where
  "in64 x \<longleftrightarrow> - (2 ^ 63) \<le> x \<and> x < 2 ^ 63"

definition in32 :: "int \<Rightarrow> bool" where
  "in32 x \<longleftrightarrow> - (2 ^ 31) \<le> x \<and> x < 2 ^ 31"

lemma wrap64_id: "in64 x \<Longrightarrow> wrap64 x = x"
  by (simp add: wrap64_def in64_def)

lemma wrap32_id: "in32 x \<Longrightarrow> wrap32 x = x"
  by (simp add: wrap32_def in32_def)

lemma in64_wrap64: "in64 (wrap64 x)"
proof -
  have "0 \<le> (x + 2 ^ 63) mod 2 ^ 64" "(x + 2 ^ 63) mod 2 ^ 64 < 2 ^ 64"
    by simp_all
  then show ?thesis by (simp add: wrap64_def in64_def)
qed

section \<open>Durations\<close>

text \<open>
  A \<open>time.Duration\<close> is a signed 64-bit count of nanoseconds. \<open>dur_add\<close> and
  \<open>dur_sub\<close> wrap as Go's operators do; \<open>time_sub\<close> is \<open>Time.Sub\<close>, which
  saturates. Instants are unbounded integers, also in nanoseconds.
\<close>

type_synonym duration = int
type_synonym instant = int

definition nanosecond :: duration where "nanosecond = 1"
definition millisecond :: duration where "millisecond = 1000000"
definition second :: duration where "second = 1000000000"
definition minute :: duration where "minute = 60 * second"
definition hour :: duration where "hour = 60 * minute"

lemmas dur_units = nanosecond_def millisecond_def second_def minute_def hour_def

definition dur_add :: "duration \<Rightarrow> duration \<Rightarrow> duration" where
  "dur_add a b = wrap64 (a + b)"

definition dur_sub :: "duration \<Rightarrow> duration \<Rightarrow> duration" where
  "dur_sub a b = wrap64 (a - b)"

definition time_sub :: "instant \<Rightarrow> instant \<Rightarrow> duration" where
  "time_sub t u = max (- (2 ^ 63)) (min (2 ^ 63 - 1) (t - u))"

lemma in64_time_sub: "in64 (time_sub t u)"
  by (simp add: time_sub_def in64_def)

lemma time_sub_nonneg: "u \<le> t \<Longrightarrow> 0 \<le> time_sub t u"
  by (simp add: time_sub_def)

lemma time_sub_ge_iff: "in64 d \<Longrightarrow> 0 < d \<Longrightarrow> d \<le> time_sub t u \<longleftrightarrow> u + d \<le> t"
  by (auto simp: time_sub_def in64_def)

text \<open>\<open>Duration.String\<close>: the largest units first, fractions without trailing zeros.\<close>

fun drop_trailing_zeros :: "string \<Rightarrow> string" where
  "drop_trailing_zeros s = rev (dropWhile (\<lambda>c. c = CHR ''0'') (rev s))"

definition show_fraction :: "nat \<Rightarrow> nat \<Rightarrow> string" where
  "show_fraction v prec =
     (let r = show_nat (v mod 10 ^ prec);
          ds = drop_trailing_zeros (replicate (prec - length r) (CHR ''0'') @ r)
      in if prec = 0 \<or> ds = [] then [] else CHR ''.'' # ds)"

definition show_fixed :: "nat \<Rightarrow> nat \<Rightarrow> string" where
  "show_fixed v prec = show_nat (v div 10 ^ prec) @ show_fraction v prec"

definition show_duration_nat :: "nat \<Rightarrow> string" where
  "show_duration_nat u =
     (if u = 0 then ''0s''
      else if u < 1000 then show_nat u @ ''ns''
      else if u < 1000000 then show_fixed u 3 @ [CHR 0xC2, CHR 0xB5] @ ''s''
      else if u < 1000000000 then show_fixed u 6 @ ''ms''
      else (let s = u div 1000000000; m = s div 60; h = m div 60;
                secs = show_nat (s mod 60) @ show_fraction u 9 @ ''s''
            in if m = 0 then secs
               else if h = 0 then show_nat (m mod 60) @ ''m'' @ secs
               else show_nat h @ ''h'' @ show_nat (m mod 60) @ ''m'' @ secs))"

definition show_duration :: "duration \<Rightarrow> string" where
  "show_duration d = (if d < 0 then ''-'' @ show_duration_nat (nat (- d)) else show_duration_nat (nat d))"

section \<open>Limits\<close>

text \<open>
  Timeouts and quotas of the program use 0 for ``no limit''. \<open>limit_of\<close> reads such
  a number; the order puts \<open>NoLimit\<close> on top, so that the tighter of two limits is
  their minimum.
\<close>

datatype limit = Limit int | NoLimit

instantiation limit :: linorder
begin

fun less_eq_limit :: "limit \<Rightarrow> limit \<Rightarrow> bool" where
  "less_eq_limit _ NoLimit = True"
| "less_eq_limit NoLimit (Limit _) = False"
| "less_eq_limit (Limit a) (Limit b) = (a \<le> b)"

definition less_limit :: "limit \<Rightarrow> limit \<Rightarrow> bool" where
  "less_limit x y = (x \<le> y \<and> \<not> y \<le> x)"

instance
proof
  fix x y z :: limit
  show "(x < y) = (x \<le> y \<and> \<not> y \<le> x)"
    by (simp add: less_limit_def)
  show "x \<le> x"
    by (cases x) simp_all
  show "x \<le> y \<Longrightarrow> y \<le> z \<Longrightarrow> x \<le> z"
    by (cases x; cases y; cases z) simp_all
  show "x \<le> y \<Longrightarrow> y \<le> x \<Longrightarrow> x = y"
    by (cases x; cases y) simp_all
  show "x \<le> y \<or> y \<le> x"
    by (cases x; cases y) auto
qed

end

definition limit_of :: "int \<Rightarrow> limit" where
  "limit_of n = (if n = 0 then NoLimit else Limit n)"

lemma limit_of_simps [simp]:
  "limit_of 0 = NoLimit"
  "n \<noteq> 0 \<Longrightarrow> limit_of n = Limit n"
  by (simp_all add: limit_of_def)

lemma min_limit_simps [simp]:
  "min NoLimit l = l"
  "min l NoLimit = l"
  "min (Limit a) (Limit b) = Limit (min a b)"
  by (cases l; simp add: min_def)+

section \<open>Programs with an environment\<close>

text \<open>
  A component that calls the API server, reads the clock or draws random bytes is a
  program over the state monad. Its state is the world, which only the environment
  looks into, and the log of the calls made so far with their answers. The
  environment \<open>E\<close> is a parameter: it answers a request and moves the world.
\<close>

type_synonym ('w, 'q, 'r) env = "'w \<Rightarrow> 'q \<Rightarrow> 'r \<times> 'w"
type_synonym ('w, 'q, 'r) io = "'w \<times> ('q \<times> 'r) list"
type_synonym ('w, 'q, 'r, 'a) prog = "(('w, 'q, 'r) io, 'a) state"

definition call :: "('w, 'q, 'r) env \<Rightarrow> 'q \<Rightarrow> ('w, 'q, 'r, 'r) prog" where
  "call E q = State (\<lambda>(w, l). case E w q of (r, w') \<Rightarrow> (r, (w', l @ [(q, r)])))"

definition ret :: "'a \<Rightarrow> ('s, 'a) state" where
  "ret a = State (Pair a)"

text \<open>\<open>wp m Q s\<close>: program \<open>m\<close> started in \<open>s\<close> ends with a result and a state
  that satisfy \<open>Q\<close>. The equations in \<open>wp\<close> execute a program step by step.\<close>

definition wp :: "('s, 'a) state \<Rightarrow> ('a \<Rightarrow> 's \<Rightarrow> bool) \<Rightarrow> 's \<Rightarrow> bool" where
  "wp m Q s = (case run_state m s of (a, s') \<Rightarrow> Q a s')"

lemma run_state_ret [simp]: "run_state (ret a) s = (a, s)"
  by (simp add: ret_def)

lemma run_state_call [simp]:
  "run_state (call E q) (w, l) = (fst (E w q), (snd (E w q), l @ [(q, fst (E w q))]))"
  by (simp add: call_def split_beta)

lemma wp_ret [wp]: "wp (ret a) Q = Q a"
  by (simp add: wp_def fun_eq_iff)

lemma wp_bind [wp]: "wp (State_Monad.bind m f) Q = wp m (\<lambda>a. wp (f a) Q)"
  by (simp add: wp_def split_beta fun_eq_iff)

lemma run_bind: "run_state (State_Monad.bind m f) s
    = run_state (f (fst (run_state m s))) (snd (run_state m s))"
  by (simp add: split_beta)

lemma wp_if [wp]: "wp (if b then m else n) Q s = (if b then wp m Q s else wp n Q s)"
  by simp

lemma wp_Let [wp]: "wp (let x = a in f x) Q s = (let x = a in wp (f x) Q s)"
  by (simp add: Let_def)

lemma wp_case_option [wp]:
  "wp (case x of None \<Rightarrow> m | Some y \<Rightarrow> f y) Q s =
     (case x of None \<Rightarrow> wp m Q s | Some y \<Rightarrow> wp (f y) Q s)"
  by (simp split: option.split)

lemma wp_case_sum [wp]:
  "wp (case x of Inl a \<Rightarrow> f a | Inr b \<Rightarrow> g b) Q s =
     (case x of Inl a \<Rightarrow> wp (f a) Q s | Inr b \<Rightarrow> wp (g b) Q s)"
  by (simp split: sum.split)

lemma wp_mono: "wp m P s \<Longrightarrow> (\<And>a s'. P a s' \<Longrightarrow> Q a s') \<Longrightarrow> wp m Q s"
  by (auto simp: wp_def split: prod.splits)

lemma wp_conj: "wp m P s \<Longrightarrow> wp m Q s \<Longrightarrow> wp m (\<lambda>a s'. P a s' \<and> Q a s') s"
  by (auto simp: wp_def split: prod.splits)

lemma wpI: "(\<And>a s'. run_state m s = (a, s') \<Longrightarrow> Q a s') \<Longrightarrow> wp m Q s"
  by (auto simp: wp_def split: prod.splits)

lemma wpD: "wp m Q s \<Longrightarrow> run_state m s = (a, s') \<Longrightarrow> Q a s'"
  by (simp add: wp_def)

text \<open>A call whose answer is arbitrary: what holds for every answer holds for the
  environment's.\<close>

lemma wp_callI:
  "(\<And>r w'. Q r (w', l @ [(q, r)])) \<Longrightarrow> wp (call E q) Q (w, l)"
  by (simp add: wp_def)

lemma wp_call:
  "wp (call E q) Q (w, l) = Q (fst (E w q)) (snd (E w q), l @ [(q, fst (E w q))])"
  by (simp add: wp_def)

section \<open>Traces\<close>

text \<open>
  \<open>traces m P\<close>: whatever world and log program \<open>m\<close> starts in, it appends to the log a
  trace \<open>t\<close> of calls with their answers such that its result and \<open>t\<close> satisfy \<open>P\<close>. The
  rules in \<open>tr\<close> run a program call by call with an arbitrary answer to each; so what
  they prove holds for every behaviour of the environment.
\<close>

named_theorems tr "introduction rules for the traces of a program"

definition traces :: "('w, 'q, 'r, 'a) prog \<Rightarrow> ('a \<Rightarrow> ('q \<times> 'r) list \<Rightarrow> bool) \<Rightarrow> bool" where
  "traces m P \<longleftrightarrow>
     (\<forall>w l. \<exists>t. snd (snd (run_state m (w, l))) = l @ t \<and> P (fst (run_state m (w, l))) t)"

lemma traces_ret [tr]: "P a [] \<Longrightarrow> traces (ret a) P"
  by (simp add: traces_def)

lemma traces_call: "(\<And>r. P r [(q, r)]) \<Longrightarrow> traces (call E q) P"
  by (simp add: traces_def)

lemma traces_bind:
  assumes "traces m P" "\<And>a t. P a t \<Longrightarrow> traces (f a) (\<lambda>b t'. Q b (t @ t'))"
  shows "traces (State_Monad.bind m f) Q"
  unfolding traces_def
proof (intro allI)
  fix w l
  obtain a w1 l1 where m: "run_state m (w, l) = (a, (w1, l1))"
    by (cases "run_state m (w, l)") auto
  then obtain t where t: "l1 = l @ t" "P a t"
    using assms(1) unfolding traces_def by (metis fst_conv snd_conv)
  then obtain t' where "snd (snd (run_state (f a) (w1, l1))) = l1 @ t'"
    "Q (fst (run_state (f a) (w1, l1))) (t @ t')"
    using assms(2) unfolding traces_def by blast
  then show "\<exists>t. snd (snd (run_state (State_Monad.bind m f) (w, l))) = l @ t
      \<and> Q (fst (run_state (State_Monad.bind m f) (w, l))) t"
    using m t(1) by (intro exI [of _ "t @ t'"]) (simp add: run_bind)
qed

lemma traces_mono: "traces m P \<Longrightarrow> (\<And>a t. P a t \<Longrightarrow> Q a t) \<Longrightarrow> traces m Q"
  unfolding traces_def by metis

lemma traces_conj: "traces m P \<Longrightarrow> traces m Q \<Longrightarrow> traces m (\<lambda>a t. P a t \<and> Q a t)"
  unfolding traces_def by (metis append_same_eq same_append_eq)

lemma tracesD:
  "traces m P \<Longrightarrow> run_state m (w, l) = (a, (w', l')) \<Longrightarrow> \<exists>t. l' = l @ t \<and> P a t"
  unfolding traces_def by (metis fst_conv snd_conv)

lemma traces_if [tr]:
  "(b \<Longrightarrow> traces m Q) \<Longrightarrow> (\<not> b \<Longrightarrow> traces n Q) \<Longrightarrow> traces (if b then m else n) Q"
  by simp

lemma traces_Let [tr]: "traces (f a) Q \<Longrightarrow> traces (let x = a in f x) Q"
  by simp

lemma traces_case_option [tr]:
  "(x = None \<Longrightarrow> traces m Q) \<Longrightarrow> (\<And>y. x = Some y \<Longrightarrow> traces (f y) Q)
     \<Longrightarrow> traces (case x of None \<Rightarrow> m | Some y \<Rightarrow> f y) Q"
  by (cases x) simp_all

lemma traces_case_sum [tr]:
  "(\<And>y. x = Inl y \<Longrightarrow> traces (f y) Q) \<Longrightarrow> (\<And>y. x = Inr y \<Longrightarrow> traces (g y) Q)
     \<Longrightarrow> traces (case x of Inl y \<Rightarrow> f y | Inr y \<Rightarrow> g y) Q"
  by (cases x) simp_all

lemma traces_case_prod [tr]:
  "(\<And>a b. x = (a, b) \<Longrightarrow> traces (f a b) Q) \<Longrightarrow> traces (case x of (a, b) \<Rightarrow> f a b) Q"
  by (cases x) simp

lemma traces_case_list [tr]:
  "(x = [] \<Longrightarrow> traces m Q) \<Longrightarrow> (\<And>y ys. x = y # ys \<Longrightarrow> traces (f y ys) Q)
     \<Longrightarrow> traces (case x of [] \<Rightarrow> m | y # ys \<Rightarrow> f y ys) Q"
  by (cases x) simp_all

text \<open>A loop over a list, the program run for each element in turn.\<close>

fun for_each :: "'x list \<Rightarrow> ('x \<Rightarrow> ('s, unit) state) \<Rightarrow> ('s, unit) state" where
  "for_each [] f = ret ()"
| "for_each (x # xs) f = do { f x; for_each xs f }"

lemma wp_for_each:
  assumes "\<And>x s. x \<in> set xs \<Longrightarrow> I s \<Longrightarrow> wp (f x) (\<lambda>_. I) s" and "I s"
  shows "wp (for_each xs f) (\<lambda>_. I) s"
  using assms
proof (induction xs arbitrary: s)
  case Nil
  then show ?case by (simp add: wp)
next
  case (Cons x xs)
  have "wp (f x) (\<lambda>_. I) s" using Cons.prems by simp
  then have "wp (f x) (\<lambda>_ s. wp (for_each xs f) (\<lambda>_. I) s) s"
    by (rule wp_mono) (use Cons in auto)
  then show ?case by (simp add: wp)
qed

end
