(* ===== verification/K8s_Types.thy ===== *)
theory K8s_Types
  imports Prelude
begin

text \<open>
  The Kubernetes values that the code builds, reads and copies. These types
  belong to the imported API packages; a record here has the fields that the
  source names, and one \<open>opaque\<close> text for whatever else a user may have put in
  and the code only carries along. Pointers are options, Go maps are partial maps
  (reading a nil map and an empty map give the same answers).
\<close>

type_synonym opaque = string
type_synonym labels = "string \<rightharpoonup> string"

text \<open>A resource quantity: its value in nano-units and its canonical text.\<close>

record quantity =
  q_value :: int
  q_text :: string

definition zero_quantity :: quantity where
  "zero_quantity = \<lparr>q_value = 0, q_text = ''0''\<rparr>"

definition quantity_is_zero :: "quantity \<Rightarrow> bool" where
  "quantity_is_zero q \<longleftrightarrow> q_value q = 0"

record resource_requirements =
  rr_limits :: "string \<rightharpoonup> quantity"
  rr_requests :: "string \<rightharpoonup> quantity"
  rr_rest :: opaque

text \<open>Environment variables: a literal value, a Secret key, or another source.\<close>

datatype env_source = SecretKeySource string string | OtherEnvSource opaque

record env_var =
  ev_name :: string
  ev_value :: string
  ev_from :: "env_source option"

record env_from =
  ef_prefix :: string
  ef_secret :: string

record volume_mount =
  vm_name :: string
  vm_path :: string
  vm_read_only :: bool

record security_context =
  sc_run_as_non_root :: "bool option"
  sc_run_as_user :: "int option"
  sc_run_as_group :: "int option"
  sc_read_only_root :: "bool option"
  sc_allow_escalation :: "bool option"
  sc_privileged :: "bool option"
  sc_cap_drop :: "string list option"
  sc_seccomp :: "string option"

definition empty_security_context :: security_context where
  "empty_security_context =
     \<lparr>sc_run_as_non_root = None, sc_run_as_user = None, sc_run_as_group = None,
      sc_read_only_root = None, sc_allow_escalation = None, sc_privileged = None,
      sc_cap_drop = None, sc_seccomp = None\<rparr>"

record container =
  c_name :: string
  c_image :: string
  c_command :: "string list"
  c_args :: "string list"
  c_stdin :: bool
  c_tty :: bool
  c_working_dir :: string
  c_env :: "env_var list"
  c_env_from :: "env_from list"
  c_mounts :: "volume_mount list"
  c_resources :: "resource_requirements option"
  c_security :: "security_context option"
  c_pull_policy :: string
  c_rest :: opaque

definition empty_container :: container where
  "empty_container =
     \<lparr>c_name = [], c_image = [], c_command = [], c_args = [], c_stdin = False, c_tty = False,
      c_working_dir = [], c_env = [], c_env_from = [], c_mounts = [], c_resources = None,
      c_security = None, c_pull_policy = [], c_rest = []\<rparr>"

datatype volume_source =
    PVCVolume string
  | EmptyDirVolume string "quantity option"
  | SecretVolume string
  | HostPathVolume string
  | OtherVolume opaque

record volume =
  v_name :: string
  v_source :: volume_source

record pod_spec =
  ps_restart_policy :: string
  ps_security :: "security_context option"
  ps_fs_group :: "int option"
  ps_containers :: "container list"
  ps_init_containers :: "container list"
  ps_volumes :: "volume list"
  ps_runtime_class :: "string option"
  ps_service_account :: string
  ps_pull_secrets :: "string list"
  ps_host_network :: bool
  ps_host_pid :: bool
  ps_host_ipc :: bool

datatype pod_phase = PodPending | PodRunning | PodSucceeded | PodFailed | PodPhaseOther string

text \<open>One container status: its terminated state (reason, message) and its waiting reason.\<close>

record container_status =
  cs_terminated :: "(string \<times> string) option"
  cs_waiting :: "string option"

record pod_status =
  pst_phase :: pod_phase
  pst_reason :: string
  pst_conditions :: "(string \<times> string) list"
  pst_containers :: "container_status list"
  pst_ip :: string

record pod =
  p_name :: string
  p_namespace :: string
  p_labels :: labels
  p_annotations :: labels
  p_owner :: "string option"
  p_version :: nat
  p_spec :: pod_spec
  p_status :: pod_status

record pvc =
  pvc_name :: string
  pvc_namespace :: string
  pvc_labels :: labels
  pvc_owner :: "string option"
  pvc_access_mode :: string
  pvc_class :: "string option"
  pvc_size :: quantity
  pvc_snapshot_source :: "string option"

text \<open>A label selector: \<open>MatchLabels\<close> as an association list plus its match expressions.\<close>

record label_selector =
  sel_labels :: "(string \<times> string) list"
  sel_rest :: opaque

text \<open>Network policies: a rule has peers (\<open>To\<close> or \<open>From\<close>) and ports; an empty list of
  either matches everything.\<close>

record policy_peer =
  peer_ip_block :: "string option"
  peer_namespaces :: "label_selector option"
  peer_pods :: "label_selector option"

record policy_rule =
  rule_peers :: "policy_peer list"
  rule_ports :: "(string \<times> int) list"

record network_policy =
  npol_name :: string
  npol_namespace :: string
  npol_labels :: labels
  npol_owner :: "string option"
  npol_selector :: label_selector
  npol_types :: "string list"
  npol_egress :: "policy_rule list"
  npol_ingress :: "policy_rule list"

record snapshot_status =
  sns_ready :: "bool option"
  sns_created :: "instant option"
  sns_size :: "quantity option"

record snapshot =
  snap_name :: string
  snap_namespace :: string
  snap_labels :: labels
  snap_pvc :: string
  snap_class :: "string option"
  snap_created :: "instant option"
  snap_deleting :: bool
  snap_status :: "snapshot_status option"

text \<open>Services and ingresses, for forwarded ports; a deployment, and the nodes of the cluster.\<close>

record service =
  svc_name :: string
  svc_namespace :: string
  svc_labels :: labels
  svc_owner :: "string option"
  svc_selector :: labels
  svc_ports :: "int list"
  svc_cluster_ip :: "string \<times> string list"
  svc_version :: string

record ingress =
  ing_name :: string
  ing_namespace :: string
  ing_labels :: labels
  ing_owner :: "string option"
  ing_host :: string
  ing_backend :: "string \<times> int"
  ing_class :: "string option"
  ing_version :: string

record deployment =
  dep_name :: string
  dep_namespace :: string
  dep_replicas :: "int option"
  dep_ready :: int
  dep_containers :: "container list"
  dep_rest :: opaque

record node =
  nd_name :: string
  nd_labels :: labels
  nd_conditions :: "(string \<times> string) list"

text \<open>A Kubernetes event about an object.\<close>

record k8s_event =
  ke_uid :: string
  ke_namespace :: string
  ke_version :: string
  ke_kind :: string
  ke_object :: string
  ke_object_namespace :: string
  ke_reason :: string
  ke_message :: string
  ke_type :: string
  ke_first :: "instant option"
  ke_last :: "instant option"
  ke_event_time :: "instant option"
  ke_count :: int
  ke_component :: string

text \<open>Errors of an API call, as \<open>k8s.io/apimachinery/pkg/api/errors\<close> classifies them.\<close>

datatype api_err = NotFound | AlreadyExists | Conflict | OtherErr string

fun err_text :: "api_err \<Rightarrow> string" where
  "err_text NotFound = ''not found''"
| "err_text AlreadyExists = ''already exists''"
| "err_text Conflict = ''conflict''"
| "err_text (OtherErr m) = m"

end
