(* ===== verification/Api_Types.thy ===== *)
theory Api_Types
  imports K8s_Types
begin

text \<open>
  The custom resources of \<open>api/v1alpha1\<close>: the Sandbox with its spec and status,
  the sandbox templates, and the structs inside them. String enumerations are
  datatypes with a constructor for any other text, because the API server stores
  strings and the code has a default branch for unknown ones.
\<close>

section \<open>Phases and modes\<close>

datatype sandbox_phase =
    PhaseUnset
  | SandboxPhaseCreating
  | SandboxPhaseRunning
  | SandboxPhaseStopped
  | SandboxPhaseError
  | SandboxPhaseDeleting
  | PhaseOther string

fun phase_text :: "sandbox_phase \<Rightarrow> string" where
  "phase_text PhaseUnset = ''''"
| "phase_text SandboxPhaseCreating = ''Creating''"
| "phase_text SandboxPhaseRunning = ''Running''"
| "phase_text SandboxPhaseStopped = ''Stopped''"
| "phase_text SandboxPhaseError = ''Error''"
| "phase_text SandboxPhaseDeleting = ''Deleting''"
| "phase_text (PhaseOther s) = s"

datatype sandbox_mode = ModeUnset | SandboxModeCode | SandboxModeAgent | ModeOther string

section \<open>Structs shared by sandboxes and templates\<close>

record local_object_reference =
  lor_name :: string

record template_reference =
  tr_name :: string
  tr_kind :: string
  tr_namespace :: string

record image_spec =
  img_repository :: string
  img_pull_policy :: string
  img_pull_secret :: string

record storage_spec =
  stor_size :: quantity
  stor_class :: string
  stor_mount_path :: string
  stor_snapshot_on_stop :: bool
  stor_shared :: bool

record network_port =
  np_protocol :: string
  np_port :: int

record service_reference =
  sr_name :: string
  sr_namespace :: string
  sr_port :: int

record network_rule =
  nr_cidr :: string
  nr_ports :: "network_port list"
  nr_service :: "service_reference option"

record network_spec =
  net_allow_internet :: bool
  net_egress :: "network_rule list"
  net_ingress :: "network_rule list"
  net_domains :: "string list"
  net_allow_peers :: bool
  net_peer_selector :: "label_selector option"

record security_spec =
  sec_privileged :: bool

record credential_ref =
  cr_secret :: string
  cr_mount_as :: string
  cr_mount_path :: string
  cr_env_prefix :: string

record user_identity =
  uid_sub :: string
  uid_email :: string
  uid_display :: string

record share_permission =
  shp_identity :: string
  shp_level :: string

record share_link =
  shl_id :: string
  shl_token_hash :: string
  shl_token :: string
  shl_level :: string
  shl_expires :: "instant option"
  shl_max_uses :: int
  shl_used :: int

record sharing_spec =
  sh_users :: "share_permission list"
  sh_groups :: "share_permission list"
  sh_links :: "share_link list"

record forwarded_port =
  fp_port :: int
  fp_preview_url :: string
  fp_protocol :: string

section \<open>Templates\<close>

record agent_spec =
  ag_entrypoint :: "string list"
  ag_install :: "string list"
  ag_working_dir :: string
  ag_env :: "env_var list"
  ag_max_concurrent :: "int option"
  ag_default_timeout :: "duration option"

record tool_spec =
  tool_name :: string
  tool_version :: string
  tool_install :: string
  tool_verify :: string

text \<open>A key of a ConfigMap or Secret, by object name and key.\<close>

type_synonym key_selector = "string \<times> string"

record file_or_ref =
  for_content :: string
  for_config_map :: "key_selector option"
  for_secret :: "key_selector option"
  for_path :: string

record skill_spec =
  skill_name :: string
  skill_content :: "file_or_ref option"

record hooks_spec =
  hook_on_start :: string
  hook_on_stop :: string
  hook_on_idle :: string
  hook_on_resume :: string

record constraints_spec =
  con_max_file_size :: "quantity option"
  con_max_command_timeout :: "duration option"
  con_restricted_commands :: "string list"
  con_restricted_paths :: "string list"
  con_allowed_dests :: "string list"
  con_denied_dests :: "string list"

record harness_spec =
  har_command :: "string list"
  har_args :: "string list"
  har_working_dir :: string
  har_shell :: string
  har_tools :: "tool_spec list"
  har_system_prompt :: "file_or_ref option"
  har_skills :: "skill_spec list"
  har_hooks :: "hooks_spec option"
  har_constraints :: "constraints_spec option"
  har_agent :: "agent_spec option"
  har_use_http_exec :: "bool option"

record file_spec =
  file_path :: string
  file_content :: string
  file_config_map :: "key_selector option"
  file_secret :: "key_selector option"
  file_mode :: "int option"

record sandbox_template_spec =
  tpl_inherits :: "template_reference option"
  tpl_mode :: sandbox_mode
  tpl_description :: string
  tpl_image :: "image_spec option"
  tpl_resources :: "resource_requirements option"
  tpl_storage :: "storage_spec option"
  tpl_network :: "network_spec option"
  tpl_env :: "env_var list"
  tpl_timeout :: "duration option"
  tpl_idle_timeout :: "duration option"
  tpl_runtime_class :: "string option"
  tpl_harness :: "harness_spec option"
  tpl_init_scripts :: "string list"
  tpl_files :: "file_spec list"
  tpl_credentials :: "credential_ref list"
  tpl_sidecars :: "container list"
  tpl_init_containers :: "container list"
  tpl_security :: "security_spec option"
  tpl_service_account :: string

section \<open>The Sandbox\<close>

record sandbox_spec =
  spec_mode :: sandbox_mode
  spec_template :: "template_reference option"
  spec_image :: "image_spec option"
  spec_resources :: "resource_requirements option"
  spec_storage :: "storage_spec option"
  spec_network :: "network_spec option"
  spec_env :: "env_var list"
  spec_timeout :: "duration option"
  spec_idle_timeout :: "duration option"
  spec_runtime_class :: "string option"
  spec_service_account :: string
  spec_auto_resume :: bool
  spec_security :: "security_spec option"
  spec_credentials :: "credential_ref list"
  spec_sidecars :: "container list"
  spec_init_containers :: "container list"
  spec_created_by :: "user_identity option"
  spec_sharing :: "sharing_spec option"
  spec_clone_from :: string

record agent_configure_status =
  acs_last :: "instant option"
  acs_install_hash :: string
  acs_entrypoint :: "string list"
  acs_install_exit :: int
  acs_log_ref :: "local_object_reference option"
  acs_max_concurrent :: int
  acs_default_timeout :: int

record sandbox_status =
  st_phase :: sandbox_phase
  st_pod :: string
  st_pvc :: string
  st_template :: string
  st_template_version :: string
  st_started :: "instant option"
  st_last_activity :: "instant option"
  st_restarts :: int
  st_message :: string
  st_conditions :: "opaque list"
  st_ports :: "forwarded_port list"
  st_cloned_from :: string
  st_agent_configure :: "agent_configure_status option"
  st_agent_spec :: "agent_spec option"

text \<open>The object metadata fields that the code uses, then spec and status.\<close>

record sandbox =
  sb_name :: string
  sb_namespace :: string
  sb_uid :: string
  sb_labels :: labels
  sb_annotations :: labels
  sb_finalizers :: "string list"
  sb_created :: instant
  sb_deletion :: "instant option"
  sb_spec :: sandbox_spec
  sb_status :: sandbox_status

section \<open>Zero values\<close>

definition empty_template_spec :: sandbox_template_spec where
  "empty_template_spec =
     \<lparr>tpl_inherits = None, tpl_mode = ModeUnset, tpl_description = [], tpl_image = None,
      tpl_resources = None, tpl_storage = None, tpl_network = None, tpl_env = [],
      tpl_timeout = None, tpl_idle_timeout = None, tpl_runtime_class = None, tpl_harness = None,
      tpl_init_scripts = [], tpl_files = [], tpl_credentials = [], tpl_sidecars = [],
      tpl_init_containers = [], tpl_security = None, tpl_service_account = []\<rparr>"

definition empty_spec :: sandbox_spec where
  "empty_spec =
     \<lparr>spec_mode = ModeUnset, spec_template = None, spec_image = None, spec_resources = None,
      spec_storage = None, spec_network = None, spec_env = [], spec_timeout = None,
      spec_idle_timeout = None, spec_runtime_class = None, spec_service_account = [],
      spec_auto_resume = False, spec_security = None, spec_credentials = [],
      spec_sidecars = [], spec_init_containers = [], spec_created_by = None,
      spec_sharing = None, spec_clone_from = []\<rparr>"

definition empty_status :: sandbox_status where
  "empty_status =
     \<lparr>st_phase = PhaseUnset, st_pod = [], st_pvc = [], st_template = [],
      st_template_version = [], st_started = None, st_last_activity = None, st_restarts = 0,
      st_message = [], st_conditions = [], st_ports = [], st_cloned_from = [],
      st_agent_configure = None, st_agent_spec = None\<rparr>"

definition new_sandbox :: "string \<Rightarrow> string \<Rightarrow> sandbox_spec \<Rightarrow> sandbox" where
  "new_sandbox ns n sp =
     \<lparr>sb_name = n, sb_namespace = ns, sb_uid = [], sb_labels = Map.empty,
      sb_annotations = Map.empty, sb_finalizers = [], sb_created = 0, sb_deletion = None,
      sb_spec = sp, sb_status = empty_status\<rparr>"

abbreviation sb_phase :: "sandbox \<Rightarrow> sandbox_phase" where
  "sb_phase sb \<equiv> st_phase (sb_status sb)"

end
