(* ===== verification/Lifecycle.thy ===== *)
theory Lifecycle
  imports Api_Types
begin

text \<open>
  The sandbox life cycle rules that need no API server: the action table
  (\<open>pkg/controller/state_machine.go\<close>), the transition table, the restart backoff
  and the failure classification of \<open>pkg/controller/lifecycle.go\<close>, and the timeout
  arithmetic of \<open>pkg/controller/timeout.go\<close>. Functions that read the clock take
  the reading as an argument.
\<close>

section \<open>Actions\<close>

datatype action = ActionStop | ActionResume | ActionDelete | ActionOther string

fun validTransitions :: "sandbox_phase \<Rightarrow> action list option" where
  "validTransitions SandboxPhaseCreating = Some []"
| "validTransitions SandboxPhaseRunning = Some [ActionStop, ActionDelete]"
| "validTransitions SandboxPhaseStopped = Some [ActionResume, ActionDelete]"
| "validTransitions SandboxPhaseError = Some [ActionResume, ActionStop, ActionDelete]"
| "validTransitions _ = None"

datatype action_error =
    UnknownPhase sandbox_phase
  | InvalidTransition sandbox_phase action "action list"

definition ValidateAction :: "sandbox_phase \<Rightarrow> action \<Rightarrow> action_error + unit" where
  "ValidateAction phase a =
     (case validTransitions phase of
        None \<Rightarrow> Inl (UnknownPhase phase)
      | Some allowed \<Rightarrow>
          if a \<in> set allowed then Inr () else Inl (InvalidTransition phase a allowed))"

fun IsInvalidTransition :: "action_error \<Rightarrow> bool" where
  "IsInvalidTransition (InvalidTransition _ _ _) = True"
| "IsInvalidTransition (UnknownPhase _) = False"

definition CanTransition :: "sandbox_phase \<Rightarrow> action \<Rightarrow> bool" where
  "CanTransition phase a \<longleftrightarrow> ValidateAction phase a = Inr ()"

text \<open>The second table, over event names, of \<open>lifecycle.go\<close>.\<close>

fun transition_table :: "sandbox_phase \<Rightarrow> string list option" where
  "transition_table SandboxPhaseCreating = Some [''running'', ''error'']"
| "transition_table SandboxPhaseRunning = Some [''stop'', ''error'', ''delete'']"
| "transition_table SandboxPhaseStopped = Some [''resume'', ''delete'']"
| "transition_table SandboxPhaseError = Some [''resume'', ''stop'', ''delete'']"
| "transition_table _ = None"

definition ValidateStateTransition :: "sandbox_phase \<Rightarrow> string \<Rightarrow> string + unit" where
  "ValidateStateTransition currentPhase a =
     (case transition_table currentPhase of
        None \<Rightarrow> Inl (''unknown phase: '' @ phase_text currentPhase)
      | Some allowed \<Rightarrow>
          if a \<in> set allowed then Inr ()
          else Inl (''invalid transition: cannot '' @ a @ '' sandbox in phase ''
                 @ phase_text currentPhase @ '' (allowed: ['' @ str_join '' '' allowed @ ''])''))"

fun action_text :: "action \<Rightarrow> string" where
  "action_text ActionStop = ''stop''"
| "action_text ActionResume = ''resume''"
| "action_text ActionDelete = ''delete''"
| "action_text (ActionOther s) = s"

section \<open>Restart backoff\<close>

text \<open>\<open>time.Duration(10<<uint(restartCount)) * time.Second\<close> in 64-bit arithmetic; a
  negative count becomes a huge shift, which yields 0.\<close>

definition calculateBackoffDelay :: "int \<Rightarrow> duration" where
  "calculateBackoffDelay restartCount =
     (let shifted = (if restartCount < 0 then 0 else wrap64 (10 * 2 ^ nat restartCount));
          delay = wrap64 (shifted * second);
          maxDelay = 160 * second
      in if delay > maxDelay then maxDelay else delay)"

section \<open>Pod status\<close>

definition isPodReady :: "pod \<Rightarrow> bool" where
  "isPodReady p \<longleftrightarrow>
     pst_phase (p_status p) = PodRunning
       \<and> (\<exists>c \<in> set (pst_conditions (p_status p)). c = (''Ready'', ''True''))"

text \<open>The loop of \<open>isInfrastructureFailure\<close>: \<open>Some b\<close> when a container status
  decides.\<close>

fun infra_loop :: "container_status list \<Rightarrow> bool option" where
  "infra_loop [] = None"
| "infra_loop (cs # rest) =
     (let decided =
        (case cs_terminated cs of
           Some (reason, _) \<Rightarrow>
             if reason = ''OOMKilled'' \<or> reason = ''Evicted'' then Some True
             else if reason = ''Completed'' then Some False
             else if reason = ''Error'' then Some False
             else None
         | None \<Rightarrow> None)
      in case decided of
           Some b \<Rightarrow> Some b
         | None \<Rightarrow> if cs_waiting cs = Some ''CrashLoopBackOff'' then Some True else infra_loop rest)"

definition isInfrastructureFailure :: "pod option \<Rightarrow> bool" where
  "isInfrastructureFailure po =
     (case po of
        None \<Rightarrow> True
      | Some p \<Rightarrow>
          (case infra_loop (pst_containers (p_status p)) of
             Some b \<Rightarrow> b
           | None \<Rightarrow>
               if pst_reason (p_status p) \<in> {''Evicted'', ''NodeLost'', ''UnexpectedAdmissionError''}
               then True else True))"

fun reason_loop :: "container_status list \<Rightarrow> string option" where
  "reason_loop [] = None"
| "reason_loop (cs # rest) =
     (case cs_terminated cs of
        Some (reason, msg) \<Rightarrow> Some (reason @ '': '' @ msg)
      | None \<Rightarrow>
          if cs_waiting cs = Some ''CrashLoopBackOff'' then Some ''CrashLoopBackOff''
          else reason_loop rest)"

definition getPodFailureReason :: "pod \<Rightarrow> string" where
  "getPodFailureReason p =
     (case reason_loop (pst_containers (p_status p)) of
        Some r \<Rightarrow> r
      | None \<Rightarrow> if pst_reason (p_status p) \<noteq> [] then pst_reason (p_status p) else ''Unknown failure'')"

section \<open>Timeouts\<close>

definition DefaultRequeueDelay :: duration where
  "DefaultRequeueDelay = 30 * second"

definition DefaultGracePeriod :: duration where
  "DefaultGracePeriod = 5 * minute"

record timeout_config =
  tc_idle :: duration
  tc_max_runtime :: duration
  tc_grace :: duration

definition durationFromSpec :: "duration option \<Rightarrow> duration" where
  "durationFromSpec d = (case d of None \<Rightarrow> 0 | Some x \<Rightarrow> x)"

definition resolveEffectiveTimeout :: "duration \<Rightarrow> duration \<Rightarrow> bool \<Rightarrow> duration" where
  "resolveEffectiveTimeout sandboxValue governanceMax allowsInfinite =
     (if sandboxValue = 0 then
        (if allowsInfinite \<or> governanceMax = 0 then 0 else governanceMax)
      else if governanceMax = 0 then sandboxValue
      else if sandboxValue < governanceMax then sandboxValue
      else governanceMax)"

definition ResolveTimeouts :: "sandbox \<Rightarrow> duration \<Rightarrow> duration \<Rightarrow> bool \<Rightarrow> timeout_config" where
  "ResolveTimeouts sb governanceMaxTimeout governanceMaxIdle allowsInfinite =
     \<lparr>tc_idle = resolveEffectiveTimeout (durationFromSpec (spec_idle_timeout (sb_spec sb)))
                  governanceMaxIdle allowsInfinite,
      tc_max_runtime = resolveEffectiveTimeout (durationFromSpec (spec_timeout (sb_spec sb)))
                  governanceMaxTimeout allowsInfinite,
      tc_grace = DefaultGracePeriod\<rparr>"

definition IsIdle :: "instant \<Rightarrow> instant option \<Rightarrow> duration \<Rightarrow> bool" where
  "IsIdle now lastActivity timeout =
     (if timeout = 0 then False
      else case lastActivity of None \<Rightarrow> False | Some t \<Rightarrow> time_sub now t \<ge> timeout)"

definition IsExpired :: "instant \<Rightarrow> instant option \<Rightarrow> duration \<Rightarrow> bool" where
  "IsExpired now startedAt timeout =
     (if timeout = 0 then False
      else case startedAt of None \<Rightarrow> False | Some t \<Rightarrow> time_sub now t \<ge> timeout)"

definition TimeUntilIdle :: "instant \<Rightarrow> instant option \<Rightarrow> duration \<Rightarrow> duration" where
  "TimeUntilIdle now lastActivity timeout =
     (if timeout = 0 then 0
      else case lastActivity of
             None \<Rightarrow> 0
           | Some t \<Rightarrow> (let remaining = dur_sub timeout (time_sub now t)
                       in if remaining < 0 then 0 else remaining))"

definition TimeUntilExpiry :: "instant \<Rightarrow> instant option \<Rightarrow> duration \<Rightarrow> duration" where
  "TimeUntilExpiry now startedAt timeout =
     (if timeout = 0 then 0
      else case startedAt of
             None \<Rightarrow> 0
           | Some t \<Rightarrow> (let remaining = dur_sub timeout (time_sub now t)
                       in if remaining < 0 then 0 else remaining))"

text \<open>The two \<open>time.Since\<close> calls read the clock one after the other: \<open>now1\<close>, \<open>now2\<close>.\<close>

definition NextRequeueDelay ::
  "instant \<Rightarrow> instant \<Rightarrow> timeout_config \<Rightarrow> instant option \<Rightarrow> instant option \<Rightarrow> duration" where
  "NextRequeueDelay now1 now2 config lastActivity startedAt =
     (let minDelay = DefaultRequeueDelay;
          minDelay =
            (if tc_idle config > 0 then
               (let idleRemaining = TimeUntilIdle now1 lastActivity (tc_idle config)
                in if idleRemaining > 0 \<and> idleRemaining < minDelay then idleRemaining else minDelay)
             else minDelay);
          minDelay =
            (if tc_max_runtime config > 0 then
               (let runtimeRemaining = TimeUntilExpiry now2 startedAt (tc_max_runtime config)
                in if runtimeRemaining > 0 \<and> runtimeRemaining < minDelay
                   then runtimeRemaining else minDelay)
             else minDelay)
      in dur_add minDelay second)"

section \<open>Lemmas\<close>

lemma CanTransition_iff:
  "CanTransition p a \<longleftrightarrow> (\<exists>allowed. validTransitions p = Some allowed \<and> a \<in> set allowed)"
  by (auto simp: CanTransition_def ValidateAction_def split: option.splits)

lemma ValidateStateTransition_iff:
  "ValidateStateTransition p s = Inr () \<longleftrightarrow>
     (\<exists>allowed. transition_table p = Some allowed \<and> s \<in> set allowed)"
  by (auto simp: ValidateStateTransition_def split: option.splits)

lemma wrap64_small: "0 \<le> x \<Longrightarrow> x < 2 ^ 63 \<Longrightarrow> wrap64 x = x"
  by (rule wrap64_id) (simp add: in64_def)

lemma pow2_le_29:
  assumes "0 \<le> k" "k \<le> 29"
  shows "(2::int) ^ nat k \<le> 2 ^ 29"
  using assms by (intro power_increasing) auto

lemma calculateBackoffDelay_eq:
  assumes "0 \<le> k" "k \<le> 29"
  shows "calculateBackoffDelay k = min (10 * 2 ^ nat k) 160 * second"
proof -
  have p: "(2::int) ^ nat k \<le> 2 ^ 29" "(0::int) < 2 ^ nat k"
    using pow2_le_29 [OF assms] by simp_all
  have "wrap64 (10 * 2 ^ nat k) = 10 * 2 ^ nat k"
    by (rule wrap64_small) (use p in simp_all)
  moreover have "wrap64 (10 * 2 ^ nat k * second) = 10 * 2 ^ nat k * second"
    by (rule wrap64_small) (use p in \<open>simp_all add: second_def\<close>)
  ultimately show ?thesis
    using assms by (simp add: calculateBackoffDelay_def second_def min_def)
qed

lemma backoff_positive: "0 \<le> k \<Longrightarrow> k \<le> 29 \<Longrightarrow> 0 < calculateBackoffDelay k"
  by (simp add: calculateBackoffDelay_eq second_def)

lemma infra_loop_True_or_None:
  "isInfrastructureFailure (Some p) \<longleftrightarrow> infra_loop (pst_containers (p_status p)) \<noteq> Some False"
  by (auto simp: isInfrastructureFailure_def split: option.splits)

text \<open>A remaining time is exact when the event lies in the past of the clock.\<close>

lemma dur_sub_past:
  assumes "t \<le> now" "0 < d" "in64 d"
  shows "dur_sub d (time_sub now t) = d - time_sub now t"
proof -
  have "0 \<le> time_sub now t" "in64 (time_sub now t)"
    using assms(1) by (simp_all add: time_sub_nonneg in64_time_sub)
  with assms(2,3) show ?thesis
    unfolding dur_sub_def by (intro wrap64_id) (auto simp: in64_def)
qed

lemma TimeUntilIdle_eq:
  assumes "t \<le> now" "0 < d" "in64 d"
  shows "TimeUntilIdle now (Some t) d = max 0 (d - time_sub now t)"
  using assms dur_sub_past [OF assms] by (simp add: TimeUntilIdle_def Let_def max_def)

lemma TimeUntilExpiry_eq_Idle: "TimeUntilExpiry = TimeUntilIdle"
  by (simp add: TimeUntilExpiry_def TimeUntilIdle_def fun_eq_iff)

lemma IsExpired_eq_IsIdle: "IsExpired = IsIdle"
  by (simp add: IsExpired_def IsIdle_def fun_eq_iff)

lemma idle_iff_no_time_left:
  assumes "t \<le> now" "0 < d" "in64 d"
  shows "IsIdle now (Some t) d \<longleftrightarrow> TimeUntilIdle now (Some t) d = 0"
  using assms by (auto simp: IsIdle_def TimeUntilIdle_eq)

text \<open>Folding one pending timer into the delay.\<close>

lemma next_delay_small:
  assumes "0 < m" "m \<le> DefaultRequeueDelay"
  shows "dur_add m second = m + second"
  using assms unfolding dur_add_def
  by (intro wrap64_id) (simp add: in64_def DefaultRequeueDelay_def second_def)

lemma NextRequeueDelay_eq:
  "NextRequeueDelay now1 now2 c la sa =
     (let a = TimeUntilIdle now1 la (tc_idle c); b = TimeUntilExpiry now2 sa (tc_max_runtime c);
          m1 = (if 0 < tc_idle c \<and> 0 < a then min a DefaultRequeueDelay else DefaultRequeueDelay);
          m2 = (if 0 < tc_max_runtime c \<and> 0 < b then min b m1 else m1)
      in m2 + second)"
proof -
  have pos: "0 < DefaultRequeueDelay" by (simp add: DefaultRequeueDelay_def second_def)
  show ?thesis
    unfolding NextRequeueDelay_def Let_def
    by (subst next_delay_small) (use pos in \<open>auto simp: min_def\<close>)
qed

text \<open>A container status that decides the classification, and how.\<close>

definition container_verdict :: "container_status \<Rightarrow> bool option" where
  "container_verdict cs =
     (case cs_terminated cs of
        Some (reason, _) \<Rightarrow>
          if reason \<in> {''OOMKilled'', ''Evicted''} then Some True
          else if reason \<in> {''Completed'', ''Error''} then Some False
          else if cs_waiting cs = Some ''CrashLoopBackOff'' then Some True else None
      | None \<Rightarrow> if cs_waiting cs = Some ''CrashLoopBackOff'' then Some True else None)"

lemma infra_loop_verdict:
  "infra_loop (cs # rest) = (case container_verdict cs of Some b \<Rightarrow> Some b | None \<Rightarrow> infra_loop rest)"
  by (auto simp: container_verdict_def Let_def split: option.splits)

lemma infra_loop_False_iff:
  "infra_loop css = Some False \<longleftrightarrow>
     (\<exists>xs cs ys. css = xs @ cs # ys \<and> container_verdict cs = Some False
                  \<and> (\<forall>x \<in> set xs. container_verdict x = None))"
proof (induction css)
  case Nil
  then show ?case by simp
next
  case (Cons c css)
  show ?case
  proof (cases "container_verdict c")
    case None
    have "(\<exists>xs cs ys. c # css = xs @ cs # ys \<and> container_verdict cs = Some False
              \<and> (\<forall>x \<in> set xs. container_verdict x = None))
        \<longleftrightarrow> (\<exists>xs cs ys. css = xs @ cs # ys \<and> container_verdict cs = Some False
              \<and> (\<forall>x \<in> set xs. container_verdict x = None))" (is "?l \<longleftrightarrow> ?r")
    proof
      assume ?l
      then obtain xs cs ys where "c # css = xs @ cs # ys" "container_verdict cs = Some False"
        "\<forall>x \<in> set xs. container_verdict x = None" by blast
      with None show ?r by (cases xs) auto
    next
      assume ?r
      then obtain xs cs ys where "css = xs @ cs # ys" "container_verdict cs = Some False"
        "\<forall>x \<in> set xs. container_verdict x = None" by blast
      with None show ?l by (intro exI [of _ "c # xs"] exI [of _ cs] exI [of _ ys]) simp
    qed
    with Cons.IH None show ?thesis unfolding infra_loop_verdict by simp
  next
    case (Some b)
    have "(\<exists>xs cs ys. c # css = xs @ cs # ys \<and> container_verdict cs = Some False
              \<and> (\<forall>x \<in> set xs. container_verdict x = None)) \<longleftrightarrow> \<not> b" (is "?l \<longleftrightarrow> _")
    proof
      assume ?l
      then obtain xs cs ys where "c # css = xs @ cs # ys" "container_verdict cs = Some False"
        "\<forall>x \<in> set xs. container_verdict x = None" by blast
      with Some show "\<not> b" by (cases xs) auto
    next
      assume "\<not> b"
      with Some show ?l by (intro exI [of _ "[]"] exI [of _ c] exI [of _ css]) simp
    qed
    with Some show ?thesis unfolding infra_loop_verdict by simp
  qed
qed

lemma TimeUntilIdle_exact:
  assumes "t \<le> now" "0 < d" "in64 d"
  shows "TimeUntilIdle now (Some t) d = max 0 (t + d - now)"
  using assms unfolding TimeUntilIdle_eq [OF assms] by (auto simp: time_sub_def in64_def max_def min_def)

lemma IsIdle_iff:
  "in64 d \<Longrightarrow> 0 < d \<Longrightarrow> IsIdle now (Some t) d \<longleftrightarrow> t + d \<le> now"
  by (simp add: IsIdle_def time_sub_ge_iff)

lemma requeue_delay_cases:
  assumes "la \<le> now1" "sa \<le> now2" "in64 (tc_idle c)" "in64 (tc_max_runtime c)"
  shows "NextRequeueDelay now1 now2 c (Some la) (Some sa) =
     (let a = la + tc_idle c - now1; b = sa + tc_max_runtime c - now2;
          m1 = (if 0 < tc_idle c \<and> 0 < a then min a DefaultRequeueDelay else DefaultRequeueDelay);
          m2 = (if 0 < tc_max_runtime c \<and> 0 < b then min b m1 else m1)
      in m2 + second)"
  using assms
  by (auto simp: NextRequeueDelay_eq Let_def TimeUntilExpiry_eq_Idle TimeUntilIdle_exact)

section \<open>Properties\<close>

text \<open>Of a sandbox's own timeout and the governance maximum the tighter one applies,
  where 0 means no limit; only a sandbox that asks for no limit, under a policy that allows
  it, escapes the maximum.\<close>

theorem effective_timeout_is_tighter_limit:
  "limit_of (tc_idle (ResolveTimeouts sb maxTimeout maxIdle allowsInfinite)) =
     (let own = durationFromSpec (spec_idle_timeout (sb_spec sb))
      in if own = 0 \<and> allowsInfinite then NoLimit else min (limit_of own) (limit_of maxIdle))
   \<and> limit_of (tc_max_runtime (ResolveTimeouts sb maxTimeout maxIdle allowsInfinite)) =
     (let own = durationFromSpec (spec_timeout (sb_spec sb))
      in if own = 0 \<and> allowsInfinite then NoLimit else min (limit_of own) (limit_of maxTimeout))"
  by (simp add: ResolveTimeouts_def resolveEffectiveTimeout_def limit_of_def min_def Let_def)

text \<open>The requeue delay is more than one second and at most 31. A timer that still runs,
  counted from an instant in the past, is never overslept by more than a second; and a delay
  below 31 seconds means that at its end the sandbox is idle or expired.\<close>

theorem requeue_catches_timeouts:
  assumes "la \<le> now1" "sa \<le> now2" "in64 (tc_idle c)" "in64 (tc_max_runtime c)"
  shows "second < NextRequeueDelay now1 now2 c (Some la) (Some sa)
    \<and> NextRequeueDelay now1 now2 c (Some la) (Some sa) \<le> 31 * second
    \<and> (now1 < la + tc_idle c \<longrightarrow> 0 < tc_idle c \<longrightarrow>
         now1 + NextRequeueDelay now1 now2 c (Some la) (Some sa) \<le> la + tc_idle c + second)
    \<and> (now2 < sa + tc_max_runtime c \<longrightarrow> 0 < tc_max_runtime c \<longrightarrow>
         now2 + NextRequeueDelay now1 now2 c (Some la) (Some sa) \<le> sa + tc_max_runtime c + second)
    \<and> (NextRequeueDelay now1 now2 c (Some la) (Some sa) < 31 * second \<longrightarrow>
         IsIdle (now1 + NextRequeueDelay now1 now2 c (Some la) (Some sa)) (Some la) (tc_idle c)
         \<or> IsExpired (now2 + NextRequeueDelay now1 now2 c (Some la) (Some sa)) (Some sa)
             (tc_max_runtime c))"
  using assms
  by (auto simp: requeue_delay_cases IsExpired_eq_IsIdle IsIdle_iff second_def DefaultRequeueDelay_def)

lemma requeue_catches_timeouts_witness:
  "second < NextRequeueDelay (100 * second) (100 * second)
      \<lparr>tc_idle = 20 * second, tc_max_runtime = hour, tc_grace = 0\<rparr> (Some (90 * second)) (Some 0)"
  by (rule requeue_catches_timeouts [THEN conjunct1]) (simp_all add: dur_units in64_def)

text \<open>The backoff before restart attempt k is 10 seconds doubled k times, at most 160
  seconds, for every count up to 29; the 64-bit product stays in range there.\<close>

theorem backoff_doubles_up_to_160s:
  assumes "0 \<le> k" "k \<le> 29"
  shows "calculateBackoffDelay k = min (10 * 2 ^ nat k) 160 * second
    \<and> 0 < calculateBackoffDelay k
    \<and> (k < 29 \<longrightarrow> calculateBackoffDelay k \<le> calculateBackoffDelay (k + 1))"
proof -
  have "(2::int) ^ nat (k + 1) = 2 * 2 ^ nat k"
    using assms by (simp add: nat_add_distrib)
  moreover have "(0::int) < 2 ^ nat k" by simp
  ultimately show ?thesis
    using assms by (auto simp: calculateBackoffDelay_eq backoff_positive second_def min_def)
qed

lemma backoff_doubles_up_to_160s_witness:
  "calculateBackoffDelay 3 = 80 * second"
  using backoff_doubles_up_to_160s [of 3] by (simp add: second_def)

text \<open>Beyond 29 the product wraps: the next backoff is negative, so no wait at all.\<close>

lemma backoff_wraps: "calculateBackoffDelay 30 < 0"
  by (simp add: calculateBackoffDelay_def wrap64_def second_def)

text \<open>The two tables of allowed transitions agree: an action is allowed in a phase by one
  exactly when it is stop, resume or delete and the other allows the event of that name.\<close>

theorem action_tables_agree:
  "CanTransition p a \<longleftrightarrow>
     a \<in> {ActionStop, ActionResume, ActionDelete} \<and> ValidateStateTransition p (action_text a) = Inr ()"
  by (cases p; cases a) (auto simp: CanTransition_iff ValidateStateTransition_iff)

text \<open>A failed pod counts as an application error, which is not restarted, exactly when the
  first container whose status decides anything exited with Completed or Error; a pod that is
  gone and every other failure count as the infrastructure's, whatever reason the pod gives.\<close>

theorem application_error_iff:
  "isInfrastructureFailure None
   \<and> (\<not> isInfrastructureFailure (Some p) \<longleftrightarrow>
       (\<exists>xs cs ys. pst_containers (p_status p) = xs @ cs # ys \<and> container_verdict cs = Some False
                    \<and> (\<forall>x \<in> set xs. container_verdict x = None)))"
  unfolding infra_loop_True_or_None not_not infra_loop_False_iff
  by (simp add: isInfrastructureFailure_def)

end
