(* ===== verification/Documents.thy ===== *)
theory Documents
  imports Api_Types
begin

text \<open>
  The documents that the program keeps in ConfigMaps: the governance policies
  (\<open>pkg/governance/policy.go\<close>) and the warm pool configuration
  (\<open>pkg/controller/warmpool/pool.go\<close>); and the records of API keys, which it keeps in
  Secrets (\<open>pkg/router/auth/apikey.go\<close>). They are JSON texts in the cluster; here a
  text is represented by what it parses to, or by itself when it does not parse.
\<close>

text \<open>A JSON value as the program builds it.\<close>

datatype json =
    JNull
  | JBool bool
  | JInt int
  | JText string
  | JTime instant
  | JList "json list"
  | JObj "(string \<times> json) list"

text \<open>Limits of a scope. Zero and empty mean ``no limit''; the quantities and durations
  are the texts an administrator wrote.\<close>

record policy =
  pol_max_per_user :: int
  pol_max_total :: int
  pol_max_cpu :: string
  pol_max_memory :: string
  pol_max_storage :: string
  pol_max_timeout :: string
  pol_max_idle_timeout :: string
  pol_allowed_templates :: "string list"
  pol_approved_registries :: "string list"
  pol_max_agents :: int
  pol_allowed_agent_images :: "string list"
  pol_max_concurrent_invokes :: int
  pol_description :: string

definition empty_policy :: policy where
  "empty_policy =
     \<lparr>pol_max_per_user = 0, pol_max_total = 0, pol_max_cpu = [], pol_max_memory = [],
      pol_max_storage = [], pol_max_timeout = [], pol_max_idle_timeout = [],
      pol_allowed_templates = [], pol_approved_registries = [], pol_max_agents = 0,
      pol_allowed_agent_images = [], pol_max_concurrent_invokes = 0, pol_description = []\<rparr>"

record pool_config =
  pc_template :: string
  pc_desired :: int

text \<open>The canonical per-template entries and the two legacy single-template fields.\<close>

record warm_config =
  wc_pools :: "pool_config list"
  wc_desired :: int
  wc_template :: string

definition empty_warm_config :: warm_config where
  "empty_warm_config = \<lparr>wc_pools = [], wc_desired = 0, wc_template = []\<rparr>"

text \<open>The state of webhook delivery (\<open>pkg/controller/webhook_delivery/state.go\<close>): the cursor, which
  is absent, a time, or a text that is none; the events seen at its second; and per subscription
  the recent attempts and the failures since the last success.\<close>

datatype cursor = NoCursor | CursorAt instant | CursorText string

record delivery_attempt =
  da_event :: string
  da_time :: instant
  da_status :: nat
  da_attempt :: int
  da_success :: bool

record subscription_state =
  sbs_failures :: int
  sbs_history :: "delivery_attempt list"

record delivery_state =
  ds_cursor :: cursor
  ds_seen :: "string list"
  ds_subs :: "string \<rightharpoonup> subscription_state"

text \<open>A ConfigMap entry, and the data of a Secret below. Read under another schema than the one
  that wrote it, a document counts as one that does not parse.\<close>

datatype document =
    PolicyDoc "(string \<times> policy) list"
  | PoolDoc warm_config
  | DeliveryDoc delivery_state
  | TextDoc string
  | MalformedDoc string

record config_map =
  cm_name :: string
  cm_namespace :: string
  cm_labels :: labels
  cm_owner :: "string option"
  cm_data :: "string \<rightharpoonup> document"
  cm_version :: string


text \<open>A webhook subscription (\<open>pkg/router/webhook_store.go\<close>), the record of an API key, and the
  data of a Secret: a plain text or one of these.\<close>

record webhook_record =
  wh_id :: string
  wh_user :: string
  wh_url :: string
  wh_types :: "string list"
  wh_sandbox :: string
  wh_namespace :: string
  wh_created :: "instant option"
  wh_disabled :: bool
  wh_admin :: bool

record api_key_record =
  akr_key_hash :: string
  akr_user :: string
  akr_email :: string
  akr_name :: string
  akr_scopes :: "string list"
  akr_namespaces :: "string list"
  akr_sandbox :: string
  akr_groups :: "string list"
  akr_created :: instant
  akr_expires :: "instant option"
  akr_last_used :: "instant option"

datatype secret_value = SecretText string | SecretRecord api_key_record | SecretWebhook webhook_record

record secret =
  sct_name :: string
  sct_namespace :: string
  sct_labels :: labels
  sct_owner :: "string option"
  sct_data :: "string \<rightharpoonup> secret_value"

definition secret_text :: "secret \<Rightarrow> string \<Rightarrow> string" where
  "secret_text s k = (case sct_data s k of Some (SecretText t) \<Rightarrow> t | _ \<Rightarrow> [])"

end
