(* ===== verification/Api_Calls.thy ===== *)
theory Api_Calls
  imports Documents
begin

text \<open>
  The calls that leave the program: requests to the Kubernetes API server through
  the controller-runtime client, the clock, the random source, the event recorder
  and the notifier. None of that code is part of the repository, so its answers come
  from the environment \<open>E\<close>, a parameter of every program that makes a call. An
  answer of the wrong kind counts as a transport error.
\<close>

datatype template_request =
    ListClusterTemplates
  | CreateClusterTemplate string labels sandbox_template_spec
  | UpdateClusterTemplate string sandbox_template_spec string
  | DeleteClusterTemplate string

datatype cluster_request =
    ListNodes
  | ListPVCs string "(string \<times> string) list"
  | GetDeployment string string
  | UpdateDeployment deployment
  | DeleteConfigMap string string

datatype port_request =
    GetService string string
  | CreateService service
  | UpdateService service
  | DeleteService string string
  | ListServices string "(string \<times> string) list"
  | GetIngress string string
  | CreateIngress ingress
  | UpdateIngress ingress
  | DeleteIngress string string

text \<open>Waiting, resolving a host name to its addresses, posting a body with its signature header to a
  URL, a plain HTTP call (method, URL, headers, body), a command run in a pod (namespace, pod,
  container, arguments, standard input), an event sent to the client of a streamed reply, and the
  state of the request's context.\<close>

datatype web_request =
    Sleep duration
  | LookupIP string
  | Post string string string
  | Fetch string string "(string \<times> string) list" string
  | ExecPod string string string "string list" string
  | Emit string json
  | ContextState

datatype context_state = ContextLive | DeadlineExceeded | ContextCanceled

datatype request =
    Now
  | RandBytes nat
  | GetSandbox string string
  | ListSandboxes string
  | CreateSandbox sandbox
  | UpdateSandbox sandbox
  | UpdateSandboxStatus sandbox
  | DeleteSandbox string string
  | GetTemplate string string
  | GetClusterTemplate string
  | GetPod string string
  | ListPods string "(string \<times> string) list"
  | CreatePod pod
  | UpdatePod pod
  | DeletePod string string
  | GetPVC string string
  | CreatePVC pvc
  | UpdatePVC pvc
  | DeletePVC string string
  | GetNetworkPolicy string string
  | CreateNetworkPolicy network_policy
  | UpdateNetworkPolicy network_policy
  | DeleteNetworkPolicy string string
  | GetSecret string string
  | CreateSecret secret
  | UpdateSecret secret
  | DeleteSecret string string
  | ListSecrets string "(string \<times> string) list"
  | GetConfigMap string string
  | CreateConfigMap config_map
  | UpdateConfigMap config_map
  | CreateSnapshot snapshot
  | GetSnapshot string string
  | ListSnapshots string "(string \<times> string) list"
  | DeleteSnapshot string string
  | SetControllerRef string string string "string option"
  | RecordEvent string string string
  | CreateEvent k8s_event
  | ListEvents string
  | SendNotification string string
  | RecordAudit string string string string
  | TemplateCall template_request
  | ClusterCall cluster_request
  | PortCall port_request
  | WebCall web_request

datatype response =
    ROk
  | RErr api_err
  | RTime instant
  | RBytes "nat list"
  | RSandbox sandbox
  | RSandboxes "sandbox list"
  | RTemplate sandbox_template_spec string
  | RPod pod
  | RPods "pod list"
  | RPVC pvc
  | RNetworkPolicy network_policy
  | RSecret secret
  | RSecrets "secret list"
  | RSnapshot snapshot
  | REvents "k8s_event list"
  | RSnapshots "snapshot list"
  | RConfigMap config_map
  | RTemplates "(string \<times> sandbox_template_spec \<times> string) list"
  | RPVCs "pvc list"
  | RNodes "node list"
  | RDeployment deployment
  | RService service
  | RServices "service list"
  | RIngress ingress
  | RAddresses "nat list list"
  | RStatus nat
  | RHttp nat string "string option"
  | RExec "api_err + int" string string
  | RContext context_state

type_synonym 'w api = "('w, request, response) env"
type_synonym ('w, 'a) kprog = "('w, request, response, 'a) prog"
type_synonym trace = "(request \<times> response) list"

definition bad_response :: api_err where
  "bad_response = OtherErr ''unexpected response''"

fun as_unit :: "response \<Rightarrow> api_err + unit" where
  "as_unit ROk = Inr ()"
| "as_unit (RErr e) = Inl e"
| "as_unit _ = Inl bad_response"

fun as_time :: "response \<Rightarrow> instant" where
  "as_time (RTime t) = t"
| "as_time _ = 0"

fun as_bytes :: "response \<Rightarrow> api_err + nat list" where
  "as_bytes (RBytes b) = Inr b"
| "as_bytes (RErr e) = Inl e"
| "as_bytes _ = Inl bad_response"

fun as_sandbox :: "response \<Rightarrow> api_err + sandbox" where
  "as_sandbox (RSandbox sb) = Inr sb"
| "as_sandbox (RErr e) = Inl e"
| "as_sandbox _ = Inl bad_response"

fun as_sandboxes :: "response \<Rightarrow> api_err + sandbox list" where
  "as_sandboxes (RSandboxes sbs) = Inr sbs"
| "as_sandboxes (RErr e) = Inl e"
| "as_sandboxes _ = Inl bad_response"

fun as_template :: "response \<Rightarrow> api_err + sandbox_template_spec \<times> string" where
  "as_template (RTemplate t v) = Inr (t, v)"
| "as_template (RErr e) = Inl e"
| "as_template _ = Inl bad_response"

fun as_pod :: "response \<Rightarrow> api_err + pod" where
  "as_pod (RPod p) = Inr p"
| "as_pod (RErr e) = Inl e"
| "as_pod _ = Inl bad_response"

fun as_pods :: "response \<Rightarrow> api_err + pod list" where
  "as_pods (RPods ps) = Inr ps"
| "as_pods (RErr e) = Inl e"
| "as_pods _ = Inl bad_response"

fun as_pvc :: "response \<Rightarrow> api_err + pvc" where
  "as_pvc (RPVC p) = Inr p"
| "as_pvc (RErr e) = Inl e"
| "as_pvc _ = Inl bad_response"

fun as_network_policy :: "response \<Rightarrow> api_err + network_policy" where
  "as_network_policy (RNetworkPolicy p) = Inr p"
| "as_network_policy (RErr e) = Inl e"
| "as_network_policy _ = Inl bad_response"

fun as_secret :: "response \<Rightarrow> api_err + secret" where
  "as_secret (RSecret p) = Inr p"
| "as_secret (RErr e) = Inl e"
| "as_secret _ = Inl bad_response"

fun as_secrets :: "response \<Rightarrow> api_err + secret list" where
  "as_secrets (RSecrets p) = Inr p"
| "as_secrets (RErr e) = Inl e"
| "as_secrets _ = Inl bad_response"

fun as_events :: "response \<Rightarrow> api_err + k8s_event list" where
  "as_events (REvents p) = Inr p"
| "as_events (RErr e) = Inl e"
| "as_events _ = Inl bad_response"

fun as_snapshot :: "response \<Rightarrow> api_err + snapshot" where
  "as_snapshot (RSnapshot p) = Inr p"
| "as_snapshot (RErr e) = Inl e"
| "as_snapshot _ = Inl bad_response"

fun as_snapshots :: "response \<Rightarrow> api_err + snapshot list" where
  "as_snapshots (RSnapshots p) = Inr p"
| "as_snapshots (RErr e) = Inl e"
| "as_snapshots _ = Inl bad_response"

fun as_config_map :: "response \<Rightarrow> api_err + config_map" where
  "as_config_map (RConfigMap p) = Inr p"
| "as_config_map (RErr e) = Inl e"
| "as_config_map _ = Inl bad_response"

fun as_templates :: "response \<Rightarrow> api_err + (string \<times> sandbox_template_spec \<times> string) list" where
  "as_templates (RTemplates p) = Inr p"
| "as_templates (RErr e) = Inl e"
| "as_templates _ = Inl bad_response"

fun as_pvcs :: "response \<Rightarrow> api_err + pvc list" where
  "as_pvcs (RPVCs p) = Inr p"
| "as_pvcs (RErr e) = Inl e"
| "as_pvcs _ = Inl bad_response"

fun as_nodes :: "response \<Rightarrow> api_err + node list" where
  "as_nodes (RNodes p) = Inr p"
| "as_nodes (RErr e) = Inl e"
| "as_nodes _ = Inl bad_response"

fun as_deployment :: "response \<Rightarrow> api_err + deployment" where
  "as_deployment (RDeployment p) = Inr p"
| "as_deployment (RErr e) = Inl e"
| "as_deployment _ = Inl bad_response"

fun as_service :: "response \<Rightarrow> api_err + service" where
  "as_service (RService p) = Inr p"
| "as_service (RErr e) = Inl e"
| "as_service _ = Inl bad_response"

fun as_services :: "response \<Rightarrow> api_err + service list" where
  "as_services (RServices p) = Inr p"
| "as_services (RErr e) = Inl e"
| "as_services _ = Inl bad_response"

fun as_ingress :: "response \<Rightarrow> api_err + ingress" where
  "as_ingress (RIngress p) = Inr p"
| "as_ingress (RErr e) = Inl e"
| "as_ingress _ = Inl bad_response"

fun as_addresses :: "response \<Rightarrow> api_err + nat list list" where
  "as_addresses (RAddresses p) = Inr p"
| "as_addresses (RErr e) = Inl e"
| "as_addresses _ = Inl bad_response"

fun as_status :: "response \<Rightarrow> api_err + nat" where
  "as_status (RStatus p) = Inr p"
| "as_status (RErr e) = Inl e"
| "as_status _ = Inl bad_response"

text \<open>A status, the body as far as it could be read, and what ended the reading early.\<close>

fun as_http :: "response \<Rightarrow> api_err + nat \<times> string \<times> string option" where
  "as_http (RHttp st b e) = Inr (st, b, e)"
| "as_http (RErr e) = Inl e"
| "as_http _ = Inl bad_response"

text \<open>How a command ended, and its two outputs.\<close>

fun as_exec :: "response \<Rightarrow> (api_err + int) \<times> string \<times> string" where
  "as_exec (RExec r out err) = (r, out, err)"
| "as_exec (RErr e) = (Inl e, [], [])"
| "as_exec _ = (Inl bad_response, [], [])"

fun as_context :: "response \<Rightarrow> context_state" where
  "as_context (RContext c) = c"
| "as_context _ = ContextLive"

text \<open>A call whose answer is read with one of the readers above.\<close>

definition ask :: "'w api \<Rightarrow> request \<Rightarrow> (response \<Rightarrow> 'a) \<Rightarrow> ('w, 'a) kprog" where
  "ask E q f = do { r \<leftarrow> call E q; ret (f r) }"

lemma wp_ask [wp]:
  "wp (ask E q f) Q (w, l) = Q (f (fst (E w q))) (snd (E w q), l @ [(q, fst (E w q))])"
  by (simp add: ask_def wp wp_call)

lemma wp_askI:
  "(\<And>r w'. Q (f r) (w', l @ [(q, r)])) \<Longrightarrow> wp (ask E q f) Q (w, l)"
  by (simp add: wp)

lemma run_ask [simp]:
  "run_state (ask E q f) (w, l) = (f (fst (E w q)), (snd (E w q), l @ [(q, fst (E w q))]))"
  by (simp add: ask_def)

lemma ask_map: "do { r \<leftarrow> ask E q f; ret (g r) } = ask E q (\<lambda>r. g (f r))"
proof (rule state.expand, rule ext)
  fix s :: "('a, request, response) io"
  obtain w l where s: "s = (w, l)" by (cases s)
  show "run_state (do { r \<leftarrow> ask E q f; ret (g r) }) s = run_state (ask E q (\<lambda>r. g (f r))) s"
    unfolding s by (simp only: run_bind run_ask fst_conv snd_conv run_state_ret)
qed

text \<open>Calls whose answer the code does not look at.\<close>

definition tell :: "'w api \<Rightarrow> request \<Rightarrow> ('w, unit) kprog" where
  "tell E q = ask E q (\<lambda>_. ())"

lemma wp_tell [wp]:
  "wp (tell E q) Q (w, l) = Q () (snd (E w q), l @ [(q, fst (E w q))])"
  by (simp add: tell_def wp)

lemma run_tell [simp]:
  "run_state (tell E q) (w, l) = ((), (snd (E w q), l @ [(q, fst (E w q))]))"
  by (simp add: tell_def)

lemma traces_ask [tr]: "(\<And>r. P (f r) [(q, r)]) \<Longrightarrow> traces (ask E q f) P"
  unfolding ask_def by (intro traces_bind [OF traces_call, where P = "\<lambda>r t. t = [(q, r)]"] traces_ret) auto

lemma traces_tell [tr]: "(\<And>r. P () [(q, r)]) \<Longrightarrow> traces (tell E q) P"
  unfolding tell_def by (rule traces_ask)

lemma traces_ask_bind [tr]:
  "(\<And>r. traces (g (f r)) (\<lambda>b t. Q b ((q, r) # t))) \<Longrightarrow> traces (State_Monad.bind (ask E q f) g) Q"
  by (rule traces_bind [OF traces_ask, where P = "\<lambda>a t. \<exists>r. a = f r \<and> t = [(q, r)]"]) auto

lemma traces_tell_bind [tr]:
  "(\<And>r. traces (g ()) (\<lambda>b t. Q b ((q, r) # t))) \<Longrightarrow> traces (State_Monad.bind (tell E q) g) Q"
  unfolding tell_def by (rule traces_ask_bind)

lemma traces_case_api_err [tr]:
  "(x = NotFound \<Longrightarrow> traces a Q) \<Longrightarrow> (x = AlreadyExists \<Longrightarrow> traces b Q) \<Longrightarrow> (x = Conflict \<Longrightarrow> traces c Q)
     \<Longrightarrow> (\<And>m. x = OtherErr m \<Longrightarrow> traces (d m) Q)
     \<Longrightarrow> traces (case x of NotFound \<Rightarrow> a | AlreadyExists \<Rightarrow> b | Conflict \<Rightarrow> c | OtherErr m \<Rightarrow> d m) Q"
  by (cases x) simp_all

text \<open>The answers that make a call succeed.\<close>

lemma as_Inr [simp]:
  "as_unit r = Inr u \<longleftrightarrow> r = ROk"
  "as_bytes r = Inr b \<longleftrightarrow> r = RBytes b"
  "as_sandbox r = Inr sb \<longleftrightarrow> r = RSandbox sb"
  "as_sandboxes r = Inr sbs \<longleftrightarrow> r = RSandboxes sbs"
  "as_pod r = Inr p \<longleftrightarrow> r = RPod p"
  "as_pods r = Inr ps \<longleftrightarrow> r = RPods ps"
  "as_pvc r = Inr c \<longleftrightarrow> r = RPVC c"
  "as_network_policy r = Inr n \<longleftrightarrow> r = RNetworkPolicy n"
  "as_secret r = Inr s \<longleftrightarrow> r = RSecret s"
  "as_secrets r = Inr ss \<longleftrightarrow> r = RSecrets ss"
  "as_events r = Inr es \<longleftrightarrow> r = REvents es"
  "as_snapshot r = Inr sn \<longleftrightarrow> r = RSnapshot sn"
  "as_snapshots r = Inr sns \<longleftrightarrow> r = RSnapshots sns"
  "as_config_map r = Inr m \<longleftrightarrow> r = RConfigMap m"
  "as_templates r = Inr xtemplates \<longleftrightarrow> r = RTemplates xtemplates"
  "as_pvcs r = Inr xpvcs \<longleftrightarrow> r = RPVCs xpvcs"
  "as_nodes r = Inr xnodes \<longleftrightarrow> r = RNodes xnodes"
  "as_deployment r = Inr xdeployment \<longleftrightarrow> r = RDeployment xdeployment"
  "as_service r = Inr xservice \<longleftrightarrow> r = RService xservice"
  "as_services r = Inr xservices \<longleftrightarrow> r = RServices xservices"
  "as_ingress r = Inr xingress \<longleftrightarrow> r = RIngress xingress"
  "as_addresses r = Inr xaddresses \<longleftrightarrow> r = RAddresses xaddresses"
  "as_status r = Inr xstatus \<longleftrightarrow> r = RStatus xstatus"
  by (cases r; auto)+

end
