(* ===== verification/Templates.thy ===== *)
theory Templates
  imports Api_Calls
begin

text \<open>
  Template resolution (\<open>pkg/controller/template_resolver.go\<close>): fetching a template
  and its ancestors, merging the chain, and merging a sandbox spec over the result
  into the pod configuration of \<open>pkg/controller/pod_builder.go\<close>. The two keyed merges
  (environment variables by name, files by path) share the interface \<open>keyed_merge\<close>.
\<close>

section \<open>Keyed lists\<close>

text \<open>What a keyed list means: the last entry with a key counts.\<close>

definition key_map :: "('a \<Rightarrow> string) \<Rightarrow> 'a list \<Rightarrow> (string \<rightharpoonup> 'a)" where
  "key_map key xs = fold (\<lambda>e m. m(key e \<mapsto> e)) xs Map.empty"

text \<open>One round of the loop that both merges run: remember the order of first occurrence,
  overwrite the value.\<close>

fun keyed_put ::
  "('a \<Rightarrow> string) \<Rightarrow> 'a \<Rightarrow> string list \<times> (string \<rightharpoonup> 'a) \<Rightarrow> string list \<times> (string \<rightharpoonup> 'a)" where
  "keyed_put key e (order, m) =
     ((case m (key e) of None \<Rightarrow> order @ [key e] | Some _ \<Rightarrow> order), m(key e \<mapsto> e))"

lemma key_map_Nil [simp]: "key_map key [] = Map.empty"
  by (simp add: key_map_def)

lemma key_map_snoc [simp]: "key_map key (xs @ [x]) = (key_map key xs)(key x \<mapsto> x)"
  by (simp add: key_map_def)

lemma key_map_append: "key_map key (xs @ ys) = key_map key xs ++ key_map key ys"
proof (induction ys rule: rev_induct)
  case Nil
  show ?case by simp
next
  case (snoc y ys)
  have "key_map key (xs @ ys @ [y]) = (key_map key (xs @ ys))(key y \<mapsto> y)"
    using key_map_snoc [of key "xs @ ys" y] by simp
  also have "\<dots> = (key_map key xs ++ key_map key ys)(key y \<mapsto> y)"
    by (simp only: snoc.IH)
  also have "\<dots> = key_map key xs ++ key_map key (ys @ [y])"
    by simp
  finally show ?case .
qed

lemma key_map_None_iff [simp]: "key_map key xs k = None \<longleftrightarrow> k \<notin> key ` set xs"
  by (induction xs rule: rev_induct) auto

lemma dom_key_map [simp]: "dom (key_map key xs) = key ` set xs"
  by (simp only: set_eq_iff domIff key_map_None_iff not_not simp_thms)

lemma key_map_SomeD: "key_map key xs k = Some e \<Longrightarrow> e \<in> set xs \<and> key e = k"
  by (induction xs rule: rev_induct) (auto split: if_splits)

lemma key_map_distinct:
  "distinct (map key xs) \<Longrightarrow> e \<in> set xs \<Longrightarrow> key_map key xs (key e) = Some e"
  by (induction xs rule: rev_induct) (auto simp: image_iff)

lemma snd_keyed_put [simp]: "snd (keyed_put key e st) = (snd st)(key e \<mapsto> e)"
  by (cases st) simp

lemma snd_keyed_fold: "snd (fold (keyed_put key) xs st) = snd st ++ key_map key xs"
  by (induction xs rule: rev_induct) (simp_all only: fold_append fold_simps comp_apply id_apply
      snd_keyed_put key_map_snoc key_map_Nil map_add_upd map_add_empty)

text \<open>The order of first occurrence lists every key once.\<close>

definition keyed_ok :: "string list \<times> (string \<rightharpoonup> 'a) \<Rightarrow> bool" where
  "keyed_ok st \<longleftrightarrow> distinct (fst st) \<and> set (fst st) = dom (snd st)"

lemma keyed_put_ok: "keyed_ok st \<Longrightarrow> keyed_ok (keyed_put key e st)"
  by (cases st) (auto simp: keyed_ok_def split: option.split)

lemma keyed_fold_ok: "keyed_ok st \<Longrightarrow> keyed_ok (fold (keyed_put key) xs st)"
  by (induction xs arbitrary: st) (simp_all add: keyed_put_ok)

definition merge_keyed :: "('a \<Rightarrow> string) \<Rightarrow> 'a list \<Rightarrow> 'a list \<Rightarrow> 'a list" where
  "merge_keyed key parent child =
     (if child = [] then parent
      else if parent = [] then child
      else case fold (keyed_put key) child (fold (keyed_put key) parent ([], Map.empty)) of
             (order, m) \<Rightarrow> map (\<lambda>name. the (m name)) order)"

lemma merge_keyed_Nil [simp]: "merge_keyed key p [] = p" "merge_keyed key [] c = c"
  by (simp_all add: merge_keyed_def)

lemma merge_keyed_both:
  assumes "parent \<noteq> []" "child \<noteq> []"
  obtains order where "distinct order" "set order = key ` set parent \<union> key ` set child"
    "merge_keyed key parent child
       = map (\<lambda>name. the ((key_map key parent ++ key_map key child) name)) order"
proof -
  define st where "st = fold (keyed_put key) child (fold (keyed_put key) parent ([], Map.empty))"
  have snd: "snd st = key_map key parent ++ key_map key child"
    by (simp add: st_def snd_keyed_fold)
  have "keyed_ok st"
    unfolding st_def by (intro keyed_fold_ok) (simp add: keyed_ok_def)
  then have fst: "distinct (fst st)" "set (fst st) = key ` set parent \<union> key ` set child"
    by (auto simp: keyed_ok_def snd dom_map_add)
  have "merge_keyed key parent child = map (\<lambda>name. the (snd st name)) (fst st)"
    using assms by (simp add: merge_keyed_def st_def split_beta)
  with snd fst show thesis using that by simp
qed

lemma key_of_merged:
  assumes "k \<in> key ` set p \<union> key ` set c"
  shows "key (the ((key_map key p ++ key_map key c) k)) = k
       \<and> (key_map key p ++ key_map key c) k \<noteq> None"
proof -
  obtain e where "(key_map key p ++ key_map key c) k = Some e"
    using assms by (cases "(key_map key p ++ key_map key c) k") auto
  moreover from this have "key e = k"
    by (auto simp: map_add_Some_iff dest: key_map_SomeD)
  ultimately show ?thesis by simp
qed

lemma map_key_merged:
  assumes "set order = key ` set p \<union> key ` set c"
  shows "map key (map (\<lambda>name. the ((key_map key p ++ key_map key c) name)) order) = order"
proof -
  have "key (the ((key_map key p ++ key_map key c) k)) = k" if "k \<in> set order" for k
    using that assms key_of_merged [of k key p c] by simp
  then show ?thesis by (simp add: map_idI)
qed

lemma key_map_merge_keyed:
  "key_map key (merge_keyed key p c) = key_map key p ++ key_map key c"
proof (cases "p = [] \<or> c = []")
  case True
  then show ?thesis by auto
next
  case False
  then obtain order where o: "distinct order" "set order = key ` set p \<union> key ` set c"
    "merge_keyed key p c = map (\<lambda>name. the ((key_map key p ++ key_map key c) name)) order"
    using merge_keyed_both [of p c key] by blast
  let ?m = "key_map key p ++ key_map key c" and ?r = "merge_keyed key p c"
  have keys: "map key ?r = order" using o(2,3) map_key_merged by simp
  have "key_map key ?r k = ?m k" for k
  proof (cases "k \<in> set order")
    case True
    then have "the (?m k) \<in> set ?r" using o(3) by simp
    moreover have "key (the (?m k)) = k" "?m k \<noteq> None"
      using True o(2) key_of_merged [of k key p c] by auto
    ultimately show ?thesis
      using key_map_distinct [of key ?r "the (?m k)"] keys o(1) by simp
  next
    case False
    then have "k \<notin> key ` set ?r" "k \<notin> key ` set p" "k \<notin> key ` set c"
      using keys o(2) by (auto simp flip: set_map)
    then have "key_map key ?r k = None" "key_map key p k = None" "key_map key c k = None"
      by (simp_all only: key_map_None_iff not_False_eq_True)
    then show ?thesis by (simp only: map_add_def option.case)
  qed
  then show ?thesis by (rule ext)
qed

lemma distinct_merge_keyed:
  assumes "distinct (map key p)" "distinct (map key c)"
  shows "distinct (map key (merge_keyed key p c))"
proof (cases "p = [] \<or> c = []")
  case True
  then show ?thesis using assms by auto
next
  case False
  then obtain order where o: "distinct order" "set order = key ` set p \<union> key ` set c"
    "merge_keyed key p c = map (\<lambda>name. the ((key_map key p ++ key_map key c) name)) order"
    using merge_keyed_both [of p c key] by blast
  then show ?thesis using map_key_merged [OF o(2)] by simp
qed

text \<open>
  The interface that the template code relies on: a merge that overrides by key and
  keeps keys distinct. Everything about merging a chain of layers follows from it.
\<close>

locale keyed_merge =
  fixes key :: "'a \<Rightarrow> string"
    and merge :: "'a list \<Rightarrow> 'a list \<Rightarrow> 'a list"
  assumes merge_override: "key_map key (merge p c) = key_map key p ++ key_map key c"
    and merge_distinct:
      "distinct (map key p) \<Longrightarrow> distinct (map key c) \<Longrightarrow> distinct (map key (merge p c))"
begin

definition merge_all :: "'a list list \<Rightarrow> 'a list" where
  "merge_all layers = foldl merge [] layers"

lemma override_foldl:
  "key_map key (foldl merge base layers)
     = foldl (++) (key_map key base) (map (key_map key) layers)"
  by (induction layers arbitrary: base) (simp_all add: merge_override)

lemma child_wins: "key_map key c k = Some e \<Longrightarrow> key_map key (merge p c) k = Some e"
  by (simp add: merge_override map_add_def)

lemma parent_kept: "key_map key c k = None \<Longrightarrow> key_map key (merge p c) k = key_map key p k"
  by (simp only: merge_override map_add_def option.case)

lemma merge_assoc_map: "key_map key (merge (merge a b) c) = key_map key (merge a (merge b c))"
  by (simp add: merge_override)

lemma merge_keys: "key ` set (merge p c) = key ` set p \<union> key ` set c"
  using arg_cong [OF merge_override, of dom p c] by (auto simp: dom_map_add)

lemma merge_unique:
  assumes "distinct (map key p)" "distinct (map key c)" "e \<in> set (merge p c)"
  shows "key_map key c (key e) = Some e
     \<or> key_map key c (key e) = None \<and> key_map key p (key e) = Some e"
proof -
  have "key_map key (merge p c) (key e) = Some e"
    using merge_distinct [OF assms(1,2)] assms(3) by (rule key_map_distinct)
  then show ?thesis by (auto simp: merge_override map_add_Some_iff)
qed

lemma distinct_foldl:
  assumes "distinct (map key base)" "\<forall>l \<in> set layers. distinct (map key l)"
  shows "distinct (map key (foldl merge base layers))"
  using assms by (induction layers arbitrary: base) (auto simp: merge_distinct)

end

definition mergeEnvVars :: "env_var list \<Rightarrow> env_var list \<Rightarrow> env_var list" where
  "mergeEnvVars = merge_keyed ev_name"

definition mergeFiles :: "file_spec list \<Rightarrow> file_spec list \<Rightarrow> file_spec list" where
  "mergeFiles = merge_keyed file_path"

interpretation env_merge: keyed_merge ev_name mergeEnvVars
  by unfold_locales (simp_all add: mergeEnvVars_def key_map_merge_keyed distinct_merge_keyed)

interpretation file_merge: keyed_merge file_path mergeFiles
  by unfold_locales (simp_all add: mergeFiles_def key_map_merge_keyed distinct_merge_keyed)


section \<open>Resolving a reference\<close>

definition MaxInheritanceDepth :: nat where
  "MaxInheritanceDepth = 10"

record resolved_entry =
  re_name :: string
  re_version :: string
  re_spec :: sandbox_template_spec

record resolved_template =
  rt_name :: string
  rt_version :: string
  rt_spec :: sandbox_template_spec

definition fetchTemplate ::
  "'w api \<Rightarrow> template_reference \<Rightarrow> string \<Rightarrow> ('w, string + sandbox_template_spec \<times> string) kprog" where
  "fetchTemplate E ref sandboxNamespace =
     (let kind = (if tr_kind ref = [] then ''SandboxTemplate'' else tr_kind ref)
      in if kind = ''SandboxTemplate'' then
           (let ns = (if tr_namespace ref = [] then sandboxNamespace else tr_namespace ref)
            in do {
              r \<leftarrow> ask E (GetTemplate ns (tr_name ref)) as_template;
              ret (case r of
                     Inr t \<Rightarrow> Inr t
                   | Inl NotFound \<Rightarrow>
                       Inl (''SandboxTemplate '' @ ns @ ''/'' @ tr_name ref @ '' not found'')
                   | Inl e \<Rightarrow>
                       Inl (''failed to get SandboxTemplate '' @ ns @ ''/'' @ tr_name ref @ '': '' @ err_text e))
            })
         else if kind = ''ClusterSandboxTemplate'' then
           do {
             r \<leftarrow> ask E (GetClusterTemplate (tr_name ref)) as_template;
             ret (case r of
                    Inr t \<Rightarrow> Inr t
                  | Inl NotFound \<Rightarrow>
                      Inl (''ClusterSandboxTemplate '' @ tr_name ref @ '' not found'')
                  | Inl e \<Rightarrow>
                      Inl (''failed to get ClusterSandboxTemplate '' @ tr_name ref @ '': '' @ err_text e))
           }
         else ret (Inl (''unknown template kind: '' @ kind)))"

definition template_key :: "template_reference \<Rightarrow> string" where
  "template_key ref = tr_kind ref @ ''/'' @ tr_namespace ref @ ''/'' @ tr_name ref"

text \<open>The chain in the order root ancestor first. The set of visited keys is threaded
  down the recursion, which never returns to a caller that looks at it again.\<close>

function resolveChain ::
  "'w api \<Rightarrow> template_reference \<Rightarrow> string \<Rightarrow> nat \<Rightarrow> string set
     \<Rightarrow> ('w, string + resolved_entry list) kprog" where
  "resolveChain E ref sandboxNamespace depth visited =
     (if depth \<ge> MaxInheritanceDepth then
        ret (Inl (''template inheritance chain exceeds maximum depth of '' @ show_nat MaxInheritanceDepth))
      else if template_key ref \<in> visited then
        ret (Inl (''circular template inheritance detected: '' @ template_key ref))
      else do {
        r \<leftarrow> fetchTemplate E ref sandboxNamespace;
        (case r of
           Inl e \<Rightarrow> ret (Inl e)
         | Inr (spec, resourceVersion) \<Rightarrow>
             (let entry = \<lparr>re_name = tr_name ref, re_version = resourceVersion, re_spec = spec\<rparr>
              in case tpl_inherits spec of
                   None \<Rightarrow> ret (Inr [entry])
                 | Some parent \<Rightarrow> do {
                     p \<leftarrow> resolveChain E parent sandboxNamespace (depth + 1)
                            (insert (template_key ref) visited);
                     ret (case p of
                            Inl e \<Rightarrow> Inl (''failed to resolve parent template '' @ tr_name parent @ '': '' @ e)
                          | Inr parentChain \<Rightarrow> Inr (parentChain @ [entry]))
                   }))
      })"
  by pat_completeness auto

termination
  by (relation "measure (\<lambda>(_, _, _, depth, _). MaxInheritanceDepth - depth)") auto

declare resolveChain.simps [simp del]

section \<open>Merging a chain\<close>

definition mergeAgent :: "agent_spec \<Rightarrow> agent_spec \<Rightarrow> agent_spec" where
  "mergeAgent parent child =
     \<lparr>ag_entrypoint = (if ag_entrypoint child \<noteq> [] then ag_entrypoint child else ag_entrypoint parent),
      ag_install = (if ag_install child \<noteq> [] then ag_install child else ag_install parent),
      ag_working_dir = (if ag_working_dir child \<noteq> [] then ag_working_dir child else ag_working_dir parent),
      ag_env = mergeEnvVars (ag_env parent) (ag_env child),
      ag_max_concurrent =
        (case ag_max_concurrent child of None \<Rightarrow> ag_max_concurrent parent | Some n \<Rightarrow> Some n),
      ag_default_timeout =
        (case ag_default_timeout child of None \<Rightarrow> ag_default_timeout parent | Some d \<Rightarrow> Some d)\<rparr>"

text \<open>\<open>override c p\<close>: the child's value when it is set (non-nil, non-empty), else the
  parent's.\<close>

definition override :: "'a option \<Rightarrow> 'a option \<Rightarrow> 'a option" where
  "override c p = (case c of None \<Rightarrow> p | Some x \<Rightarrow> Some x)"

definition override_list :: "'a list \<Rightarrow> 'a list \<Rightarrow> 'a list" where
  "override_list c p = (if c \<noteq> [] then c else p)"

definition mergeHarness :: "harness_spec \<Rightarrow> harness_spec \<Rightarrow> harness_spec" where
  "mergeHarness parent child =
     \<lparr>har_command = override_list (har_command child) (har_command parent),
      har_args = override_list (har_args child) (har_args parent),
      har_working_dir = override_list (har_working_dir child) (har_working_dir parent),
      har_shell = override_list (har_shell child) (har_shell parent),
      har_tools = har_tools parent @ har_tools child,
      har_system_prompt = override (har_system_prompt child) (har_system_prompt parent),
      har_skills = har_skills parent @ har_skills child,
      har_hooks = override (har_hooks child) (har_hooks parent),
      har_constraints = override (har_constraints child) (har_constraints parent),
      har_agent =
        (case har_agent child of
           None \<Rightarrow> har_agent parent
         | Some c \<Rightarrow> (case har_agent parent of None \<Rightarrow> Some c | Some p \<Rightarrow> Some (mergeAgent p c))),
      har_use_http_exec = override (har_use_http_exec child) (har_use_http_exec parent)\<rparr>"

definition mergeTemplateSpecs ::
  "sandbox_template_spec \<Rightarrow> sandbox_template_spec \<Rightarrow> sandbox_template_spec" where
  "mergeTemplateSpecs parent child = parent
     \<lparr>tpl_image := override (tpl_image child) (tpl_image parent),
      tpl_resources := override (tpl_resources child) (tpl_resources parent),
      tpl_storage := override (tpl_storage child) (tpl_storage parent),
      tpl_network := override (tpl_network child) (tpl_network parent),
      tpl_timeout := override (tpl_timeout child) (tpl_timeout parent),
      tpl_idle_timeout := override (tpl_idle_timeout child) (tpl_idle_timeout parent),
      tpl_runtime_class := override (tpl_runtime_class child) (tpl_runtime_class parent),
      tpl_security := override (tpl_security child) (tpl_security parent),
      tpl_description := override_list (tpl_description child) (tpl_description parent),
      tpl_mode := (if tpl_mode child \<noteq> ModeUnset then tpl_mode child else tpl_mode parent),
      tpl_harness :=
        (case tpl_harness child of
           None \<Rightarrow> tpl_harness parent
         | Some c \<Rightarrow> (case tpl_harness parent of None \<Rightarrow> Some c | Some p \<Rightarrow> Some (mergeHarness p c))),
      tpl_env := mergeEnvVars (tpl_env parent) (tpl_env child),
      tpl_sidecars := tpl_sidecars parent @ tpl_sidecars child,
      tpl_init_containers := tpl_init_containers parent @ tpl_init_containers child,
      tpl_credentials := tpl_credentials parent @ tpl_credentials child,
      tpl_files := mergeFiles (tpl_files parent) (tpl_files child),
      tpl_init_scripts := tpl_init_scripts parent @ tpl_init_scripts child\<rparr>"

definition mergeChain :: "resolved_entry list \<Rightarrow> sandbox_template_spec" where
  "mergeChain chain =
     (case chain of
        [] \<Rightarrow> empty_template_spec
      | root # rest \<Rightarrow> foldl mergeTemplateSpecs (re_spec root) (map re_spec rest))"

definition Resolve ::
  "'w api \<Rightarrow> template_reference option \<Rightarrow> string \<Rightarrow> ('w, string + resolved_template option) kprog" where
  "Resolve E ref sandboxNamespace =
     (case ref of
        None \<Rightarrow> ret (Inr None)
      | Some rf \<Rightarrow> do {
          c \<leftarrow> resolveChain E rf sandboxNamespace 0 {};
          ret (case c of
                 Inl e \<Rightarrow> Inl e
               | Inr chain \<Rightarrow>
                   if chain = [] then Inl ''template resolution produced empty chain''
                   else Inr (Some \<lparr>rt_name = re_name (last chain), rt_version = re_version (last chain),
                                   rt_spec = mergeChain chain\<rparr>))
        })"

section \<open>The merged pod configuration\<close>

record merged_pod_config =
  mc_image :: string
  mc_pull_policy :: string
  mc_pull_secret :: string
  mc_command :: "string list"
  mc_args :: "string list"
  mc_working_dir :: string
  mc_shell :: string
  mc_env :: "env_var list"
  mc_resources :: "resource_requirements option"
  mc_runtime_class :: "string option"
  mc_privileged :: bool
  mc_mount_path :: string
  mc_pvc :: string
  mc_use_http_exec :: bool
  mc_runtime_token_secret :: string
  mc_api_key_secret :: string
  mc_sidecars :: "container list"
  mc_init_containers :: "container list"
  mc_init_scripts :: "string list"
  mc_files :: "file_spec list"
  mc_credentials :: "credential_ref list"
  mc_service_account :: string

record controller_defaults =
  cd_image :: string
  cd_resources :: "resource_requirements option"
  cd_storage :: string
  cd_mount_path :: string
  cd_memory_sidecar :: string

definition defaultMountPath :: string where "defaultMountPath = ''/workspace''"
definition defaultShell :: string where "defaultShell = ''/bin/bash''"
definition workspaceVolumeName :: string where "workspaceVolumeName = ''workspace''"

text \<open>\<open>PQ\<close> stands for \<open>resource.ParseQuantity\<close>.\<close>

definition parseQuantityOrZero :: "(string \<Rightarrow> quantity option) \<Rightarrow> string \<Rightarrow> quantity" where
  "parseQuantityOrZero PQ s = (case PQ s of None \<Rightarrow> zero_quantity | Some q \<Rightarrow> q)"

definition plain_env :: "string \<Rightarrow> string \<Rightarrow> env_var" where
  "plain_env n v = \<lparr>ev_name = n, ev_value = v, ev_from = None\<rparr>"

definition buildMemorySidecar ::
  "(string \<Rightarrow> quantity option) \<Rightarrow> string \<Rightarrow> string \<Rightarrow> container" where
  "buildMemorySidecar PQ img mountPath = empty_container
     \<lparr>c_name := ''mem0'', c_image := img,
      c_env := [plain_env ''MEM0_HOST'' ''127.0.0.1'', plain_env ''MEM0_PORT'' ''8000'',
                plain_env ''MEM0_DATA_DIR'' (mountPath @ ''/.agenttier/memory'')],
      c_mounts := [\<lparr>vm_name = workspaceVolumeName, vm_path = mountPath, vm_read_only = False\<rparr>],
      c_resources := Some
        \<lparr>rr_limits = [''cpu'' \<mapsto> parseQuantityOrZero PQ ''500m'',
                      ''memory'' \<mapsto> parseQuantityOrZero PQ ''512Mi''],
         rr_requests = [''cpu'' \<mapsto> parseQuantityOrZero PQ ''100m'',
                        ''memory'' \<mapsto> parseQuantityOrZero PQ ''128Mi''],
         rr_rest = []\<rparr>\<rparr>"

definition MergeSandboxWithTemplate ::
  "(string \<Rightarrow> quantity option) \<Rightarrow> sandbox_spec \<Rightarrow> sandbox_template_spec option
     \<Rightarrow> controller_defaults option \<Rightarrow> merged_pod_config" where
  "MergeSandboxWithTemplate PQ sb template defaults =
     (let
        chosen =
          (case spec_image sb of
             Some i \<Rightarrow> (img_repository i, img_pull_policy i, img_pull_secret i)
           | None \<Rightarrow>
               (case Option.bind template tpl_image of
                  Some i \<Rightarrow> (img_repository i, img_pull_policy i, img_pull_secret i)
                | None \<Rightarrow> (case defaults of None \<Rightarrow> [] | Some d \<Rightarrow> cd_image d, [], [])));
        resources =
          (case spec_resources sb of
             Some r \<Rightarrow> Some r
           | None \<Rightarrow>
               (case Option.bind template tpl_resources of
                  Some r \<Rightarrow> Some r
                | None \<Rightarrow> (case defaults of None \<Rightarrow> None | Some d \<Rightarrow> cd_resources d)));
        path_of = (\<lambda>st. case st of None \<Rightarrow> []  | Some x \<Rightarrow> stor_mount_path x);
        mountPath =
          (if path_of (spec_storage sb) \<noteq> [] then path_of (spec_storage sb)
           else if path_of (Option.bind template tpl_storage) \<noteq> [] then path_of (Option.bind template tpl_storage)
           else defaultMountPath);
        runtimeClass =
          (case spec_runtime_class sb of Some c \<Rightarrow> Some c | None \<Rightarrow> Option.bind template tpl_runtime_class);
        serviceAccount =
          (if spec_service_account sb \<noteq> [] then spec_service_account sb
           else (case template of None \<Rightarrow> [] | Some t \<Rightarrow> tpl_service_account t));
        privileged =
          (case spec_security sb of
             Some s \<Rightarrow> sec_privileged s
           | None \<Rightarrow> (case Option.bind template tpl_security of Some s \<Rightarrow> sec_privileged s | None \<Rightarrow> False));
        harness = Option.bind template tpl_harness;
        shell =
          (case harness of
             Some h \<Rightarrow> if har_shell h \<noteq> [] then har_shell h else defaultShell
           | None \<Rightarrow> defaultShell);
        useHTTPExec =
          (case harness of
             Some h \<Rightarrow> (case har_use_http_exec h of Some b \<Rightarrow> b | None \<Rightarrow> False)
           | None \<Rightarrow> False);
        templateEnv = (case template of None \<Rightarrow> [] | Some t \<Rightarrow> tpl_env t);
        env = mergeEnvVars templateEnv (spec_env sb);
        sidecars = (case template of None \<Rightarrow> [] | Some t \<Rightarrow> tpl_sidecars t) @ spec_sidecars sb;
        memory =
          (case defaults of
             Some d \<Rightarrow>
               if cd_memory_sidecar d \<noteq> [] \<and> spec_mode sb = SandboxModeAgent
               then Some (cd_memory_sidecar d) else None
           | None \<Rightarrow> None)
      in \<lparr>mc_image = fst chosen, mc_pull_policy = fst (snd chosen), mc_pull_secret = snd (snd chosen),
          mc_command = (case harness of Some h \<Rightarrow> har_command h | None \<Rightarrow> []),
          mc_args = (case harness of Some h \<Rightarrow> har_args h | None \<Rightarrow> []),
          mc_working_dir = (case harness of Some h \<Rightarrow> har_working_dir h | None \<Rightarrow> []),
          mc_shell = shell,
          mc_env =
            (case memory of
               Some _ \<Rightarrow> mergeEnvVars env [plain_env ''MEM0_BASE_URL'' ''http://localhost:8000'']
             | None \<Rightarrow> env),
          mc_resources = resources, mc_runtime_class = runtimeClass, mc_privileged = privileged,
          mc_mount_path = mountPath, mc_pvc = [], mc_use_http_exec = useHTTPExec,
          mc_runtime_token_secret = [], mc_api_key_secret = [],
          mc_sidecars =
            (case memory of
               Some img \<Rightarrow> sidecars @ [buildMemorySidecar PQ img mountPath]
             | None \<Rightarrow> sidecars),
          mc_init_containers =
            (case template of None \<Rightarrow> [] | Some t \<Rightarrow> tpl_init_containers t) @ spec_init_containers sb,
          mc_init_scripts = (case template of None \<Rightarrow> [] | Some t \<Rightarrow> tpl_init_scripts t),
          mc_files = (case template of None \<Rightarrow> [] | Some t \<Rightarrow> tpl_files t),
          mc_credentials =
            (case template of None \<Rightarrow> [] | Some t \<Rightarrow> tpl_credentials t) @ spec_credentials sb,
          mc_service_account = serviceAccount\<rparr>)"


section \<open>What resolution means\<close>

text \<open>A server whose objects do not change while a program runs: every request has one
  answer.\<close>

definition static_env :: "(request \<Rightarrow> response) \<Rightarrow> 'w api" where
  "static_env answer = (\<lambda>w q. (answer q, w))"

definition fetch_request :: "string \<Rightarrow> template_reference \<Rightarrow> request option" where
  "fetch_request ns ref =
     (if tr_kind ref \<in> {[], ''SandboxTemplate''} then
        Some (GetTemplate (if tr_namespace ref = [] then ns else tr_namespace ref) (tr_name ref))
      else if tr_kind ref = ''ClusterSandboxTemplate'' then Some (GetClusterTemplate (tr_name ref))
      else None)"

definition fetched ::
  "(request \<Rightarrow> response) \<Rightarrow> string \<Rightarrow> template_reference \<Rightarrow> (sandbox_template_spec \<times> string) option" where
  "fetched answer ns ref =
     (case fetch_request ns ref of
        None \<Rightarrow> None
      | Some q \<Rightarrow> (case as_template (answer q) of Inl _ \<Rightarrow> None | Inr t \<Rightarrow> Some t))"

text \<open>The line of descent of a reference, from the template itself up to its root.\<close>

inductive ancestry ::
  "(request \<Rightarrow> response) \<Rightarrow> string \<Rightarrow> template_reference
     \<Rightarrow> (template_reference \<times> resolved_entry) list \<Rightarrow> bool"
  for answer :: "request \<Rightarrow> response" and ns :: string where
  ancestry_root:
    "fetched answer ns ref = Some (spec, v) \<Longrightarrow> tpl_inherits spec = None
       \<Longrightarrow> ancestry answer ns ref [(ref, \<lparr>re_name = tr_name ref, re_version = v, re_spec = spec\<rparr>)]"
| ancestry_step:
    "fetched answer ns ref = Some (spec, v) \<Longrightarrow> tpl_inherits spec = Some parent
       \<Longrightarrow> ancestry answer ns parent up
       \<Longrightarrow> ancestry answer ns ref
             ((ref, \<lparr>re_name = tr_name ref, re_version = v, re_spec = spec\<rparr>) # up)"

inductive_cases ancestryE: "ancestry answer ns ref up"

lemma fetch_static:
  "\<exists>r. run_state (fetchTemplate (static_env answer) ref ns) (w, l)
         = (r, (w, l @ (case fetch_request ns ref of None \<Rightarrow> [] | Some q \<Rightarrow> [(q, answer q)])))
     \<and> (case fetched answer ns ref of Some t \<Rightarrow> r = Inr t | None \<Rightarrow> isl r)"
  by (auto simp: fetchTemplate_def fetch_request_def fetched_def Let_def static_env_def
      split: option.splits sum.splits api_err.splits)

lemma ancestry_nonempty: "ancestry answer ns ref up \<Longrightarrow> up \<noteq> []"
  by (erule ancestryE) simp_all

definition admissible_line ::
  "nat \<Rightarrow> string set \<Rightarrow> (template_reference \<times> resolved_entry) list \<Rightarrow> bool" where
  "admissible_line depth visited up \<longleftrightarrow>
     depth + length up \<le> MaxInheritanceDepth
       \<and> distinct (map (template_key \<circ> fst) up)
       \<and> set (map (template_key \<circ> fst) up) \<inter> visited = {}"

lemma admissible_Cons:
  "admissible_line depth visited ((ref, e) # up) \<longleftrightarrow>
     depth < MaxInheritanceDepth \<and> template_key ref \<notin> visited
       \<and> admissible_line (depth + 1) (insert (template_key ref) visited) up"
  by (auto simp: admissible_line_def)

lemma ancestry_iff:
  "ancestry answer ns ref up \<longleftrightarrow>
     (\<exists>spec v. fetched answer ns ref = Some (spec, v)
        \<and> (\<exists>rest. up = (ref, \<lparr>re_name = tr_name ref, re_version = v, re_spec = spec\<rparr>) # rest
             \<and> (case tpl_inherits spec of
                  None \<Rightarrow> rest = []
                | Some parent \<Rightarrow> ancestry answer ns parent rest)))"
  by (subst ancestry.simps) (force split: option.splits)

lemma resolveChain_iff:
  "fst (run_state (resolveChain (static_env answer) ref ns depth visited) s) = Inr chain \<longleftrightarrow>
     (\<exists>up. ancestry answer ns ref up \<and> admissible_line depth visited up \<and> chain = rev (map snd up))"
proof (induction "static_env answer :: 'a api" ref ns depth visited arbitrary: s chain
    rule: resolveChain.induct)
  case (1 ref ns depth visited)
  obtain w l where s: "s = (w, l)" by (cases s)
  obtain r s' where run: "run_state (fetchTemplate (static_env answer) ref ns) s = (r, s')"
    and r: "case fetched answer ns ref of Some t \<Rightarrow> r = Inr t | None \<Rightarrow> isl r"
    using fetch_static [of answer ref ns w l] s by blast
  show ?case
  proof (cases "depth < MaxInheritanceDepth \<and> template_key ref \<notin> visited")
    case False
    then show ?thesis
      by (subst resolveChain.simps, subst ancestry_iff) (auto simp: admissible_Cons)
  next
    case ok: True
    show ?thesis
    proof (cases "fetched answer ns ref")
      case None
      then show ?thesis using r run ok
        by (subst resolveChain.simps, subst ancestry_iff)
          (auto simp: run_bind isl_def)
    next
      case (Some t)
      obtain spec v where t: "t = (spec, v)" by (cases t)
      define e where "e = \<lparr>re_name = tr_name ref, re_version = v, re_spec = spec\<rparr>"
      show ?thesis
      proof (cases "tpl_inherits spec")
        case None
        then show ?thesis using r run ok Some t
          by (subst resolveChain.simps, subst ancestry_iff)
            (auto simp: run_bind admissible_Cons admissible_line_def)
      next
        case (Some parent)
        let ?rec = "resolveChain (static_env answer) parent ns (depth + 1)
                      (insert (template_key ref) visited)"
        have IH: "fst (run_state ?rec s') = Inr c \<longleftrightarrow>
            (\<exists>up. ancestry answer ns parent up
               \<and> admissible_line (depth + 1) (insert (template_key ref) visited) up
               \<and> c = rev (map snd up))" for c
          using "1.hyps" ok \<open>fetched answer ns ref = Some t\<close> t r Some by simp
        have "fst (run_state (resolveChain (static_env answer) ref ns depth visited) s) = Inr chain
            \<longleftrightarrow> (\<exists>c. fst (run_state ?rec s') = Inr c \<and> chain = c @ [e])"
          using r run ok \<open>fetched answer ns ref = Some t\<close> t Some
          by (subst resolveChain.simps) (auto simp: e_def split: sum.splits prod.splits)
        also have "\<dots> \<longleftrightarrow> (\<exists>up. ancestry answer ns ref up
            \<and> admissible_line depth visited up \<and> chain = rev (map snd up))"
          unfolding IH using \<open>fetched answer ns ref = Some t\<close> t Some ok
          by (subst (2) ancestry_iff) (auto simp: admissible_Cons e_def)
        finally show ?thesis .
      qed
    qed
  qed
qed

text \<open>Whatever the server answers, a resolution ends after at most ten fetches.\<close>

lemma fetch_calls:
  "wp (fetchTemplate E ref ns) (\<lambda>_ s'. length (snd s') \<le> length (snd s) + 1) s"
  by (cases s) (simp add: fetchTemplate_def Let_def wp)

lemma resolveChain_calls:
  "wp (resolveChain E ref ns depth visited)
     (\<lambda>_ s'. length (snd s') \<le> length (snd s) + (MaxInheritanceDepth - depth)) s"
proof (induction E ref ns depth visited arbitrary: s rule: resolveChain.induct)
  case (1 E ref ns depth visited)
  show ?case
  proof (cases "depth < MaxInheritanceDepth \<and> template_key ref \<notin> visited")
    case False
    then show ?thesis by (subst resolveChain.simps) (auto simp: wp)
  next
    case True
    define N where "N = length (snd s) + (MaxInheritanceDepth - depth)"
    have N: "length (snd s) + 1 \<le> N"
      using True unfolding N_def by linarith
    have fetch: "wp (fetchTemplate E ref ns) (\<lambda>_ s'. length (snd s') \<le> length (snd s) + 1) s"
      by (rule fetch_calls)
    have parent: "wp (resolveChain E parent ns (Suc depth) (insert (template_key ref) visited))
        (\<lambda>_ s''. length (snd s'') \<le> N) s'"
      if "length (snd s') \<le> length (snd s) + 1" "tpl_inherits spec = Some parent"
      for spec :: sandbox_template_spec and parent s'
    proof -
      have "wp (resolveChain E parent ns (depth + 1) (insert (template_key ref) visited))
          (\<lambda>_ s''. length (snd s'') \<le> length (snd s') + (MaxInheritanceDepth - (depth + 1))) s'"
        using "1.IH" [OF _ _ refl that(2)] True by simp
      then show ?thesis
        unfolding Suc_eq_plus1 by (rule wp_mono) (use that(1) True N_def in linarith)
    qed
    show ?thesis
      unfolding N_def [symmetric] using True N by (subst resolveChain.simps)
        (auto simp: wp Let_def split: sum.splits option.splits intro!: wp_mono [OF fetch] parent)
  qed
qed

section \<open>What merging means\<close>

text \<open>The value that the last layer with a value gives: the nearest to the child.\<close>

fun nearest :: "('a \<Rightarrow> 'b option) \<Rightarrow> 'a list \<Rightarrow> 'b option" where
  "nearest f [] = None"
| "nearest f (x # xs) = (case nearest f xs of None \<Rightarrow> f x | Some y \<Rightarrow> Some y)"

definition nonempty :: "'a list \<Rightarrow> 'a list option" where
  "nonempty xs = (if xs = [] then None else Some xs)"

lemma nearest_snoc: "nearest f (xs @ [x]) = override (f x) (nearest f xs)"
  by (induction xs) (auto simp: override_def split: option.split)

lemma nearest_single [simp]: "nearest f [x] = f x"
  by simp

lemma nonempty_override: "nonempty (override_list c p) = override (nonempty c) (nonempty p)"
  by (auto simp: nonempty_def override_list_def override_def)

lemma mergeChain_single: "mergeChain [e] = re_spec e"
  by (simp add: mergeChain_def)

lemma mergeChain_snoc:
  "chain \<noteq> [] \<Longrightarrow> mergeChain (chain @ [e]) = mergeTemplateSpecs (mergeChain chain) (re_spec e)"
  by (cases chain) (simp_all add: mergeChain_def)

lemma nonempty_chain_induct [consumes 1, case_names single snoc]:
  assumes "xs \<noteq> []" "\<And>x. P [x]" "\<And>xs x. xs \<noteq> [] \<Longrightarrow> P xs \<Longrightarrow> P (xs @ [x])"
  shows "P xs"
  using assms(1)
proof (induction xs rule: rev_induct)
  case Nil
  then show ?case by simp
next
  case (snoc x xs)
  show ?case
    using assms(2) [of x] assms(3) [OF _ snoc.IH, of x] by (cases "xs = []") simp_all
qed

text \<open>A field in which the child overrides holds the nearest value of the chain; an
  additive field holds the concatenation.\<close>

lemma override_field:
  fixes f :: "sandbox_template_spec \<Rightarrow> 'a option"
  assumes "chain \<noteq> []"
    and "\<And>p c. f (mergeTemplateSpecs p c) = override (f c) (f p)"
  shows "f (mergeChain chain) = nearest (f \<circ> re_spec) chain"
  using assms(1)
  by (induction chain rule: nonempty_chain_induct)
    (simp_all add: mergeChain_single mergeChain_snoc nearest_snoc assms(2) del: nearest.simps(2))

lemma additive_field:
  fixes f :: "sandbox_template_spec \<Rightarrow> 'a list"
  assumes "chain \<noteq> []"
    and "\<And>p c. f (mergeTemplateSpecs p c) = f p @ f c"
  shows "f (mergeChain chain) = concat (map (f \<circ> re_spec) chain)"
  using assms(1)
  by (induction chain rule: nonempty_chain_induct)
    (simp_all add: mergeChain_single mergeChain_snoc assms(2))

lemma chain_env:
  assumes "chain \<noteq> []"
  shows "key_map ev_name (tpl_env (mergeChain chain))
       = foldl (++) Map.empty (map (key_map ev_name \<circ> tpl_env \<circ> re_spec) chain)"
  using assms
  by (induction chain rule: nonempty_chain_induct)
    (simp_all add: mergeChain_single mergeChain_snoc mergeTemplateSpecs_def env_merge.merge_override)

lemma chain_files:
  assumes "chain \<noteq> []"
  shows "key_map file_path (tpl_files (mergeChain chain))
       = foldl (++) Map.empty (map (key_map file_path \<circ> tpl_files \<circ> re_spec) chain)"
  using assms
  by (induction chain rule: nonempty_chain_induct)
    (simp_all add: mergeChain_single mergeChain_snoc mergeTemplateSpecs_def file_merge.merge_override)

lemma chain_env_distinct:
  assumes "chain \<noteq> []" "\<forall>e \<in> set chain. distinct (map ev_name (tpl_env (re_spec e)))"
  shows "distinct (map ev_name (tpl_env (mergeChain chain)))"
  using assms
  by (induction chain rule: nonempty_chain_induct)
    (auto simp: mergeChain_single mergeChain_snoc mergeTemplateSpecs_def
      intro: env_merge.merge_distinct)

text \<open>Fields of the harness, and of the agent in it, where there is one.\<close>

definition in_harness :: "(harness_spec \<Rightarrow> 'a option) \<Rightarrow> sandbox_template_spec \<Rightarrow> 'a option" where
  "in_harness f t = Option.bind (tpl_harness t) f"

definition in_agent :: "(agent_spec \<Rightarrow> 'a option) \<Rightarrow> sandbox_template_spec \<Rightarrow> 'a option" where
  "in_agent f = in_harness (\<lambda>h. Option.bind (har_agent h) f)"

definition all_in_harness :: "(harness_spec \<Rightarrow> 'a list) \<Rightarrow> sandbox_template_spec \<Rightarrow> 'a list" where
  "all_in_harness f t = (case tpl_harness t of None \<Rightarrow> [] | Some h \<Rightarrow> f h)"

definition agent_env :: "sandbox_template_spec \<Rightarrow> env_var list" where
  "agent_env = all_in_harness (\<lambda>h. case har_agent h of None \<Rightarrow> [] | Some a \<Rightarrow> ag_env a)"

definition set_mode :: "sandbox_mode \<Rightarrow> sandbox_mode option" where
  "set_mode m = (if m = ModeUnset then None else Some m)"

lemma harness_field:
  fixes f :: "harness_spec \<Rightarrow> 'a option"
  assumes "chain \<noteq> []" and f: "\<And>p c. f (mergeHarness p c) = override (f c) (f p)"
  shows "in_harness f (mergeChain chain) = nearest (in_harness f \<circ> re_spec) chain"
proof (rule override_field [OF assms(1)])
  show "in_harness f (mergeTemplateSpecs p c) = override (in_harness f c) (in_harness f p)" for p c
    by (auto simp: in_harness_def mergeTemplateSpecs_def f override_def split: option.split)
qed

lemma harness_list:
  fixes f :: "harness_spec \<Rightarrow> 'a list"
  assumes "chain \<noteq> []" and f: "\<And>p c. f (mergeHarness p c) = f p @ f c"
  shows "all_in_harness f (mergeChain chain) = concat (map (all_in_harness f \<circ> re_spec) chain)"
proof (rule additive_field [OF assms(1)])
  show "all_in_harness f (mergeTemplateSpecs p c) = all_in_harness f p @ all_in_harness f c" for p c
    by (auto simp: all_in_harness_def mergeTemplateSpecs_def f split: option.split)
qed

lemma agent_field:
  fixes f :: "agent_spec \<Rightarrow> 'a option"
  assumes "chain \<noteq> []" and f: "\<And>p c. f (mergeAgent p c) = override (f c) (f p)"
  shows "in_agent f (mergeChain chain) = nearest (in_agent f \<circ> re_spec) chain"
  unfolding in_agent_def
  by (rule harness_field [OF assms(1)]) (auto simp: mergeHarness_def f override_def split: option.split)

lemma chain_harness_fields:
  assumes "chain \<noteq> []"
  shows "in_harness (nonempty \<circ> har_command) (mergeChain chain) = nearest (in_harness (nonempty \<circ> har_command) \<circ> re_spec) chain"
    "in_harness (nonempty \<circ> har_args) (mergeChain chain) = nearest (in_harness (nonempty \<circ> har_args) \<circ> re_spec) chain"
    "in_harness (nonempty \<circ> har_working_dir) (mergeChain chain) = nearest (in_harness (nonempty \<circ> har_working_dir) \<circ> re_spec) chain"
    "in_harness (nonempty \<circ> har_shell) (mergeChain chain) = nearest (in_harness (nonempty \<circ> har_shell) \<circ> re_spec) chain"
    "in_harness har_system_prompt (mergeChain chain) = nearest (in_harness har_system_prompt \<circ> re_spec) chain"
    "in_harness har_hooks (mergeChain chain) = nearest (in_harness har_hooks \<circ> re_spec) chain"
    "in_harness har_constraints (mergeChain chain) = nearest (in_harness har_constraints \<circ> re_spec) chain"
    "in_harness har_use_http_exec (mergeChain chain) = nearest (in_harness har_use_http_exec \<circ> re_spec) chain"
    "all_in_harness har_tools (mergeChain chain) = concat (map (all_in_harness har_tools \<circ> re_spec) chain)"
    "all_in_harness har_skills (mergeChain chain) = concat (map (all_in_harness har_skills \<circ> re_spec) chain)"
  by (rule harness_field [OF assms] harness_list [OF assms]; simp add: mergeHarness_def nonempty_override)+

lemma chain_agent_fields:
  assumes "chain \<noteq> []"
  shows "in_agent (nonempty \<circ> ag_entrypoint) (mergeChain chain) = nearest (in_agent (nonempty \<circ> ag_entrypoint) \<circ> re_spec) chain"
    "in_agent (nonempty \<circ> ag_install) (mergeChain chain) = nearest (in_agent (nonempty \<circ> ag_install) \<circ> re_spec) chain"
    "in_agent (nonempty \<circ> ag_working_dir) (mergeChain chain) = nearest (in_agent (nonempty \<circ> ag_working_dir) \<circ> re_spec) chain"
    "in_agent ag_max_concurrent (mergeChain chain) = nearest (in_agent ag_max_concurrent \<circ> re_spec) chain"
    "in_agent ag_default_timeout (mergeChain chain) = nearest (in_agent ag_default_timeout \<circ> re_spec) chain"
  by (rule agent_field [OF assms]; simp add: mergeAgent_def nonempty_override override_def nonempty_def)+

lemma chain_agent_env:
  assumes "chain \<noteq> []"
  shows "key_map ev_name (agent_env (mergeChain chain))
       = foldl (++) Map.empty (map (key_map ev_name \<circ> agent_env \<circ> re_spec) chain)"
proof -
  have none: "key_map ev_name [] = Map.empty" by (simp add: key_map_def)
  have "key_map ev_name (agent_env (mergeTemplateSpecs p c)) = key_map ev_name (agent_env p) ++ key_map ev_name (agent_env c)"
    for p c
    by (auto simp: agent_env_def all_in_harness_def mergeTemplateSpecs_def mergeHarness_def mergeAgent_def
        env_merge.merge_override none split: option.split)
  with assms show ?thesis
    by (induction chain rule: nonempty_chain_induct) (simp_all add: mergeChain_single mergeChain_snoc)
qed

lemma chain_mode:
  assumes "chain \<noteq> []"
  shows "set_mode (tpl_mode (mergeChain chain)) = nearest (set_mode \<circ> tpl_mode \<circ> re_spec) chain"
  using override_field [of chain "set_mode \<circ> tpl_mode", OF assms]
  by (simp add: mergeTemplateSpecs_def set_mode_def override_def comp_assoc)

lemma chain_description:
  assumes "chain \<noteq> []"
  shows "nonempty (tpl_description (mergeChain chain))
       = nearest (nonempty \<circ> tpl_description \<circ> re_spec) chain"
  using override_field [of chain "nonempty \<circ> tpl_description", OF assms]
  by (simp add: mergeTemplateSpecs_def nonempty_override comp_assoc)

lemma merge_service_account: "tpl_service_account (mergeChain chain)
    = (case chain of [] \<Rightarrow> [] | root # _ \<Rightarrow> tpl_service_account (re_spec root))"
proof (cases "chain = []")
  case True
  then show ?thesis by (simp add: mergeChain_def empty_template_spec_def)
next
  case False
  then show ?thesis
    by (induction chain rule: nonempty_chain_induct)
      (auto simp: mergeChain_single mergeChain_snoc mergeTemplateSpecs_def split: list.split)
qed

section \<open>Properties\<close>

text \<open>C14. A template reference resolves to a chain exactly when its line of descent
  exists on the server, has at most ten members, and no reference occurs in it twice;
  the chain is then that line, root first. So every acyclic inheritance of depth up to ten
  resolves, and a missing ancestor, a cycle or an eleventh level is an error.\<close>

theorem resolve_exactly_lines_of_descent:
  "fst (run_state (resolveChain (static_env answer) ref ns 0 {}) s) = Inr chain \<longleftrightarrow>
     (\<exists>up. ancestry answer ns ref up
        \<and> length up \<le> 10 \<and> distinct (map (template_key \<circ> fst) up)
        \<and> chain = rev (map snd up))"
  by (auto simp: resolveChain_iff admissible_line_def MaxInheritanceDepth_def)

text \<open>C30. Whatever the API server answers, cyclic references included, resolving a
  reference makes at most ten calls to it.\<close>

theorem resolve_makes_at_most_ten_calls:
  "wp (Resolve E ref ns) (\<lambda>_ s'. length (snd s') \<le> length (snd s) + 10) s"
proof (cases ref)
  case None
  then show ?thesis by (simp add: Resolve_def wp)
next
  case (Some rf)
  then show ?thesis
    using resolveChain_calls [of E rf ns 0 "{}" s]
    by (simp add: Resolve_def wp MaxInheritanceDepth_def)
qed

text \<open>C18. The merged chain follows the override rules, field by field. A scalar field of the template,
  of its harness and of the agent in it holds the value of the template nearest to the child that sets
  it, the mode included; side-cars, init containers, credentials, init scripts, tools and skills are
  those of all templates, root first; the environments, of the template and of the agent, and the files
  are the override of all layers by name and by path. Left out are the reference to the parent and the
  service account, which no rule merges: the merged template has those of the root.\<close>

theorem chain_merge_rules:
  assumes "chain \<noteq> []"
  defines "m \<equiv> mergeChain chain"
  shows "tpl_image m = nearest (tpl_image \<circ> re_spec) chain
    \<and> tpl_resources m = nearest (tpl_resources \<circ> re_spec) chain
    \<and> tpl_storage m = nearest (tpl_storage \<circ> re_spec) chain
    \<and> tpl_network m = nearest (tpl_network \<circ> re_spec) chain
    \<and> tpl_timeout m = nearest (tpl_timeout \<circ> re_spec) chain
    \<and> tpl_idle_timeout m = nearest (tpl_idle_timeout \<circ> re_spec) chain
    \<and> tpl_runtime_class m = nearest (tpl_runtime_class \<circ> re_spec) chain
    \<and> tpl_security m = nearest (tpl_security \<circ> re_spec) chain
    \<and> nonempty (tpl_description m) = nearest (nonempty \<circ> tpl_description \<circ> re_spec) chain
    \<and> set_mode (tpl_mode m) = nearest (set_mode \<circ> tpl_mode \<circ> re_spec) chain
    \<and> tpl_sidecars m = concat (map (tpl_sidecars \<circ> re_spec) chain)
    \<and> tpl_init_containers m = concat (map (tpl_init_containers \<circ> re_spec) chain)
    \<and> tpl_credentials m = concat (map (tpl_credentials \<circ> re_spec) chain)
    \<and> tpl_init_scripts m = concat (map (tpl_init_scripts \<circ> re_spec) chain)
    \<and> key_map ev_name (tpl_env m)
        = foldl (++) Map.empty (map (key_map ev_name \<circ> tpl_env \<circ> re_spec) chain)
    \<and> key_map file_path (tpl_files m)
        = foldl (++) Map.empty (map (key_map file_path \<circ> tpl_files \<circ> re_spec) chain)
    \<and> in_harness (nonempty \<circ> har_command) m = nearest (in_harness (nonempty \<circ> har_command) \<circ> re_spec) chain
    \<and> in_harness (nonempty \<circ> har_args) m = nearest (in_harness (nonempty \<circ> har_args) \<circ> re_spec) chain
    \<and> in_harness (nonempty \<circ> har_working_dir) m = nearest (in_harness (nonempty \<circ> har_working_dir) \<circ> re_spec) chain
    \<and> in_harness (nonempty \<circ> har_shell) m = nearest (in_harness (nonempty \<circ> har_shell) \<circ> re_spec) chain
    \<and> in_harness har_system_prompt m = nearest (in_harness har_system_prompt \<circ> re_spec) chain
    \<and> in_harness har_hooks m = nearest (in_harness har_hooks \<circ> re_spec) chain
    \<and> in_harness har_constraints m = nearest (in_harness har_constraints \<circ> re_spec) chain
    \<and> in_harness har_use_http_exec m = nearest (in_harness har_use_http_exec \<circ> re_spec) chain
    \<and> all_in_harness har_tools m = concat (map (all_in_harness har_tools \<circ> re_spec) chain)
    \<and> all_in_harness har_skills m = concat (map (all_in_harness har_skills \<circ> re_spec) chain)
    \<and> in_agent (nonempty \<circ> ag_entrypoint) m = nearest (in_agent (nonempty \<circ> ag_entrypoint) \<circ> re_spec) chain
    \<and> in_agent (nonempty \<circ> ag_install) m = nearest (in_agent (nonempty \<circ> ag_install) \<circ> re_spec) chain
    \<and> in_agent (nonempty \<circ> ag_working_dir) m = nearest (in_agent (nonempty \<circ> ag_working_dir) \<circ> re_spec) chain
    \<and> in_agent ag_max_concurrent m = nearest (in_agent ag_max_concurrent \<circ> re_spec) chain
    \<and> in_agent ag_default_timeout m = nearest (in_agent ag_default_timeout \<circ> re_spec) chain
    \<and> key_map ev_name (agent_env m)
        = foldl (++) Map.empty (map (key_map ev_name \<circ> agent_env \<circ> re_spec) chain)"
  unfolding m_def
  by (intro conjI chain_harness_fields [OF assms(1)] chain_agent_fields [OF assms(1)] chain_agent_env [OF assms(1)]
      chain_description [OF assms(1)] chain_mode [OF assms(1)] chain_env [OF assms(1)] chain_files [OF assms(1)]
      override_field [OF assms(1)] additive_field [OF assms(1)])
    (simp_all add: mergeTemplateSpecs_def)


definition base_template :: sandbox_template_spec where
  "base_template = empty_template_spec
     \<lparr>tpl_env := [plain_env ''A'' ''base'', plain_env ''B'' ''base''], tpl_init_scripts := [''one''],
      tpl_runtime_class := Some ''gvisor'', tpl_service_account := ''base-sa''\<rparr>"

definition child_template :: sandbox_template_spec where
  "child_template = empty_template_spec
     \<lparr>tpl_env := [plain_env ''B'' ''child''], tpl_init_scripts := [''two''],
      tpl_service_account := ''child-sa''\<rparr>"

definition sample_chain :: "resolved_entry list" where
  "sample_chain = [\<lparr>re_name = ''base'', re_version = ''1'', re_spec = base_template\<rparr>,
                   \<lparr>re_name = ''child'', re_version = ''2'', re_spec = child_template\<rparr>]"

theorem chain_merge_rules_witness:
  "tpl_runtime_class (mergeChain sample_chain) = Some ''gvisor''
     \<and> tpl_init_scripts (mergeChain sample_chain) = [''one'', ''two'']
     \<and> key_map ev_name (tpl_env (mergeChain sample_chain)) ''B'' = Some (plain_env ''B'' ''child'')"
proof -
  have "sample_chain \<noteq> []" by (simp add: sample_chain_def)
  note rules = chain_merge_rules [OF this]
  have "tpl_runtime_class (mergeChain sample_chain) = Some ''gvisor''"
    using rules by (simp add: sample_chain_def base_template_def child_template_def empty_template_spec_def)
  moreover have "tpl_init_scripts (mergeChain sample_chain) = [''one'', ''two'']"
    using rules by (simp add: sample_chain_def base_template_def child_template_def empty_template_spec_def)
  moreover have "key_map ev_name (tpl_env (mergeChain sample_chain)) ''B'' = Some (plain_env ''B'' ''child'')"
    using rules by (simp add: sample_chain_def base_template_def child_template_def
        empty_template_spec_def key_map_def plain_env_def)
  ultimately show ?thesis by simp
qed

text \<open>The pod configuration takes each field from the sandbox if it sets it, else
  from the resolved template, else from the controller's default; the sandbox's
  environment overrides the template's name by name, and only the memory side-car's own
  variable comes on top of both.\<close>

theorem sandbox_over_template_over_default:
  "(let c = MergeSandboxWithTemplate PQ sb t d;
        memory = (\<exists>x. d = Some x \<and> cd_memory_sidecar x \<noteq> []) \<and> spec_mode sb = SandboxModeAgent
    in nearest id [Some (case d of None \<Rightarrow> [] | Some x \<Rightarrow> cd_image x),
                   map_option img_repository (Option.bind t tpl_image),
                   map_option img_repository (spec_image sb)] = Some (mc_image c)
     \<and> mc_resources c = nearest id [Option.bind d cd_resources, Option.bind t tpl_resources, spec_resources sb]
     \<and> nearest id [Some defaultMountPath,
                   Option.bind (Option.bind t tpl_storage) (nonempty \<circ> stor_mount_path),
                   Option.bind (spec_storage sb) (nonempty \<circ> stor_mount_path)] = Some (mc_mount_path c)
     \<and> mc_runtime_class c = nearest id [Option.bind t tpl_runtime_class, spec_runtime_class sb]
     \<and> nonempty (mc_service_account c)
         = nearest id [Option.bind t (nonempty \<circ> tpl_service_account), nonempty (spec_service_account sb)]
     \<and> nearest id [Some False, map_option sec_privileged (Option.bind t tpl_security),
                   map_option sec_privileged (spec_security sb)] = Some (mc_privileged c)
     \<and> (\<forall>k. key_map ev_name (mc_env c) k =
          (if memory \<and> k = ''MEM0_BASE_URL'' then Some (plain_env k ''http://localhost:8000'')
           else (key_map ev_name (case t of None \<Rightarrow> [] | Some x \<Rightarrow> tpl_env x)
                   ++ key_map ev_name (spec_env sb)) k)))"
proof -
  have env: "key_map ev_name [plain_env n v] = [n \<mapsto> plain_env n v]" for n v
    by (simp add: key_map_def plain_env_def)
  show ?thesis
    unfolding Let_def MergeSandboxWithTemplate_def
    by (intro conjI allI; cases t;
        simp add: nonempty_def env_merge.merge_override env split: option.split Option.bind_split)
qed

end
