(* ===== verification/Governance.thy ===== *)
theory Governance
  imports Api_Calls
begin

text \<open>
  Governance (\<open>pkg/governance/policy.go\<close>, \<open>pkg/governance/engine.go\<close>): the policy
  store in a ConfigMap, the effective policy of a namespace, usage counting and the
  checks of a proposed sandbox. Go's \<open>time.ParseDuration\<close>, which reads the caps an
  administrator writes, is modelled from its documentation and source; the
  quantity parser \<open>resource.ParseQuantity\<close> is the parameter \<open>PQ\<close>.
\<close>

section \<open>time.ParseDuration\<close>

definition is_digit :: "char \<Rightarrow> bool" where
  "is_digit c \<longleftrightarrow> c \<in> set ''0123456789''"

definition digit_value :: "char \<Rightarrow> nat" where
  "digit_value c = of_char c - 48"

text \<open>\<open>leadingInt\<close>: digits up to the first other character; None when the value leaves
  the range.\<close>

fun leadingInt :: "nat \<Rightarrow> string \<Rightarrow> (nat \<times> string) option" where
  "leadingInt x [] = Some (x, [])"
| "leadingInt x (c # cs) =
     (if \<not> is_digit c then Some (x, c # cs)
      else if x > 2 ^ 63 div 10 then None
      else if x * 10 + digit_value c > 2 ^ 63 then None
      else leadingInt (x * 10 + digit_value c) cs)"

text \<open>\<open>leadingFraction\<close>: digits beyond the precision are read and dropped.\<close>

fun leadingFraction :: "nat \<Rightarrow> nat \<Rightarrow> bool \<Rightarrow> string \<Rightarrow> nat \<times> nat \<times> string" where
  "leadingFraction x scale overflow [] = (x, scale, [])"
| "leadingFraction x scale overflow (c # cs) =
     (if \<not> is_digit c then (x, scale, c # cs)
      else if overflow then leadingFraction x scale True cs
      else if x > (2 ^ 63 - 1) div 10 then leadingFraction x scale True cs
      else if x * 10 + digit_value c > 2 ^ 63 then leadingFraction x scale True cs
      else leadingFraction (x * 10 + digit_value c) (scale * 10) False cs)"

fun unitMap :: "string \<Rightarrow> nat option" where
  "unitMap u =
     (if u = ''ns'' then Some 1
      else if u \<in> {''us'', [CHR 0xC2, CHR 0xB5] @ ''s'', [CHR 0xCE, CHR 0xBC] @ ''s''} then Some 1000
      else if u = ''ms'' then Some 1000000
      else if u = ''s'' then Some 1000000000
      else if u = ''m'' then Some 60000000000
      else if u = ''h'' then Some 3600000000000
      else None)"

text \<open>One number with its unit: its value in nanoseconds and the rest of the text. The
  fraction is taken exactly; Go computes it in floating point.\<close>

definition parse_component :: "string \<Rightarrow> (nat \<times> string) option" where
  "parse_component s =
     (case leadingInt 0 s of
        None \<Rightarrow> None
      | Some (v, s1) \<Rightarrow>
          (let pre = (length s1 \<noteq> length s);
               frac = (case s1 of
                         c # s2 \<Rightarrow>
                           if c = CHR ''.'' then
                             (case leadingFraction 0 1 False s2 of
                                (f, scale, s3) \<Rightarrow> (f, scale, s3, length s3 \<noteq> length s2))
                           else (0, 1, s1, False)
                       | [] \<Rightarrow> (0, 1, s1, False))
           in case frac of
                (f, scale, s3, post) \<Rightarrow>
                  if \<not> pre \<and> \<not> post then None
                  else (let u = takeWhile (\<lambda>c. c \<noteq> CHR ''.'' \<and> \<not> is_digit c) s3;
                            rest = dropWhile (\<lambda>c. c \<noteq> CHR ''.'' \<and> \<not> is_digit c) s3
                        in if u = [] then None
                           else (case unitMap u of
                                   None \<Rightarrow> None
                                 | Some unit \<Rightarrow>
                                     if v > 2 ^ 63 div unit then None
                                     else (let v' = v * unit + (f * unit) div scale
                                           in if v' > 2 ^ 63 then None else Some (v', rest))))))"

lemma leadingInt_length: "leadingInt x s = Some (v, s') \<Longrightarrow> length s' \<le> length s"
  by (induction x s rule: leadingInt.induct) (auto split: if_splits)

lemma leadingFraction_length:
  "leadingFraction x sc ov s = (f, sc', s') \<Longrightarrow> length s' \<le> length s"
  by (induction x sc ov s rule: leadingFraction.induct) (auto split: if_splits)

lemma parse_component_length:
  assumes "parse_component s = Some (v, rest)"
  shows "length rest < length s"
proof -
  obtain n s1 where s1: "leadingInt 0 s = Some (n, s1)"
    using assms by (auto simp: parse_component_def split: option.splits)
  have shorter: "length (dropWhile P s3) < length s3" if "takeWhile P s3 \<noteq> []" for P and s3 :: string
    using that by (cases s3) (auto simp: length_dropWhile_le le_imp_less_Suc split: if_splits)
  have le1: "length s1 \<le> length s" using leadingInt_length [OF s1] .
  show ?thesis
  proof (cases "\<exists>s2. s1 = CHR ''.'' # s2")
    case True
    then obtain s2 f sc s3 where s2: "s1 = CHR ''.'' # s2" "leadingFraction 0 1 False s2 = (f, sc, s3)"
      using prod_cases3 by metis
    then have "length s3 \<le> length s2" using leadingFraction_length by blast
    moreover have "length rest \<le> length s3"
      using assms s1 s2 by (auto simp: parse_component_def Let_def length_dropWhile_le split: if_splits option.splits)
    ultimately show ?thesis using le1 s2 by simp
  next
    case False
    then have "rest = dropWhile (\<lambda>c. c \<noteq> CHR ''.'' \<and> \<not> is_digit c) s1"
      "takeWhile (\<lambda>c. c \<noteq> CHR ''.'' \<and> \<not> is_digit c) s1 \<noteq> []"
      using assms s1 by (auto simp: parse_component_def Let_def split: if_splits option.splits list.splits)
    with shorter le1 show ?thesis by fastforce
  qed
qed

function parse_components :: "nat \<Rightarrow> string \<Rightarrow> nat option" where
  "parse_components d s =
     (if s = [] then Some d
      else if \<not> (hd s = CHR ''.'' \<or> is_digit (hd s)) then None
      else case parse_component s of
             None \<Rightarrow> None
           | Some (v, rest) \<Rightarrow> if d + v > 2 ^ 63 then None else parse_components (d + v) rest)"
  by pat_completeness auto

termination
  by (relation "measure (length \<circ> snd)") (auto simp: parse_component_length)

declare parse_components.simps [simp del]

definition ParseDuration :: "string \<Rightarrow> duration option" where
  "ParseDuration s =
     (let neg = (s \<noteq> [] \<and> hd s = CHR ''-'');
          s' = (if s \<noteq> [] \<and> (hd s = CHR ''-'' \<or> hd s = CHR ''+'') then tl s else s)
      in if s' = ''0'' then Some 0
         else if s' = [] then None
         else case parse_components 0 s' of
                None \<Rightarrow> None
              | Some d \<Rightarrow>
                  if neg then Some (- int d)
                  else if d > 2 ^ 63 - 1 then None
                  else Some (int d))"

section \<open>Policies\<close>

definition IsEmpty :: "policy \<Rightarrow> bool" where
  "IsEmpty p \<longleftrightarrow>
     pol_max_per_user p = 0 \<and> pol_max_total p = 0 \<and> pol_max_cpu p = [] \<and> pol_max_memory p = []
       \<and> pol_max_storage p = [] \<and> pol_max_timeout p = [] \<and> pol_max_idle_timeout p = []
       \<and> pol_allowed_templates p = [] \<and> pol_approved_registries p = [] \<and> pol_max_agents p = 0
       \<and> pol_allowed_agent_images p = [] \<and> pol_max_concurrent_invokes p = 0"

definition mergePolicies :: "policy \<Rightarrow> policy \<Rightarrow> policy" where
  "mergePolicies parent child = parent
     \<lparr>pol_max_per_user :=
        (if pol_max_per_user child \<noteq> 0 then pol_max_per_user child else pol_max_per_user parent),
      pol_max_total := (if pol_max_total child \<noteq> 0 then pol_max_total child else pol_max_total parent),
      pol_max_cpu := (if pol_max_cpu child \<noteq> [] then pol_max_cpu child else pol_max_cpu parent),
      pol_max_memory :=
        (if pol_max_memory child \<noteq> [] then pol_max_memory child else pol_max_memory parent),
      pol_max_storage :=
        (if pol_max_storage child \<noteq> [] then pol_max_storage child else pol_max_storage parent),
      pol_max_timeout :=
        (if pol_max_timeout child \<noteq> [] then pol_max_timeout child else pol_max_timeout parent),
      pol_max_idle_timeout :=
        (if pol_max_idle_timeout child \<noteq> [] then pol_max_idle_timeout child
         else pol_max_idle_timeout parent),
      pol_allowed_templates :=
        (if pol_allowed_templates child \<noteq> [] then pol_allowed_templates child
         else pol_allowed_templates parent),
      pol_approved_registries :=
        (if pol_approved_registries child \<noteq> [] then pol_approved_registries child
         else pol_approved_registries parent),
      pol_description :=
        (if pol_description child \<noteq> [] then pol_description child else pol_description parent)\<rparr>"

section \<open>The policy store\<close>

definition ConfigMapName :: string where "ConfigMapName = ''agenttier-governance''"
definition ConfigMapNamespace :: string where "ConfigMapNamespace = ''agenttier''"
definition clusterPolicyKey :: string where "clusterPolicyKey = ''__cluster__''"

definition scope_key :: "string \<Rightarrow> string" where
  "scope_key scope = (if scope = [] then clusterPolicyKey else scope)"

text \<open>The table of policies: Go's \<open>map[string]Policy\<close> as an association list without
  double keys.\<close>

type_synonym policy_table = "(string \<times> policy) list"

fun table_lookup :: "policy_table \<Rightarrow> string \<Rightarrow> policy" where
  "table_lookup t k = (case map_of t k of None \<Rightarrow> empty_policy | Some p \<Rightarrow> p)"

definition table_put :: "string \<Rightarrow> policy \<Rightarrow> policy_table \<Rightarrow> policy_table" where
  "table_put k p t = (k, p) # filter (\<lambda>(k', _). k' \<noteq> k) t"

definition table_remove :: "string \<Rightarrow> policy_table \<Rightarrow> policy_table" where
  "table_remove k t = filter (\<lambda>(k', _). k' \<noteq> k) t"

definition load :: "'w api \<Rightarrow> ('w, string + policy_table \<times> string) kprog" where
  "load E = do {
     r \<leftarrow> ask E (GetConfigMap ConfigMapNamespace ConfigMapName) as_config_map;
     ret (case r of
            Inl NotFound \<Rightarrow> Inr ([], [])
          | Inl e \<Rightarrow> Inl (''load governance configmap: '' @ err_text e)
          | Inr cm \<Rightarrow>
              (case cm_data cm ''policies'' of
                 None \<Rightarrow> Inr ([], cm_version cm)
               | Some (PolicyDoc t) \<Rightarrow> Inr (t, cm_version cm)
               | Some (MalformedDoc raw) \<Rightarrow>
                   if raw = [] then Inr ([], cm_version cm)
                   else Inl ''parse governance configmap''
               | Some _ \<Rightarrow> Inl ''parse governance configmap''))
   }"

definition governance_map :: "policy_table \<Rightarrow> string \<Rightarrow> config_map" where
  "governance_map t v =
     \<lparr>cm_name = ConfigMapName, cm_namespace = ConfigMapNamespace, cm_labels = Map.empty, cm_owner = None,
      cm_data = [''policies'' \<mapsto> PolicyDoc t], cm_version = v\<rparr>"

definition save_update :: "'w api \<Rightarrow> config_map \<Rightarrow> ('w, string + unit) kprog" where
  "save_update E cm = do {
     u \<leftarrow> ask E (UpdateConfigMap cm) as_config_map;
     ret (case u of
            Inl e \<Rightarrow> Inl (''update governance configmap: '' @ err_text e)
          | Inr _ \<Rightarrow> Inr ())
   }"

definition save :: "'w api \<Rightarrow> policy_table \<Rightarrow> string \<Rightarrow> ('w, string + unit) kprog" where
  "save E policies resourceVersion =
     (if resourceVersion = [] then do {
        c \<leftarrow> ask E (CreateConfigMap (governance_map policies [])) as_config_map;
        (case c of
           Inr _ \<Rightarrow> ret (Inr ())
         | Inl AlreadyExists \<Rightarrow> do {
             g \<leftarrow> ask E (GetConfigMap ConfigMapNamespace ConfigMapName) as_config_map;
             (case g of
                Inl e \<Rightarrow> ret (Inl (''reload governance configmap: '' @ err_text e))
              | Inr cm \<Rightarrow> save_update E (cm\<lparr>cm_data := [''policies'' \<mapsto> PolicyDoc policies]\<rparr>))
           }
         | Inl e \<Rightarrow> ret (Inl (''create governance configmap: '' @ err_text e)))
      } else save_update E (governance_map policies resourceVersion))"

definition ListPolicies :: "'w api \<Rightarrow> ('w, string + (string \<times> policy) list) kprog" where
  "ListPolicies E = do {
     r \<leftarrow> load E;
     ret (case r of
            Inl e \<Rightarrow> Inl e
          | Inr (t, _) \<Rightarrow>
              Inr ((case map_of t clusterPolicyKey of None \<Rightarrow> [] | Some p \<Rightarrow> [([], p)])
                   @ filter (\<lambda>(k, _). k \<noteq> clusterPolicyKey) t))
   }"

definition GetPolicy :: "'w api \<Rightarrow> string \<Rightarrow> ('w, string + policy) kprog" where
  "GetPolicy E scope = do {
     r \<leftarrow> load E;
     ret (case r of Inl e \<Rightarrow> Inl e | Inr (t, _) \<Rightarrow> Inr (table_lookup t (scope_key scope)))
   }"

definition SetPolicy :: "'w api \<Rightarrow> string \<Rightarrow> policy \<Rightarrow> ('w, string + unit) kprog" where
  "SetPolicy E scope p = do {
     r \<leftarrow> load E;
     (case r of
        Inl e \<Rightarrow> ret (Inl e)
      | Inr (t, rv) \<Rightarrow> save E (table_put (scope_key scope) p t) rv)
   }"

definition DeletePolicy :: "'w api \<Rightarrow> string \<Rightarrow> ('w, string + unit) kprog" where
  "DeletePolicy E scope = do {
     r \<leftarrow> load E;
     (case r of
        Inl e \<Rightarrow> ret (Inl e)
      | Inr (t, rv) \<Rightarrow> save E (table_remove (scope_key scope) t) rv)
   }"

definition ResolvePolicy :: "'w api \<Rightarrow> string \<Rightarrow> ('w, string + policy) kprog" where
  "ResolvePolicy E namespace = do {
     c \<leftarrow> GetPolicy E [];
     (case c of
        Inl e \<Rightarrow> ret (Inl e)
      | Inr cluster \<Rightarrow>
          if namespace = [] then ret (Inr cluster)
          else do {
            n \<leftarrow> GetPolicy E namespace;
            ret (case n of Inl e \<Rightarrow> Inl e | Inr ns \<Rightarrow> Inr (mergePolicies cluster ns))
          })
   }"

section \<open>Usage\<close>

text \<open>Counts of objects in memory; they stay far below the range of \<open>int\<close>.\<close>

record usage =
  us_total :: nat
  us_user :: nat
  us_agent :: nat

definition count_one :: "string \<Rightarrow> usage \<Rightarrow> sandbox \<Rightarrow> usage" where
  "count_one userSub u sb =
     (if sb_phase sb = SandboxPhaseDeleting \<or> sb_phase sb = SandboxPhaseError then u
      else u\<lparr>us_total := us_total u + 1,
             us_user :=
               (case spec_created_by (sb_spec sb) of
                  Some c \<Rightarrow> if uid_sub c = userSub then us_user u + 1 else us_user u
                | None \<Rightarrow> us_user u),
             us_agent :=
               (if spec_mode (sb_spec sb) = SandboxModeAgent then us_agent u + 1 else us_agent u)\<rparr>)"

definition CountUsage :: "sandbox list \<Rightarrow> string \<Rightarrow> usage" where
  "CountUsage items userSub =
     foldl (count_one userSub) \<lparr>us_total = 0, us_user = 0, us_agent = 0\<rparr> items"

section \<open>Checks\<close>

record violation =
  vio_code :: string
  vio_message :: string

definition violations_text :: "violation list \<Rightarrow> string" where
  "violations_text vs = str_join ''; '' (map vio_message vs)"

definition hasRegistryPrefix :: "string \<Rightarrow> string list \<Rightarrow> bool" where
  "hasRegistryPrefix img registries \<longleftrightarrow> (\<exists>p \<in> set registries. p \<noteq> [] \<and> has_prefix img p)"

definition exceedsQuantity :: "(string \<Rightarrow> quantity option) \<Rightarrow> quantity \<Rightarrow> string \<Rightarrow> bool" where
  "exceedsQuantity PQ got capStr =
     (case PQ capStr of None \<Rightarrow> False | Some capQ \<Rightarrow> q_value got > q_value capQ)"

definition exceedsDuration :: "duration \<Rightarrow> string \<Rightarrow> bool" where
  "exceedsDuration got capStr =
     (case ParseDuration capStr of
        None \<Rightarrow> False
      | Some cap \<Rightarrow> if got = 0 then True else got > cap)"

definition over_quantity ::
  "(string \<Rightarrow> quantity option) \<Rightarrow> quantity option \<Rightarrow> string \<Rightarrow> string \<Rightarrow> string \<Rightarrow> violation list" where
  "over_quantity PQ got cap code what =
     (case got of
        None \<Rightarrow> []
      | Some q \<Rightarrow>
          if cap \<noteq> [] \<and> exceedsQuantity PQ q cap
          then [\<lparr>vio_code = code,
                 vio_message = what @ '' '' @ q_text q @ '' exceeds governance cap '' @ cap\<rparr>]
          else [])"

definition over_duration :: "duration option \<Rightarrow> string \<Rightarrow> string \<Rightarrow> string \<Rightarrow> violation list" where
  "over_duration got cap code what =
     (case got of
        None \<Rightarrow> []
      | Some d \<Rightarrow>
          if cap \<noteq> [] \<and> exceedsDuration d cap
          then [\<lparr>vio_code = code,
                 vio_message = what @ '' '' @ show_duration d @ '' exceeds governance cap '' @ cap\<rparr>]
          else [])"

definition limit_in :: "string \<Rightarrow> resource_requirements option \<Rightarrow> quantity option" where
  "limit_in res rr = Option.bind rr (\<lambda>r. rr_limits r res)"

definition CheckResourceLimits :: "(string \<Rightarrow> quantity option) \<Rightarrow> policy \<Rightarrow> sandbox \<Rightarrow> violation list" where
  "CheckResourceLimits PQ p sb =
     over_quantity PQ (limit_in ''cpu'' (spec_resources (sb_spec sb))) (pol_max_cpu p)
       ''cpu_limit_exceeded'' ''cpu limit''
     @ over_quantity PQ (limit_in ''memory'' (spec_resources (sb_spec sb))) (pol_max_memory p)
         ''memory_limit_exceeded'' ''memory limit''
     @ over_quantity PQ
         (case spec_storage (sb_spec sb) of
            None \<Rightarrow> None
          | Some st \<Rightarrow> if quantity_is_zero (stor_size st) then None else Some (stor_size st))
         (pol_max_storage p) ''storage_limit_exceeded'' ''storage size''
     @ over_duration (spec_timeout (sb_spec sb)) (pol_max_timeout p) ''timeout_exceeded'' ''timeout''
     @ over_duration (spec_idle_timeout (sb_spec sb)) (pol_max_idle_timeout p)
         ''idle_timeout_exceeded'' ''idleTimeout''"

text \<open>The image repository that a sandbox overrides, if any.\<close>

definition image_override :: "sandbox \<Rightarrow> string option" where
  "image_override sb =
     (case spec_image (sb_spec sb) of
        None \<Rightarrow> None
      | Some i \<Rightarrow> if img_repository i = [] then None else Some (img_repository i))"

definition Check ::
  "(string \<Rightarrow> quantity option) \<Rightarrow> policy \<Rightarrow> usage \<Rightarrow> sandbox \<Rightarrow> violation list" where
  "Check PQ p u sb =
     (case spec_template (sb_spec sb) of
        Some t \<Rightarrow>
          if pol_allowed_templates p \<noteq> [] \<and> tr_name t \<notin> set (pol_allowed_templates p)
          then [\<lparr>vio_code = ''template_not_allowed'',
                 vio_message = ''template '' @ show_quoted (tr_name t)
                   @ '' is not permitted in this namespace (allowed: ''
                   @ str_join '', '' (pol_allowed_templates p) @ '')''\<rparr>]
          else []
      | None \<Rightarrow> [])
     @ (case image_override sb of
          Some repo \<Rightarrow>
            if pol_approved_registries p \<noteq> [] \<and> \<not> hasRegistryPrefix repo (pol_approved_registries p)
            then [\<lparr>vio_code = ''image_registry_not_approved'',
                   vio_message = ''image '' @ show_quoted repo @ '' is not in an approved registry (''
                     @ str_join '', '' (pol_approved_registries p) @ '')''\<rparr>]
            else []
        | None \<Rightarrow> [])
     @ (if pol_max_total p > 0 \<and> int (us_total u) \<ge> pol_max_total p
        then [\<lparr>vio_code = ''namespace_quota_exceeded'',
               vio_message = ''namespace already has '' @ show_nat (us_total u)
                 @ '' sandboxes (max '' @ show_int (pol_max_total p) @ '')''\<rparr>]
        else [])
     @ (if pol_max_per_user p > 0 \<and> int (us_user u) \<ge> pol_max_per_user p
        then [\<lparr>vio_code = ''user_quota_exceeded'',
               vio_message = ''user already owns '' @ show_nat (us_user u)
                 @ '' sandboxes in this namespace (max '' @ show_int (pol_max_per_user p) @ '')''\<rparr>]
        else [])
     @ (if spec_mode (sb_spec sb) = SandboxModeAgent \<and> pol_max_agents p > 0
             \<and> int (us_agent u) \<ge> pol_max_agents p
        then [\<lparr>vio_code = ''agent_sandbox_quota_exceeded'',
               vio_message = ''namespace already has '' @ show_nat (us_agent u)
                 @ '' agent-mode sandboxes (max '' @ show_int (pol_max_agents p) @ '')''\<rparr>]
        else [])
     @ (case image_override sb of
          Some repo \<Rightarrow>
            if spec_mode (sb_spec sb) = SandboxModeAgent \<and> pol_allowed_agent_images p \<noteq> []
                 \<and> \<not> hasRegistryPrefix repo (pol_allowed_agent_images p)
            then [\<lparr>vio_code = ''agent_image_not_approved'',
                   vio_message = ''agent image '' @ show_quoted repo
                     @ '' is not in the approved-agent-images list (''
                     @ str_join '', '' (pol_allowed_agent_images p) @ '')''\<rparr>]
            else []
        | None \<Rightarrow> [])
     @ CheckResourceLimits PQ p sb"

definition CheckBulk :: "policy \<Rightarrow> usage \<Rightarrow> nat \<Rightarrow> nat \<Rightarrow> violation list" where
  "CheckBulk p u n agentN =
     (if pol_max_total p > 0 \<and> int (us_total u + n) > pol_max_total p
      then [\<lparr>vio_code = ''namespace_quota_exceeded'',
             vio_message = ''namespace has '' @ show_nat (us_total u) @ '' sandboxes; creating ''
               @ show_nat n @ '' more would exceed the max of '' @ show_int (pol_max_total p)\<rparr>]
      else [])
     @ (if pol_max_per_user p > 0 \<and> int (us_user u + n) > pol_max_per_user p
        then [\<lparr>vio_code = ''user_quota_exceeded'',
               vio_message = ''user owns '' @ show_nat (us_user u)
                 @ '' sandboxes in this namespace; creating '' @ show_nat n
                 @ '' more would exceed the max of '' @ show_int (pol_max_per_user p)\<rparr>]
        else [])
     @ (if pol_max_agents p > 0 \<and> agentN > 0 \<and> int (us_agent u + agentN) > pol_max_agents p
        then [\<lparr>vio_code = ''agent_sandbox_quota_exceeded'',
               vio_message = ''namespace has '' @ show_nat (us_agent u)
                 @ '' agent-mode sandboxes; creating '' @ show_nat agentN
                 @ '' more would exceed the max of '' @ show_int (pol_max_agents p)\<rparr>]
        else [])"

text \<open>\<open>int32(...)\<close> keeps the low 32 bits of the configured ceiling.\<close>

definition ClampConcurrency :: "policy \<Rightarrow> int \<Rightarrow> int" where
  "ClampConcurrency p requested =
     (if pol_max_concurrent_invokes p \<le> 0 then requested
      else (let ceiling = wrap32 (pol_max_concurrent_invokes p)
            in if requested = 0 \<or> requested > ceiling then ceiling else requested))"


section \<open>Lemmas on durations\<close>

lemma digit_char_facts:
  assumes "d < 10"
  shows "is_digit (digit_char d)" "digit_value (digit_char d) = d"
proof -
  have "d \<in> {0, 1, 2, 3, 4, 5, 6, 7, 8, 9}" using assms by auto
  then show "is_digit (digit_char d)" "digit_value (digit_char d) = d"
    by (elim insertE emptyE; simp add: is_digit_def digit_char_def digit_value_def)+
qed

lemma leadingInt_show_nat:
  "n \<le> 2 ^ 63 \<Longrightarrow> leadingInt 0 (show_nat n @ rest) = leadingInt n rest"
proof (induction n arbitrary: rest rule: show_nat.induct)
  case (1 n)
  show ?case
  proof (cases "n < 10")
    case True
    then show ?thesis by (subst show_nat.simps) (simp add: digit_char_facts)
  next
    case False
    have "n div 10 \<le> 2 ^ 63 div 10" using "1.prems" by (rule div_le_mono)
    moreover have "show_nat n = show_nat (n div 10) @ [digit_char (n mod 10)]"
      using False by (subst show_nat.simps) simp
    moreover have "n div 10 * 10 + n mod 10 = n" by simp
    ultimately show ?thesis
      using "1.IH" [OF False, of "digit_char (n mod 10) # rest"] "1.prems"
      by (simp add: digit_char_facts)
  qed
qed

lemma hd_show_nat: "show_nat n \<noteq> [] \<and> is_digit (hd (show_nat n))"
proof (induction n rule: show_nat.induct)
  case (1 n)
  then show ?case
    by (subst (1 2) show_nat.simps) (auto simp: digit_char_facts)
qed

section \<open>Lemmas on policies\<close>

text \<open>The rules a sandbox has to obey, each with its code, in the order of the checks.\<close>

definition governance_rules ::
  "(string \<Rightarrow> quantity option) \<Rightarrow> policy \<Rightarrow> usage \<Rightarrow> sandbox \<Rightarrow> (string \<times> bool) list" where
  "governance_rules PQ p u sb =
     [(''template_not_allowed'',
         pol_allowed_templates p \<noteq> []
           \<and> (\<exists>t. spec_template (sb_spec sb) = Some t \<and> tr_name t \<notin> set (pol_allowed_templates p))),
      (''image_registry_not_approved'',
         pol_approved_registries p \<noteq> []
           \<and> (\<exists>r. image_override sb = Some r \<and> \<not> hasRegistryPrefix r (pol_approved_registries p))),
      (''namespace_quota_exceeded'', pol_max_total p > 0 \<and> int (us_total u) \<ge> pol_max_total p),
      (''user_quota_exceeded'', pol_max_per_user p > 0 \<and> int (us_user u) \<ge> pol_max_per_user p),
      (''agent_sandbox_quota_exceeded'',
         spec_mode (sb_spec sb) = SandboxModeAgent \<and> pol_max_agents p > 0
           \<and> int (us_agent u) \<ge> pol_max_agents p),
      (''agent_image_not_approved'',
         spec_mode (sb_spec sb) = SandboxModeAgent \<and> pol_allowed_agent_images p \<noteq> []
           \<and> (\<exists>r. image_override sb = Some r \<and> \<not> hasRegistryPrefix r (pol_allowed_agent_images p))),
      (''cpu_limit_exceeded'',
         pol_max_cpu p \<noteq> []
           \<and> (\<exists>q cap. limit_in ''cpu'' (spec_resources (sb_spec sb)) = Some q
                \<and> PQ (pol_max_cpu p) = Some cap \<and> q_value q > q_value cap)),
      (''memory_limit_exceeded'',
         pol_max_memory p \<noteq> []
           \<and> (\<exists>q cap. limit_in ''memory'' (spec_resources (sb_spec sb)) = Some q
                \<and> PQ (pol_max_memory p) = Some cap \<and> q_value q > q_value cap)),
      (''storage_limit_exceeded'',
         pol_max_storage p \<noteq> []
           \<and> (\<exists>st cap. spec_storage (sb_spec sb) = Some st \<and> q_value (stor_size st) \<noteq> 0
                \<and> PQ (pol_max_storage p) = Some cap \<and> q_value (stor_size st) > q_value cap)),
      (''timeout_exceeded'',
         pol_max_timeout p \<noteq> []
           \<and> (\<exists>d cap. spec_timeout (sb_spec sb) = Some d \<and> ParseDuration (pol_max_timeout p) = Some cap
                \<and> (d = 0 \<or> d > cap))),
      (''idle_timeout_exceeded'',
         pol_max_idle_timeout p \<noteq> []
           \<and> (\<exists>d cap. spec_idle_timeout (sb_spec sb) = Some d
                \<and> ParseDuration (pol_max_idle_timeout p) = Some cap \<and> (d = 0 \<or> d > cap)))]"

lemma over_quantity_codes:
  "map vio_code (over_quantity PQ got cap code what) =
     (if cap \<noteq> [] \<and> (\<exists>q c. got = Some q \<and> PQ cap = Some c \<and> q_value q > q_value c) then [code] else [])"
  by (auto simp: over_quantity_def exceedsQuantity_def split: option.splits)

lemma over_duration_codes:
  "map vio_code (over_duration got cap code what) =
     (if cap \<noteq> [] \<and> (\<exists>d c. got = Some d \<and> ParseDuration cap = Some c \<and> (d = 0 \<or> d > c))
      then [code] else [])"
  by (auto simp: over_duration_def exceedsDuration_def split: option.splits)

lemma rule_codes:
  "map fst (filter snd ((c, b) # rs)) = (if b then [c] else []) @ map fst (filter snd rs)"
  by simp

lemma storage_rule:
  "(\<exists>q c. (case spec_storage sp of None \<Rightarrow> None
          | Some st \<Rightarrow> if quantity_is_zero (stor_size st) then None else Some (stor_size st)) = Some q
        \<and> PQ cap = Some c \<and> q_value q > q_value c)
   \<longleftrightarrow> (\<exists>st c. spec_storage sp = Some st \<and> q_value (stor_size st) \<noteq> 0
        \<and> PQ cap = Some c \<and> q_value (stor_size st) > q_value c)"
  by (auto simp: quantity_is_zero_def split: option.splits if_splits)

lemma map_code_case:
  "map vio_code (case x of None \<Rightarrow> [] | Some t \<Rightarrow> if P t then [f t] else [])
     = (if \<exists>t. x = Some t \<and> P t then [vio_code (f (the x))] else [])"
  by (cases x) auto

lemma map_code_if: "map vio_code (if b then [v] else []) = (if b then [vio_code v] else [])"
  by simp

lemma Check_rules:
  "map vio_code (Check PQ p u sb) = map fst (filter snd (governance_rules PQ p u sb))"
proof -
  have image_rule: "(\<exists>r. x = Some r \<and> b \<and> P r) = (b \<and> (\<exists>r. x = Some r \<and> P r))"
    "(\<exists>r. x = Some r \<and> a \<and> b \<and> P r) = (a \<and> b \<and> (\<exists>r. x = Some r \<and> P r))"
    for x :: "string option" and a b P
    by blast+
  have template_rule: "(\<exists>r. x = Some r \<and> b \<and> P r) = (b \<and> (\<exists>r. x = Some r \<and> P r))"
    for x :: "template_reference option" and b P
    by blast
  show ?thesis
    unfolding Check_def CheckResourceLimits_def governance_rules_def map_append rule_codes
      over_quantity_codes over_duration_codes storage_rule map_code_case map_code_if
      image_rule template_rule
    by (simp only: violation.simps filter.simps list.map append_Nil2)
qed

definition quota_codes :: "string set" where
  "quota_codes = {''namespace_quota_exceeded'', ''user_quota_exceeded'', ''agent_sandbox_quota_exceeded''}"

lemma quota_codes_Check:
  "vio_code ` set (Check PQ p u sb) \<inter> quota_codes = {} \<longleftrightarrow>
     \<not> (pol_max_total p > 0 \<and> int (us_total u) \<ge> pol_max_total p)
       \<and> \<not> (pol_max_per_user p > 0 \<and> int (us_user u) \<ge> pol_max_per_user p)
       \<and> \<not> (spec_mode (sb_spec sb) = SandboxModeAgent \<and> pol_max_agents p > 0
             \<and> int (us_agent u) \<ge> pol_max_agents p)"
proof -
  have disj: "fst ` set (filter snd rs) \<inter> A = {} \<longleftrightarrow> (\<forall>r \<in> set rs. snd r \<longrightarrow> fst r \<notin> A)"
    for rs :: "(string \<times> bool) list" and A
    by auto
  have "vio_code ` set (Check PQ p u sb) = fst ` set (filter snd (governance_rules PQ p u sb))"
    using arg_cong [OF Check_rules, of set PQ p u sb] by simp
  then have "vio_code ` set (Check PQ p u sb) \<inter> quota_codes = {} \<longleftrightarrow>
      (\<forall>r \<in> set (governance_rules PQ p u sb). snd r \<longrightarrow> fst r \<notin> quota_codes)"
    by (simp only: disj)
  also have "\<dots> \<longleftrightarrow> \<not> (pol_max_total p > 0 \<and> int (us_total u) \<ge> pol_max_total p)
       \<and> \<not> (pol_max_per_user p > 0 \<and> int (us_user u) \<ge> pol_max_per_user p)
       \<and> \<not> (spec_mode (sb_spec sb) = SandboxModeAgent \<and> pol_max_agents p > 0
             \<and> int (us_agent u) \<ge> pol_max_agents p)"
    unfolding governance_rules_def quota_codes_def
    by (simp only: list.set ball_simps fst_conv snd_conv) (simp del: ex_simps)
  finally show ?thesis .
qed

text \<open>What counts towards a quota, as filters.\<close>

definition counted :: "sandbox \<Rightarrow> bool" where
  "counted sb \<longleftrightarrow> sb_phase sb \<noteq> SandboxPhaseDeleting \<and> sb_phase sb \<noteq> SandboxPhaseError"

definition owned_by :: "string \<Rightarrow> sandbox \<Rightarrow> bool" where
  "owned_by sub sb \<longleftrightarrow> (\<exists>c. spec_created_by (sb_spec sb) = Some c \<and> uid_sub c = sub)"

definition is_agent :: "sandbox \<Rightarrow> bool" where
  "is_agent sb \<longleftrightarrow> spec_mode (sb_spec sb) = SandboxModeAgent"

lemma count_one_eq:
  "count_one sub u sb =
     \<lparr>us_total = us_total u + (if counted sb then 1 else 0),
      us_user = us_user u + (if counted sb \<and> owned_by sub sb then 1 else 0),
      us_agent = us_agent u + (if counted sb \<and> is_agent sb then 1 else 0)\<rparr>"
  by (auto simp: count_one_def counted_def owned_by_def is_agent_def split: option.splits)

lemma foldl_count_one:
  "foldl (count_one sub) u sbs =
     \<lparr>us_total = us_total u + length (filter counted sbs),
      us_user = us_user u + length (filter (\<lambda>sb. counted sb \<and> owned_by sub sb) sbs),
      us_agent = us_agent u + length (filter (\<lambda>sb. counted sb \<and> is_agent sb) sbs)\<rparr>"
proof (induction sbs arbitrary: u)
  case Nil
  then show ?case by simp
next
  case (Cons sb sbs)
  show ?case
    unfolding foldl.simps Cons.IH
    by (simp add: count_one_eq)
qed

lemma CountUsage_eq:
  "CountUsage sbs sub =
     \<lparr>us_total = length (filter counted sbs),
      us_user = length (filter (\<lambda>sb. counted sb \<and> owned_by sub sb) sbs),
      us_agent = length (filter (\<lambda>sb. counted sb \<and> is_agent sb) sbs)\<rparr>"
  by (simp add: CountUsage_def foldl_count_one)


text \<open>Counting a list in two parts.\<close>

lemma length_filter_take_le: "length (filter P (take i xs)) \<le> length (filter P xs)"
  by (metis append_take_drop_id filter_append le_add1 length_append)

lemma length_filter_take_less:
  assumes "i < length xs" "P (xs ! i)"
  shows "length (filter P (take i xs)) < length (filter P xs)"
proof -
  have "filter P xs = filter P (take i xs) @ xs ! i # filter P (drop (Suc i) xs)"
    using assms id_take_nth_drop [OF assms(1)] by (metis filter.simps(2) filter_append)
  then show ?thesis by simp
qed

lemma CheckBulk_iff:
  "CheckBulk p u n agentN = [] \<longleftrightarrow>
     \<not> (pol_max_total p > 0 \<and> int (us_total u + n) > pol_max_total p)
       \<and> \<not> (pol_max_per_user p > 0 \<and> int (us_user u + n) > pol_max_per_user p)
       \<and> \<not> (pol_max_agents p > 0 \<and> agentN > 0 \<and> int (us_agent u + agentN) > pol_max_agents p)"
  by (simp add: CheckBulk_def)

lemma length_filter_all: "\<forall>x \<in> set xs. P x \<Longrightarrow> length (filter P xs) = length xs"
  by simp

text \<open>The last element with a property has all the others before it.\<close>

lemma last_match:
  assumes "filter P xs \<noteq> []"
  obtains i where "i < length xs" "P (xs ! i)"
    "length (filter P xs) = Suc (length (filter P (take i xs)))"
proof -
  obtain ys y zs where "xs = ys @ y # zs" "P y" "\<forall>z \<in> set zs. \<not> P z"
    using assms split_list_last_prop [of xs P] by (auto simp: filter_empty_conv)
  then show thesis using that [of "length ys"] by (simp add: nth_append)
qed

section \<open>The store as an interface\<close>

text \<open>What the rest of the program relies on: a scope reads back what was last written to
  it, other scopes are untouched, and a removed scope has the empty policy.\<close>

locale policy_store =
  fixes lookup :: "'s \<Rightarrow> string \<Rightarrow> policy"
    and put :: "string \<Rightarrow> policy \<Rightarrow> 's \<Rightarrow> 's"
    and remove :: "string \<Rightarrow> 's \<Rightarrow> 's"
  assumes lookup_put: "lookup (put k p s) k' = (if k' = k then p else lookup s k')"
    and lookup_remove: "lookup (remove k s) k' = (if k' = k then empty_policy else lookup s k')"
begin

definition effective :: "'s \<Rightarrow> string \<Rightarrow> policy" where
  "effective s ns =
     (if ns = [] then lookup s (scope_key ns)
      else mergePolicies (lookup s (scope_key [])) (lookup s (scope_key ns)))"

lemma effective_put_other:
  "k \<noteq> scope_key ns \<Longrightarrow> k \<noteq> scope_key [] \<Longrightarrow> effective (put k p s) ns = effective s ns"
  by (simp add: effective_def lookup_put)

lemma effective_put_own:
  "scope_key ns \<noteq> scope_key [] \<Longrightarrow>
     effective (put (scope_key ns) p s) ns = mergePolicies (lookup s (scope_key [])) p"
  by (auto simp: effective_def lookup_put)

lemma effective_remove_own:
  "scope_key ns \<noteq> scope_key [] \<Longrightarrow>
     effective (remove (scope_key ns) s) ns = mergePolicies (lookup s (scope_key [])) empty_policy"
  by (auto simp: effective_def lookup_remove)

end

lemma map_of_filter_key:
  "map_of (filter (\<lambda>(k', _). k' \<noteq> k) t) k' = (if k' = k then None else map_of t k')"
  by (induction t) auto

interpretation table: policy_store table_lookup table_put table_remove
  by unfold_locales (auto simp: table_put_def table_remove_def map_of_filter_key)

lemma merge_empty_policy: "mergePolicies p empty_policy = p"
  by (simp add: mergePolicies_def empty_policy_def)

text \<open>The API server's contract for the governance ConfigMap: \<open>cur\<close> reads the stored
  object out of the world, an update needs the current version, and every stored object
  has a version.\<close>

definition config_server :: "'w api \<Rightarrow> ('w \<Rightarrow> config_map option) \<Rightarrow> bool" where
  "config_server E cur \<longleftrightarrow>
     (\<forall>w. E w (GetConfigMap ConfigMapNamespace ConfigMapName)
            = ((case cur w of None \<Rightarrow> RErr NotFound | Some cm \<Rightarrow> RConfigMap cm), w))
     \<and> (\<forall>w cm. cur w = Some cm \<longrightarrow> cm_version cm \<noteq> [])
     \<and> (\<forall>w cm. cm_name cm = ConfigMapName \<and> cm_namespace cm = ConfigMapNamespace \<longrightarrow>
          (case cur w of
             Some _ \<Rightarrow> E w (CreateConfigMap cm) = (RErr AlreadyExists, w)
           | None \<Rightarrow> (\<exists>v w'. E w (CreateConfigMap cm) = (RConfigMap (cm\<lparr>cm_version := v\<rparr>), w')
                        \<and> cur w' = Some (cm\<lparr>cm_version := v\<rparr>))))
     \<and> (\<forall>w cm. cm_name cm = ConfigMapName \<and> cm_namespace cm = ConfigMapNamespace \<longrightarrow>
          (if \<exists>c. cur w = Some c \<and> cm_version c = cm_version cm then
             \<exists>v w'. E w (UpdateConfigMap cm) = (RConfigMap (cm\<lparr>cm_version := v\<rparr>), w')
               \<and> cur w' = Some (cm\<lparr>cm_version := v\<rparr>)
           else \<exists>e. E w (UpdateConfigMap cm) = (RErr e, w)))"

text \<open>The table that a stored object holds, if it is one this program can read.\<close>

fun table_of :: "config_map option \<Rightarrow> policy_table option" where
  "table_of None = Some []"
| "table_of (Some cm) =
     (case cm_data cm ''policies'' of
        None \<Rightarrow> Some []
      | Some (PolicyDoc t) \<Rightarrow> Some t
      | Some (MalformedDoc raw) \<Rightarrow> if raw = [] then Some [] else None
      | Some _ \<Rightarrow> None)"

lemma config_create:
  assumes "config_server E cur" "cur w = None"
    and "cm_name cm = ConfigMapName" "cm_namespace cm = ConfigMapNamespace"
  shows "\<exists>v w'. E w (CreateConfigMap cm) = (RConfigMap (cm\<lparr>cm_version := v\<rparr>), w')
                  \<and> cur w' = Some (cm\<lparr>cm_version := v\<rparr>)"
proof -
  have "case cur w of
             Some _ \<Rightarrow> E w (CreateConfigMap cm) = (RErr AlreadyExists, w)
           | None \<Rightarrow> (\<exists>v w'. E w (CreateConfigMap cm) = (RConfigMap (cm\<lparr>cm_version := v\<rparr>), w')
                        \<and> cur w' = Some (cm\<lparr>cm_version := v\<rparr>))"
    using assms(1,3,4) unfolding config_server_def by blast
  then show ?thesis by (simp only: assms(2) option.case)
qed

lemma config_update:
  assumes "config_server E cur" "cur w = Some c" "cm_version c = cm_version cm"
    and "cm_name cm = ConfigMapName" "cm_namespace cm = ConfigMapNamespace"
  shows "\<exists>v w'. E w (UpdateConfigMap cm) = (RConfigMap (cm\<lparr>cm_version := v\<rparr>), w')
                  \<and> cur w' = Some (cm\<lparr>cm_version := v\<rparr>)"
proof -
  have "if \<exists>c. cur w = Some c \<and> cm_version c = cm_version cm then
             \<exists>v w'. E w (UpdateConfigMap cm) = (RConfigMap (cm\<lparr>cm_version := v\<rparr>), w')
               \<and> cur w' = Some (cm\<lparr>cm_version := v\<rparr>)
           else \<exists>e. E w (UpdateConfigMap cm) = (RErr e, w)"
    using assms(1,4,5) unfolding config_server_def by blast
  moreover have "\<exists>c. cur w = Some c \<and> cm_version c = cm_version cm"
    using assms(2,3) by blast
  ultimately show ?thesis by (simp only: if_True)
qed

lemma load_table:
  assumes "config_server E cur" "table_of (cur w) = Some t"
  shows "\<exists>l'. run_state (load E) (w, l)
    = (Inr (t, case cur w of None \<Rightarrow> [] | Some cm \<Rightarrow> cm_version cm), (w, l'))"
proof -
  have "E w (GetConfigMap ConfigMapNamespace ConfigMapName)
            = ((case cur w of None \<Rightarrow> RErr NotFound | Some cm \<Rightarrow> RConfigMap cm), w)"
    using assms(1) by (simp add: config_server_def)
  then show ?thesis
    using assms(2) by (auto simp: load_def split: option.splits document.splits if_splits)
qed

lemma save_table:
  assumes srv: "config_server E cur"
  shows "\<exists>w' l' cm. run_state (save E t (case cur w of None \<Rightarrow> [] | Some cm \<Rightarrow> cm_version cm)) (w, l)
      = (Inr (), (w', l')) \<and> cur w' = Some cm \<and> table_of (Some cm) = Some t"
proof (cases "cur w")
  case None
  let ?cm = "governance_map t []"
  obtain v w' where "E w (CreateConfigMap ?cm) = (RConfigMap (?cm\<lparr>cm_version := v\<rparr>), w')"
    "cur w' = Some (?cm\<lparr>cm_version := v\<rparr>)"
    using config_create [OF srv None, of ?cm] by (auto simp: governance_map_def)
  with None show ?thesis by (simp add: save_def run_bind governance_map_def)
next
  case (Some c)
  have v: "cm_version c \<noteq> []" using srv Some unfolding config_server_def by blast
  let ?cm = "governance_map t (cm_version c)"
  have names: "cm_name ?cm = ConfigMapName" "cm_namespace ?cm = ConfigMapNamespace"
      "cm_version c = cm_version ?cm"
    by (simp_all add: governance_map_def)
  obtain v w' where "E w (UpdateConfigMap ?cm) = (RConfigMap (?cm\<lparr>cm_version := v\<rparr>), w')"
    "cur w' = Some (?cm\<lparr>cm_version := v\<rparr>)"
    using config_update [OF srv Some names(3,1,2)] by blast
  with Some v show ?thesis by (simp add: save_def save_update_def run_bind governance_map_def)
qed

lemma GetPolicy_table:
  assumes "config_server E cur" "table_of (cur w) = Some t"
  shows "\<exists>l'. run_state (GetPolicy E scope) (w, l) = (Inr (table_lookup t (scope_key scope)), (w, l'))"
  using load_table [OF assms, of l] by (auto simp: GetPolicy_def run_bind)

lemma ResolvePolicy_table:
  assumes "config_server E cur" "table_of (cur w) = Some t"
  shows "\<exists>l'. run_state (ResolvePolicy E ns) (w, l) = (Inr (table.effective t ns), (w, l'))"
proof -
  obtain l1 where 1: "run_state (GetPolicy E []) (w, l) = (Inr (table_lookup t (scope_key [])), (w, l1))"
    using GetPolicy_table [OF assms] by blast
  obtain l2 where 2: "run_state (GetPolicy E ns) (w, l1) = (Inr (table_lookup t (scope_key ns)), (w, l2))"
    using GetPolicy_table [OF assms] by blast
  show ?thesis using 1 2 by (simp add: ResolvePolicy_def run_bind table.effective_def)
qed

lemma SetPolicy_table:
  assumes "config_server E cur" "table_of (cur w) = Some t"
  shows "\<exists>w' l'. run_state (SetPolicy E scope p) (w, l) = (Inr (), (w', l'))
    \<and> table_of (cur w') = Some (table_put (scope_key scope) p t)"
proof -
  obtain l1 where 1: "run_state (load E) (w, l)
      = (Inr (t, case cur w of None \<Rightarrow> [] | Some cm \<Rightarrow> cm_version cm), (w, l1))"
    using load_table [OF assms] by blast
  obtain w' l' cm where 2: "run_state (save E (table_put (scope_key scope) p t)
        (case cur w of None \<Rightarrow> [] | Some cm \<Rightarrow> cm_version cm)) (w, l1) = (Inr (), (w', l'))"
    "cur w' = Some cm" "table_of (Some cm) = Some (table_put (scope_key scope) p t)"
    using save_table [OF assms(1)] by blast
  show ?thesis using 1 2 by (simp add: SetPolicy_def run_bind del: table_of.simps)
qed

lemma DeletePolicy_table:
  assumes "config_server E cur" "table_of (cur w) = Some t"
  shows "\<exists>w' l'. run_state (DeletePolicy E scope) (w, l) = (Inr (), (w', l'))
    \<and> table_of (cur w') = Some (table_remove (scope_key scope) t)"
proof -
  obtain l1 where 1: "run_state (load E) (w, l)
      = (Inr (t, case cur w of None \<Rightarrow> [] | Some cm \<Rightarrow> cm_version cm), (w, l1))"
    using load_table [OF assms] by blast
  obtain w' l' cm where 2: "run_state (save E (table_remove (scope_key scope) t)
        (case cur w of None \<Rightarrow> [] | Some cm \<Rightarrow> cm_version cm)) (w, l1) = (Inr (), (w', l'))"
    "cur w' = Some cm" "table_of (Some cm) = Some (table_remove (scope_key scope) t)"
    using save_table [OF assms(1)] by blast
  show ?thesis using 1 2 by (simp add: DeletePolicy_def run_bind del: table_of.simps)
qed


section \<open>Gaps of the merge and of the checks\<close>

text \<open>The three agent limits of a namespace policy never take effect: the merge keeps the
  cluster's.\<close>

lemma namespace_agent_limits_ignored:
  "pol_max_agents (mergePolicies cluster ns) = pol_max_agents cluster"
  "pol_allowed_agent_images (mergePolicies cluster ns) = pol_allowed_agent_images cluster"
  "pol_max_concurrent_invokes (mergePolicies cluster ns) = pol_max_concurrent_invokes cluster"
  by (simp_all add: mergePolicies_def)

text \<open>A registry prefix also approves a registry whose name only starts like it.\<close>

lemma registry_prefix_without_boundary:
  "hasRegistryPrefix ''ghcr.io/agenttier-other/x'' [''ghcr.io/agenttier'']"
  by (simp add: hasRegistryPrefix_def has_prefix_def)

text \<open>A ceiling of \<open>2 ^ 32\<close> clamps to 0, which means no limit.\<close>

lemma huge_ceiling_is_no_limit:
  "ClampConcurrency (empty_policy\<lparr>pol_max_concurrent_invokes := 2 ^ 32\<rparr>) 0 = 0"
  by (simp add: ClampConcurrency_def wrap32_def empty_policy_def)

text \<open>Two writers that both find no ConfigMap: the second one replaces the first one's
  policies, because the retry after the lost creation overwrites what it has just reloaded.\<close>

lemma create_race_overwrites:
  assumes "E w (CreateConfigMap (governance_map t [])) = (RErr AlreadyExists, w)"
    and "E w (GetConfigMap ConfigMapNamespace ConfigMapName) = (RConfigMap cm, w)"
  shows "UpdateConfigMap (cm\<lparr>cm_data := [''policies'' \<mapsto> PolicyDoc t]\<rparr>)
     \<in> fst ` set (snd (snd (run_state (save E t []) (w, l))))"
  using assms by (simp add: save_def save_update_def run_bind)

section \<open>Properties\<close>

text \<open>C13. The check of a proposed sandbox reports exactly the governance rules that it
  breaks, each once and in a fixed order: the reported codes are those of the broken rules
  among the eleven declarative rules. In particular it is silent exactly when no rule is
  broken.\<close>

theorem check_reports_broken_rules:
  "map vio_code (Check PQ p u sb) = map fst (filter snd (governance_rules PQ p u sb))"
  by (rule Check_rules)

text \<open>The whole-batch gate is exact: for a non-empty batch of new sandboxes of one
  owner, it lets the batch through if and only if creating them one after the other, each
  checked against the usage that its predecessors left, would never break a count quota.\<close>

theorem bulk_gate_exact:
  assumes "batch \<noteq> []"
    and "\<forall>sb \<in> set batch. sb_phase sb = PhaseUnset \<and> owned_by sub sb"
  shows "CheckBulk p (CountUsage existing sub) (length batch) (length (filter is_agent batch)) = []
    \<longleftrightarrow> (\<forall>i < length batch.
          vio_code ` set (Check PQ p (CountUsage (existing @ take i batch) sub) (batch ! i))
            \<inter> quota_codes = {})"
proof -
  let ?T = "length (filter counted existing)"
  let ?U = "length (filter (\<lambda>sb. counted sb \<and> owned_by sub sb) existing)"
  let ?A = "length (filter (\<lambda>sb. counted sb \<and> is_agent sb) existing)"
  have new: "counted sb" "owned_by sub sb" if "sb \<in> set (take i batch)" for sb i
    using assms(2) in_set_takeD [OF that] by (auto simp: counted_def)
  have usage: "CountUsage (existing @ take i batch) sub =
      \<lparr>us_total = ?T + i, us_user = ?U + i,
       us_agent = ?A + length (filter is_agent (take i batch))\<rparr>" if "i < length batch" for i
  proof -
    have "filter counted (take i batch) = take i batch"
      "filter (\<lambda>sb. counted sb \<and> owned_by sub sb) (take i batch) = take i batch"
      "filter (\<lambda>sb. counted sb \<and> is_agent sb) (take i batch) = filter is_agent (take i batch)"
      using new [of _ i] by (auto intro: filter_True filter_cong)
    then show ?thesis using that by (simp add: CountUsage_eq)
  qed
  define gate where "gate i \<longleftrightarrow>
      \<not> (pol_max_total p > 0 \<and> int (?T + i) \<ge> pol_max_total p)
      \<and> \<not> (pol_max_per_user p > 0 \<and> int (?U + i) \<ge> pol_max_per_user p)
      \<and> \<not> (is_agent (batch ! i) \<and> pol_max_agents p > 0
            \<and> int (?A + length (filter is_agent (take i batch))) \<ge> pol_max_agents p)" for i
  have gate: "vio_code ` set (Check PQ p (CountUsage (existing @ take i batch) sub) (batch ! i))
            \<inter> quota_codes = {} \<longleftrightarrow> gate i" if "i < length batch" for i
    using usage [OF that] by (simp add: quota_codes_Check gate_def is_agent_def)
  have bulk: "CheckBulk p (CountUsage existing sub) (length batch) (length (filter is_agent batch)) = []
      \<longleftrightarrow> (\<forall>i < length batch. gate i)"
  proof
    assume L: "CheckBulk p (CountUsage existing sub) (length batch) (length (filter is_agent batch)) = []"
    show "\<forall>i < length batch. gate i"
    proof (intro allI impI)
      fix i assume i: "i < length batch"
      have "length (filter is_agent (take i batch)) < length (filter is_agent batch)"
        if "is_agent (batch ! i)"
        using length_filter_take_less [of i batch is_agent, OF i that] .
      then show "gate i" using L i by (auto simp: gate_def CheckBulk_iff CountUsage_eq)
    qed
  next
    assume R: "\<forall>i < length batch. gate i"
    have "gate (length batch - 1)" using R assms(1) by simp
    moreover have "\<not> (pol_max_agents p > 0 \<and> filter is_agent batch \<noteq> []
        \<and> int (?A + length (filter is_agent batch)) > pol_max_agents p)"
    proof
      assume *: "pol_max_agents p > 0 \<and> filter is_agent batch \<noteq> []
        \<and> int (?A + length (filter is_agent batch)) > pol_max_agents p"
      then obtain i where i: "i < length batch" "is_agent (batch ! i)"
        "length (filter is_agent batch) = Suc (length (filter is_agent (take i batch)))"
        using last_match by blast
      from R i(1) have "gate i" by blast
      then have "int (?A + length (filter is_agent (take i batch))) < pol_max_agents p"
        using * i(2) unfolding gate_def by linarith
      with * i(3) show False by linarith
    qed
    ultimately show "CheckBulk p (CountUsage existing sub) (length batch) (length (filter is_agent batch)) = []"
      using assms(1) unfolding gate_def CheckBulk_iff CountUsage_eq
      by (cases batch) (simp_all, linarith?)
  qed
  show ?thesis unfolding bulk using gate by blast
qed

text \<open>With zero read as ``no limit'', the concurrency of a sandbox is clamped to the
  tighter of its own value and the policy's ceiling, as long as the ceiling fits 32 bits.\<close>

theorem clamp_is_tighter_limit:
  assumes "0 \<le> pol_max_concurrent_invokes p" "in32 (pol_max_concurrent_invokes p)" "0 \<le> requested"
  shows "limit_of (ClampConcurrency p requested)
       = min (limit_of requested) (limit_of (pol_max_concurrent_invokes p))"
proof (cases "pol_max_concurrent_invokes p = 0")
  case True
  then show ?thesis by (simp add: ClampConcurrency_def)
next
  case False
  have "wrap32 (pol_max_concurrent_invokes p) = pol_max_concurrent_invokes p"
    by (rule wrap32_id [OF assms(2)])
  then show ?thesis using assms False
    by (cases "requested = 0") (auto simp: ClampConcurrency_def Let_def)
qed

theorem clamp_is_tighter_limit_witness:
  "limit_of (ClampConcurrency (empty_policy\<lparr>pol_max_concurrent_invokes := 4\<rparr>) 10) = Limit 4"
proof -
  have "limit_of (ClampConcurrency (empty_policy\<lparr>pol_max_concurrent_invokes := 4\<rparr>) 10)
      = min (limit_of 10) (limit_of (pol_max_concurrent_invokes (empty_policy\<lparr>pol_max_concurrent_invokes := 4\<rparr>)))"
    by (rule clamp_is_tighter_limit) (simp_all add: empty_policy_def in32_def)
  then show ?thesis by (simp add: empty_policy_def)
qed

text \<open>The policy of each scope when \<open>p\<close> has been written to \<open>scope\<close> of a table.\<close>

definition with_policy :: "policy_table \<Rightarrow> string \<Rightarrow> policy \<Rightarrow> string \<Rightarrow> policy" where
  "with_policy t scope p s = (if scope_key s = scope_key scope then p else table_lookup t (scope_key s))"

text \<open>C16. A policy written to a scope, the cluster's included, is read back from it, and every other scope
  keeps its policy; the effective policy of a namespace is then the merge of the cluster's and the
  namespace's, and the cluster's own that of the cluster. Deleting the scope leaves it the empty policy and the
  others theirs. All of it goes through the ConfigMap of an API server that keeps its contract, with no
  other writer in between.\<close>

theorem policy_store_roundtrip:
  assumes "config_server E cur" "table_of (cur w) = Some t"
  shows "\<exists>w' l'. run_state (SetPolicy E scope p) (w, l) = (Inr (), (w', l'))
    \<and> (\<forall>s. fst (run_state (GetPolicy E s) (w', l')) = Inr (with_policy t scope p s))
    \<and> (\<forall>s. fst (run_state (ResolvePolicy E s) (w', l'))
          = Inr (if s = [] then with_policy t scope p []
                 else mergePolicies (with_policy t scope p []) (with_policy t scope p s)))
    \<and> (\<exists>s''. run_state (DeletePolicy E scope) (w', l') = (Inr (), s'')
          \<and> (\<forall>s. fst (run_state (GetPolicy E s) s'') = Inr (with_policy t scope empty_policy s)))"
proof -
  let ?t = "table_put (scope_key scope) p t"
  obtain w' l' where set: "run_state (SetPolicy E scope p) (w, l) = (Inr (), (w', l'))"
    "table_of (cur w') = Some ?t"
    using SetPolicy_table [OF assms(1,2)] by blast
  have lookup: "table_lookup ?t (scope_key s) = with_policy t scope p s" for s
    by (simp add: with_policy_def table.lookup_put del: table_lookup.simps)
  have get: "fst (run_state (GetPolicy E s) (w', l')) = Inr (with_policy t scope p s)" for s
    using GetPolicy_table [OF assms(1) set(2), of s l'] unfolding lookup by auto
  have res: "fst (run_state (ResolvePolicy E s) (w', l'))
          = Inr (if s = [] then with_policy t scope p []
                 else mergePolicies (with_policy t scope p []) (with_policy t scope p s))" for s
    using ResolvePolicy_table [OF assms(1) set(2), of s l'] by (auto simp: table.effective_def lookup simp del: table_lookup.simps)
  obtain w2 l2 where del: "run_state (DeletePolicy E scope) (w', l') = (Inr (), (w2, l2))"
    "table_of (cur w2) = Some (table_remove (scope_key scope) ?t)"
    using DeletePolicy_table [OF assms(1) set(2)] by blast
  have "fst (run_state (GetPolicy E s) (w2, l2)) = Inr (with_policy t scope empty_policy s)" for s
    using GetPolicy_table [OF assms(1) del(2), of s l2]
    by (auto simp: table.lookup_remove table.lookup_put with_policy_def simp del: table_lookup.simps)
  then show ?thesis using set(1) get res del(1) by blast
qed

text \<open>A small API server that holds just this object and lengthens its version with every
  write.\<close>

fun tiny_config_server :: "config_map option api" where
  "tiny_config_server w (GetConfigMap ns n) =
     ((if ns = ConfigMapNamespace \<and> n = ConfigMapName
       then (case w of None \<Rightarrow> RErr NotFound | Some cm \<Rightarrow> RConfigMap (cm\<lparr>cm_version := ''v'' @ cm_version cm\<rparr>))
       else RErr NotFound), w)"
| "tiny_config_server w (CreateConfigMap cm) =
     (case w of
        Some _ \<Rightarrow> (RErr AlreadyExists, w)
      | None \<Rightarrow> (RConfigMap (cm\<lparr>cm_version := ''v''\<rparr>), Some (cm\<lparr>cm_version := []\<rparr>)))"
| "tiny_config_server w (UpdateConfigMap cm) =
     (case w of
        None \<Rightarrow> (RErr NotFound, w)
      | Some c \<Rightarrow>
          if ''v'' @ cm_version c = cm_version cm
          then (RConfigMap (cm\<lparr>cm_version := ''v'' @ cm_version cm\<rparr>), Some cm)
          else (RErr Conflict, w))"
| "tiny_config_server w _ = (RErr (OtherErr ''not served''), w)"

lemma tiny_server_ok:
  "config_server tiny_config_server (map_option (\<lambda>cm. cm\<lparr>cm_version := ''v'' @ cm_version cm\<rparr>))"
  unfolding config_server_def by (auto split: option.splits)

definition four_agents :: policy where
  "four_agents = empty_policy\<lparr>pol_max_agents := 4\<rparr>"

theorem policy_store_roundtrip_witness:
  "\<exists>s'. run_state (SetPolicy tiny_config_server ''team-a'' four_agents) (None, []) = (Inr (), s')
    \<and> fst (run_state (GetPolicy tiny_config_server ''team-a'') s') = Inr four_agents
    \<and> fst (run_state (GetPolicy tiny_config_server ''team-b'') s') = Inr empty_policy
    \<and> pol_max_agents four_agents = 4"
proof -
  from policy_store_roundtrip [OF tiny_server_ok, where w = None and t = "[]" and scope = "''team-a''"
      and p = four_agents and l = "[]"]
  have "\<exists>s'. run_state (SetPolicy tiny_config_server ''team-a'' four_agents) (None, []) = (Inr (), s')
    \<and> (\<forall>s. fst (run_state (GetPolicy tiny_config_server s) s') = Inr (with_policy [] ''team-a'' four_agents s))"
    by force
  moreover have "with_policy [] ''team-a'' four_agents ''team-a'' = four_agents"
    "with_policy [] ''team-a'' four_agents ''team-b'' = empty_policy"
    by (simp_all add: with_policy_def scope_key_def)
  moreover have "pol_max_agents four_agents = 4" by (simp add: four_agents_def)
  ultimately show ?thesis by metis
qed

definition one_new_agent :: sandbox where
  "one_new_agent = new_sandbox ''ns'' ''a''
     (empty_spec\<lparr>spec_mode := SandboxModeAgent,
                 spec_created_by := Some \<lparr>uid_sub = ''u'', uid_email = [], uid_display = []\<rparr>\<rparr>)"

theorem bulk_gate_exact_witness:
  "CheckBulk (empty_policy\<lparr>pol_max_agents := 1\<rparr>) (CountUsage [] ''u'') 2 2 \<noteq> []
   \<and> \<not> (\<forall>i < 2. vio_code ` set (Check (\<lambda>_. None) (empty_policy\<lparr>pol_max_agents := 1\<rparr>)
            (CountUsage ([] @ take i [one_new_agent, one_new_agent]) ''u'')
            ([one_new_agent, one_new_agent] ! i)) \<inter> quota_codes = {})"
proof -
  let ?batch = "[one_new_agent, one_new_agent]"
  have hyps: "?batch \<noteq> []" "\<forall>sb \<in> set ?batch. sb_phase sb = PhaseUnset \<and> owned_by ''u'' sb"
    by (simp_all add: one_new_agent_def new_sandbox_def empty_status_def owned_by_def)
  have agents: "filter is_agent ?batch = ?batch"
    by (simp add: one_new_agent_def new_sandbox_def is_agent_def)
  have "CheckBulk (empty_policy\<lparr>pol_max_agents := 1\<rparr>) (CountUsage [] ''u'') 2 2 \<noteq> []"
    by (simp add: CheckBulk_iff CountUsage_eq)
  with bulk_gate_exact [OF hyps, of "empty_policy\<lparr>pol_max_agents := 1\<rparr>" "[]" "\<lambda>_. None"]
  show ?thesis unfolding agents by (simp add: numeral_2_eq_2)
qed

lemma unit_text:
  assumes "unitMap u = Some unit"
  shows "1 \<le> unit \<and> u \<noteq> [] \<and> (\<forall>c \<in> set u. c \<noteq> CHR ''.'' \<and> \<not> is_digit c)
    \<and> takeWhile (\<lambda>c. c \<noteq> CHR ''.'' \<and> \<not> is_digit c) u = u
    \<and> dropWhile (\<lambda>c. c \<noteq> CHR ''.'' \<and> \<not> is_digit c) u = []
    \<and> \<not> is_digit (hd u) \<and> hd u \<noteq> CHR ''.''"
proof -
  let ?us = "[CHR 0xC2, CHR 0xB5, CHR ''s'']" and ?vs = "[CHR 0xCE, CHR 0xBC, CHR ''s'']"
  have "u \<in> {''ns'', ''us'', ?us, ?vs, ''ms'', ''s'', ''m'', ''h''}"
    using assms by (simp split: if_split_asm) blast+
  then have clean: "u \<noteq> [] \<and> (\<forall>c \<in> set u. c \<noteq> CHR ''.'' \<and> \<not> is_digit c)"
    by (elim insertE emptyE; simp add: is_digit_def)
  moreover have "1 \<le> unit"
    using assms by (simp split: if_split_asm)
  ultimately show ?thesis by (simp add: takeWhile_eq_all_conv dropWhile_eq_Nil_conv)
qed

text \<open>A cap that an administrator writes as a whole number of one of Go's units is read
  as exactly that many nanoseconds, as long as it fits 63 bits; a bare number other than 0
  is rejected.\<close>

theorem whole_unit_caps_are_exact:
  assumes "unitMap u = Some unit" "n * unit \<le> 2 ^ 63 - 1"
  shows "ParseDuration (show_nat n @ u) = Some (int (n * unit))"
proof -
  have unit: "unit \<ge> 1" "u \<noteq> []"
    and clean: "takeWhile (\<lambda>c. c \<noteq> CHR ''.'' \<and> \<not> is_digit c) u = u"
      "dropWhile (\<lambda>c. c \<noteq> CHR ''.'' \<and> \<not> is_digit c) u = []"
    and hd_u: "\<not> is_digit (hd u)" "hd u \<noteq> CHR ''.''"
    using unit_text [OF assms(1)] by simp_all
  have n: "n \<le> 2 ^ 63" "n \<le> 2 ^ 63 div unit"
  proof -
    show "n \<le> 2 ^ 63 div unit"
      using assms(2) unit(1) by (subst less_eq_div_iff_mult_less_eq) auto
    then show "n \<le> 2 ^ 63" by (meson div_le_dividend le_trans)
  qed
  have lead: "leadingInt 0 (show_nat n @ u) = Some (n, u)"
    using leadingInt_show_nat [OF n(1), of u] hd_u(1) unit(2) by (cases u) simp_all
  have comp: "parse_component (show_nat n @ u) = Some (n * unit, [])"
  proof -
    obtain c cs where u: "u = c # cs" using unit(2) by (cases u) simp_all
    have "c \<noteq> CHR ''.''" using hd_u(2) u by simp
    then have frac: "(case u of c # s2 \<Rightarrow> if c = CHR ''.'' then
          (case leadingFraction 0 1 False s2 of (f, scale, s3) \<Rightarrow> (f, scale, s3, length s3 \<noteq> length s2))
          else (0, 1, u, False) | [] \<Rightarrow> (0, 1, u, False)) = (0, 1, u, False)"
      by (simp only: u list.case if_False)
    have pre: "length u \<noteq> length (show_nat n @ u)" using hd_show_nat [of n] by simp
    have "\<not> n > 2 ^ 63 div unit" "\<not> n * unit > 2 ^ 63" using n(2) assms(2) by simp_all
    then show ?thesis
      unfolding parse_component_def lead option.case prod.case Let_def frac clean assms(1)
      using pre unit(2) by simp
  qed
  have hd: "show_nat n @ u \<noteq> []" "is_digit (hd (show_nat n @ u))"
    using hd_show_nat [of n] by auto
  have sign: "hd (show_nat n @ u) \<noteq> CHR ''-''" "hd (show_nat n @ u) \<noteq> CHR ''+''"
    using hd(2) by (auto simp: is_digit_def)
  have zero: "show_nat n @ u \<noteq> ''0''"
    using hd_show_nat [of n] unit(2) by (cases "show_nat n"; cases u) auto
  have "parse_components 0 (show_nat n @ u) = Some (n * unit)"
    using hd comp assms(2) by (subst parse_components.simps) (auto simp: parse_components.simps)
  then show ?thesis
    using hd(1) sign zero assms(2) by (simp add: ParseDuration_def)
qed

theorem whole_unit_caps_are_exact_witness: "ParseDuration (show_nat 24 @ ''h'') = Some 86400000000000"
  using whole_unit_caps_are_exact [of "''h''" 3600000000000 24] by simp

end
