(* ===== verification/Admission.thy ===== *)
theory Admission
  imports Governance
begin

text \<open>
  The admission webhook (\<open>pkg/controller/webhook/sandbox_webhook.go\<close>): on create it
  stamps the authenticated user into the sandbox and runs the governance checks, on
  update it protects the immutable fields. The decoder belongs to controller-runtime;
  a request carries its result, an error text or the sandbox.
\<close>

datatype admission_operation = OpCreate | OpUpdate | OpOther

record admission_request =
  ar_operation :: admission_operation
  ar_username :: string
  ar_email :: "string list option"
  ar_object :: "string + sandbox"
  ar_old_object :: "string + sandbox"

datatype admission_response =
    Allowed
  | Patched sandbox
  | Denied string
  | Errored nat string

definition userInfoEmail :: "admission_request \<Rightarrow> string" where
  "userInfoEmail req = (case ar_email req of Some (v # _) \<Rightarrow> v | _ \<Rightarrow> [])"

definition templateName :: "sandbox \<Rightarrow> string" where
  "templateName sb = (case spec_template (sb_spec sb) of None \<Rightarrow> [] | Some t \<Rightarrow> tr_name t)"

definition stamp_creator :: "admission_request \<Rightarrow> sandbox \<Rightarrow> sandbox" where
  "stamp_creator req sb = sb\<lparr>sb_spec := (sb_spec sb)\<lparr>spec_created_by :=
     Some \<lparr>uid_sub = ar_username req, uid_email = userInfoEmail req, uid_display = ar_username req\<rparr>\<rparr>\<rparr>"

text \<open>\<open>store\<close> tells whether the handler was built with a policy store. Marshalling the
  API types back to JSON has no failing case.\<close>

definition handleCreate ::
  "(string \<Rightarrow> quantity option) \<Rightarrow> 'w api \<Rightarrow> bool \<Rightarrow> admission_request \<Rightarrow> ('w, admission_response) kprog" where
  "handleCreate PQ E store req =
     (case ar_object req of
        Inl e \<Rightarrow> ret (Errored 400 e)
      | Inr sandbox0 \<Rightarrow>
          (let sandbox = stamp_creator req sandbox0
           in if \<not> store then ret (Patched sandbox)
              else do {
                policy \<leftarrow> ResolvePolicy E (sb_namespace sandbox);
                (case policy of
                   Inl _ \<Rightarrow> ret (Patched sandbox)
                 | Inr p \<Rightarrow>
                     if IsEmpty p then ret (Patched sandbox)
                     else do {
                       existing \<leftarrow> ask E (ListSandboxes (sb_namespace sandbox)) as_sandboxes;
                       ret (case existing of
                              Inl e \<Rightarrow> Errored 500 (''failed to check namespace usage: '' @ err_text e)
                            | Inr items \<Rightarrow>
                                (let vio = Check PQ p (CountUsage items (ar_username req)) sandbox
                                 in if vio \<noteq> [] then Denied (''governance policy violation: '' @ violations_text vio)
                                    else Patched sandbox))
                     })
              }))"

fun mode_text :: "sandbox_mode \<Rightarrow> string" where
  "mode_text ModeUnset = ''''"
| "mode_text SandboxModeCode = ''code''"
| "mode_text SandboxModeAgent = ''agent''"
| "mode_text (ModeOther s) = s"

definition handleUpdate :: "admission_request \<Rightarrow> admission_response" where
  "handleUpdate req =
     (case ar_object req of
        Inl e \<Rightarrow> Errored 400 e
      | Inr new \<Rightarrow>
          (case ar_old_object req of
             Inl e \<Rightarrow> Errored 400 e
           | Inr old \<Rightarrow>
               if spec_mode (sb_spec old) \<noteq> ModeUnset \<and> spec_mode (sb_spec new) \<noteq> spec_mode (sb_spec old)
               then Denied (''spec.mode is immutable (was '' @ show_quoted (mode_text (spec_mode (sb_spec old)))
                      @ '', got '' @ show_quoted (mode_text (spec_mode (sb_spec new))) @ '')'')
               else if templateName old \<noteq> [] \<and> templateName new \<noteq> templateName old
               then Denied (''spec.templateRef is immutable once set (was ''
                      @ show_quoted (templateName old) @ '')'')
               else if spec_clone_from (sb_spec old) \<noteq> []
                         \<and> spec_clone_from (sb_spec new) \<noteq> spec_clone_from (sb_spec old)
               then Denied ''spec.cloneFromSnapshot is immutable once set''
               else (case spec_created_by (sb_spec old) of
                       Some oc \<Rightarrow>
                         if uid_sub oc \<noteq> []
                              \<and> (case spec_created_by (sb_spec new) of
                                   None \<Rightarrow> True
                                 | Some nc \<Rightarrow> uid_sub nc \<noteq> uid_sub oc)
                         then Denied ''spec.createdBy is immutable''
                         else Allowed
                     | None \<Rightarrow> Allowed)))"

definition Handle ::
  "(string \<Rightarrow> quantity option) \<Rightarrow> 'w api \<Rightarrow> bool \<Rightarrow> admission_request \<Rightarrow> ('w, admission_response) kprog" where
  "Handle PQ E store req =
     (case ar_operation req of
        OpCreate \<Rightarrow> handleCreate PQ E store req
      | OpUpdate \<Rightarrow> ret (handleUpdate req)
      | OpOther \<Rightarrow> ret Allowed)"

section \<open>Lemmas\<close>

text \<open>The identity of a sandbox that an update has to keep: each component that is set.\<close>

definition kept :: "'a \<Rightarrow> 'a \<Rightarrow> 'a \<Rightarrow> bool" where
  "kept unset old new \<longleftrightarrow> old = unset \<or> new = old"

definition creator_sub :: "sandbox \<Rightarrow> string" where
  "creator_sub sb = (case spec_created_by (sb_spec sb) of None \<Rightarrow> [] | Some c \<Rightarrow> uid_sub c)"

definition identity_kept :: "sandbox \<Rightarrow> sandbox \<Rightarrow> bool" where
  "identity_kept old new \<longleftrightarrow>
     kept ModeUnset (spec_mode (sb_spec old)) (spec_mode (sb_spec new))
       \<and> kept [] (templateName old) (templateName new)
       \<and> kept [] (spec_clone_from (sb_spec old)) (spec_clone_from (sb_spec new))
       \<and> kept [] (creator_sub old) (creator_sub new)"

lemma identity_kept_trans: "identity_kept a b \<Longrightarrow> identity_kept b c \<Longrightarrow> identity_kept a c"
  by (auto simp: identity_kept_def kept_def)

lemma handleUpdate_allowed:
  "handleUpdate req = Allowed \<longleftrightarrow>
     (\<exists>new old. ar_object req = Inr new \<and> ar_old_object req = Inr old \<and> identity_kept old new)"
  by (auto simp: handleUpdate_def identity_kept_def kept_def creator_sub_def
      split: sum.splits if_splits option.splits)

lemma handleUpdate_not_patched: "handleUpdate req \<noteq> Patched sb"
  by (simp add: handleUpdate_def split: sum.splits option.splits)

lemma creator_sub_stamp [simp]: "creator_sub (stamp_creator req sb) = ar_username req"
  by (simp add: stamp_creator_def creator_sub_def)

lemma namespace_stamp [simp]: "sb_namespace (stamp_creator req sb) = sb_namespace sb"
  by (simp add: stamp_creator_def)

section \<open>Properties\<close>

text \<open>The webhook lets an update through exactly when both objects decode and
  every part of the sandbox's identity that was set is kept: mode, template, source
  snapshot and creator. A chain of admitted updates therefore keeps them too.\<close>

theorem update_admitted_iff_identity_kept:
  "handleUpdate req = Allowed \<longleftrightarrow>
     (\<exists>new old. ar_object req = Inr new \<and> ar_old_object req = Inr old \<and> identity_kept old new)"
  by (rule handleUpdate_allowed)

text \<open>C15. A create that the webhook admits carries the authenticated user as its creator, whatever the
  request claimed, and differs from the request in nothing else. If a policy store is attached, and the API
  server keeps its contract and holds a policy document that can be read, the admitted sandbox also breaks
  no rule of the policy in effect for its namespace at the usage that the API server reports. Where the
  policy cannot be read the webhook admits without enforcing it, as the create handler does; nothing is
  claimed of that case but the creator.\<close>

theorem admitted_create_is_authentic_and_within_policy:
  assumes "ar_operation req = OpCreate" "ar_object req = Inr sb0"
    and "run_state (Handle PQ E store req) (w, l) = (Patched sb, s')"
  shows "sb = stamp_creator req sb0 \<and> creator_sub sb = ar_username req
    \<and> (\<forall>cur t. store \<and> config_server E cur \<and> table_of (cur w) = Some t \<longrightarrow>
          IsEmpty (table.effective t (sb_namespace sb0))
          \<or> (\<exists>items. as_sandboxes (fst (E w (ListSandboxes (sb_namespace sb0)))) = Inr items
               \<and> filter snd (governance_rules PQ (table.effective t (sb_namespace sb0))
                     (CountUsage items (ar_username req)) sb) = []))"
proof -
  have silent: "filter snd (governance_rules PQ p u x) = []" if "Check PQ p u x = []" for p u x
    using Check_rules [of PQ p u x] that by simp
  have authentic: "sb = stamp_creator req sb0"
    using assms
    by (auto simp: Handle_def handleCreate_def run_bind Let_def split: if_splits sum.splits prod.splits)
  have "IsEmpty (table.effective t (sb_namespace sb0))
      \<or> (\<exists>items. as_sandboxes (fst (E w (ListSandboxes (sb_namespace sb0)))) = Inr items
           \<and> filter snd (governance_rules PQ (table.effective t (sb_namespace sb0))
                 (CountUsage items (ar_username req)) sb) = [])"
    if server: "store" "config_server E cur" "table_of (cur w) = Some t" for cur t
  proof -
    obtain l' where "run_state (ResolvePolicy E (sb_namespace sb0)) (w, l)
        = (Inr (table.effective t (sb_namespace sb0)), (w, l'))"
      using ResolvePolicy_table [OF server(2,3)] by blast
    then show ?thesis
      using assms server(1)
      by (auto simp: Handle_def handleCreate_def run_bind Let_def intro!: silent split: if_splits sum.splits)
  qed
  then show ?thesis using authentic by auto
qed

definition capped_server :: "config_map option api" where
  "capped_server w q =
     (case q of ListSandboxes _ \<Rightarrow> (RSandboxes [], w) | _ \<Rightarrow> tiny_config_server w q)"

definition capped_world :: "config_map option" where
  "capped_world = Some (governance_map [(clusterPolicyKey, empty_policy\<lparr>pol_max_total := 1\<rparr>)] [])"

definition forged_request :: admission_request where
  "forged_request =
     \<lparr>ar_operation = OpCreate, ar_username = ''alice'', ar_email = None,
      ar_object = Inr (new_sandbox ''ns'' ''a'' (empty_spec\<lparr>spec_created_by :=
         Some \<lparr>uid_sub = ''bob'', uid_email = [], uid_display = []\<rparr>\<rparr>)),
      ar_old_object = Inl []\<rparr>"

lemma capped_server_ok:
  "config_server capped_server (map_option (\<lambda>cm. cm\<lparr>cm_version := ''v'' @ cm_version cm\<rparr>))"
  unfolding config_server_def capped_server_def by (auto split: option.splits)

theorem admitted_create_is_authentic_and_within_policy_witness:
  "\<exists>sb. fst (run_state (Handle (\<lambda>_. None) capped_server True forged_request) (capped_world, [])) = Patched sb
     \<and> creator_sub sb = ''alice''
     \<and> filter snd (governance_rules (\<lambda>_. None) (empty_policy\<lparr>pol_max_total := 1\<rparr>) (CountUsage [] ''alice'') sb) = []"
proof -
  let ?sb0 = "new_sandbox ''ns'' ''a'' (empty_spec\<lparr>spec_created_by :=
         Some \<lparr>uid_sub = ''bob'', uid_email = [], uid_display = []\<rparr>\<rparr>)"
  let ?r = "run_state (Handle (\<lambda>_. None) capped_server True forged_request) (capped_world, [])"
  have patched: "fst ?r = Patched (stamp_creator forged_request ?sb0)"
    by (simp add: Handle_def handleCreate_def forged_request_def ResolvePolicy_def GetPolicy_def load_def
        run_bind capped_server_def capped_world_def governance_map_def Let_def scope_key_def
        clusterPolicyKey_def mergePolicies_def empty_policy_def IsEmpty_def Check_def CountUsage_def
        CheckResourceLimits_def over_quantity_def over_duration_def limit_in_def new_sandbox_def
        empty_spec_def stamp_creator_def image_override_def)
  have run: "?r = (Patched (stamp_creator forged_request ?sb0), snd ?r)"
    using patched by (metis prod.collapse)
  let ?t = "[(clusterPolicyKey, empty_policy\<lparr>pol_max_total := 1\<rparr>)]"
  have eff: "table.effective ?t ''ns'' = empty_policy\<lparr>pol_max_total := 1\<rparr>"
    by (simp add: table.effective_def scope_key_def clusterPolicyKey_def merge_empty_policy)
  note rule = admitted_create_is_authentic_and_within_policy [OF _ _ run, of ?sb0]
  have "creator_sub (stamp_creator forged_request ?sb0) = ''alice''"
    using rule by (simp add: forged_request_def)
  moreover have "table_of (map_option (\<lambda>cm. cm\<lparr>cm_version := ''v'' @ cm_version cm\<rparr>) capped_world) = Some ?t"
    by (simp add: capped_world_def governance_map_def)
  with rule capped_server_ok
  have "IsEmpty (table.effective ?t ''ns'')
      \<or> (\<exists>items. as_sandboxes (fst (capped_server capped_world (ListSandboxes ''ns''))) = Inr items
           \<and> filter snd (governance_rules (\<lambda>_. None) (table.effective ?t ''ns'') (CountUsage items ''alice'')
                 (stamp_creator forged_request ?sb0)) = [])"
    by (simp add: forged_request_def new_sandbox_def del: table_of.simps)
  then have "filter snd (governance_rules (\<lambda>_. None) (empty_policy\<lparr>pol_max_total := 1\<rparr>) (CountUsage [] ''alice'')
      (stamp_creator forged_request ?sb0)) = []"
    unfolding eff by (simp add: capped_server_def IsEmpty_def)
  ultimately show ?thesis using patched by blast
qed

end
