(* ===== verification/Crypto.thy ===== *)
theory Crypto
  imports Prelude "HOL-Library.Word"
begin

text \<open>
  The parts of Go's standard library that turn bytes into text: \<open>encoding/base64\<close>
  with and without padding, \<open>encoding/hex\<close>, and \<open>crypto/sha256\<close>, by which API keys are
  stored. Bytes are natural numbers below 256.
\<close>

section \<open>Bytes and text\<close>

definition bytes_of :: "string \<Rightarrow> nat list" where
  "bytes_of s = map of_char s"

definition text_of :: "nat list \<Rightarrow> string" where
  "text_of bs = map char_of bs"

lemma text_of_bytes_of [simp]: "text_of (bytes_of s) = s"
  by (simp add: text_of_def bytes_of_def comp_def)

section \<open>Base64\<close>

definition std_alphabet :: string where
  "std_alphabet = ''ABCDEFGHIJKLMNOPQRSTUVWXYZabcdefghijklmnopqrstuvwxyz0123456789+/''"

definition url_alphabet :: string where
  "url_alphabet = ''ABCDEFGHIJKLMNOPQRSTUVWXYZabcdefghijklmnopqrstuvwxyz0123456789-_''"

text \<open>Three bytes become four digits; one or two bytes at the end become two or three, filled
  up with \<open>pad\<close>.\<close>

fun base64_encode :: "string \<Rightarrow> string \<Rightarrow> nat list \<Rightarrow> string" where
  "base64_encode al pad [] = []"
| "base64_encode al pad [a] =
     (let v = a * 2 ^ 16
      in [al ! (v div 2 ^ 18 mod 64), al ! (v div 2 ^ 12 mod 64)] @ pad @ pad)"
| "base64_encode al pad [a, b] =
     (let v = a * 2 ^ 16 + b * 2 ^ 8
      in [al ! (v div 2 ^ 18 mod 64), al ! (v div 2 ^ 12 mod 64), al ! (v div 2 ^ 6 mod 64)] @ pad)"
| "base64_encode al pad (a # b # c # rest) =
     (let v = a * 2 ^ 16 + b * 2 ^ 8 + c
      in [al ! (v div 2 ^ 18 mod 64), al ! (v div 2 ^ 12 mod 64),
          al ! (v div 2 ^ 6 mod 64), al ! (v mod 64)] @ base64_encode al pad rest)"

definition StdEncoding :: "nat list \<Rightarrow> string" where
  "StdEncoding bs = base64_encode std_alphabet ''='' bs"

definition RawURLEncoding :: "nat list \<Rightarrow> string" where
  "RawURLEncoding bs = base64_encode url_alphabet [] bs"

section \<open>Hexadecimal\<close>

definition hex_digit :: "nat \<Rightarrow> char" where
  "hex_digit d = (''0123456789abcdef'' ! (d mod 16))"

definition hex_encode :: "nat list \<Rightarrow> string" where
  "hex_encode bs = concat (map (\<lambda>b. [hex_digit (b div 16), hex_digit (b mod 16)]) bs)"

lemma length_hex_encode [simp]: "length (hex_encode bs) = 2 * length bs"
  by (induction bs) (simp_all add: hex_encode_def)

section \<open>SHA-256\<close>

type_synonym w32 = "32 word"

text \<open>The round constants and the initial state, in decimal.\<close>

definition sha_constants :: "w32 list" where
  "sha_constants =
     [1116352408, 1899447441, 3049323471, 3921009573, 961987163, 1508970993, 2453635748, 2870763221,
      3624381080, 310598401, 607225278, 1426881987, 1925078388, 2162078206, 2614888103, 3248222580,
      3835390401, 4022224774, 264347078, 604807628, 770255983, 1249150122, 1555081692, 1996064986,
      2554220882, 2821834349, 2952996808, 3210313671, 3336571891, 3584528711, 113926993, 338241895,
      666307205, 773529912, 1294757372, 1396182291, 1695183700, 1986661051, 2177026350, 2456956037,
      2730485921, 2820302411, 3259730800, 3345764771, 3516065817, 3600352804, 4094571909, 275423344,
      430227734, 506948616, 659060556, 883997877, 958139571, 1322822218, 1537002063, 1747873779,
      1955562222, 2024104815, 2227730452, 2361852424, 2428436474, 2756734187, 3204031479, 3329325298]"

definition sha_initial :: "w32 list" where
  "sha_initial =
     [1779033703, 3144134277, 1013904242, 2773480762, 1359893119, 2600822924, 528734635, 1541459225]"

unbundle bit_operations_syntax

fun sha_schedule :: "nat \<Rightarrow> w32 list \<Rightarrow> w32 list" where
  "sha_schedule 0 w = w"
| "sha_schedule (Suc n) w =
     (let t = length w;
          x = w ! (t - 15); y = w ! (t - 2);
          s0 = word_rotr 7 x XOR word_rotr 18 x XOR drop_bit 3 x;
          s1 = word_rotr 17 y XOR word_rotr 19 y XOR drop_bit 10 y
      in sha_schedule n (w @ [s1 + w ! (t - 7) + s0 + w ! (t - 16)]))"

fun sha_rounds :: "(w32 \<times> w32) list \<Rightarrow> w32 list \<Rightarrow> w32 list" where
  "sha_rounds ((k, w) # rest) [a, b, c, d, e, f, g, h] =
     (let s1 = word_rotr 6 e XOR word_rotr 11 e XOR word_rotr 25 e;
          ch = (e AND f) XOR ((NOT e) AND g);
          t1 = h + s1 + ch + k + w;
          s0 = word_rotr 2 a XOR word_rotr 13 a XOR word_rotr 22 a;
          maj = (a AND b) XOR (a AND c) XOR (b AND c)
      in sha_rounds rest [t1 + (s0 + maj), a, b, c, d + t1, e, f, g])"
| "sha_rounds _ st = st"

fun words_of_bytes :: "nat list \<Rightarrow> w32 list" where
  "words_of_bytes (a # b # c # d # rest) =
     word_of_nat (((a * 256 + b) * 256 + c) * 256 + d) # words_of_bytes rest"
| "words_of_bytes _ = []"

definition sha_block :: "w32 list \<Rightarrow> w32 list \<Rightarrow> w32 list" where
  "sha_block st block =
     map2 (+) st (sha_rounds (zip sha_constants (sha_schedule 48 block)) st)"

function sha_blocks :: "w32 list \<Rightarrow> w32 list \<Rightarrow> w32 list" where
  "sha_blocks st ws =
     (if ws = [] then st else sha_blocks (sha_block st (take 16 ws)) (drop 16 ws))"
  by pat_completeness auto

termination
  by (relation "measure (length \<circ> snd)") auto

declare sha_blocks.simps [simp del]

definition big_endian :: "nat \<Rightarrow> nat \<Rightarrow> nat list" where
  "big_endian n v = map (\<lambda>i. v div 256 ^ i mod 256) (rev [0..<n])"

definition sha_padding :: "nat \<Rightarrow> nat list" where
  "sha_padding len = 128 # replicate ((119 - len mod 64) mod 64) 0 @ big_endian 8 (8 * len)"

definition sha256 :: "nat list \<Rightarrow> nat list" where
  "sha256 bs =
     concat (map (\<lambda>w. big_endian 4 (unat w))
       (sha_blocks sha_initial (words_of_bytes (bs @ sha_padding (length bs)))))"

lemma length_big_endian [simp]: "length (big_endian n v) = n"
  by (simp add: big_endian_def)

definition hashAPIKey :: "string \<Rightarrow> string" where
  "hashAPIKey key = hex_encode (sha256 (bytes_of key))"

end
