(* ===== verification/Pod_Builder.thy ===== *)
theory Pod_Builder
  imports Templates Crypto
begin

text \<open>
  What a sandbox is made of in the cluster: the pod (\<open>pkg/controller/pod_builder.go\<close>),
  its volume claim (\<open>pkg/controller/pvc.go\<close>) and its network policy
  (\<open>pkg/controller/networkpolicy.go\<close>), with the operations that create the last two.
  \<open>PQ\<close> stands for \<open>resource.ParseQuantity\<close>.
\<close>

section \<open>The pod\<close>

definition sandboxContainerName :: string where "sandboxContainerName = ''sandbox''"
definition tmpVolumeName :: string where "tmpVolumeName = ''tmp''"
definition tmpVolumeSizeLimit :: string where "tmpVolumeSizeLimit = ''256Mi''"
definition defaultUser :: int where "defaultUser = 1000"
definition defaultGroup :: int where "defaultGroup = 1000"

definition buildSecurityContext :: "bool \<Rightarrow> security_context" where
  "buildSecurityContext privileged =
     (if privileged then empty_security_context
        \<lparr>sc_run_as_user := Some defaultUser, sc_run_as_group := Some defaultGroup\<rparr>
      else \<lparr>sc_run_as_non_root = Some True, sc_run_as_user = Some defaultUser,
            sc_run_as_group = Some defaultGroup, sc_read_only_root = Some True,
            sc_allow_escalation = Some False, sc_privileged = None, sc_cap_drop = Some [''ALL''],
            sc_seccomp = Some ''RuntimeDefault''\<rparr>)"

definition secret_env :: "string \<Rightarrow> string \<Rightarrow> string \<Rightarrow> env_var" where
  "secret_env n secret key = \<lparr>ev_name = n, ev_value = [], ev_from = Some (SecretKeySource secret key)\<rparr>"

definition rw_mount :: "string \<Rightarrow> string \<Rightarrow> volume_mount" where
  "rw_mount n path = \<lparr>vm_name = n, vm_path = path, vm_read_only = False\<rparr>"

definition buildMainContainer :: "string \<Rightarrow> merged_pod_config \<Rightarrow> container" where
  "buildMainContainer defaultImage config = empty_container
     \<lparr>c_name := sandboxContainerName,
      c_image := (if mc_image config = [] then defaultImage else mc_image config),
      c_stdin := True, c_tty := True,
      c_command := mc_command config,
      c_args := mc_args config,
      c_working_dir := (if mc_working_dir config \<noteq> [] then mc_working_dir config else mc_mount_path config),
      c_resources := mc_resources config,
      c_pull_policy := mc_pull_policy config,
      c_security := Some (buildSecurityContext (mc_privileged config)),
      c_env_from :=
        map (\<lambda>cred. \<lparr>ef_prefix = cr_env_prefix cred, ef_secret = cr_secret cred\<rparr>)
          (filter (\<lambda>cred. cr_mount_as cred = ''env'' \<or> cr_mount_as cred = []) (mc_credentials config)),
      c_mounts :=
        [rw_mount workspaceVolumeName (mc_mount_path config), rw_mount tmpVolumeName ''/tmp'']
        @ map (\<lambda>cred. \<lparr>vm_name = ''cred-'' @ cr_secret cred, vm_path = cr_mount_path cred,
                         vm_read_only = True\<rparr>)
            (filter (\<lambda>cred. cr_mount_as cred = ''file'' \<and> cr_mount_path cred \<noteq> []) (mc_credentials config)),
      c_env :=
        mc_env config
        @ (if mc_use_http_exec config \<and> mc_runtime_token_secret config \<noteq> []
           then [secret_env ''AGENTTIER_RUNTIME_TOKEN'' (mc_runtime_token_secret config) ''token'']
           else [])
        @ (if mc_use_http_exec config \<and> mc_api_key_secret config \<noteq> []
           then [secret_env ''AGENTTIER_SANDBOX_API_KEY'' (mc_api_key_secret config) ''key'']
           else [])\<rparr>"

definition credential_volumes :: "credential_ref list \<Rightarrow> volume list" where
  "credential_volumes creds =
     map (\<lambda>cred. \<lparr>v_name = ''cred-'' @ cr_secret cred, v_source = SecretVolume (cr_secret cred)\<rparr>)
       (filter (\<lambda>cred. cr_mount_as cred = ''file'') creds)"

definition buildVolumes :: "(string \<Rightarrow> quantity option) \<Rightarrow> merged_pod_config \<Rightarrow> volume list" where
  "buildVolumes PQ config =
     [\<lparr>v_name = workspaceVolumeName, v_source = PVCVolume (mc_pvc config)\<rparr>,
      \<lparr>v_name = tmpVolumeName,
       v_source = EmptyDirVolume ''Memory'' (Some (parseQuantityOrZero PQ tmpVolumeSizeLimit))\<rparr>]
     @ credential_volumes (mc_credentials config)"

fun show_octal_nat :: "nat \<Rightarrow> string" where
  "show_octal_nat n =
     (if n < 8 then [digit_char n] else show_octal_nat (n div 8) @ [digit_char (n mod 8)])"

declare show_octal_nat.simps [simp del]

definition show_octal :: "int \<Rightarrow> string" where
  "show_octal i = (if i < 0 then ''-'' @ show_octal_nat (nat (- i)) else show_octal_nat (nat i))"

definition newline :: string where
  "newline = [CHR 0x0A]"

text \<open>One file of the deployment script. Files without inline content are skipped.\<close>

definition deploy_file :: "file_spec \<Rightarrow> string" where
  "deploy_file f =
     (if file_content f = [] then []
      else ''mkdir -p $(dirname '' @ [CHR 0x27] @ file_path f @ [CHR 0x27] @ '') && printf ''
             @ [CHR 0x27] @ ''%s'' @ [CHR 0x27] @ '' '' @ show_quoted (StdEncoding (bytes_of (file_content f)))
             @ '' | base64 -d > '' @ [CHR 0x27] @ file_path f @ [CHR 0x27] @ newline
           @ (case file_mode f of
                None \<Rightarrow> []
              | Some m \<Rightarrow> ''chmod '' @ show_octal m @ '' '' @ [CHR 0x27] @ file_path f @ [CHR 0x27] @ newline))"

definition script_head :: string where
  "script_head = ''#!/bin/sh'' @ newline @ ''set -e'' @ newline"

definition buildFileDeployerInit :: "merged_pod_config \<Rightarrow> container" where
  "buildFileDeployerInit config = empty_container
     \<lparr>c_name := ''file-deployer'', c_image := mc_image config,
      c_command := [''/bin/sh'', ''-c'', script_head @ concat (map deploy_file (mc_files config))],
      c_mounts := [rw_mount workspaceVolumeName (mc_mount_path config), rw_mount tmpVolumeName ''/tmp''],
      c_security := Some (buildSecurityContext False)\<rparr>"

definition buildScriptRunnerInit :: "merged_pod_config \<Rightarrow> container" where
  "buildScriptRunnerInit config = empty_container
     \<lparr>c_name := ''init-scripts'', c_image := mc_image config,
      c_command :=
        [''/bin/sh'', ''-c'', script_head @ concat (map (\<lambda>s. s @ newline) (mc_init_scripts config))],
      c_mounts := [rw_mount workspaceVolumeName (mc_mount_path config), rw_mount tmpVolumeName ''/tmp''],
      c_env := mc_env config,
      c_security := Some (empty_security_context
        \<lparr>sc_run_as_user := Some defaultUser, sc_run_as_group := Some defaultGroup\<rparr>)\<rparr>"

definition fixPermissionsInit :: "merged_pod_config \<Rightarrow> container" where
  "fixPermissionsInit config = empty_container
     \<lparr>c_name := ''fix-permissions'', c_image := mc_image config,
      c_command :=
        [''sh'', ''-c'',
         ''chown -R '' @ show_int defaultUser @ '':'' @ show_int defaultGroup @ '' '' @ mc_mount_path config
           @ '' && chmod 775 '' @ mc_mount_path config],
      c_mounts := [rw_mount workspaceVolumeName (mc_mount_path config)],
      c_security := Some (empty_security_context\<lparr>sc_run_as_user := Some 0\<rparr>)\<rparr>"

definition buildInitContainers :: "merged_pod_config \<Rightarrow> container list" where
  "buildInitContainers config =
     [fixPermissionsInit config]
     @ (if mc_files config \<noteq> [] then [buildFileDeployerInit config] else [])
     @ (if mc_init_scripts config \<noteq> [] then [buildScriptRunnerInit config] else [])
     @ mc_init_containers config"

definition addCredentialVolumes :: "credential_ref list \<Rightarrow> pod_spec \<Rightarrow> pod_spec" where
  "addCredentialVolumes creds ps = ps\<lparr>ps_volumes := ps_volumes ps @ credential_volumes creds\<rparr>"

fun is_host_path :: "volume \<Rightarrow> bool" where
  "is_host_path v = (case v_source v of HostPathVolume _ \<Rightarrow> True | _ \<Rightarrow> False)"

definition enforceSecurityInvariants :: "pod_spec \<Rightarrow> pod_spec" where
  "enforceSecurityInvariants ps = ps
     \<lparr>ps_host_network := False, ps_host_pid := False, ps_host_ipc := False,
      ps_volumes := filter (\<lambda>v. \<not> is_host_path v) (ps_volumes ps)\<rparr>"

definition pod_name_for :: "string \<Rightarrow> string" where
  "pod_name_for n = n @ ''-pod''"

definition empty_pod_status :: pod_status where
  "empty_pod_status =
     \<lparr>pst_phase = PodPhaseOther [], pst_reason = [], pst_conditions = [], pst_containers = [], pst_ip = []\<rparr>"

definition BuildPod ::
  "(string \<Rightarrow> quantity option) \<Rightarrow> string \<Rightarrow> sandbox \<Rightarrow> merged_pod_config \<Rightarrow> pod" where
  "BuildPod PQ defaultImage sb config =
     (let spec =
        \<lparr>ps_restart_policy = ''Never'',
         ps_security = Some (empty_security_context
           \<lparr>sc_run_as_user := Some defaultUser, sc_run_as_group := Some defaultGroup\<rparr>),
         ps_fs_group = Some defaultGroup,
         ps_containers = [buildMainContainer defaultImage config] @ mc_sidecars config,
         ps_init_containers = buildInitContainers config,
         ps_volumes = buildVolumes PQ config,
         ps_runtime_class = mc_runtime_class config,
         ps_service_account = mc_service_account config,
         ps_pull_secrets = (if mc_pull_secret config \<noteq> [] then [mc_pull_secret config] else []),
         ps_host_network = False, ps_host_pid = False, ps_host_ipc = False\<rparr>
      in \<lparr>p_name = pod_name_for (sb_name sb), p_namespace = sb_namespace sb,
          p_labels =
            [''agenttier.io/sandbox'' \<mapsto> sb_name sb, ''agenttier.io/managed'' \<mapsto> ''true'',
             ''agenttier.io/template'' \<mapsto> st_template (sb_status sb)],
          p_annotations =
            (case spec_created_by (sb_spec sb) of
               None \<Rightarrow> Map.empty
             | Some c \<Rightarrow> [''agenttier.io/created-by'' \<mapsto> uid_email c]),
          p_owner = None, p_version = 0,
          p_spec = enforceSecurityInvariants (addCredentialVolumes (mc_credentials config) spec),
          p_status = empty_pod_status\<rparr>)"

section \<open>The volume claim\<close>

record pvc_builder =
  pb_size :: string
  pb_mount :: string
  pb_class :: string

definition NewPVCBuilder :: "string \<Rightarrow> string \<Rightarrow> string \<Rightarrow> pvc_builder" where
  "NewPVCBuilder defaultSize defaultMount defaultClass =
     \<lparr>pb_size = (if defaultSize = [] then ''10Gi'' else defaultSize),
      pb_mount = (if defaultMount = [] then defaultMountPath else defaultMount),
      pb_class = defaultClass\<rparr>"

definition MountPath :: "pvc_builder \<Rightarrow> storage_spec option \<Rightarrow> string" where
  "MountPath b st =
     (case st of
        None \<Rightarrow> pb_mount b
      | Some s \<Rightarrow> if stor_mount_path s \<noteq> [] then stor_mount_path s else pb_mount b)"

text \<open>\<open>resource.MustParse\<close> panics on a size that does not parse, which None stands for.\<close>

definition resolveSize ::
  "(string \<Rightarrow> quantity option) \<Rightarrow> pvc_builder \<Rightarrow> storage_spec option \<Rightarrow> quantity option" where
  "resolveSize PQ b st =
     (case st of
        None \<Rightarrow> PQ (pb_size b)
      | Some s \<Rightarrow> if \<not> quantity_is_zero (stor_size s) then Some (stor_size s) else PQ (pb_size b))"

definition resolveStorageClass :: "pvc_builder \<Rightarrow> storage_spec option \<Rightarrow> string" where
  "resolveStorageClass b st =
     (case st of
        None \<Rightarrow> pb_class b
      | Some s \<Rightarrow> if stor_class s \<noteq> [] then stor_class s else pb_class b)"

definition pvc_name_for :: "string \<Rightarrow> string" where
  "pvc_name_for n = n @ ''-workspace''"

definition BuildPVC ::
  "(string \<Rightarrow> quantity option) \<Rightarrow> pvc_builder \<Rightarrow> sandbox \<Rightarrow> storage_spec option \<Rightarrow> pvc option" where
  "BuildPVC PQ b sb st =
     map_option (\<lambda>size.
       (let cls = resolveStorageClass b st; source = spec_clone_from (sb_spec sb);
            labels = [''agenttier.io/sandbox'' \<mapsto> sb_name sb, ''agenttier.io/managed'' \<mapsto> ''true'']
        in \<lparr>pvc_name = pvc_name_for (sb_name sb), pvc_namespace = sb_namespace sb,
            pvc_labels =
              (if source \<noteq> [] then labels(''agenttier.io/cloned-from-snapshot'' \<mapsto> source) else labels),
            pvc_owner = None,
            pvc_access_mode =
              (case st of
                 Some s \<Rightarrow> if stor_shared s then ''ReadWriteMany'' else ''ReadWriteOnce''
               | None \<Rightarrow> ''ReadWriteOnce''),
            pvc_class = (if cls \<noteq> [] then Some cls else None),
            pvc_size = size,
            pvc_snapshot_source = (if source \<noteq> [] then Some source else None)\<rparr>))
     (resolveSize PQ b st)"

text \<open>\<open>ensurePVC\<close>: the existing claim is used as it is.\<close>

definition ensurePVC ::
  "(string \<Rightarrow> quantity option) \<Rightarrow> string \<Rightarrow> string \<Rightarrow> 'w api \<Rightarrow> sandbox \<Rightarrow> storage_spec option
     \<Rightarrow> ('w, string + pvc) kprog" where
  "ensurePVC PQ defaultSize defaultMount E sb st =
     (case BuildPVC PQ (NewPVCBuilder defaultSize defaultMount []) sb st of
        None \<Rightarrow> ret (Inl ''panic: cannot parse the default storage size'')
      | Some desired0 \<Rightarrow> do {
          own \<leftarrow> ask E (SetControllerRef (sb_name sb) ''PersistentVolumeClaim'' (pvc_name desired0) None) as_unit;
          (case own of
             Inl e \<Rightarrow> ret (Inl (''failed to set owner reference on PVC: '' @ err_text e))
           | Inr _ \<Rightarrow>
               (let desired = desired0\<lparr>pvc_owner := Some (sb_name sb)\<rparr>
                in do {
                  g \<leftarrow> ask E (GetPVC (pvc_namespace desired) (pvc_name desired)) as_pvc;
                  (case g of
                     Inr existing \<Rightarrow> ret (Inr existing)
                   | Inl NotFound \<Rightarrow> do {
                       c \<leftarrow> ask E (CreatePVC desired) as_unit;
                       ret (case c of
                              Inl e \<Rightarrow> Inl (''failed to create PVC: '' @ err_text e)
                            | Inr _ \<Rightarrow> Inr desired)
                     }
                   | Inl e \<Rightarrow> ret (Inl (''failed to check existing PVC: '' @ err_text e)))
                }))
        })"

section \<open>The network policy\<close>

definition dns_rule :: policy_rule where
  "dns_rule = \<lparr>rule_peers = [], rule_ports = [(''UDP'', 53), (''TCP'', 53)]\<rparr>"

definition match_labels :: "(string \<times> string) list \<Rightarrow> label_selector" where
  "match_labels ls = \<lparr>sel_labels = ls, sel_rest = []\<rparr>"

definition buildRouterIngressRule :: "string \<Rightarrow> policy_rule" where
  "buildRouterIngressRule routerNamespace =
     \<lparr>rule_peers =
        [\<lparr>peer_ip_block = None,
          peer_namespaces = Some (match_labels [(''kubernetes.io/metadata.name'', routerNamespace)]),
          peer_pods = Some (match_labels [(''app.kubernetes.io/component'', ''router'')])\<rparr>],
      rule_ports = [(''TCP'', 9000)]\<rparr>"

definition rule_port_list :: "network_rule \<Rightarrow> (string \<times> int) list" where
  "rule_port_list r =
     map (\<lambda>p. (if np_protocol p = [] then ''TCP'' else np_protocol p, np_port p)) (nr_ports r)"

definition cidr_peers :: "network_rule \<Rightarrow> policy_peer list" where
  "cidr_peers r =
     (if nr_cidr r \<noteq> []
      then [\<lparr>peer_ip_block = Some (nr_cidr r), peer_namespaces = None, peer_pods = None\<rparr>] else [])"

definition buildEgressRule :: "network_rule \<Rightarrow> policy_rule" where
  "buildEgressRule r =
     \<lparr>rule_peers = cidr_peers r
        @ (case nr_service r of
             None \<Rightarrow> []
           | Some _ \<Rightarrow> [\<lparr>peer_ip_block = None, peer_namespaces = Some (match_labels []), peer_pods = None\<rparr>]),
      rule_ports = rule_port_list r\<rparr>"

definition buildIngressRule :: "network_rule \<Rightarrow> policy_rule" where
  "buildIngressRule r = \<lparr>rule_peers = cidr_peers r, rule_ports = rule_port_list r\<rparr>"

text \<open>The egress and the ingress rule for peer sandboxes have the same shape.\<close>

definition buildPeerRules :: "network_spec \<Rightarrow> policy_rule \<times> policy_rule" where
  "buildPeerRules ns =
     (let sel = (case net_peer_selector ns of
                   Some s \<Rightarrow> s
                 | None \<Rightarrow> match_labels [(''agenttier.io/managed'', ''true'')]);
          rule = \<lparr>rule_peers = [\<lparr>peer_ip_block = None, peer_namespaces = None, peer_pods = Some sel\<rparr>],
                  rule_ports = []\<rparr>
      in (rule, rule))"

record network_policy_options =
  npo_router_ingress :: bool
  npo_router_namespace :: string

definition netpol_name_for :: "string \<Rightarrow> string" where
  "netpol_name_for n = n @ ''-netpol''"

definition anything :: policy_rule where
  "anything = \<lparr>rule_peers = [], rule_ports = []\<rparr>"

text \<open>The user's part of the rules: egress, ingress.\<close>

definition user_rules :: "network_spec option \<Rightarrow> policy_rule list \<times> policy_rule list" where
  "user_rules ns =
     (case ns of
        None \<Rightarrow> ([], [])
      | Some n \<Rightarrow>
          if net_allow_internet n then ([anything], [])
          else (map buildEgressRule (net_egress n)
                  @ (if net_allow_peers n then [fst (buildPeerRules n)] else []),
                map buildIngressRule (net_ingress n)
                  @ (if net_allow_peers n then [snd (buildPeerRules n)] else [])))"

definition BuildNetworkPolicy ::
  "sandbox \<Rightarrow> network_spec option \<Rightarrow> network_policy_options \<Rightarrow> network_policy" where
  "BuildNetworkPolicy sb ns opts =
     (case user_rules ns of
        (egress, ingress) \<Rightarrow>
          \<lparr>npol_name = netpol_name_for (sb_name sb), npol_namespace = sb_namespace sb,
           npol_labels = [''agenttier.io/sandbox'' \<mapsto> sb_name sb, ''agenttier.io/managed'' \<mapsto> ''true''],
           npol_owner = None,
           npol_selector = match_labels [(''agenttier.io/sandbox'', sb_name sb)],
           npol_types = [''Egress'', ''Ingress''],
           npol_egress = dns_rule # egress,
           npol_ingress =
             ingress @ (if npo_router_ingress opts
                        then [buildRouterIngressRule (npo_router_namespace opts)] else [])\<rparr>)"

definition same_policy_spec :: "network_policy \<Rightarrow> network_policy \<Rightarrow> network_policy" where
  "same_policy_spec desired existing = existing
     \<lparr>npol_selector := npol_selector desired, npol_types := npol_types desired,
      npol_egress := npol_egress desired, npol_ingress := npol_ingress desired\<rparr>"

definition ensureNetworkPolicy ::
  "'w api \<Rightarrow> sandbox \<Rightarrow> network_spec option \<Rightarrow> network_policy_options \<Rightarrow> ('w, string + unit) kprog" where
  "ensureNetworkPolicy E sb ns opts =
     (let desired0 = BuildNetworkPolicy sb ns opts
      in do {
        own \<leftarrow> ask E (SetControllerRef (sb_name sb) ''NetworkPolicy'' (npol_name desired0) None) as_unit;
        (case own of
           Inl e \<Rightarrow> ret (Inl (''failed to set owner reference on NetworkPolicy: '' @ err_text e))
         | Inr _ \<Rightarrow>
             (let desired = desired0\<lparr>npol_owner := Some (sb_name sb)\<rparr>
              in do {
                g \<leftarrow> ask E (GetNetworkPolicy (npol_namespace desired) (npol_name desired)) as_network_policy;
                (case g of
                   Inr existing \<Rightarrow> do {
                     u \<leftarrow> ask E (UpdateNetworkPolicy (same_policy_spec desired existing)) as_unit;
                     ret (case u of
                            Inl e \<Rightarrow> Inl (''failed to update NetworkPolicy: '' @ err_text e)
                          | Inr _ \<Rightarrow> Inr ())
                   }
                 | Inl NotFound \<Rightarrow> do {
                     c \<leftarrow> ask E (CreateNetworkPolicy desired) as_unit;
                     ret (case c of
                            Inl e \<Rightarrow> Inl (''failed to create NetworkPolicy: '' @ err_text e)
                          | Inr _ \<Rightarrow> Inr ())
                   }
                 | Inl e \<Rightarrow> ret (Inl (''failed to check existing NetworkPolicy: '' @ err_text e)))
              }))
      })"


section \<open>Lemmas on pods\<close>

definition hardened :: "security_context \<Rightarrow> bool" where
  "hardened c \<longleftrightarrow>
     sc_run_as_non_root c = Some True \<and> sc_run_as_user c = Some 1000 \<and> sc_read_only_root c = Some True
       \<and> sc_allow_escalation c = Some False \<and> sc_cap_drop c = Some [''ALL'']
       \<and> sc_seccomp c = Some ''RuntimeDefault'' \<and> sc_privileged c = None"

lemma hardened_unprivileged [simp]: "hardened (buildSecurityContext False)"
  by (simp add: hardened_def buildSecurityContext_def defaultUser_def)

lemma hardened_or_privileged [simp]: "p \<or> hardened (buildSecurityContext p)"
  by (cases p) simp_all

lemma never_privileged [simp]: "sc_privileged (buildSecurityContext b) = None"
  by (simp add: buildSecurityContext_def empty_security_context_def)

lemma BuildPod_spec:
  "p_spec (BuildPod PQ img sb config) =
     enforceSecurityInvariants (addCredentialVolumes (mc_credentials config)
        \<lparr>ps_restart_policy = ''Never'',
         ps_security = Some (empty_security_context
           \<lparr>sc_run_as_user := Some defaultUser, sc_run_as_group := Some defaultGroup\<rparr>),
         ps_fs_group = Some defaultGroup,
         ps_containers = [buildMainContainer img config] @ mc_sidecars config,
         ps_init_containers = buildInitContainers config,
         ps_volumes = buildVolumes PQ config,
         ps_runtime_class = mc_runtime_class config,
         ps_service_account = mc_service_account config,
         ps_pull_secrets = (if mc_pull_secret config \<noteq> [] then [mc_pull_secret config] else []),
         ps_host_network = False, ps_host_pid = False, ps_host_ipc = False\<rparr>)"
  by (simp add: BuildPod_def Let_def)

lemma no_host_path_credential: "v \<in> set (credential_volumes creds) \<Longrightarrow> \<not> is_host_path v"
  by (auto simp: credential_volumes_def)

text \<open>No volume that the builder makes is a host path, so the filter removes nothing.\<close>

lemma BuildPod_volumes:
  "ps_volumes (p_spec (BuildPod PQ img sb config)) =
     [\<lparr>v_name = ''workspace'', v_source = PVCVolume (mc_pvc config)\<rparr>,
      \<lparr>v_name = ''tmp'',
       v_source = EmptyDirVolume ''Memory'' (Some (parseQuantityOrZero PQ ''256Mi''))\<rparr>]
     @ credential_volumes (mc_credentials config) @ credential_volumes (mc_credentials config)"
proof -
  have "filter (\<lambda>v. \<not> is_host_path v) (credential_volumes creds) = credential_volumes creds" for creds
    using no_host_path_credential by (intro filter_True) blast
  then show ?thesis
    by (simp add: BuildPod_spec enforceSecurityInvariants_def addCredentialVolumes_def buildVolumes_def
        workspaceVolumeName_def tmpVolumeName_def tmpVolumeSizeLimit_def del: is_host_path.simps)
      (simp)
qed

lemma BuildPod_containers:
  "ps_containers (p_spec (BuildPod PQ img sb config)) = buildMainContainer img config # mc_sidecars config"
  by (simp add: BuildPod_spec enforceSecurityInvariants_def addCredentialVolumes_def)

text \<open>Two gaps. A credential mounted as a file declares its volume twice, and a side-car
  keeps whatever security context its author wrote.\<close>

lemma file_credential_declares_volume_twice:
  assumes "c \<in> set (mc_credentials config)" "cr_mount_as c = ''file''"
  shows "\<not> distinct (map v_name (ps_volumes (p_spec (BuildPod PQ img sb config))))"
proof -
  have "''cred-'' @ cr_secret c \<in> v_name ` set (credential_volumes (mc_credentials config))"
    using assms by (force simp: credential_volumes_def)
  then have "\<not> distinct (map v_name (credential_volumes (mc_credentials config)
      @ credential_volumes (mc_credentials config)))"
    by (auto simp only: map_append distinct_append set_map)
  then show ?thesis unfolding BuildPod_volumes map_append distinct_append by blast
qed

lemma privileged_sidecar_survives:
  assumes "c \<in> set (mc_sidecars config)" "c_security c = Some sc" "sc_privileged sc = Some True"
  shows "\<exists>k \<in> set (ps_containers (p_spec (BuildPod PQ img sb config))).
           \<exists>s. c_security k = Some s \<and> sc_privileged s = Some True"
  using assms by (auto simp: BuildPod_containers)

section \<open>What a network policy permits\<close>

text \<open>The meaning of rules: traffic with a peer \<open>d\<close> on a protocol and port is permitted
  when some rule matches; an empty list of peers or ports matches everything.
  \<open>is_peer\<close> interprets the peer descriptions.\<close>

definition rule_permits ::
  "(policy_peer \<Rightarrow> 'd \<Rightarrow> bool) \<Rightarrow> policy_rule \<Rightarrow> 'd \<Rightarrow> string \<times> int \<Rightarrow> bool" where
  "rule_permits is_peer r d pp \<longleftrightarrow>
     (rule_peers r = [] \<or> (\<exists>p \<in> set (rule_peers r). is_peer p d))
       \<and> (rule_ports r = [] \<or> pp \<in> set (rule_ports r))"

definition permits ::
  "(policy_peer \<Rightarrow> 'd \<Rightarrow> bool) \<Rightarrow> policy_rule list \<Rightarrow> 'd \<Rightarrow> string \<times> int \<Rightarrow> bool" where
  "permits is_peer rules d pp \<longleftrightarrow> (\<exists>r \<in> set rules. rule_permits is_peer r d pp)"

text \<open>What the user's network spec asks for.\<close>

definition wants_ports :: "network_rule \<Rightarrow> string \<times> int \<Rightarrow> bool" where
  "wants_ports r pp \<longleftrightarrow>
     nr_ports r = []
       \<or> (\<exists>p \<in> set (nr_ports r). pp = (if np_protocol p = [] then ''TCP'' else np_protocol p, np_port p))"

definition cidr_peer :: "string \<Rightarrow> policy_peer" where
  "cidr_peer c = \<lparr>peer_ip_block = Some c, peer_namespaces = None, peer_pods = None\<rparr>"

definition any_namespace_peer :: policy_peer where
  "any_namespace_peer = \<lparr>peer_ip_block = None, peer_namespaces = Some (match_labels []), peer_pods = None\<rparr>"

definition sandbox_peer :: "network_spec \<Rightarrow> policy_peer" where
  "sandbox_peer n = \<lparr>peer_ip_block = None, peer_namespaces = None,
     peer_pods = Some (case net_peer_selector n of
                         Some s \<Rightarrow> s | None \<Rightarrow> match_labels [(''agenttier.io/managed'', ''true'')])\<rparr>"

definition router_peer :: "string \<Rightarrow> policy_peer" where
  "router_peer ns = \<lparr>peer_ip_block = None,
     peer_namespaces = Some (match_labels [(''kubernetes.io/metadata.name'', ns)]),
     peer_pods = Some (match_labels [(''app.kubernetes.io/component'', ''router'')])\<rparr>"

text \<open>A rule asks for traffic with the addresses of its block (with any, if it names none) on its ports (on
  any, if it names none).\<close>

definition wants_traffic ::
  "(policy_peer \<Rightarrow> 'd \<Rightarrow> bool) \<Rightarrow> network_rule \<Rightarrow> 'd \<Rightarrow> string \<times> int \<Rightarrow> bool" where
  "wants_traffic is_peer r d pp \<longleftrightarrow>
     wants_ports r pp \<and> (nr_cidr r = [] \<or> is_peer (cidr_peer (nr_cidr r)) d)"

text \<open>An egress rule that refers to a service: the builder permits every pod of every namespace for it.\<close>

definition wants_egress ::
  "(policy_peer \<Rightarrow> 'd \<Rightarrow> bool) \<Rightarrow> network_rule \<Rightarrow> 'd \<Rightarrow> string \<times> int \<Rightarrow> bool" where
  "wants_egress is_peer r d pp \<longleftrightarrow>
     wants_ports r pp
       \<and> (nr_cidr r = [] \<and> nr_service r = None
          \<or> nr_cidr r \<noteq> [] \<and> is_peer (cidr_peer (nr_cidr r)) d
          \<or> nr_service r \<noteq> None \<and> is_peer any_namespace_peer d)"

lemma rule_ports_iff:
  "(rule_port_list r = [] \<or> pp \<in> set (rule_port_list r)) \<longleftrightarrow> wants_ports r pp"
  by (auto simp: rule_port_list_def wants_ports_def)

lemma permits_egress_rule: "rule_permits is_peer (buildEgressRule r) d pp \<longleftrightarrow> wants_egress is_peer r d pp"
  unfolding rule_permits_def buildEgressRule_def policy_rule.simps rule_ports_iff
  by (auto simp: wants_egress_def cidr_peers_def cidr_peer_def any_namespace_peer_def split: option.split)

lemma wants_egress_no_service: "nr_service r = None \<Longrightarrow> wants_egress is_peer r d pp \<longleftrightarrow> wants_traffic is_peer r d pp"
  by (auto simp: wants_egress_def wants_traffic_def)

text \<open>The reference narrows nothing down: neither the name nor the namespace of the service matters.\<close>

lemma service_rule_reaches_every_namespace:
  "nr_service r \<noteq> None \<Longrightarrow> is_peer any_namespace_peer d \<Longrightarrow> wants_ports r pp
     \<Longrightarrow> rule_permits is_peer (buildEgressRule r) d pp"
  by (simp add: permits_egress_rule wants_egress_def)

lemma permits_ingress_rule: "rule_permits is_peer (buildIngressRule r) d pp \<longleftrightarrow> wants_traffic is_peer r d pp"
  unfolding rule_permits_def buildIngressRule_def policy_rule.simps rule_ports_iff
  by (auto simp: wants_traffic_def cidr_peers_def cidr_peer_def)

lemma permits_append [simp]:
  "permits is_peer (a @ b) d pp \<longleftrightarrow> permits is_peer a d pp \<or> permits is_peer b d pp"
  by (auto simp: permits_def)

lemma permits_Cons [simp]:
  "permits is_peer (r # rs) d pp \<longleftrightarrow> rule_permits is_peer r d pp \<or> permits is_peer rs d pp"
  by (auto simp: permits_def)

lemma permits_Nil [simp]: "\<not> permits is_peer [] d pp"
  by (simp add: permits_def)

lemma permits_dns [simp]: "rule_permits is_peer dns_rule d pp \<longleftrightarrow> pp \<in> {(''UDP'', 53), (''TCP'', 53)}"
  by (auto simp: rule_permits_def dns_rule_def)

lemma permits_anything [simp]: "rule_permits is_peer anything d pp"
  by (simp add: rule_permits_def anything_def)

lemma permits_peers [simp]:
  "rule_permits is_peer (fst (buildPeerRules n)) d pp \<longleftrightarrow> is_peer (sandbox_peer n) d"
  "rule_permits is_peer (snd (buildPeerRules n)) d pp \<longleftrightarrow> is_peer (sandbox_peer n) d"
  by (simp_all add: rule_permits_def buildPeerRules_def Let_def sandbox_peer_def)

lemma permits_router [simp]:
  "rule_permits is_peer (buildRouterIngressRule ns) d pp \<longleftrightarrow> is_peer (router_peer ns) d \<and> pp = (''TCP'', 9000)"
  by (auto simp: rule_permits_def buildRouterIngressRule_def router_peer_def)

section \<open>Lemmas on the ensuring operations\<close>

text \<open>A network policy is in place: created as built, or updated to the built rules.\<close>

definition netpol_applied ::
  "sandbox \<Rightarrow> network_spec option \<Rightarrow> network_policy_options \<Rightarrow> request \<times> response \<Rightarrow> bool" where
  "netpol_applied sb ns opts c \<longleftrightarrow>
     snd c = ROk
       \<and> (\<exists>np. (fst c = CreateNetworkPolicy np \<or> fst c = UpdateNetworkPolicy np)
              \<and> same_policy_spec (BuildNetworkPolicy sb ns opts) np = np)"

definition netpol_call :: "request \<Rightarrow> bool" where
  "netpol_call q \<longleftrightarrow>
     (case q of
        SetControllerRef _ _ _ _ \<Rightarrow> True
      | GetNetworkPolicy _ _ \<Rightarrow> True
      | CreateNetworkPolicy _ \<Rightarrow> True
      | UpdateNetworkPolicy _ \<Rightarrow> True
      | _ \<Rightarrow> False)"

lemma ensureNetworkPolicy_traces:
  "traces (ensureNetworkPolicy E sb ns opts)
     (\<lambda>r t. (\<forall>c \<in> set t. netpol_call (fst c))
        \<and> (r = Inr () \<longrightarrow> (\<exists>c \<in> set t. netpol_applied sb ns opts c)))"
  unfolding ensureNetworkPolicy_def
  by (intro tr)
    (auto simp: netpol_call_def netpol_applied_def same_policy_spec_def BuildNetworkPolicy_def split: prod.splits sum.splits)

definition pvc_call :: "request \<Rightarrow> bool" where
  "pvc_call q \<longleftrightarrow>
     (case q of
        SetControllerRef _ _ _ _ \<Rightarrow> True
      | GetPVC _ _ \<Rightarrow> True
      | CreatePVC _ \<Rightarrow> True
      | _ \<Rightarrow> False)"

lemma ensurePVC_traces:
  "traces (ensurePVC PQ sz mnt E sb st)
     (\<lambda>r t. (\<forall>c \<in> set t. pvc_call (fst c))
        \<and> (\<forall>p. r = Inr p \<longrightarrow>
             (GetPVC (sb_namespace sb) (pvc_name_for (sb_name sb)), RPVC p) \<in> set t
             \<or> (CreatePVC p, ROk) \<in> set t \<and> pvc_owner p = Some (sb_name sb)
                 \<and> pvc_name p = pvc_name_for (sb_name sb)))"
  unfolding ensurePVC_def
  by (intro tr)
    (auto simp: pvc_call_def BuildPVC_def Let_def split: sum.splits)


section \<open>Properties\<close>

text \<open>Whatever a sandbox or a template asks for, a built pod stays off the host's
  network, process and IPC namespaces and mounts no host path; its first container is the
  sandbox container, which is never privileged and, unless the configuration says
  privileged (a sandbox or its template can say so), runs as user 1000 with a read-only root file system, no capabilities, no
  escalation and the default seccomp profile.\<close>

theorem built_pod_is_confined:
  "(let ps = p_spec (BuildPod PQ img sb config);
        main = hd (ps_containers ps)
    in \<not> ps_host_network ps \<and> \<not> ps_host_pid ps \<and> \<not> ps_host_ipc ps
     \<and> filter is_host_path (ps_volumes ps) = []
     \<and> c_name main = ''sandbox'' \<and> tl (ps_containers ps) = mc_sidecars config
     \<and> map_option sc_privileged (c_security main) = Some None
     \<and> (mc_privileged config \<or> map_option hardened (c_security main) = Some True))"
proof -
  have "filter is_host_path (ps_volumes (p_spec (BuildPod PQ img sb config))) = []"
    by (simp add: BuildPod_spec enforceSecurityInvariants_def del: is_host_path.simps)
  then show ?thesis
    by (simp add: Let_def BuildPod_containers buildMainContainer_def sandboxContainerName_def
        del: is_host_path.simps)
      (simp add: BuildPod_spec enforceSecurityInvariants_def addCredentialVolumes_def)
qed

text \<open>Every volume that the sandbox container mounts is declared by the pod; the
  workspace it mounts is the sandbox's own claim, and each of its secret volumes belongs to
  a credential of the configuration.\<close>

theorem mounts_are_declared:
  "vm_name ` set (c_mounts (buildMainContainer img config))
      \<subseteq> v_name ` set (ps_volumes (p_spec (BuildPod PQ img sb config)))
   \<and> filter (\<lambda>v. \<exists>c. v_source v = PVCVolume c) (ps_volumes (p_spec (BuildPod PQ img sb config)))
      = [\<lparr>v_name = ''workspace'', v_source = PVCVolume (mc_pvc config)\<rparr>]
   \<and> {s. SecretVolume s \<in> v_source ` set (ps_volumes (p_spec (BuildPod PQ img sb config)))}
      = cr_secret ` {c \<in> set (mc_credentials config). cr_mount_as c = ''file''}"
proof (intro conjI)
  show "vm_name ` set (c_mounts (buildMainContainer img config))
      \<subseteq> v_name ` set (ps_volumes (p_spec (BuildPod PQ img sb config)))"
    by (force simp: buildMainContainer_def BuildPod_volumes rw_mount_def workspaceVolumeName_def
        tmpVolumeName_def credential_volumes_def)
  have "filter (\<lambda>v. \<exists>c. v_source v = PVCVolume c) (credential_volumes creds) = []" for creds
    by (auto simp: credential_volumes_def filter_empty_conv)
  then show "filter (\<lambda>v. \<exists>c. v_source v = PVCVolume c) (ps_volumes (p_spec (BuildPod PQ img sb config)))
      = [\<lparr>v_name = ''workspace'', v_source = PVCVolume (mc_pvc config)\<rparr>]"
    by (simp add: BuildPod_volumes)
  show "{s. SecretVolume s \<in> v_source ` set (ps_volumes (p_spec (BuildPod PQ img sb config)))}
      = cr_secret ` {c \<in> set (mc_credentials config). cr_mount_as c = ''file''}"
    by (simp add: BuildPod_volumes credential_volumes_def image_image) blast
qed


text \<open>One rule, for a block of addresses on the port of HTTPS.\<close>

definition https_only :: network_spec where
  "https_only =
     \<lparr>net_allow_internet = False,
      net_egress = [\<lparr>nr_cidr = ''10.0.0.0/8'', nr_ports = [\<lparr>np_protocol = [], np_port = 443\<rparr>], nr_service = None\<rparr>],
      net_ingress = [], net_domains = [], net_allow_peers = False, net_peer_selector = None\<rparr>"

definition in_block :: "policy_peer \<Rightarrow> nat \<Rightarrow> bool" where
  "in_block p d \<longleftrightarrow> peer_ip_block p = Some ''10.0.0.0/8'' \<and> d < 10"

definition https_sandbox :: "policy_rule list" where
  "https_sandbox = npol_egress (BuildNetworkPolicy (new_sandbox ''ns'' ''a'' empty_spec) (Some https_only)
     \<lparr>npo_router_ingress = False, npo_router_namespace = []\<rparr>)"


text \<open>What the ingress half permits, exactly: the router on port 9000 when HTTP exec is
  on, and, when the spec does not allow the internet, the traffic that one of its ingress
  rules wants and its peer sandboxes. Everything else is denied, because the policy selects
  the sandbox's pods and always names both directions.\<close>

theorem ingress_exactly_as_specified:
  "(permits is_peer (npol_ingress (BuildNetworkPolicy sb ns opts)) d pp \<longleftrightarrow>
     (npo_router_ingress opts \<and> is_peer (router_peer (npo_router_namespace opts)) d \<and> pp = (''TCP'', 9000))
     \<or> (case ns of
          None \<Rightarrow> False
        | Some n \<Rightarrow>
            \<not> net_allow_internet n
            \<and> ((\<exists>r. r \<in> set (net_ingress n) \<and> wants_traffic is_peer r d pp)
               \<or> (net_allow_peers n \<and> is_peer (sandbox_peer n) d))))
   \<and> npol_types (BuildNetworkPolicy sb ns opts) = [''Egress'', ''Ingress'']
   \<and> npol_selector (BuildNetworkPolicy sb ns opts) = match_labels [(''agenttier.io/sandbox'', sb_name sb)]"
proof -
  have "permits is_peer (map buildIngressRule rs) d pp \<longleftrightarrow> (\<exists>r. r \<in> set rs \<and> wants_traffic is_peer r d pp)"
    for rs by (auto simp: permits_def permits_ingress_rule)
  then show ?thesis
    by (auto simp: BuildNetworkPolicy_def user_rules_def split: option.split)
qed

end
