(* ===== verification/Sandbox_Secrets.thy ===== *)
theory Sandbox_Secrets
  imports Api_Calls Crypto
begin

text \<open>
  The secrets of a sandbox: the token of its in-pod runtime
  (\<open>pkg/controller/runtime_token.go\<close>) and its scoped API key
  (\<open>pkg/controller/scoped_key.go\<close>), whose hashed record goes to the API key store
  (\<open>pkg/apikeystore/store.go\<close>).
\<close>

section \<open>The API key store\<close>

definition New :: "string \<Rightarrow> string" where
  "New namespace = (if namespace = [] then ''agenttier'' else namespace)"

definition SecretNameForHash :: "string \<Rightarrow> string" where
  "SecretNameForHash keyHash = ''agenttier-apikey-'' @ (if length keyHash > 40 then take 40 keyHash else keyHash)"

definition is_alnum :: "char \<Rightarrow> bool" where
  "is_alnum c \<longleftrightarrow> c \<in> set ''abcdefghijklmnopqrstuvwxyzABCDEFGHIJKLMNOPQRSTUVWXYZ0123456789''"

definition trimNonAlphanumeric :: "string \<Rightarrow> string" where
  "trimNonAlphanumeric s =
     rev (dropWhile (\<lambda>c. \<not> is_alnum c) (rev (dropWhile (\<lambda>c. \<not> is_alnum c) s)))"

text \<open>On ASCII, where a rune is a byte.\<close>

definition SanitizeLabelValue :: "string \<Rightarrow> string" where
  "SanitizeLabelValue v =
     (if v = [] then ''unknown''
      else (let safe = map (\<lambda>c. if is_alnum c \<or> c \<in> set ''-_.'' then c else CHR ''-'') v;
                out = trimNonAlphanumeric (if length safe > 63 then take 63 safe else safe)
            in if out = [] then ''user'' else out))"

definition GetAPIKeyByHash :: "string \<Rightarrow> 'w api \<Rightarrow> string \<Rightarrow> ('w, string + api_key_record) kprog" where
  "GetAPIKeyByHash ns E keyHash = do {
     r \<leftarrow> ask E (GetSecret ns (SecretNameForHash keyHash)) as_secret;
     ret (case r of
            Inl _ \<Rightarrow> Inl ''api key not found''
          | Inr s \<Rightarrow>
              if secret_text s ''keyHash'' \<noteq> keyHash then Inl ''api key not found''
              else (case sct_data s ''record'' of
                      Some (SecretRecord rec) \<Rightarrow> Inr rec
                    | Some _ \<Rightarrow> Inl ''corrupt api key record''
                    | None \<Rightarrow> Inr
                        \<lparr>akr_key_hash = [], akr_user = [], akr_email = [], akr_name = [], akr_scopes = [],
                         akr_namespaces = [], akr_sandbox = [], akr_groups = [], akr_created = 0,
                         akr_expires = None, akr_last_used = None\<rparr>))
   }"

definition key_secret :: "string \<Rightarrow> string \<Rightarrow> api_key_record \<Rightarrow> secret" where
  "key_secret ns keyHash rec =
     \<lparr>sct_name = SecretNameForHash keyHash, sct_namespace = ns,
      sct_labels = [''agenttier.io/secret-purpose'' \<mapsto> ''api-key'',
                    ''agenttier.io/api-key-user'' \<mapsto> SanitizeLabelValue (akr_user rec)],
      sct_owner = None,
      sct_data = [''keyHash'' \<mapsto> SecretText keyHash, ''record'' \<mapsto> SecretRecord rec]\<rparr>"

definition CreateKey :: "string \<Rightarrow> 'w api \<Rightarrow> string \<Rightarrow> api_key_record \<Rightarrow> ('w, api_err + unit) kprog" where
  "CreateKey ns E keyHash rec = ask E (CreateSecret (key_secret ns keyHash rec)) as_unit"

section \<open>The runtime token\<close>

definition runtimeTokenBytes :: nat where "runtimeTokenBytes = 32"

definition runtimeTokenSecretName :: "string \<Rightarrow> string" where
  "runtimeTokenSecretName n = n @ ''-runtime-token''"

definition purpose_secret :: "sandbox \<Rightarrow> string \<Rightarrow> string \<Rightarrow> string \<Rightarrow> string \<Rightarrow> secret" where
  "purpose_secret sb n purpose key val =
     \<lparr>sct_name = n, sct_namespace = sb_namespace sb,
      sct_labels = [''agenttier.io/sandbox'' \<mapsto> sb_name sb, ''agenttier.io/managed'' \<mapsto> ''true'',
                    ''agenttier.io/secret-purpose'' \<mapsto> purpose],
      sct_owner = None, sct_data = [key \<mapsto> SecretText val]\<rparr>"

definition ensureRuntimeTokenSecret :: "'w api \<Rightarrow> sandbox \<Rightarrow> ('w, string + string) kprog" where
  "ensureRuntimeTokenSecret E sb =
     (let n = runtimeTokenSecretName (sb_name sb)
      in do {
        g \<leftarrow> ask E (GetSecret (sb_namespace sb) n) as_secret;
        (case g of
           Inr _ \<Rightarrow> ret (Inr n)
         | Inl NotFound \<Rightarrow> do {
             b \<leftarrow> ask E (RandBytes runtimeTokenBytes) as_bytes;
             (case b of
                Inl e \<Rightarrow> ret (Inl (''read random for runtime token: '' @ err_text e))
              | Inr tokenBytes \<Rightarrow>
                  (let desired = purpose_secret sb n ''runtime-token'' ''token'' (RawURLEncoding tokenBytes)
                   in do {
                     own \<leftarrow> ask E (SetControllerRef (sb_name sb) ''Secret'' n None) as_unit;
                     (case own of
                        Inl e \<Rightarrow> ret (Inl (''set owner reference on runtime-token secret: '' @ err_text e))
                      | Inr _ \<Rightarrow> do {
                          c \<leftarrow> ask E (CreateSecret (desired\<lparr>sct_owner := Some (sb_name sb)\<rparr>)) as_unit;
                          ret (case c of
                                 Inr _ \<Rightarrow> Inr n
                               | Inl AlreadyExists \<Rightarrow> Inr n
                               | Inl e \<Rightarrow> Inl (''create runtime-token secret: '' @ err_text e))
                        })
                   }))
           }
         | Inl e \<Rightarrow> ret (Inl (''get runtime-token secret: '' @ err_text e)))
      })"

definition ReadRuntimeToken :: "'w api \<Rightarrow> string \<Rightarrow> string \<Rightarrow> ('w, api_err + string) kprog" where
  "ReadRuntimeToken E sandboxName namespace = do {
     g \<leftarrow> ask E (GetSecret namespace (runtimeTokenSecretName sandboxName)) as_secret;
     ret (case g of
            Inl NotFound \<Rightarrow> Inr []
          | Inl e \<Rightarrow> Inl e
          | Inr s \<Rightarrow> Inr (secret_text s ''token''))
   }"

section \<open>The scoped API key\<close>

definition scopedKeyBytes :: nat where "scopedKeyBytes = 32"
definition scopedKeyPlaintextPrefix :: string where "scopedKeyPlaintextPrefix = ''atk_''"

definition DefaultScopedKeyActionGroups :: "string list" where
  "DefaultScopedKeyActionGroups =
     [''run-command'', ''files:read'', ''files:write'', ''ports'', ''agent:invoke'', ''agent:configure'',
      ''resume'', ''stop'']"

definition scopedKeyPlaintextSecretName :: "string \<Rightarrow> string" where
  "scopedKeyPlaintextSecretName n = n @ ''-scoped-key''"

definition ownerSubOf :: "sandbox \<Rightarrow> string" where
  "ownerSubOf sb = (case spec_created_by (sb_spec sb) of None \<Rightarrow> [] | Some c \<Rightarrow> uid_sub c)"

definition scoped_record :: "sandbox \<Rightarrow> string \<Rightarrow> instant \<Rightarrow> api_key_record" where
  "scoped_record sb keyHash now =
     \<lparr>akr_key_hash = keyHash, akr_user = ownerSubOf sb, akr_email = [],
      akr_name = ''sandbox-scoped: '' @ sb_name sb, akr_scopes = [], akr_namespaces = [],
      akr_sandbox = sb_name sb, akr_groups = DefaultScopedKeyActionGroups, akr_created = now,
      akr_expires = None, akr_last_used = None\<rparr>"

definition ensureHashedScopedKeyRecord ::
  "'w api \<Rightarrow> sandbox \<Rightarrow> string \<Rightarrow> string \<Rightarrow> ('w, string + unit) kprog" where
  "ensureHashedScopedKeyRecord E sb key installNamespace =
     (let ns = New installNamespace; keyHash = hashAPIKey key
      in do {
        g \<leftarrow> GetAPIKeyByHash ns E keyHash;
        (case g of
           Inr _ \<Rightarrow> ret (Inr ())
         | Inl _ \<Rightarrow> do {
             now \<leftarrow> ask E Now as_time;
             c \<leftarrow> CreateKey ns E keyHash (scoped_record sb keyHash now);
             ret (case c of
                    Inr _ \<Rightarrow> Inr ()
                  | Inl AlreadyExists \<Rightarrow> Inr ()
                  | Inl e \<Rightarrow> Inl (''create hashed scoped-key record: create api key secret: '' @ err_text e))
           })
      })"

definition ensureSandboxAPIKeySecret :: "'w api \<Rightarrow> sandbox \<Rightarrow> string \<Rightarrow> ('w, string + string) kprog" where
  "ensureSandboxAPIKeySecret E sb installNamespace =
     (let n = scopedKeyPlaintextSecretName (sb_name sb)
      in do {
        g \<leftarrow> ask E (GetSecret (sb_namespace sb) n) as_secret;
        (case g of
           Inr existing \<Rightarrow>
             if secret_text existing ''key'' = []
             then ret (Inl (''scoped-key secret '' @ n @ '' exists but has no key data''))
             else do {
               h \<leftarrow> ensureHashedScopedKeyRecord E sb (secret_text existing ''key'') installNamespace;
               ret (case h of Inl e \<Rightarrow> Inl e | Inr _ \<Rightarrow> Inr n)
             }
         | Inl NotFound \<Rightarrow> do {
             b \<leftarrow> ask E (RandBytes scopedKeyBytes) as_bytes;
             (case b of
                Inl e \<Rightarrow> ret (Inl (''read random for scoped key: '' @ err_text e))
              | Inr keyBytes \<Rightarrow>
                  (let key = scopedKeyPlaintextPrefix @ RawURLEncoding keyBytes
                   in do {
                     h \<leftarrow> ensureHashedScopedKeyRecord E sb key installNamespace;
                     (case h of
                        Inl e \<Rightarrow> ret (Inl e)
                      | Inr _ \<Rightarrow> do {
                          own \<leftarrow> ask E (SetControllerRef (sb_name sb) ''Secret'' n None) as_unit;
                          (case own of
                             Inl e \<Rightarrow> ret (Inl (''set owner reference on scoped-key secret: '' @ err_text e))
                           | Inr _ \<Rightarrow> do {
                               c \<leftarrow> ask E (CreateSecret ((purpose_secret sb n ''scoped-api-key'' ''key'' key)
                                              \<lparr>sct_owner := Some (sb_name sb)\<rparr>)) as_unit;
                               ret (case c of
                                      Inr _ \<Rightarrow> Inr n
                                    | Inl AlreadyExists \<Rightarrow> Inr n
                                    | Inl e \<Rightarrow> Inl (''create scoped-key secret: '' @ err_text e))
                             })
                        })
                   }))
           }
         | Inl e \<Rightarrow> ret (Inl (''get scoped-key secret: '' @ err_text e)))
      })"

definition revokeSandboxAPIKey :: "'w api \<Rightarrow> sandbox \<Rightarrow> string \<Rightarrow> ('w, api_err + unit) kprog" where
  "revokeSandboxAPIKey E sb installNamespace = do {
     g \<leftarrow> ask E (GetSecret (sb_namespace sb) (scopedKeyPlaintextSecretName (sb_name sb))) as_secret;
     (case g of
        Inl NotFound \<Rightarrow> ret (Inr ())
      | Inl e \<Rightarrow> ret (Inl e)
      | Inr s \<Rightarrow>
          (let key = secret_text s ''key''
           in if key = [] then ret (Inr ())
              else (let hashedName = SecretNameForHash (hashAPIKey key)
                    in do {
                      h \<leftarrow> ask E (GetSecret installNamespace hashedName) as_secret;
                      (case h of
                         Inl NotFound \<Rightarrow> ret (Inr ())
                       | Inl e \<Rightarrow> ret (Inl e)
                       | Inr _ \<Rightarrow> do {
                           d \<leftarrow> ask E (DeleteSecret installNamespace hashedName) as_unit;
                           ret (case d of
                                  Inr _ \<Rightarrow> Inr ()
                                | Inl NotFound \<Rightarrow> Inr ()
                                | Inl e \<Rightarrow> Inl e)
                         })
                    })))
   }"


section \<open>Lemmas\<close>

text \<open>The API server's contract for Secrets: \<open>sec\<close> reads them out of the world. The other
  calls of this component leave the Secrets alone.\<close>

definition secret_server :: "'w api \<Rightarrow> ('w \<Rightarrow> string \<times> string \<rightharpoonup> secret) \<Rightarrow> bool" where
  "secret_server E sec \<longleftrightarrow>
     (\<forall>w ns n. E w (GetSecret ns n)
        = ((case sec w (ns, n) of None \<Rightarrow> RErr NotFound | Some s \<Rightarrow> RSecret s), w))
     \<and> (\<forall>w s. if sec w (sct_namespace s, sct_name s) = None
          then \<exists>w'. E w (CreateSecret s) = (ROk, w')
                 \<and> sec w' = (sec w)((sct_namespace s, sct_name s) \<mapsto> s)
          else E w (CreateSecret s) = (RErr AlreadyExists, w))
     \<and> (\<forall>w ns n. if sec w (ns, n) = None
          then E w (DeleteSecret ns n) = (RErr NotFound, w)
          else \<exists>w'. E w (DeleteSecret ns n) = (ROk, w') \<and> sec w' = (sec w)((ns, n) := None))
     \<and> (\<forall>w q. (case q of Now \<Rightarrow> True | RandBytes _ \<Rightarrow> True | SetControllerRef _ _ _ _ \<Rightarrow> True | _ \<Rightarrow> False)
          \<longrightarrow> sec (snd (E w q)) = sec w)"

text \<open>Owner references can be set and random bytes drawn.\<close>

definition grants_bytes :: "'w api \<Rightarrow> nat list \<Rightarrow> bool" where
  "grants_bytes E bs \<longleftrightarrow>
     (\<forall>w n. fst (E w (RandBytes n)) = RBytes bs) \<and> (\<forall>w a b c d. fst (E w (SetControllerRef a b c d)) = ROk)"

lemma get_secret:
  "secret_server E sec \<Longrightarrow> E w (GetSecret ns n)
     = ((case sec w (ns, n) of None \<Rightarrow> RErr NotFound | Some s \<Rightarrow> RSecret s), w)"
  by (simp add: secret_server_def)

lemma create_secret:
  assumes "secret_server E sec" "sec w (sct_namespace s, sct_name s) = None"
  obtains w' where "E w (CreateSecret s) = (ROk, w')" "sec w' = (sec w)((sct_namespace s, sct_name s) \<mapsto> s)"
proof -
  have "if sec w (sct_namespace s, sct_name s) = None
          then \<exists>w'. E w (CreateSecret s) = (ROk, w')
                 \<and> sec w' = (sec w)((sct_namespace s, sct_name s) \<mapsto> s)
          else E w (CreateSecret s) = (RErr AlreadyExists, w)"
    using assms(1) unfolding secret_server_def by blast
  with assms(2) that show thesis by auto
qed

lemma delete_secret:
  assumes "secret_server E sec" "sec w (ns, n) \<noteq> None"
  obtains w' where "E w (DeleteSecret ns n) = (ROk, w')" "sec w' = (sec w)((ns, n) := None)"
proof -
  have "if sec w (ns, n) = None
          then E w (DeleteSecret ns n) = (RErr NotFound, w)
          else \<exists>w'. E w (DeleteSecret ns n) = (ROk, w') \<and> sec w' = (sec w)((ns, n) := None)"
    using assms(1) unfolding secret_server_def by blast
  with assms(2) that show thesis by auto
qed

lemma other_calls_keep_secrets:
  assumes "secret_server E sec"
  shows "sec (snd (E w Now)) = sec w" "sec (snd (E w (RandBytes n))) = sec w"
    "sec (snd (E w (SetControllerRef a b c d))) = sec w"
  using assms by (simp_all add: secret_server_def)

lemma GetAPIKeyByHash_run:
  assumes "secret_server E sec"
  shows "\<exists>l'. run_state (GetAPIKeyByHash ns E h) (w, l) =
     ((case sec w (ns, SecretNameForHash h) of
         None \<Rightarrow> Inl ''api key not found''
       | Some s \<Rightarrow>
           if secret_text s ''keyHash'' \<noteq> h then Inl ''api key not found''
           else (case sct_data s ''record'' of
                      Some (SecretRecord rec) \<Rightarrow> Inr rec
                    | Some _ \<Rightarrow> Inl ''corrupt api key record''
                    | None \<Rightarrow> Inr
                        \<lparr>akr_key_hash = [], akr_user = [], akr_email = [], akr_name = [], akr_scopes = [],
                         akr_namespaces = [], akr_sandbox = [], akr_groups = [], akr_created = 0,
                         akr_expires = None, akr_last_used = None\<rparr>)), (w, l'))"
  by (cases "sec w (ns, SecretNameForHash h)") (simp_all add: GetAPIKeyByHash_def run_bind get_secret [OF assms])

lemma key_secret_found:
  assumes "secret_server E sec" "sec w (ns, SecretNameForHash h) = Some (key_secret ns h rec)"
  shows "\<exists>l'. run_state (GetAPIKeyByHash ns E h) (w, l) = (Inr rec, (w, l'))"
  using GetAPIKeyByHash_run [OF assms(1), of ns h w l] assms(2)
  by (simp add: key_secret_def secret_text_def)

text \<open>The world after minting does not depend on the log.\<close>

lemma minted_world:
  assumes "secret_server E sec" "sec w (New inst, SecretNameForHash (hashAPIKey key)) = None"
  shows "\<exists>w' now. (\<forall>l. \<exists>l'. run_state (ensureHashedScopedKeyRecord E sb key inst) (w, l) = (Inr (), (w', l')))
    \<and> sec w' = (sec w)((New inst, SecretNameForHash (hashAPIKey key))
        \<mapsto> key_secret (New inst) (hashAPIKey key) (scoped_record sb (hashAPIKey key) now))"
proof -
  let ?h = "hashAPIKey key"
  have 1: "\<exists>l1. run_state (GetAPIKeyByHash (New inst) E ?h) (w, l) = (Inl ''api key not found'', (w, l1))" for l
    using GetAPIKeyByHash_run [OF assms(1), of "New inst" ?h w l] assms(2) by auto
  obtain r w1 where now: "E w Now = (r, w1)" by fastforce
  then have sec1: "sec w1 = sec w" using other_calls_keep_secrets(1) [OF assms(1), of w] by simp
  let ?s = "key_secret (New inst) ?h (scoped_record sb ?h (as_time r))"
  have names: "sct_namespace ?s = New inst" "sct_name ?s = SecretNameForHash ?h"
    by (simp_all add: key_secret_def)
  obtain w' where w': "E w1 (CreateSecret ?s) = (ROk, w')" "sec w' = (sec w1)((New inst, SecretNameForHash ?h) \<mapsto> ?s)"
    using create_secret [OF assms(1), of w1 ?s] assms(2) sec1 names by auto
  have "\<exists>l'. run_state (ensureHashedScopedKeyRecord E sb key inst) (w, l) = (Inr (), (w', l'))" for l
    using 1 [of l] now w'(1)
    by (auto simp: ensureHashedScopedKeyRecord_def CreateKey_def run_bind Let_def)
  with w'(2) sec1 show ?thesis by auto
qed

lemma ensureHashed_idempotent:
  assumes "secret_server E sec"
    and "sec w (New inst, SecretNameForHash (hashAPIKey key)) = Some (key_secret (New inst) (hashAPIKey key) rec)"
  shows "\<exists>l'. run_state (ensureHashedScopedKeyRecord E sb key inst) (w, l) = (Inr (), (w, l'))"
proof -
  obtain l1 where "run_state (GetAPIKeyByHash (New inst) E (hashAPIKey key)) (w, l) = (Inr rec, (w, l1))"
    using key_secret_found [OF assms] by blast
  then show ?thesis
    by (simp add: ensureHashedScopedKeyRecord_def run_bind Let_def)
qed

text \<open>Where the store puts records when no install namespace is set, and where revocation
  looks for them.\<close>

lemma revoke_ignores_default_namespace:
  "New [] = ''agenttier''"
  "traces (revokeSandboxAPIKey E sb [])
     (\<lambda>r t. \<forall>c \<in> set t. \<forall>ns n. fst c = DeleteSecret ns n \<longrightarrow> ns = [])"
  by (simp add: New_def) (unfold revokeSandboxAPIKey_def, intro tr; simp)

section \<open>Properties\<close>

text \<open>C20. The life of a scoped key, from a sandbox that has none, on an API server that
  keeps its contract and with an install namespace of its own: minting succeeds and the
  store then holds a record for the injected key that is bound to this sandbox and cannot
  delete; ensuring the key again changes no Secret; after revocation the key is not found.\<close>

theorem scoped_key_lifecycle:
  assumes "secret_server E sec" "grants_bytes E bs"
    and "inst \<noteq> []" "inst \<noteq> sb_namespace sb"
    and "sec w (sb_namespace sb, scopedKeyPlaintextSecretName (sb_name sb)) = None"
    and "sec w (inst, SecretNameForHash (hashAPIKey (''atk_'' @ RawURLEncoding bs))) = None"
  shows "\<exists>n w1 l1 rec w2 l2 s3.
      run_state (ensureSandboxAPIKeySecret E sb inst) (w, l) = (Inr n, (w1, l1))
    \<and> fst (run_state (GetAPIKeyByHash inst E (hashAPIKey (''atk_'' @ RawURLEncoding bs))) (w1, l1)) = Inr rec
    \<and> akr_sandbox rec = sb_name sb \<and> ''delete'' \<notin> set (akr_groups rec)
    \<and> run_state (ensureSandboxAPIKeySecret E sb inst) (w1, l1) = (Inr n, (w2, l2)) \<and> sec w2 = sec w1
    \<and> run_state (revokeSandboxAPIKey E sb inst) (w1, l1) = (Inr (), s3)
    \<and> fst (run_state (GetAPIKeyByHash inst E (hashAPIKey (''atk_'' @ RawURLEncoding bs))) s3)
        = Inl ''api key not found''"
proof -
  let ?key = "''atk_'' @ RawURLEncoding bs"
  let ?hn = "SecretNameForHash (hashAPIKey ?key)" and ?n = "scopedKeyPlaintextSecretName (sb_name sb)"
  let ?p = "(purpose_secret sb ?n ''scoped-api-key'' ''key'' ?key)\<lparr>sct_owner := Some (sb_name sb)\<rparr>"
  note srv = assms(1)
  have New: "New inst = inst" using assms(3) by (simp add: New_def)
  obtain r1 v1 where rb: "E w (RandBytes 32) = (r1, v1)" by fastforce
  have r1: "r1 = RBytes bs" using assms(2) rb unfolding grants_bytes_def by (metis fst_conv)
  have v1: "sec v1 = sec w" using other_calls_keep_secrets(2) [OF srv, of w 32] rb by simp
  have none1: "sec v1 (New inst, SecretNameForHash (hashAPIKey ?key)) = None"
    using assms(6) v1 New by simp
  obtain v2 now where h:
    "\<And>l. \<exists>l'. run_state (ensureHashedScopedKeyRecord E sb ?key inst) (v1, l) = (Inr (), (v2, l'))"
    "sec v2 = (sec v1)((inst, ?hn) \<mapsto> key_secret inst (hashAPIKey ?key) (scoped_record sb (hashAPIKey ?key) now))"
    using minted_world [OF srv none1, of sb] New by metis
  obtain r3 v3 where ow: "E v2 (SetControllerRef (sb_name sb) ''Secret'' ?n None) = (r3, v3)" by fastforce
  have r3: "r3 = ROk" using assms(2) ow unfolding grants_bytes_def by (metis fst_conv)
  have v3: "sec v3 = sec v2"
    using other_calls_keep_secrets(3) [OF srv, of v2 "sb_name sb" "''Secret''" ?n None] ow by simp
  have pn: "sct_namespace ?p = sb_namespace sb" "sct_name ?p = ?n"
    by (simp_all add: purpose_secret_def)
  have "sec v3 (sct_namespace ?p, sct_name ?p) = None"
    using assms(4,5) v3 v1 h(2) pn by auto
  then obtain w1 where cr: "E v3 (CreateSecret ?p) = (ROk, w1)"
    "sec w1 = (sec v3)((sb_namespace sb, ?n) \<mapsto> ?p)"
    using create_secret [OF srv, of v3 ?p] pn by auto
  let ?rec = "scoped_record sb (hashAPIKey ?key) now"
  have at1: "sec w1 (inst, ?hn) = Some (key_secret inst (hashAPIKey ?key) ?rec)"
    "sec w1 (sb_namespace sb, ?n) = Some ?p"
    using cr(2) v3 h(2) assms(4) by auto
  have ptext: "secret_text ?p ''key'' = ?key" "?key \<noteq> []"
    by (simp_all add: purpose_secret_def secret_text_def)
  have mint: "\<exists>l1. run_state (ensureSandboxAPIKeySecret E sb inst) (w, l) = (Inr ?n, (w1, l1))"
    using h(1) [of "l @ [(GetSecret (sb_namespace sb) ?n, RErr NotFound), (RandBytes 32, r1)]"]
      rb r1 ow r3 cr(1) get_secret [OF srv, of w] assms(5)
    by (auto simp: ensureSandboxAPIKeySecret_def run_bind Let_def scopedKeyBytes_def
        scopedKeyPlaintextPrefix_def)
  then obtain l1 where mint: "run_state (ensureSandboxAPIKeySecret E sb inst) (w, l) = (Inr ?n, (w1, l1))"
    by blast
  have found: "fst (run_state (GetAPIKeyByHash inst E (hashAPIKey ?key)) (w1, l1)) = Inr ?rec"
    using key_secret_found [OF srv at1(1), of l1] by auto
  obtain l2 where hashed: "run_state (ensureHashedScopedKeyRecord E sb ?key inst)
      (w1, l1 @ [(GetSecret (sb_namespace sb) ?n, RSecret ?p)]) = (Inr (), (w1, l2))"
    using ensureHashed_idempotent [OF srv, of w1 inst ?key ?rec sb] at1(1) New by metis
  have again: "\<exists>l2. run_state (ensureSandboxAPIKeySecret E sb inst) (w1, l1) = (Inr ?n, (w1, l2))"
    using hashed at1(2) ptext get_secret [OF srv, of w1]
    by (auto simp: ensureSandboxAPIKeySecret_def run_bind Let_def)
  obtain w3 where del: "E w1 (DeleteSecret inst ?hn) = (ROk, w3)" "sec w3 = (sec w1)((inst, ?hn) := None)"
    using delete_secret [OF srv, of w1 inst ?hn] at1(1) by auto
  have rev: "\<exists>l3. run_state (revokeSandboxAPIKey E sb inst) (w1, l1) = (Inr (), (w3, l3))"
    using at1 ptext del(1) get_secret [OF srv, of w1]
    by (auto simp: revokeSandboxAPIKey_def run_bind Let_def)
  then obtain l3 where rev: "run_state (revokeSandboxAPIKey E sb inst) (w1, l1) = (Inr (), (w3, l3))"
    by blast
  have gone: "fst (run_state (GetAPIKeyByHash inst E (hashAPIKey ?key)) (w3, l3)) = Inl ''api key not found''"
    using GetAPIKeyByHash_run [OF srv, of inst "hashAPIKey ?key" w3 l3] del(2) by auto
  have "akr_sandbox ?rec = sb_name sb" "''delete'' \<notin> set (akr_groups ?rec)"
    by (simp_all add: scoped_record_def DefaultScopedKeyActionGroups_def)
  then show ?thesis using mint found again rev gone by blast
qed


text \<open>A server that holds nothing but Secrets.\<close>

fun tiny_secret_server :: "(string \<times> string \<rightharpoonup> secret) api" where
  "tiny_secret_server w (GetSecret ns n) =
     ((case w (ns, n) of None \<Rightarrow> RErr NotFound | Some s \<Rightarrow> RSecret s), w)"
| "tiny_secret_server w (CreateSecret s) =
     (if w (sct_namespace s, sct_name s) = None
      then (ROk, w((sct_namespace s, sct_name s) \<mapsto> s)) else (RErr AlreadyExists, w))"
| "tiny_secret_server w (DeleteSecret ns n) =
     (if w (ns, n) = None then (RErr NotFound, w) else (ROk, w((ns, n) := None)))"
| "tiny_secret_server w (RandBytes n) = (RBytes [1, 2, 3], w)"
| "tiny_secret_server w (SetControllerRef _ _ _ _) = (ROk, w)"
| "tiny_secret_server w Now = (RTime 0, w)"
| "tiny_secret_server w _ = (RErr (OtherErr ''not served''), w)"

lemma tiny_secret_server_ok:
  "secret_server tiny_secret_server (\<lambda>w. w)" "grants_bytes tiny_secret_server [1, 2, 3]"
  by (auto simp: secret_server_def grants_bytes_def split: request.splits)

theorem scoped_key_lifecycle_witness:
  "\<exists>n s1. run_state (ensureSandboxAPIKeySecret tiny_secret_server (new_sandbox ''default'' ''a'' empty_spec)
            ''agenttier'') (Map.empty, []) = (Inr n, s1)
     \<and> fst (run_state (revokeSandboxAPIKey tiny_secret_server (new_sandbox ''default'' ''a'' empty_spec)
            ''agenttier'') s1) = Inr ()"
proof -
  have "''agenttier'' \<noteq> ([] :: string)"
    and "''agenttier'' \<noteq> sb_namespace (new_sandbox ''default'' ''a'' empty_spec)"
    by (simp_all add: new_sandbox_def)
  note hyps = tiny_secret_server_ok this
  from scoped_key_lifecycle [OF hyps, of Map.empty "[]"]
  show ?thesis by force
qed

end
