(* ===== verification/Warm_Pool.thy ===== *)
theory Warm_Pool
  imports Pod_Builder Lifecycle
begin

text \<open>
  The warm pool (\<open>pkg/controller/warmpool/pool.go\<close>): its configuration in a ConfigMap,
  the reconciler that keeps idle pods per template, the status, and the optimistic claim
  of a pod by a sandbox. \<open>isPodReady\<close>, which the package repeats, is that of the life
  cycle theory.
\<close>

section \<open>Configuration\<close>

definition LabelPooled :: string where "LabelPooled = ''agenttier.io/pooled''"
definition LabelTemplate :: string where "LabelTemplate = ''agenttier.io/pool-template''"
definition PoolConfigMapName :: string where "PoolConfigMapName = ''agenttier-warmpool-config''"
definition DefaultNamespace :: string where "DefaultNamespace = ''agenttier''"
definition DefaultSandboxNamespace :: string where "DefaultSandboxNamespace = ''default''"
definition PoolStorageClass :: string where "PoolStorageClass = ''gp3-immediate''"
definition claimMaxAttempts :: nat where "claimMaxAttempts = 3"

definition Normalize :: "warm_config \<Rightarrow> warm_config" where
  "Normalize c =
     (if wc_pools c \<noteq> [] then c\<lparr>wc_desired := 0, wc_template := []\<rparr>
      else if wc_template c = [] \<or> wc_desired c \<le> 0 then c
      else c\<lparr>wc_pools := [\<lparr>pc_template = wc_template c, pc_desired = wc_desired c\<rparr>],
             wc_desired := 0, wc_template := []\<rparr>)"

text \<open>The two namespaces of a reconciler: of the configuration and of the pods.\<close>

record pool_reconciler =
  pr_namespace :: string
  pr_sandbox_namespace :: string

definition NewReconciler :: "string \<Rightarrow> string \<Rightarrow> pool_reconciler" where
  "NewReconciler namespace sandboxNamespace =
     (let ns = (if namespace = [] then DefaultNamespace else namespace)
      in \<lparr>pr_namespace = ns,
          pr_sandbox_namespace = (if sandboxNamespace = [] then ns else sandboxNamespace)\<rparr>)"

definition ReadConfig :: "pool_reconciler \<Rightarrow> 'w api \<Rightarrow> ('w, string + warm_config) kprog" where
  "ReadConfig r E = do {
     g \<leftarrow> ask E (GetConfigMap (pr_namespace r) PoolConfigMapName) as_config_map;
     ret (case g of
            Inl e \<Rightarrow> Inl (err_text e)
          | Inr cm \<Rightarrow>
              (case cm_data cm ''config'' of
                 None \<Rightarrow> Inr empty_warm_config
               | Some (PoolDoc c) \<Rightarrow> Inr (Normalize c)
               | Some _ \<Rightarrow> Inl ''invalid warmpool config''))
   }"

definition SetConfig :: "'w api \<Rightarrow> string \<Rightarrow> warm_config \<Rightarrow> ('w, string + unit) kprog" where
  "SetConfig E namespace0 cfg =
     (let namespace = (if namespace0 = [] then DefaultNamespace else namespace0);
          data = PoolDoc (Normalize cfg)
      in do {
        g \<leftarrow> ask E (GetConfigMap namespace PoolConfigMapName) as_config_map;
        (case g of
           Inl NotFound \<Rightarrow> do {
             c \<leftarrow> ask E (CreateConfigMap \<lparr>cm_name = PoolConfigMapName, cm_namespace = namespace, cm_labels = Map.empty, cm_owner = None,
                                         cm_data = [''config'' \<mapsto> data], cm_version = []\<rparr>) as_config_map;
             ret (case c of Inl e \<Rightarrow> Inl (err_text e) | Inr _ \<Rightarrow> Inr ())
           }
         | Inl e \<Rightarrow> ret (Inl (err_text e))
         | Inr cm \<Rightarrow> do {
             u \<leftarrow> ask E (UpdateConfigMap (cm\<lparr>cm_data := (cm_data cm)(''config'' \<mapsto> data)\<rparr>)) as_config_map;
             ret (case u of Inl e \<Rightarrow> Inl (err_text e) | Inr _ \<Rightarrow> Inr ())
           })
      })"

section \<open>Status\<close>

record pool_status =
  pls_template :: string
  pls_desired :: int
  pls_ready :: nat
  pls_pending :: nat

record warm_status =
  ws_pools :: "pool_status list"
  ws_desired :: int
  ws_ready :: nat
  ws_pending :: nat
  ws_template :: string

text \<open>The counters per template, ready and pending; a missing entry counts as zeros.\<close>

type_synonym pool_counts = "string \<Rightarrow> nat \<times> nat"

definition count_pod :: "pool_counts \<Rightarrow> pod \<Rightarrow> pool_counts" where
  "count_pod counts p =
     (case p_labels p LabelTemplate of
        None \<Rightarrow> counts
      | Some tpl \<Rightarrow>
          if tpl = [] then counts
          else (case counts tpl of
                  (ready, pending) \<Rightarrow>
                    if isPodReady p then counts(tpl := (ready + 1, pending))
                    else counts(tpl := (ready, pending + 1))))"

definition statusFromConfig :: "warm_config \<Rightarrow> pool_counts \<Rightarrow> warm_status" where
  "statusFromConfig cfg counts =
     (let pools = map (\<lambda>p. \<lparr>pls_template = pc_template p, pls_desired = pc_desired p,
                            pls_ready = fst (counts (pc_template p)),
                            pls_pending = snd (counts (pc_template p))\<rparr>) (wc_pools cfg)
      in case pools of
           [p] \<Rightarrow> \<lparr>ws_pools = pools, ws_desired = pls_desired p, ws_ready = pls_ready p,
                  ws_pending = pls_pending p, ws_template = pls_template p\<rparr>
         | _ \<Rightarrow> \<lparr>ws_pools = pools, ws_desired = 0, ws_ready = 0, ws_pending = 0, ws_template = []\<rparr>)"

definition GetStatus :: "'w api \<Rightarrow> string \<Rightarrow> string \<Rightarrow> ('w, warm_status) kprog" where
  "GetStatus E configNamespace0 podNamespace0 =
     (let configNamespace = (if configNamespace0 = [] then DefaultNamespace else configNamespace0);
          podNamespace = (if podNamespace0 = [] then configNamespace else podNamespace0)
      in do {
        g \<leftarrow> ask E (GetConfigMap configNamespace PoolConfigMapName) as_config_map;
        let cfg = Normalize
          (case g of
             Inl _ \<Rightarrow> empty_warm_config
           | Inr cm \<Rightarrow> (case cm_data cm ''config'' of Some (PoolDoc c) \<Rightarrow> c | _ \<Rightarrow> empty_warm_config));
        ps \<leftarrow> ask E (ListPods podNamespace [(LabelPooled, ''true'')]) as_pods;
        ret (case ps of
               Inl _ \<Rightarrow> statusFromConfig cfg (\<lambda>_. (0, 0))
             | Inr pods \<Rightarrow> statusFromConfig cfg (foldl count_pod (\<lambda>_. (0, 0)) pods))
      })"

section \<open>Creating and deleting pool pods\<close>

definition listPoolPods :: "pool_reconciler \<Rightarrow> 'w api \<Rightarrow> string \<Rightarrow> ('w, api_err + pod list) kprog" where
  "listPoolPods r E tpl =
     ask E (ListPods (pr_sandbox_namespace r)
       ((LabelPooled, ''true'') # (if tpl \<noteq> [] then [(LabelTemplate, tpl)] else []))) as_pods"

text \<open>\<open>n\<close> lower-case hexadecimal characters from a cryptographic source.\<close>

definition randomNameSuffix :: "'w api \<Rightarrow> nat \<Rightarrow> ('w, api_err + string) kprog" where
  "randomNameSuffix E n = do {
     b \<leftarrow> ask E (RandBytes ((n + 1) div 2)) as_bytes;
     ret (case b of Inl e \<Rightarrow> Inl e | Inr bs \<Rightarrow> Inr (take n (hex_encode bs)))
   }"

definition pool_pvc :: "(string \<Rightarrow> quantity option) \<Rightarrow> string \<Rightarrow> string \<Rightarrow> string \<Rightarrow> string \<Rightarrow> pvc" where
  "pool_pvc PQ ns n tpl amount =
     \<lparr>pvc_name = n, pvc_namespace = ns, pvc_labels = [LabelPooled \<mapsto> ''true'', LabelTemplate \<mapsto> tpl],
      pvc_owner = None, pvc_access_mode = ''ReadWriteOnce'', pvc_class = Some PoolStorageClass,
      pvc_size = parseQuantityOrZero PQ amount, pvc_snapshot_source = None\<rparr>"

definition pool_pod ::
  "(string \<Rightarrow> quantity option) \<Rightarrow> string \<Rightarrow> string \<Rightarrow> string \<Rightarrow> string \<Rightarrow> string \<Rightarrow> env_var list \<Rightarrow> pod" where
  "pool_pod PQ ns n pvcName tpl img env =
     \<lparr>p_name = n, p_namespace = ns,
      p_labels = [LabelPooled \<mapsto> ''true'', LabelTemplate \<mapsto> tpl, ''agenttier.io/managed'' \<mapsto> ''true''],
      p_annotations = Map.empty, p_owner = None, p_version = 0,
      p_spec =
        \<lparr>ps_restart_policy = ''Never'',
         ps_security = Some (empty_security_context\<lparr>sc_run_as_user := Some 1000, sc_run_as_group := Some 1000\<rparr>),
         ps_fs_group = Some 1000,
         ps_containers =
           [empty_container
              \<lparr>c_name := ''sandbox'', c_image := img, c_stdin := True, c_tty := True, c_env := env,
               c_mounts := [rw_mount ''workspace'' ''/workspace'', rw_mount ''tmp'' ''/tmp''],
               c_pull_policy := ''IfNotPresent''\<rparr>],
         ps_init_containers = [],
         ps_volumes =
           [\<lparr>v_name = ''workspace'', v_source = PVCVolume pvcName\<rparr>,
            \<lparr>v_name = ''tmp'', v_source = EmptyDirVolume ''Memory'' (Some (parseQuantityOrZero PQ ''256Mi''))\<rparr>],
         ps_runtime_class = None, ps_service_account = [], ps_pull_secrets = [],
         ps_host_network = False, ps_host_pid = False, ps_host_ipc = False\<rparr>,
      p_status = empty_pod_status\<rparr>"

definition createPoolPod ::
  "(string \<Rightarrow> quantity option) \<Rightarrow> pool_reconciler \<Rightarrow> 'w api \<Rightarrow> string \<Rightarrow> ('w, string + unit) kprog" where
  "createPoolPod PQ r E templateName = do {
     g \<leftarrow> ask E (GetClusterTemplate templateName) as_template;
     (case g of
        Inl e \<Rightarrow> ret (Inl (''template '' @ templateName @ '' not found: '' @ err_text e))
      | Inr (tmpl, _) \<Rightarrow>
          (let img = (case tpl_image tmpl of
                        Some i \<Rightarrow> if img_repository i \<noteq> [] then img_repository i
                                  else ''ghcr.io/agenttier/sandbox-general:latest''
                      | None \<Rightarrow> ''ghcr.io/agenttier/sandbox-general:latest'')
           in do {
             sfx \<leftarrow> randomNameSuffix E 16;
             (case sfx of
                Inl e \<Rightarrow> ret (Inl (''generate pool name suffix: '' @ err_text e))
              | Inr hexPart \<Rightarrow>
                  (let podName = ''pool-'' @ take 12 templateName @ ''-'' @ hexPart;
                       pvcName = podName @ ''-pvc'';
                       storageSize =
                         (case tpl_storage tmpl of
                            Some st \<Rightarrow> if \<not> quantity_is_zero (stor_size st) then q_text (stor_size st) else ''10Gi''
                          | None \<Rightarrow> ''10Gi'')
                   in do {
                     c \<leftarrow> ask E (CreatePVC (pool_pvc PQ (pr_sandbox_namespace r) pvcName templateName storageSize)) as_unit;
                     (case c of
                        Inl AlreadyExists \<Rightarrow>
                          ret (Inl (''pool PVC '' @ pvcName @ '' already exists; refusing to reuse a possibly-claimed volume''))
                      | Inl e \<Rightarrow> ret (Inl (''failed to create pool PVC: '' @ err_text e))
                      | Inr _ \<Rightarrow> do {
                          p \<leftarrow> ask E (CreatePod (pool_pod PQ (pr_sandbox_namespace r) podName pvcName
                                         templateName img (tpl_env tmpl))) as_unit;
                          ret (case p of
                                 Inl e \<Rightarrow> Inl (''failed to create pool pod: '' @ err_text e)
                               | Inr _ \<Rightarrow> Inr ())
                        })
                   }))
           }))
   }"

text \<open>The claims that a pod mounts.\<close>

definition pod_claims :: "pod \<Rightarrow> string list" where
  "pod_claims p =
     concat (map (\<lambda>v. case v_source v of PVCVolume c \<Rightarrow> [c] | _ \<Rightarrow> []) (ps_volumes (p_spec p)))"

definition deletePodAndPVC :: "'w api \<Rightarrow> pod \<Rightarrow> ('w, api_err + unit) kprog" where
  "deletePodAndPVC E p = do {
     d \<leftarrow> ask E (DeletePod (p_namespace p) (p_name p)) as_unit;
     (if d = Inr () \<or> d = Inl NotFound
      then do {
        for_each (pod_claims p) (\<lambda>c. tell E (DeletePVC (p_namespace p) c));
        ret (Inr ())
      } else ret d)
   }"

fun scale_loop :: "'w api \<Rightarrow> nat \<Rightarrow> pod list \<Rightarrow> ('w, unit) kprog" where
  "scale_loop E toDelete [] = ret ()"
| "scale_loop E toDelete (p # ps) =
     (if toDelete = 0 then ret ()
      else do {
        d \<leftarrow> deletePodAndPVC E p;
        (if d = Inr () then scale_loop E (toDelete - 1) ps else scale_loop E toDelete ps)
      })"

definition scaleDown :: "pool_reconciler \<Rightarrow> 'w api \<Rightarrow> string \<Rightarrow> int \<Rightarrow> ('w, api_err + unit) kprog" where
  "scaleDown r E tpl targetCount = do {
     l \<leftarrow> listPoolPods r E tpl;
     (case l of
        Inl e \<Rightarrow> ret (Inl e)
      | Inr pods \<Rightarrow>
          (let toDelete = int (length pods) - targetCount
           in if toDelete \<le> 0 then ret (Inr ())
              else do {
                scale_loop E (nat toDelete) pods;
                ret (Inr ())
              }))
   }"

definition reconcilePool ::
  "(string \<Rightarrow> quantity option) \<Rightarrow> pool_reconciler \<Rightarrow> 'w api \<Rightarrow> pool_config \<Rightarrow> ('w, string + unit) kprog" where
  "reconcilePool PQ r E pool = do {
     l \<leftarrow> listPoolPods r E (pc_template pool);
     (case l of
        Inl e \<Rightarrow> ret (Inl (err_text e))
      | Inr pods \<Rightarrow>
          (let text = (\<lambda>x. case x of Inl e \<Rightarrow> Inl (err_text e) | Inr u \<Rightarrow> Inr u)
           in if pc_desired pool \<le> 0 then do {
                s \<leftarrow> scaleDown r E (pc_template pool) 0; ret (text s) }
              else if int (length pods) < pc_desired pool then createPoolPod PQ r E (pc_template pool)
              else if int (length pods) > pc_desired pool then do {
                s \<leftarrow> scaleDown r E (pc_template pool) (pc_desired pool); ret (text s) }
              else ret (Inr ())))
   }"

definition cleanupOrphanedPools ::
  "pool_reconciler \<Rightarrow> 'w api \<Rightarrow> string list \<Rightarrow> ('w, api_err + unit) kprog" where
  "cleanupOrphanedPools r E configured = do {
     l \<leftarrow> ask E (ListPods (pr_sandbox_namespace r) [(LabelPooled, ''true'')]) as_pods;
     (case l of
        Inl e \<Rightarrow> ret (Inl e)
      | Inr pods \<Rightarrow> do {
          for_each pods (\<lambda>p.
            (case p_labels p LabelTemplate of
               None \<Rightarrow> ret ()
             | Some tpl \<Rightarrow>
                 if tpl = [] \<or> tpl \<in> set configured then ret ()
                 else do { _ \<leftarrow> deletePodAndPVC E p; ret () }));
          ret (Inr ())
        })
   }"

definition ReconcilePools ::
  "(string \<Rightarrow> quantity option) \<Rightarrow> pool_reconciler \<Rightarrow> 'w api \<Rightarrow> ('w, unit) kprog" where
  "ReconcilePools PQ r E = do {
     c \<leftarrow> ReadConfig r E;
     (case c of
        Inl _ \<Rightarrow> ret ()
      | Inr cfg \<Rightarrow>
          (let named = filter (\<lambda>p. pc_template p \<noteq> []) (wc_pools cfg)
           in do {
             for_each named (\<lambda>p. do { _ \<leftarrow> reconcilePool PQ r E p; ret () });
             _ \<leftarrow> cleanupOrphanedPools r E (map pc_template named);
             ret ()
           }))
   }"

section \<open>Claiming\<close>

definition claim_copy :: "pod \<Rightarrow> pod" where
  "claim_copy p = p\<lparr>p_labels := (p_labels p)(LabelPooled := None, LabelTemplate := None)\<rparr>"

definition first_claim :: "pod \<Rightarrow> string" where
  "first_claim p = (case pod_claims p of [] \<Rightarrow> [] | c # _ \<Rightarrow> c)"

datatype walk_result = WalkError string | WalkDone bool | WalkClaimed string string

fun claim_walk :: "'w api \<Rightarrow> bool \<Rightarrow> pod list \<Rightarrow> ('w, walk_result) kprog" where
  "claim_walk E sawConflict [] = ret (WalkDone sawConflict)"
| "claim_walk E sawConflict (p # ps) =
     (if \<not> isPodReady p then claim_walk E sawConflict ps
      else do {
        u \<leftarrow> ask E (UpdatePod (claim_copy p)) as_unit;
        (case u of
           Inr _ \<Rightarrow> ret (WalkClaimed (p_name p) (first_claim p))
         | Inl Conflict \<Rightarrow> claim_walk E True ps
         | Inl NotFound \<Rightarrow> claim_walk E True ps
         | Inl e \<Rightarrow> ret (WalkError (''update pool pod '' @ p_name p @ '': '' @ err_text e)))
      })"

fun claim_attempts :: "nat \<Rightarrow> 'w api \<Rightarrow> string \<Rightarrow> string \<Rightarrow> ('w, string + string \<times> string) kprog" where
  "claim_attempts 0 E ns tpl = ret (Inr ([], []))"
| "claim_attempts (Suc n) E ns tpl = do {
     l \<leftarrow> ask E (ListPods ns [(LabelPooled, ''true''), (LabelTemplate, tpl)]) as_pods;
     (case l of
        Inl e \<Rightarrow> ret (Inl (err_text e))
      | Inr pods \<Rightarrow> do {
          r \<leftarrow> claim_walk E False pods;
          (case r of
             WalkError e \<Rightarrow> ret (Inl e)
           | WalkClaimed p c \<Rightarrow> ret (Inr (p, c))
           | WalkDone sawConflict \<Rightarrow>
               if \<not> sawConflict then ret (Inr ([], [])) else claim_attempts n E ns tpl)
        })
   }"

definition Claim :: "'w api \<Rightarrow> string \<Rightarrow> string \<Rightarrow> ('w, string + string \<times> string) kprog" where
  "Claim E namespace tpl =
     claim_attempts claimMaxAttempts E (if namespace = [] then DefaultNamespace else namespace) tpl"


section \<open>Lemmas on traces\<close>

text \<open>The pods that a trace took out of the pool, created and deleted.\<close>

fun updated_pods :: "trace \<Rightarrow> pod list" where
  "updated_pods [] = []"
| "updated_pods ((UpdatePod p, ROk) # t) = p # updated_pods t"
| "updated_pods (_ # t) = updated_pods t"

fun pod_creations :: "trace \<Rightarrow> pod list" where
  "pod_creations [] = []"
| "pod_creations ((CreatePod p, _) # t) = p # pod_creations t"
| "pod_creations (_ # t) = pod_creations t"

fun pod_deletions :: "trace \<Rightarrow> (string \<times> string) list" where
  "pod_deletions [] = []"
| "pod_deletions ((DeletePod ns n, _) # t) = (ns, n) # pod_deletions t"
| "pod_deletions (_ # t) = pod_deletions t"

fun pods_listed :: "trace \<Rightarrow> pod list list" where
  "pods_listed [] = []"
| "pods_listed ((ListPods _ _, RPods ps) # t) = ps # pods_listed t"
| "pods_listed (_ # t) = pods_listed t"

fun list_calls :: "trace \<Rightarrow> nat" where
  "list_calls [] = 0"
| "list_calls ((ListPods _ _, _) # t) = Suc (list_calls t)"
| "list_calls (_ # t) = list_calls t"

lemma updated_pods_append [simp]: "updated_pods (s @ t) = updated_pods s @ updated_pods t"
  by (induction s rule: updated_pods.induct) auto

lemma pod_creations_append [simp]: "pod_creations (s @ t) = pod_creations s @ pod_creations t"
  by (induction s rule: pod_creations.induct) auto

lemma pod_deletions_append [simp]: "pod_deletions (s @ t) = pod_deletions s @ pod_deletions t"
  by (induction s rule: pod_deletions.induct) auto

lemma pods_listed_append [simp]: "pods_listed (s @ t) = pods_listed s @ pods_listed t"
  by (induction s rule: pods_listed.induct) auto

lemma list_calls_append [simp]: "list_calls (s @ t) = list_calls s + list_calls t"
  by (induction s rule: list_calls.induct) auto

text \<open>What one walk over a listing does: updates of claim copies of ready pods in the
  listing, at most the last of them successful.\<close>

definition walk_spec :: "pod list \<Rightarrow> walk_result \<Rightarrow> trace \<Rightarrow> bool" where
  "walk_spec ps r t \<longleftrightarrow>
     list_calls t = 0 \<and> pods_listed t = []
     \<and> (\<forall>c \<in> set t. \<exists>p \<in> set ps. isPodReady p \<and> fst c = UpdatePod (claim_copy p))
     \<and> (case r of
          WalkClaimed n v \<Rightarrow>
            (\<exists>p \<in> set ps. isPodReady p \<and> updated_pods t = [claim_copy p] \<and> last t = (UpdatePod (claim_copy p), ROk)
               \<and> n = p_name p \<and> v = first_claim p)
        | WalkDone c \<Rightarrow> updated_pods t = []
        | WalkError e \<Rightarrow> updated_pods t = [])"

lemma updated_failed:
  "as_unit r = Inl e \<Longrightarrow> updated_pods ((UpdatePod p, r) # t) = updated_pods t"
  by (cases r) auto

lemma walk_spec_skip: "walk_spec ps r t \<Longrightarrow> walk_spec (p # ps) r t"
  unfolding walk_spec_def by (auto split: walk_result.splits)

lemma walk_spec_fail:
  assumes "walk_spec ps r t" "isPodReady p" "as_unit a = Inl e"
  shows "walk_spec (p # ps) r ((UpdatePod (claim_copy p), a) # t)"
proof -
  have "t \<noteq> [] \<or> updated_pods t = []" by auto
  then show ?thesis
    using assms updated_failed [OF assms(3), of "claim_copy p" t]
    unfolding walk_spec_def by (cases t) (auto split: walk_result.splits)
qed

lemma claim_walk_traces: "traces (claim_walk E c ps) (\<lambda>r t. walk_spec ps r t)"
proof (induction ps arbitrary: c)
  case Nil
  show ?case by (simp, intro tr) (simp add: walk_spec_def)
next
  case (Cons p ps)
  have step: "traces (claim_walk E b ps) (\<lambda>r t. walk_spec (p # ps) r ((UpdatePod (claim_copy p), a) # t))"
    if "isPodReady p" "as_unit a = Inl e" for b a e
    using Cons.IH by (rule traces_mono) (rule walk_spec_fail [OF _ that])
  have skip: "traces (claim_walk E b ps) (\<lambda>r t. walk_spec (p # ps) r t)" for b
    using Cons.IH by (rule traces_mono) (rule walk_spec_skip)
  show ?case
    unfolding claim_walk.simps
    by (intro tr; (rule skip | rule step, simp, assumption)?)
      (auto simp: walk_spec_def updated_failed)
qed

text \<open>A whole claim: its listings, and the pods it takes.\<close>

definition claim_spec :: "string + string \<times> string \<Rightarrow> trace \<Rightarrow> bool" where
  "claim_spec r t \<longleftrightarrow>
     (updated_pods t = [] \<and> (\<forall>n v. r = Inr (n, v) \<longrightarrow> n = [] \<and> v = [])
      \<or> (\<exists>p. isPodReady p \<and> updated_pods t = [claim_copy p] \<and> p \<in> set (last (pods_listed t))
             \<and> pods_listed t \<noteq> [] \<and> r = Inr (p_name p, first_claim p)
             \<and> last t = (UpdatePod (claim_copy p), ROk)))
     \<and> (\<forall>c \<in> set t. \<forall>q. fst c = UpdatePod q \<longrightarrow>
          (\<exists>ps \<in> set (pods_listed t). \<exists>p \<in> set ps. isPodReady p \<and> q = claim_copy p))"

lemma walk_claimed_claim:
  assumes "walk_spec ps (WalkClaimed n v) t"
  shows "claim_spec (Inr (n, v)) ((ListPods a b, RPods ps) # t)"
proof -
  obtain p where p: "p \<in> set ps" "isPodReady p" "updated_pods t = [claim_copy p]"
    "last t = (UpdatePod (claim_copy p), ROk)" "n = p_name p" "v = first_claim p"
    using assms by (auto simp: walk_spec_def)
  then have "t \<noteq> []" by auto
  then show ?thesis
    using p assms unfolding claim_spec_def walk_spec_def by (fastforce simp del: fst_eqD)
qed

lemma walk_failed_claim:
  assumes "walk_spec ps w t" "\<forall>n v. w \<noteq> WalkClaimed n v"
    and "\<forall>n v. r = Inr (n, v) \<longrightarrow> n = [] \<and> v = []"
  shows "claim_spec r ((ListPods a b, RPods ps) # t)"
  using assms unfolding claim_spec_def walk_spec_def
  by (cases w) (fastforce simp del: fst_eqD)+

lemma walk_again_claim:
  assumes "walk_spec ps (WalkDone c) t" "claim_spec r t'"
  shows "claim_spec r ((ListPods a b, RPods ps) # t @ t')"
proof -
  have t: "updated_pods t = []" "pods_listed t = []"
    and ready: "\<forall>c \<in> set t. \<exists>p \<in> set ps. isPodReady p \<and> fst c = UpdatePod (claim_copy p)"
    using assms(1) by (simp_all add: walk_spec_def)
  have ne: "updated_pods t' = [x] \<Longrightarrow> t' \<noteq> []" for x by auto
  have "\<forall>c \<in> set t'. \<forall>q. fst c = UpdatePod q \<longrightarrow>
          (\<exists>ps \<in> set (pods_listed t'). \<exists>p \<in> set ps. isPodReady p \<and> q = claim_copy p)"
    using assms(2) unfolding claim_spec_def by blast
  moreover have "\<forall>c \<in> set t. \<forall>q. fst c = UpdatePod q \<longrightarrow> (\<exists>p \<in> set ps. isPodReady p \<and> q = claim_copy p)"
    using ready by (metis request.inject(13))
  ultimately have updates: "\<forall>c \<in> set ((ListPods a b, RPods ps) # t @ t'). \<forall>q. fst c = UpdatePod q \<longrightarrow>
      (\<exists>ps \<in> set (pods_listed ((ListPods a b, RPods ps) # t @ t')). \<exists>p \<in> set ps. isPodReady p \<and> q = claim_copy p)"
    using t by auto
  from assms(2) consider
      (none) "updated_pods t' = []" "\<forall>n v. r = Inr (n, v) \<longrightarrow> n = [] \<and> v = []"
    | (one) p where "isPodReady p" "updated_pods t' = [claim_copy p]" "p \<in> set (last (pods_listed t'))"
        "pods_listed t' \<noteq> []" "r = Inr (p_name p, first_claim p)" "last t' = (UpdatePod (claim_copy p), ROk)"
    unfolding claim_spec_def by blast
  then show ?thesis
  proof cases
    case none
    then show ?thesis using updates t by (simp add: claim_spec_def)
  next
    case one
    have "t' \<noteq> []" using ne one(2) .
    then have "isPodReady p \<and> updated_pods ((ListPods a b, RPods ps) # t @ t') = [claim_copy p]
        \<and> p \<in> set (last (pods_listed ((ListPods a b, RPods ps) # t @ t')))
        \<and> pods_listed ((ListPods a b, RPods ps) # t @ t') \<noteq> [] \<and> r = Inr (p_name p, first_claim p)
        \<and> last ((ListPods a b, RPods ps) # t @ t') = (UpdatePod (claim_copy p), ROk)"
      using one t by simp
    then show ?thesis using updates unfolding claim_spec_def by blast
  qed
qed

lemma list_failed: "as_pods r = Inl e \<Longrightarrow> pods_listed ((ListPods a b, r) # t) = pods_listed t"
  by (cases r) auto

lemma claim_attempts_traces:
  "traces (claim_attempts n E ns tpl) (\<lambda>r t. claim_spec r t \<and> list_calls t \<le> n)"
proof (induction n)
  case 0
  show ?case by (simp, intro tr) (simp add: claim_spec_def)
next
  case (Suc n)
  have body: "traces (do {
          r \<leftarrow> claim_walk E False pods;
          (case r of
             WalkError e \<Rightarrow> ret (Inl e)
           | WalkClaimed p c \<Rightarrow> ret (Inr (p, c))
           | WalkDone sawConflict \<Rightarrow>
               if \<not> sawConflict then ret (Inr ([], [])) else claim_attempts n E ns tpl)})
        (\<lambda>r t. claim_spec r ((ListPods a b, RPods pods) # t) \<and> list_calls t \<le> n)" for pods a b
  proof (rule traces_bind [OF claim_walk_traces])
    fix w t assume ws: "walk_spec pods w t"
    then have lc: "list_calls t = 0" by (simp add: walk_spec_def)
    have rec: "traces (claim_attempts n E ns tpl)
        (\<lambda>r t'. claim_spec r ((ListPods a b, RPods pods) # t @ t') \<and> list_calls (t @ t') \<le> n)"
      if "w = WalkDone c" for c
      using Suc.IH by (rule traces_mono) (use walk_again_claim ws that lc in auto)
    show "traces (case w of WalkError e \<Rightarrow> ret (Inl e)
           | WalkClaimed p c \<Rightarrow> ret (Inr (p, c))
           | WalkDone sawConflict \<Rightarrow>
               if \<not> sawConflict then ret (Inr ([], [])) else claim_attempts n E ns tpl)
        (\<lambda>r t'. claim_spec r ((ListPods a b, RPods pods) # t @ t') \<and> list_calls (t @ t') \<le> n)"
      using ws lc rec
      by (cases w) (auto intro!: tr intro: walk_claimed_claim walk_failed_claim)
  qed
  show ?case
    unfolding claim_attempts.simps
    by (intro tr; (rule traces_mono [OF body])?) (auto simp: claim_spec_def list_failed)
qed


text \<open>Deletions: which pods were tried, and which of them are gone.\<close>

fun pods_gone :: "trace \<Rightarrow> nat" where
  "pods_gone [] = 0"
| "pods_gone ((DeletePod ns n, r) # t) =
     (if r = ROk \<or> r = RErr NotFound then Suc (pods_gone t) else pods_gone t)"
| "pods_gone (_ # t) = pods_gone t"

lemma pods_gone_append [simp]: "pods_gone (s @ t) = pods_gone s + pods_gone t"
  by (induction s rule: pods_gone.induct) auto

definition pod_key :: "pod \<Rightarrow> string \<times> string" where
  "pod_key p = (p_namespace p, p_name p)"

text \<open>Calls that neither list nor create nor delete pods.\<close>

definition quiet :: "trace \<Rightarrow> bool" where
  "quiet t \<longleftrightarrow> pods_listed t = [] \<and> pod_creations t = [] \<and> pod_deletions t = [] \<and> pods_gone t = 0"

lemma quiet_deletes_pvcs:
  "traces (for_each cs (\<lambda>c. tell E (DeletePVC ns c))) (\<lambda>_. quiet)"
proof (induction cs)
  case Nil
  show ?case by (simp, intro tr) (simp add: quiet_def)
next
  case (Cons c cs)
  show ?case by (simp, intro tr; rule traces_mono [OF Cons.IH]) (simp add: quiet_def)
qed

lemma as_unit_Inl_NotFound [simp]: "as_unit r = Inl NotFound \<longleftrightarrow> r = RErr NotFound"
  by (cases r) (auto simp: bad_response_def)

lemma deletePodAndPVC_traces:
  "traces (deletePodAndPVC E p)
     (\<lambda>r t. pods_listed t = [] \<and> pod_creations t = [] \<and> pod_deletions t = [pod_key p]
        \<and> pods_gone t = (if r = Inr () then 1 else 0))"
proof -
  have pvcs: "traces (do { for_each (pod_claims p) (\<lambda>c. tell E (DeletePVC (p_namespace p) c)); ret (Inr ()) })
      (\<lambda>r t. r = Inr () \<and> quiet t)"
    by (rule traces_bind [OF quiet_deletes_pvcs], intro tr) simp
  show ?thesis
    unfolding deletePodAndPVC_def
    by (intro tr; (rule traces_mono [OF pvcs])?) (auto simp: pod_key_def quiet_def)
qed

definition scale_spec :: "nat \<Rightarrow> pod list \<Rightarrow> trace \<Rightarrow> bool" where
  "scale_spec k ps t \<longleftrightarrow>
     pods_listed t = [] \<and> pod_creations t = [] \<and> pods_gone t \<le> k
     \<and> prefix (pod_deletions t) (map pod_key ps)
     \<and> (pods_gone t = length (pod_deletions t) \<longrightarrow> pod_deletions t = map pod_key (take k ps))"

lemma gone_le_deletions: "pods_gone t \<le> length (pod_deletions t)"
  by (induction t rule: pods_gone.induct) auto

lemma scale_loop_traces: "traces (scale_loop E k ps) (\<lambda>_. scale_spec k ps)"
proof (induction ps arbitrary: k)
  case Nil
  show ?case by (simp, intro tr) (simp add: scale_spec_def)
next
  case (Cons p ps)
  show ?case
  proof (cases "k = 0")
    case True
    then show ?thesis by (simp, intro tr) (simp add: scale_spec_def)
  next
    case False
    have body: "traces (do {
        d \<leftarrow> deletePodAndPVC E p;
        (if d = Inr () then scale_loop E (k - 1) ps else scale_loop E k ps)}) (\<lambda>_. scale_spec k (p # ps))"
    proof (rule traces_bind [OF deletePodAndPVC_traces])
      fix d t
      assume t: "pods_listed t = [] \<and> pod_creations t = [] \<and> pod_deletions t = [pod_key p]
        \<and> pods_gone t = (if d = Inr () then 1 else 0)"
      have ok: "scale_spec k (p # ps) (t @ t')" if "d = Inr ()" "scale_spec (k - 1) ps t'" for t'
        using that t False by (cases k) (auto simp: scale_spec_def)
      have failed: "scale_spec k (p # ps) (t @ t')" if "d \<noteq> Inr ()" "scale_spec k ps t'" for t'
        using that t gone_le_deletions [of t'] by (auto simp: scale_spec_def)
      show "traces (if d = Inr () then scale_loop E (k - 1) ps else scale_loop E k ps)
          (\<lambda>_ t'. scale_spec k (p # ps) (t @ t'))"
        using ok failed by (auto intro: traces_mono [OF Cons.IH])
    qed
    then show ?thesis using False by simp
  qed
qed

lemma scaleDown_traces:
  "traces (scaleDown r E tpl target)
     (\<lambda>_ t. pod_creations t = []
        \<and> (case pods_listed t of
             [ps] \<Rightarrow> \<exists>t'. scale_spec (nat (int (length ps) - target)) ps t'
                    \<and> pod_deletions t = pod_deletions t' \<and> pods_gone t = pods_gone t'
           | _ \<Rightarrow> pods_listed t = [] \<and> pod_deletions t = [] \<and> pods_gone t = 0))"
proof -
  have loop: "traces (do { scale_loop E k ps; ret (Inr ()) })
      (\<lambda>_ t. pods_listed t = [] \<and> pod_creations t = [] \<and> scale_spec k ps t)" for k ps
    by (rule traces_bind [OF scale_loop_traces], intro tr) (simp add: scale_spec_def)
  have none: "\<exists>t'. scale_spec 0 ps t' \<and> [] = pod_deletions t' \<and> pods_gone t' = 0" for ps
    by (rule exI [of _ "[]"]) (simp add: scale_spec_def)
  show ?thesis
    unfolding scaleDown_def listPoolPods_def
    by (intro tr; (rule traces_mono [OF loop])?)
      (auto simp: list_failed none)
qed

lemma randomNameSuffix_traces:
  "traces (randomNameSuffix E n) (\<lambda>_ t. \<exists>x. t = [(RandBytes ((n + 1) div 2), x)])"
  unfolding randomNameSuffix_def by (intro tr) simp

lemma createPoolPod_traces:
  "traces (createPoolPod PQ r E tpl)
     (\<lambda>_ t. pods_listed t = [] \<and> pod_deletions t = [] \<and> pods_gone t = 0
        \<and> (pod_creations t = []
           \<or> (\<exists>p c. pod_creations t = [p] \<and> pod_claims p = [pvc_name c] \<and> (CreatePVC c, ROk) \<in> set t)))"
  unfolding createPoolPod_def
  by (intro tr traces_bind [OF randomNameSuffix_traces])
    (auto simp: pod_claims_def pool_pod_def pool_pvc_def)

section \<open>Status counts\<close>

definition in_pool :: "string \<Rightarrow> pod \<Rightarrow> bool" where
  "in_pool tpl p \<longleftrightarrow> p_labels p LabelTemplate = Some tpl"

lemma count_pods:
  "tpl \<noteq> [] \<Longrightarrow> foldl count_pod c ps tpl =
     (fst (c tpl) + length (filter (\<lambda>p. in_pool tpl p \<and> isPodReady p) ps),
      snd (c tpl) + length (filter (\<lambda>p. in_pool tpl p \<and> \<not> isPodReady p) ps))"
proof (induction ps arbitrary: c)
  case Nil
  then show ?case by simp
next
  case (Cons p ps)
  have "count_pod c p tpl =
      (fst (c tpl) + (if in_pool tpl p \<and> isPodReady p then 1 else 0),
       snd (c tpl) + (if in_pool tpl p \<and> \<not> isPodReady p then 1 else 0))"
    using Cons.prems by (auto simp: count_pod_def in_pool_def split: option.split prod.split)
  then show ?case using Cons.IH [OF Cons.prems, of "count_pod c p"] by simp
qed

lemma status_pools:
  "ws_pools (statusFromConfig cfg counts) = map (\<lambda>p. \<lparr>pls_template = pc_template p, pls_desired = pc_desired p,
       pls_ready = fst (counts (pc_template p)), pls_pending = snd (counts (pc_template p))\<rparr>) (wc_pools cfg)"
  by (simp add: statusFromConfig_def Let_def split: list.split)


text \<open>Pods that are in the pool.\<close>

definition pooled :: "pod \<Rightarrow> bool" where
  "pooled p \<longleftrightarrow> p_labels p LabelPooled = Some ''true''"

lemma claim_copy_fields [simp]:
  "p_name (claim_copy p) = p_name p" "p_version (claim_copy p) = p_version p"
  by (simp_all add: claim_copy_def)

text \<open>A legacy configuration with a template and no positive count keeps its old shape.\<close>

lemma legacy_shape_survives:
  "Normalize (empty_warm_config\<lparr>wc_template := ''t''\<rparr>) = empty_warm_config\<lparr>wc_template := ''t''\<rparr>"
  by (simp add: Normalize_def empty_warm_config_def)

lemma Normalize_idem [simp]: "Normalize (Normalize c) = Normalize c"
  by (simp add: Normalize_def)

text \<open>A pod of the pool that is ready.\<close>

definition ready_pool_pod :: pod where
  "ready_pool_pod = (pool_pod (\<lambda>_. None) ''default'' ''p'' ''p-pvc'' ''t'' ''img'' [])
     \<lparr>p_status := empty_pod_status\<lparr>pst_phase := PodRunning, pst_conditions := [(''Ready'', ''True'')]\<rparr>\<rparr>"

lemma ready_pool_pod_facts:
  "p_name ready_pool_pod = ''p''" "p_version ready_pool_pod = 0" "pooled ready_pool_pod"
  "isPodReady ready_pool_pod"
  by (simp_all add: ready_pool_pod_def pool_pod_def pooled_def LabelPooled_def LabelTemplate_def
      isPodReady_def empty_pod_status_def)

section \<open>Properties\<close>

text \<open>A claim takes at most one pod out of the pool: its only successful update, the
  last call, stores a copy without the pool labels of a pod that was ready in the listing
  it made last, and it returns that pod with its volume claim; if it returns no pod, no
  update succeeded. It never touches a pod that it did not see ready, and lists at most
  three times.\<close>

theorem claim_takes_at_most_one_ready_pod:
  "traces (Claim E ns tpl) (\<lambda>r t. claim_spec r t \<and> list_calls t \<le> 3)"
  unfolding Claim_def claimMaxAttempts_def by (rule claim_attempts_traces)

text \<open>Converging a pool never overshoots, whatever the API server answers: below the
  desired count one pass creates at most one pod and deletes none, at the desired count it
  does neither, above it or when disabled it creates none and removes no more pods than
  the excess over the target in the listing it deletes from.\<close>

theorem pool_pass_never_overshoots:
  "traces (reconcilePool PQ r E pool) (\<lambda>_ t.
     case pods_listed t of
       [] \<Rightarrow> pod_creations t = [] \<and> pod_deletions t = []
     | ps # _ \<Rightarrow>
         (if pc_desired pool \<le> 0 \<or> int (length ps) > pc_desired pool then
            pod_creations t = []
            \<and> int (pods_gone t) \<le> max 0 (int (length (last (pods_listed t))) - max 0 (pc_desired pool))
          else pod_deletions t = []
            \<and> length (pod_creations t) \<le> (if int (length ps) < pc_desired pool then 1 else 0)))"
proof -
  let ?text = "\<lambda>x. case x of Inl e \<Rightarrow> Inl (err_text e) | Inr u \<Rightarrow> Inr u"
  have down: "traces (do { s \<leftarrow> scaleDown r E tpl target; ret (?text s) })
      (\<lambda>_ t. pod_creations t = []
         \<and> (pods_listed t = [] \<and> pods_gone t = 0
            \<or> (\<exists>ps. pods_listed t = [ps] \<and> pods_gone t \<le> nat (int (length ps) - target))))"
    for tpl target
    by (rule traces_bind [OF scaleDown_traces], intro tr)
      (auto simp: scale_spec_def split: list.splits)
  show ?thesis
    unfolding reconcilePool_def listPoolPods_def
    by (intro tr; (rule traces_mono [OF down] traces_mono [OF createPoolPod_traces])?)
      (auto simp: list_failed)
qed

text \<open>A pool pod is created only after its volume claim was created in the same pass:
  whatever the server answers, a pool pod mounts exactly one claim, one that this very call
  has just made, never one that already existed.\<close>

theorem pool_pod_mounts_a_fresh_claim:
  "traces (createPoolPod PQ r E tpl) (\<lambda>_ t. pod_deletions t = []
     \<and> (pod_creations t = []
        \<or> (\<exists>p c. pod_creations t = [p] \<and> pod_claims p = [pvc_name c] \<and> (CreatePVC c, ROk) \<in> set t)))"
  by (rule traces_mono [OF createPoolPod_traces]) blast

text \<open>The status counts what is there: for every configured template it reports the
  number of listed pool pods of that template that are ready and the number that are not,
  and when the listing fails it still reports every configured pool, with zeros.\<close>

theorem status_counts_pods:
  "traces (GetStatus E cns pns) (\<lambda>st t.
     filter (\<lambda>e. pls_template e \<noteq> []
              \<and> (pls_ready e, pls_pending e) \<noteq>
                  (case pods_listed t of
                     [] \<Rightarrow> (0, 0)
                   | ps # _ \<Rightarrow> (length (filter (\<lambda>p. in_pool (pls_template e) p \<and> isPodReady p) ps),
                               length (filter (\<lambda>p. in_pool (pls_template e) p \<and> \<not> isPodReady p) ps))))
       (ws_pools st) = [])"
  unfolding GetStatus_def
  by (intro tr) (auto simp: status_pools filter_empty_conv count_pods list_failed split: sum.splits)

end
