(* ===== verification/Claim_Safety.thy ===== *)
theory Claim_Safety
  imports Warm_Pool
begin

text \<open>
  Claims of the warm pool that run side by side. The requests of all actors reach one API server,
  one at a time, in an order of which nothing is assumed; the calls of a claimer, in that order, are
  those of a run of \<open>Claim\<close>. The API server is a parameter of the program, so what the claims rely on
  is stated as a relation between its stored pods, a request and the answer: an update is accepted only
  at the resource version that is stored, and every accepted write gives the pod a new version. Reads
  come through the controller's cache and may be out of date.
\<close>

section \<open>The server\<close>

text \<open>The stored pods by namespace and name, the next resource version, and every pod that was ever stored.\<close>

record pod_store =
  st_pods :: "string \<times> string \<rightharpoonup> pod"
  st_version :: nat
  st_past :: "pod set"

definition empty_store :: pod_store where
  "empty_store = \<lparr>st_pods = Map.empty, st_version = 0, st_past = {}\<rparr>"

definition stored :: "pod \<Rightarrow> pod_store \<Rightarrow> pod_store" where
  "stored p s =
     (let p' = p\<lparr>p_version := st_version s\<rparr>
      in \<lparr>st_pods = (st_pods s)(pod_key p \<mapsto> p'), st_version = Suc (st_version s), st_past = insert p' (st_past s)\<rparr>)"

definition selected :: "string \<Rightarrow> (string \<times> string) list \<Rightarrow> pod \<Rightarrow> bool" where
  "selected ns sel p \<longleftrightarrow> p_namespace p = ns \<and> (\<forall>(k, v) \<in> set sel. p_labels p k = Some v)"

text \<open>An answer that is lost on the way: the write was done, the caller sees a transport error.\<close>

definition written :: "response \<Rightarrow> bool" where
  "written r \<longleftrightarrow> r = ROk \<or> (\<exists>m. r = RErr (OtherErr m))"

fun writes_pods :: "request \<Rightarrow> bool" where
  "writes_pods (CreatePod p) = True"
| "writes_pods (UpdatePod p) = True"
| "writes_pods (DeletePod ns n) = True"
| "writes_pods q = False"

inductive serves :: "pod_store \<Rightarrow> request \<Rightarrow> response \<Rightarrow> pod_store \<Rightarrow> bool" where
  listed: "\<forall>p \<in> set ps. p \<in> st_past s \<and> selected ns sel p \<Longrightarrow> serves s (ListPods ns sel) (RPods ps) s"
| created: "st_pods s (pod_key p) = None \<Longrightarrow> written r \<Longrightarrow> serves s (CreatePod p) r (stored p s)"
| updated: "st_pods s (pod_key p) = Some q \<Longrightarrow> p_version q = p_version p \<Longrightarrow> written r
    \<Longrightarrow> serves s (UpdatePod p) r (stored p s)"
| deleted: "written r \<Longrightarrow> serves s (DeletePod ns n) r (s\<lparr>st_pods := (st_pods s)((ns, n) := None)\<rparr>)"
| refused: "serves s q (RErr e) s"
| other: "\<not> writes_pods q \<Longrightarrow> \<forall>ns sel. q \<noteq> ListPods ns sel \<Longrightarrow> serves s q r s"

text \<open>Histories: who asked what, and what the answer was. Of the other actors (the pool's reconciler, the
  kubelet, the sandbox reconciler that adopts the claimed pod) it is assumed that an update never puts
  the pool's label on a pod that has lost it.\<close>

type_synonym history = "(nat \<times> request \<times> response) list"

definition repools :: "pod_store \<Rightarrow> request \<Rightarrow> bool" where
  "repools s q \<longleftrightarrow> (\<exists>p old. q = UpdatePod p \<and> pooled p \<and> st_pods s (pod_key p) = Some old \<and> \<not> pooled old)"

inductive pod_history :: "pod_store \<Rightarrow> history \<Rightarrow> bool" where
  start: "pod_history empty_store []"
| request: "pod_history s H \<Longrightarrow> serves s q r s' \<Longrightarrow> \<not> repools s q \<Longrightarrow> pod_history s' (H @ [(i, q, r)])"

definition calls_of :: "nat \<Rightarrow> history \<Rightarrow> trace" where
  "calls_of i H = map snd (filter (\<lambda>e. fst e = i) H)"

text \<open>Actor \<open>i\<close> ran a claim that returned \<open>res\<close>, and its part of the history are the calls of that run.\<close>

definition claimed_by :: "history \<Rightarrow> nat \<Rightarrow> string \<Rightarrow> string \<Rightarrow> string \<times> string \<Rightarrow> bool" where
  "claimed_by H i ns tpl res \<longleftrightarrow>
     (\<exists>(E :: instant api) w w'. run_state (Claim E ns tpl) (w, []) = (Inr res, (w', calls_of i H)))"

definition pool_namespace :: "string \<Rightarrow> string" where
  "pool_namespace ns = (if ns = [] then DefaultNamespace else ns)"

section \<open>What a claim asks for\<close>

text \<open>A claim that returns a pod made an accepted update of a copy, without the pool's labels, of a pod
  from an earlier listing of its own, which asked for pooled pods in its namespace.\<close>

lemma claim_lists:
  "traces (claim_attempts n E ns tpl) (\<lambda>_ t. \<forall>x \<in> set t. \<forall>a sel. fst x = ListPods a sel \<longrightarrow>
     a = ns \<and> (LabelPooled, ''true'') \<in> set sel)"
proof (induction n)
  case (Suc n)
  have walk: "traces (claim_walk E b ps) (\<lambda>_ t. \<forall>x \<in> set t. \<forall>a sel. fst x \<noteq> ListPods a sel)" for b ps
    by (rule traces_mono [OF claim_walk_traces]) (fastforce simp: walk_spec_def)
  have rest: "traces (claim_attempts n E ns tpl) (\<lambda>_ t'. \<forall>x \<in> set t \<union> set t'. \<forall>a sel. fst x = ListPods a sel \<longrightarrow>
      a = ns \<and> (LabelPooled, ''true'') \<in> set sel)" if "\<forall>x \<in> set t. \<forall>a sel. fst x \<noteq> ListPods a sel" for t
    by (rule traces_mono [OF Suc.IH]) (use that in auto)
  show ?case
    unfolding claim_attempts.simps
    by (intro traces_ask_bind traces_case_sum traces_ret traces_bind [OF walk])
      (auto intro!: traces_ret traces_if rest split: walk_result.split)
qed (auto intro: traces_ret)

lemma pods_listed_in: "ps \<in> set (pods_listed t) \<Longrightarrow> \<exists>a sel. (ListPods a sel, RPods ps) \<in> set t"
  by (induction t rule: pods_listed.induct) auto

lemma claim_returns:
  assumes "claimed_by H i ns tpl (n, v)" "n \<noteq> []"
  shows "\<exists>p t0 sel ps. calls_of i H = t0 @ [(UpdatePod (claim_copy p), ROk)] \<and> p_name p = n
    \<and> (ListPods (pool_namespace ns) sel, RPods ps) \<in> set t0 \<and> p \<in> set ps \<and> (LabelPooled, ''true'') \<in> set sel"
proof -
  let ?t = "calls_of i H"
  obtain E :: "instant api" and w w' where run: "run_state (Claim E ns tpl) (w, []) = (Inr (n, v), (w', ?t))"
    using assms(1) unfolding claimed_by_def by blast
  have spec: "claim_spec (Inr (n, v)) ?t"
    using tracesD [OF claim_attempts_traces] run unfolding Claim_def by fastforce
  have lists: "\<forall>x \<in> set ?t. \<forall>a sel. fst x = ListPods a sel \<longrightarrow>
      a = pool_namespace ns \<and> (LabelPooled, ''true'') \<in> set sel"
    using tracesD [OF claim_lists] run unfolding Claim_def pool_namespace_def by fastforce
  obtain p where p: "updated_pods ?t = [claim_copy p]" "p \<in> set (List.last (pods_listed ?t))" "pods_listed ?t \<noteq> []"
    "n = p_name p" "List.last ?t = (UpdatePod (claim_copy p), ROk)"
    using spec assms(2) unfolding claim_spec_def by auto
  from p(1) have "?t \<noteq> []" by auto
  then have t: "?t = butlast ?t @ [(UpdatePod (claim_copy p), ROk)]" using p(5) by (metis append_butlast_last_id)
  have "List.last (pods_listed ?t) \<in> set (pods_listed ?t)" using p(3) by simp
  then obtain a sel where l: "(ListPods a sel, RPods (List.last (pods_listed ?t))) \<in> set ?t"
    using pods_listed_in by blast
  then have "(ListPods a sel, RPods (List.last (pods_listed ?t))) \<in> set (butlast ?t)"
    using t by (metis Un_iff empty_iff empty_set list.set(2) insertE prod.inject request.distinct set_append)
  then show ?thesis using lists l t p(2,4) by fastforce
qed

section \<open>What the server makes of it\<close>

definition store_ok :: "pod_store \<Rightarrow> bool" where
  "store_ok s \<longleftrightarrow>
     (\<forall>k q. st_pods s k = Some q \<longrightarrow> q \<in> st_past s \<and> pod_key q = k)
     \<and> (\<forall>q \<in> st_past s. p_version q < st_version s)
     \<and> (\<forall>q \<in> st_past s. \<forall>q' \<in> st_past s. p_version q = p_version q' \<longrightarrow> q = q')"

lemma store_ok_stored: "store_ok s \<Longrightarrow> store_ok (stored p s)"
  by (auto simp: store_ok_def stored_def Let_def pod_key_def less_Suc_eq)

lemma store_ok_serves: "serves s q r s' \<Longrightarrow> store_ok s \<Longrightarrow> store_ok s'"
  by (induction rule: serves.induct) (auto simp: store_ok_stored, auto simp: store_ok_def)

lemma past_grows: "serves s q r s' \<Longrightarrow> p \<in> st_past s \<Longrightarrow> p \<in> st_past s'"
  by (induction rule: serves.induct) (auto simp: stored_def Let_def)

lemma history_ok:
  "pod_history s H \<Longrightarrow> store_ok s
     \<and> (\<forall>i ns sel ps p. (i, ListPods ns sel, RPods ps) \<in> set H \<and> p \<in> set ps \<longrightarrow> p \<in> st_past s \<and> selected ns sel p)"
proof (induction rule: pod_history.induct)
  case start
  show ?case by (simp add: store_ok_def empty_store_def)
next
  case (request s H q r s' i)
  have "p \<in> st_past s \<and> selected ns sel p" if "q = ListPods ns sel" "r = RPods ps" "p \<in> set ps" for ns sel ps p
    using request.hyps(2) that by (auto elim: serves.cases)
  then show ?case
    using request.IH store_ok_serves [OF request.hyps(2)] past_grows [OF request.hyps(2)] by fastforce
qed

lemma history_prefix:
  "pod_history s (h1 @ x # h2) \<Longrightarrow>
     \<exists>s1 s2. pod_history s1 h1 \<and> serves s1 (fst (snd x)) (snd (snd x)) s2 \<and> pod_history s2 (h1 @ [x])"
proof (induction h2 arbitrary: s rule: rev_induct)
  case Nil
  then show ?case by cases (auto intro: pod_history.request)
next
  case (snoc y h2)
  from snoc.prems show ?case
    by cases (use snoc.IH in auto)
qed

text \<open>An accepted update of a copy finds the very pod that was listed.\<close>

lemma claim_finds_the_listed_pod:
  assumes "pod_history s (h1 @ (i, UpdatePod (claim_copy p), ROk) # h2)"
    and "(j, ListPods ns sel, RPods ps) \<in> set h1" "p \<in> set ps"
  shows "\<exists>s1. pod_history s1 h1 \<and> st_pods s1 (pod_key p) = Some p \<and> selected ns sel p"
proof -
  from history_prefix [OF assms(1)] obtain s1 s2 where
    h: "pod_history s1 h1" "serves s1 (UpdatePod (claim_copy p)) ROk s2" by auto
  from h(2) obtain q where q: "st_pods s1 (pod_key (claim_copy p)) = Some q" "p_version q = p_version p"
    by cases auto
  have ok: "store_ok s1" "p \<in> st_past s1" "selected ns sel p" using history_ok [OF h(1)] assms(2,3) by blast+
  then have "q = p" using q unfolding store_ok_def by blast
  then show ?thesis using h(1) q(1) ok(3) by (auto simp: pod_key_def claim_copy_def)
qed

text \<open>A pod without the label keeps out of the pool until it is deleted.\<close>

lemma stays_out:
  assumes "pod_history s (h @ h')" "h \<noteq> []" "List.last h = (i, UpdatePod c, ROk)" "\<not> pooled c"
    and "\<forall>k r. (k, DeletePod (p_namespace c) (p_name c), r) \<notin> set h'"
  shows "\<exists>q. st_pods s (pod_key c) = Some q \<and> \<not> pooled q"
  using assms(1,5)
proof (induction h' arbitrary: s rule: rev_induct)
  case Nil
  then obtain h0 where "h = h0 @ [(i, UpdatePod c, ROk)]" using assms(2,3) by (metis append_butlast_last_id)
  with Nil.prems(1) obtain s0 where "serves s0 (UpdatePod c) ROk s"
    by (auto elim: pod_history.cases)
  then show ?case using assms(4) by cases (auto simp: stored_def Let_def pooled_def)
next
  case (snoc x h')
  from snoc.prems(1) obtain s0 q r j where x: "x = (j, q, r)" "pod_history s0 (h @ h')" "serves s0 q r s" "\<not> repools s0 q"
    by cases auto
  from snoc.IH [OF x(2)] snoc.prems(2) obtain old where old: "st_pods s0 (pod_key c) = Some old" "\<not> pooled old" by (auto simp: x(1))
  from x(3) show ?case
  proof cases
    case (updated p q' )
    then show ?thesis using x(4) old by (auto simp: stored_def Let_def repools_def pooled_def)
  next
    case (deleted ns n)
    then show ?thesis using old snoc.prems(2) x(1) by (auto simp: pod_key_def)
  qed (use old in \<open>auto simp: stored_def Let_def\<close>)
qed

lemma not_pooled_copy [simp]: "\<not> pooled (claim_copy p)"
  by (simp add: pooled_def claim_copy_def LabelPooled_def LabelTemplate_def)

lemma in_calls: "x \<in> set (calls_of i H) \<longleftrightarrow> (i, x) \<in> set H"
  by (force simp: calls_of_def)

text \<open>The last call of an actor, in the history.\<close>

lemma last_call:
  "calls_of i H = t @ [(q, r)] \<Longrightarrow> \<exists>h1 h2. H = h1 @ (i, q, r) # h2 \<and> calls_of i h1 = t"
proof (induction H rule: rev_induct)
  case (snoc x H)
  show ?case
  proof (cases "fst x = i")
    case True
    then show ?thesis using snoc.prems by (cases x) (auto simp: calls_of_def)
  next
    case False
    then obtain h1 h2 where "H = h1 @ (i, q, r) # h2" "calls_of i h1 = t"
      using snoc by (auto simp: calls_of_def)
    then show ?thesis by (metis append_Cons append_assoc)
  qed
qed (simp add: calls_of_def)

text \<open>Where a claim took its pod: the pod was in the pool, stored as it was listed.\<close>

lemma claim_taken:
  assumes "pod_history s H" "claimed_by H i ns tpl (n, v)" "n \<noteq> []"
  shows "\<exists>p h1 h2 s1. H = h1 @ (i, UpdatePod (claim_copy p), ROk) # h2 \<and> pod_key p = (pool_namespace ns, n)
    \<and> pod_history s1 h1 \<and> st_pods s1 (pod_key p) = Some p \<and> pooled p"
proof -
  obtain p t0 sel ps where p: "calls_of i H = t0 @ [(UpdatePod (claim_copy p), ROk)]" "p_name p = n"
    "(ListPods (pool_namespace ns) sel, RPods ps) \<in> set t0" "p \<in> set ps" "(LabelPooled, ''true'') \<in> set sel"
    using claim_returns [OF assms(2,3)] by blast
  obtain h1 h2 where h: "H = h1 @ (i, UpdatePod (claim_copy p), ROk) # h2" "calls_of i h1 = t0"
    using last_call [OF p(1)] by blast
  then have "(i, ListPods (pool_namespace ns) sel, RPods ps) \<in> set h1" using p(3) by (simp flip: in_calls)
  from claim_finds_the_listed_pod [OF assms(1) [unfolded h(1)] this p(4)]
  obtain s1 where s: "pod_history s1 h1" "st_pods s1 (pod_key p) = Some p" "selected (pool_namespace ns) sel p" by blast
  then have "pooled p" "pod_key p = (pool_namespace ns, n)"
    using p(2,5) by (auto simp: selected_def pooled_def pod_key_def)
  then show ?thesis using h s by blast
qed

text \<open>\<open>deleted_between\<close>: two accepted updates by \<open>a\<close> and then \<open>b\<close> with the deletion of the pod between them.\<close>

definition deleted_between :: "history \<Rightarrow> nat \<Rightarrow> nat \<Rightarrow> string \<Rightarrow> string \<Rightarrow> bool" where
  "deleted_between H a b ns n \<longleftrightarrow>
     (\<exists>h1 p h2 q h3 k r. H = h1 @ (a, UpdatePod p, ROk) # h2 @ (b, UpdatePod q, ROk) # h3
        \<and> pod_key p = (ns, n) \<and> pod_key q = (ns, n) \<and> (k, DeletePod ns n, r) \<in> set h2)"

lemma second_claim_needs_deletion:
  assumes "H = h1 @ (a, UpdatePod (claim_copy p), ROk) # h2 @ (b, UpdatePod (claim_copy q), ROk) # h3"
    and "pod_history s (h1 @ (a, UpdatePod (claim_copy p), ROk) # h2)"
    and "st_pods s (pod_key q) = Some q" "pooled q" "pod_key p = (ns, n)" "pod_key q = (ns, n)"
  shows "deleted_between H a b ns n"
proof (rule ccontr)
  assume no: "\<not> deleted_between H a b ns n"
  have keys: "pod_key (claim_copy p) = (ns, n)" "pod_key (claim_copy q) = (ns, n)"
    using assms(5,6) by (simp_all add: pod_key_def claim_copy_def)
  then have "\<forall>k r. (k, DeletePod ns n, r) \<notin> set h2" using no assms(1) unfolding deleted_between_def by blast
  moreover have "p_namespace (claim_copy p) = ns" "p_name (claim_copy p) = n" using keys by (auto simp: pod_key_def)
  ultimately have "\<exists>q'. st_pods s (pod_key (claim_copy p)) = Some q' \<and> \<not> pooled q'"
    using stays_out [of s "h1 @ [(a, UpdatePod (claim_copy p), ROk)]" h2] assms(2) by simp
  then show False using assms(3,4,6) keys by simp
qed

lemma two_places:
  assumes "h1 @ x # h2 = g1 @ y # g2" "x \<noteq> y"
  shows "(\<exists>h. g1 = h1 @ x # h) \<or> (\<exists>h. h1 = g1 @ y # h)"
proof -
  from assms(1) consider us where "h1 = g1 @ us" "us @ x # h2 = y # g2" | us where "h1 @ us = g1" "x # h2 = us @ y # g2"
    by (auto simp: append_eq_append_conv2)
  then show ?thesis using assms(2) by cases (auto simp: Cons_eq_append_conv append_eq_Cons_conv)
qed

section \<open>Properties\<close>

text \<open>C12. Any number of claims of the warm pool run side by side, with the pool's reconciler, the
  kubelet and whoever else works on pods in between; listings may be out of date, answers to writes may
  be lost. Two claims that return a pod of one namespace return different pods, unless the pod was
  deleted, and its name taken again, after the one claim and before the other. The claims are runs of
  the code, from the listing to the update of the copy; what is assumed is that the API server accepts an
  update only at the stored resource version, and that no other actor labels a pod into the pool that
  is not in it.\<close>

theorem no_pod_is_claimed_twice:
  assumes "pod_history s H" and "i \<noteq> j"
    and "claimed_by H i ns tpl (n, v)" "claimed_by H j ns' tpl' (n', v')" "n \<noteq> []" "n' \<noteq> []"
    and "pool_namespace ns = pool_namespace ns'"
  shows "n \<noteq> n' \<or> deleted_between H i j (pool_namespace ns) n \<or> deleted_between H j i (pool_namespace ns) n"
proof (cases "n = n'")
  case True
  obtain p h1 h2 s1 where p: "H = h1 @ (i, UpdatePod (claim_copy p), ROk) # h2" "pod_key p = (pool_namespace ns, n)"
    "pod_history s1 h1" "st_pods s1 (pod_key p) = Some p" "pooled p"
    using claim_taken [OF assms(1,3,5)] by blast
  obtain q g1 g2 s2 where q: "H = g1 @ (j, UpdatePod (claim_copy q), ROk) # g2" "pod_key q = (pool_namespace ns, n)"
    "pod_history s2 g1" "st_pods s2 (pod_key q) = Some q" "pooled q"
    using claim_taken [OF assms(1,4,6)] assms(7) True by auto
  from p(1) q(1) consider h where "g1 = h1 @ (i, UpdatePod (claim_copy p), ROk) # h"
    | h where "h1 = g1 @ (j, UpdatePod (claim_copy q), ROk) # h"
    using two_places [of h1 "(i, UpdatePod (claim_copy p), ROk)" h2 g1 "(j, UpdatePod (claim_copy q), ROk)" g2] assms(2)
    by auto
  then show ?thesis
  proof cases
    case (1 h)
    then show ?thesis using second_claim_needs_deletion [of H h1 i p h j q g2 s2] p q by simp
  next
    case (2 h)
    then show ?thesis using second_claim_needs_deletion [of H g1 j q h i p h2 s1] p q by simp
  qed
qed simp

text \<open>Two pods, two claims that list both: the first takes one of them, the second loses that race and
  takes the other.\<close>

definition pod_q :: pod where
  "pod_q = ready_pool_pod\<lparr>p_name := ''q'', p_version := 1\<rparr>"

definition scripted :: "response list \<Rightarrow> instant api" where
  "scripted rs w q = (rs ! nat w, w + 1)"

definition race :: history where
  "race =
     (let sel = [(LabelPooled, ''true''), (LabelTemplate, ''t'')]; ps = RPods [ready_pool_pod, pod_q]
      in [(9, CreatePod ready_pool_pod, ROk), (9, CreatePod pod_q, ROk),
          (0, ListPods ''default'' sel, ps), (1, ListPods ''default'' sel, ps),
          (0, UpdatePod (claim_copy ready_pool_pod), ROk), (1, UpdatePod (claim_copy ready_pool_pod), RErr Conflict),
          (1, UpdatePod (claim_copy pod_q), ROk)])"

lemma race_pods:
  "pod_key ready_pool_pod = (''default'', ''p'')" "pod_key pod_q = (''default'', ''q'')"
  "pod_key (claim_copy p) = pod_key p" "p_version (claim_copy p) = p_version p"
  "p_version ready_pool_pod = 0" "p_version pod_q = 1" "isPodReady pod_q" "isPodReady ready_pool_pod"
  "selected ''default'' [(LabelPooled, ''true''), (LabelTemplate, ''t'')] ready_pool_pod"
  "selected ''default'' [(LabelPooled, ''true''), (LabelTemplate, ''t'')] pod_q"
  "ready_pool_pod\<lparr>p_version := 0\<rparr> = ready_pool_pod" "pod_q\<lparr>p_version := 1\<rparr> = pod_q"
  by (simp_all add: pod_q_def ready_pool_pod_def pool_pod_def pod_key_def claim_copy_def selected_def LabelPooled_def
      LabelTemplate_def isPodReady_def empty_pod_status_def)

lemma race_happens: "\<exists>s. pod_history s race"
proof -
  let ?sel = "[(LabelPooled, ''true''), (LabelTemplate, ''t'')]" and ?ps = "RPods [ready_pool_pod, pod_q]"
  note ask = pod_history.request [where i = i for i]
  define s2 where "s2 = stored pod_q (stored ready_pool_pod empty_store)"
  define s3 where "s3 = stored (claim_copy ready_pool_pod) s2"
  have s2: "st_pods s2 (pod_key ready_pool_pod) = Some ready_pool_pod" "st_pods s2 (pod_key pod_q) = Some pod_q"
    "ready_pool_pod \<in> st_past s2" "pod_q \<in> st_past s2"
    by (simp_all add: s2_def stored_def empty_store_def Let_def race_pods)
  have s3: "st_pods s3 (pod_key pod_q) = Some pod_q"
    using s2 by (simp add: s3_def stored_def Let_def race_pods)
  note rules = serves.created serves.listed serves.updated serves.refused
  have "pod_history (stored ready_pool_pod empty_store) [(9, CreatePod ready_pool_pod, ROk)]"
    using ask [OF pod_history.start serves.created [of empty_store ready_pool_pod ROk], of 9]
    by (simp add: empty_store_def written_def repools_def)
  from ask [OF this serves.created [of _ pod_q ROk], of 9]
  have "pod_history s2 [(9, CreatePod ready_pool_pod, ROk), (9, CreatePod pod_q, ROk)]"
    by (simp add: s2_def stored_def empty_store_def Let_def race_pods written_def repools_def)
  from ask [OF this serves.listed [of "[ready_pool_pod, pod_q]" s2 "''default''" ?sel], of 0]
  have "pod_history s2 [(9, CreatePod ready_pool_pod, ROk), (9, CreatePod pod_q, ROk), (0, ListPods ''default'' ?sel, ?ps)]"
    using s2 by (simp add: race_pods repools_def)
  from ask [OF this serves.listed [of "[ready_pool_pod, pod_q]" s2 "''default''" ?sel], of 1]
  have "pod_history s2 [(9, CreatePod ready_pool_pod, ROk), (9, CreatePod pod_q, ROk), (0, ListPods ''default'' ?sel, ?ps),
      (1, ListPods ''default'' ?sel, ?ps)]"
    using s2 by (simp add: race_pods repools_def)
  from ask [OF this serves.updated [of s2 "claim_copy ready_pool_pod" ready_pool_pod ROk], of 0]
  have "pod_history s3 [(9, CreatePod ready_pool_pod, ROk), (9, CreatePod pod_q, ROk), (0, ListPods ''default'' ?sel, ?ps),
      (1, ListPods ''default'' ?sel, ?ps), (0, UpdatePod (claim_copy ready_pool_pod), ROk)]"
    using s2 by (simp add: race_pods written_def repools_def s3_def)
  from ask [OF this serves.refused [of s3 "UpdatePod (claim_copy ready_pool_pod)" Conflict], of 1]
  have "pod_history s3 [(9, CreatePod ready_pool_pod, ROk), (9, CreatePod pod_q, ROk), (0, ListPods ''default'' ?sel, ?ps),
      (1, ListPods ''default'' ?sel, ?ps), (0, UpdatePod (claim_copy ready_pool_pod), ROk),
      (1, UpdatePod (claim_copy ready_pool_pod), RErr Conflict)]"
    by (simp add: repools_def)
  from ask [OF this serves.updated [of s3 "claim_copy pod_q" pod_q ROk], of 1]
  show ?thesis
    using s3 by (auto simp: race_pods written_def repools_def race_def Let_def)
qed

text \<open>A deletion from an old listing carries no precondition: it takes a pod that was claimed meanwhile.\<close>

lemma stale_deletion_hits_claimed_pod:
  "\<exists>s. pod_history s (race @ [(9, DeletePod ''default'' ''p'', ROk)]) \<and> st_pods s (''default'', ''p'') = None"
proof -
  obtain s where "pod_history s race" using race_happens by blast
  from pod_history.request [OF this serves.deleted [of ROk s "''default''" "''p''"]]
  have "pod_history (s\<lparr>st_pods := (st_pods s)((''default'', ''p'') := None)\<rparr>)
      (race @ [(9, DeletePod ''default'' ''p'', ROk)])"
    by (simp add: written_def repools_def)
  then show ?thesis
    by (intro exI [of _ "s\<lparr>st_pods := (st_pods s)((''default'', ''p'') := None)\<rparr>"] conjI) simp_all
qed

lemma race_names:
  "p_name ready_pool_pod = ''p''" "p_name pod_q = ''q''"
  "first_claim ready_pool_pod = ''p-pvc''" "first_claim pod_q = ''p-pvc''"
  by (simp_all add: pod_q_def ready_pool_pod_def pool_pod_def first_claim_def pod_claims_def)

lemmas race_run = Claim_def claimMaxAttempts_def numeral_3_eq_3 run_bind scripted_def race_pods race_names race_def
  calls_of_def Let_def

lemma race_claims:
  "claimed_by race 0 ''default'' ''t'' (''p'', ''p-pvc'')" "claimed_by race 1 ''default'' ''t'' (''q'', ''p-pvc'')"
proof -
  have "run_state (Claim (scripted [RPods [ready_pool_pod, pod_q], ROk]) ''default'' ''t'') (0, [])
      = (Inr (''p'', ''p-pvc''), (2, calls_of 0 race))"
    by (simp add: race_run)
  then show "claimed_by race 0 ''default'' ''t'' (''p'', ''p-pvc'')" unfolding claimed_by_def by blast
  have "run_state (Claim (scripted [RPods [ready_pool_pod, pod_q], RErr Conflict, ROk]) ''default'' ''t'') (0, [])
      = (Inr (''q'', ''p-pvc''), (3, calls_of 1 race))"
    by (simp add: race_run)
  then show "claimed_by race 1 ''default'' ''t'' (''q'', ''p-pvc'')" unfolding claimed_by_def by blast
qed

lemma race_deletes_nothing: "\<not> deleted_between race i j ns n"
proof
  assume "deleted_between race i j ns n"
  then obtain h1 p h2 q h3 k r
    where h: "race = h1 @ (i, UpdatePod p, ROk) # h2 @ (j, UpdatePod q, ROk) # h3" "(k, DeletePod ns n, r) \<in> set h2"
    unfolding deleted_between_def by blast
  have "(k, DeletePod ns n, r) \<in> set race" unfolding h(1) using h(2) by simp
  then show False by (simp add: race_def Let_def)
qed

theorem no_pod_is_claimed_twice_witness:
  "\<exists>s. pod_history s race \<and> claimed_by race 0 ''default'' ''t'' (''p'', ''p-pvc'')
     \<and> claimed_by race 1 ''default'' ''t'' (''q'', ''p-pvc'') \<and> ''p'' \<noteq> ''q''"
proof -
  obtain s where s: "pod_history s race" using race_happens by blast
  have "''p'' \<noteq> ''q''"
    using no_pod_is_claimed_twice [OF s _ race_claims] by (simp add: pool_namespace_def race_deletes_nothing)
  then show ?thesis using s race_claims by blast
qed

end
