(* ===== verification/Reconciler.thy ===== *)
theory Reconciler
  imports Warm_Pool Sandbox_Secrets
begin

text \<open>
  The sandbox controller: the reconcile state machine of
  \<open>pkg/controller/sandbox_controller.go\<close> and the direct operations of
  \<open>pkg/controller/lifecycle.go\<close>. After a successful write the code goes on with the
  object the API server returned, and so do the definitions.
\<close>

section \<open>Configuration and results\<close>

definition FinalizerName :: string where "FinalizerName = ''agenttier.io/sandbox-cleanup''"
definition MaxRestartCount :: int where "MaxRestartCount = 5"
definition RestartCountResetWindow :: duration where "RestartCountResetWindow = 5 * minute"

text \<open>\<open>rc_notify\<close>: a notifier is set and has channels.\<close>

record reconciler =
  rc_default_image :: string
  rc_default_storage :: string
  rc_default_mount :: string
  rc_memory_image :: string
  rc_install_ns :: string
  rc_pool_ns :: string
  rc_notify :: bool

text \<open>What \<open>ctrl.Result\<close> asks of the queue; errors are the left side of a sum.\<close>

datatype requeue = Done | RequeueNow | RequeueAfter duration

type_synonym 'w reconcile = "('w, string + requeue) kprog"

definition with_status :: "(sandbox_status \<Rightarrow> sandbox_status) \<Rightarrow> sandbox \<Rightarrow> sandbox" where
  "with_status f sb = sb\<lparr>sb_status := f (sb_status sb)\<rparr>"

definition notify :: "reconciler \<Rightarrow> 'w api \<Rightarrow> string \<Rightarrow> string \<Rightarrow> ('w, unit) kprog" where
  "notify rc E kind message = (if rc_notify rc then tell E (SendNotification kind message) else ret ())"

definition event :: "'w api \<Rightarrow> string \<Rightarrow> string \<Rightarrow> string \<Rightarrow> ('w, unit) kprog" where
  "event E typ reason message = tell E (RecordEvent typ reason message)"

text \<open>\<open>Duration.Round\<close> for positive units: to the nearest multiple, halves away from zero.\<close>

definition dur_round :: "duration \<Rightarrow> duration \<Rightarrow> duration" where
  "dur_round d m =
     (if d < 0 then - ((- d + m div 2) div m * m) else (d + m div 2) div m * m)"

definition update_status :: "'w api \<Rightarrow> sandbox \<Rightarrow> (sandbox \<Rightarrow> 'w reconcile) \<Rightarrow> 'w reconcile" where
  "update_status E sb k = do {
     u \<leftarrow> ask E (UpdateSandboxStatus sb) as_sandbox;
     (case u of Inl e \<Rightarrow> ret (Inl (err_text e)) | Inr sb' \<Rightarrow> k sb')
   }"

definition transitionToError :: "reconciler \<Rightarrow> 'w api \<Rightarrow> sandbox \<Rightarrow> string \<Rightarrow> 'w reconcile" where
  "transitionToError rc E sb message =
     update_status E
       (with_status (\<lambda>st. st\<lparr>st_phase := SandboxPhaseError, st_message := message\<rparr>) sb)
       (\<lambda>_. do {
          event E ''Warning'' ''Error'' message;
          notify rc E ''error'' message;
          ret (Inr Done)
        })"

section \<open>Stopping\<close>

definition snapshotOnStopEnabled :: "'w api \<Rightarrow> sandbox \<Rightarrow> ('w, bool) kprog" where
  "snapshotOnStopEnabled E sb =
     (case spec_storage (sb_spec sb) of
        Some st \<Rightarrow> ret (stor_snapshot_on_stop st)
      | None \<Rightarrow>
          (case spec_template (sb_spec sb) of
             None \<Rightarrow> ret False
           | Some t \<Rightarrow> do {
               r \<leftarrow> Resolve E (Some t) (sb_namespace sb);
               ret (case r of
                      Inr (Some rt) \<Rightarrow>
                        (case tpl_storage (rt_spec rt) of Some s \<Rightarrow> stor_snapshot_on_stop s | None \<Rightarrow> False)
                    | _ \<Rightarrow> False)
             }))"

definition snapshotSandboxPVC :: "'w api \<Rightarrow> sandbox \<Rightarrow> ('w, string + unit) kprog" where
  "snapshotSandboxPVC E sb = do {
     now \<leftarrow> ask E Now as_time;
     (let snapName = sb_name sb @ ''-stopsnap-'' @ show_int (now div second)
      in do {
        c \<leftarrow> ask E (CreateSnapshot
               \<lparr>snap_name = snapName, snap_namespace = sb_namespace sb,
                snap_labels = [''agenttier.io/sandbox'' \<mapsto> sb_name sb,
                               ''agenttier.io/snapshot-kind'' \<mapsto> ''on-stop''],
                snap_pvc = st_pvc (sb_status sb), snap_class = None, snap_created = None,
                snap_deleting = False, snap_status = None\<rparr>) as_unit;
        (case c of
           Inl e \<Rightarrow> ret (Inl (''create VolumeSnapshot: '' @ err_text e))
         | Inr _ \<Rightarrow> do {
             event E ''Normal'' ''Snapshotted'' (''Created VolumeSnapshot '' @ snapName @ '' before stopping'');
             ret (Inr ())
           })
      })
   }"

definition stopped_status :: "string \<Rightarrow> sandbox \<Rightarrow> sandbox" where
  "stopped_status reason =
     with_status (\<lambda>st. st\<lparr>st_phase := SandboxPhaseStopped, st_pod := [], st_started := None,
                         st_message := reason\<rparr>)"

text \<open>Delete the pod a sandbox names; a pod that is gone already counts as deleted.\<close>

definition delete_pod :: "'w api \<Rightarrow> sandbox \<Rightarrow> ('w, api_err + unit) kprog" where
  "delete_pod E sb =
     (if st_pod (sb_status sb) = [] then ret (Inr ())
      else do {
        d \<leftarrow> ask E (DeletePod (sb_namespace sb) (st_pod (sb_status sb))) as_unit;
        ret (if d = Inl NotFound then Inr () else d)
      })"

definition snapshot_before_stop :: "'w api \<Rightarrow> sandbox \<Rightarrow> ('w, unit) kprog" where
  "snapshot_before_stop E sb =
     (if st_pvc (sb_status sb) = [] then ret ()
      else do {
        on \<leftarrow> snapshotOnStopEnabled E sb;
        (if \<not> on then ret ()
         else do {
           s \<leftarrow> snapshotSandboxPVC E sb;
           (case s of
              Inl e \<Rightarrow> event E ''Warning'' ''SnapshotFailed'' (''SnapshotOnStop failed: '' @ e)
            | Inr _ \<Rightarrow> ret ())
         })
      })"

definition stopSandbox :: "reconciler \<Rightarrow> 'w api \<Rightarrow> sandbox \<Rightarrow> string \<Rightarrow> 'w reconcile" where
  "stopSandbox rc E sb reason = do {
     snapshot_before_stop E sb;
     d \<leftarrow> delete_pod E sb;
     (case d of
        Inl e \<Rightarrow> ret (Inl (err_text e))
      | Inr _ \<Rightarrow>
          update_status E (stopped_status reason sb)
            (\<lambda>_. do {
               event E ''Normal'' ''Stopped'' reason;
               notify rc E ''sandbox_stopped'' reason;
               ret (Inr Done)
             }))
   }"

section \<open>Failures\<close>

definition restart_message :: "string \<Rightarrow> int \<Rightarrow> string" where
  "restart_message reason n =
     ''Pod failed ('' @ reason @ ''), waiting '' @ show_duration (calculateBackoffDelay n)
       @ '' before restart attempt '' @ show_int n @ ''/'' @ show_int MaxRestartCount"

definition handleInfrastructureFailure ::
  "reconciler \<Rightarrow> 'w api \<Rightarrow> sandbox \<Rightarrow> string \<Rightarrow> pod option \<Rightarrow> 'w reconcile" where
  "handleInfrastructureFailure rc E sb0 reason p =
     (if \<not> isInfrastructureFailure p then do {
        event E ''Warning'' ''ApplicationError''
          (''Pod failed with application error (no auto-restart): '' @ reason);
        transitionToError rc E sb0 (''Pod failed: '' @ reason)
      } else
        (let n = st_restarts (sb_status sb0) + 1;
             sb = with_status (\<lambda>st. st\<lparr>st_restarts := n\<rparr>) sb0
         in if n \<ge> MaxRestartCount then
              transitionToError rc E sb
                (''Restart limit exceeded ('' @ show_int MaxRestartCount @ '' attempts): '' @ reason)
            else do {
              event E ''Warning'' ''AutoRestarted''
                (''Pod failed ('' @ reason @ ''), restarting (attempt '' @ show_int n @ ''/''
                   @ show_int MaxRestartCount @ '') with '' @ show_duration (calculateBackoffDelay n)
                   @ '' backoff'');
              update_status E
                (with_status (\<lambda>st. st\<lparr>st_phase := SandboxPhaseError, st_pod := [],
                                     st_message := restart_message reason n\<rparr>) sb)
                (\<lambda>_. ret (Inr RequeueNow))
            }))"

definition reconcileError :: "reconciler \<Rightarrow> 'w api \<Rightarrow> sandbox \<Rightarrow> 'w reconcile" where
  "reconcileError rc E sb =
     (let n = st_restarts (sb_status sb); backoff = calculateBackoffDelay n;
          restart = do {
            event E ''Normal'' ''Restarting''
              (''Backoff window elapsed ('' @ show_duration backoff @ ''); restarting pod (attempt ''
                 @ show_int n @ ''/'' @ show_int MaxRestartCount @ '')'');
            update_status E
              (with_status (\<lambda>st. st\<lparr>st_phase := SandboxPhaseCreating, st_message := []\<rparr>) sb)
              (\<lambda>_. ret (Inr RequeueNow))
          }
      in if n \<ge> MaxRestartCount then ret (Inr Done)
         else if \<not> str_contains (st_message (sb_status sb)) ''before restart attempt''
         then ret (Inr (RequeueAfter DefaultRequeueDelay))
         else (case st_started (sb_status sb) of
                 None \<Rightarrow> restart
               | Some t \<Rightarrow> do {
                   now \<leftarrow> ask E Now as_time;
                   (let elapsed = time_sub now t
                    in if elapsed < backoff then ret (Inr (RequeueAfter (dur_sub backoff elapsed)))
                       else restart)
                 }))"

section \<open>Running\<close>

text \<open>The checks at the end of the loop: a limit that is set, positive and reached.\<close>

definition limit_reached ::
  "'w api \<Rightarrow> duration option \<Rightarrow> instant option \<Rightarrow> ('w, duration option) kprog" where
  "limit_reached E lim since =
     (case lim of
        None \<Rightarrow> ret None
      | Some d \<Rightarrow>
          if d \<le> 0 then ret None
          else (case since of
                  None \<Rightarrow> ret None
                | Some t \<Rightarrow> do {
                    now \<leftarrow> ask E Now as_time;
                    ret (if time_sub now t \<ge> d then Some (time_sub now t) else None)
                  }))"

definition shorten_requeue ::
  "'w api \<Rightarrow> duration option \<Rightarrow> instant option \<Rightarrow> duration \<Rightarrow> ('w, duration) kprog" where
  "shorten_requeue E lim since requeueAfter =
     (case lim of
        None \<Rightarrow> ret requeueAfter
      | Some d \<Rightarrow>
          if d \<le> 0 then ret requeueAfter
          else (case since of
                  None \<Rightarrow> ret requeueAfter
                | Some t \<Rightarrow> do {
                    now \<leftarrow> ask E Now as_time;
                    (let remaining = dur_sub d (time_sub now t)
                     in ret (if remaining > 0 \<and> remaining < requeueAfter then dur_add remaining second
                             else requeueAfter))
                  }))"

definition check_timeouts :: "reconciler \<Rightarrow> 'w api \<Rightarrow> sandbox \<Rightarrow> 'w reconcile" where
  "check_timeouts rc E sb = do {
     idle \<leftarrow> limit_reached E (spec_idle_timeout (sb_spec sb)) (st_last_activity (sb_status sb));
     (case idle of
        Some d \<Rightarrow> do {
          event E ''Normal'' ''IdleTimeout'' (''Idle for '' @ show_duration d);
          stopSandbox rc E sb ''Idle timeout exceeded''
        }
      | None \<Rightarrow> do {
          ran \<leftarrow> limit_reached E (spec_timeout (sb_spec sb)) (st_started (sb_status sb));
          (case ran of
             Some d \<Rightarrow> do {
               event E ''Normal'' ''MaxRuntimeReached'' (''Running for '' @ show_duration d);
               stopSandbox rc E sb ''Max runtime exceeded''
             }
           | None \<Rightarrow> do {
               r1 \<leftarrow> shorten_requeue E (spec_idle_timeout (sb_spec sb)) (st_last_activity (sb_status sb))
                       DefaultRequeueDelay;
               r2 \<leftarrow> shorten_requeue E (spec_timeout (sb_spec sb)) (st_started (sb_status sb)) r1;
               ret (Inr (RequeueAfter r2))
             })
        })
   }"

definition reconcileRunning :: "reconciler \<Rightarrow> 'w api \<Rightarrow> sandbox \<Rightarrow> 'w reconcile" where
  "reconcileRunning rc E sb =
     (if st_pod (sb_status sb) = [] then transitionToError rc E sb ''Pod name not set in Running state''
      else if sb_annotations sb ''agenttier.io/action'' = Some ''stop'' then do {
        u \<leftarrow> ask E (UpdateSandbox (sb\<lparr>sb_annotations := (sb_annotations sb)(''agenttier.io/action'' := None)\<rparr>))
               as_sandbox;
        (case u of
           Inl e \<Rightarrow> ret (Inl (err_text e))
         | Inr sb' \<Rightarrow> stopSandbox rc E sb' ''User requested stop'')
      } else do {
        g \<leftarrow> ask E (GetPod (sb_namespace sb) (st_pod (sb_status sb))) as_pod;
        (case g of
           Inl NotFound \<Rightarrow> handleInfrastructureFailure rc E sb ''Pod disappeared unexpectedly'' None
         | Inl e \<Rightarrow> ret (Inl (err_text e))
         | Inr p \<Rightarrow>
             if pst_phase (p_status p) = PodFailed
             then handleInfrastructureFailure rc E sb (getPodFailureReason p) (Some p)
             else if pst_phase (p_status p) = PodSucceeded
             then stopSandbox rc E sb ''Sandbox process completed (pod exited 0)''
             else (case st_started (sb_status sb) of
                     None \<Rightarrow> check_timeouts rc E sb
                   | Some t \<Rightarrow>
                       if st_restarts (sb_status sb) \<le> 0 then check_timeouts rc E sb
                       else do {
                         now \<leftarrow> ask E Now as_time;
                         (let uptime = time_sub now t
                          in if uptime \<ge> RestartCountResetWindow \<and> isPodReady p then do {
                               event E ''Normal'' ''RestartCountReset''
                                 (''Pod stable for '' @ show_duration (dur_round uptime second)
                                    @ ''; resetting restart count from ''
                                    @ show_int (st_restarts (sb_status sb)) @ '' to 0'');
                               update_status E (with_status (\<lambda>st. st\<lparr>st_restarts := 0\<rparr>) sb)
                                 (\<lambda>_. ret (Inr RequeueNow))
                             } else check_timeouts rc E sb)
                       }))
      })"

definition reconcileStopped :: "sandbox \<Rightarrow> 'w reconcile" where
  "reconcileStopped sb = ret (Inr Done)"


section \<open>Creating\<close>

definition begin_creating :: "'w api \<Rightarrow> sandbox \<Rightarrow> (sandbox \<Rightarrow> 'w reconcile) \<Rightarrow> 'w reconcile" where
  "begin_creating E sb k =
     (if sb_phase sb = PhaseUnset then
        update_status E (with_status (\<lambda>st. st\<lparr>st_phase := SandboxPhaseCreating\<rparr>) sb)
          (\<lambda>sb'. do {
             event E ''Normal'' ''Creating'' ''Sandbox creation started'';
             k sb'
           })
      else k sb)"

text \<open>The network spec that applies: the sandbox's own, else the template's.\<close>

definition effective_network :: "sandbox \<Rightarrow> sandbox_template_spec option \<Rightarrow> network_spec option" where
  "effective_network sb tpl =
     (case spec_network (sb_spec sb) of Some n \<Rightarrow> Some n | None \<Rightarrow> Option.bind tpl tpl_network)"

definition effective_storage :: "sandbox \<Rightarrow> sandbox_template_spec option \<Rightarrow> storage_spec option" where
  "effective_storage sb tpl =
     (case spec_storage (sb_spec sb) of Some s \<Rightarrow> Some s | None \<Rightarrow> Option.bind tpl tpl_storage)"

definition template_http_exec :: "sandbox_template_spec option \<Rightarrow> bool" where
  "template_http_exec tpl \<longleftrightarrow> Option.bind (Option.bind tpl tpl_harness) har_use_http_exec = Some True"

definition running_status :: "instant \<Rightarrow> string \<Rightarrow> sandbox \<Rightarrow> sandbox" where
  "running_status now podName =
     with_status (\<lambda>st. st\<lparr>st_phase := SandboxPhaseRunning, st_pod := podName, st_started := Some now,
                         st_last_activity := Some now, st_message := []\<rparr>)"

definition running_event :: "'w api \<Rightarrow> sandbox \<Rightarrow> instant \<Rightarrow> string \<Rightarrow> ('w, unit) kprog" where
  "running_event E sb now prefix_text =
     event E ''Normal'' ''Running''
       (prefix_text @ show_duration (dur_round (time_sub now (sb_created sb)) millisecond) @ '')'')"

text \<open>Adopting the volume claim of a claimed pod; every failure is only logged.\<close>

definition adopt_pvc :: "'w api \<Rightarrow> sandbox \<Rightarrow> string \<Rightarrow> ('w, unit) kprog" where
  "adopt_pvc E sb claimedPVC =
     (if claimedPVC = [] then ret ()
      else do {
        g \<leftarrow> ask E (GetPVC (sb_namespace sb) claimedPVC) as_pvc;
        (case g of
           Inl _ \<Rightarrow> ret ()
         | Inr p0 \<Rightarrow>
             (let p = p0\<lparr>pvc_labels := (pvc_labels p0)(LabelPooled := None, LabelTemplate := None)\<rparr>
              in do {
                own \<leftarrow> ask E (SetControllerRef (sb_name sb) ''PersistentVolumeClaim'' (pvc_name p) (pvc_owner p)) as_unit;
                (case own of
                   Inl _ \<Rightarrow> ret ()
                 | Inr _ \<Rightarrow> tell E (UpdatePVC (p\<lparr>pvc_owner := Some (sb_name sb)\<rparr>)))
              }))
      })"

text \<open>The claimed pod, relabelled for its sandbox and owned by it.\<close>

definition adopted_pod :: "sandbox \<Rightarrow> string \<Rightarrow> pod \<Rightarrow> pod" where
  "adopted_pod sb templateName p = p
     \<lparr>p_labels := (p_labels p)(''agenttier.io/sandbox'' \<mapsto> sb_name sb, ''agenttier.io/template'' \<mapsto> templateName),
      p_owner := Some (sb_name sb)\<rparr>"

text \<open>The warm path; None means to fall through to a cold start.\<close>

definition warm_start ::
  "reconciler \<Rightarrow> 'w api \<Rightarrow> sandbox \<Rightarrow> sandbox_template_spec option \<Rightarrow> string
     \<Rightarrow> ('w, (string + requeue) option) kprog" where
  "warm_start rc E sb tpl templateName = do {
     c \<leftarrow> Claim E (if rc_pool_ns rc = [] then DefaultSandboxNamespace else rc_pool_ns rc) templateName;
     (case c of
        Inl _ \<Rightarrow> ret None
      | Inr (claimedPod, claimedPVC) \<Rightarrow>
          if claimedPod = [] then ret None
          else do {
            g \<leftarrow> ask E (GetPod (sb_namespace sb) claimedPod) as_pod;
            (case g of
               Inl _ \<Rightarrow> ret None
             | Inr p \<Rightarrow> do {
                 own \<leftarrow> ask E (SetControllerRef (sb_name sb) ''Pod'' (p_name p) (p_owner p)) as_unit;
                 (case own of
                    Inl _ \<Rightarrow> ret None
                  | Inr _ \<Rightarrow> do {
                      u \<leftarrow> ask E (UpdatePod (adopted_pod sb templateName p)) as_unit;
                      (case u of
                         Inl _ \<Rightarrow> ret None
                       | Inr _ \<Rightarrow> do {
                           adopt_pvc E sb claimedPVC;
                           n \<leftarrow> ensureNetworkPolicy E sb (effective_network sb tpl)
                                  \<lparr>npo_router_ingress = template_http_exec tpl,
                                   npo_router_namespace = rc_install_ns rc\<rparr>;
                           (case n of
                              Inl e \<Rightarrow> do {
                                r \<leftarrow> transitionToError rc E sb
                                       (''NetworkPolicy creation failed for warm-pool sandbox: '' @ e);
                                ret (Some r)
                              }
                            | Inr _ \<Rightarrow> do {
                                now \<leftarrow> ask E Now as_time;
                                r \<leftarrow> update_status E
                                       (with_status (\<lambda>st. st\<lparr>st_pvc := claimedPVC\<rparr>) (running_status now claimedPod sb))
                                       (\<lambda>sb'. do {
                                          running_event E sb' now ''Sandbox is ready from warm pool (startup: '';
                                          ret (Inr (RequeueAfter DefaultRequeueDelay))
                                        });
                                ret (Some r)
                              })
                         })
                    })
               })
          })
   }"

text \<open>The secrets of HTTP exec, put into the configuration.\<close>

definition with_secrets ::
  "reconciler \<Rightarrow> 'w api \<Rightarrow> sandbox \<Rightarrow> merged_pod_config \<Rightarrow> ('w, string + merged_pod_config) kprog" where
  "with_secrets rc E sb config =
     (if \<not> mc_use_http_exec config then ret (Inr config)
      else do {
        t \<leftarrow> ensureRuntimeTokenSecret E sb;
        (case t of
           Inl e \<Rightarrow> ret (Inl (''Runtime-token secret failed: '' @ e))
         | Inr tokenName \<Rightarrow> do {
             k \<leftarrow> ensureSandboxAPIKeySecret E sb (rc_install_ns rc);
             ret (case k of
                    Inl e \<Rightarrow> Inl (''Scoped API key secret failed: '' @ e)
                  | Inr keyName \<Rightarrow> Inr (config\<lparr>mc_runtime_token_secret := tokenName,
                                              mc_api_key_secret := keyName\<rparr>))
           })
      })"

text \<open>The last step of a cold start: create the pod, or see what became of it.\<close>

definition start_pod ::
  "(string \<Rightarrow> quantity option) \<Rightarrow> reconciler \<Rightarrow> 'w api \<Rightarrow> sandbox \<Rightarrow> merged_pod_config \<Rightarrow> 'w reconcile" where
  "start_pod PQ rc E sb config =
     (let desired0 = BuildPod PQ (rc_default_image rc) sb config
      in do {
        own \<leftarrow> ask E (SetControllerRef (sb_name sb) ''Pod'' (p_name desired0) None) as_unit;
        (case own of
           Inl e \<Rightarrow> ret (Inl (''failed to set owner reference on Pod: '' @ err_text e))
         | Inr _ \<Rightarrow>
             (let desired = desired0\<lparr>p_owner := Some (sb_name sb)\<rparr>
              in do {
                g \<leftarrow> ask E (GetPod (p_namespace desired) (p_name desired)) as_pod;
                (case g of
                   Inl NotFound \<Rightarrow> do {
                     c \<leftarrow> ask E (CreatePod desired) as_unit;
                     (case c of
                        Inl e \<Rightarrow> transitionToError rc E sb (''Pod creation failed: '' @ err_text e)
                      | Inr _ \<Rightarrow>
                          update_status E (with_status (\<lambda>st. st\<lparr>st_pod := p_name desired\<rparr>) sb)
                            (\<lambda>_. ret (Inr (RequeueAfter second))))
                   }
                 | Inl e \<Rightarrow> ret (Inl (err_text e))
                 | Inr existing \<Rightarrow>
                     if isPodReady existing then do {
                       now \<leftarrow> ask E Now as_time;
                       update_status E (running_status now (p_name existing) sb)
                         (\<lambda>sb'. do {
                            running_event E sb' now ''Sandbox is ready (startup: '';
                            ret (Inr (RequeueAfter DefaultRequeueDelay))
                          })
                     }
                     else if pst_phase (p_status existing) = PodFailed
                     then transitionToError rc E sb (''Pod failed: '' @ getPodFailureReason existing)
                     else ret (Inr (RequeueAfter second)))
              }))
      })"

definition controller_defaults_of :: "reconciler \<Rightarrow> controller_defaults" where
  "controller_defaults_of rc =
     \<lparr>cd_image = rc_default_image rc, cd_resources = None, cd_storage = rc_default_storage rc,
      cd_mount_path = rc_default_mount rc, cd_memory_sidecar = rc_memory_image rc\<rparr>"

definition cold_start ::
  "(string \<Rightarrow> quantity option) \<Rightarrow> reconciler \<Rightarrow> 'w api \<Rightarrow> sandbox \<Rightarrow> sandbox_template_spec option
     \<Rightarrow> 'w reconcile" where
  "cold_start PQ rc E sb0 tpl =
     (let config0 = MergeSandboxWithTemplate PQ (sb_spec sb0) tpl (Some (controller_defaults_of rc));
          sb1 = (case Option.bind (Option.bind tpl tpl_harness) har_agent of
                   None \<Rightarrow> sb0
                 | Some a \<Rightarrow> with_status (\<lambda>st. st\<lparr>st_agent_spec := Some a\<rparr>) sb0)
      in do {
        cf \<leftarrow> with_secrets rc E sb1 config0;
        (case cf of
           Inl e \<Rightarrow> transitionToError rc E sb1 e
         | Inr config1 \<Rightarrow> do {
             p \<leftarrow> ensurePVC PQ (rc_default_storage rc) (rc_default_mount rc) E sb1 (effective_storage sb1 tpl);
             (case p of
                Inl e \<Rightarrow> transitionToError rc E sb1 (''PVC creation failed: '' @ e)
              | Inr claim \<Rightarrow>
                  (let sb2 = with_status (\<lambda>st. st\<lparr>st_pvc := pvc_name claim\<rparr>) sb1;
                       config = config1\<lparr>mc_pvc := pvc_name claim\<rparr>
                   in do {
                     n \<leftarrow> ensureNetworkPolicy E sb2 (effective_network sb2 tpl)
                            \<lparr>npo_router_ingress = mc_use_http_exec config, npo_router_namespace = rc_install_ns rc\<rparr>;
                     (case n of
                        Inl e \<Rightarrow> transitionToError rc E sb2 (''NetworkPolicy creation failed: '' @ e)
                      | Inr _ \<Rightarrow> start_pod PQ rc E sb2 config)
                   }))
           })
      })"

text \<open>After the template is resolved: claim a warm pod if that is possible, else start cold.\<close>

definition can_claim :: "reconciler \<Rightarrow> sandbox \<Rightarrow> string \<Rightarrow> bool" where
  "can_claim rc sb templateName \<longleftrightarrow>
     st_pod (sb_status sb) = [] \<and> templateName \<noteq> []
       \<and> sb_namespace sb = (if rc_pool_ns rc = [] then DefaultSandboxNamespace else rc_pool_ns rc)"

definition start_sandbox ::
  "(string \<Rightarrow> quantity option) \<Rightarrow> reconciler \<Rightarrow> 'w api \<Rightarrow> sandbox \<Rightarrow> resolved_template option
     \<Rightarrow> 'w reconcile" where
  "start_sandbox PQ rc E sb0 resolved =
     (let tpl = map_option rt_spec resolved;
          templateName = (case resolved of None \<Rightarrow> [] | Some t \<Rightarrow> rt_name t);
          sb = (case resolved of
                  None \<Rightarrow> sb0
                | Some t \<Rightarrow> with_status (\<lambda>st. st\<lparr>st_template := rt_name t,
                                                st_template_version := rt_version t\<rparr>) sb0)
      in if can_claim rc sb templateName then do {
           w \<leftarrow> warm_start rc E sb tpl templateName;
           (case w of Some r \<Rightarrow> ret r | None \<Rightarrow> cold_start PQ rc E sb tpl)
         } else cold_start PQ rc E sb tpl)"

definition reconcileCreating ::
  "(string \<Rightarrow> quantity option) \<Rightarrow> reconciler \<Rightarrow> 'w api \<Rightarrow> sandbox \<Rightarrow> 'w reconcile" where
  "reconcileCreating PQ rc E sb0 =
     begin_creating E sb0
       (\<lambda>sb. do {
          t \<leftarrow> Resolve E (spec_template (sb_spec sb)) (sb_namespace sb);
          (case t of
             Inl e \<Rightarrow> transitionToError rc E sb (''Template resolution failed: '' @ e)
           | Inr resolved \<Rightarrow> start_sandbox PQ rc E sb resolved)
        })"

section \<open>Deletion\<close>

definition delete_ok :: "api_err + unit \<Rightarrow> bool" where
  "delete_ok d \<longleftrightarrow> d = Inr () \<or> d = Inl NotFound"

definition delete_text :: "api_err + unit \<Rightarrow> string" where
  "delete_text d = (case d of Inl e \<Rightarrow> err_text e | Inr _ \<Rightarrow> [])"

definition delete_pvc :: "'w api \<Rightarrow> sandbox \<Rightarrow> ('w, api_err + unit) kprog" where
  "delete_pvc E sb =
     (if st_pvc (sb_status sb) = [] then ret (Inr ())
      else ask E (DeletePVC (sb_namespace sb) (st_pvc (sb_status sb))) as_unit)"

definition remove_finalizer :: "sandbox \<Rightarrow> sandbox" where
  "remove_finalizer sb = sb\<lparr>sb_finalizers := filter (\<lambda>f. f \<noteq> FinalizerName) (sb_finalizers sb)\<rparr>"

definition reconcileDelete :: "reconciler \<Rightarrow> 'w api \<Rightarrow> sandbox \<Rightarrow> 'w reconcile" where
  "reconcileDelete rc E sb =
     (if FinalizerName \<notin> set (sb_finalizers sb) then ret (Inr Done)
      else do {
        d1 \<leftarrow> delete_pod E sb;
        (if \<not> delete_ok d1 then ret (Inl (delete_text d1))
         else do {
           d2 \<leftarrow> delete_pvc E sb;
           (if \<not> delete_ok d2 then ret (Inl (delete_text d2))
            else do {
              d3 \<leftarrow> ask E (DeleteNetworkPolicy (sb_namespace sb) (netpol_name_for (sb_name sb))) as_unit;
              (if \<not> delete_ok d3 then ret (Inl (delete_text d3))
               else do {
                 k \<leftarrow> revokeSandboxAPIKey E sb (rc_install_ns rc);
                 (case k of
                    Inl e \<Rightarrow> ret (Inl (err_text e))
                  | Inr _ \<Rightarrow> do {
                      u \<leftarrow> ask E (UpdateSandbox (remove_finalizer sb)) as_sandbox;
                      (case u of
                         Inl e \<Rightarrow> ret (Inl (err_text e))
                       | Inr _ \<Rightarrow> do {
                           event E ''Normal'' ''Deleted'' ''Sandbox deleted'';
                           ret (Inr Done)
                         })
                    })
               })
            })
         })
      })"

section \<open>Dispatch\<close>

definition add_finalizer :: "sandbox \<Rightarrow> sandbox" where
  "add_finalizer sb = sb\<lparr>sb_finalizers := sb_finalizers sb @ [FinalizerName]\<rparr>"

definition dispatch ::
  "(string \<Rightarrow> quantity option) \<Rightarrow> reconciler \<Rightarrow> 'w api \<Rightarrow> string \<Rightarrow> string \<Rightarrow> 'w reconcile" where
  "dispatch PQ rc E ns n = do {
     g \<leftarrow> ask E (GetSandbox ns n) as_sandbox;
     (case g of
        Inl NotFound \<Rightarrow> ret (Inr Done)
      | Inl e \<Rightarrow> ret (Inl (err_text e))
      | Inr sb \<Rightarrow>
          if sb_deletion sb \<noteq> None then reconcileDelete rc E sb
          else if FinalizerName \<notin> set (sb_finalizers sb) then do {
            u \<leftarrow> ask E (UpdateSandbox (add_finalizer sb)) as_sandbox;
            ret (case u of Inl e \<Rightarrow> Inl (err_text e) | Inr _ \<Rightarrow> Inr RequeueNow)
          }
          else (case sb_phase sb of
                  PhaseUnset \<Rightarrow> reconcileCreating PQ rc E sb
                | SandboxPhaseCreating \<Rightarrow> reconcileCreating PQ rc E sb
                | SandboxPhaseRunning \<Rightarrow> reconcileRunning rc E sb
                | SandboxPhaseStopped \<Rightarrow> reconcileStopped sb
                | SandboxPhaseError \<Rightarrow> reconcileError rc E sb
                | SandboxPhaseDeleting \<Rightarrow> ret (Inr Done)
                | PhaseOther _ \<Rightarrow> ret (Inr Done)))
   }"

section \<open>Direct operations\<close>

definition StopSandbox :: "'w api \<Rightarrow> sandbox \<Rightarrow> string \<Rightarrow> ('w, string + unit) kprog" where
  "StopSandbox E sb reason =
     (if sb_phase sb \<noteq> SandboxPhaseRunning
      then ret (Inl (''cannot stop sandbox in phase '' @ phase_text (sb_phase sb) @ '': must be Running''))
      else do {
        d \<leftarrow> delete_pod E sb;
        (case d of
           Inl e \<Rightarrow> ret (Inl (''failed to delete pod: '' @ err_text e))
         | Inr _ \<Rightarrow> do {
             u \<leftarrow> ask E (UpdateSandboxStatus (stopped_status reason sb)) as_sandbox;
             (case u of
                Inl e \<Rightarrow> ret (Inl (''failed to update sandbox status: '' @ err_text e))
              | Inr _ \<Rightarrow> do {
                  event E ''Normal'' ''Stopped'' (''Sandbox stopped: '' @ reason);
                  ret (Inr ())
                })
           })
      })"

definition resume_body :: "'w api \<Rightarrow> sandbox \<Rightarrow> ('w, string + unit) kprog" where
  "resume_body E sb = do {
     now \<leftarrow> ask E Now as_time;
     u \<leftarrow> ask E (UpdateSandboxStatus (with_status (\<lambda>st. st\<lparr>st_phase := SandboxPhaseCreating,
                    st_message := ''Resuming'', st_started := Some now\<rparr>) sb)) as_sandbox;
     (case u of
        Inl e \<Rightarrow> ret (Inl (''failed to update sandbox status: '' @ err_text e))
      | Inr _ \<Rightarrow> do {
          event E ''Normal'' ''Resumed'' ''Sandbox resume initiated'';
          ret (Inr ())
        })
   }"

definition ResumeSandbox :: "'w api \<Rightarrow> sandbox \<Rightarrow> ('w, string + unit) kprog" where
  "ResumeSandbox E sb =
     (if sb_phase sb \<noteq> SandboxPhaseStopped \<and> sb_phase sb \<noteq> SandboxPhaseError
      then ret (Inl (''cannot resume sandbox in phase '' @ phase_text (sb_phase sb) @ '': must be Stopped or Error''))
      else if st_pvc (sb_status sb) = [] then resume_body E sb
      else do {
        g \<leftarrow> ask E (GetPVC (sb_namespace sb) (st_pvc (sb_status sb))) as_pvc;
        (case g of
           Inr _ \<Rightarrow> resume_body E sb
         | Inl NotFound \<Rightarrow> ret (Inl (''PVC '' @ st_pvc (sb_status sb)
               @ '' not found '' @ [CHR 0xE2, CHR 0x80, CHR 0x94] @ '' cannot resume without persistent storage''))
         | Inl e \<Rightarrow> ret (Inl (''failed to check PVC: '' @ err_text e)))
      })"

end
