(* ===== verification/Reconcile_Safety.thy ===== *)
theory Reconcile_Safety
  imports Reconciler
begin

text \<open>
  What the sandbox controller guarantees, whatever the API server, the clock and the
  random source answer: which calls each operation can make, in which order, and which
  statuses it writes.
\<close>

section \<open>Reading traces\<close>

text \<open>The statuses that a trace tried to write, in order.\<close>

fun status_updates :: "trace \<Rightarrow> sandbox list" where
  "status_updates [] = []"
| "status_updates ((UpdateSandboxStatus x, _) # t) = x # status_updates t"
| "status_updates (_ # t) = status_updates t"

lemma status_updates_append [simp]: "status_updates (s @ t) = status_updates s @ status_updates t"
  by (induction s rule: status_updates.induct) auto

text \<open>Calls that neither write a Sandbox, nor create or delete a pod, nor delete anything
  else: what the helpers of the state machine are limited to.\<close>

definition harmless :: "request \<Rightarrow> bool" where
  "harmless q \<longleftrightarrow>
     (case q of
        CreateSandbox _ \<Rightarrow> False
      | UpdateSandbox _ \<Rightarrow> False
      | UpdateSandboxStatus _ \<Rightarrow> False
      | DeleteSandbox _ _ \<Rightarrow> False
      | CreatePod _ \<Rightarrow> False
      | DeletePod _ _ \<Rightarrow> False
      | DeletePVC _ _ \<Rightarrow> False
      | DeleteNetworkPolicy _ _ \<Rightarrow> False
      | _ \<Rightarrow> True)"

definition all_calls :: "(request \<Rightarrow> bool) \<Rightarrow> trace \<Rightarrow> bool" where
  "all_calls P t \<longleftrightarrow> (\<forall>c \<in> set t. P (fst c))"

lemma all_calls_simps [simp]:
  "all_calls P []"
  "all_calls P ((q, r) # t) \<longleftrightarrow> P q \<and> all_calls P t"
  "all_calls P (s @ t) \<longleftrightarrow> all_calls P s \<and> all_calls P t"
  by (auto simp: all_calls_def)

lemma harmless_simps [simp]:
  "harmless Now" "harmless (RandBytes n)" "harmless (GetSandbox a b)" "harmless (ListSandboxes a)"
  "harmless (GetTemplate a b)" "harmless (GetClusterTemplate a)" "harmless (GetPod a b)"
  "harmless (ListPods a ls)" "harmless (UpdatePod p)" "harmless (GetPVC a b)" "harmless (CreatePVC pc)"
  "harmless (UpdatePVC pc)" "harmless (GetNetworkPolicy a b)" "harmless (CreateNetworkPolicy np)"
  "harmless (UpdateNetworkPolicy np)" "harmless (GetSecret a b)" "harmless (CreateSecret sc)"
  "harmless (DeleteSecret a b)"
  "harmless (CreateSnapshot sn)" "harmless (SetControllerRef a b c own)" "harmless (RecordEvent a b c)"
  "harmless (SendNotification a b)"
  "\<not> harmless (DeleteSandbox a b)" "\<not> harmless (CreateSandbox x)"
  "\<not> harmless (UpdateSandbox x)" "\<not> harmless (UpdateSandboxStatus x)" "\<not> harmless (CreatePod p)"
  "\<not> harmless (DeletePod a b)" "\<not> harmless (DeletePVC a b)" "\<not> harmless (DeleteNetworkPolicy a b)"
  by (simp_all add: harmless_def)

lemma harmless_no_status: "all_calls harmless t \<Longrightarrow> status_updates t = []"
  by (induction t rule: status_updates.induct) auto

definition quietly :: "('w, 'a) kprog \<Rightarrow> bool" where
  "quietly m \<longleftrightarrow> traces m (\<lambda>_ t. all_calls harmless t)"

named_theorems quiet "operations that make harmless calls only"

lemma quietly_bind: "quietly m \<Longrightarrow> (\<And>a. quietly (f a)) \<Longrightarrow> quietly (State_Monad.bind m f)"
  unfolding quietly_def
  by (rule traces_bind [where P = "\<lambda>_. all_calls harmless"]) (assumption | simp)+

lemma quietly_ret: "quietly (ret a)"
  unfolding quietly_def by (intro tr) simp

lemma quietly_ask: "harmless q \<Longrightarrow> quietly (ask E q f)"
  unfolding quietly_def by (intro tr) simp

lemma quietly_tell: "harmless q \<Longrightarrow> quietly (tell E q)"
  unfolding quietly_def by (intro tr) simp

lemma quietly_if: "quietly m \<Longrightarrow> quietly n \<Longrightarrow> quietly (if b then m else n)"
  by simp

lemma quietly_Let: "quietly (f a) \<Longrightarrow> quietly (let x = a in f x)"
  by simp

lemma quietly_option:
  "quietly m \<Longrightarrow> (\<And>y. quietly (f y)) \<Longrightarrow> quietly (case x of None \<Rightarrow> m | Some y \<Rightarrow> f y)"
  by (cases x) simp_all

lemma quietly_sum:
  "(\<And>y. quietly (f y)) \<Longrightarrow> (\<And>y. quietly (g y)) \<Longrightarrow> quietly (case x of Inl y \<Rightarrow> f y | Inr y \<Rightarrow> g y)"
  by (cases x) simp_all

lemma quietly_prod: "(\<And>a b. quietly (f a b)) \<Longrightarrow> quietly (case x of (a, b) \<Rightarrow> f a b)"
  by (cases x) simp

lemma quietly_api_err:
  "quietly a \<Longrightarrow> quietly b \<Longrightarrow> quietly c \<Longrightarrow> (\<And>m. quietly (d m))
     \<Longrightarrow> quietly (case x of NotFound \<Rightarrow> a | AlreadyExists \<Rightarrow> b | Conflict \<Rightarrow> c | OtherErr m \<Rightarrow> d m)"
  by (cases x) simp_all

lemmas quietly_intros =
  quietly_ret quietly_ask quietly_tell quietly_if quietly_Let quietly_option quietly_sum quietly_prod
  quietly_api_err quietly_bind harmless_simps

section \<open>Helpers are harmless\<close>

lemma quiet_event [quiet]: "quietly (event E a b c)"
  unfolding event_def by (intro quietly_intros)

lemma quiet_notify [quiet]: "quietly (notify rc E a b)"
  unfolding notify_def by (intro quietly_intros)

lemma quiet_fetch [quiet]: "quietly (fetchTemplate E ref ns)"
  unfolding fetchTemplate_def by (intro quietly_intros)

lemma quiet_resolveChain [quiet]: "quietly (resolveChain E ref ns depth visited)"
proof (induction E ref ns depth visited rule: resolveChain.induct)
  case (1 E ref ns depth visited)
  show ?case
  proof (cases "depth < MaxInheritanceDepth \<and> template_key ref \<notin> visited")
    case False
    then show ?thesis by (subst resolveChain.simps) (auto intro: quietly_ret)
  next
    case True
    have parent: "quietly (resolveChain E parent ns (depth + 1) (insert (template_key ref) visited))"
      if "tpl_inherits spec = Some parent" for spec :: sandbox_template_spec and parent
      using "1.IH" [OF _ _ refl that] True by simp
    from True show ?thesis
      by (subst resolveChain.simps)
        (auto simp: Let_def split: sum.split option.split intro!: quietly_bind quiet_fetch quietly_ret
          parent [unfolded Suc_eq_plus1 [symmetric]])
  qed
qed

lemma quiet_Resolve [quiet]: "quietly (Resolve E ref ns)"
  unfolding Resolve_def by (intro quietly_intros quiet)

lemma quiet_walk: "quietly (claim_walk E c ps)"
proof (induction ps arbitrary: c)
  case Nil
  show ?case by (simp add: quietly_ret)
next
  case (Cons p ps)
  show ?case unfolding claim_walk.simps by (intro quietly_intros Cons.IH)
qed

lemma quiet_attempts: "quietly (claim_attempts n E ns tpl)"
proof (induction n)
  case 0
  show ?case by (simp add: quietly_ret)
next
  case (Suc n)
  have "quietly (case r of WalkError e \<Rightarrow> ret (Inl e) | WalkClaimed p c \<Rightarrow> ret (Inr (p, c))
      | WalkDone c \<Rightarrow> if \<not> c then ret (Inr ([], [])) else claim_attempts n E ns tpl)" for r
    using Suc.IH by (cases r) (auto intro: quietly_ret)
  then show ?case unfolding claim_attempts.simps by (intro quietly_intros quiet_walk)
qed

lemma quiet_Claim [quiet]: "quietly (Claim E ns tpl)"
  unfolding Claim_def by (rule quiet_attempts)

lemma quiet_ensureNetworkPolicy [quiet]: "quietly (ensureNetworkPolicy E sb ns opts)"
  unfolding ensureNetworkPolicy_def by (intro quietly_intros)

lemma quiet_ensurePVC [quiet]: "quietly (ensurePVC PQ sz mnt E sb st)"
  unfolding ensurePVC_def by (intro quietly_intros)

lemma quiet_GetAPIKeyByHash [quiet]: "quietly (GetAPIKeyByHash ns E h)"
  unfolding GetAPIKeyByHash_def by (intro quietly_intros)

lemma quiet_CreateKey [quiet]: "quietly (CreateKey ns E h rec)"
  unfolding CreateKey_def by (intro quietly_intros)

lemma quiet_hashed [quiet]: "quietly (ensureHashedScopedKeyRecord E sb key inst)"
  unfolding ensureHashedScopedKeyRecord_def by (intro quietly_intros quiet)

lemma quiet_token [quiet]: "quietly (ensureRuntimeTokenSecret E sb)"
  unfolding ensureRuntimeTokenSecret_def by (intro quietly_intros)

lemma quiet_scoped [quiet]: "quietly (ensureSandboxAPIKeySecret E sb inst)"
  unfolding ensureSandboxAPIKeySecret_def by (intro quietly_intros quiet)

lemma quiet_revoke [quiet]: "quietly (revokeSandboxAPIKey E sb inst)"
  unfolding revokeSandboxAPIKey_def by (intro quietly_intros)

lemma quiet_with_secrets [quiet]: "quietly (with_secrets rc E sb config)"
  unfolding with_secrets_def by (intro quietly_intros quiet)

lemma quiet_adopt [quiet]: "quietly (adopt_pvc E sb c)"
  unfolding adopt_pvc_def by (intro quietly_intros)

lemma quiet_running_event [quiet]: "quietly (running_event E sb now txt)"
  unfolding running_event_def by (rule quiet_event)

lemma quiet_snapshot_enabled [quiet]: "quietly (snapshotOnStopEnabled E sb)"
  unfolding snapshotOnStopEnabled_def by (intro quietly_intros quiet)

lemma quiet_snapshot [quiet]: "quietly (snapshotSandboxPVC E sb)"
  unfolding snapshotSandboxPVC_def by (intro quietly_intros quiet)

lemma quiet_snapshot_before [quiet]: "quietly (snapshot_before_stop E sb)"
  unfolding snapshot_before_stop_def by (intro quietly_intros quiet)

lemma quiet_limit [quiet]: "quietly (limit_reached E lim since)"
  unfolding limit_reached_def by (intro quietly_intros)

lemma quiet_shorten [quiet]: "quietly (shorten_requeue E lim since d)"
  unfolding shorten_requeue_def by (intro quietly_intros)

section \<open>Statuses written\<close>

text \<open>Running a quiet program leaves the statuses written untouched.\<close>

lemma traces_quiet:
  "quietly m \<Longrightarrow> (\<And>a t. all_calls harmless t \<Longrightarrow> P a t) \<Longrightarrow> traces m P"
  unfolding quietly_def by (erule traces_mono)

lemma traces_quiet_bind:
  "quietly m \<Longrightarrow> (\<And>a t. all_calls harmless t \<Longrightarrow> traces (f a) (\<lambda>b t'. Q b (t @ t')))
     \<Longrightarrow> traces (State_Monad.bind m f) Q"
  unfolding quietly_def by (rule traces_bind)

lemmas quiet_runs = quiet [THEN traces_quiet_bind]

text \<open>The API server echoes what a write stored. \<open>echoed t\<close>: the successful status and
  object updates of \<open>t\<close> were answered with the object that was sent.\<close>

definition echoed :: "trace \<Rightarrow> bool" where
  "echoed t \<longleftrightarrow>
     (\<forall>c \<in> set t. \<forall>y. snd c = RSandbox y \<longrightarrow>
        (\<forall>x. fst c = UpdateSandboxStatus x \<or> fst c = UpdateSandbox x \<longrightarrow> y = x))"

lemma echoed_simps [simp]:
  "echoed []"
  "echoed (s @ t) \<longleftrightarrow> echoed s \<and> echoed t"
  "echoed ((UpdateSandboxStatus x, RSandbox y) # t) \<longleftrightarrow> y = x \<and> echoed t"
  "echoed ((UpdateSandbox x, RSandbox y) # t) \<longleftrightarrow> y = x \<and> echoed t"
  "(\<And>x. q \<noteq> UpdateSandboxStatus x \<and> q \<noteq> UpdateSandbox x) \<Longrightarrow> echoed ((q, r) # t) \<longleftrightarrow> echoed t"
  by (auto simp: echoed_def)

text \<open>One status write of the controller: the sandbox \<open>s\<close> it acted on and the sandbox \<open>x\<close>
  it wrote. A pod that fails uses up one restart; only a running sandbox gets its count reset;
  a restart needs a count below the maximum.\<close>

definition status_step :: "sandbox \<Rightarrow> sandbox \<Rightarrow> bool" where
  "status_step s x \<longleftrightarrow>
     sb_spec x = sb_spec s \<and> sb_name x = sb_name s \<and> sb_namespace x = sb_namespace s \<and>
     (case sb_phase s of
        PhaseUnset \<Rightarrow>
          sb_phase x = SandboxPhaseCreating \<and> st_restarts (sb_status x) = st_restarts (sb_status s)
      | SandboxPhaseCreating \<Rightarrow>
          sb_phase x \<in> {SandboxPhaseCreating, SandboxPhaseRunning, SandboxPhaseError}
            \<and> st_restarts (sb_status x) = st_restarts (sb_status s)
      | SandboxPhaseRunning \<Rightarrow>
          (sb_phase x = SandboxPhaseRunning \<and> st_restarts (sb_status x) = 0
             \<and> 0 < st_restarts (sb_status s))
          \<or> (sb_phase x = SandboxPhaseStopped \<and> st_restarts (sb_status x) = st_restarts (sb_status s)
               \<and> st_pod (sb_status x) = [] \<and> st_pvc (sb_status x) = st_pvc (sb_status s))
          \<or> (sb_phase x = SandboxPhaseError
               \<and> st_restarts (sb_status x) - st_restarts (sb_status s) \<in> {0, 1})
      | SandboxPhaseError \<Rightarrow>
          sb_phase x = SandboxPhaseCreating \<and> st_restarts (sb_status x) = st_restarts (sb_status s)
            \<and> st_restarts (sb_status s) < MaxRestartCount
      | _ \<Rightarrow> False)"

fun status_path :: "sandbox \<Rightarrow> sandbox list \<Rightarrow> bool" where
  "status_path s [] = True"
| "status_path s (x # xs) = (status_step s x \<and> status_path x xs)"

lemma update_status_traces:
  "(\<And>sb'. traces (k sb') (\<lambda>r t. P r ((UpdateSandboxStatus sb, RSandbox sb') # t)))
     \<Longrightarrow> (\<And>r e. as_sandbox r = Inl e \<Longrightarrow> P (Inl (err_text e)) [(UpdateSandboxStatus sb, r)])
     \<Longrightarrow> traces (update_status E sb k) P"
  unfolding update_status_def by (intro tr) auto

definition writes_at_most :: "sandbox set \<Rightarrow> 'r \<Rightarrow> trace \<Rightarrow> bool" where
  "writes_at_most X r t \<longleftrightarrow> status_updates t = [] \<or> (\<exists>x \<in> X. status_updates t = [x])"

lemma writes_at_mostI [intro]:
  "status_updates t = [] \<Longrightarrow> writes_at_most X r t"
  "status_updates t = [x] \<Longrightarrow> x \<in> X \<Longrightarrow> writes_at_most X r t"
  by (auto simp: writes_at_most_def)

lemma transitionToError_writes:
  "traces (transitionToError rc E sb m)
     (\<lambda>r t. status_updates t = [with_status (\<lambda>st. st\<lparr>st_phase := SandboxPhaseError, st_message := m\<rparr>) sb])"
  unfolding transitionToError_def
  by (intro update_status_traces quiet_runs tr) (auto simp: harmless_no_status)

lemma delete_pod_writes: "traces (delete_pod E sb) (\<lambda>r t. status_updates t = [])"
  unfolding delete_pod_def by (intro tr) auto

lemma stopSandbox_writes:
  "traces (stopSandbox rc E sb reason) (writes_at_most {stopped_status reason sb})"
  unfolding stopSandbox_def
  by (intro quiet_runs traces_bind [OF delete_pod_writes] update_status_traces tr)
    (auto simp: harmless_no_status)

lemma check_timeouts_writes:
  "traces (check_timeouts rc E sb) (writes_at_most (range (\<lambda>reason. stopped_status reason sb)))"
  unfolding check_timeouts_def
  by (intro quiet_runs traces_mono [OF stopSandbox_writes] tr)
    (auto simp: harmless_no_status writes_at_most_def)

definition steps_from :: "sandbox \<Rightarrow> 'r \<Rightarrow> trace \<Rightarrow> bool" where
  "steps_from sb r t \<longleftrightarrow> echoed t \<longrightarrow> writes_at_most {x. status_step sb x} r t"

lemma steps_fromI: "writes_at_most X r t \<Longrightarrow> (\<And>x. x \<in> X \<Longrightarrow> status_step sb x) \<Longrightarrow> steps_from sb r t"
  by (auto simp: steps_from_def writes_at_most_def)

lemma with_status_simps [simp]:
  "sb_spec (with_status f sb) = sb_spec sb" "sb_name (with_status f sb) = sb_name sb"
  "sb_namespace (with_status f sb) = sb_namespace sb"
  "sb_status (with_status f sb) = f (sb_status sb)"
  by (simp_all add: with_status_def)

lemma stopped_step: "sb_phase sb = SandboxPhaseRunning \<Longrightarrow> status_step sb (stopped_status reason sb)"
  by (simp add: status_step_def stopped_status_def)

lemma error_step:
  "sb_phase sb \<in> {SandboxPhaseCreating, SandboxPhaseRunning}
     \<Longrightarrow> status_step sb (with_status (\<lambda>st. st\<lparr>st_phase := SandboxPhaseError, st_message := m\<rparr>) sb)"
  by (auto simp: status_step_def)

lemma handleInfrastructureFailure_writes:
  assumes "sb_phase sb = SandboxPhaseRunning"
  shows "traces (handleInfrastructureFailure rc E sb reason p) (steps_from sb)"
  unfolding handleInfrastructureFailure_def
  by (intro quiet_runs traces_mono [OF transitionToError_writes] update_status_traces tr)
    (use assms in \<open>auto simp: harmless_no_status steps_from_def writes_at_most_def status_step_def\<close>)

lemma reconcileError_writes:
  assumes "sb_phase sb = SandboxPhaseError"
  shows "traces (reconcileError rc E sb) (steps_from sb)"
  unfolding reconcileError_def
  by (intro quiet_runs update_status_traces tr)
    (use assms in \<open>auto simp: harmless_no_status steps_from_def writes_at_most_def status_step_def\<close>)

lemma reconcileRunning_writes:
  assumes "sb_phase sb = SandboxPhaseRunning"
  shows "traces (reconcileRunning rc E sb) (steps_from sb)"
proof -
  let ?noted = "sb\<lparr>sb_annotations := (sb_annotations sb)(''agenttier.io/action'' := None)\<rparr>"
  have noted: "status_step sb (stopped_status reason ?noted)" for reason
    using assms by (simp add: status_step_def stopped_status_def)
  show ?thesis
    unfolding reconcileRunning_def
    apply (intro quiet_runs traces_mono [OF transitionToError_writes]
        traces_mono [OF check_timeouts_writes] traces_mono [OF stopSandbox_writes]
        traces_mono [OF handleInfrastructureFailure_writes [OF assms]] update_status_traces tr)
    using assms noted
    apply (auto simp: harmless_no_status steps_from_def writes_at_most_def status_step_def stopped_status_def)
    done
qed

text \<open>Starting a sandbox. Everything between the first write and the start only fills in
  status fields that the restart rules do not look at: \<open>same_start s x\<close>.\<close>

definition same_start :: "sandbox \<Rightarrow> sandbox \<Rightarrow> bool" where
  "same_start s x \<longleftrightarrow>
     sb_spec x = sb_spec s \<and> sb_name x = sb_name s \<and> sb_namespace x = sb_namespace s
       \<and> sb_phase x = sb_phase s \<and> st_restarts (sb_status x) = st_restarts (sb_status s)"

lemma same_start_steps:
  "same_start s x \<Longrightarrow> sb_phase s = SandboxPhaseCreating \<Longrightarrow> steps_from x r t \<Longrightarrow> steps_from s r t"
  by (auto simp: steps_from_def status_step_def same_start_def writes_at_most_def)

lemma steps_from_quiet:
  "all_calls harmless t \<Longrightarrow> steps_from s r (t @ u) \<longleftrightarrow> (echoed t \<longrightarrow> steps_from s r u)"
  by (auto simp: steps_from_def writes_at_most_def harmless_no_status)

lemma start_pod_writes:
  assumes "sb_phase sb = SandboxPhaseCreating"
  shows "traces (start_pod PQ rc E sb config) (steps_from sb)"
  unfolding start_pod_def
  by (intro quiet_runs traces_mono [OF transitionToError_writes] update_status_traces tr)
    (use assms in \<open>auto simp: harmless_no_status steps_from_def writes_at_most_def status_step_def running_status_def\<close>)

lemma cold_start_writes:
  assumes "sb_phase sb = SandboxPhaseCreating"
  shows "traces (cold_start PQ rc E sb tpl) (steps_from sb)"
proof -
  have start: "traces (start_pod PQ rc E x config) (steps_from sb)" if "same_start sb x" for x config
  proof (rule traces_mono [OF start_pod_writes])
    show "sb_phase x = SandboxPhaseCreating" using that assms by (simp add: same_start_def)
    show "steps_from sb r t" if "steps_from x r t" for r t
      using same_start_steps [OF \<open>same_start sb x\<close> assms that] .
  qed
  have err: "traces (transitionToError rc E x m) (steps_from sb)" if "same_start sb x" for x m
    by (intro traces_mono [OF transitionToError_writes])
      (use that assms in \<open>auto simp: steps_from_def writes_at_most_def status_step_def same_start_def\<close>)
  show ?thesis
    unfolding cold_start_def
    by (intro quiet_runs err [THEN traces_mono] start [THEN traces_mono] tr)
      (auto simp: same_start_def steps_from_quiet split: option.splits)
qed


lemma warm_start_writes:
  assumes "sb_phase sb = SandboxPhaseCreating"
  shows "traces (warm_start rc E sb tpl n)
    (\<lambda>w t. case w of None \<Rightarrow> all_calls harmless t | Some r \<Rightarrow> steps_from sb r t)"
proof -
  have err: "traces (transitionToError rc E sb m) (steps_from sb)" for m
    by (intro traces_mono [OF transitionToError_writes])
      (use assms in \<open>auto simp: steps_from_def writes_at_most_def status_step_def\<close>)
  have run: "traces (update_status E (with_status (\<lambda>st. st\<lparr>st_pvc := claim\<rparr>) (running_status now pd sb))
      (\<lambda>sb'. do { running_event E sb' now msg; ret (Inr (RequeueAfter DefaultRequeueDelay)) }))
      (steps_from sb)" for claim now pd msg
    by (intro update_status_traces quiet_runs tr)
      (use assms in \<open>auto simp: steps_from_def writes_at_most_def status_step_def running_status_def
         harmless_no_status\<close>)
  show ?thesis
    unfolding warm_start_def
    by (intro quiet_runs err [THEN traces_bind] run [THEN traces_bind] tr)
      (auto simp: steps_from_quiet steps_from_def writes_at_most_def harmless_no_status)
qed

lemma start_sandbox_writes:
  assumes "sb_phase sb = SandboxPhaseCreating"
  shows "traces (start_sandbox PQ rc E sb resolved) (steps_from sb)"
proof -
  define sb1 where "sb1 = (case resolved of None \<Rightarrow> sb
      | Some t \<Rightarrow> with_status (\<lambda>st. st\<lparr>st_template := rt_name t, st_template_version := rt_version t\<rparr>) sb)"
  have same: "same_start sb sb1" "sb_phase sb1 = SandboxPhaseCreating"
    using assms by (auto simp: same_start_def sb1_def split: option.split)
  have lift: "steps_from sb1 r t \<Longrightarrow> steps_from sb r t" for r :: "string + requeue" and t
    using same_start_steps [OF same(1) assms] .
  show ?thesis
    unfolding start_sandbox_def sb1_def [symmetric]
    by (intro warm_start_writes [OF same(2), THEN traces_bind]
        cold_start_writes [OF same(2), THEN traces_mono] tr)
      (auto simp: steps_from_quiet lift)
qed

text \<open>Every program only appends to the log.\<close>

definition appends :: "('w, 'a) kprog \<Rightarrow> bool" where
  "appends m \<longleftrightarrow> traces m (\<lambda>_ _. True)"

lemma appendsI: "traces m P \<Longrightarrow> appends m"
  unfolding appends_def by (erule traces_mono) simp

lemma transitionToError_appends: "appends (transitionToError rc E sb m)"
  by (rule appendsI [OF transitionToError_writes])

lemma start_pod_appends: "appends (start_pod PQ rc E sb config)"
  unfolding start_pod_def appends_def
  by (intro quiet_runs transitionToError_writes [THEN traces_mono] update_status_traces tr) simp_all

lemma cold_start_appends: "appends (cold_start PQ rc E sb tpl)"
  unfolding cold_start_def appends_def
  by (intro quiet_runs transitionToError_writes [THEN traces_mono]
      start_pod_appends [unfolded appends_def, THEN traces_mono] tr) simp_all

lemma warm_start_appends: "appends (warm_start rc E sb tpl n)"
proof -
  have run: "traces (update_status E x
      (\<lambda>sb'. do { running_event E sb' now msg; ret (Inr (RequeueAfter DefaultRequeueDelay)) }))
      (\<lambda>_ _. True)" for x now msg
    by (intro update_status_traces quiet_runs tr) simp_all
  show ?thesis
    unfolding warm_start_def appends_def
    by (intro quiet_runs transitionToError_writes [THEN traces_bind] run [THEN traces_bind] tr) simp_all
qed

lemma start_sandbox_appends: "appends (start_sandbox PQ rc E sb resolved)"
  unfolding start_sandbox_def appends_def
  by (intro warm_start_appends [unfolded appends_def, THEN traces_bind]
      cold_start_appends [unfolded appends_def, THEN traces_mono] tr) simp_all

lemma reconcileCreating_writes:
  assumes "sb_phase sb \<in> {PhaseUnset, SandboxPhaseCreating}"
  shows "traces (reconcileCreating PQ rc E sb)
    (\<lambda>_ t. echoed t \<longrightarrow> status_path sb (status_updates t))"
proof -
  define body where "body x = do {
      t \<leftarrow> Resolve E (spec_template (sb_spec x)) (sb_namespace x);
      (case t of
         Inl e \<Rightarrow> transitionToError rc E x (''Template resolution failed: '' @ e)
       | Inr resolved \<Rightarrow> start_sandbox PQ rc E x resolved)
    }" for x
  have path: "echoed t \<longrightarrow> status_path x (status_updates t)" if "steps_from x r t"
    for x t and r :: "string + requeue"
    using that by (auto simp: steps_from_def writes_at_most_def)
  have body: "traces (body x) (\<lambda>_ t. echoed t \<longrightarrow> status_path x (status_updates t))"
    if "sb_phase x = SandboxPhaseCreating" for x
  proof -
    have err: "traces (transitionToError rc E x m) (steps_from x)" for m
      by (intro traces_mono [OF transitionToError_writes])
        (use that in \<open>auto simp: steps_from_def writes_at_most_def status_step_def\<close>)
    have "traces (body x) (steps_from x)"
      unfolding body_def
      by (intro quiet_runs err [THEN traces_mono] start_sandbox_writes [OF that, THEN traces_mono] tr)
        (auto simp: steps_from_quiet)
    then show ?thesis by (rule traces_mono) (rule path)
  qed
  have any: "traces (body x) (\<lambda>_ _. True)" for x
    unfolding body_def
    by (intro quiet_runs transitionToError_writes [THEN traces_mono]
        start_sandbox_appends [unfolded appends_def, THEN traces_mono] tr) simp_all
  let ?x = "with_status (\<lambda>st. st\<lparr>st_phase := SandboxPhaseCreating\<rparr>) sb"
  have cont: "traces (body y) (\<lambda>_ t. y = ?x \<longrightarrow> echoed t \<longrightarrow> status_path ?x (status_updates t))" for y
    using body [of ?x] any by (cases "y = ?x") (auto elim: traces_mono)
  show ?thesis
  proof (cases "sb_phase sb = PhaseUnset")
    case True
    then have first: "status_step sb ?x" by (simp add: status_step_def)
    show ?thesis
      unfolding reconcileCreating_def begin_creating_def body_def [symmetric]
      by (intro update_status_traces quiet_runs cont [THEN traces_mono] body [THEN traces_mono] tr)
        (use True assms first in \<open>auto simp: harmless_no_status\<close>)
  next
    case False
    then have "sb_phase sb = SandboxPhaseCreating" using assms by simp
    with False body show ?thesis
      unfolding reconcileCreating_def begin_creating_def body_def [symmetric] by simp
  qed
qed

text \<open>Deletion and dispatch.\<close>

lemma reconcileDelete_writes: "traces (reconcileDelete rc E sb) (\<lambda>_ t. status_updates t = [])"
  unfolding reconcileDelete_def delete_pvc_def delete_pod_def
  by (intro quiet_runs traces_if [THEN traces_bind] tr) (auto simp: harmless_no_status)

section \<open>Order of calls\<close>

text \<open>\<open>before Q B t\<close>: whenever trace \<open>t\<close> makes a call in \<open>B\<close>, the trace up to there
  satisfies \<open>Q\<close>.\<close>

definition before :: "(trace \<Rightarrow> bool) \<Rightarrow> (request \<Rightarrow> bool) \<Rightarrow> trace \<Rightarrow> bool" where
  "before Q B t \<longleftrightarrow> (\<forall>s q r u. t = s @ (q, r) # u \<and> B q \<longrightarrow> Q s)"

lemma before_Nil [simp]: "before Q B []"
  by (simp add: before_def)

lemma before_Cons [simp]:
  "before Q B ((q, r) # t) \<longleftrightarrow> (B q \<longrightarrow> Q []) \<and> before (\<lambda>s. Q ((q, r) # s)) B t"
  unfolding before_def by (auto simp: Cons_eq_append_conv)

lemma before_append [simp]:
  "before Q B (s @ t) \<longleftrightarrow> before Q B s \<and> before (\<lambda>u. Q (s @ u)) B t"
  by (induction s arbitrary: Q) (auto split: prod.splits)

lemma before_none: "all_calls (\<lambda>q. \<not> B q) t \<Longrightarrow> before Q B t"
  by (induction t arbitrary: Q) auto

lemma before_always: "(\<And>s. Q s) \<Longrightarrow> before Q B t"
  by (simp add: before_def)

lemma all_calls_mono: "all_calls P t \<Longrightarrow> (\<And>q. P q \<Longrightarrow> Q q) \<Longrightarrow> all_calls Q t"
  by (auto simp: all_calls_def)

lemma before_quiet: "all_calls harmless t \<Longrightarrow> (\<And>q. B q \<Longrightarrow> \<not> harmless q) \<Longrightarrow> before Q B t"
  by (rule before_none) (auto elim: all_calls_mono)

text \<open>Calls that bring up a pod for the sandbox: creating one, or reporting Running.\<close>

definition starts_pod :: "request \<Rightarrow> bool" where
  "starts_pod q \<longleftrightarrow>
     (case q of
        CreatePod _ \<Rightarrow> True
      | UpdateSandboxStatus x \<Rightarrow> sb_phase x = SandboxPhaseRunning
      | _ \<Rightarrow> False)"

definition creates_pod :: "request \<Rightarrow> bool" where
  "creates_pod q \<longleftrightarrow> (case q of CreatePod _ \<Rightarrow> True | _ \<Rightarrow> False)"

definition claim_in_place :: "sandbox \<Rightarrow> trace \<Rightarrow> bool" where
  "claim_in_place sb s \<longleftrightarrow>
     (\<exists>p. (GetPVC (sb_namespace sb) (pvc_name_for (sb_name sb)), RPVC p) \<in> set s
          \<or> (CreatePVC p, ROk) \<in> set s \<and> pvc_owner p = Some (sb_name sb))"

definition walled :: "reconciler \<Rightarrow> sandbox \<Rightarrow> sandbox_template_spec option \<Rightarrow> trace \<Rightarrow> bool" where
  "walled rc sb tpl s \<longleftrightarrow>
     (\<exists>c \<in> set s. netpol_applied sb (effective_network sb tpl)
        \<lparr>npo_router_ingress = template_http_exec tpl, npo_router_namespace = rc_install_ns rc\<rparr> c)"

definition safe_start :: "reconciler \<Rightarrow> sandbox \<Rightarrow> sandbox_template_spec option \<Rightarrow> trace \<Rightarrow> bool" where
  "safe_start rc sb tpl t \<longleftrightarrow> before (walled rc sb tpl) starts_pod t \<and> before (claim_in_place sb) creates_pod t"

lemma starts_pod_simps [simp]:
  "harmless q \<Longrightarrow> \<not> starts_pod q" "starts_pod (CreatePod p)"
  "starts_pod (UpdateSandboxStatus x) \<longleftrightarrow> sb_phase x = SandboxPhaseRunning"
  "harmless q \<Longrightarrow> \<not> creates_pod q" "creates_pod (CreatePod p)" "\<not> creates_pod (UpdateSandboxStatus x)"
  by (cases q; simp add: starts_pod_def creates_pod_def)+

lemma starts_pod_quiet [simp]:
  "all_calls harmless t \<Longrightarrow> before Q starts_pod t" "all_calls harmless t \<Longrightarrow> before Q creates_pod t"
  by (rule before_quiet; auto)+

lemma walled_append [simp]: "walled rc sb tpl s \<Longrightarrow> walled rc sb tpl (s @ t)"
  "walled rc sb tpl t \<Longrightarrow> walled rc sb tpl (s @ t)"
  "walled rc sb tpl t \<Longrightarrow> walled rc sb tpl (c # t)"
  by (auto simp: walled_def)

lemma claim_in_place_append [simp]: "claim_in_place sb s \<Longrightarrow> claim_in_place sb (s @ t)"
  "claim_in_place sb t \<Longrightarrow> claim_in_place sb (s @ t)"
  "claim_in_place sb t \<Longrightarrow> claim_in_place sb (c # t)"
  by (auto simp: claim_in_place_def)

lemma before_weaken: "before P B t \<Longrightarrow> (\<And>s. P s \<Longrightarrow> Q s) \<Longrightarrow> before Q B t"
  by (auto simp: before_def)

lemma safe_start_quiet:
  "all_calls harmless s \<Longrightarrow> safe_start rc sb tpl t \<Longrightarrow> safe_start rc sb tpl (s @ t)"
  by (auto simp: safe_start_def elim!: before_weaken)

lemma safe_start_Cons:
  "harmless q \<Longrightarrow> safe_start rc sb tpl t \<Longrightarrow> safe_start rc sb tpl ((q, r) # t)"
  by (auto simp: safe_start_def elim!: before_weaken)

lemma safe_start_after:
  "all_calls harmless s \<Longrightarrow> walled rc sb tpl s \<Longrightarrow> claim_in_place sb s \<Longrightarrow> safe_start rc sb tpl (s @ t)"
  by (auto simp: safe_start_def intro: before_always)

lemma error_safe: "traces (transitionToError rc' E x m) (\<lambda>_ t. safe_start rc sb tpl t)"
  unfolding transitionToError_def
  by (intro update_status_traces quiet_runs tr) (auto simp: safe_start_def)

lemma cold_opts:
  "mc_use_http_exec (MergeSandboxWithTemplate PQ spec tpl dflt) = template_http_exec tpl"
proof (cases "Option.bind tpl tpl_harness")
  case None
  then show ?thesis
    by (simp add: MergeSandboxWithTemplate_def template_http_exec_def Let_def del: Option.bind_assoc)
next
  case (Some h)
  then show ?thesis
    by (cases "har_use_http_exec h")
      (simp_all add: MergeSandboxWithTemplate_def template_http_exec_def Let_def)
qed

text \<open>What a network policy says depends on the sandbox's name, namespace and network spec.\<close>

lemma netpol_applied_same_start:
  assumes "same_start sb x"
  shows "netpol_applied x = netpol_applied sb" "effective_network x = effective_network sb"
    "effective_storage x = effective_storage sb" "claim_in_place x = claim_in_place sb"
  using assms
  by (auto simp: fun_eq_iff netpol_applied_def BuildNetworkPolicy_def same_start_def
      effective_network_def effective_storage_def claim_in_place_def)

lemma start_pod_appends_after:
  "traces (start_pod PQ rc E x config)
     (\<lambda>_ t. all_calls harmless s \<and> walled rc sb tpl s \<and> claim_in_place sb s \<longrightarrow> safe_start rc sb tpl (s @ t))"
  by (rule traces_mono [OF start_pod_appends [unfolded appends_def]]) (auto intro: safe_start_after)

lemma ensurePVC_safe:
  "traces (ensurePVC PQ sz mnt E x st)
     (\<lambda>r t. all_calls harmless t \<and> (\<forall>p. r = Inr p \<longrightarrow> claim_in_place x t))"
  by (rule traces_mono [OF traces_conj [OF ensurePVC_traces quiet_ensurePVC [unfolded quietly_def]]])
    (auto simp: claim_in_place_def)

lemma ensureNetworkPolicy_safe:
  "traces (ensureNetworkPolicy E x ns opts)
     (\<lambda>r t. all_calls harmless t \<and> (r = Inr () \<longrightarrow> (\<exists>c \<in> set t. netpol_applied x ns opts c)))"
  by (rule traces_mono [OF traces_conj [OF ensureNetworkPolicy_traces quiet_ensureNetworkPolicy [unfolded quietly_def]]])
    auto

lemma ensureNetworkPolicy_walls:
  assumes "same_start sb0 x"
  shows "traces (ensureNetworkPolicy E x (effective_network x tpl)
      \<lparr>npo_router_ingress = template_http_exec tpl, npo_router_namespace = rc_install_ns rc\<rparr>)
    (\<lambda>r t. all_calls harmless t \<and> (r = Inr () \<longrightarrow> walled rc sb0 tpl t))"
  by (rule traces_mono [OF ensureNetworkPolicy_safe])
    (simp add: walled_def netpol_applied_same_start [OF assms])

lemma safe_start_none: "all_calls harmless t \<Longrightarrow> safe_start rc sb tpl t"
  by (simp add: safe_start_def)

lemma with_secrets_safe:
  "traces (with_secrets rc E x config)
     (\<lambda>r t. all_calls harmless t \<and> (\<forall>c. r = Inr c \<longrightarrow> mc_use_http_exec c = mc_use_http_exec config))"
proof (rule traces_conj [OF quiet_with_secrets [unfolded quietly_def]])
  show "traces (with_secrets rc E x config)
      (\<lambda>r t. \<forall>c. r = Inr c \<longrightarrow> mc_use_http_exec c = mc_use_http_exec config)"
    unfolding with_secrets_def by (intro quiet_runs tr) (auto split: sum.splits)
qed

lemma safe_start_blocks:
  assumes "all_calls harmless a" "all_calls harmless b" "all_calls harmless c"
    "claim_in_place sb b" "walled rc sb tpl c"
  shows "safe_start rc sb tpl (a @ b @ c @ t)"
proof -
  have "safe_start rc sb tpl ((a @ b @ c) @ t)"
    by (rule safe_start_after) (use assms in simp_all)
  then show ?thesis by simp
qed

lemma network_then_start_safe:
  assumes "same_start sb0 x"
  shows "traces
    (do {
       n \<leftarrow> ensureNetworkPolicy E x (effective_network x tpl)
              \<lparr>npo_router_ingress = mc_use_http_exec config, npo_router_namespace = rc_install_ns rc\<rparr>;
       (case n of
          Inl e \<Rightarrow> transitionToError rc E x (''NetworkPolicy creation failed: '' @ e)
        | Inr _ \<Rightarrow> start_pod PQ rc E x config)
     })
    (\<lambda>_ u. \<forall>a b. mc_use_http_exec config = template_http_exec tpl \<and> all_calls harmless a \<and> all_calls harmless b
        \<and> claim_in_place sb0 b \<longrightarrow> safe_start rc sb0 tpl (a @ b @ u))"
proof (cases "mc_use_http_exec config = template_http_exec tpl")
  case True
  show ?thesis
    unfolding True
    by (intro ensureNetworkPolicy_walls [OF assms, THEN traces_bind]
        error_safe [where rc = rc and sb = sb0 and tpl = tpl, THEN traces_mono]
        start_pod_appends [unfolded appends_def, THEN traces_mono] tr)
      (auto intro: safe_start_quiet safe_start_blocks)
next
  case False
  then show ?thesis
    by (intro ensureNetworkPolicy_safe [THEN traces_bind]
        transitionToError_writes [THEN traces_mono]
        start_pod_appends [unfolded appends_def, THEN traces_mono] tr) auto
qed

lemma cold_start_safe:
  assumes same: "same_start sb0 sb"
  shows "traces (cold_start PQ rc E sb tpl) (\<lambda>_ t. safe_start rc sb0 tpl t)"
proof -
  define sb1 where "sb1 = (case Option.bind (Option.bind tpl tpl_harness) har_agent of
      None \<Rightarrow> sb | Some a \<Rightarrow> with_status (\<lambda>st. st\<lparr>st_agent_spec := Some a\<rparr>) sb)"
  have s1: "same_start sb0 sb1"
    using same by (auto simp: sb1_def same_start_def split: option.split)
  have s2: "same_start sb0 (with_status (\<lambda>st. st\<lparr>st_pvc := n\<rparr>) sb1)" for n
    using s1 by (auto simp: same_start_def)
  have err: "traces (transitionToError rc E x m) (\<lambda>_ t. safe_start rc sb0 tpl t)" for x m
    by (rule error_safe)
  show ?thesis
    unfolding cold_start_def sb1_def [symmetric]
    by (intro with_secrets_safe [THEN traces_bind] ensurePVC_safe [THEN traces_bind] err [THEN traces_mono]
          network_then_start_safe [OF s2, THEN traces_mono] tr)
      (auto simp: netpol_applied_same_start [OF s1] cold_opts intro: safe_start_quiet)
qed

lemma warm_start_safe:
  assumes same: "same_start sb0 sb"
  shows "traces (warm_start rc E sb tpl n)
     (\<lambda>w t. safe_start rc sb0 tpl t \<and> (w = None \<longrightarrow> all_calls harmless t))"
proof -
  have err: "traces (transitionToError rc E x m) (\<lambda>_ t. safe_start rc sb0 tpl t)" for x m
    by (rule error_safe)
  have run: "traces (update_status E x
      (\<lambda>sb'. do { running_event E sb' now msg; ret (Inr (RequeueAfter DefaultRequeueDelay)) }))
      (\<lambda>_ t. before (claim_in_place sb0) creates_pod t)" for x now msg
    by (intro update_status_traces quiet_runs tr) auto
  have wall: "before (walled rc sb0 tpl) starts_pod (s @ t)"
    if "all_calls harmless s" "walled rc sb0 tpl s" for s t
    using that by (auto intro: before_always)
  show ?thesis
    unfolding warm_start_def
    apply (intro quiet_Claim [THEN traces_quiet_bind] quiet_adopt [THEN traces_quiet_bind]
        ensureNetworkPolicy_walls [OF same, THEN traces_bind] err [THEN traces_bind] run [THEN traces_bind] tr)
    apply (auto simp: safe_start_none intro: safe_start_quiet safe_start_Cons)
     apply (auto intro!: safe_start_quiet safe_start_Cons)[1]
    apply (auto simp: safe_start_def intro: before_always elim!: before_weaken)
    done
qed

text \<open>What a dispatch does after it has read the sandbox.\<close>

definition after_get :: "(sandbox \<Rightarrow> trace \<Rightarrow> bool) \<Rightarrow> trace \<Rightarrow> bool" where
  "after_get P t \<longleftrightarrow>
     (case t of
        (GetSandbox _ _, RSandbox sb) # u \<Rightarrow> P sb u
      | _ \<Rightarrow> length t = 1 \<and> fst (hd t) \<in> range (\<lambda>(ns, n). GetSandbox ns n))"

lemma after_get_err: "as_sandbox r = Inl e \<Longrightarrow> after_get P [(GetSandbox ns n, r)]"
  by (cases r) (auto simp: after_get_def)

lemma after_get_ok: "after_get P ((GetSandbox ns n, RSandbox sb) # u) \<longleftrightarrow> P sb u"
  by (simp add: after_get_def)

definition dispatch_phase ::
  "(string \<Rightarrow> quantity option) \<Rightarrow> reconciler \<Rightarrow> 'w api \<Rightarrow> sandbox \<Rightarrow> 'w reconcile" where
  "dispatch_phase PQ rc E sb =
     (case sb_phase sb of
        PhaseUnset \<Rightarrow> reconcileCreating PQ rc E sb
      | SandboxPhaseCreating \<Rightarrow> reconcileCreating PQ rc E sb
      | SandboxPhaseRunning \<Rightarrow> reconcileRunning rc E sb
      | SandboxPhaseStopped \<Rightarrow> reconcileStopped sb
      | SandboxPhaseError \<Rightarrow> reconcileError rc E sb
      | SandboxPhaseDeleting \<Rightarrow> ret (Inr Done)
      | PhaseOther _ \<Rightarrow> ret (Inr Done))"

lemma dispatch_phase_traces:
  assumes "sb_phase sb \<in> {PhaseUnset, SandboxPhaseCreating} \<Longrightarrow> traces (reconcileCreating PQ rc E sb) P"
    and "sb_phase sb = SandboxPhaseRunning \<Longrightarrow> traces (reconcileRunning rc E sb) P"
    and "sb_phase sb = SandboxPhaseError \<Longrightarrow> traces (reconcileError rc E sb) P"
    and "P (Inr Done) []"
  shows "traces (dispatch_phase PQ rc E sb) P"
  using assms by (cases "sb_phase sb") (auto simp: dispatch_phase_def reconcileStopped_def intro: tr)

text \<open>To show a property of a dispatch it is enough to show it for the three things it does
  after reading the sandbox: delete, add the finalizer, or act on the phase.\<close>

lemma dispatch_traces:
  assumes "\<And>sb. sb_deletion sb \<noteq> None
      \<Longrightarrow> traces (reconcileDelete rc E sb) (\<lambda>r u. Q r ((GetSandbox ns n, RSandbox sb) # u))"
    and "\<And>sb. sb_deletion sb = None
      \<Longrightarrow> traces (dispatch_phase PQ rc E sb) (\<lambda>r u. Q r ((GetSandbox ns n, RSandbox sb) # u))"
    and "\<And>sb r' r. sb_deletion sb = None
      \<Longrightarrow> Q r [(GetSandbox ns n, RSandbox sb), (UpdateSandbox (add_finalizer sb), r')]"
    and "\<And>r' e r. as_sandbox r' = Inl e \<Longrightarrow> Q r [(GetSandbox ns n, r')]"
  shows "traces (dispatch PQ rc E ns n) Q"
  unfolding dispatch_def dispatch_phase_def [symmetric]
  by (intro assms(1,2) tr) (auto intro: assms)

lemma steps_from_path:
  "steps_from sb r t \<Longrightarrow> echoed t \<longrightarrow> status_path sb (status_updates t)"
  by (auto simp: steps_from_def writes_at_most_def)

definition confirmed :: "request \<Rightarrow> trace \<Rightarrow> bool" where
  "confirmed q s \<longleftrightarrow> (\<exists>c \<in> set s. fst c = q \<and> delete_ok (as_unit (snd c)))"

definition own_resources :: "sandbox \<Rightarrow> request set" where
  "own_resources sb =
     (if st_pod (sb_status sb) = [] then {} else {DeletePod (sb_namespace sb) (st_pod (sb_status sb))})
     \<union> (if st_pvc (sb_status sb) = [] then {} else {DeletePVC (sb_namespace sb) (st_pvc (sb_status sb))})
     \<union> {DeleteNetworkPolicy (sb_namespace sb) (netpol_name_for (sb_name sb))}"

definition releases :: "request \<Rightarrow> bool" where
  "releases q \<longleftrightarrow> (case q of UpdateSandbox _ \<Rightarrow> True | _ \<Rightarrow> False)"

definition key_revoked :: "sandbox \<Rightarrow> string \<Rightarrow> trace \<Rightarrow> bool" where
  "key_revoked sb inst s \<longleftrightarrow>
     (let plain = GetSecret (sb_namespace sb) (scopedKeyPlaintextSecretName (sb_name sb))
      in (plain, RErr NotFound) \<in> set s
         \<or> (\<exists>x. (plain, RSecret x) \<in> set s
                \<and> (let key = secret_text x ''key''; record_name = SecretNameForHash (hashAPIKey key)
                    in key = [] \<or> (GetSecret inst record_name, RErr NotFound) \<in> set s
                       \<or> confirmed (DeleteSecret inst record_name) s)))"

definition keeps_data :: "request \<Rightarrow> bool" where
  "keeps_data q \<longleftrightarrow>
     (case q of
        DeletePVC _ _ \<Rightarrow> False
      | DeleteNetworkPolicy _ _ \<Rightarrow> False
      | DeleteSandbox _ _ \<Rightarrow> False
      | _ \<Rightarrow> True)"

lemma all_calls_False [simp]: "all_calls (\<lambda>q. False) t \<longleftrightarrow> t = []"
  by (cases t) (auto simp: all_calls_def)

lemma confirmed_simps [simp]:
  "confirmed q [] \<longleftrightarrow> False"
  "confirmed q ((q', r) # s) \<longleftrightarrow> (q' = q \<and> delete_ok (as_unit r)) \<or> confirmed q s"
  "confirmed q (s @ t) \<longleftrightarrow> confirmed q s \<or> confirmed q t"
  by (auto simp: confirmed_def)

lemma releases_simps [simp]:
  "harmless q \<Longrightarrow> \<not> releases q" "releases (UpdateSandbox x)"
  "\<not> releases (DeletePod a b)" "\<not> releases (DeletePVC a b)" "\<not> releases (DeleteNetworkPolicy a b)"
  by (cases q; simp add: releases_def)+

lemma key_revoked_append [simp]:
  "key_revoked sb inst t \<Longrightarrow> key_revoked sb inst (s @ t)" "key_revoked sb inst t \<Longrightarrow> key_revoked sb inst (c # t)"
  "key_revoked sb inst s \<Longrightarrow> key_revoked sb inst (s @ t)"
  by (auto simp: key_revoked_def Let_def confirmed_def)

lemma as_secret_NotFound [simp]: "as_secret r = Inl NotFound \<longleftrightarrow> r = RErr NotFound"
  by (cases r) (auto simp: bad_response_def)

lemma as_unit_NotFound [simp]: "as_unit r = Inl NotFound \<longleftrightarrow> r = RErr NotFound"
  by (cases r) (auto simp: bad_response_def)

lemma revoke_traces:
  "traces (revokeSandboxAPIKey E sb inst)
     (\<lambda>r t. all_calls harmless t \<and> (r = Inr () \<longrightarrow> key_revoked sb inst t))"
  unfolding revokeSandboxAPIKey_def
  by (intro tr)
    (auto simp: key_revoked_def Let_def confirmed_def delete_ok_def split: sum.splits api_err.splits)

lemma delete_pod_traces:
  "traces (delete_pod E sb)
     (\<lambda>r t. all_calls (\<lambda>q. q = DeletePod (sb_namespace sb) (st_pod (sb_status sb)) \<and> st_pod (sb_status sb) \<noteq> []) t
          \<and> (delete_ok r \<longrightarrow> st_pod (sb_status sb) = []
               \<or> confirmed (DeletePod (sb_namespace sb) (st_pod (sb_status sb))) t))"
  unfolding delete_pod_def
  by (intro tr) (auto simp: delete_ok_def)

lemma delete_pvc_traces:
  "traces (delete_pvc E sb)
     (\<lambda>r t. all_calls (\<lambda>q. q = DeletePVC (sb_namespace sb) (st_pvc (sb_status sb)) \<and> st_pvc (sb_status sb) \<noteq> []) t
          \<and> (delete_ok r \<longrightarrow> st_pvc (sb_status sb) = []
               \<or> confirmed (DeletePVC (sb_namespace sb) (st_pvc (sb_status sb))) t))"
  unfolding delete_pvc_def
  by (intro tr) (auto simp: delete_ok_def)

text \<open>Programs whose calls all satisfy a predicate.\<close>

definition only :: "(request \<Rightarrow> bool) \<Rightarrow> ('w, 'a) kprog \<Rightarrow> bool" where
  "only P m \<longleftrightarrow> traces m (\<lambda>_. all_calls P)"

lemma only_bind: "only P m \<Longrightarrow> (\<And>a. only P (f a)) \<Longrightarrow> only P (State_Monad.bind m f)"
  unfolding only_def by (rule traces_bind [where P = "\<lambda>_. all_calls P"]) (assumption | simp)+

lemma only_ret: "only P (ret a)" unfolding only_def by (intro tr) simp
lemma only_ask: "P q \<Longrightarrow> only P (ask E q f)" unfolding only_def by (intro tr) simp
lemma only_if: "only P m \<Longrightarrow> only P n \<Longrightarrow> only P (if b then m else n)" by simp
lemma only_Let: "only P (f a) \<Longrightarrow> only P (let x = a in f x)" by simp

lemma only_option:
  "only P m \<Longrightarrow> (\<And>y. only P (f y)) \<Longrightarrow> only P (case x of None \<Rightarrow> m | Some y \<Rightarrow> f y)"
  by (cases x) simp_all

lemma only_sum:
  "(\<And>y. only P (f y)) \<Longrightarrow> (\<And>y. only P (g y)) \<Longrightarrow> only P (case x of Inl y \<Rightarrow> f y | Inr y \<Rightarrow> g y)"
  by (cases x) simp_all

lemma only_prod: "(\<And>a b. only P (f a b)) \<Longrightarrow> only P (case x of (a, b) \<Rightarrow> f a b)"
  by (cases x) simp

lemma only_api_err:
  "only P a \<Longrightarrow> only P b \<Longrightarrow> only P c \<Longrightarrow> (\<And>m. only P (d m))
     \<Longrightarrow> only P (case x of NotFound \<Rightarrow> a | AlreadyExists \<Rightarrow> b | Conflict \<Rightarrow> c | OtherErr m \<Rightarrow> d m)"
  by (cases x) simp_all

lemmas only_intros = only_ret only_if only_Let only_option only_sum only_prod only_api_err only_ask

lemma harmless_keeps_data [simp]: "harmless q \<Longrightarrow> keeps_data q"
  by (cases q) (simp_all add: keeps_data_def)

lemma keeps_data_simps [simp]:
  "keeps_data (UpdateSandbox x)" "keeps_data (UpdateSandboxStatus x)"
  "keeps_data (CreatePod p)" "keeps_data (DeletePod a b)" "keeps_data (GetPod a b)" "keeps_data Now"
  "keeps_data (GetSandbox a b)" "keeps_data (SetControllerRef a b c w)" "keeps_data (UpdatePod p)"
  by (simp_all add: keeps_data_def)

lemma quietly_keeps: "quietly m \<Longrightarrow> only keeps_data m"
  unfolding quietly_def only_def by (erule traces_mono) (auto elim: all_calls_mono)

lemmas keeps_intros = quiet [THEN quietly_keeps] only_intros only_bind keeps_data_simps harmless_keeps_data harmless_simps

lemma keeps_update_status: "(\<And>x. only keeps_data (k x)) \<Longrightarrow> only keeps_data (update_status E sb k)"
  unfolding update_status_def by (intro keeps_intros)

lemma keeps_transitionToError: "only keeps_data (transitionToError rc E sb m)"
  unfolding transitionToError_def by (intro keeps_update_status keeps_intros)

lemma keeps_stopSandbox: "only keeps_data (stopSandbox rc E sb m)"
  unfolding stopSandbox_def delete_pod_def by (intro keeps_update_status keeps_intros)

lemma keeps_infra: "only keeps_data (handleInfrastructureFailure rc E sb m p)"
  unfolding handleInfrastructureFailure_def
  by (intro keeps_update_status keeps_transitionToError keeps_intros)

lemma keeps_running: "only keeps_data (reconcileRunning rc E sb)"
  unfolding reconcileRunning_def check_timeouts_def
  by (intro keeps_update_status keeps_transitionToError keeps_stopSandbox keeps_infra keeps_intros)

lemma keeps_error: "only keeps_data (reconcileError rc E sb)"
  unfolding reconcileError_def by (intro keeps_update_status keeps_intros)

lemma keeps_start_pod: "only keeps_data (start_pod PQ rc E sb config)"
  unfolding start_pod_def by (intro keeps_update_status keeps_transitionToError keeps_intros)

lemma keeps_cold: "only keeps_data (cold_start PQ rc E sb tpl)"
  unfolding cold_start_def
  by (intro keeps_transitionToError keeps_start_pod keeps_intros)

lemma keeps_warm: "only keeps_data (warm_start rc E sb tpl n)"
  unfolding warm_start_def
  by (intro keeps_update_status keeps_transitionToError keeps_intros)

lemma keeps_start: "only keeps_data (start_sandbox PQ rc E sb r)"
  unfolding start_sandbox_def by (intro keeps_warm keeps_cold keeps_intros)

lemma keeps_creating: "only keeps_data (reconcileCreating PQ rc E sb)"
  unfolding reconcileCreating_def begin_creating_def
  by (intro keeps_update_status keeps_transitionToError keeps_start keeps_intros)

lemma delete_never_starts: "only (\<lambda>q. \<not> starts_pod q) (reconcileDelete rc E sb)"
proof -
  have quietly: "quietly m \<Longrightarrow> only (\<lambda>q. \<not> starts_pod q) m" for m :: "('w, 'b) kprog"
    unfolding quietly_def only_def by (erule traces_mono) (auto elim: all_calls_mono)
  show ?thesis
    unfolding reconcileDelete_def delete_pod_def delete_pvc_def
    by (intro quiet_revoke [THEN quietly] quiet_event [THEN quietly] only_intros only_bind)
      (simp_all add: starts_pod_def)
qed

text \<open>What a trace shows of a limit that runs since an instant: a clock reading at which it was
  reached, or one at which it was not.\<close>

definition seen_reached :: "duration option \<Rightarrow> instant option \<Rightarrow> trace \<Rightarrow> bool" where
  "seen_reached lim since t \<longleftrightarrow>
     (case (lim, since) of
        (Some d, Some t0) \<Rightarrow> 0 < d \<and> (\<exists>c \<in> set t. fst c = Now \<and> d \<le> time_sub (as_time (snd c)) t0)
      | _ \<Rightarrow> False)"

definition seen_open :: "duration option \<Rightarrow> instant option \<Rightarrow> trace \<Rightarrow> bool" where
  "seen_open lim since t \<longleftrightarrow>
     (case (lim, since) of
        (Some d, Some t0) \<Rightarrow> d \<le> 0 \<or> (\<exists>c \<in> set t. fst c = Now \<and> time_sub (as_time (snd c)) t0 < d)
      | _ \<Rightarrow> True)"

lemma seen_append [simp]:
  "seen_reached lim since t \<Longrightarrow> seen_reached lim since (s @ t)" "seen_open lim since t \<Longrightarrow> seen_open lim since (s @ t)"
  "seen_reached lim since s \<Longrightarrow> seen_reached lim since (s @ t)" "seen_open lim since s \<Longrightarrow> seen_open lim since (s @ t)"
  "seen_reached lim since t \<Longrightarrow> seen_reached lim since (c # t)" "seen_open lim since t \<Longrightarrow> seen_open lim since (c # t)"
  by (auto simp: seen_reached_def seen_open_def split: option.splits)

lemma limit_reached_traces:
  "traces (limit_reached E lim since)
     (\<lambda>r t. all_calls harmless t \<and> (case r of None \<Rightarrow> seen_open lim since t | Some _ \<Rightarrow> seen_reached lim since t))"
  unfolding limit_reached_def
  by (intro tr) (auto simp: seen_reached_def seen_open_def split: option.split)

lemma shorten_requeue_traces:
  assumes "0 < d" "d < 32 * second"
  shows "traces (shorten_requeue E lim since d)
     (\<lambda>r t. all_calls harmless t \<and> 0 < r \<and> (r = d \<or> r < d + second))"
  unfolding shorten_requeue_def
  by (intro tr) (use assms in \<open>auto simp: Let_def dur_add_def wrap64_def second_def\<close>)

text \<open>A call that was refused: a deletion with another answer than success or not-found, an update of
  the status that was not stored.\<close>

definition refused_delete :: "request \<Rightarrow> trace \<Rightarrow> bool" where
  "refused_delete q s \<longleftrightarrow> (\<exists>c \<in> set s. fst c = q \<and> \<not> delete_ok (as_unit (snd c)))"

definition refused_status :: "sandbox \<Rightarrow> trace \<Rightarrow> bool" where
  "refused_status sb s \<longleftrightarrow> (\<exists>c \<in> set s. fst c = UpdateSandboxStatus sb \<and> (\<exists>e. as_sandbox (snd c) = Inl e))"

lemma refused_simps [simp]:
  "refused_delete q [] \<longleftrightarrow> False"
  "refused_delete q ((q', r) # s) \<longleftrightarrow> (q' = q \<and> \<not> delete_ok (as_unit r)) \<or> refused_delete q s"
  "refused_delete q (s @ t) \<longleftrightarrow> refused_delete q s \<or> refused_delete q t"
  "refused_status sb [] \<longleftrightarrow> False"
  "refused_status sb ((q', r) # s) \<longleftrightarrow> (q' = UpdateSandboxStatus sb \<and> (\<exists>e. as_sandbox r = Inl e)) \<or> refused_status sb s"
  "refused_status sb (s @ t) \<longleftrightarrow> refused_status sb s \<or> refused_status sb t"
  by (auto simp: refused_delete_def refused_status_def)

text \<open>A stop for the given reason: the deletion of the pod, if there is one, is accepted and then the
  stopped status with this reason is stored; or one of the two was refused, and the stop fails with
  nothing else written.\<close>

definition stopped_run :: "sandbox \<Rightarrow> string \<Rightarrow> string + requeue \<Rightarrow> trace \<Rightarrow> bool" where
  "stopped_run sb reason r t \<longleftrightarrow>
     (let pod = st_pod (sb_status sb); del = DeletePod (sb_namespace sb) pod
      in all_calls keeps_data t
         \<and> (case r of
              Inr x \<Rightarrow> x = Done \<and> status_updates t = [stopped_status reason sb] \<and> (pod = [] \<or> confirmed del t)
            | Inl e \<Rightarrow> status_updates t = [] \<and> pod \<noteq> [] \<and> refused_delete del t
                \<or> status_updates t = [stopped_status reason sb] \<and> (pod = [] \<or> confirmed del t)
                    \<and> refused_status (stopped_status reason sb) t))"

lemma delete_pod_outcome:
  "traces (delete_pod E sb) (\<lambda>r t. status_updates t = [] \<and> all_calls keeps_data t
     \<and> (case r of
          Inr _ \<Rightarrow> st_pod (sb_status sb) = [] \<or> confirmed (DeletePod (sb_namespace sb) (st_pod (sb_status sb))) t
        | Inl e \<Rightarrow> st_pod (sb_status sb) \<noteq> [] \<and> refused_delete (DeletePod (sb_namespace sb) (st_pod (sb_status sb))) t))"
  unfolding delete_pod_def
  by (intro tr) (auto simp: delete_ok_def keeps_data_def split: sum.split)

lemma harmless_keeps: "all_calls harmless t \<Longrightarrow> all_calls keeps_data t"
  by (erule all_calls_mono) simp

lemma stopSandbox_outcome: "traces (stopSandbox rc E sb reason) (stopped_run sb reason)"
  unfolding stopSandbox_def
  by (intro quiet_runs traces_bind [OF delete_pod_outcome] update_status_traces tr)
    (auto simp: stopped_run_def Let_def harmless_no_status harmless_keeps keeps_data_def)

text \<open>What a pass over the timeouts does. Unless it reports a time to look again, the trace is that of a
  stop, after readings of the clock that justify the reason it gives.\<close>

definition timeout_outcome :: "sandbox \<Rightarrow> string + requeue \<Rightarrow> trace \<Rightarrow> bool" where
  "timeout_outcome sb r t \<longleftrightarrow>
     (let idle = (spec_idle_timeout (sb_spec sb), st_last_activity (sb_status sb));
          ran = (spec_timeout (sb_spec sb), st_started (sb_status sb))
      in case r of
           Inr (RequeueAfter d) \<Rightarrow>
             0 < d \<and> d < 32 * second \<and> all_calls harmless t
               \<and> seen_open (fst idle) (snd idle) t \<and> seen_open (fst ran) (snd ran) t
         | _ \<Rightarrow>
             (\<exists>s u. t = s @ u \<and> all_calls harmless s \<and>
                (seen_reached (fst idle) (snd idle) s \<and> stopped_run sb ''Idle timeout exceeded'' r u
                 \<or> seen_open (fst idle) (snd idle) s \<and> seen_reached (fst ran) (snd ran) s
                     \<and> stopped_run sb ''Max runtime exceeded'' r u)))"

lemma timeout_stop:
  assumes "seen_reached (spec_idle_timeout (sb_spec sb)) (st_last_activity (sb_status sb)) s
        \<and> stopped_run sb ''Idle timeout exceeded'' r u
      \<or> seen_open (spec_idle_timeout (sb_spec sb)) (st_last_activity (sb_status sb)) s
        \<and> seen_reached (spec_timeout (sb_spec sb)) (st_started (sb_status sb)) s
        \<and> stopped_run sb ''Max runtime exceeded'' r u"
    and "all_calls harmless s" "t = s @ u"
  shows "timeout_outcome sb r t"
proof -
  have "r \<noteq> Inr (RequeueAfter d)" for d using assms(1) by (auto simp: stopped_run_def Let_def)
  then show ?thesis
    unfolding timeout_outcome_def Let_def fst_conv snd_conv
    by (cases r; (cases "projr r")?; simp) (use assms in blast)+
qed

section \<open>A sample API server\<close>

text \<open>An API server that echoes what is written, on which the properties are applied to
  concrete sandboxes. Its world is the instant its clock shows.\<close>

definition sample_server :: "sandbox \<Rightarrow> instant \<Rightarrow> request \<Rightarrow> response \<times> instant" where
  "sample_server sb w q =
     (case q of
        Now \<Rightarrow> (RTime w, w)
      | GetSandbox _ _ \<Rightarrow> (RSandbox sb, w)
      | UpdateSandbox x \<Rightarrow> (RSandbox x, w)
      | UpdateSandboxStatus x \<Rightarrow> (RSandbox x, w)
      | GetPod _ _ \<Rightarrow> (RErr NotFound, w)
      | GetPVC _ _ \<Rightarrow> (RErr NotFound, w)
      | GetNetworkPolicy _ _ \<Rightarrow> (RErr NotFound, w)
      | GetSecret _ _ \<Rightarrow> (RErr NotFound, w)
      | _ \<Rightarrow> (ROk, w))"

definition sample_sandbox :: "sandbox_phase \<Rightarrow> sandbox" where
  "sample_sandbox ph = (new_sandbox ''work'' ''demo'' empty_spec)
     \<lparr>sb_finalizers := [FinalizerName],
      sb_status := empty_status\<lparr>st_phase := ph, st_pod := ''demo-pod'', st_pvc := ''demo-workspace''\<rparr>\<rparr>"

definition sample_reconciler :: reconciler where
  "sample_reconciler =
     \<lparr>rc_default_image = ''img'', rc_default_storage = ''10Gi'', rc_default_mount = ''/workspace'',
      rc_memory_image = [], rc_install_ns = ''agenttier'', rc_pool_ns = [], rc_notify = False\<rparr>"

lemma traces_run:
  "traces m P \<Longrightarrow> P (fst (run_state m (w, []))) (snd (snd (run_state m (w, []))))"
  unfolding traces_def by (metis append_Nil)

section \<open>Properties\<close>


text \<open>C10. The life cycle that reconciliation follows: with an API server that answers an
  update with the object it stored, the statuses that one dispatch writes form a path in the
  phase graph from the phase it read (unset to creating; creating to running or error; running
  to stopped or error; error to creating while restarts are left), with the restart count
  changing only where the graph says so; and stopping keeps the volume claim.\<close>

theorem dispatch_follows_life_cycle:
  "traces (dispatch PQ rc E ns n)
     (\<lambda>_ t. echoed t \<longrightarrow> after_get (\<lambda>sb u. status_path sb (status_updates u)) t)"
proof -
  have del: "traces (reconcileDelete rc E sb) (\<lambda>_ u. echoed u \<longrightarrow> status_path sb (status_updates u))" for sb
    by (rule traces_mono [OF reconcileDelete_writes]) simp
  have phase: "traces (dispatch_phase PQ rc E sb) (\<lambda>_ u. echoed u \<longrightarrow> status_path sb (status_updates u))" for sb
    by (rule dispatch_phase_traces)
      (auto intro: reconcileCreating_writes traces_mono [OF reconcileRunning_writes]
        traces_mono [OF reconcileError_writes] simp: steps_from_path)
  show ?thesis
    by (rule dispatch_traces) (auto simp: del phase after_get_ok after_get_err)
qed

text \<open>A running sandbox whose pod is gone: it is written as failed, with one restart used.\<close>

lemma dispatch_follows_life_cycle_witness:
  "\<exists>c u x. snd (snd (run_state (dispatch (\<lambda>_. None) sample_reconciler
       (sample_server (sample_sandbox SandboxPhaseRunning)) ''work'' ''demo'') (0, []))) = c # u
     \<and> status_updates u = [x] \<and> st_restarts (sb_status x) = 1
     \<and> status_step (sample_sandbox SandboxPhaseRunning) x"
proof -
  let ?sb = "sample_sandbox SandboxPhaseRunning"
  let ?m = "dispatch (\<lambda>_. None) sample_reconciler (sample_server ?sb) ''work'' ''demo''"
  have sb: "sb_deletion ?sb = None" "FinalizerName \<in> set (sb_finalizers ?sb)" "sb_phase ?sb = SandboxPhaseRunning"
    "st_pod (sb_status ?sb) = ''demo-pod''" "sb_annotations ?sb ''agenttier.io/action'' = None"
    "st_restarts (sb_status ?sb) = 0" "sb_namespace ?sb = ''work''"
    by (simp_all add: sample_sandbox_def new_sandbox_def empty_status_def)
  obtain ev x where log: "snd (snd (run_state ?m (0, []))) =
      [(GetSandbox ''work'' ''demo'', RSandbox ?sb), (GetPod ''work'' ''demo-pod'', RErr NotFound),
       (ev, ROk), (UpdateSandboxStatus x, RSandbox x)]"
      and ev: "harmless ev" and x: "st_restarts (sb_status x) = 1"
    by (simp add: dispatch_def sb reconcileRunning_def handleInfrastructureFailure_def run_bind
        sample_server_def Let_def isInfrastructureFailure_def event_def update_status_def MaxRestartCount_def)
  have "echoed (snd (snd (run_state ?m (0, [])))) \<longrightarrow>
      after_get (\<lambda>sb u. status_path sb (status_updates u)) (snd (snd (run_state ?m (0, []))))"
    by (rule traces_run [OF dispatch_follows_life_cycle])
  moreover have "\<And>y. ev \<noteq> UpdateSandbox y" "\<And>y. ev \<noteq> UpdateSandboxStatus y"
    using ev by auto
  ultimately have "status_path ?sb (status_updates [(GetPod ''work'' ''demo-pod'', RErr NotFound),
       (ev, ROk), (UpdateSandboxStatus x, RSandbox x)])"
    unfolding log by (simp add: after_get_ok)
  moreover have "status_updates [(GetPod ''work'' ''demo-pod'', RErr NotFound),
       (ev, ROk), (UpdateSandboxStatus x, RSandbox x)] = [x]"
    using harmless_no_status [of "[(ev, ROk)]"] ev status_updates_append [of "[(ev, ROk)]"] by simp
  ultimately show ?thesis using log x by auto
qed

text \<open>A sandbox in the Error phase is restarted, that is, its phase is written as
  creating, only while fewer than five restarts are used up, its message announces a restart,
  and, if it has a start time, a clock reading taken in this pass lies at least the backoff of
  its restart count after that time; nothing else is written, and no call deletes or creates
  anything.\<close>

theorem restart_waits_for_backoff:
  "traces (reconcileError rc E sb)
     (\<lambda>r t. (if status_updates t = [] then r \<noteq> Inr RequeueNow
             else st_restarts (sb_status sb) < MaxRestartCount
               \<and> str_contains (st_message (sb_status sb)) ''before restart attempt''
               \<and> map sb_phase (status_updates t) = [SandboxPhaseCreating]
               \<and> (case st_started (sb_status sb) of
                     None \<Rightarrow> True
                   | Some t0 \<Rightarrow> \<exists>c \<in> set t. fst c = Now \<and>
                       calculateBackoffDelay (st_restarts (sb_status sb)) \<le> time_sub (as_time (snd c)) t0))
          \<and> all_calls (\<lambda>q. harmless q \<or> (\<exists>x. q = UpdateSandboxStatus x)) t)"
  unfolding reconcileError_def
  by (intro quiet_runs update_status_traces tr)
    (auto simp: harmless_no_status elim: all_calls_mono)



text \<open>C21. Data safety: as long as a sandbox is not being deleted, no reconciliation of it, in
  whatever phase and whatever the API server answers, deletes a volume claim, a network policy
  or a Sandbox object; and a sandbox being deleted is never started.\<close>

theorem volumes_survive_until_deletion:
  "traces (dispatch PQ rc E ns n)
     (\<lambda>_. after_get (\<lambda>sb u. if sb_deletion sb = None then all_calls keeps_data u
                             else all_calls (\<lambda>q. \<not> starts_pod q) u))"
proof -
  have del: "traces (reconcileDelete rc E sb) (\<lambda>_. all_calls (\<lambda>q. \<not> starts_pod q))" for sb
    using delete_never_starts unfolding only_def .
  have phase: "traces (dispatch_phase PQ rc E sb) (\<lambda>_. all_calls keeps_data)" for sb
    using keeps_creating keeps_running keeps_error unfolding only_def
    by (intro dispatch_phase_traces) auto
  show ?thesis
    by (rule dispatch_traces) (auto simp: del phase after_get_ok after_get_err)
qed

text \<open>C19. Timeouts of a running sandbox. Either readings of the clock in this pass showed both limits open;
  then nothing is written or deleted, and the sandbox is looked at again within 32 seconds. Or a reading
  showed the idle limit reached, or one showed it open and another the run-time limit reached; then the
  sandbox is stopped for that reason: the deletion of its pod is accepted (or answered not-found) and
  its stopped status, with the reason, is stored, once and as the only status; or the API server refused
  one of these two calls, and the pass fails with its error.\<close>

theorem timeouts_stop_exactly_when_reached:
  "traces (check_timeouts rc E sb) (timeout_outcome sb)"
proof -
  have first: "0 < DefaultRequeueDelay" "DefaultRequeueDelay < 32 * second"
    by (simp_all add: DefaultRequeueDelay_def second_def)
  have again: "0 < r \<and> r < 32 * second" if "0 < r" "r = DefaultRequeueDelay \<or> r < DefaultRequeueDelay + second" for r
    using that by (auto simp: DefaultRequeueDelay_def second_def)
  have rest: "traces (do {
      r1 \<leftarrow> shorten_requeue E l1 s1 DefaultRequeueDelay;
      r2 \<leftarrow> shorten_requeue E l2 s2 r1;
      ret (Inr (RequeueAfter r2)) })
    (\<lambda>r t. all_calls harmless t \<and> (\<exists>d. r = Inr (RequeueAfter d) \<and> 0 < d \<and> d < 32 * second))"
    for l1 s1 l2 s2
    by (intro shorten_requeue_traces [OF first, THEN traces_bind] shorten_requeue_traces [THEN traces_bind] tr)
      (use again in \<open>auto simp: DefaultRequeueDelay_def second_def\<close>)
  have stop: "traces (do { event E ''Normal'' kind msg; stopSandbox rc E sb reason })
      (\<lambda>r t. \<exists>s u. t = s @ u \<and> all_calls harmless s \<and> stopped_run sb reason r u)" for kind msg reason
    by (intro quiet_event [THEN traces_quiet_bind] stopSandbox_outcome [THEN traces_mono]) auto
  have idle: "timeout_outcome sb r (t @ s @ u)"
    if "seen_reached (spec_idle_timeout (sb_spec sb)) (st_last_activity (sb_status sb)) t"
      "stopped_run sb ''Idle timeout exceeded'' r u" "all_calls harmless t" "all_calls harmless s" for t s u r
    by (rule timeout_stop [where s = "t @ s" and u = u]) (use that in auto)
  have ran: "timeout_outcome sb r (t @ t' @ s @ u)"
    if "seen_open (spec_idle_timeout (sb_spec sb)) (st_last_activity (sb_status sb)) t"
      "seen_reached (spec_timeout (sb_spec sb)) (st_started (sb_status sb)) t'"
      "stopped_run sb ''Max runtime exceeded'' r u" "all_calls harmless t" "all_calls harmless t'" "all_calls harmless s"
    for t t' s u r
    by (rule timeout_stop [where s = "t @ t' @ s" and u = u]) (use that in auto)
  show ?thesis
    unfolding check_timeouts_def
    by (intro limit_reached_traces [THEN traces_bind] stop [THEN traces_mono] rest [THEN traces_mono]
        traces_case_option)
      (auto simp: idle ran, auto simp: timeout_outcome_def)
qed


text \<open>A running sandbox is stopped, and the stopped one resumed.\<close>

lemma sample_run_of_stop:
  "run_state (StopSandbox (sample_server (sample_sandbox SandboxPhaseRunning)) (sample_sandbox SandboxPhaseRunning) ''done'') (0, [])
     = (Inr (), (0, [(DeletePod ''work'' ''demo-pod'', ROk),
          (UpdateSandboxStatus (stopped_status ''done'' (sample_sandbox SandboxPhaseRunning)),
           RSandbox (stopped_status ''done'' (sample_sandbox SandboxPhaseRunning))),
          (RecordEvent ''Normal'' ''Stopped'' ''Sandbox stopped: done'', ROk)]))"
  by (simp add: StopSandbox_def delete_pod_def run_bind event_def sample_server_def sample_sandbox_def new_sandbox_def
      empty_status_def)


section \<open>What the model shows besides\<close>

text \<open>The gate of the error handler is the text of the status message, which can carry a
  container's own words: a container that ends with the right termination message while the
  sandbox is being created passes for a scheduled restart.\<close>

lemma failure_text_passes_for_scheduled_restart:
  assumes "reason_loop (pst_containers (p_status p)) = Some (''Error: '' @ a @ ''before restart attempt'' @ b)"
  shows "str_contains (''Pod failed: '' @ getPodFailureReason p) ''before restart attempt''"
proof -
  have "''Pod failed: '' @ getPodFailureReason p
      = (''Pod failed: '' @ ''Error: '' @ a) @ ''before restart attempt'' @ b"
    using assms by (simp add: getPodFailureReason_def)
  then show ?thesis by (metis str_containsI)
qed

text \<open>A pod that failed is not deleted by the failure handler, and the next creation under its
  fixed name finds it: the restart ends in the Error phase again, with no pod created and no
  restart scheduled.\<close>

lemma failed_pod_is_not_deleted:
  "only (\<lambda>q. harmless q \<or> (\<exists>x. q = UpdateSandboxStatus x)) (handleInfrastructureFailure rc E sb reason p)"
  unfolding handleInfrastructureFailure_def transitionToError_def update_status_def event_def notify_def tell_def
  by (intro only_intros only_bind) auto

lemma failed_pod_blocks_its_restart:
  "traces (start_pod PQ rc E sb config)
     (\<lambda>r t. \<forall>a b p. (GetPod a b, RPod p) \<in> set t \<and> pst_phase (p_status p) = PodFailed
        \<longrightarrow> status_updates t = [with_status (\<lambda>st. st\<lparr>st_phase := SandboxPhaseError,
                                   st_message := ''Pod failed: '' @ getPodFailureReason p\<rparr>) sb]
          \<and> all_calls (\<lambda>q. \<not> creates_pod q) t)"
proof -
  have quiet_err: "traces (transitionToError rc E sb m)
      (\<lambda>_ t. status_updates t = [with_status (\<lambda>st. st\<lparr>st_phase := SandboxPhaseError, st_message := m\<rparr>) sb]
         \<and> (\<forall>a b p. (GetPod a b, RPod p) \<notin> set t) \<and> all_calls (\<lambda>q. \<not> creates_pod q) t)" for m
    unfolding transitionToError_def update_status_def event_def notify_def
    by (intro tr traces_if [THEN traces_bind]) (auto simp: creates_pod_def)
  show ?thesis
    unfolding start_pod_def running_event_def event_def update_status_def
    by (intro quiet_err [THEN traces_mono] tr) (auto simp: creates_pod_def isPodReady_def)
qed

text \<open>A warm claim is tried whenever the status names no pod, also when it names a workspace
  claim already: a resumed sandbox can come up on another volume.\<close>

lemma can_claim_ignores_workspace:
  "can_claim rc (with_status (\<lambda>st. st\<lparr>st_pvc := n\<rparr>) sb) t = can_claim rc sb t"
  by (simp add: can_claim_def)

text \<open>The classification of pod failures, applied: an evicted pod whose container ended with
  an error is not restarted.\<close>

lemma application_error_iff_witness:
  "\<not> isInfrastructureFailure (Some (ready_pool_pod\<lparr>p_status :=
      \<lparr>pst_phase = PodFailed, pst_reason = ''Evicted'', pst_conditions = [],
       pst_containers = [\<lparr>cs_terminated = Some (''Error'', ''exit 1''), cs_waiting = None\<rparr>], pst_ip = []\<rparr>\<rparr>))"
proof -
  let ?c = "\<lparr>cs_terminated = Some (''Error'', ''exit 1''), cs_waiting = None\<rparr>"
  let ?p = "ready_pool_pod\<lparr>p_status := \<lparr>pst_phase = PodFailed, pst_reason = ''Evicted'',
      pst_conditions = [], pst_containers = [?c], pst_ip = []\<rparr>\<rparr>"
  have "\<exists>xs cs ys. pst_containers (p_status ?p) = xs @ cs # ys \<and> container_verdict cs = Some False
      \<and> (\<forall>x \<in> set xs. container_verdict x = None)"
    by (intro exI [of _ "[]"] exI [of _ ?c] exI [of _ "[]"]) (simp add: container_verdict_def)
  then show ?thesis using application_error_iff [of ?p] by blast
qed

end
