(* ===== verification/Http.thy ===== *)
theory Http
  imports Api_Calls
begin

text \<open>
  What the router's handlers exchange with a client: replies of a JSON value with their status
  code (\<open>respondJSON\<close> and \<open>respondError\<close> of
  \<open>pkg/router/handlers.go\<close>). The body of a request is decoded by \<open>encoding/json\<close>, which a
  handler's argument stands for: the decoded value, or the decoder's error text.
\<close>

record reply =
  rp_status :: nat
  rp_body :: json

definition respondJSON :: "nat \<Rightarrow> json \<Rightarrow> reply" where
  "respondJSON status data = \<lparr>rp_status = status, rp_body = data\<rparr>"

definition respondError :: "nat \<Rightarrow> string \<Rightarrow> reply" where
  "respondError status message = \<lparr>rp_status = status, rp_body = JObj [(''error'', JText message)]\<rparr>"

text \<open>\<open>WriteHeader\<close> alone.\<close>

definition respondEmpty :: "nat \<Rightarrow> reply" where
  "respondEmpty status = \<lparr>rp_status = status, rp_body = JNull\<rparr>"

lemma reply_status [simp]:
  "rp_status (respondJSON s d) = s"
  "rp_status (respondError s m) = s"
  "rp_status (respondEmpty s) = s"
  by (simp_all add: respondJSON_def respondError_def respondEmpty_def)

definition JTexts :: "string list \<Rightarrow> json" where
  "JTexts xs = JList (map JText xs)"

fun JOptTime :: "instant option \<Rightarrow> json" where
  "JOptTime None = JNull"
| "JOptTime (Some t) = JTime t"

text \<open>A field of a reply's object.\<close>

fun field :: "string \<Rightarrow> json \<Rightarrow> json option" where
  "field k (JObj kvs) = map_of kvs k"
| "field k _ = None"

text \<open>The dash of some messages, in UTF-8.\<close>

definition em_dash :: string where
  "em_dash = [CHR 0xE2, CHR 0x80, CHR 0x94]"

text \<open>Time in seconds, as \<open>Time.Unix\<close> reads it.\<close>

definition unix_seconds :: "instant \<Rightarrow> int" where
  "unix_seconds t = t div second"

text \<open>Time as the layout \<open>time.RFC3339\<close> writes it: the fraction of the second is cut off.\<close>

definition whole_seconds :: "instant \<Rightarrow> instant" where
  "whole_seconds t = unix_seconds t * second"

end
