(* ===== verification/Api_Keys.thy ===== *)
theory Api_Keys
  imports Sandbox_Secrets Http "HOL-Library.AList"
begin

text \<open>
  Validation of API keys (\<open>pkg/router/auth/apikey.go\<close>): the validator with its cache in front
  of the key store, and the listing and deletion operations of the store
  (\<open>pkg/apikeystore/store.go\<close>; creation and lookup are in \<open>Sandbox_Secrets\<close>). A locale states
  what the validator needs of the cache.
\<close>

section \<open>The cache\<close>

text \<open>A Go map is an association list with distinct keys; \<open>order\<close> lists the keys by the time
  they were first put. The mutex makes each operation atomic.\<close>

record 'v lru =
  lru_max :: int
  lru_items :: "(string \<times> 'v) list"
  lru_order :: "string list"

definition NewLRUCache :: "int \<Rightarrow> 'v lru" where
  "NewLRUCache maxSize = \<lparr>lru_max = maxSize, lru_items = [], lru_order = []\<rparr>"

definition lru_get :: "'v lru \<Rightarrow> string \<Rightarrow> 'v option" where
  "lru_get c key = map_of (lru_items c) key"

definition evict_oldest :: "'v lru \<Rightarrow> 'v lru" where
  "evict_oldest c =
     (case lru_order c of
        oldest # rest \<Rightarrow>
          if int (length (lru_items c)) \<ge> lru_max c
          then c\<lparr>lru_order := rest, lru_items := AList.delete oldest (lru_items c)\<rparr>
          else c
      | [] \<Rightarrow> c)"

definition lru_put :: "'v lru \<Rightarrow> string \<Rightarrow> 'v \<Rightarrow> 'v lru" where
  "lru_put c key val =
     (if map_of (lru_items c) key \<noteq> None
      then c\<lparr>lru_items := AList.update key val (lru_items c)\<rparr>
      else (let c = evict_oldest c
            in c\<lparr>lru_items := AList.update key val (lru_items c), lru_order := lru_order c @ [key]\<rparr>))"

definition lru_remove :: "'v lru \<Rightarrow> string \<Rightarrow> 'v lru" where
  "lru_remove c key =
     c\<lparr>lru_items := AList.delete key (lru_items c), lru_order := remove1 key (lru_order c)\<rparr>"

text \<open>The invariant of the cache: both components list the same keys, each once, and there
  are at most \<open>maxSize\<close> of them (one, when \<open>maxSize\<close> is not positive).\<close>

definition lru_ok :: "'v lru \<Rightarrow> bool" where
  "lru_ok c \<longleftrightarrow>
     distinct (map fst (lru_items c)) \<and> distinct (lru_order c)
     \<and> set (lru_order c) = fst ` set (lru_items c)
     \<and> int (length (lru_items c)) \<le> max 1 (lru_max c)"

lemma lru_ok_new [simp]: "lru_ok (NewLRUCache n)"
  by (simp add: lru_ok_def NewLRUCache_def)

lemma dom_delete: "fst ` set (AList.delete k xs) = fst ` set xs - {k}"
  by (auto simp: AList.delete_eq)

lemma length_keys: "distinct (map fst xs) \<Longrightarrow> length xs = card (fst ` set xs)"
  by (metis distinct_card length_map list.set_map)

lemma length_delete:
  "distinct (map fst xs) \<Longrightarrow> k \<in> fst ` set xs \<Longrightarrow> length (AList.delete k xs) = length xs - 1"
  by (simp add: length_keys distinct_delete dom_delete)

lemma length_delete_le: "length (AList.delete k xs) \<le> length xs"
  by (simp add: AList.delete_eq)

lemma length_update_new: "map_of xs k = None \<Longrightarrow> length (AList.update k v xs) = Suc (length xs)"
  by (induction xs) (auto split: if_splits)

lemma length_update_old: "map_of xs k \<noteq> None \<Longrightarrow> length (AList.update k v xs) = length xs"
  by (induction xs) (auto split: if_splits)

lemma lru_ok_remove [simp]:
  assumes "lru_ok c"
  shows "lru_ok (lru_remove c k)"
proof -
  have "length (AList.delete k (lru_items c)) \<le> length (lru_items c)"
    by (rule length_delete_le)
  then show ?thesis
    using assms by (auto simp: lru_ok_def lru_remove_def dom_delete distinct_delete)
qed

lemma evict_oldest_ok:
  assumes "lru_ok c"
  shows "lru_ok (evict_oldest c) \<and> fst ` set (lru_items (evict_oldest c)) \<subseteq> fst ` set (lru_items c)
    \<and> int (length (lru_items (evict_oldest c))) < max 1 (lru_max c)
    \<and> lru_max (evict_oldest c) = lru_max c"
proof (cases "lru_order c")
  case Nil
  then have "lru_items c = []" using assms by (auto simp: lru_ok_def)
  with Nil assms show ?thesis by (auto simp: evict_oldest_def lru_ok_def)
next
  case (Cons k ks)
  have k: "k \<in> fst ` set (lru_items c)" "set ks = fst ` set (lru_items c) - {k}" "distinct ks"
    using assms Cons by (auto simp: lru_ok_def)
  have l: "length (AList.delete k (lru_items c)) = length (lru_items c) - 1" "0 < length (lru_items c)"
    using assms k(1) by (auto simp: lru_ok_def length_delete length_pos_if_in_set)
  then show ?thesis
    using assms Cons k by (auto simp: evict_oldest_def lru_ok_def dom_delete distinct_delete)
qed

lemma lru_ok_put [simp]:
  assumes "lru_ok c"
  shows "lru_ok (lru_put c k v)"
proof (cases "map_of (lru_items c) k = None")
  case True
  let ?d = "evict_oldest c"
  have d: "lru_ok ?d" "int (length (lru_items ?d)) < max 1 (lru_max c)" "lru_max ?d = lru_max c"
    "k \<notin> fst ` set (lru_items ?d)"
    using evict_oldest_ok [OF assms] True by (auto simp: map_of_eq_None_iff)
  then have "map_of (lru_items ?d) k = None" by (simp add: map_of_eq_None_iff)
  then have "length (AList.update k v (lru_items ?d)) = Suc (length (lru_items ?d))"
    by (rule length_update_new)
  with d True show ?thesis
    by (auto simp: lru_put_def Let_def lru_ok_def distinct_update dom_update)
next
  case False
  then have "length (AList.update k v (lru_items c)) = length (lru_items c)"
    by (rule length_update_old)
  moreover have "k \<in> fst ` set (lru_items c)"
    using False by (simp add: map_of_eq_None_iff)
  ultimately show ?thesis
    using assms False by (auto simp: lru_put_def lru_ok_def distinct_update dom_update)
qed

lemma lru_get_put: "lru_get (lru_put c k v) k = Some v"
  by (auto simp: lru_get_def lru_put_def Let_def update_conv)

lemma lru_get_put_other:
  "k' \<noteq> k \<Longrightarrow> lru_get (lru_put c k v) k' = Some e \<Longrightarrow> lru_get c k' = Some e"
  by (auto simp: lru_get_def lru_put_def Let_def update_conv evict_oldest_def delete_conv
      split: if_splits list.splits)

lemma lru_get_remove: "lru_get (lru_remove c k) k' = (if k' = k then None else lru_get c k')"
  by (simp add: lru_get_def lru_remove_def delete_conv)

text \<open>What the validator relies on: a put is read back, a put never changes another key except by
  dropping it, a removed key is gone.\<close>

locale key_cache =
  fixes empty :: 's
    and get :: "'s \<Rightarrow> string \<Rightarrow> 'e option"
    and put :: "'s \<Rightarrow> string \<Rightarrow> 'e \<Rightarrow> 's"
    and remove :: "'s \<Rightarrow> string \<Rightarrow> 's"
  assumes get_empty: "get empty k = None"
    and get_put: "get (put s k e) k = Some e"
    and get_put_other: "k' \<noteq> k \<Longrightarrow> get (put s k e) k' = Some e' \<Longrightarrow> get s k' = Some e'"
    and get_remove: "get (remove s k) k' = (if k' = k then None else get s k')"
begin

text \<open>Every entry has the property \<open>P\<close>.\<close>

definition backed :: "(string \<Rightarrow> 'e \<Rightarrow> bool) \<Rightarrow> 's \<Rightarrow> bool" where
  "backed P s \<longleftrightarrow> (\<forall>k e. get s k = Some e \<longrightarrow> P k e)"

lemma backedD: "backed P s \<Longrightarrow> get s k = Some e \<Longrightarrow> P k e"
  by (simp add: backed_def)

lemma backed_empty: "backed P empty"
  by (simp add: backed_def get_empty)

lemma backed_mono: "backed P s \<Longrightarrow> (\<And>k e. P k e \<Longrightarrow> Q k e) \<Longrightarrow> backed Q s"
  by (auto simp: backed_def)

lemma backed_put: "backed P s \<Longrightarrow> P k e \<Longrightarrow> backed P (put s k e)"
  unfolding backed_def by (metis get_put get_put_other option.inject)

lemma backed_remove:
  "backed P s \<Longrightarrow> (\<And>k' e. k' \<noteq> k \<Longrightarrow> P k' e \<Longrightarrow> Q k' e) \<Longrightarrow> backed Q (remove s k)"
  by (auto simp: backed_def get_remove split: if_splits)

end

interpretation lru: key_cache "NewLRUCache n" lru_get lru_put lru_remove for n :: int
proof unfold_locales
  show "lru_get (NewLRUCache n) k = None" for k
    by (simp add: lru_get_def NewLRUCache_def)
qed (fact lru_get_put, fact lru_get_put_other, fact lru_get_remove)

section \<open>The validator\<close>

text \<open>\<open>auth.Claims\<close>.\<close>

record auth_claims =
  ac_sub :: string
  ac_email :: string
  ac_name :: string
  ac_groups :: "string list"
  ac_admin :: bool
  ac_sandbox :: string
  ac_actions :: "string list"

record cacheEntry =
  ce_claims :: auth_claims
  ce_cached :: instant
  ce_expires :: "instant option"

type_synonym key_store_cache = "cacheEntry lru"

definition record_claims :: "api_key_record \<Rightarrow> auth_claims" where
  "record_claims rec =
     \<lparr>ac_sub = akr_user rec, ac_email = akr_email rec, ac_name = akr_name rec, ac_groups = [],
      ac_admin = False, ac_sandbox = akr_sandbox rec, ac_actions = akr_groups rec\<rparr>"

text \<open>\<open>expiresAt != nil && time.Now().After(*expiresAt)\<close>: the clock is read only if there is
  an expiry.\<close>

definition key_expired :: "'w api \<Rightarrow> instant option \<Rightarrow> ('w, bool) kprog" where
  "key_expired E expiresAt =
     (case expiresAt of
        None \<Rightarrow> ret False
      | Some e \<Rightarrow> do { now \<leftarrow> ask E Now as_time; ret (now > e) })"

definition validate_in_store ::
  "'w api \<Rightarrow> string \<Rightarrow> key_store_cache \<Rightarrow> string \<Rightarrow> ('w, (string + auth_claims) \<times> key_store_cache) kprog" where
  "validate_in_store E ns c keyHash = do {
     r \<leftarrow> GetAPIKeyByHash ns E keyHash;
     (case r of
        Inl _ \<Rightarrow> ret (Inl ''API key not found'', c)
      | Inr rec \<Rightarrow> do {
          dead \<leftarrow> key_expired E (akr_expires rec);
          if dead then ret (Inl ''API key expired'', c)
          else do {
            now \<leftarrow> ask E Now as_time;
            ret (Inr (record_claims rec),
                 lru_put c keyHash
                   \<lparr>ce_claims = record_claims rec, ce_cached = now, ce_expires = akr_expires rec\<rparr>)
          }
        })
   }"

definition ValidateKey ::
  "'w api \<Rightarrow> string \<Rightarrow> duration \<Rightarrow> key_store_cache \<Rightarrow> string \<Rightarrow> ('w, (string + auth_claims) \<times> key_store_cache) kprog" where
  "ValidateKey E ns cacheTTL c key =
     (let keyHash = hashAPIKey key
      in case lru_get c keyHash of
           None \<Rightarrow> validate_in_store E ns c keyHash
         | Some entry \<Rightarrow> do {
             dead \<leftarrow> key_expired E (ce_expires entry);
             if dead then ret (Inl ''API key expired'', lru_remove c keyHash)
             else do {
               now \<leftarrow> ask E Now as_time;
               if time_sub now (ce_cached entry) < cacheTTL then ret (Inr (ce_claims entry), c)
               else validate_in_store E ns (lru_remove c keyHash) keyHash
             }
           })"

definition InvalidateHash :: "key_store_cache \<Rightarrow> string \<Rightarrow> key_store_cache" where
  "InvalidateHash c keyHash = lru_remove c keyHash"

definition Invalidate :: "key_store_cache \<Rightarrow> string \<Rightarrow> key_store_cache" where
  "Invalidate c key = InvalidateHash c (hashAPIKey key)"

section \<open>Listing and deletion in the store\<close>

record key_metadata =
  km_id :: string
  km_user :: string
  km_name :: string
  km_sandbox :: string
  km_groups :: "string list"
  km_created :: instant
  km_expires :: "instant option"
  km_last_used :: "instant option"

text \<open>The record in a Secret, with the zero record for one that is missing or does not parse.\<close>

definition record_in :: "secret \<Rightarrow> api_key_record" where
  "record_in s =
     (case sct_data s ''record'' of
        Some (SecretRecord rec) \<Rightarrow> rec
      | _ \<Rightarrow> \<lparr>akr_key_hash = [], akr_user = [], akr_email = [], akr_name = [], akr_scopes = [],
             akr_namespaces = [], akr_sandbox = [], akr_groups = [], akr_created = 0,
             akr_expires = None, akr_last_used = None\<rparr>)"

definition key_metadata_of :: "secret \<Rightarrow> key_metadata" where
  "key_metadata_of s =
     (let rec = record_in s
      in \<lparr>km_id = sct_name s, km_user = akr_user rec, km_name = akr_name rec,
          km_sandbox = akr_sandbox rec, km_groups = akr_groups rec, km_created = akr_created rec,
          km_expires = akr_expires rec, km_last_used = akr_last_used rec\<rparr>)"

definition ListForUser :: "string \<Rightarrow> 'w api \<Rightarrow> string \<Rightarrow> ('w, string + key_metadata list) kprog" where
  "ListForUser ns E userID = do {
     r \<leftarrow> ask E (ListSecrets ns [(''agenttier.io/secret-purpose'', ''api-key''),
                             (''agenttier.io/api-key-user'', SanitizeLabelValue userID)]) as_secrets;
     ret (case r of
            Inl e \<Rightarrow> Inl (''list api keys: '' @ err_text e)
          | Inr ss \<Rightarrow> Inr (map key_metadata_of ss))
   }"

definition ListAll :: "string \<Rightarrow> 'w api \<Rightarrow> ('w, string + key_metadata list) kprog" where
  "ListAll ns E = do {
     r \<leftarrow> ask E (ListSecrets ns [(''agenttier.io/secret-purpose'', ''api-key'')]) as_secrets;
     ret (case r of
            Inl e \<Rightarrow> Inl (''list api keys: '' @ err_text e)
          | Inr ss \<Rightarrow> Inr (map key_metadata_of ss))
   }"

definition DeleteKey :: "string \<Rightarrow> 'w api \<Rightarrow> string \<Rightarrow> string \<Rightarrow> bool \<Rightarrow> ('w, string + string) kprog" where
  "DeleteKey ns E keyID userID isAdmin = do {
     g \<leftarrow> ask E (GetSecret ns keyID) as_secret;
     (case g of
        Inl _ \<Rightarrow> ret (Inl ''api key not found'')
      | Inr s \<Rightarrow>
          if sct_labels s ''agenttier.io/secret-purpose'' \<noteq> Some ''api-key''
          then ret (Inl ''api key not found'')
          else if \<not> isAdmin \<and> akr_user (record_in s) \<noteq> userID then ret (Inl ''access denied'')
          else do {
            d \<leftarrow> ask E (DeleteSecret (sct_namespace s) (sct_name s)) as_unit;
            ret (case d of
                   Inl e \<Rightarrow> Inl (''delete api key: '' @ err_text e)
                 | Inr _ \<Rightarrow> Inr (secret_text s ''keyHash''))
          })
   }"

section \<open>Lemmas\<close>

text \<open>What a lookup found: \<open>GetAPIKeyByHash\<close> as a call and a check of its answer.\<close>

definition stored_record :: "string \<Rightarrow> secret \<Rightarrow> string + api_key_record" where
  "stored_record keyHash s =
     (if secret_text s ''keyHash'' \<noteq> keyHash then Inl ''api key not found''
      else case sct_data s ''record'' of
             Some (SecretRecord rec) \<Rightarrow> Inr rec
           | Some _ \<Rightarrow> Inl ''corrupt api key record''
           | None \<Rightarrow> Inr (record_in s))"

definition found_record :: "string \<Rightarrow> response \<Rightarrow> string + api_key_record" where
  "found_record keyHash r =
     (case as_secret r of Inl _ \<Rightarrow> Inl ''api key not found'' | Inr s \<Rightarrow> stored_record keyHash s)"

lemma GetAPIKeyByHash_eq:
  "GetAPIKeyByHash ns E h = ask E (GetSecret ns (SecretNameForHash h)) (found_record h)"
proof -
  have "(case as_secret r of
            Inl _ \<Rightarrow> Inl ''api key not found''
          | Inr s \<Rightarrow>
              if secret_text s ''keyHash'' \<noteq> h then Inl ''api key not found''
              else (case sct_data s ''record'' of
                      Some (SecretRecord rec) \<Rightarrow> Inr rec
                    | Some _ \<Rightarrow> Inl ''corrupt api key record''
                    | None \<Rightarrow> Inr
                        \<lparr>akr_key_hash = [], akr_user = [], akr_email = [], akr_name = [], akr_scopes = [],
                         akr_namespaces = [], akr_sandbox = [], akr_groups = [], akr_created = 0,
                         akr_expires = None, akr_last_used = None\<rparr>)) = found_record h r" for r
    by (auto simp: found_record_def stored_record_def record_in_def
        split: sum.split option.split secret_value.split)
  then show ?thesis
    unfolding GetAPIKeyByHash_def ask_map by presburger
qed

text \<open>The expiry of a key is not past, by a clock reading in \<open>t\<close>.\<close>

definition alive :: "instant option \<Rightarrow> trace \<Rightarrow> bool" where
  "alive expires t \<longleftrightarrow> (\<forall>e. expires = Some e \<longrightarrow> (\<exists>r. (Now, r) \<in> set t \<and> as_time r \<le> e))"

lemma found_record_Inr: "found_record k r = Inr rec \<longleftrightarrow> (\<exists>s. r = RSecret s \<and> stored_record k s = Inr rec)"
  by (cases r) (auto simp: found_record_def)

lemma key_expired_simps:
  "key_expired E None = ret False"
  "key_expired E (Some e) = ask E Now (\<lambda>r. as_time r > e)"
  by (simp_all add: key_expired_def ask_map)

lemma traces_key_expired:
  assumes "expires = None \<Longrightarrow> traces (f False) Q"
    "\<And>e r. expires = Some e \<Longrightarrow> traces (f (as_time r > e)) (\<lambda>b t'. Q b ((Now, r) # t'))"
  shows "traces (State_Monad.bind (key_expired E expires) f) Q"
proof (cases expires)
  case None
  have "traces (ret False) (\<lambda>b t. \<not> b \<and> t = [])" by (rule traces_ret) simp
  then show ?thesis
    unfolding None key_expired_simps by (rule traces_bind) (use assms(1) [OF None] in simp)
next
  case (Some e)
  show ?thesis
    unfolding Some key_expired_simps by (rule traces_ask_bind) (rule assms(2) [OF Some])
qed

section \<open>Validations side by side\<close>

text \<open>\<open>ValidateKey\<close> takes the lock of the cache three times at most, around \<open>Get\<close>, \<open>Remove\<close> and
  \<open>Put\<close>, and holds it neither while it reads the store nor while it reads the clock. A validation is
  therefore a sequence of sections, each of which touches the cache or the cluster once; between two of
  them other validations, and revocations, may do anything. A validation is at one of these places of
  the code, with the hash of its key and the values of its local variables.\<close>

datatype key_thread =
    Looking string
  | Checking string cacheEntry
  | Dropping string bool
  | Reading string
  | Admitting string api_key_record
  | Putting string cacheEntry
  | Validated "string + auth_claims"

fun key_section ::
  "'w api \<Rightarrow> string \<Rightarrow> duration \<Rightarrow> key_thread \<Rightarrow> key_store_cache \<Rightarrow> ('w, key_thread \<times> key_store_cache) kprog" where
  "key_section E ns cacheTTL (Looking keyHash) c =
     ret (case lru_get c keyHash of None \<Rightarrow> Reading keyHash | Some entry \<Rightarrow> Checking keyHash entry, c)"
| "key_section E ns cacheTTL (Checking keyHash entry) c = do {
     dead \<leftarrow> key_expired E (ce_expires entry);
     if dead then ret (Dropping keyHash True, c)
     else do {
       now \<leftarrow> ask E Now as_time;
       ret (if time_sub now (ce_cached entry) < cacheTTL then Validated (Inr (ce_claims entry))
            else Dropping keyHash False, c)
     }
   }"
| "key_section E ns cacheTTL (Dropping keyHash dead) c =
     ret (if dead then Validated (Inl ''API key expired'') else Reading keyHash, lru_remove c keyHash)"
| "key_section E ns cacheTTL (Reading keyHash) c = do {
     r \<leftarrow> GetAPIKeyByHash ns E keyHash;
     ret (case r of Inl _ \<Rightarrow> Validated (Inl ''API key not found'') | Inr rec \<Rightarrow> Admitting keyHash rec, c)
   }"
| "key_section E ns cacheTTL (Admitting keyHash rec) c = do {
     dead \<leftarrow> key_expired E (akr_expires rec);
     if dead then ret (Validated (Inl ''API key expired''), c)
     else do {
       now \<leftarrow> ask E Now as_time;
       ret (Putting keyHash
              \<lparr>ce_claims = record_claims rec, ce_cached = now, ce_expires = akr_expires rec\<rparr>, c)
     }
   }"
| "key_section E ns cacheTTL (Putting keyHash entry) c =
     ret (Validated (Inr (ce_claims entry)), lru_put c keyHash entry)"
| "key_section E ns cacheTTL (Validated r) c = ret (Validated r, c)"

primrec key_sections ::
  "'w api \<Rightarrow> string \<Rightarrow> duration \<Rightarrow> nat \<Rightarrow> key_thread \<Rightarrow> key_store_cache \<Rightarrow> ('w, key_thread \<times> key_store_cache) kprog" where
  "key_sections E ns ttl 0 th c = ret (th, c)"
| "key_sections E ns ttl (Suc m) th c =
     do { (th', c') \<leftarrow> key_section E ns ttl th c; key_sections E ns ttl m th' c' }"

text \<open>Undisturbed, six sections in a row are \<open>ValidateKey\<close>.\<close>

lemma ValidateKey_sections:
  "run_state (key_sections E ns ttl 6 (Looking (hashAPIKey key)) c) s
     = (case run_state (ValidateKey E ns ttl c key) s of ((r, c'), s') \<Rightarrow> ((Validated r, c'), s'))"
  by (cases s)
    (auto simp: ValidateKey_def validate_in_store_def Let_def numeral_eq_Suc GetAPIKeyByHash_eq run_bind key_expired_def
      split: option.splits sum.splits if_splits)

text \<open>The validations of one router, each under a number of its own, and the evictions. What a section is
  answered is not fixed by the model: the answers are those of some environment, chosen afresh for
  each section, so that whatever else touches the cluster may run in between.\<close>

datatype key_event =
    Begun nat string
  | Ran nat key_thread trace key_thread
  | Evicted string

inductive key_runs ::
  "string \<Rightarrow> duration \<Rightarrow> int \<Rightarrow> key_store_cache \<Rightarrow> (nat \<rightharpoonup> key_thread) \<Rightarrow> key_event list \<Rightarrow> bool"
  for ns ttl n where
  start: "key_runs ns ttl n (NewLRUCache n) Map.empty []"
| begins: "key_runs ns ttl n c ts h \<Longrightarrow> ts i = None
    \<Longrightarrow> key_runs ns ttl n c (ts(i \<mapsto> Looking (hashAPIKey key))) (h @ [Begun i key])"
| runs: "key_runs ns ttl n c ts h \<Longrightarrow> ts i = Some th
    \<Longrightarrow> run_state (key_section (E :: instant api) ns ttl th c) (w, []) = ((th', c'), (w', t))
    \<Longrightarrow> key_runs ns ttl n c' (ts(i \<mapsto> th')) (h @ [Ran i th t th'])"
| evict: "key_runs ns ttl n c ts h \<Longrightarrow> key_runs ns ttl n (InvalidateHash c k) ts (h @ [Evicted k])"

text \<open>Validation \<open>i\<close> read the entry \<open>e\<close> for the hash \<open>k\<close> from the store: a Secret under the name of the
  hash that holds this very hash and a record, which had not expired; the claims are the record's.\<close>

definition read_by :: "string \<Rightarrow> key_event list \<Rightarrow> nat \<Rightarrow> string \<Rightarrow> cacheEntry \<Rightarrow> bool" where
  "read_by ns h i k e \<longleftrightarrow>
     (\<exists>s rec t r. Ran i (Reading k) [(GetSecret ns (SecretNameForHash k), RSecret s)] (Admitting k rec) \<in> set h
        \<and> stored_record k s = Inr rec
        \<and> Ran i (Admitting k rec) t (Putting k e) \<in> set h \<and> alive (akr_expires rec) t
        \<and> (Now, r) \<in> set t \<and> ce_cached e = as_time r
        \<and> ce_claims e = record_claims rec \<and> ce_expires e = akr_expires rec)"

text \<open>\<open>e\<close> was cached for \<open>k\<close> by a validation that had read it, and no eviction of \<open>k\<close> followed.\<close>

definition still_cached :: "string \<Rightarrow> key_event list \<Rightarrow> string \<Rightarrow> cacheEntry \<Rightarrow> bool" where
  "still_cached ns h k e \<longleftrightarrow>
     (\<exists>h1 j x h2. h = h1 @ Ran j (Putting k e) [] x # h2 \<and> read_by ns h1 j k e \<and> Evicted k \<notin> set h2)"

text \<open>\<open>i\<close> was answered from the cache.\<close>

definition answered_from_cache ::
  "string \<Rightarrow> duration \<Rightarrow> key_event list \<Rightarrow> nat \<Rightarrow> string \<Rightarrow> auth_claims \<Rightarrow> bool" where
  "answered_from_cache ns ttl h i k cl \<longleftrightarrow>
     (\<exists>h1 h2 e t r. h = h1 @ Ran i (Looking k) [] (Checking k e) # h2 \<and> still_cached ns h1 k e
        \<and> Ran i (Checking k e) t (Validated (Inr cl)) \<in> set h2 \<and> cl = ce_claims e
        \<and> (Now, r) \<in> set t \<and> time_sub (as_time r) (ce_cached e) < ttl \<and> alive (ce_expires e) t)"

text \<open>What the place of a validation tells about the past, \<open>k\<close> being the hash of its key.\<close>

fun thread_ok :: "string \<Rightarrow> duration \<Rightarrow> key_event list \<Rightarrow> nat \<Rightarrow> string \<Rightarrow> key_thread \<Rightarrow> bool" where
  "thread_ok ns ttl h i k (Looking k') = (k' = k)"
| "thread_ok ns ttl h i k (Checking k' e) =
     (k' = k \<and> (\<exists>h1 h2. h = h1 @ Ran i (Looking k) [] (Checking k e) # h2 \<and> still_cached ns h1 k e))"
| "thread_ok ns ttl h i k (Dropping k' b) = (k' = k)"
| "thread_ok ns ttl h i k (Reading k') = (k' = k)"
| "thread_ok ns ttl h i k (Admitting k' rec) =
     (k' = k \<and> (\<exists>s. Ran i (Reading k) [(GetSecret ns (SecretNameForHash k), RSecret s)] (Admitting k rec) \<in> set h
        \<and> stored_record k s = Inr rec))"
| "thread_ok ns ttl h i k (Putting k' e) = (k' = k \<and> read_by ns h i k e)"
| "thread_ok ns ttl h i k (Validated (Inl m)) = True"
| "thread_ok ns ttl h i k (Validated (Inr cl)) =
     ((\<exists>e. read_by ns h i k e \<and> cl = ce_claims e) \<or> answered_from_cache ns ttl h i k cl)"

section \<open>The invariant of the validations\<close>

lemma read_by_append: "read_by ns h i k e \<Longrightarrow> read_by ns (h @ h') i k e"
  unfolding read_by_def by (auto 0 4)

lemma still_cached_append: "still_cached ns h k e \<Longrightarrow> Evicted k \<notin> set h' \<Longrightarrow> still_cached ns (h @ h') k e"
proof -
  assume "still_cached ns h k e" "Evicted k \<notin> set h'"
  then obtain h1 j x h2 where "h @ h' = h1 @ Ran j (Putting k e) [] x # (h2 @ h')"
    "read_by ns h1 j k e" "Evicted k \<notin> set (h2 @ h')"
    unfolding still_cached_def by auto
  then show ?thesis unfolding still_cached_def by blast
qed

lemma answered_append: "answered_from_cache ns ttl h i k cl \<Longrightarrow> answered_from_cache ns ttl (h @ h') i k cl"
proof -
  assume "answered_from_cache ns ttl h i k cl"
  then obtain h1 h2 e t r where "h @ h' = h1 @ Ran i (Looking k) [] (Checking k e) # (h2 @ h')" "still_cached ns h1 k e"
    "Ran i (Checking k e) t (Validated (Inr cl)) \<in> set (h2 @ h')" "cl = ce_claims e"
    "(Now, r) \<in> set t" "time_sub (as_time r) (ce_cached e) < ttl" "alive (ce_expires e) t"
    unfolding answered_from_cache_def by (clarsimp, metis Un_iff set_append append_Cons append_assoc)
  then show ?thesis unfolding answered_from_cache_def by blast
qed

lemma thread_ok_append: "thread_ok ns ttl h i k th \<Longrightarrow> thread_ok ns ttl (h @ h') i k th"
proof (induction ns ttl h i k th rule: thread_ok.induct)
  case (2 ns ttl h i k k' e)
  then obtain h1 h2 where "k' = k" "h @ h' = h1 @ Ran i (Looking k) [] (Checking k e) # (h2 @ h')" "still_cached ns h1 k e"
    by auto
  then show ?case by (simp only: thread_ok.simps) blast
next
  case (8 ns ttl h i k cl)
  then show ?case unfolding thread_ok.simps using read_by_append answered_append by blast
qed (auto simp: read_by_append)

text \<open>A section run by a validation: what it makes of the cache and what the new place tells.\<close>

lemma checking_traces:
  "traces (key_section E ns ttl (Checking k e) c) (\<lambda>out t.
     (\<exists>b. out = (Dropping k b, c))
     \<or> (\<exists>r. out = (Validated (Inr (ce_claims e)), c) \<and> (Now, r) \<in> set t
           \<and> time_sub (as_time r) (ce_cached e) < ttl \<and> alive (ce_expires e) t))"
  unfolding key_section.simps
  by (intro traces_key_expired traces_if tr) (auto simp: alive_def not_less)

lemma admitting_traces:
  "traces (key_section E ns ttl (Admitting k rec) c) (\<lambda>out t.
     (\<exists>m. out = (Validated (Inl m), c))
     \<or> (\<exists>r. out = (Putting k \<lparr>ce_claims = record_claims rec, ce_cached = as_time r, ce_expires = akr_expires rec\<rparr>, c)
           \<and> (Now, r) \<in> set t \<and> alive (akr_expires rec) t))"
  unfolding key_section.simps
  by (intro traces_key_expired traces_if tr) (auto simp: alive_def not_less)

lemma section_keeps:
  assumes "run_state (key_section E ns ttl th c) (w, []) = ((th', c'), (w', t))"
    and th: "thread_ok ns ttl h i k th" and c: "lru.backed (still_cached ns h) c"
  shows "thread_ok ns ttl (h @ [Ran i th t th']) i k th' \<and> lru.backed (still_cached ns (h @ [Ran i th t th'])) c'"
proof -
  let ?h = "h @ [Ran i th t th']"
  have c1: "lru.backed (still_cached ns ?h) c" by (rule lru.backed_mono [OF c]) (simp add: still_cached_append)
  show ?thesis
  proof (cases th)
    case (Looking k')
    then show ?thesis using assms(1) th c1 lru.backedD [OF c]
      by (auto split: option.splits) blast+
  next
    case (Checking k' e)
    with th have k: "k' = k" and "\<exists>h1 h2. h = h1 @ Ran i (Looking k) [] (Checking k e) # h2 \<and> still_cached ns h1 k e" by auto
    then obtain h1 h2 where h: "h = h1 @ Ran i (Looking k) [] (Checking k e) # h2" "still_cached ns h1 k e" by blast
    from tracesD [OF checking_traces, of E ns ttl k' e c w "[]"] assms(1) Checking
    consider b where "th' = Dropping k b" "c' = c"
      | r where "th' = Validated (Inr (ce_claims e))" "c' = c" "(Now, r) \<in> set t"
          "time_sub (as_time r) (ce_cached e) < ttl" "alive (ce_expires e) t"
      using k by fastforce
    then show ?thesis
    proof cases
      case 1
      then show ?thesis using c1 by simp
    next
      case 2
      have "?h = h1 @ Ran i (Looking k) [] (Checking k e) # (h2 @ [Ran i th t th'])" using h by simp
      then have "answered_from_cache ns ttl ?h i k (ce_claims e)"
        unfolding answered_from_cache_def using 2 h(2) Checking k by (metis in_set_conv_decomp)
      then show ?thesis using c1 2 by simp
    qed
  next
    case (Reading k')
    then show ?thesis using assms(1) th c1
      by (auto simp: GetAPIKeyByHash_eq found_record_Inr split: sum.splits)
  next
    case (Admitting k' rec)
    with th obtain s where s: "k' = k" "stored_record k s = Inr rec"
      "Ran i (Reading k) [(GetSecret ns (SecretNameForHash k), RSecret s)] (Admitting k rec) \<in> set h" by auto
    from tracesD [OF admitting_traces, of E ns ttl k' rec c w "[]"] assms(1) Admitting
    consider m where "th' = Validated (Inl m)" "c' = c"
      | r where "th' = Putting k \<lparr>ce_claims = record_claims rec, ce_cached = as_time r, ce_expires = akr_expires rec\<rparr>"
          "c' = c" "(Now, r) \<in> set t" "alive (akr_expires rec) t"
      using s by fastforce
    then show ?thesis
    proof cases
      case 1
      then show ?thesis using c1 by simp
    next
      case 2
      then have "read_by ns ?h i k \<lparr>ce_claims = record_claims rec, ce_cached = as_time r, ce_expires = akr_expires rec\<rparr>"
        unfolding read_by_def using s Admitting by auto
      then show ?thesis using c1 2 by simp
    qed
  next
    case (Putting k' e)
    with th have e: "k' = k" "read_by ns h i k e" by auto
    have x: "th' = Validated (Inr (ce_claims e))" "c' = lru_put c k e" "t = []"
      using assms(1) Putting e by (auto)
    have "still_cached ns ?h k e"
      unfolding still_cached_def using e(2) Putting e(1) x by fastforce
    then have "lru.backed (still_cached ns ?h) c'"
      using lru.backed_put [OF c1] x by simp
    moreover have "thread_ok ns ttl ?h i k th'"
      using read_by_append [OF e(2)] x by auto
    ultimately show ?thesis by blast
  next
    case (Validated r)
    then show ?thesis using assms(1) th c1 thread_ok_append [OF th] by auto
  next
    case (Dropping k' b)
    then show ?thesis using assms(1) th c1 by (auto intro: lru.backed_remove)
  qed
qed

lemma key_runs_begun: "key_runs ns ttl n c ts h \<Longrightarrow> Begun i key \<in> set h \<Longrightarrow> ts i \<noteq> None"
  by (induction rule: key_runs.induct) auto

lemma key_runs_one_key:
  "key_runs ns ttl n c ts h \<Longrightarrow> Begun i key \<in> set h \<Longrightarrow> Begun i key' \<in> set h \<Longrightarrow> key' = key"
  by (induction rule: key_runs.induct) (auto dest: key_runs_begun)

lemma key_runs_kept: "key_runs ns ttl n c ts h \<Longrightarrow>
     lru.backed (still_cached ns h) c
     \<and> (\<forall>i th. ts i = Some th \<longrightarrow> (\<exists>key. Begun i key \<in> set h \<and> thread_ok ns ttl h i (hashAPIKey key) th))"
proof (induction rule: key_runs.induct)
  case start
  show ?case using lru.backed_empty by simp
next
  case (begins c ts h i key)
  from begins.IH have "lru.backed (still_cached ns h) c" by blast
  then have "lru.backed (still_cached ns (h @ [Begun i key])) c"
    by (rule lru.backed_mono) (simp add: still_cached_append)
  moreover have "\<exists>key'. Begun j key' \<in> set (h @ [Begun i key]) \<and> thread_ok ns ttl (h @ [Begun i key]) j (hashAPIKey key') th"
    if x: "(ts(i \<mapsto> Looking (hashAPIKey key))) j = Some th" for j th
  proof (cases "j = i")
    case False
    then obtain key' where "Begun j key' \<in> set h" "thread_ok ns ttl h j (hashAPIKey key') th"
      using x begins.IH by auto
    then show ?thesis using thread_ok_append [of ns ttl h j _ th "[Begun i key]"] by auto
  qed (use x in auto)
  ultimately show ?case by blast
next
  case (runs c ts h i th E w th' c' w' t)
  then obtain key where key: "Begun i key \<in> set h" "thread_ok ns ttl h i (hashAPIKey key) th"
    by blast
  let ?h = "h @ [Ran i th t th']"
  have still_cached: "thread_ok ns ttl ?h i (hashAPIKey key) th' \<and> lru.backed (still_cached ns ?h) c'"
    using section_keeps [OF runs.hyps(3) key(2)] runs.IH by blast
  have "\<exists>key'. Begun j key' \<in> set ?h \<and> thread_ok ns ttl ?h j (hashAPIKey key') x"
    if y: "(ts(i \<mapsto> th')) j = Some x" for j x
  proof (cases "j = i")
    case True
    then show ?thesis using y still_cached key(1) by auto
  next
    case False
    then obtain key' where "Begun j key' \<in> set h" "thread_ok ns ttl h j (hashAPIKey key') x"
      using y runs.IH by auto
    then show ?thesis using thread_ok_append [of ns ttl h j _ x "[Ran i th t th']"] by auto
  qed
  then show ?case using still_cached by blast
next
  case (evict c ts h k)
  from evict.IH have "lru.backed (still_cached ns h) c" by blast
  then have "lru.backed (still_cached ns (h @ [Evicted k])) (lru_remove c k)"
    by (rule lru.backed_remove) (simp add: still_cached_append)
  moreover have "\<exists>key. Begun j key \<in> set (h @ [Evicted k]) \<and> thread_ok ns ttl (h @ [Evicted k]) j (hashAPIKey key) x"
    if x: "ts j = Some x" for j x
  proof -
    obtain key where "Begun j key \<in> set h" "thread_ok ns ttl h j (hashAPIKey key) x"
      using x evict.IH by blast
    then show ?thesis using thread_ok_append [of ns ttl h j _ x "[Evicted k]"] by auto
  qed
  ultimately show ?case unfolding InvalidateHash_def by blast
qed

text \<open>The cache keeps its bound and the agreement of its two lists in all of this.\<close>

lemma section_lru_ok:
  assumes "run_state (key_section E ns ttl th c) (w, l) = ((th', c'), (w', l'))" "lru_ok c"
  shows "lru_ok c'"
proof -
  have "traces (key_section E ns ttl th c) (\<lambda>out t. lru_ok (snd out))"
    using assms(2) by (cases th) (auto simp: GetAPIKeyByHash_eq intro!: tr traces_key_expired traces_if)
  then have "lru_ok (snd (fst (run_state (key_section E ns ttl th c) (w, l))))" unfolding traces_def by blast
  then show ?thesis using assms(1) by simp
qed

lemma key_runs_ok: "key_runs ns ttl n c ts h \<Longrightarrow> lru_ok c"
  by (induction rule: key_runs.induct) (auto simp: InvalidateHash_def section_lru_ok)

section \<open>Properties\<close>

text \<open>C4. Validations and evictions run side by side, with any number of validations of the same or of
  different keys at any places of the code, and whatever else touches the cluster in between. A
  validation that admits its caller either read the key from the store itself, or answered from an
  entry that some validation had so read and cached, with no eviction of the hash between the caching
  and this validation's look into the cache; the entry is then younger than the cache's time to live
  and, if the key has an expiry, not past it, by clock readings of this validation. To read a key from
  the store is to find a Secret under the name of its hash that holds this very hash, and a record
  that has not expired by a clock reading; the claims are those of the record. Nothing is said of an
  eviction that falls between reading a record and caching it: the entry is then cached although the
  key was revoked, and serves until its time to live is over. Run undisturbed, the
  sections of a validation do what ValidateKey does.\<close>

theorem authentication_is_granted_and_fresh:
  assumes "key_runs ns ttl n c ts h" and "ts i = Some (Validated (Inr cl))" and "Begun i key \<in> set h"
  shows "((\<exists>e. read_by ns h i (hashAPIKey key) e \<and> cl = ce_claims e)
      \<or> answered_from_cache ns ttl h i (hashAPIKey key) cl)
    \<and> run_state (key_sections E ns ttl 6 (Looking (hashAPIKey key)) c0) s
        = (case run_state (ValidateKey E ns ttl c0 key) s of ((r, c'), s') \<Rightarrow> ((Validated r, c'), s'))"
proof -
  obtain key' where "Begun i key' \<in> set h" "thread_ok ns ttl h i (hashAPIKey key') (Validated (Inr cl))"
    using key_runs_kept [OF assms(1)] assms(2) by blast
  moreover then have "key' = key" using key_runs_one_key [OF assms(1,3)] by blast
  ultimately show ?thesis by (simp add: ValidateKey_sections)
qed

text \<open>A server that holds one key, bound to a sandbox, at a clock that moves on with every
  reading.\<close>

definition one_key :: api_key_record where
  "one_key =
     \<lparr>akr_key_hash = hashAPIKey ''atk_A'', akr_user = ''ann'', akr_email = [], akr_name = [],
      akr_scopes = [], akr_namespaces = [], akr_sandbox = ''sb'', akr_groups = [''stop''],
      akr_created = 0, akr_expires = Some 100, akr_last_used = None\<rparr>"

fun one_key_server :: "instant api" where
  "one_key_server w (GetSecret ns n) =
     (if n = SecretNameForHash (hashAPIKey ''atk_A'')
      then RSecret (key_secret ns (hashAPIKey ''atk_A'') one_key) else RErr NotFound, w)"
| "one_key_server w Now = (RTime w, w + 1)"
| "one_key_server w _ = (ROk, w)"

lemma one_key_validates:
  "run_state (ValidateKey one_key_server ns 60 (NewLRUCache 5) ''atk_A'') (7, [])
     = ((Inr (record_claims one_key), lru_put (NewLRUCache 5) (hashAPIKey ''atk_A'')
           \<lparr>ce_claims = record_claims one_key, ce_cached = 8, ce_expires = Some 100\<rparr>),
        (9, [(GetSecret ns (SecretNameForHash (hashAPIKey ''atk_A'')),
              RSecret (key_secret ns (hashAPIKey ''atk_A'') one_key)),
             (Now, RTime 7), (Now, RTime 8)]))"
  by (simp add: ValidateKey_def validate_in_store_def GetAPIKeyByHash_eq run_bind lru_get_def
      NewLRUCache_def found_record_def stored_record_def record_in_def key_secret_def secret_text_def
      key_expired_simps Let_def, simp add: one_key_def record_claims_def run_bind key_expired_simps)

text \<open>Validation 0 reads the key and caches it while validation 1 begins; 1 is answered from the cache.\<close>

definition one_entry :: cacheEntry where
  "one_entry = \<lparr>ce_claims = record_claims one_key, ce_cached = 8, ce_expires = Some 100\<rparr>"

theorem authentication_is_granted_and_fresh_witness:
  "\<exists>ts h. ts 1 = Some (Validated (Inr (record_claims one_key)))
     \<and> answered_from_cache ''agenttier'' 60 h 1 (hashAPIKey ''atk_A'') (record_claims one_key)"
proof -
  define k where "k = hashAPIKey ''atk_A''"
  let ?ns = "''agenttier''" and ?c = "NewLRUCache 5"
  let ?c' = "lru_put ?c k one_entry" and ?h = "[Begun 0 ''atk_A'']"
  let ?T = "\<lambda>a b. Map.empty(0 \<mapsto> a, 1 \<mapsto> b)" and ?cl = "Validated (Inr (record_claims one_key))"
  note steps = key_runs.runs [where E = one_key_server]
  note simps = run_bind GetAPIKeyByHash_eq found_record_def stored_record_def key_secret_def secret_text_def
    key_expired_simps lru_get_put lru.get_empty fun_upd_twist [of "0 :: nat" "Suc 0"] one_entry_def
  let ?s = "key_secret ?ns k one_key" and ?q = "GetSecret ?ns (SecretNameForHash k)"
  let ?a = "Ran 0 (Looking k) [] (Reading k)"
  let ?b = "Ran 0 (Reading k) [(?q, RSecret ?s)] (Admitting k one_key)"
  let ?d = "Ran 0 (Admitting k one_key) [(Now, RTime 7), (Now, RTime 8)] (Putting k one_entry)"
  let ?e = "Ran 0 (Putting k one_entry) [] ?cl"
  let ?f = "Ran 1 (Looking k) [] (Checking k one_entry)"
  let ?g = "Ran 1 (Checking k one_entry) [(Now, RTime 9), (Now, RTime 10)] ?cl"
  have server: "one_key_server w ?q = (RSecret ?s, w)" for w by (simp add: k_def)
  have run: "key_runs ?ns 60 5 ?c [0 \<mapsto> Looking k] [Begun 0 ''atk_A'']"
    using key_runs.begins [OF key_runs.start, where i = 0 and key = "''atk_A''"] by (simp add: k_def)
  from steps [OF run, of 0 "Looking k" 7 "Reading k" ?c 7 "[]"]
  have run: "key_runs ?ns 60 5 ?c [0 \<mapsto> Reading k] [Begun 0 ''atk_A'', ?a]" by (simp add: simps)
  from key_runs.begins [OF run, where i = 1 and key = "''atk_A''"]
  have run: "key_runs ?ns 60 5 ?c (?T (Reading k) (Looking k)) [Begun 0 ''atk_A'', ?a, Begun 1 ''atk_A'']"
    by (simp add: k_def)
  from steps [OF run, of 0 "Reading k" 7 "Admitting k one_key" ?c 7 "[(?q, RSecret ?s)]"]
  have run: "key_runs ?ns 60 5 ?c (?T (Admitting k one_key) (Looking k))
      [Begun 0 ''atk_A'', ?a, Begun 1 ''atk_A'', ?b]"
    by (simp add: simps server del: one_key_server.simps)
  from steps [OF run, of 0 "Admitting k one_key" 7 "Putting k one_entry" ?c 9 "[(Now, RTime 7), (Now, RTime 8)]"]
  have run: "key_runs ?ns 60 5 ?c (?T (Putting k one_entry) (Looking k))
      [Begun 0 ''atk_A'', ?a, Begun 1 ''atk_A'', ?b, ?d]"
    by (simp add: simps one_key_def)
  from steps [OF run, of 0 "Putting k one_entry" 9 ?cl ?c' 9 "[]"]
  have run: "key_runs ?ns 60 5 ?c' (?T ?cl (Looking k)) [Begun 0 ''atk_A'', ?a, Begun 1 ''atk_A'', ?b, ?d, ?e]"
    by (simp add: simps)
  from steps [OF run, of 1 "Looking k" 9 "Checking k one_entry" ?c' 9 "[]"]
  have run: "key_runs ?ns 60 5 ?c' (?T ?cl (Checking k one_entry))
      [Begun 0 ''atk_A'', ?a, Begun 1 ''atk_A'', ?b, ?d, ?e, ?f]"
    by (simp add: simps)
  from steps [OF run, of 1 "Checking k one_entry" 9 ?cl ?c' 11 "[(Now, RTime 9), (Now, RTime 10)]"]
  have run: "key_runs ?ns 60 5 ?c' (?T ?cl ?cl) [Begun 0 ''atk_A'', ?a, Begun 1 ''atk_A'', ?b, ?d, ?e, ?f, ?g]"
    by (simp add: simps time_sub_def)
  have "\<not> read_by ?ns [Begun 0 ''atk_A'', ?a, Begun 1 ''atk_A'', ?b, ?d, ?e, ?f, ?g] 1 k e" for e
    by (simp add: read_by_def)
  with authentication_is_granted_and_fresh [OF run, of 1 "record_claims one_key" "''atk_A''", THEN conjunct1]
  have "answered_from_cache ?ns 60 [Begun 0 ''atk_A'', ?a, Begun 1 ''atk_A'', ?b, ?d, ?e, ?f, ?g] 1 k (record_claims one_key)"
    by (auto simp: k_def)
  moreover have "?T ?cl ?cl 1 = Some ?cl" by simp
  ultimately show ?thesis unfolding k_def by blast
qed

end
