(* ===== verification/Oidc.thy ===== *)
theory Oidc
  imports Api_Keys
begin

text \<open>
  Validation of OIDC bearer tokens (\<open>pkg/router/auth/oidc.go\<close>): decoding, the checks of
  algorithm, key, signature, expiry, issuer and audience, and the claims taken from the token.
  Two parts of Go's standard library are parameters, collected in the record \<open>token_env\<close>:
  \<open>encoding/json\<close>, which reads a header as its \<open>alg\<close> and \<open>kid\<close> and a payload as a map from
  names to values, and \<open>rsa.VerifyPKCS1v15\<close>. Fetching the key set over HTTP is not modelled; what
  \<open>Refresh\<close> makes of a fetched set is.
\<close>

section \<open>Base64 with URL alphabet\<close>

fun digit_of :: "string \<Rightarrow> char \<Rightarrow> nat option" where
  "digit_of [] c = None"
| "digit_of (a # al) c = (if c = a then Some 0 else map_option Suc (digit_of al c))"

definition url_digits :: "string \<Rightarrow> nat list option" where
  "url_digits s = those (map (digit_of url_alphabet) s)"

text \<open>\<open>URLEncoding.DecodeString\<close>: groups of four digits, the last one padded with \<open>=\<close>; line ends
  are skipped.\<close>

fun decode_last :: "nat list \<Rightarrow> nat list" where
  "decode_last [a, b, c, d] =
     (let v = a * 2 ^ 18 + b * 2 ^ 12 + c * 2 ^ 6 + d
      in [v div 2 ^ 16 mod 256, v div 2 ^ 8 mod 256, v mod 256])"
| "decode_last [a, b, c] =
     (let v = a * 2 ^ 18 + b * 2 ^ 12 + c * 2 ^ 6 in [v div 2 ^ 16 mod 256, v div 2 ^ 8 mod 256])"
| "decode_last [a, b] = (let v = a * 2 ^ 18 + b * 2 ^ 12 in [v div 2 ^ 16 mod 256])"
| "decode_last _ = []"

fun decode_quads :: "string \<Rightarrow> nat list option" where
  "decode_quads [] = Some []"
| "decode_quads [a, b, c, d] =
     map_option decode_last
       (url_digits (if c = CHR ''='' \<and> d = CHR ''='' then [a, b]
                    else if d = CHR ''='' then [a, b, c] else [a, b, c, d]))"
| "decode_quads (a # b # c # d # rest) =
     (case (url_digits [a, b, c, d], decode_quads rest) of
        (Some ds, Some bs) \<Rightarrow> Some (decode_last ds @ bs)
      | _ \<Rightarrow> None)"
| "decode_quads _ = None"

definition DecodeString :: "string \<Rightarrow> nat list option" where
  "DecodeString s = decode_quads (filter (\<lambda>c. c \<noteq> CHR 0x0A \<and> c \<noteq> CHR 0x0D) s)"

definition base64URLDecode :: "string \<Rightarrow> nat list option" where
  "base64URLDecode s =
     DecodeString (if length s mod 4 = 2 then s @ ''=='' else if length s mod 4 = 3 then s @ ''='' else s)"

section \<open>Tokens\<close>

text \<open>A decoded payload value; a JSON number by its integer part, which is all the code reads.\<close>

datatype claim_value = CText string | CNumber int | CArray "claim_value list" | COther

type_synonym payload = "string \<rightharpoonup> claim_value"

record oidc_config =
  oc_issuer :: string
  oc_client :: string
  oc_admin_group :: string
  oc_group_claim :: string

record 'k token_env =
  te_header :: "nat list \<Rightarrow> (string \<times> string) option"
  te_payload :: "nat list \<Rightarrow> payload option"
  te_verify :: "'k \<Rightarrow> nat list \<Rightarrow> nat list \<Rightarrow> bool"

datatype token_error =
    BadFormat nat
  | BadHeaderEncoding
  | BadHeader
  | UnsupportedAlg string
  | UnknownKey string
  | BadSignatureEncoding
  | BadSignature
  | BadPayloadEncoding
  | BadPayload
  | BadExpiry
  | TokenExpired
  | BadIssuer string
  | BadAudience

text \<open>The group claim that \<open>NewOIDCValidator\<close> settles on.\<close>

definition NewOIDCValidator :: "oidc_config \<Rightarrow> oidc_config" where
  "NewOIDCValidator cfg =
     cfg\<lparr>oc_group_claim := (if oc_group_claim cfg = [] then ''groups'' else oc_group_claim cfg)\<rparr>"

text \<open>\<open>strings.Split\<close> at a one-character separator.\<close>

fun split_at :: "char \<Rightarrow> string \<Rightarrow> string list" where
  "split_at sep [] = [[]]"
| "split_at sep (c # cs) =
     (if c = sep then [] # split_at sep cs
      else case split_at sep cs of p # ps \<Rightarrow> (c # p) # ps | [] \<Rightarrow> [[c]])"

definition verifyRS256Signature ::
  "'k token_env \<Rightarrow> string \<Rightarrow> string \<Rightarrow> 'k \<Rightarrow> token_error + unit" where
  "verifyRS256Signature te signingInput signatureB64 key =
     (case base64URLDecode signatureB64 of
        None \<Rightarrow> Inl BadSignatureEncoding
      | Some sig \<Rightarrow>
          if te_verify te key (sha256 (bytes_of signingInput)) sig then Inr () else Inl BadSignature)"

definition validateAudience :: "oidc_config \<Rightarrow> claim_value option \<Rightarrow> bool" where
  "validateAudience cfg aud =
     (case aud of
        Some (CText a) \<Rightarrow> a = oc_client cfg
      | Some (CArray items) \<Rightarrow> list_ex (\<lambda>item. item = CText (oc_client cfg)) items
      | _ \<Rightarrow> False)"

definition validateStandardClaims :: "'w api \<Rightarrow> oidc_config \<Rightarrow> payload \<Rightarrow> ('w, token_error + unit) kprog" where
  "validateStandardClaims E cfg p =
     (case p ''exp'' of
        Some (CNumber e) \<Rightarrow> do {
          now \<leftarrow> ask E Now as_time;
          ret (if unix_seconds now > e then Inl TokenExpired
               else case p ''iss'' of
                      Some (CText iss) \<Rightarrow>
                        if iss \<noteq> oc_issuer cfg then Inl (BadIssuer iss)
                        else if \<not> validateAudience cfg (p ''aud'') then Inl BadAudience
                        else Inr ()
                    | _ \<Rightarrow> Inl (BadIssuer []))
        }
      | _ \<Rightarrow> ret (Inl BadExpiry))"

definition getStringClaim :: "payload \<Rightarrow> string \<Rightarrow> string" where
  "getStringClaim p key = (case p key of Some (CText v) \<Rightarrow> v | _ \<Rightarrow> [])"

fun text_items :: "claim_value list \<Rightarrow> string list" where
  "text_items [] = []"
| "text_items (CText s # rest) = s # text_items rest"
| "text_items (_ # rest) = text_items rest"

definition getStringSliceClaim :: "payload \<Rightarrow> string \<Rightarrow> string list" where
  "getStringSliceClaim p key =
     (case p key of Some (CArray items) \<Rightarrow> text_items items | Some (CText v) \<Rightarrow> [v] | _ \<Rightarrow> [])"

definition isAdmin :: "oidc_config \<Rightarrow> string list \<Rightarrow> bool" where
  "isAdmin cfg groups \<longleftrightarrow> oc_admin_group cfg \<noteq> [] \<and> list_ex (\<lambda>g. g = oc_admin_group cfg) groups"

definition token_claims :: "oidc_config \<Rightarrow> payload \<Rightarrow> auth_claims" where
  "token_claims cfg p =
     (let groups = getStringSliceClaim p (oc_group_claim cfg)
      in \<lparr>ac_sub = getStringClaim p ''sub'', ac_email = getStringClaim p ''email'',
          ac_name = getStringClaim p ''name'', ac_groups = groups, ac_admin = isAdmin cfg groups,
          ac_sandbox = [], ac_actions = []\<rparr>)"

text \<open>The steps up to the payload, which read neither clock nor cluster.\<close>

definition signed_payload :: "'k token_env \<Rightarrow> (string \<rightharpoonup> 'k) \<Rightarrow> string \<Rightarrow> token_error + payload" where
  "signed_payload te keys tokenString =
     (case split_at CHR ''.'' tokenString of
        [h, p, sig] \<Rightarrow>
          (case base64URLDecode h of
             None \<Rightarrow> Inl BadHeaderEncoding
           | Some headerBytes \<Rightarrow>
               (case te_header te headerBytes of
                  None \<Rightarrow> Inl BadHeader
                | Some (alg, kid) \<Rightarrow>
                    if alg \<noteq> ''RS256'' then Inl (UnsupportedAlg alg)
                    else (case keys kid of
                            None \<Rightarrow> Inl (UnknownKey kid)
                          | Some key \<Rightarrow>
                              (case verifyRS256Signature te (h @ ''.'' @ p) sig key of
                                 Inl e \<Rightarrow> Inl e
                               | Inr _ \<Rightarrow>
                                   (case base64URLDecode p of
                                      None \<Rightarrow> Inl BadPayloadEncoding
                                    | Some payloadBytes \<Rightarrow>
                                        (case te_payload te payloadBytes of
                                           None \<Rightarrow> Inl BadPayload
                                         | Some pl \<Rightarrow> Inr pl))))))
      | parts \<Rightarrow> Inl (BadFormat (length parts)))"

definition ValidateToken ::
  "'w api \<Rightarrow> oidc_config \<Rightarrow> 'k token_env \<Rightarrow> (string \<rightharpoonup> 'k) \<Rightarrow> string
   \<Rightarrow> ('w, token_error + auth_claims) kprog" where
  "ValidateToken E cfg te keys tokenString =
     (case signed_payload te keys tokenString of
        Inl e \<Rightarrow> ret (Inl e)
      | Inr pl \<Rightarrow> do {
          v \<leftarrow> validateStandardClaims E cfg pl;
          ret (case v of Inl e \<Rightarrow> Inl e | Inr _ \<Rightarrow> Inr (token_claims cfg pl))
        })"

section \<open>The key set\<close>

record jwk =
  jwk_kid :: string
  jwk_kty :: string
  jwk_n :: string
  jwk_e :: string

text \<open>\<open>big.Int.SetBytes\<close>, and \<open>int(e.Int64())\<close>, the low 64 bits.\<close>

definition big_int :: "nat list \<Rightarrow> int" where
  "big_int bs = foldl (\<lambda>v b. v * 256 + int b) 0 bs"

definition parseRSAPublicKey :: "string \<Rightarrow> string \<Rightarrow> (int \<times> int) option" where
  "parseRSAPublicKey nStr eStr =
     (case (base64URLDecode nStr, base64URLDecode eStr) of
        (Some nBytes, Some eBytes) \<Rightarrow> Some (big_int nBytes, wrap64 (big_int eBytes))
      | _ \<Rightarrow> None)"

definition Refresh :: "jwk list \<Rightarrow> string \<rightharpoonup> int \<times> int" where
  "Refresh ks =
     foldl (\<lambda>m k. if jwk_kty k \<noteq> ''RSA'' then m
                  else case parseRSAPublicKey (jwk_n k) (jwk_e k) of
                         None \<Rightarrow> m
                       | Some key \<Rightarrow> m(jwk_kid k \<mapsto> key)) Map.empty ks"

section \<open>Lemmas\<close>

lemma split_at_nonempty [simp]: "split_at c s \<noteq> []"
  by (induction s) (auto split: list.splits)

lemma split_at_plain: "c \<notin> set s \<Longrightarrow> split_at c s = [s]"
  by (induction s) auto

lemma split_at_first: "c \<notin> set h \<Longrightarrow> split_at c (h @ c # rest) = h # split_at c rest"
  by (induction h) auto

lemma split_at_parts:
  "str_join [c] (split_at c s) = s \<and> (\<forall>p \<in> set (split_at c s). c \<notin> set p)"
proof (induction s)
  case (Cons d s)
  obtain p ps where "split_at c s = p # ps" by (cases "split_at c s") auto
  with Cons show ?case by (cases ps) auto
qed simp

lemma split_three:
  "split_at c s = [h, p, q]
    \<longleftrightarrow> s = h @ [c] @ p @ [c] @ q \<and> c \<notin> set h \<and> c \<notin> set p \<and> c \<notin> set q"
  using split_at_parts [of c s] by (auto simp: split_at_first split_at_plain)

lemma verify_Inr:
  "verifyRS256Signature te inp sig key = Inr u
    \<longleftrightarrow> (\<exists>b. base64URLDecode sig = Some b \<and> te_verify te key (sha256 (bytes_of inp)) b)"
  by (auto simp: verifyRS256Signature_def split: option.splits)

lemma standard_claims_Inr:
  "fst (run_state (validateStandardClaims E cfg p) (w, l)) = Inr u
    \<longleftrightarrow> (\<exists>e. p ''exp'' = Some (CNumber e) \<and> unix_seconds (as_time (fst (E w Now))) \<le> e)
      \<and> p ''iss'' = Some (CText (oc_issuer cfg)) \<and> validateAudience cfg (p ''aud'')"
  by (auto simp: validateStandardClaims_def run_bind not_less
      split: option.splits claim_value.splits if_splits)

lemma signed_payload_Inr:
  "signed_payload te keys tok = Inr pl \<longleftrightarrow>
     (\<exists>h p sig hb kid key sb pb. tok = h @ ''.'' @ p @ ''.'' @ sig
        \<and> CHR ''.'' \<notin> set h \<union> set p \<union> set sig
        \<and> base64URLDecode h = Some hb \<and> te_header te hb = Some (''RS256'', kid)
        \<and> keys kid = Some key
        \<and> base64URLDecode sig = Some sb \<and> te_verify te key (sha256 (bytes_of (h @ ''.'' @ p))) sb
        \<and> base64URLDecode p = Some pb \<and> te_payload te pb = Some pl)"
proof -
  have "signed_payload te keys tok = Inr pl \<longleftrightarrow>
     (\<exists>h p sig. split_at CHR ''.'' tok = [h, p, sig]
        \<and> (\<exists>hb kid key pb. base64URLDecode h = Some hb \<and> te_header te hb = Some (''RS256'', kid)
        \<and> keys kid = Some key \<and> verifyRS256Signature te (h @ ''.'' @ p) sig key = Inr ()
        \<and> base64URLDecode p = Some pb \<and> te_payload te pb = Some pl))"
    unfolding signed_payload_def
    by (auto split: list.splits option.splits sum.splits prod.splits if_splits)
  from this show ?thesis
    unfolding split_three verify_Inr Un_iff de_Morgan_disj by (simp only:) blast
qed

section \<open>Properties\<close>

text \<open>C5. A token is accepted exactly when it has three parts, its header names RS256 and a key of
  the published set, that key's signature over the first two parts verifies, the payload is not
  expired at the clock reading, was issued by the configured issuer and addresses the configured
  client; and the claims are those of the payload, with no sandbox scope.\<close>

theorem token_accepted_iff:
  "fst (run_state (ValidateToken E cfg te keys tok) (w, l)) = Inr cl \<longleftrightarrow>
     (\<exists>h p sig hb kid key sb pb pl e.
        tok = h @ ''.'' @ p @ ''.'' @ sig
        \<and> CHR ''.'' \<notin> set h \<union> set p \<union> set sig
        \<and> base64URLDecode h = Some hb \<and> te_header te hb = Some (''RS256'', kid)
        \<and> keys kid = Some key
        \<and> base64URLDecode sig = Some sb \<and> te_verify te key (sha256 (bytes_of (h @ ''.'' @ p))) sb
        \<and> base64URLDecode p = Some pb \<and> te_payload te pb = Some pl
        \<and> pl ''exp'' = Some (CNumber e) \<and> unix_seconds (as_time (fst (E w Now))) \<le> e
        \<and> pl ''iss'' = Some (CText (oc_issuer cfg)) \<and> validateAudience cfg (pl ''aud'')
        \<and> cl = token_claims cfg pl)"
proof -
  have "fst (run_state (ValidateToken E cfg te keys tok) (w, l)) = Inr cl \<longleftrightarrow>
     (\<exists>pl. signed_payload te keys tok = Inr pl
        \<and> fst (run_state (validateStandardClaims E cfg pl) (w, l)) = Inr () \<and> cl = token_claims cfg pl)"
    by (auto simp: ValidateToken_def run_bind split: sum.splits prod.splits)
  from this show ?thesis
    unfolding signed_payload_Inr standard_claims_Inr by (simp only:) blast
qed

end
