(* ===== verification/Access_Control.thy ===== *)
theory Access_Control
  imports Oidc
begin

text \<open>
  Who may do what in the router: authentication of a request and the confinement of
  sandbox-scoped keys (\<open>pkg/router/middleware.go\<close>, \<open>scopedkey_middleware.go\<close>), the lookup of a
  sandbox and the ownership and sharing checks of the handlers, and the gate of the terminal's
  WebSocket (\<open>pkg/router/handlers.go\<close>). Routing is done by \<open>gorilla/mux\<close>: a request carries the
  path template it matched and the variables bound by the match.
\<close>

section \<open>Requests and the server\<close>

record http_request =
  rq_method :: string
  rq_route :: string
  rq_vars :: "string \<rightharpoonup> string"
  rq_headers :: "string \<rightharpoonup> string"
  rq_query :: "string \<rightharpoonup> string"

text \<open>A missing header, variable or query parameter reads as the empty string.\<close>

definition text_at :: "(string \<rightharpoonup> string) \<Rightarrow> string \<Rightarrow> string" where
  "text_at m k = (case m k of None \<Rightarrow> [] | Some v \<Rightarrow> v)"

text \<open>The configuration that the handlers read. A validator that is not configured is None;
  the API key validator is given by its cache's time to live.\<close>

record 'k server =
  sv_install_ns :: string
  sv_sandbox_ns :: string
  sv_cors :: "string list"
  sv_dev_auth :: bool
  sv_oidc :: "(oidc_config \<times> 'k token_env \<times> (string \<rightharpoonup> 'k)) option"
  sv_key_ttl :: "duration option"

text \<open>\<open>router.Claims\<close>.\<close>

record claims =
  cl_sub :: string
  cl_email :: string
  cl_name :: string
  cl_groups :: "string list"
  cl_admin :: bool
  cl_namespaces :: "string list"
  cl_sandbox :: string
  cl_actions :: "string list"

section \<open>Cross-origin requests\<close>

definition isAllowedOrigin :: "'k server \<Rightarrow> string \<Rightarrow> bool" where
  "isAllowedOrigin sv origin = list_ex (\<lambda>allowed. allowed = origin) (sv_cors sv)"

text \<open>The headers set, and the status when the request ends here.\<close>

definition corsMiddleware :: "'k server \<Rightarrow> http_request \<Rightarrow> (string \<times> string) list \<times> nat option" where
  "corsMiddleware sv req =
     (let origin = text_at (rq_headers req) ''Origin'';
          headers =
            if origin \<noteq> [] \<and> isAllowedOrigin sv origin
            then [(''Vary'', ''Origin''), (''Access-Control-Allow-Origin'', origin),
                  (''Access-Control-Allow-Methods'', ''GET, POST, PUT, DELETE, OPTIONS''),
                  (''Access-Control-Allow-Headers'', ''Authorization, Content-Type, X-API-Key, X-Request-ID''),
                  (''Access-Control-Expose-Headers'', ''X-Request-ID''),
                  (''Access-Control-Max-Age'', ''86400'')]
            else []
      in (headers,
          if rq_method req = ''OPTIONS''
          then Some (if origin = [] then 204 else if isAllowedOrigin sv origin then 204 else 403)
          else None))"

section \<open>Authentication\<close>

definition claimsFromAuth :: "auth_claims \<Rightarrow> claims" where
  "claimsFromAuth ac =
     \<lparr>cl_sub = ac_sub ac, cl_email = ac_email ac, cl_name = ac_name ac, cl_groups = ac_groups ac,
      cl_admin = ac_admin ac, cl_namespaces = [], cl_sandbox = ac_sandbox ac,
      cl_actions = ac_actions ac\<rparr>"

definition dev_claims :: claims where
  "dev_claims =
     \<lparr>cl_sub = ''dev-user'', cl_email = ''dev@agenttier.local'', cl_name = ''Dev User'',
      cl_groups = [''agenttier-admins''], cl_admin = True, cl_namespaces = [], cl_sandbox = [],
      cl_actions = []\<rparr>"

text \<open>The messages of \<open>ValidateToken\<close>, without the standard library's own text.\<close>

fun token_error_text :: "oidc_config \<Rightarrow> token_error \<Rightarrow> string" where
  "token_error_text cfg (BadFormat n) = ''invalid JWT format: expected 3 parts, got '' @ show_nat n"
| "token_error_text cfg BadHeaderEncoding = ''failed to decode JWT header''"
| "token_error_text cfg BadHeader = ''failed to parse JWT header''"
| "token_error_text cfg (UnsupportedAlg alg) =
     ''unsupported JWT alg '' @ show_quoted alg @ '': only RS256 is accepted''"
| "token_error_text cfg (UnknownKey kid) = ''signing key not found: key '' @ kid @ '' not found in JWKS cache''"
| "token_error_text cfg BadSignatureEncoding = ''signature verification failed: failed to decode signature''"
| "token_error_text cfg BadSignature = ''signature verification failed: RS256 signature invalid''"
| "token_error_text cfg BadPayloadEncoding = ''failed to decode JWT payload''"
| "token_error_text cfg BadPayload = ''failed to parse JWT payload''"
| "token_error_text cfg BadExpiry = ''missing or invalid exp claim''"
| "token_error_text cfg TokenExpired = ''token expired''"
| "token_error_text cfg (BadIssuer iss) = ''invalid issuer: expected '' @ oc_issuer cfg @ '', got '' @ iss"
| "token_error_text cfg BadAudience = ''invalid audience: expected '' @ oc_client cfg"

definition validateJWT :: "'w api \<Rightarrow> 'k server \<Rightarrow> string \<Rightarrow> ('w, string + claims) kprog" where
  "validateJWT E sv token =
     (case sv_oidc sv of
        None \<Rightarrow> ret (Inl ''OIDC authentication is not configured on this server'')
      | Some (cfg, te, keys) \<Rightarrow> do {
          r \<leftarrow> ValidateToken E cfg te keys token;
          ret (case r of Inl e \<Rightarrow> Inl (token_error_text cfg e) | Inr ac \<Rightarrow> Inr (claimsFromAuth ac))
        })"

definition validateAPIKey ::
  "'w api \<Rightarrow> 'k server \<Rightarrow> key_store_cache \<Rightarrow> string \<Rightarrow> ('w, (string + claims) \<times> key_store_cache) kprog" where
  "validateAPIKey E sv c key =
     (case sv_key_ttl sv of
        None \<Rightarrow> ret (Inl ''API key authentication is not configured on this server'', c)
      | Some ttl \<Rightarrow> do {
          (r, c') \<leftarrow> ValidateKey E (New (sv_install_ns sv)) ttl c key;
          ret (case r of Inl e \<Rightarrow> Inl e | Inr ac \<Rightarrow> Inr (claimsFromAuth ac), c')
        })"

text \<open>\<open>http.Error\<close>: a plain text body.\<close>

definition http_error :: "string \<Rightarrow> nat \<Rightarrow> reply" where
  "http_error body status = \<lparr>rp_status = status, rp_body = JText body\<rparr>"

definition TrimPrefix :: "string \<Rightarrow> string \<Rightarrow> string" where
  "TrimPrefix s p = (if has_prefix s p then drop (length p) s else s)"

definition authMiddleware ::
  "'w api \<Rightarrow> 'k server \<Rightarrow> key_store_cache \<Rightarrow> http_request \<Rightarrow> ('w, (reply + claims) \<times> key_store_cache) kprog" where
  "authMiddleware E sv c req =
     (if sv_dev_auth sv then ret (Inr dev_claims, c)
      else let apiKey = text_at (rq_headers req) ''X-API-Key''
      in if apiKey \<noteq> []
         then do {
           (r, c') \<leftarrow> validateAPIKey E sv c apiKey;
           ret (case r of
                  Inl _ \<Rightarrow> Inl (http_error ''{\"error\":\"invalid_api_key\"}'' 401)
                | Inr cl \<Rightarrow> Inr cl, c')
         }
         else let authHeader = text_at (rq_headers req) ''Authorization'';
                  token = TrimPrefix authHeader ''Bearer ''
         in if authHeader = [] then ret (Inl (http_error ''{\"error\":\"missing_authorization\"}'' 401), c)
            else if token = authHeader
            then ret (Inl (http_error ''{\"error\":\"invalid_authorization_format\"}'' 401), c)
            else do {
              r \<leftarrow> validateJWT E sv token;
              ret (case r of
                     Inl e \<Rightarrow> Inl (http_error (''{\"error\":\"invalid_token\",\"message\":\"'' @ e @ ''\"}'') 401)
                   | Inr cl \<Rightarrow> Inr cl, c)
            })"

definition requireAdmin :: "claims option \<Rightarrow> reply option" where
  "requireAdmin cl =
     (case cl of
        None \<Rightarrow> Some (http_error ''{\"error\":\"admin_required\"}'' 403)
      | Some c \<Rightarrow> if cl_admin c then None else Some (http_error ''{\"error\":\"admin_required\"}'' 403))"

section \<open>Sandbox-scoped keys\<close>

definition scopedKeyRouteActions :: "(string \<times> string) list" where
  "scopedKeyRouteActions =
     [(''POST /api/v1/sandboxes/{id}/exec'', ''run-command''),
      (''GET /api/v1/sandboxes/{id}/files/'', ''files:read''),
      (''GET /api/v1/sandboxes/{id}/files/{path:.*}'', ''files:read''),
      (''PUT /api/v1/sandboxes/{id}/files/{path:.*}'', ''files:write''),
      (''GET /api/v1/sandboxes/{id}/archive'', ''files:read''),
      (''GET /api/v1/sandboxes/{id}/ports'', ''ports''),
      (''POST /api/v1/sandboxes/{id}/ports'', ''ports''),
      (''DELETE /api/v1/sandboxes/{id}/ports/{port}'', ''ports''),
      (''POST /api/v1/sandboxes/{id}/configure'', ''agent:configure''),
      (''GET /api/v1/sandboxes/{id}/configure/install-log'', ''agent:configure''),
      (''POST /api/v1/sandboxes/{id}/invoke'', ''agent:invoke''),
      (''POST /api/v1/sandboxes/{id}/invoke/cancel'', ''agent:invoke''),
      (''POST /api/v1/sandboxes/{id}/resume'', ''resume''),
      (''POST /api/v1/sandboxes/{id}/stop'', ''stop'')]"

definition stringSliceContains :: "string list \<Rightarrow> string \<Rightarrow> bool" where
  "stringSliceContains xs target = list_ex (\<lambda>v. v = target) xs"

text \<open>None lets the request through to its handler.\<close>

definition requireSandboxScope :: "claims option \<Rightarrow> http_request \<Rightarrow> reply option" where
  "requireSandboxScope claims req =
     (case claims of
        None \<Rightarrow> None
      | Some cl \<Rightarrow>
          if cl_sandbox cl = [] then None
          else if rq_route req = [] then Some (respondError 403 ''scoped key not permitted for this route'')
          else (case map_of scopedKeyRouteActions (rq_method req @ '' '' @ rq_route req) of
                  None \<Rightarrow> Some (respondError 403 ''scoped key not permitted for this route'')
                | Some action \<Rightarrow>
                    if text_at (rq_vars req) ''id'' \<noteq> cl_sandbox cl
                    then Some (respondError 403 ''scoped key is not bound to this sandbox'')
                    else if \<not> stringSliceContains (cl_actions cl) action
                    then Some (respondError 403 (''scoped key lacks the \"'' @ action @ ''\" action group''))
                    else None))"

text \<open>What a request to \<open>/api/v1\<close> passes before its handler: the middleware of the subrouter
  without the rate limiter.\<close>

definition api_gate ::
  "'w api \<Rightarrow> 'k server \<Rightarrow> key_store_cache \<Rightarrow> http_request \<Rightarrow> ('w, (reply + claims) \<times> key_store_cache) kprog" where
  "api_gate E sv c req = do {
     (r, c') \<leftarrow> authMiddleware E sv c req;
     ret (case r of
            Inl e \<Rightarrow> Inl e
          | Inr cl \<Rightarrow> (case requireSandboxScope (Some cl) req of Some e \<Rightarrow> Inl e | None \<Rightarrow> Inr cl), c')
   }"

section \<open>Finding a sandbox\<close>

definition resolveSandbox :: "'w api \<Rightarrow> 'k server \<Rightarrow> string \<Rightarrow> string \<Rightarrow> ('w, string + sandbox) kprog" where
  "resolveSandbox E sv sandboxID nsHint =
     (if nsHint \<noteq> [] then do {
        g \<leftarrow> ask E (GetSandbox nsHint sandboxID) as_sandbox;
        ret (case g of
               Inl _ \<Rightarrow> Inl (''sandbox '' @ sandboxID @ '' not found in namespace '' @ nsHint)
             | Inr sb \<Rightarrow> Inr sb)
      }
      else do {
        g \<leftarrow> ask E (GetSandbox (if sv_sandbox_ns sv = [] then ''default'' else sv_sandbox_ns sv) sandboxID)
               as_sandbox;
        (case g of
           Inr sb \<Rightarrow> ret (Inr sb)
         | Inl _ \<Rightarrow> do {
             ls \<leftarrow> ask E (ListSandboxes []) as_sandboxes;
             ret (case ls of
                    Inl _ \<Rightarrow> Inl (''sandbox '' @ sandboxID @ '' not found'')
                  | Inr items \<Rightarrow>
                      (case filter (\<lambda>sb. sb_name sb = sandboxID) items of
                         [] \<Rightarrow> Inl (''sandbox '' @ sandboxID @ '' not found'')
                       | [sb] \<Rightarrow> Inr sb
                       | _ \<Rightarrow> Inl (''sandbox '' @ sandboxID
                                @ '' exists in multiple namespaces; specify ?namespace=<ns>'')))
           })
      })"

section \<open>Access to a sandbox\<close>

definition owns :: "claims \<Rightarrow> sandbox \<Rightarrow> bool" where
  "owns cl sb \<longleftrightarrow>
     (case spec_created_by (sb_spec sb) of None \<Rightarrow> False | Some c \<Rightarrow> uid_sub c = cl_sub cl)"

definition getSandboxWithAuthCheck ::
  "'w api \<Rightarrow> 'k server \<Rightarrow> string \<Rightarrow> claims \<Rightarrow> ('w, string + sandbox) kprog" where
  "getSandboxWithAuthCheck E sv sandboxID cl = do {
     r \<leftarrow> resolveSandbox E sv sandboxID [];
     ret (case r of
            Inl e \<Rightarrow> Inl e
          | Inr sb \<Rightarrow>
              if \<not> cl_admin cl \<and> \<not> owns cl sb then Inl (''access denied to sandbox '' @ sandboxID)
              else Inr sb)
   }"

definition userCanAccessSandbox :: "sandbox \<Rightarrow> claims option \<Rightarrow> bool" where
  "userCanAccessSandbox sb claims =
     (case claims of
        None \<Rightarrow> False
      | Some cl \<Rightarrow>
          if cl_admin cl then True
          else if owns cl sb then True
          else (case spec_sharing (sb_spec sb) of
                  None \<Rightarrow> False
                | Some sh \<Rightarrow>
                    if list_ex (\<lambda>u. shp_identity u \<noteq> []
                          \<and> (shp_identity u = cl_sub cl \<or> shp_identity u = cl_email cl)) (sh_users sh)
                    then True
                    else list_ex (\<lambda>g. list_ex (\<lambda>cg. shp_identity g = cg) (cl_groups cl)) (sh_groups sh)))"

definition getSandboxForRead ::
  "'w api \<Rightarrow> 'k server \<Rightarrow> string \<Rightarrow> claims \<Rightarrow> ('w, string + sandbox) kprog" where
  "getSandboxForRead E sv sandboxID cl = do {
     r \<leftarrow> resolveSandbox E sv sandboxID [];
     ret (case r of
            Inl e \<Rightarrow> Inl e
          | Inr sb \<Rightarrow>
              if \<not> userCanAccessSandbox sb (Some cl) then Inl (''access denied to sandbox '' @ sandboxID)
              else Inr sb)
   }"

section \<open>The terminal's gate\<close>

text \<open>\<open>handleTerminalWebSocket\<close> up to the upgrade of the connection. The route is registered
  outside \<open>/api/v1\<close>, so neither \<open>authMiddleware\<close> nor \<open>requireSandboxScope\<close> runs before it.\<close>

definition terminal_claims ::
  "'w api \<Rightarrow> 'k server \<Rightarrow> key_store_cache \<Rightarrow> http_request \<Rightarrow> ('w, (reply + claims) \<times> key_store_cache) kprog" where
  "terminal_claims E sv c req =
     (if sv_dev_auth sv then ret (Inr dev_claims, c)
      else if text_at (rq_headers req) ''X-API-Key'' \<noteq> []
      then do {
        (r, c') \<leftarrow> validateAPIKey E sv c (text_at (rq_headers req) ''X-API-Key'');
        ret (case r of Inl _ \<Rightarrow> Inl (http_error ''invalid api key'' 401) | Inr cl \<Rightarrow> Inr cl, c')
      }
      else let query = text_at (rq_query req) ''token'';
               authHeader = text_at (rq_headers req) ''Authorization'';
               bearer = TrimPrefix authHeader ''Bearer '';
               token = if query \<noteq> [] then query else if bearer = authHeader then [] else bearer
      in if token = [] then ret (Inl (http_error ''missing authentication'' 401), c)
         else do {
           r \<leftarrow> validateJWT E sv token;
           ret (case r of Inl e \<Rightarrow> Inl (http_error (''invalid token: '' @ e) 401) | Inr cl \<Rightarrow> Inr cl, c)
         })"

definition terminal_gate ::
  "'w api \<Rightarrow> 'k server \<Rightarrow> key_store_cache \<Rightarrow> http_request
   \<Rightarrow> ('w, (reply + sandbox \<times> claims) \<times> key_store_cache) kprog" where
  "terminal_gate E sv c req = do {
     (a, c') \<leftarrow> terminal_claims E sv c req;
     (case a of
        Inl e \<Rightarrow> ret (Inl e, c')
      | Inr cl \<Rightarrow> do {
          r \<leftarrow> resolveSandbox E sv (text_at (rq_vars req) ''sandboxId'') (text_at (rq_query req) ''namespace'');
          ret (case r of
                 Inl _ \<Rightarrow> Inl (http_error ''sandbox not found'' 404)
               | Inr sb \<Rightarrow>
                   if \<not> userCanAccessSandbox sb (Some cl) then Inl (http_error ''access denied'' 403)
                   else if sb_phase sb \<noteq> SandboxPhaseRunning
                   then Inl (http_error ''sandbox is not running'' 409)
                   else Inr (sb, cl), c')
        })
   }"

section \<open>Lemmas on authentication and scope\<close>

lemma split_at_append: "split_at c (a @ c # b) = split_at c a @ split_at c b"
  by (induction a) (auto split: list.splits)

lemma split_at_single: "split_at c a = [x] \<Longrightarrow> a = x"
  using split_at_parts [of c a] by simp

lemma two_words:
  assumes "m @ CHR '' '' # r = s" "split_at CHR '' '' s = [a, b]"
  shows "m = a \<and> r = b"
proof -
  have "split_at CHR '' '' m @ split_at CHR '' '' r = [a, b]"
    using assms split_at_append [of "CHR '' ''" m r] by simp
  then obtain "split_at CHR '' '' m = [a]" "split_at CHR '' '' r = [b]"
    using split_at_nonempty by (auto simp: append_eq_Cons_conv)
  then show ?thesis by (simp add: split_at_single)
qed

text \<open>The routes of the table.\<close>

lemma scoped_routes:
  assumes "map_of scopedKeyRouteActions (m @ '' '' @ r) = Some action"
  shows "(\<exists>tail. r = ''/api/v1/sandboxes/{id}/'' @ tail)
    \<and> m \<in> {''GET'', ''POST'', ''PUT'', ''DELETE''} \<and> (m = ''DELETE'' \<longrightarrow> r = ''/api/v1/sandboxes/{id}/ports/{port}'')"
proof -
  have "(m @ '' '' @ r, action) \<in> set scopedKeyRouteActions"
    using assms by (rule map_of_SomeD)
  then obtain s where s: "m @ CHR '' '' # r = s" "(s, action) \<in> set scopedKeyRouteActions"
    by auto
  have split: "\<exists>a b. split_at CHR '' '' s = [a, b] \<and> prefix ''/api/v1/sandboxes/{id}/'' b
      \<and> a \<in> {''GET'', ''POST'', ''PUT'', ''DELETE''} \<and> (a = ''DELETE'' \<longrightarrow> b = ''/api/v1/sandboxes/{id}/ports/{port}'')"
    using s(2) unfolding scopedKeyRouteActions_def by (auto simp: prefix_def)
  then show ?thesis using two_words [OF s(1)] by (auto simp: prefix_def)
qed

lemma scope_passed_iff:
  "requireSandboxScope (Some cl) req = None \<longleftrightarrow>
     cl_sandbox cl = [] \<or> rq_route req \<noteq> []
       \<and> (\<exists>action. map_of scopedKeyRouteActions (rq_method req @ '' '' @ rq_route req) = Some action
            \<and> text_at (rq_vars req) ''id'' = cl_sandbox cl \<and> action \<in> set (cl_actions cl))"
  by (auto simp: requireSandboxScope_def stringSliceContains_def list_ex_iff split: option.splits)

lemma claimsFromAuth_simps [simp]:
  "cl_sub (claimsFromAuth ac) = ac_sub ac" "cl_admin (claimsFromAuth ac) = ac_admin ac"
  "cl_email (claimsFromAuth ac) = ac_email ac" "cl_groups (claimsFromAuth ac) = ac_groups ac"
  "cl_sandbox (claimsFromAuth ac) = ac_sandbox ac" "cl_actions (claimsFromAuth ac) = ac_actions ac"
  by (simp_all add: claimsFromAuth_def)

text \<open>Tokens never carry a scope.\<close>

lemma ValidateToken_unscoped:
  "run_state (ValidateToken E cfg te keys tok) s = (Inr ac, s') \<Longrightarrow> ac_sandbox ac = []"
  by (auto simp: ValidateToken_def run_bind token_claims_def Let_def split: sum.splits prod.splits)

lemma token_claims_unscoped: "fst (run_state (validateJWT E sv tok) s) = Inr cl \<Longrightarrow> cl_sandbox cl = []"
  by (auto simp: validateJWT_def run_bind split: option.splits sum.splits prod.splits
      dest: ValidateToken_unscoped)

text \<open>A request that passes the gate: how it authenticated and that its scope allows it.\<close>

lemma gate_admits:
  assumes "fst (fst (run_state (api_gate E sv c req) s)) = Inr cl"
  shows "requireSandboxScope (Some cl) req = None
    \<and> (if sv_dev_auth sv then cl = dev_claims
       else if text_at (rq_headers req) ''X-API-Key'' \<noteq> []
       then fst (fst (run_state (validateAPIKey E sv c (text_at (rq_headers req) ''X-API-Key'')) s)) = Inr cl
       else \<exists>tok. text_at (rq_headers req) ''Authorization'' = ''Bearer '' @ tok
              \<and> fst (run_state (validateJWT E sv tok) s) = Inr cl)"
proof -
  let ?h = "text_at (rq_headers req) ''Authorization''"
  have bearer: "?h = ''Bearer '' @ TrimPrefix ?h ''Bearer ''" if "TrimPrefix ?h ''Bearer '' \<noteq> ?h"
    using that by (auto simp: TrimPrefix_def has_prefix_def prefix_def split: if_splits)
  show ?thesis
    using assms bearer
    by (auto simp: api_gate_def authMiddleware_def run_bind Let_def
        split: sum.splits prod.splits if_splits option.splits)
qed

section \<open>Properties\<close>

text \<open>C6. A request that passes the gate with a sandbox-scoped identity came with an API key,
  addresses one of the routes below a sandbox, the sandbox is the one the key is bound to, and the
  route's action group is among those granted; in particular no scoped key reaches the deletion of
  a sandbox or a route outside that of its own.\<close>

theorem scoped_keys_stay_in_their_sandbox:
  assumes "fst (fst (run_state (api_gate E sv c req) s)) = Inr cl" and "cl_sandbox cl \<noteq> []"
  shows "fst (fst (run_state (validateAPIKey E sv c (text_at (rq_headers req) ''X-API-Key'')) s)) = Inr cl
    \<and> text_at (rq_vars req) ''id'' = cl_sandbox cl
    \<and> (\<exists>action tail. (rq_method req @ '' '' @ rq_route req, action) \<in> set scopedKeyRouteActions
         \<and> action \<in> set (cl_actions cl) \<and> rq_route req = ''/api/v1/sandboxes/{id}/'' @ tail)
    \<and> rq_method req \<noteq> ''PATCH''
    \<and> (rq_method req = ''DELETE'' \<longrightarrow> rq_route req = ''/api/v1/sandboxes/{id}/ports/{port}'')"
proof -
  obtain action where scope: "map_of scopedKeyRouteActions (rq_method req @ '' '' @ rq_route req) = Some action"
    "text_at (rq_vars req) ''id'' = cl_sandbox cl" "action \<in> set (cl_actions cl)"
    using gate_admits [OF assms(1)] assms(2) by (auto simp: scope_passed_iff)
  have "fst (fst (run_state (validateAPIKey E sv c (text_at (rq_headers req) ''X-API-Key'')) s)) = Inr cl"
    using gate_admits [OF assms(1)] assms(2)
    by (auto simp: dev_claims_def split: if_splits dest: token_claims_unscoped)
  with scope scoped_routes [OF scope(1)] map_of_SomeD [OF scope(1)] show ?thesis by auto
qed

text \<open>A server without an OIDC issuer, and a request with the key of \<open>one_key\<close>: the key is bound to
  sandbox \<open>sb\<close> and may only stop it.\<close>

definition keys_only :: "unit server" where
  "keys_only =
     \<lparr>sv_install_ns = [], sv_sandbox_ns = [], sv_cors = [], sv_dev_auth = False, sv_oidc = None,
      sv_key_ttl = Some 60\<rparr>"

definition request_with_key :: "string \<Rightarrow> string \<Rightarrow> (string \<rightharpoonup> string) \<Rightarrow> http_request" where
  "request_with_key m route vars =
     \<lparr>rq_method = m, rq_route = route, rq_vars = vars, rq_headers = [''X-API-Key'' \<mapsto> ''atk_A''],
      rq_query = Map.empty\<rparr>"

lemma one_key_request:
  "run_state (validateAPIKey one_key_server keys_only (NewLRUCache 5) ''atk_A'') (7, [])
     = ((Inr (claimsFromAuth (record_claims one_key)),
         lru_put (NewLRUCache 5) (hashAPIKey ''atk_A'')
           \<lparr>ce_claims = record_claims one_key, ce_cached = 8, ce_expires = Some 100\<rparr>),
        (9, [(GetSecret ''agenttier'' (SecretNameForHash (hashAPIKey ''atk_A'')),
              RSecret (key_secret ''agenttier'' (hashAPIKey ''atk_A'') one_key)),
             (Now, RTime 7), (Now, RTime 8)]))"
  by (simp add: validateAPIKey_def keys_only_def New_def run_bind one_key_validates)

theorem scoped_keys_stay_in_their_sandbox_witness:
  "\<exists>cl. fst (fst (run_state (api_gate one_key_server keys_only (NewLRUCache 5)
          (request_with_key ''POST'' ''/api/v1/sandboxes/{id}/stop'' [''id'' \<mapsto> ''sb''])) (7, []))) = Inr cl
     \<and> cl_sandbox cl = ''sb'' \<and> rq_method (request_with_key ''POST'' ''/api/v1/sandboxes/{id}/stop'' [''id'' \<mapsto> ''sb'']) \<noteq> ''PATCH''"
proof -
  let ?req = "request_with_key ''POST'' ''/api/v1/sandboxes/{id}/stop'' [''id'' \<mapsto> ''sb'']"
  have head: "text_at (rq_headers ?req) ''X-API-Key'' = ''atk_A''" "\<not> sv_dev_auth keys_only"
    by (simp_all add: request_with_key_def text_at_def keys_only_def)
  have "requireSandboxScope (Some (claimsFromAuth (record_claims one_key))) ?req = None"
    by (simp add: scope_passed_iff request_with_key_def text_at_def scopedKeyRouteActions_def
        record_claims_def one_key_def)
  then have ok: "fst (fst (run_state (api_gate one_key_server keys_only (NewLRUCache 5) ?req) (7, [])))
      = Inr (claimsFromAuth (record_claims one_key))"
    by (simp add: api_gate_def authMiddleware_def head run_bind one_key_request)
  have bound: "cl_sandbox (claimsFromAuth (record_claims one_key)) = ''sb''"
    by (simp add: record_claims_def one_key_def)
  show ?thesis
    using ok bound scoped_keys_stay_in_their_sandbox [OF ok] by auto
qed

text \<open>The terminal does not look at the scope of a key: that key opens a shell in any other running
  sandbox of its owner.\<close>

definition other_sandbox :: sandbox where
  "other_sandbox =
     (new_sandbox ''default'' ''other'' (empty_spec\<lparr>spec_created_by :=
          Some \<lparr>uid_sub = ''ann'', uid_email = [], uid_display = []\<rparr>\<rparr>))
       \<lparr>sb_status := empty_status\<lparr>st_phase := SandboxPhaseRunning\<rparr>\<rparr>"

fun one_key_cluster :: "instant api" where
  "one_key_cluster w (GetSandbox ns n) =
     (if n = ''other'' then RSandbox other_sandbox else RErr NotFound, w)"
| "one_key_cluster w q = one_key_server w q"

lemma terminal_ignores_key_scope:
  "map_option (\<lambda>(sb, cl). (sb_name sb, cl_sandbox cl, cl_actions cl))
     (case fst (fst (run_state (terminal_gate one_key_cluster keys_only (NewLRUCache 5)
              (request_with_key ''GET'' ''/ws/terminal/{sandboxId}'' [''sandboxId'' \<mapsto> ''other''])) (7, [])))
      of Inr x \<Rightarrow> Some x | Inl _ \<Rightarrow> None)
   = Some (''other'', ''sb'', [''stop''])"
proof -
  let ?k = "hashAPIKey ''atk_A''"
  have key: "run_state (validateAPIKey one_key_cluster keys_only (NewLRUCache 5) ''atk_A'') (7, [])
      = run_state (validateAPIKey one_key_server keys_only (NewLRUCache 5) ''atk_A'') (7, [])"
    by (simp add: validateAPIKey_def keys_only_def New_def run_bind ValidateKey_def lru_get_def
        NewLRUCache_def validate_in_store_def GetAPIKeyByHash_eq found_record_def stored_record_def
        record_in_def key_secret_def secret_text_def key_expired_simps Let_def,
       simp add: one_key_def key_expired_simps run_bind)
  show ?thesis
    by (simp add: terminal_gate_def terminal_claims_def request_with_key_def text_at_def run_bind key
        one_key_request, simp add: keys_only_def resolveSandbox_def run_bind userCanAccessSandbox_def
        owns_def other_sandbox_def new_sandbox_def record_claims_def one_key_def empty_spec_def)
qed

end
