(* ===== verification/Sandbox_Handlers.thy ===== *)
theory Sandbox_Handlers
  imports Access_Control Governance
begin

text \<open>
  The REST handlers of the router for sandboxes (\<open>pkg/router/handlers.go\<close>, \<open>bulk_handlers.go\<close>,
  \<open>patch_handlers.go\<close>): create, list, get, delete, stop, resume, clone, patch, and the bulk
  forms of create and of stop, resume and delete. Each is a program over the API server that
  ends in a reply. Its arguments are the claims that the gate stored, the path variables and
  query parameters it reads, and its decoded body.
\<close>

section \<open>Replies\<close>

fun mode_text :: "sandbox_mode \<Rightarrow> string" where
  "mode_text ModeUnset = []"
| "mode_text SandboxModeCode = ''code''"
| "mode_text SandboxModeAgent = ''agent''"
| "mode_text (ModeOther m) = m"

definition sandboxToJSON :: "sandbox \<Rightarrow> json" where
  "sandboxToJSON sb =
     JObj ([(''sandboxId'', JText (sb_name sb)), (''name'', JText (sb_name sb)),
            (''namespace'', JText (sb_namespace sb)), (''status'', JText (phase_text (sb_phase sb))),
            (''podName'', JText (st_pod (sb_status sb))), (''pvcName'', JText (st_pvc (sb_status sb))),
            (''templateRef'', JText (st_template (sb_status sb))),
            (''mode'', JText (if mode_text (spec_mode (sb_spec sb)) = [] then ''code''
                             else mode_text (spec_mode (sb_spec sb)))),
            (''createdAt'', JTime (sb_created sb)), (''message'', JText (st_message (sb_status sb)))]
       @ (case spec_created_by (sb_spec sb) of
            None \<Rightarrow> []
          | Some c \<Rightarrow> [(''createdBy'', JObj [(''email'', JText (uid_email c)),
                                           (''displayName'', JText (uid_display c))])])
       @ (case st_last_activity (sb_status sb) of
            None \<Rightarrow> []
          | Some t \<Rightarrow> [(''lastActivityAt'', JTime t)]))"

definition violationsToJSON :: "violation list \<Rightarrow> json" where
  "violationsToJSON vs =
     JList (map (\<lambda>v. JObj [(''code'', JText (vio_code v)), (''message'', JText (vio_message v))]) vs)"

definition unauthenticated :: reply where
  "unauthenticated = respondError 401 ''authentication required''"

text \<open>\<open>parseDuration\<close>, whose error texts end in Go's own where it has none of its own.\<close>

definition parseDuration :: "string \<Rightarrow> string + duration" where
  "parseDuration s =
     (case ParseDuration s of
        None \<Rightarrow> Inl (''invalid duration '' @ show_quoted s)
      | Some d \<Rightarrow> if d \<le> 0 then Inl (''duration '' @ show_quoted s @ '' must be positive'') else Inr d)"

section \<open>Creation\<close>

record create_request =
  cq_name :: string
  cq_namespace :: string
  cq_template :: "template_reference option"
  cq_timeout :: string
  cq_idle_timeout :: string
  cq_storage :: "storage_spec option"

definition resolveTemplateMode ::
  "'w api \<Rightarrow> template_reference option \<Rightarrow> string \<Rightarrow> ('w, sandbox_mode) kprog" where
  "resolveTemplateMode E ref sandboxNamespace =
     (case ref of
        None \<Rightarrow> ret ModeUnset
      | Some r \<Rightarrow>
          if tr_name r = [] then ret ModeUnset
          else let kind = (if tr_kind r = [] then ''ClusterSandboxTemplate'' else tr_kind r)
          in if kind = ''ClusterSandboxTemplate''
             then do {
               t \<leftarrow> ask E (GetClusterTemplate (tr_name r)) as_template;
               ret (case t of Inl _ \<Rightarrow> ModeUnset | Inr (tpl, _) \<Rightarrow> tpl_mode tpl)
             }
             else if kind = ''SandboxTemplate''
             then do {
               t \<leftarrow> ask E (GetTemplate (if tr_namespace r = [] then sandboxNamespace else tr_namespace r)
                             (tr_name r)) as_template;
               ret (case t of Inl _ \<Rightarrow> ModeUnset | Inr (tpl, _) \<Rightarrow> tpl_mode tpl)
             }
             else ret ModeUnset)"

text \<open>\<open>item.Namespace\<close>, the configured namespace, or \<open>default\<close>.\<close>

definition default_namespace :: "'k server \<Rightarrow> string" where
  "default_namespace sv = (if sv_sandbox_ns sv = [] then ''default'' else sv_sandbox_ns sv)"

definition request_namespace :: "'k server \<Rightarrow> create_request \<Rightarrow> string" where
  "request_namespace sv q = (if cq_namespace q = [] then default_namespace sv else cq_namespace q)"

definition identity_of :: "claims \<Rightarrow> user_identity" where
  "identity_of cl = \<lparr>uid_sub = cl_sub cl, uid_email = cl_email cl, uid_display = cl_name cl\<rparr>"

text \<open>The object of a create request, once the template's mode is known.\<close>

definition requested_sandbox :: "claims \<Rightarrow> string \<Rightarrow> sandbox_mode \<Rightarrow> create_request \<Rightarrow> string + sandbox" where
  "requested_sandbox cl ns mode q =
     (let sp = empty_spec\<lparr>spec_template := cq_template q, spec_created_by := Some (identity_of cl),
                 spec_mode := mode, spec_storage := cq_storage q\<rparr>
      in case (if cq_timeout q = [] then Inr None
               else case parseDuration (cq_timeout q) of
                      Inl e \<Rightarrow> Inl (''invalid timeout: '' @ e) | Inr d \<Rightarrow> Inr (Some d)) of
           Inl e \<Rightarrow> Inl e
         | Inr timeout \<Rightarrow>
             (case (if cq_idle_timeout q = [] then Inr None
                    else case parseDuration (cq_idle_timeout q) of
                           Inl e \<Rightarrow> Inl (''invalid idleTimeout: '' @ e) | Inr d \<Rightarrow> Inr (Some d)) of
                Inl e \<Rightarrow> Inl e
              | Inr idle \<Rightarrow>
                  Inr (new_sandbox ns (cq_name q) (sp\<lparr>spec_timeout := timeout, spec_idle_timeout := idle\<rparr>))))"

text \<open>The policy check of a create: None when it may go ahead. A policy that cannot be resolved is
  logged and not enforced.\<close>

definition governance_refusal ::
  "(string \<Rightarrow> quantity option) \<Rightarrow> 'w api \<Rightarrow> claims \<Rightarrow> string \<Rightarrow> sandbox \<Rightarrow> ('w, reply option) kprog" where
  "governance_refusal PQ E cl ns sb = do {
     p \<leftarrow> ResolvePolicy E ns;
     (case p of
        Inl _ \<Rightarrow> ret None
      | Inr policy \<Rightarrow>
          if IsEmpty policy then ret None
          else do {
            ls \<leftarrow> ask E (ListSandboxes ns) as_sandboxes;
            ret (case ls of
                   Inl e \<Rightarrow> Some (respondError 500 (''failed to check namespace usage: '' @ err_text e))
                 | Inr items \<Rightarrow>
                     (let vs = Check PQ policy (CountUsage items (cl_sub cl)) sb
                      in if vs \<noteq> []
                         then Some (respondJSON 403 (JObj [(''error'', JText ''policy_violation''),
                                                         (''violations'', violationsToJSON vs)]))
                         else None))
          })
   }"

definition handleCreateSandbox ::
  "(string \<Rightarrow> quantity option) \<Rightarrow> 'w api \<Rightarrow> 'k server \<Rightarrow> claims option \<Rightarrow> string + create_request
   \<Rightarrow> ('w, reply) kprog" where
  "handleCreateSandbox PQ E sv claims body =
     (case claims of
        None \<Rightarrow> ret unauthenticated
      | Some cl \<Rightarrow>
          (case body of
             Inl e \<Rightarrow> ret (respondError 400 (''invalid request body: '' @ e))
           | Inr q \<Rightarrow>
               if cq_name q = [] then ret (respondError 400 ''name is required'')
               else (case cq_template q of
                 None \<Rightarrow> ret (respondError 400 ''templateRef.name is required'')
               | Some tref \<Rightarrow>
                   if tr_name tref = [] then ret (respondError 400 ''templateRef.name is required'')
                   else let ns = request_namespace sv q
                   in do {
                     mode \<leftarrow> resolveTemplateMode E (Some tref) ns;
                     (case requested_sandbox cl ns mode q of
                        Inl e \<Rightarrow> ret (respondError 400 e)
                      | Inr sb \<Rightarrow> do {
                          refusal \<leftarrow> governance_refusal PQ E cl ns sb;
                          (case refusal of
                             Some rep \<Rightarrow> ret rep
                           | None \<Rightarrow> do {
                               c \<leftarrow> ask E (CreateSandbox sb) as_sandbox;
                               (case c of
                                  Inl e \<Rightarrow> ret (respondError 500 (''failed to create sandbox: '' @ err_text e))
                                | Inr created \<Rightarrow> do {
                                    tell E (RecordAudit (cl_sub cl) ''create'' ''sandbox'' (sb_name created));
                                    ret (respondJSON 201 (JObj
                                      [(''sandboxId'', JText (sb_name created)), (''name'', JText (sb_name created)),
                                       (''namespace'', JText (sb_namespace created)),
                                       (''status'', JText ''Creating''),
                                       (''templateRef'', JText (case spec_template (sb_spec created) of
                                                                None \<Rightarrow> [] | Some t \<Rightarrow> tr_name t))]))
                                  })
                             })
                        })
                   })))"

section \<open>Reading\<close>

text \<open>A nil slice encodes as \<open>null\<close>.\<close>

definition handleListSandboxes ::
  "'w api \<Rightarrow> claims option \<Rightarrow> string \<Rightarrow> string \<Rightarrow> ('w, reply) kprog" where
  "handleListSandboxes E claims ns statusFilter =
     (case claims of
        None \<Rightarrow> ret unauthenticated
      | Some cl \<Rightarrow> do {
          ls \<leftarrow> ask E (ListSandboxes ns) as_sandboxes;
          ret (case ls of
                 Inl e \<Rightarrow> respondError 500 (''failed to list sandboxes: '' @ err_text e)
               | Inr items \<Rightarrow>
                   (let results = map sandboxToJSON
                          (filter (\<lambda>sb. (cl_admin cl \<or> owns cl sb)
                             \<and> (statusFilter = [] \<or> phase_text (sb_phase sb) = statusFilter)) items)
                    in respondJSON 200 (JObj [(''sandboxes'', if results = [] then JNull else JList results)])))
        })"

definition handleGetSandbox ::
  "'w api \<Rightarrow> 'k server \<Rightarrow> claims option \<Rightarrow> string \<Rightarrow> ('w, reply) kprog" where
  "handleGetSandbox E sv claims sandboxID =
     (case claims of
        None \<Rightarrow> ret unauthenticated
      | Some cl \<Rightarrow> do {
          r \<leftarrow> getSandboxForRead E sv sandboxID cl;
          ret (case r of
                 Inl e \<Rightarrow> respondError 404 e
               | Inr sb \<Rightarrow> respondJSON 200 (sandboxToJSON sb))
        })"

section \<open>Life cycle\<close>

definition handleDeleteSandbox ::
  "'w api \<Rightarrow> 'k server \<Rightarrow> claims option \<Rightarrow> string \<Rightarrow> ('w, reply) kprog" where
  "handleDeleteSandbox E sv claims sandboxID =
     (case claims of
        None \<Rightarrow> ret unauthenticated
      | Some cl \<Rightarrow> do {
          r \<leftarrow> getSandboxWithAuthCheck E sv sandboxID cl;
          (case r of
             Inl e \<Rightarrow> ret (respondError 404 e)
           | Inr sb \<Rightarrow> do {
               d \<leftarrow> ask E (DeleteSandbox (sb_namespace sb) (sb_name sb)) as_unit;
               ret (case d of
                      Inl e \<Rightarrow> respondError 500 (''failed to delete sandbox: '' @ err_text e)
                    | Inr _ \<Rightarrow> respondEmpty 204)
             })
        })"

definition with_stop_annotation :: "sandbox \<Rightarrow> sandbox" where
  "with_stop_annotation sb = sb\<lparr>sb_annotations := (sb_annotations sb)(''agenttier.io/action'' \<mapsto> ''stop'')\<rparr>"

definition handleStopSandbox ::
  "'w api \<Rightarrow> 'k server \<Rightarrow> claims option \<Rightarrow> string \<Rightarrow> ('w, reply) kprog" where
  "handleStopSandbox E sv claims sandboxID =
     (case claims of
        None \<Rightarrow> ret unauthenticated
      | Some cl \<Rightarrow> do {
          r \<leftarrow> getSandboxWithAuthCheck E sv sandboxID cl;
          (case r of
             Inl e \<Rightarrow> ret (respondError 404 e)
           | Inr sb \<Rightarrow>
               if sb_phase sb \<noteq> SandboxPhaseRunning
               then ret (respondError 409 (''cannot stop sandbox in phase '' @ phase_text (sb_phase sb)))
               else do {
                 u \<leftarrow> ask E (UpdateSandbox (with_stop_annotation sb)) as_sandbox;
                 ret (case u of
                        Inl e \<Rightarrow> respondError 500 (''failed to stop sandbox: '' @ err_text e)
                      | Inr _ \<Rightarrow> respondJSON 200 (JObj [(''status'', JText ''stopping'')]))
               })
        })"

definition marked_resuming :: "sandbox \<Rightarrow> sandbox" where
  "marked_resuming sb =
     sb\<lparr>sb_status := (sb_status sb)\<lparr>st_phase := SandboxPhaseCreating, st_message := ''Resuming''\<rparr>\<rparr>"

definition handleResumeSandbox ::
  "'w api \<Rightarrow> 'k server \<Rightarrow> claims option \<Rightarrow> string \<Rightarrow> ('w, reply) kprog" where
  "handleResumeSandbox E sv claims sandboxID =
     (case claims of
        None \<Rightarrow> ret unauthenticated
      | Some cl \<Rightarrow> do {
          r \<leftarrow> getSandboxWithAuthCheck E sv sandboxID cl;
          (case r of
             Inl e \<Rightarrow> ret (respondError 404 e)
           | Inr sb \<Rightarrow>
               if sb_phase sb \<noteq> SandboxPhaseStopped \<and> sb_phase sb \<noteq> SandboxPhaseError
               then ret (respondError 409 (''cannot resume sandbox in phase '' @ phase_text (sb_phase sb)))
               else do {
                 u \<leftarrow> ask E (UpdateSandboxStatus (marked_resuming sb)) as_sandbox;
                 ret (case u of
                        Inl e \<Rightarrow> respondError 500 (''failed to resume sandbox: '' @ err_text e)
                      | Inr _ \<Rightarrow> respondJSON 200 (JObj [(''status'', JText ''resuming'')]))
               })
        })"

section \<open>Cloning\<close>

record clone_request =
  clq_name :: string
  clq_class :: string

text \<open>The regular expression \<open>validSandboxName\<close>, and \<open>strings.TrimSpace\<close> on ASCII.\<close>

definition lower_alnum :: "char \<Rightarrow> bool" where
  "lower_alnum c \<longleftrightarrow> c \<in> set ''abcdefghijklmnopqrstuvwxyz0123456789''"

definition validSandboxName :: "string \<Rightarrow> bool" where
  "validSandboxName s \<longleftrightarrow>
     s \<noteq> [] \<and> length s \<le> 63 \<and> lower_alnum (hd s) \<and> lower_alnum (last s)
     \<and> list_all (\<lambda>c. lower_alnum c \<or> c = CHR ''-'') s"

definition is_space :: "char \<Rightarrow> bool" where
  "is_space c \<longleftrightarrow> c \<in> {CHR 0x09, CHR 0x0A, CHR 0x0B, CHR 0x0C, CHR 0x0D, CHR '' ''}"

definition TrimSpace :: "string \<Rightarrow> string" where
  "TrimSpace s = rev (dropWhile is_space (rev (dropWhile is_space s)))"

definition clone_snapshot :: "sandbox \<Rightarrow> string \<Rightarrow> string \<Rightarrow> string \<Rightarrow> snapshot" where
  "clone_snapshot source snapName cloneName cls =
     \<lparr>snap_name = snapName, snap_namespace = sb_namespace source,
      snap_labels = [''agenttier.io/source-sandbox'' \<mapsto> sb_name source,
                     ''agenttier.io/clone-target'' \<mapsto> cloneName],
      snap_pvc = st_pvc (sb_status source), snap_class = (if cls = [] then None else Some cls),
      snap_created = None, snap_deleting = False, snap_status = None\<rparr>"

definition clone_of :: "sandbox \<Rightarrow> claims \<Rightarrow> string \<Rightarrow> string \<Rightarrow> sandbox" where
  "clone_of source cl cloneName snapName =
     (new_sandbox (sb_namespace source) cloneName
        ((sb_spec source)\<lparr>spec_clone_from := snapName, spec_created_by := Some (identity_of cl)\<rparr>))
       \<lparr>sb_labels := [''agenttier.io/cloned-from'' \<mapsto> sb_name source]\<rparr>"

definition clone_from ::
  "'w api \<Rightarrow> claims \<Rightarrow> sandbox \<Rightarrow> string \<Rightarrow> string \<Rightarrow> ('w, reply) kprog" where
  "clone_from E cl source cloneName cls = do {
     now \<leftarrow> ask E Now as_time;
     let snapName = sb_name source @ ''-snap-'' @ show_int (unix_seconds now);
     s \<leftarrow> ask E (CreateSnapshot (clone_snapshot source snapName cloneName cls)) as_unit;
     (case s of
        Inl e \<Rightarrow> ret (respondError 500 (''failed to create VolumeSnapshot: '' @ err_text e))
      | Inr _ \<Rightarrow> do {
          c \<leftarrow> ask E (CreateSandbox (clone_of source cl cloneName snapName)) as_sandbox;
          (case c of
             Inl e \<Rightarrow> do {
               tell E (DeleteSnapshot (sb_namespace source) snapName);
               ret (respondError 500 (''failed to create cloned sandbox: '' @ err_text e))
             }
           | Inr created \<Rightarrow> do {
               tell E (UpdateSandboxStatus
                 (created\<lparr>sb_status := (sb_status created)\<lparr>st_cloned_from := sb_name source\<rparr>\<rparr>));
               ret (respondJSON 202 (JObj
                 [(''name'', JText cloneName), (''namespace'', JText (sb_namespace created)),
                  (''snapshot'', JText snapName), (''clonedFrom'', JText (sb_name source)),
                  (''phase'', JText ''Pending''),
                  (''message'', JText (''Clone in progress. Poll GET /api/v1/sandboxes/'' @ cloneName
                     @ '' for status; PVC provisioning waits on the VolumeSnapshot becoming readyToUse (typically 30-90 seconds on EBS).''))]))
             })
        })
   }"

text \<open>The body is optional.\<close>

definition handleCloneSandbox ::
  "'w api \<Rightarrow> 'k server \<Rightarrow> claims option \<Rightarrow> string \<Rightarrow> (string + clone_request) option
   \<Rightarrow> ('w, reply) kprog" where
  "handleCloneSandbox E sv claims sourceID body =
     (case claims of
        None \<Rightarrow> ret unauthenticated
      | Some cl \<Rightarrow> do {
          r \<leftarrow> getSandboxWithAuthCheck E sv sourceID cl;
          (case r of
             Inl e \<Rightarrow> ret (respondError 404 e)
           | Inr source \<Rightarrow>
               if st_pvc (sb_status source) = []
               then ret (respondError 400 (''sandbox '' @ sb_name source
                      @ '' has no PVC to clone (phase='' @ phase_text (sb_phase source) @ '')''))
               else (case (case body of None \<Rightarrow> Inr \<lparr>clq_name = [], clq_class = []\<rparr> | Some b \<Rightarrow> b) of
                 Inl e \<Rightarrow> ret (respondError 400 (''invalid request body: '' @ e))
               | Inr q \<Rightarrow> do {
                   cloneName \<leftarrow>
                     (if TrimSpace (clq_name q) \<noteq> [] then ret (TrimSpace (clq_name q))
                      else do {
                        now \<leftarrow> ask E Now as_time;
                        ret (sb_name source @ ''-clone-'' @ show_int (unix_seconds now))
                      });
                   if \<not> validSandboxName cloneName
                   then ret (respondError 400 ''name must match RFC 1123 label rules: lowercase alphanumeric or '-', start/end alphanumeric, max 63 chars'')
                   else clone_from E cl source cloneName (clq_class q)
                 }))
        })"

end
