(* ===== verification/Bulk_Handlers.thy ===== *)
theory Bulk_Handlers
  imports Sandbox_Handlers
begin

text \<open>
  The bulk handlers (\<open>pkg/router/bulk_handlers.go\<close>) and the partial update of a sandbox
  (\<open>pkg/router/patch_handlers.go\<close>).
\<close>

section \<open>Bulk creation\<close>

text \<open>A program for each element, the results in order.\<close>

fun collect :: "'x list \<Rightarrow> ('x \<Rightarrow> ('s, 'b) state) \<Rightarrow> ('s, 'b list) state" where
  "collect [] f = ret []"
| "collect (x # xs) f = do { y \<leftarrow> f x; ys \<leftarrow> collect xs f; ret (y # ys) }"

record bulk_create_result =
  bcr_index :: nat
  bcr_status :: string
  bcr_sandbox :: string
  bcr_error :: string

definition bulk_failed :: "nat \<Rightarrow> string \<Rightarrow> bulk_create_result" where
  "bulk_failed i e = \<lparr>bcr_index = i, bcr_status = ''error'', bcr_sandbox = [], bcr_error = e\<rparr>"

definition createOneBulkSandbox ::
  "(string \<Rightarrow> quantity option) \<Rightarrow> 'w api \<Rightarrow> claims \<Rightarrow> nat \<Rightarrow> create_request \<Rightarrow> string \<Rightarrow> policy \<Rightarrow> usage
   \<Rightarrow> ('w, bulk_create_result) kprog" where
  "createOneBulkSandbox PQ E cl index item defaultNamespace policy usage =
     (if cq_name item = [] then ret (bulk_failed index ''name is required'')
      else (case cq_template item of
        None \<Rightarrow> ret (bulk_failed index ''templateRef.name is required'')
      | Some tref \<Rightarrow>
          if tr_name tref = [] then ret (bulk_failed index ''templateRef.name is required'')
          else let ns = (if cq_namespace item = [] then defaultNamespace else cq_namespace item)
          in do {
            mode \<leftarrow> resolveTemplateMode E (Some tref) ns;
            (case requested_sandbox cl ns mode item of
               Inl e \<Rightarrow> ret (bulk_failed index e)
             | Inr sb \<Rightarrow>
                 (let vs = Check PQ policy usage sb
                  in if \<not> IsEmpty policy \<and> vs \<noteq> []
                     then ret (bulk_failed index (''policy_violation: '' @ violations_text vs))
                     else do {
                       c \<leftarrow> ask E (CreateSandbox sb) as_sandbox;
                       ret (case c of
                              Inl e \<Rightarrow> bulk_failed index (''failed to create sandbox: '' @ err_text e)
                            | Inr created \<Rightarrow>
                                \<lparr>bcr_index = index, bcr_status = ''created'', bcr_sandbox = sb_name created,
                                 bcr_error = []\<rparr>)
                     }))
          }))"

text \<open>The aggregate check of every namespace in the batch, in the order in which this run
  iterates over the map of namespaces; it collects the policy and usage of each that has one.\<close>

fun check_namespaces ::
  "'w api \<Rightarrow> 'k server \<Rightarrow> claims \<Rightarrow> create_request list \<Rightarrow> string list
   \<Rightarrow> (string \<rightharpoonup> policy \<times> usage) \<Rightarrow> ('w, reply + (string \<rightharpoonup> policy \<times> usage)) kprog" where
  "check_namespaces E sv cl items [] known = ret (Inr known)"
| "check_namespaces E sv cl items (ns # rest) known = do {
     p \<leftarrow> ResolvePolicy E ns;
     (case p of
        Inl _ \<Rightarrow> check_namespaces E sv cl items rest known
      | Inr policy \<Rightarrow>
          if IsEmpty policy then check_namespaces E sv cl items rest known
          else do {
            ls \<leftarrow> ask E (ListSandboxes ns) as_sandboxes;
            (case ls of
               Inl e \<Rightarrow> ret (Inl (respondError 500 (''failed to check namespace usage: '' @ err_text e)))
             | Inr existing \<Rightarrow>
                 (let usage = CountUsage existing (cl_sub cl);
                      mine = filter (\<lambda>q. request_namespace sv q = ns) items
                  in do {
                    modes \<leftarrow> collect mine (\<lambda>q. resolveTemplateMode E (cq_template q) ns);
                    (let agentN = length (filter (\<lambda>m. m = SandboxModeAgent) modes);
                         vs = CheckBulk policy usage (length mine) agentN
                     in if vs \<noteq> []
                        then ret (Inl (respondJSON 409 (JObj
                               [(''error'', JText ''quota_would_exceed''), (''namespace'', JText ns),
                                (''violations'', violationsToJSON vs)])))
                        else check_namespaces E sv cl items rest (known(ns \<mapsto> (policy, usage))))
                  }))
          })
   }"

definition bulkResultJSON :: "bulk_create_result \<Rightarrow> json" where
  "bulkResultJSON r =
     JObj ([(''index'', JInt (int (bcr_index r))), (''status'', JText (bcr_status r))]
       @ (if bcr_sandbox r = [] then [] else [(''sandboxId'', JText (bcr_sandbox r))])
       @ (if bcr_error r = [] then [] else [(''error'', JText (bcr_error r))]))"

text \<open>A namespace without an entry reads as the zero policy and usage. \<open>order\<close> is the order of
  the map of namespaces, which Go leaves open.\<close>

definition known_limits :: "(string \<rightharpoonup> policy \<times> usage) \<Rightarrow> string \<Rightarrow> policy \<times> usage" where
  "known_limits known ns =
     (case known ns of None \<Rightarrow> (empty_policy, \<lparr>us_total = 0, us_user = 0, us_agent = 0\<rparr>) | Some x \<Rightarrow> x)"

definition handleBulkCreate ::
  "(string \<Rightarrow> quantity option) \<Rightarrow> (string list \<Rightarrow> string list) \<Rightarrow> 'w api \<Rightarrow> 'k server \<Rightarrow> claims option
   \<Rightarrow> string + create_request list \<Rightarrow> ('w, reply) kprog" where
  "handleBulkCreate PQ order E sv claims body =
     (case claims of
        None \<Rightarrow> ret unauthenticated
      | Some cl \<Rightarrow>
          if cl_sandbox cl \<noteq> []
          then ret (respondError 403 ''sandbox-scoped keys may not perform bulk operations'')
          else (case body of
             Inl e \<Rightarrow> ret (respondError 400 (''invalid request body: '' @ e))
           | Inr items \<Rightarrow>
               if items = [] then ret (respondError 400 ''items must be a non-empty array'')
               else do {
                 checked \<leftarrow> check_namespaces E sv cl items
                              (order (remdups (map (request_namespace sv) items))) Map.empty;
                 (case checked of
                    Inl rep \<Rightarrow> ret rep
                  | Inr known \<Rightarrow> do {
                      results \<leftarrow> collect (enumerate 0 items) (\<lambda>(i, item).
                        case known_limits known (request_namespace sv item) of (policy, usage) \<Rightarrow>
                          createOneBulkSandbox PQ E cl i item (default_namespace sv) policy usage);
                      tell E (RecordAudit (cl_sub cl) ''bulk.create'' ''sandbox'' []);
                      ret (respondJSON 200 (JObj [(''results'', JList (map bulkResultJSON results))]))
                    })
               }))"

section \<open>Bulk actions\<close>

record bulk_action_result =
  bar_id :: string
  bar_status :: string
  bar_error :: string

definition action_done :: "string \<Rightarrow> bulk_action_result" where
  "action_done i = \<lparr>bar_id = i, bar_status = ''ok'', bar_error = []\<rparr>"

definition action_failed :: "string \<Rightarrow> string \<Rightarrow> bulk_action_result" where
  "action_failed i e = \<lparr>bar_id = i, bar_status = ''error'', bar_error = e\<rparr>"

definition applyOneBulkAction ::
  "'w api \<Rightarrow> 'k server \<Rightarrow> claims \<Rightarrow> string \<Rightarrow> string \<Rightarrow> ('w, bulk_action_result) kprog" where
  "applyOneBulkAction E sv cl act i = do {
     r \<leftarrow> getSandboxWithAuthCheck E sv i cl;
     (case r of
        Inl e \<Rightarrow> ret (action_failed i e)
      | Inr sb \<Rightarrow>
          if act = ''stop''
          then (if sb_phase sb \<noteq> SandboxPhaseRunning
                then ret (action_failed i (''cannot stop sandbox in phase '' @ phase_text (sb_phase sb)))
                else do {
                  u \<leftarrow> ask E (UpdateSandbox (with_stop_annotation sb)) as_sandbox;
                  ret (case u of
                         Inl e \<Rightarrow> action_failed i (''failed to stop sandbox: '' @ err_text e)
                       | Inr _ \<Rightarrow> action_done i)
                })
          else if act = ''resume''
          then (if sb_phase sb \<noteq> SandboxPhaseStopped \<and> sb_phase sb \<noteq> SandboxPhaseError
                then ret (action_failed i (''cannot resume sandbox in phase '' @ phase_text (sb_phase sb)))
                else do {
                  u \<leftarrow> ask E (UpdateSandboxStatus (marked_resuming sb)) as_sandbox;
                  ret (case u of
                         Inl e \<Rightarrow> action_failed i (''failed to resume sandbox: '' @ err_text e)
                       | Inr _ \<Rightarrow> action_done i)
                })
          else if act = ''delete''
          then do {
            d \<leftarrow> ask E (DeleteSandbox (sb_namespace sb) (sb_name sb)) as_unit;
            ret (case d of
                   Inl e \<Rightarrow> action_failed i (''failed to delete sandbox: '' @ err_text e)
                 | Inr _ \<Rightarrow> action_done i)
          }
          else ret (action_failed i ''unknown action''))
   }"

definition validBulkActions :: "string list" where
  "validBulkActions = [''stop'', ''resume'', ''delete'']"

definition actionResultJSON :: "bulk_action_result \<Rightarrow> json" where
  "actionResultJSON r =
     JObj ([(''id'', JText (bar_id r)), (''status'', JText (bar_status r))]
       @ (if bar_error r = [] then [] else [(''error'', JText (bar_error r))]))"

definition handleBulkAction ::
  "'w api \<Rightarrow> 'k server \<Rightarrow> claims option \<Rightarrow> string + string \<times> string list \<Rightarrow> ('w, reply) kprog" where
  "handleBulkAction E sv claims body =
     (case claims of
        None \<Rightarrow> ret unauthenticated
      | Some cl \<Rightarrow>
          if cl_sandbox cl \<noteq> []
          then ret (respondError 403 ''sandbox-scoped keys may not perform bulk operations'')
          else (case body of
             Inl e \<Rightarrow> ret (respondError 400 (''invalid request body: '' @ e))
           | Inr (act, ids) \<Rightarrow>
               if act \<notin> set validBulkActions
               then ret (respondError 400 ''action must be one of \"stop\", \"resume\", \"delete\"'')
               else if ids = [] then ret (respondError 400 ''ids must be a non-empty array'')
               else do {
                 results \<leftarrow> collect ids (applyOneBulkAction E sv cl act);
                 tell E (RecordAudit (cl_sub cl) (''bulk.'' @ act) ''sandbox'' []);
                 ret (respondJSON 200 (JObj [(''results'', JList (map actionResultJSON results))]))
               }))"

section \<open>Partial update\<close>

record patch_request =
  pq_idle_timeout :: string
  pq_resources :: "resource_requirements option"
  pq_labels :: "labels option"
  pq_annotations :: "labels option"

definition patch_is_empty :: "patch_request \<Rightarrow> bool" where
  "patch_is_empty q \<longleftrightarrow>
     pq_idle_timeout q = [] \<and> pq_resources q = None \<and> pq_labels q = None \<and> pq_annotations q = None"

definition merge_labels :: "labels \<Rightarrow> labels option \<Rightarrow> labels" where
  "merge_labels old new = (case new of None \<Rightarrow> old | Some m \<Rightarrow> old ++ m)"

text \<open>The proposed spec, which the governance check looks at, and the object written.\<close>

definition patched_spec :: "patch_request \<Rightarrow> duration option \<Rightarrow> sandbox \<Rightarrow> sandbox" where
  "patched_spec q idle sb =
     sb\<lparr>sb_spec := (sb_spec sb)
          \<lparr>spec_idle_timeout := (case idle of None \<Rightarrow> spec_idle_timeout (sb_spec sb) | Some d \<Rightarrow> Some d),
           spec_resources := (case pq_resources q of None \<Rightarrow> spec_resources (sb_spec sb) | Some r \<Rightarrow> Some r)\<rparr>\<rparr>"

definition patched_sandbox :: "patch_request \<Rightarrow> duration option \<Rightarrow> sandbox \<Rightarrow> sandbox" where
  "patched_sandbox q idle sb =
     (patched_spec q idle sb)
       \<lparr>sb_labels := merge_labels (sb_labels sb) (pq_labels q),
        sb_annotations := merge_labels (sb_annotations sb) (pq_annotations q)\<rparr>"

definition patch_refusal ::
  "(string \<Rightarrow> quantity option) \<Rightarrow> 'w api \<Rightarrow> patch_request \<Rightarrow> sandbox \<Rightarrow> sandbox \<Rightarrow> ('w, reply option) kprog" where
  "patch_refusal PQ E q sb proposed =
     (if pq_idle_timeout q = [] \<and> pq_resources q = None then ret None
      else do {
        p \<leftarrow> ResolvePolicy E (sb_namespace sb);
        ret (case p of
               Inl _ \<Rightarrow> None
             | Inr policy \<Rightarrow>
                 if IsEmpty policy then None
                 else (let vs = CheckResourceLimits PQ policy proposed
                       in if vs \<noteq> []
                          then Some (respondJSON 403 (JObj [(''error'', JText ''policy_violation''),
                                                          (''violations'', violationsToJSON vs)]))
                          else None))
      })"

definition handlePatchSandbox ::
  "(string \<Rightarrow> quantity option) \<Rightarrow> 'w api \<Rightarrow> 'k server \<Rightarrow> claims option \<Rightarrow> string \<Rightarrow> string + patch_request
   \<Rightarrow> ('w, reply) kprog" where
  "handlePatchSandbox PQ E sv claims sandboxID body =
     (case claims of
        None \<Rightarrow> ret unauthenticated
      | Some cl \<Rightarrow> do {
          r \<leftarrow> getSandboxWithAuthCheck E sv sandboxID cl;
          (case r of
             Inl e \<Rightarrow> ret (respondError 404 e)
           | Inr sb \<Rightarrow>
               (case body of
                  Inl e \<Rightarrow> ret (respondError 400 (''invalid request body: '' @ e))
                | Inr q \<Rightarrow>
                    if patch_is_empty q
                    then ret (respondError 400 ''at least one of idleTimeout, resources, labels, annotations is required'')
                    else (case (if pq_idle_timeout q = [] then Inr None
                                else case parseDuration (pq_idle_timeout q) of
                                       Inl e \<Rightarrow> Inl (''invalid idleTimeout: '' @ e)
                                     | Inr d \<Rightarrow> Inr (Some d)) of
                      Inl e \<Rightarrow> ret (respondError 400 e)
                    | Inr idle \<Rightarrow> do {
                        refusal \<leftarrow> patch_refusal PQ E q sb (patched_spec q idle sb);
                        (case refusal of
                           Some rep \<Rightarrow> ret rep
                         | None \<Rightarrow> do {
                             u \<leftarrow> ask E (UpdateSandbox (patched_sandbox q idle sb)) as_sandbox;
                             (case u of
                                Inl e \<Rightarrow> ret (respondError 500 (''failed to update sandbox: '' @ err_text e))
                              | Inr stored \<Rightarrow> do {
                                  tell E (RecordAudit (cl_sub cl) ''patch'' ''sandbox'' (sb_name stored));
                                  ret (respondJSON 200 (JObj
                                    ([(''sandboxId'', JText (sb_name stored)),
                                      (''applied'', JObj
                                         ((if pq_idle_timeout q \<noteq> [] then [(''idleTimeout'', JText ''immediately'')] else [])
                                          @ (if pq_labels q \<noteq> None then [(''labels'', JText ''immediately'')] else [])
                                          @ (if pq_annotations q \<noteq> None then [(''annotations'', JText ''immediately'')] else [])
                                          @ (if pq_resources q \<noteq> None then [(''resources'', JText ''on-restart'')] else []))),
                                      (''restartRequired'', JBool (pq_resources q \<noteq> None))]
                                     @ (if pq_resources q \<noteq> None
                                        then [(''message'', JText ''resource changes take effect after the sandbox is stopped and resumed'')]
                                        else []))))
                                })
                           })
                      })))
        })"

end
