(* ===== verification/Sharing.thy ===== *)
theory Sharing
  imports Sandbox_Handlers
begin

text \<open>
  Sharing of a sandbox: granting and revoking access and minting share links
  (\<open>pkg/router/handlers.go\<close>), the tokens of share links (\<open>pkg/router/sharelinks/sharelinks.go\<close>),
  and the Kubernetes events that the handlers leave behind (\<open>pkg/router/events.go\<close>).
\<close>

section \<open>Events\<close>

definition sandbox_event :: "sandbox \<Rightarrow> string \<Rightarrow> string \<Rightarrow> string \<Rightarrow> instant \<Rightarrow> k8s_event" where
  "sandbox_event sb eventType reason message now =
     \<lparr>ke_uid = [], ke_namespace = sb_namespace sb, ke_version = [], ke_kind = ''Sandbox'',
      ke_object = sb_name sb, ke_object_namespace = sb_namespace sb, ke_reason = reason,
      ke_message = message, ke_type = eventType, ke_first = Some now, ke_last = Some now,
      ke_event_time = None, ke_count = 1, ke_component = ''agenttier-router''\<rparr>"

definition emitSandboxEvent ::
  "'w api \<Rightarrow> sandbox \<Rightarrow> string \<Rightarrow> string \<Rightarrow> string \<Rightarrow> ('w, unit) kprog" where
  "emitSandboxEvent E sb eventType reason message = do {
     now \<leftarrow> ask E Now as_time;
     tell E (CreateEvent (sandbox_event sb eventType reason message now))
   }"

section \<open>Permissions\<close>

definition empty_sharing :: sharing_spec where
  "empty_sharing = \<lparr>sh_users = [], sh_groups = [], sh_links = []\<rparr>"

fun upsertSharePermission :: "share_permission list \<Rightarrow> share_permission \<Rightarrow> share_permission list" where
  "upsertSharePermission [] perm = [perm]"
| "upsertSharePermission (p # ps) perm =
     (if shp_identity p = shp_identity perm then p\<lparr>shp_level := shp_level perm\<rparr> # ps
      else p # upsertSharePermission ps perm)"

definition removeSharePermission :: "share_permission list \<Rightarrow> string \<Rightarrow> share_permission list" where
  "removeSharePermission perms identity = filter (\<lambda>p. shp_identity p \<noteq> identity) perms"

definition permissionsToJSON :: "share_permission list \<Rightarrow> json" where
  "permissionsToJSON ps =
     JList (map (\<lambda>p. JObj [(''identity'', JText (shp_identity p)), (''level'', JText (shp_level p))]) ps)"

definition sharingToJSON :: "sharing_spec option \<Rightarrow> json" where
  "sharingToJSON sharing =
     (let sh = (case sharing of None \<Rightarrow> empty_sharing | Some s \<Rightarrow> s)
      in JObj [(''users'', permissionsToJSON (sh_users sh)), (''groups'', permissionsToJSON (sh_groups sh)),
               (''shareLinks'', JList (map (\<lambda>l.
                  JObj [(''id'', JText (shl_id l)), (''level'', JText (shl_level l)),
                        (''expiresAt'', JOptTime (shl_expires l)), (''maxUses'', JInt (shl_max_uses l)),
                        (''usedCount'', JInt (shl_used l))]) (sh_links sh)))])"

text \<open>Applies a change to the sharing of a sandbox, creating it when it is missing.\<close>

definition change_sharing :: "(sharing_spec \<Rightarrow> sharing_spec) \<Rightarrow> sandbox \<Rightarrow> sandbox" where
  "change_sharing f sb =
     (let sh = (case spec_sharing (sb_spec sb) of None \<Rightarrow> empty_sharing | Some s \<Rightarrow> s)
      in sb\<lparr>sb_spec := (sb_spec sb)\<lparr>spec_sharing := Some (f sh)\<rparr>\<rparr>)"

section \<open>The handlers\<close>

definition handleGetSharing :: "'w api \<Rightarrow> 'k server \<Rightarrow> claims option \<Rightarrow> string \<Rightarrow> ('w, reply) kprog" where
  "handleGetSharing E sv claims sandboxID =
     (case claims of
        None \<Rightarrow> ret unauthenticated
      | Some cl \<Rightarrow> do {
          r \<leftarrow> getSandboxWithAuthCheck E sv sandboxID cl;
          ret (case r of
                 Inl e \<Rightarrow> respondError 403 e
               | Inr sb \<Rightarrow> respondJSON 200 (sharingToJSON (spec_sharing (sb_spec sb))))
        })"

record share_request =
  shq_identity :: string
  shq_level :: string
  shq_kind :: string

definition granted_to :: "share_request \<Rightarrow> sharing_spec \<Rightarrow> sharing_spec" where
  "granted_to q sh =
     (let perm = \<lparr>shp_identity = shq_identity q, shp_level = shq_level q\<rparr>
      in if shq_kind q = ''group'' then sh\<lparr>sh_groups := upsertSharePermission (sh_groups sh) perm\<rparr>
         else sh\<lparr>sh_users := upsertSharePermission (sh_users sh) perm\<rparr>)"

definition handleShareSandbox ::
  "'w api \<Rightarrow> 'k server \<Rightarrow> claims option \<Rightarrow> string \<Rightarrow> string + share_request \<Rightarrow> ('w, reply) kprog" where
  "handleShareSandbox E sv claims sandboxID body =
     (case claims of
        None \<Rightarrow> ret unauthenticated
      | Some cl \<Rightarrow>
          (case body of
             Inl e \<Rightarrow> ret (respondError 400 (''invalid request body: '' @ e))
           | Inr q \<Rightarrow>
               if shq_identity q = [] then ret (respondError 400 ''identity is required'')
               else if shq_level q \<noteq> ''viewer'' \<and> shq_level q \<noteq> ''collaborator''
               then ret (respondError 400 ''level must be \"viewer\" or \"collaborator\"'')
               else do {
                 r \<leftarrow> getSandboxWithAuthCheck E sv sandboxID cl;
                 (case r of
                    Inl e \<Rightarrow> ret (respondError 403 e)
                  | Inr sb \<Rightarrow> do {
                      u \<leftarrow> ask E (UpdateSandbox (change_sharing (granted_to q) sb)) as_sandbox;
                      (case u of
                         Inl e \<Rightarrow> ret (respondError 500 (''failed to update sharing: '' @ err_text e))
                       | Inr stored \<Rightarrow> do {
                           emitSandboxEvent E stored ''Normal'' ''ShareGranted'' (shq_identity q);
                           ret (respondJSON 200 (sharingToJSON (spec_sharing (sb_spec stored))))
                         })
                    })
               }))"

definition revoked_from :: "string \<Rightarrow> sharing_spec \<Rightarrow> sharing_spec" where
  "revoked_from identity sh =
     sh\<lparr>sh_users := removeSharePermission (sh_users sh) identity,
        sh_groups := removeSharePermission (sh_groups sh) identity\<rparr>"

definition handleRevokeShare ::
  "'w api \<Rightarrow> 'k server \<Rightarrow> claims option \<Rightarrow> string \<Rightarrow> string \<Rightarrow> ('w, reply) kprog" where
  "handleRevokeShare E sv claims sandboxID identity =
     (case claims of
        None \<Rightarrow> ret unauthenticated
      | Some cl \<Rightarrow> do {
          r \<leftarrow> getSandboxWithAuthCheck E sv sandboxID cl;
          (case r of
             Inl e \<Rightarrow> ret (respondError 403 e)
           | Inr sb \<Rightarrow>
               (let revoked = respondJSON 200 (JObj [(''status'', JText ''revoked''), (''identity'', JText identity)])
                in if spec_sharing (sb_spec sb) = None then ret revoked
                   else do {
                     u \<leftarrow> ask E (UpdateSandbox (change_sharing (revoked_from identity) sb)) as_sandbox;
                     (case u of
                        Inl e \<Rightarrow> ret (respondError 500 (''failed to update sharing: '' @ err_text e))
                      | Inr stored \<Rightarrow> do {
                          emitSandboxEvent E stored ''Normal'' ''ShareRevoked'' identity;
                          ret revoked
                        })
                   }))
        })"

section \<open>Share links\<close>

definition TokenBytes :: nat where "TokenBytes = 32"
definition IDBytes :: nat where "IDBytes = 8"

definition HashToken :: "string \<Rightarrow> string" where
  "HashToken rawToken = hex_encode (sha256 (bytes_of rawToken))"

definition Generate :: "'w api \<Rightarrow> ('w, string + string \<times> string \<times> string) kprog" where
  "Generate E = do {
     i \<leftarrow> ask E (RandBytes IDBytes) as_bytes;
     (case i of
        Inl e \<Rightarrow> ret (Inl (''read random for id: '' @ err_text e))
      | Inr idBytes \<Rightarrow> do {
          t \<leftarrow> ask E (RandBytes TokenBytes) as_bytes;
          ret (case t of
                 Inl e \<Rightarrow> Inl (''read random for token: '' @ err_text e)
               | Inr tokBytes \<Rightarrow>
                   (let rawToken = RawURLEncoding tokBytes
                    in Inr (hex_encode idBytes, rawToken, HashToken rawToken)))
        })
   }"

datatype link_error = TokenMismatch | MalformedLink string

text \<open>\<open>Validate\<close>; None is success.\<close>

definition ValidateLink :: "share_link option \<Rightarrow> string \<Rightarrow> link_error option" where
  "ValidateLink link rawToken =
     (case link of
        None \<Rightarrow> Some (MalformedLink ''nil share link'')
      | Some l \<Rightarrow>
          if rawToken = [] then Some TokenMismatch
          else if shl_token_hash l \<noteq> [] \<and> HashToken rawToken = shl_token_hash l then None
          else if shl_token l \<noteq> [] \<and> rawToken = shl_token l then None
          else if shl_token_hash l = [] \<and> shl_token l = []
          then Some (MalformedLink ''share link has no token or token hash'')
          else Some TokenMismatch)"

record link_request =
  lkq_level :: string
  lkq_expires_in :: string
  lkq_max_uses :: int

definition with_link :: "share_link \<Rightarrow> sharing_spec \<Rightarrow> sharing_spec" where
  "with_link l sh = sh\<lparr>sh_links := sh_links sh @ [l]\<rparr>"

text \<open>\<open>expiresIn\<close> as an instant: None for no expiry.\<close>

definition expiry_of :: "'w api \<Rightarrow> string \<Rightarrow> string \<Rightarrow> ('w, string + instant option) kprog" where
  "expiry_of E expiresIn complaint =
     (if expiresIn = [] then ret (Inr None)
      else case ParseDuration expiresIn of
             None \<Rightarrow> ret (Inl complaint)
           | Some d \<Rightarrow>
               if d \<le> 0 then ret (Inl complaint)
               else do { now \<leftarrow> ask E Now as_time; ret (Inr (Some (now + d))) })"

definition handleCreateShareLink ::
  "'w api \<Rightarrow> 'k server \<Rightarrow> claims option \<Rightarrow> string \<Rightarrow> (string + link_request) option \<Rightarrow> ('w, reply) kprog" where
  "handleCreateShareLink E sv claims sandboxID body =
     (case claims of
        None \<Rightarrow> ret unauthenticated
      | Some cl \<Rightarrow>
          (case (case body of
                   None \<Rightarrow> Inr \<lparr>lkq_level = [], lkq_expires_in = [], lkq_max_uses = 0\<rparr>
                 | Some b \<Rightarrow> b) of
             Inl e \<Rightarrow> ret (respondError 400 (''invalid request body: '' @ e))
           | Inr q \<Rightarrow>
               (let level = (if lkq_level q = [] then ''viewer'' else lkq_level q)
                in if level \<noteq> ''viewer'' \<and> level \<noteq> ''collaborator''
                   then ret (respondError 400 ''level must be \"viewer\" or \"collaborator\"'')
                   else do {
                     x \<leftarrow> expiry_of E (lkq_expires_in q)
                            ''expiresIn must be a positive Go duration (e.g. \"24h\")'';
                     (case x of
                        Inl e \<Rightarrow> ret (respondError 400 e)
                      | Inr expiresAt \<Rightarrow>
                          if lkq_max_uses q < 0
                          then ret (respondError 400 ''maxUses must be >= 0 (0 = unlimited)'')
                          else do {
                            r \<leftarrow> getSandboxWithAuthCheck E sv sandboxID cl;
                            (case r of
                               Inl e \<Rightarrow> ret (respondError 403 e)
                             | Inr sb \<Rightarrow> do {
                                 g \<leftarrow> Generate E;
                                 (case g of
                                    Inl _ \<Rightarrow> ret (respondError 500 ''failed to generate share link'')
                                  | Inr (i, rawToken, hash) \<Rightarrow> do {
                                      u \<leftarrow> ask E (UpdateSandbox (change_sharing (with_link
                                             \<lparr>shl_id = i, shl_token_hash = hash, shl_token = [], shl_level = level,
                                              shl_expires = expiresAt, shl_max_uses = lkq_max_uses q,
                                              shl_used = 0\<rparr>) sb)) as_sandbox;
                                      ret (case u of
                                             Inl e \<Rightarrow> respondError 500 (''failed to persist share link: '' @ err_text e)
                                           | Inr _ \<Rightarrow> respondJSON 201 (JObj
                                               [(''id'', JText i), (''token'', JText rawToken), (''level'', JText level),
                                                (''expiresAt'', JOptTime expiresAt), (''maxUses'', JInt (lkq_max_uses q)),
                                                (''warning'', JText (''Store this token now '' @ em_dash @ '' it is shown only once.''))]))
                                    })
                               })
                          })
                   })))"

end
