(* ===== verification/Key_Handlers.thy ===== *)
theory Key_Handlers
  imports Sharing
begin

text \<open>
  The handlers for a user's API keys (\<open>pkg/router/apikey_handlers.go\<close>): listing, minting of
  user keys and of keys scoped to a sandbox, and revocation, which also evicts the key from the
  validator's cache; and the administrator's list of sandboxes with their keys
  (\<open>pkg/router/handlers.go\<close>).
\<close>

definition ValidActionGroups :: "string list" where
  "ValidActionGroups =
     [''run-command'', ''files:read'', ''files:write'', ''ports'', ''agent:invoke'', ''agent:configure'',
      ''resume'', ''stop'']"

definition defaultScopedKeyActionGroups :: "string list" where
  "defaultScopedKeyActionGroups =
     [''run-command'', ''files:read'', ''files:write'', ''ports'', ''agent:invoke'', ''agent:configure'',
      ''resume'', ''stop'']"

definition generateAPIKey :: "'w api \<Rightarrow> ('w, api_err + string) kprog" where
  "generateAPIKey E = do {
     b \<leftarrow> ask E (RandBytes 32) as_bytes;
     ret (case b of Inl e \<Rightarrow> Inl e | Inr bs \<Rightarrow> Inr (''atk_'' @ RawURLEncoding bs))
   }"

section \<open>Listing\<close>

definition omit_empty :: "string \<Rightarrow> string \<Rightarrow> (string \<times> json) list" where
  "omit_empty k v = (if v = [] then [] else [(k, JText v)])"

definition metadataToJSON :: "key_metadata \<Rightarrow> json" where
  "metadataToJSON m =
     JObj ([(''id'', JText (km_id m)), (''userId'', JText (km_user m)), (''name'', JText (km_name m))]
       @ omit_empty ''sandboxId'' (km_sandbox m)
       @ (if km_groups m = [] then [] else [(''actionGroups'', JTexts (km_groups m))])
       @ [(''createdAt'', JTime (km_created m))]
       @ (case km_expires m of None \<Rightarrow> [] | Some t \<Rightarrow> [(''expiresAt'', JTime t)])
       @ (case km_last_used m of None \<Rightarrow> [] | Some t \<Rightarrow> [(''lastUsedAt'', JTime t)]))"

definition handleListAPIKeys :: "'w api \<Rightarrow> 'k server \<Rightarrow> claims option \<Rightarrow> ('w, reply) kprog" where
  "handleListAPIKeys E sv claims =
     (case claims of
        None \<Rightarrow> ret unauthenticated
      | Some cl \<Rightarrow> do {
          r \<leftarrow> ListForUser (New (sv_install_ns sv)) E (cl_sub cl);
          ret (case r of
                 Inl e \<Rightarrow> respondError 500 (''failed to list API keys: '' @ e)
               | Inr keys \<Rightarrow> respondJSON 200 (JObj [(''keys'', JList (map metadataToJSON keys))]))
        })"

section \<open>Minting\<close>

record key_request =
  kq_name :: string
  kq_expires_in :: string
  kq_sandbox :: string
  kq_scopes :: "string list"

text \<open>The first requested scope that is not allowed, as the error message for it.\<close>

fun scope_complaint :: "string list \<Rightarrow> string option" where
  "scope_complaint [] = None"
| "scope_complaint (s # ss) =
     (if s = ''delete''
      then Some (''\"delete\" is not a valid action group '' @ em_dash
             @ '' a sandbox-scoped key can never delete the sandbox it is bound to'')
      else if s \<notin> set ValidActionGroups then Some (''unknown action group: '' @ s)
      else scope_complaint ss)"

text \<open>The action groups of the key to mint, or the reply that refuses it.\<close>

definition key_scope ::
  "'w api \<Rightarrow> 'k server \<Rightarrow> claims \<Rightarrow> key_request \<Rightarrow> ('w, reply + string list) kprog" where
  "key_scope E sv cl q =
     (if kq_sandbox q \<noteq> []
      then do {
        r \<leftarrow> getSandboxWithAuthCheck E sv (kq_sandbox q) cl;
        ret (case r of
               Inl e \<Rightarrow> Inl (respondError 404 e)
             | Inr _ \<Rightarrow>
                 (let groups = (if kq_scopes q = [] then defaultScopedKeyActionGroups else kq_scopes q)
                  in case scope_complaint groups of
                       Some m \<Rightarrow> Inl (respondError 400 m)
                     | None \<Rightarrow> Inr groups))
      }
      else if kq_scopes q \<noteq> []
      then ret (Inl (respondError 400 (''scopes requires sandboxId '' @ em_dash
                  @ '' user-level keys do not carry action-group scopes'')))
      else ret (Inr []))"

definition minted_record ::
  "claims \<Rightarrow> key_request \<Rightarrow> string \<Rightarrow> string list \<Rightarrow> instant \<Rightarrow> instant option \<Rightarrow> api_key_record" where
  "minted_record cl q keyHash groups now expiresAt =
     \<lparr>akr_key_hash = keyHash, akr_user = cl_sub cl, akr_email = cl_email cl, akr_name = kq_name q,
      akr_scopes = [], akr_namespaces = [], akr_sandbox = kq_sandbox q, akr_groups = groups,
      akr_created = now, akr_expires = expiresAt, akr_last_used = None\<rparr>"

definition handleCreateAPIKey ::
  "'w api \<Rightarrow> 'k server \<Rightarrow> claims option \<Rightarrow> (string + key_request) option \<Rightarrow> ('w, reply) kprog" where
  "handleCreateAPIKey E sv claims body =
     (case claims of
        None \<Rightarrow> ret unauthenticated
      | Some cl \<Rightarrow>
          (case (case body of
                   None \<Rightarrow> Inr \<lparr>kq_name = [], kq_expires_in = [], kq_sandbox = [], kq_scopes = []\<rparr>
                 | Some b \<Rightarrow> b) of
             Inl e \<Rightarrow> ret (respondError 400 (''invalid request body: '' @ e))
           | Inr q \<Rightarrow> do {
               x \<leftarrow> expiry_of E (kq_expires_in q) ''expiresIn must be a positive Go duration (e.g. \"720h\")'';
               (case x of
                  Inl e \<Rightarrow> ret (respondError 400 e)
                | Inr expiresAt \<Rightarrow> do {
                    sc \<leftarrow> key_scope E sv cl q;
                    (case sc of
                       Inl rep \<Rightarrow> ret rep
                     | Inr groups \<Rightarrow> do {
                         g \<leftarrow> generateAPIKey E;
                         (case g of
                            Inl _ \<Rightarrow> ret (respondError 500 ''failed to generate key'')
                          | Inr plaintext \<Rightarrow> do {
                              now \<leftarrow> ask E Now as_time;
                              (let keyHash = hashAPIKey plaintext;
                                   rec = minted_record cl q keyHash groups now expiresAt
                               in do {
                                 c \<leftarrow> CreateKey (New (sv_install_ns sv)) E keyHash rec;
                                 ret (case c of
                                        Inl e \<Rightarrow> respondError 500
                                          (''failed to store API key: create api key secret: '' @ err_text e)
                                      | Inr _ \<Rightarrow> respondJSON 201 (JObj
                                          [(''id'', JText (SecretNameForHash keyHash)), (''key'', JText plaintext),
                                           (''name'', JText (akr_name rec)), (''sandboxId'', JText (akr_sandbox rec)),
                                           (''actionGroups'', if groups = [] then JNull else JTexts groups),
                                           (''createdAt'', JTime now), (''expiresAt'', JOptTime expiresAt),
                                           (''warning'', JText (''Store this key now '' @ em_dash
                                              @ '' it cannot be retrieved again.''))]))
                               })
                            })
                       })
                  })
             }))"

section \<open>Revocation\<close>

definition handleRevokeAPIKey ::
  "'w api \<Rightarrow> 'k server \<Rightarrow> key_store_cache \<Rightarrow> claims option \<Rightarrow> string
   \<Rightarrow> ('w, reply \<times> key_store_cache) kprog" where
  "handleRevokeAPIKey E sv c claims keyID =
     (case claims of
        None \<Rightarrow> ret (unauthenticated, c)
      | Some cl \<Rightarrow>
          if keyID = [] then ret (respondError 400 ''keyId is required'', c)
          else do {
            d \<leftarrow> DeleteKey (New (sv_install_ns sv)) E keyID (cl_sub cl) (cl_admin cl);
            ret (case d of
                   Inl e \<Rightarrow>
                     (if e = ''access denied'' then respondError 403 ''you do not own this API key''
                      else respondError 404 e, c)
                 | Inr keyHash \<Rightarrow>
                     (respondJSON 200 (JObj [(''status'', JText ''revoked''), (''id'', JText keyID)]),
                      if sv_key_ttl sv \<noteq> None \<and> keyHash \<noteq> [] then InvalidateHash c keyHash else c))
          })"

section \<open>The administrator's list\<close>

text \<open>The keys of a sandbox, matched by its name.\<close>

definition keys_of_sandbox :: "key_metadata list \<Rightarrow> sandbox \<Rightarrow> key_metadata list" where
  "keys_of_sandbox keys sb = filter (\<lambda>k. km_sandbox k \<noteq> [] \<and> km_sandbox k = sb_name sb) keys"

definition admin_entry :: "key_metadata list \<Rightarrow> sandbox \<Rightarrow> json" where
  "admin_entry keys sb =
     (case sandboxToJSON sb of
        JObj kvs \<Rightarrow>
          (let scoped = keys_of_sandbox keys sb
           in JObj (if scoped = [] then kvs
                    else kvs @ [(''scopedApiKeys'', JList (map metadataToJSON scoped))]))
      | j \<Rightarrow> j)"

definition handleAdminListSandboxes :: "'w api \<Rightarrow> 'k server \<Rightarrow> string \<Rightarrow> ('w, reply) kprog" where
  "handleAdminListSandboxes E sv ns = do {
     ls \<leftarrow> ask E (ListSandboxes ns) as_sandboxes;
     (case ls of
        Inl e \<Rightarrow> ret (respondError 500 (''failed to list sandboxes: '' @ err_text e))
      | Inr items \<Rightarrow> do {
          k \<leftarrow> ListAll (New (sv_install_ns sv)) E;
          ret (case k of
                 Inl e \<Rightarrow> respondError 500 (''failed to list scoped api keys: '' @ e)
               | Inr keys \<Rightarrow> respondJSON 200 (JObj [(''sandboxes'', JList (map (admin_entry keys) items))]))
        })
   }"

section \<open>Lemmas\<close>

text \<open>The secrets that a trace creates, and the sandboxes that the API server delivered in it.\<close>

fun secrets_created :: "trace \<Rightarrow> secret list" where
  "secrets_created [] = []"
| "secrets_created ((CreateSecret s, _) # t) = s # secrets_created t"
| "secrets_created (_ # t) = secrets_created t"

fun delivered :: "trace \<Rightarrow> sandbox list" where
  "delivered [] = []"
| "delivered ((GetSandbox _ _, RSandbox sb) # t) = sb # delivered t"
| "delivered ((ListSandboxes _, RSandboxes sbs) # t) = sbs @ delivered t"
| "delivered (_ # t) = delivered t"

lemma secrets_created_append [simp]: "secrets_created (t @ t') = secrets_created t @ secrets_created t'"
  by (induction t rule: secrets_created.induct) auto

lemma secrets_created_other [simp]:
  "(\<And>s. q \<noteq> CreateSecret s) \<Longrightarrow> secrets_created ((q, r) # t) = secrets_created t"
  by (cases q) auto

lemma delivered_other [simp]:
  "(\<And>ns n. q \<noteq> GetSandbox ns n) \<Longrightarrow> (\<And>ns. q \<noteq> ListSandboxes ns) \<Longrightarrow> delivered ((q, r) # t) = delivered t"
  by (cases q) auto

lemma delivered_failed [simp]:
  "as_sandbox r = Inl e \<Longrightarrow> delivered ((GetSandbox ns n, r) # t) = delivered t"
  "as_sandboxes r = Inl e \<Longrightarrow> delivered ((ListSandboxes ns, r) # t) = delivered t"
  by (cases r; simp)+

lemma delivered_append [simp]: "delivered (t @ t') = delivered t @ delivered t'"
  by (induction t rule: delivered.induct) auto

text \<open>A lookup with the ownership check only reads; what it yields was delivered by the API server
  under that name in a list or as the object asked for, and belongs to the caller.\<close>

definition reads_sandboxes :: "trace \<Rightarrow> bool" where
  "reads_sandboxes t \<longleftrightarrow> (\<forall>c \<in> set t. case fst c of GetSandbox _ _ \<Rightarrow> True | ListSandboxes _ \<Rightarrow> True | _ \<Rightarrow> False)"

lemma reads_sandboxes_simps [simp]:
  "reads_sandboxes []" "reads_sandboxes ((GetSandbox ns n, r) # t) = reads_sandboxes t"
  "reads_sandboxes ((ListSandboxes ns, r) # t) = reads_sandboxes t"
  "reads_sandboxes (t @ t') \<longleftrightarrow> reads_sandboxes t \<and> reads_sandboxes t'"
  by (auto simp: reads_sandboxes_def)

lemma only_match:
  "(case filter P items of [] \<Rightarrow> Inl a | [x] \<Rightarrow> Inr x | x # y # zs \<Rightarrow> Inl b) = Inr sb \<Longrightarrow> sb \<in> set items"
  by (auto split: list.splits dest!: arg_cong [where f = set])

lemma resolveSandbox_traces:
  "traces (resolveSandbox E sv i hint)
     (\<lambda>r t. reads_sandboxes t \<and> (\<forall>sb. r = Inr sb \<longrightarrow> sb \<in> set (delivered t)))"
  unfolding resolveSandbox_def
  by (intro tr) (auto split: sum.splits dest: only_match)

lemma getSandboxWithAuthCheck_traces:
  "traces (getSandboxWithAuthCheck E sv i cl)
     (\<lambda>r t. reads_sandboxes t
        \<and> (\<forall>sb. r = Inr sb \<longrightarrow> sb \<in> set (delivered t) \<and> (cl_admin cl \<or> owns cl sb)))"
  unfolding getSandboxWithAuthCheck_def
  by (rule traces_bind [OF resolveSandbox_traces], rule traces_ret) (auto split: sum.splits if_splits)

lemma reads_create_nothing: "reads_sandboxes t \<Longrightarrow> secrets_created t = []"
  by (induction t rule: secrets_created.induct) (auto simp: reads_sandboxes_def)

lemma scope_complaint_None:
  "scope_complaint ss = None \<Longrightarrow> set ss \<subseteq> set ValidActionGroups"
  by (induction ss) (auto split: if_splits)

lemma defaults_valid: "scope_complaint defaultScopedKeyActionGroups = None"
  by (simp add: defaultScopedKeyActionGroups_def ValidActionGroups_def)

text \<open>A minted scope is empty for a user key; for a scoped key it lies within the vocabulary and the
  sandbox was delivered to a caller who owns it or is an administrator.\<close>

definition scope_earned :: "claims \<Rightarrow> string \<Rightarrow> string list \<Rightarrow> trace \<Rightarrow> bool" where
  "scope_earned cl i groups t \<longleftrightarrow>
     (if i = [] then groups = []
      else set groups \<subseteq> set ValidActionGroups
        \<and> (\<exists>sb. sb \<in> set (delivered t) \<and> (cl_admin cl \<or> owns cl sb)))"

lemma key_scope_traces:
  "traces (key_scope E sv cl q)
     (\<lambda>r t. secrets_created t = []
        \<and> (case r of Inl rep \<Rightarrow> rp_status rep \<noteq> 201
           | Inr groups \<Rightarrow> scope_earned cl (kq_sandbox q) groups t))"
  unfolding key_scope_def
  apply (intro traces_if traces_ret)
    apply (rule traces_bind [OF getSandboxWithAuthCheck_traces], rule traces_ret)
    apply (auto simp: reads_create_nothing scope_earned_def Let_def split: sum.splits option.splits if_splits
      dest!: scope_complaint_None)
  done

lemma expiry_of_traces:
  "traces (expiry_of E x m) (\<lambda>r t. secrets_created t = [] \<and> delivered t = [])"
  unfolding expiry_of_def by (intro tr) auto

lemma generateAPIKey_traces:
  "traces (generateAPIKey E) (\<lambda>r t. secrets_created t = [] \<and> delivered t = [])"
  unfolding generateAPIKey_def by (intro tr) auto

lemma scope_earned_append: "scope_earned cl i g t \<Longrightarrow> scope_earned cl i g (t0 @ t @ t')"
  by (auto simp: scope_earned_def)

text \<open>The administrator's own identity goes into a key minted for another user's sandbox, without
  the administrator's rights: the key cannot act on that sandbox.\<close>

lemma admin_minted_key_is_refused:
  assumes "\<not> owns cl sb" "akr_user rec = cl_sub cl"
  shows "\<not> owns (claimsFromAuth (record_claims rec)) sb \<and> \<not> cl_admin (claimsFromAuth (record_claims rec))"
  using assms by (auto simp: owns_def record_claims_def split: option.splits)

section \<open>Properties\<close>

text \<open>Minting a key stores at most one record, under the hash of the key it returns and in
  the caller's name. A key without a sandbox carries no action groups; one bound to a sandbox
  carries only groups of the vocabulary, which knows no deletion, and was minted after the API
  server delivered a sandbox of that name to its owner or to an administrator.\<close>

theorem minted_keys_are_owned_and_scoped:
  "traces (handleCreateAPIKey E sv claims body)
     (\<lambda>rep t. secrets_created t = [] \<and> rp_status rep \<noteq> 201
        \<or> (\<exists>cl plain rec. claims = Some cl
             \<and> secrets_created t = [key_secret (New (sv_install_ns sv)) (hashAPIKey plain) rec]
             \<and> akr_user rec = cl_sub cl \<and> scope_earned cl (akr_sandbox rec) (akr_groups rec) t
             \<and> (rp_status rep = 500
                \<or> rp_status rep = 201 \<and> field ''key'' (rp_body rep) = Some (JText plain))))"
  (is "traces _ ?Q")
proof -
  have made: "?Q
      (case c of
         Inl e \<Rightarrow> respondError 500 (''failed to store API key: create api key secret: '' @ err_text e)
       | Inr _ \<Rightarrow> respondJSON 201 (JObj
           [(''id'', JText (SecretNameForHash (hashAPIKey plain))), (''key'', JText plain),
            (''name'', JText n), (''sandboxId'', JText i), (''actionGroups'', gs), (''createdAt'', JTime now),
            (''expiresAt'', JOptTime x), (''warning'', wn)]))
      (t1 @ t2 @ t3 @ [(Now, r), (CreateSecret (key_secret (New (sv_install_ns sv)) (hashAPIKey plain) rec), r')])"
    if "claims = Some cl" "secrets_created t1 = []" "secrets_created t2 = []" "secrets_created t3 = []"
      "rec = minted_record cl q h groups now x" "scope_earned cl (kq_sandbox q) groups t2"
    for c plain n i gs now x wn t1 t2 t3 r rec r' cl q h groups
  proof -
    have "scope_earned cl (akr_sandbox rec) (akr_groups rec)
        (t1 @ t2 @ t3 @ [(Now, r), (CreateSecret (key_secret (New (sv_install_ns sv)) (hashAPIKey plain) rec), r')])"
      using that(5,6) by (simp add: minted_record_def scope_earned_append)
    moreover have "akr_user rec = cl_sub cl" using that(5) by (simp add: minted_record_def)
    ultimately show ?thesis
      using that(1-4) by (cases c) (auto simp: respondJSON_def)
  qed
  show ?thesis
    unfolding handleCreateAPIKey_def unauthenticated_def
    apply (intro traces_case_option traces_ret, simp)
    apply (intro traces_case_sum traces_ret, simp)
    apply (rule traces_bind [OF expiry_of_traces])
    apply (intro traces_case_sum traces_ret, simp)
    apply (rule traces_bind [OF key_scope_traces])
    apply (intro traces_case_sum traces_ret, simp)
    apply (rule traces_bind [OF generateAPIKey_traces])
    apply (intro traces_case_sum traces_ret, simp)
    apply (rule traces_ask_bind)
    apply (unfold Let_def CreateKey_def ask_map)
    apply (rule traces_ask)
    apply (rule made)
         apply auto
    done
qed

text \<open>A hash is never empty.\<close>

lemma length_sha_rounds: "length st = 8 \<Longrightarrow> length (sha_rounds ks st) = 8"
  by (induction ks st rule: sha_rounds.induct) (auto simp: Let_def)

lemma length_sha_blocks: "length st = 8 \<Longrightarrow> length (sha_blocks st ws) = 8"
proof (induction st ws rule: sha_blocks.induct)
  case (1 st ws)
  show ?case
  proof (cases "ws = []")
    case True
    then show ?thesis using 1(2) by (subst sha_blocks.simps) simp
  next
    case False
    have "length (sha_block st (take 16 ws)) = 8"
      using 1(2) length_sha_rounds [OF 1(2)] by (simp add: sha_block_def)
    then show ?thesis using 1(1) [OF False] False by (subst sha_blocks.simps) simp
  qed
qed

lemma hashAPIKey_nonempty: "hashAPIKey key \<noteq> []"
proof -
  define ws where "ws = words_of_bytes (bytes_of key @ sha_padding (length (bytes_of key)))"
  have "length (sha_blocks sha_initial ws) = 8"
    by (rule length_sha_blocks) (simp add: sha_initial_def)
  then obtain x xs where "sha_blocks sha_initial ws = x # xs"
    by (cases "sha_blocks sha_initial ws") auto
  then have "sha256 (bytes_of key) = big_endian 4 (unat x) @ concat (map (\<lambda>w. big_endian 4 (unat w)) xs)"
    by (simp add: sha256_def ws_def)
  then have "0 < length (sha256 (bytes_of key))" by simp
  then have "0 < length (hashAPIKey key)" by (simp add: hashAPIKey_def)
  then show ?thesis by auto
qed

text \<open>C25. Revocation, on an API server that keeps its contract: the owner of a stored key or an
  administrator revokes it, whatever the cache held, and from then on the key is refused; anybody
  else is refused, and neither the cache nor the stored keys change.\<close>

theorem revoked_key_is_refused:
  assumes "secret_server E sec" "sv_key_ttl sv = Some ttl"
    and "sec w (New (sv_install_ns sv), SecretNameForHash (hashAPIKey key)) = Some s"
    and "secret_text s ''keyHash'' = hashAPIKey key"
    and "sct_namespace s = New (sv_install_ns sv)" "sct_name s = SecretNameForHash (hashAPIKey key)"
    and "run_state (handleRevokeAPIKey E sv c (Some cl) (SecretNameForHash (hashAPIKey key))) (w, l)
      = ((rep, c'), (w', l'))"
  shows "if sct_labels s ''agenttier.io/secret-purpose'' = Some ''api-key''
           \<and> (cl_admin cl \<or> akr_user (record_in s) = cl_sub cl)
         then rp_status rep = 200
           \<and> fst (fst (run_state (validateAPIKey E sv c' key) (w', l'))) = Inl ''API key not found''
         else rp_status rep \<in> {403, 404} \<and> c' = c \<and> sec w' = sec w"
proof -
  let ?ns = "New (sv_install_ns sv)" and ?n = "SecretNameForHash (hashAPIKey key)"
  have n: "?n \<noteq> []" by (simp add: SecretNameForHash_def)
  obtain w1 where del: "E w (DeleteSecret ?ns ?n) = (ROk, w1)" "sec w1 = (sec w)((?ns, ?n) := None)"
    using delete_secret [OF assms(1), of w ?ns ?n] assms(3) by auto
  have get: "E w (GetSecret ?ns ?n) = (RSecret s, w)"
    using get_secret [OF assms(1), of w] assms(3) by simp
  have gone: "E w1 (GetSecret ?ns ?n) = (RErr NotFound, w1)"
    using get_secret [OF assms(1), of w1] del(2) by simp
  have refused: "fst (fst (run_state (validateAPIKey E sv (InvalidateHash c (hashAPIKey key)) key) (w1, l1)))
      = Inl ''API key not found''" for l1
  proof -
    have "lru_get (InvalidateHash c (hashAPIKey key)) (hashAPIKey key) = None"
      by (simp add: InvalidateHash_def lru_get_remove)
    then show ?thesis
      using assms(2) gone by (simp add: validateAPIKey_def ValidateKey_def validate_in_store_def
          GetAPIKeyByHash_eq found_record_def run_bind Let_def)
  qed
  define l1 where "l1 = l @ [(GetSecret ?ns ?n, RSecret s)]"
  define l2 where "l2 = l1 @ [(DeleteSecret ?ns ?n, ROk)]"
  have run: "run_state (DeleteKey ?ns E ?n (cl_sub cl) (cl_admin cl)) (w, l) =
      (if sct_labels s ''agenttier.io/secret-purpose'' \<noteq> Some ''api-key''
       then (Inl ''api key not found'', (w, l1))
       else if \<not> cl_admin cl \<and> akr_user (record_in s) \<noteq> cl_sub cl then (Inl ''access denied'', (w, l1))
       else (Inr (hashAPIKey key), (w1, l2)))"
    using assms(4-6) get del(1) by (simp add: DeleteKey_def run_bind l1_def l2_def)
  have "run_state (handleRevokeAPIKey E sv c (Some cl) ?n) (w, l) =
      (if sct_labels s ''agenttier.io/secret-purpose'' \<noteq> Some ''api-key''
       then ((respondError 404 ''api key not found'', c), (w, l1))
       else if \<not> cl_admin cl \<and> akr_user (record_in s) \<noteq> cl_sub cl
       then ((respondError 403 ''you do not own this API key'', c), (w, l1))
       else ((respondJSON 200 (JObj [(''status'', JText ''revoked''), (''id'', JText ?n)]),
              InvalidateHash c (hashAPIKey key)), (w1, l2)))"
    using n assms(2) hashAPIKey_nonempty [of key]
    by (simp add: handleRevokeAPIKey_def run_bind run)
  then show ?thesis
    using assms(7) refused by (auto split: if_splits)
qed

text \<open>A user with a key, who revokes it.\<close>

definition ann :: claims where
  "ann = \<lparr>cl_sub = ''ann'', cl_email = [], cl_name = [], cl_groups = [], cl_admin = False,
          cl_namespaces = [], cl_sandbox = [], cl_actions = []\<rparr>"

theorem revoked_key_is_refused_witness:
  "\<exists>rep c' s'. run_state (handleRevokeAPIKey tiny_secret_server keys_only (NewLRUCache 5) (Some ann)
       (SecretNameForHash (hashAPIKey ''atk_A'')))
       ([(''agenttier'', SecretNameForHash (hashAPIKey ''atk_A''))
           \<mapsto> key_secret ''agenttier'' (hashAPIKey ''atk_A'') one_key], []) = ((rep, c'), s')
     \<and> rp_status rep = 200
     \<and> fst (fst (run_state (validateAPIKey tiny_secret_server keys_only c' ''atk_A'') s'))
        = Inl ''API key not found''"
proof -
  let ?s = "key_secret ''agenttier'' (hashAPIKey ''atk_A'') one_key"
  let ?w = "[(''agenttier'', SecretNameForHash (hashAPIKey ''atk_A'')) \<mapsto> ?s]"
  have ns: "New (sv_install_ns keys_only) = ''agenttier''" by (simp add: keys_only_def New_def)
  have hyps: "sv_key_ttl keys_only = Some 60"
    "?w (New (sv_install_ns keys_only), SecretNameForHash (hashAPIKey ''atk_A'')) = Some ?s"
    "secret_text ?s ''keyHash'' = hashAPIKey ''atk_A''"
    "sct_namespace ?s = New (sv_install_ns keys_only)" "sct_name ?s = SecretNameForHash (hashAPIKey ''atk_A'')"
    by (simp_all add: ns, simp_all add: keys_only_def key_secret_def secret_text_def)
  have owner: "sct_labels ?s ''agenttier.io/secret-purpose'' = Some ''api-key''"
    "akr_user (record_in ?s) = cl_sub ann"
    by (simp_all add: key_secret_def record_in_def one_key_def ann_def)
  obtain rep c' w' l' where run: "run_state (handleRevokeAPIKey tiny_secret_server keys_only (NewLRUCache 5)
      (Some ann) (SecretNameForHash (hashAPIKey ''atk_A''))) (?w, []) = ((rep, c'), (w', l'))"
    by (metis prod.exhaust)
  from revoked_key_is_refused [OF tiny_secret_server_ok(1) hyps run] owner
  show ?thesis using run by auto
qed

end
