(* ===== verification/Router_Safety.thy ===== *)
theory Router_Safety
  imports Bulk_Handlers Key_Handlers
begin

text \<open>
  Properties of the router's handlers, for every behaviour of the API server: which sandboxes they
  change, and that they keep name, namespace and creator.
\<close>

section \<open>Rules for traces\<close>

lemma traces_bind_bind [tr]:
  "traces (State_Monad.bind m (\<lambda>a. State_Monad.bind (f a) g)) Q
     \<Longrightarrow> traces (State_Monad.bind (State_Monad.bind m f) g) Q"
  by simp

lemma traces_ret_bind [tr]: "traces (f a) Q \<Longrightarrow> traces (State_Monad.bind (ret a) f) Q"
  by (simp add: traces_def run_bind)

section \<open>Who changes a sandbox\<close>

text \<open>The sandboxes that the API server has created in a trace.\<close>

fun created :: "trace \<Rightarrow> sandbox list" where
  "created [] = []"
| "created ((CreateSandbox _, RSandbox sb) # t) = sb # created t"
| "created (_ # t) = created t"

lemma created_append [simp]: "created (t @ t') = created t @ created t'"
  by (induction t rule: created.induct) auto

lemma created_other [simp]: "(\<And>x. q \<noteq> CreateSandbox x) \<Longrightarrow> created ((q, r) # t) = created t"
  by (cases q) auto

text \<open>The same object: name, namespace and creator.\<close>

definition same_object :: "sandbox \<Rightarrow> sandbox \<Rightarrow> bool" where
  "same_object x sb \<longleftrightarrow>
     sb_name x = sb_name sb \<and> sb_namespace x = sb_namespace sb
     \<and> spec_created_by (sb_spec x) = spec_created_by (sb_spec sb)"

text \<open>\<open>cl\<close> may change \<open>x\<close>: the API server delivered it, to its owner or to an administrator.\<close>

definition may_change :: "claims \<Rightarrow> trace \<Rightarrow> (sandbox \<Rightarrow> bool) \<Rightarrow> bool" where
  "may_change cl t P \<longleftrightarrow> (\<exists>sb \<in> set (delivered t). (cl_admin cl \<or> owns cl sb) \<and> P sb)"

definition call_permitted :: "claims option \<Rightarrow> trace \<Rightarrow> request \<Rightarrow> bool" where
  "call_permitted claims t q \<longleftrightarrow>
     (case q of
        UpdateSandbox x \<Rightarrow> (\<exists>cl. claims = Some cl \<and> may_change cl t (same_object x))
      | UpdateSandboxStatus x \<Rightarrow>
          (\<exists>cl. claims = Some cl
             \<and> (may_change cl t (same_object x) \<or> (\<exists>sb \<in> set (created t). same_object x sb)))
      | DeleteSandbox ns n \<Rightarrow>
          (\<exists>cl. claims = Some cl \<and> may_change cl t (\<lambda>sb. sb_name sb = n \<and> sb_namespace sb = ns))
      | CreateSnapshot sn \<Rightarrow>
          (\<exists>cl. claims = Some cl
             \<and> may_change cl t (\<lambda>sb. snap_namespace sn = sb_namespace sb \<and> snap_pvc sn = st_pvc (sb_status sb)))
      | CreateSandbox x \<Rightarrow>
          (\<exists>cl. claims = Some cl \<and> spec_created_by (sb_spec x) = Some (identity_of cl))
      | _ \<Rightarrow> True)"

definition permitted :: "claims option \<Rightarrow> trace \<Rightarrow> bool" where
  "permitted claims t \<longleftrightarrow> (\<forall>c \<in> set t. call_permitted claims t (fst c))"

lemma may_change_append:
  "may_change cl t P \<Longrightarrow> may_change cl (t @ t') P" "may_change cl t' P \<Longrightarrow> may_change cl (t @ t') P"
  by (auto simp: may_change_def)

lemma call_permitted_append:
  "call_permitted claims t q \<Longrightarrow> call_permitted claims (t @ t') q"
  "call_permitted claims t' q \<Longrightarrow> call_permitted claims (t @ t') q"
  by (cases q; auto simp: call_permitted_def intro: may_change_append)+

lemma permitted_append: "permitted claims t \<Longrightarrow> permitted claims t' \<Longrightarrow> permitted claims (t @ t')"
  by (auto simp: permitted_def intro: call_permitted_append)

lemma permitted_nil [simp]: "permitted claims []"
  by (simp add: permitted_def)

lemma permitted_reads: "reads_sandboxes t \<Longrightarrow> permitted claims t"
  by (auto simp: permitted_def reads_sandboxes_def call_permitted_def split: request.splits)

text \<open>A handler after its lookup: the trace of the lookup, then calls that are harmless or concern
  the sandbox that was found.\<close>

lemma permitted_after:
  assumes "reads_sandboxes t" "sb \<in> set (delivered t)" "cl_admin cl \<or> owns cl sb"
    and "\<And>c. c \<in> set t' \<Longrightarrow> call_permitted (Some cl) (t @ t') (fst c)"
  shows "permitted (Some cl) (t @ t')"
  using assms(4) permitted_reads [OF assms(1), of "Some cl"]
  by (auto simp: permitted_def intro: call_permitted_append)

lemma same_object_stop [simp]: "same_object (with_stop_annotation sb) sb"
  by (simp add: same_object_def with_stop_annotation_def)

lemma same_object_resume [simp]: "same_object (marked_resuming sb) sb"
  by (simp add: same_object_def marked_resuming_def)

lemma same_object_patch [simp]: "same_object (patched_sandbox q idle sb) sb"
  by (simp add: same_object_def patched_sandbox_def patched_spec_def)

lemma same_object_sharing [simp]: "same_object (change_sharing f sb) sb"
  by (simp add: same_object_def change_sharing_def Let_def)

lemma may_changeI:
  "sb \<in> set (delivered t) \<Longrightarrow> cl_admin cl \<or> owns cl sb \<Longrightarrow> P sb \<Longrightarrow> may_change cl t P"
  by (auto simp: may_change_def)

text \<open>\<open>after_finding cl sb m\<close>: every call of \<open>m\<close>, run after \<open>sb\<close> was found for \<open>cl\<close>, is permitted.\<close>

definition after_finding :: "claims \<Rightarrow> sandbox \<Rightarrow> ('w, 'a) kprog \<Rightarrow> bool" where
  "after_finding cl sb m \<longleftrightarrow>
     (\<forall>t. sb \<in> set (delivered t) \<and> (cl_admin cl \<or> owns cl sb)
        \<longrightarrow> traces m (\<lambda>_ t'. \<forall>c \<in> set t'. call_permitted (Some cl) (t @ t') (fst c)))"

named_theorems found "rules for programs that run after a sandbox was found"

lemma after_finding_ret [found]: "after_finding cl sb (ret a)"
  by (simp add: after_finding_def traces_ret)

lemma after_finding_bind [found]:
  assumes "after_finding cl sb m" "\<And>a. after_finding cl sb (f a)"
  shows "after_finding cl sb (State_Monad.bind m f)"
  unfolding after_finding_def
proof (intro allI impI)
  fix t
  assume t: "sb \<in> set (delivered t) \<and> (cl_admin cl \<or> owns cl sb)"
  show "traces (State_Monad.bind m f) (\<lambda>_ t'. \<forall>c \<in> set t'. call_permitted (Some cl) (t @ t') (fst c))"
  proof (rule traces_bind)
    show "traces m (\<lambda>_ t'. \<forall>c \<in> set t'. call_permitted (Some cl) (t @ t') (fst c))"
      using assms(1) t unfolding after_finding_def by blast
  next
    fix a t1
    assume t1: "\<forall>c \<in> set t1. call_permitted (Some cl) (t @ t1) (fst c)"
    have "sb \<in> set (delivered (t @ t1))" using t by simp
    then have "traces (f a) (\<lambda>_ t'. \<forall>c \<in> set t'. call_permitted (Some cl) ((t @ t1) @ t') (fst c))"
      using assms(2) t unfolding after_finding_def by blast
    then show "traces (f a) (\<lambda>_ t'. \<forall>c \<in> set (t1 @ t'). call_permitted (Some cl) (t @ t1 @ t') (fst c))"
      by (rule traces_mono) (use t1 call_permitted_append(1) [of "Some cl" "t @ t1"] in auto)
  qed
qed

lemma after_finding_ask:
  "(\<And>t. sb \<in> set (delivered t) \<Longrightarrow> cl_admin cl \<or> owns cl sb \<Longrightarrow> call_permitted (Some cl) t q)
     \<Longrightarrow> after_finding cl sb (ask E q f)"
  unfolding after_finding_def by (auto intro!: traces_ask)

lemma after_finding_tell:
  "(\<And>t. sb \<in> set (delivered t) \<Longrightarrow> cl_admin cl \<or> owns cl sb \<Longrightarrow> call_permitted (Some cl) t q)
     \<Longrightarrow> after_finding cl sb (tell E q)"
  unfolding after_finding_def by (auto intro!: traces_tell)

lemma after_finding_cases [found]:
  "(b \<Longrightarrow> after_finding cl sb m) \<Longrightarrow> (\<not> b \<Longrightarrow> after_finding cl sb n) \<Longrightarrow> after_finding cl sb (if b then m else n)"
  "(\<And>y. after_finding cl sb (g y)) \<Longrightarrow> after_finding cl sb m
     \<Longrightarrow> after_finding cl sb (case x of None \<Rightarrow> m | Some y \<Rightarrow> g y)"
  "(\<And>e. after_finding cl sb (h e)) \<Longrightarrow> (\<And>y. after_finding cl sb (k y))
     \<Longrightarrow> after_finding cl sb (case z of Inl e \<Rightarrow> h e | Inr y \<Rightarrow> k y)"
  "(\<And>u v. after_finding cl sb (p u v)) \<Longrightarrow> after_finding cl sb (case pq of (u, v) \<Rightarrow> p u v)"
  by (auto split: option.split sum.split prod.split)

text \<open>Calls that never change a sandbox, and calls on the sandbox that was found.\<close>

lemma permit_other [simp]:
  "call_permitted claims t Now" "call_permitted claims t (RandBytes k)"
  "call_permitted claims t (RecordAudit a b c d)" "call_permitted claims t (CreateEvent e)"
  "call_permitted claims t (DeleteSnapshot ns n)" "call_permitted claims t (GetConfigMap ns n)"
  "call_permitted claims t (GetSandbox ns n)" "call_permitted claims t (ListSandboxes ns)"
  "call_permitted claims t (GetTemplate ns n)" "call_permitted claims t (GetClusterTemplate n)"
  by (simp_all add: call_permitted_def)

lemma permit_found:
  assumes "sb \<in> set (delivered t)" "cl_admin cl \<or> owns cl sb"
  shows "same_object x sb \<Longrightarrow> call_permitted (Some cl) t (UpdateSandbox x)"
    "same_object x sb \<Longrightarrow> call_permitted (Some cl) t (UpdateSandboxStatus x)"
    "call_permitted (Some cl) t (DeleteSandbox (sb_namespace sb) (sb_name sb))"
    "snap_namespace sn = sb_namespace sb \<Longrightarrow> snap_pvc sn = st_pvc (sb_status sb)
       \<Longrightarrow> call_permitted (Some cl) t (CreateSnapshot sn)"
  using assms by (auto simp: call_permitted_def may_change_def)

lemma after_finding_calls [found]:
  "after_finding cl sb (ask E Now f)" "after_finding cl sb (ask E (RandBytes k) g)"
  "after_finding cl sb (ask E (GetConfigMap ns n) h)"
  "after_finding cl sb (tell E (RecordAudit a b c d))" "after_finding cl sb (tell E (CreateEvent e))"
  "after_finding cl sb (tell E (DeleteSnapshot ns n))"
  "same_object x sb \<Longrightarrow> after_finding cl sb (ask E (UpdateSandbox x) g')"
  "same_object x sb \<Longrightarrow> after_finding cl sb (ask E (UpdateSandboxStatus x) g')"
  "after_finding cl sb (ask E (DeleteSandbox (sb_namespace sb) (sb_name sb)) h')"
  "snap_namespace sn = sb_namespace sb \<Longrightarrow> snap_pvc sn = st_pvc (sb_status sb)
     \<Longrightarrow> after_finding cl sb (ask E (CreateSnapshot sn) h')"
  by (rule after_finding_ask after_finding_tell; simp add: permit_found)+

lemma after_finding_resolve [found]: "after_finding cl sb (ResolvePolicy E ns)"
  unfolding ResolvePolicy_def GetPolicy_def load_def by (intro found)

lemma after_finding_event [found]: "after_finding cl sb (emitSandboxEvent E x a b c)"
  unfolding emitSandboxEvent_def by (intro found)

lemma after_finding_generate [found]: "after_finding cl sb (Generate E)"
  unfolding Generate_def by (intro found)

text \<open>The rule for a handler's lookup.\<close>

lemma traces_lookup_any:
  assumes "\<And>e. traces (f (Inl e)) (\<lambda>_. permitted (Some cl))"
    and "\<And>sb. after_finding cl sb (f (Inr sb))"
  shows "traces (State_Monad.bind (getSandboxWithAuthCheck E sv i cl) f) (\<lambda>_. permitted (Some cl))"
proof (rule traces_bind [OF getSandboxWithAuthCheck_traces])
  fix r :: "string + sandbox" and t
  assume *: "reads_sandboxes t
    \<and> (\<forall>sb. r = Inr sb \<longrightarrow> sb \<in> set (delivered t) \<and> (cl_admin cl \<or> owns cl sb))"
  show "traces (f r) (\<lambda>b t'. permitted (Some cl) (t @ t'))"
  proof (cases r)
    case (Inl e)
    have "traces (f (Inl e)) (\<lambda>_ t'. permitted (Some cl) t')" by (rule assms(1))
    then show ?thesis
      unfolding Inl by (rule traces_mono) (use * in \<open>auto intro: permitted_append permitted_reads\<close>)
  next
    case (Inr sb)
    with * have sb: "reads_sandboxes t" "sb \<in> set (delivered t)" "cl_admin cl \<or> owns cl sb" by auto
    have "traces (f (Inr sb)) (\<lambda>_ t'. \<forall>c \<in> set t'. call_permitted (Some cl) (t @ t') (fst c))"
      using assms(2) sb(2,3) unfolding after_finding_def by blast
    then show ?thesis
      unfolding Inr by (rule traces_mono) (use sb permitted_after [OF sb] in blast)
  qed
qed

lemma traces_lookup:
  assumes "\<And>e. traces (g e) (\<lambda>_. permitted (Some cl))" "\<And>sb. after_finding cl sb (h sb)"
  shows "traces (State_Monad.bind (getSandboxWithAuthCheck E sv i cl)
      (\<lambda>r. case r of Inl e \<Rightarrow> g e | Inr sb \<Rightarrow> h sb)) (\<lambda>_. permitted (Some cl))"
  by (rule traces_lookup_any) (use assms in simp_all)

lemma traces_claims:
  "(\<And>cl. traces (f cl) (\<lambda>_. permitted (Some cl)))
     \<Longrightarrow> traces (case claims of None \<Rightarrow> ret r | Some cl \<Rightarrow> f cl) (\<lambda>_. permitted claims)"
  by (cases claims) (auto intro: traces_ret)

lemma traces_refused: "traces (ret a) (\<lambda>_. permitted claims)"
  by (rule traces_ret) simp

lemmas handler_rules = traces_claims traces_case_sum traces_case_option traces_case_prod traces_if traces_refused
  traces_lookup found

lemma delete_permitted: "traces (handleDeleteSandbox E sv claims i) (\<lambda>_. permitted claims)"
  unfolding handleDeleteSandbox_def Let_def
  by (intro handler_rules; simp)

lemma stop_permitted: "traces (handleStopSandbox E sv claims i) (\<lambda>_. permitted claims)"
  unfolding handleStopSandbox_def Let_def
  by (intro handler_rules; simp)

lemma resume_permitted: "traces (handleResumeSandbox E sv claims i) (\<lambda>_. permitted claims)"
  unfolding handleResumeSandbox_def Let_def
  by (intro handler_rules; simp)

lemma share_permitted: "traces (handleShareSandbox E sv claims i body) (\<lambda>_. permitted claims)"
  unfolding handleShareSandbox_def Let_def
  by (intro handler_rules; simp)

lemma revoke_permitted: "traces (handleRevokeShare E sv claims i who) (\<lambda>_. permitted claims)"
  unfolding handleRevokeShare_def Let_def
  by (intro handler_rules; simp)

lemma patch_permitted: "traces (handlePatchSandbox PQ E sv claims i body) (\<lambda>_. permitted claims)"
  unfolding handlePatchSandbox_def patch_refusal_def Let_def
  by (intro handler_rules; simp)

lemma apply_permitted: "traces (applyOneBulkAction E sv cl act i) (\<lambda>_. permitted (Some cl))"
  unfolding applyOneBulkAction_def by (intro handler_rules; simp)

lemma traces_collect:
  assumes "\<And>x. traces (f x) (\<lambda>_. permitted claims)"
  shows "traces (collect xs f) (\<lambda>_. permitted claims)"
proof (induction xs)
  case Nil
  show ?case by (simp add: traces_ret)
next
  case (Cons x xs)
  show ?case
    unfolding collect.simps
    by (rule traces_bind [OF assms], rule traces_bind [OF Cons.IH], rule traces_ret)
      (simp add: permitted_append)
qed

lemma bulk_action_permitted: "traces (handleBulkAction E sv claims body) (\<lambda>_. permitted claims)"
  unfolding handleBulkAction_def
  apply (rule traces_claims)
  apply (intro traces_case_sum traces_case_prod traces_if traces_refused)
  apply (rule traces_bind [OF traces_collect [OF apply_permitted]])
  apply (intro tr, erule permitted_append, simp add: permitted_def)
  done

lemma expiry_permitted: "traces (expiry_of E x m) (\<lambda>_. permitted claims)"
  unfolding expiry_of_def by (intro tr) (auto simp: permitted_def)

text \<open>A permitted prefix does not disturb what follows.\<close>

lemma traces_permitted_bind:
  assumes "traces m (\<lambda>_. permitted claims)" "\<And>a. traces (f a) (\<lambda>_. permitted claims)"
  shows "traces (State_Monad.bind m f) (\<lambda>_. permitted claims)"
  by (rule traces_bind [OF assms(1)], rule traces_mono [OF assms(2)]) (rule permitted_append)

lemma share_link_permitted: "traces (handleCreateShareLink E sv claims i body) (\<lambda>_. permitted claims)"
  unfolding handleCreateShareLink_def Let_def
  by (intro handler_rules traces_permitted_bind [OF expiry_permitted]; simp)

text \<open>The clone's status is written on the object that the API server has just created.\<close>

lemma clone_from_permitted:
  "after_finding cl sb (clone_from E cl sb n c)"
  unfolding after_finding_def
proof (intro allI impI)
  fix t
  assume t: "sb \<in> set (delivered t) \<and> (cl_admin cl \<or> owns cl sb)"
  have snap: "call_permitted (Some cl) (t @ t') (CreateSnapshot (clone_snapshot sb a n c))" for t' a
    using t by (intro permit_found(4)) (auto simp: clone_snapshot_def)
  have made: "call_permitted (Some cl) t'' (CreateSandbox (clone_of sb cl n a))" for t'' a
    by (simp add: call_permitted_def clone_of_def new_sandbox_def)
  have status: "call_permitted (Some cl) (t @ t1 @ (CreateSandbox x, RSandbox y) # t2)
      (UpdateSandboxStatus (y\<lparr>sb_status := st\<rparr>))" for t1 x y t2 st
    by (simp add: call_permitted_def same_object_def)
  show "traces (clone_from E cl sb n c) (\<lambda>_ t'. \<forall>x \<in> set t'. call_permitted (Some cl) (t @ t') (fst x))"
    unfolding clone_from_def Let_def
    by (intro tr) (auto intro: snap made status [of "[_, _]", simplified])
qed

lemma clone_permitted: "traces (handleCloneSandbox E sv claims i body) (\<lambda>_. permitted claims)"
  unfolding handleCloneSandbox_def Let_def
  by (intro handler_rules clone_from_permitted; simp)

text \<open>Creation, alone and in a batch.\<close>

lemma permitted_calls:
  "(\<And>t. call_permitted claims t q) \<Longrightarrow> traces (ask E q f) (\<lambda>_. permitted claims)"
  "(\<And>t. call_permitted claims t q) \<Longrightarrow> traces (tell E q) (\<lambda>_. permitted claims)"
  by (auto intro!: traces_ask traces_tell simp: permitted_def)

lemma mode_permitted: "traces (resolveTemplateMode E ref ns) (\<lambda>_. permitted claims)"
  unfolding resolveTemplateMode_def Let_def
  by (intro traces_case_option traces_if traces_refused traces_permitted_bind permitted_calls; simp)

lemma resolve_permitted: "traces (ResolvePolicy E ns) (\<lambda>_. permitted claims)"
  unfolding ResolvePolicy_def GetPolicy_def load_def
  by (intro traces_case_sum traces_if traces_refused traces_permitted_bind permitted_calls; simp)

lemma refusal_permitted: "traces (governance_refusal PQ E cl ns sb) (\<lambda>_. permitted claims)"
  unfolding governance_refusal_def Let_def
  by (intro traces_case_sum traces_if traces_refused traces_permitted_bind resolve_permitted permitted_calls; simp)

lemma requested_creator:
  "requested_sandbox cl ns mode q = Inr sb \<Longrightarrow> spec_created_by (sb_spec sb) = Some (identity_of cl)"
  by (auto simp: requested_sandbox_def Let_def new_sandbox_def split: sum.splits if_splits)

lemma create_call_permitted:
  "requested_sandbox cl ns mode q = Inr sb \<Longrightarrow> call_permitted (Some cl) t (CreateSandbox sb)"
  by (simp add: call_permitted_def requested_creator)

lemma create_permitted: "traces (handleCreateSandbox PQ E sv claims body) (\<lambda>_. permitted claims)"
  unfolding handleCreateSandbox_def Let_def
  by (intro traces_claims traces_case_sum traces_case_option traces_if traces_refused traces_permitted_bind
      mode_permitted refusal_permitted permitted_calls; simp add: create_call_permitted)

lemma create_one_permitted:
  "traces (createOneBulkSandbox PQ E cl i item ns p u) (\<lambda>_. permitted (Some cl))"
  unfolding createOneBulkSandbox_def Let_def
  by (intro traces_case_sum traces_case_option traces_if traces_refused traces_permitted_bind
      mode_permitted permitted_calls; simp add: create_call_permitted)

lemma check_permitted: "traces (check_namespaces E sv cl items nss known) (\<lambda>_. permitted claims)"
  by (induction nss arbitrary: known)
    (auto simp: Let_def intro!: traces_case_sum traces_if traces_refused traces_permitted_bind
      resolve_permitted mode_permitted traces_collect permitted_calls)

lemma bulk_create_permitted: "traces (handleBulkCreate PQ order E sv claims body) (\<lambda>_. permitted claims)"
  unfolding handleBulkCreate_def
  by (intro traces_claims traces_case_sum traces_case_prod traces_if traces_refused traces_permitted_bind
      check_permitted traces_collect create_one_permitted permitted_calls; simp add: create_one_permitted split: prod.split)

section \<open>Properties\<close>

text \<open>C3. In every run of a handler, an existing sandbox is updated, deleted or snapshotted only
  if the API server delivered it in that run and the caller owns it or is an administrator; no
  update changes its name, namespace or creator; every sandbox created carries the caller's
  identity; and without claims nothing is changed.\<close>

theorem only_owner_or_admin_changes_a_sandbox:
  "traces (handleCreateSandbox PQ E sv claims (b1 :: string + create_request)) (\<lambda>_. permitted claims)
   \<and> traces (handleDeleteSandbox E sv claims i) (\<lambda>_. permitted claims)
   \<and> traces (handleStopSandbox E sv claims i) (\<lambda>_. permitted claims)
   \<and> traces (handleResumeSandbox E sv claims i) (\<lambda>_. permitted claims)
   \<and> traces (handleCloneSandbox E sv claims i b2) (\<lambda>_. permitted claims)
   \<and> traces (handlePatchSandbox PQ E sv claims i b3) (\<lambda>_. permitted claims)
   \<and> traces (handleShareSandbox E sv claims i b4) (\<lambda>_. permitted claims)
   \<and> traces (handleRevokeShare E sv claims i who) (\<lambda>_. permitted claims)
   \<and> traces (handleCreateShareLink E sv claims i b5) (\<lambda>_. permitted claims)
   \<and> traces (handleBulkCreate PQ order E sv claims b6) (\<lambda>_. permitted claims)
   \<and> traces (handleBulkAction E sv claims b7) (\<lambda>_. permitted claims)"
  by (intro conjI create_permitted delete_permitted stop_permitted resume_permitted clone_permitted
      patch_permitted share_permitted revoke_permitted share_link_permitted bulk_create_permitted
      bulk_action_permitted)

end
