(* ===== verification/Batch_Safety.thy ===== *)
theory Batch_Safety
  imports Router_Safety
begin

text \<open>
  The bulk handlers: what a batch of creations may create under the limits of its namespaces, and
  how a bulk action relates to the handler of the single action.
\<close>

section \<open>What a batch creates\<close>

fun creations :: "trace \<Rightarrow> sandbox list" where
  "creations [] = []"
| "creations ((CreateSandbox x, _) # t) = x # creations t"
| "creations (_ # t) = creations t"

lemma creations_append [simp]: "creations (t @ t') = creations t @ creations t'"
  by (induction t rule: creations.induct) auto

lemma creations_other [simp]: "(\<And>x. q \<noteq> CreateSandbox x) \<Longrightarrow> creations ((q, r) # t) = creations t"
  by (cases q) auto

definition creates_nothing :: "('w, 'a) kprog \<Rightarrow> bool" where
  "creates_nothing m \<longleftrightarrow> traces m (\<lambda>_ t. creations t = [])"

lemma creates_nothing_bind:
  "creates_nothing m \<Longrightarrow> (\<And>a. creates_nothing (f a)) \<Longrightarrow> creates_nothing (State_Monad.bind m f)"
  unfolding creates_nothing_def by (rule traces_bind [where P = "\<lambda>_ t. creations t = []"]) auto

lemma creates_nothing_calls:
  "creates_nothing (ret a)" "(\<And>x. q \<noteq> CreateSandbox x) \<Longrightarrow> creates_nothing (ask E q f)"
  by (auto simp: creates_nothing_def intro!: traces_ret traces_ask)

lemma creates_nothing_cases:
  "creates_nothing m \<Longrightarrow> creates_nothing n \<Longrightarrow> creates_nothing (if b then m else n)"
  "creates_nothing m \<Longrightarrow> (\<And>y. creates_nothing (g y)) \<Longrightarrow> creates_nothing (case x of None \<Rightarrow> m | Some y \<Rightarrow> g y)"
  "(\<And>e. creates_nothing (h e)) \<Longrightarrow> (\<And>y. creates_nothing (k y))
     \<Longrightarrow> creates_nothing (case z of Inl e \<Rightarrow> h e | Inr y \<Rightarrow> k y)"
  by (auto split: option.split sum.split)

lemmas no_creation = creates_nothing_bind creates_nothing_calls creates_nothing_cases

lemma mode_creates_nothing: "creates_nothing (resolveTemplateMode E ref ns)"
  unfolding resolveTemplateMode_def Let_def by (intro no_creation) simp_all

lemma resolve_creates_nothing: "creates_nothing (ResolvePolicy E ns)"
  unfolding ResolvePolicy_def GetPolicy_def load_def by (intro no_creation) simp_all

lemma collect_creates_nothing: "(\<And>x. creates_nothing (f x)) \<Longrightarrow> creates_nothing (collect xs f)"
  by (induction xs) (auto intro!: no_creation)

text \<open>Which policy a pass read for a namespace: \<open>policy_read ns reads p\<close> says that \<open>reads\<close> are the reads of the
  governance document for \<open>ns\<close>, the cluster's policy first and then its own, and that by their answers the
  policy in effect is \<open>p\<close>; \<open>None\<close> if an answer was an error or no document.\<close>

definition table_read :: "response \<Rightarrow> policy_table option" where
  "table_read r =
     (case as_config_map r of Inl NotFound \<Rightarrow> Some [] | Inl _ \<Rightarrow> None | Inr cm \<Rightarrow> table_of (Some cm))"

definition governance_read :: request where
  "governance_read = GetConfigMap ConfigMapNamespace ConfigMapName"

definition policy_read :: "string \<Rightarrow> trace \<Rightarrow> policy option \<Rightarrow> bool" where
  "policy_read ns reads p \<longleftrightarrow>
     (\<exists>a. reads = [(governance_read, a)] \<and> table_read a = None \<and> p = None)
     \<or> (\<exists>a t. reads = [(governance_read, a)] \<and> table_read a = Some t \<and> ns = [] \<and> p = Some (table_lookup t (scope_key [])))
     \<or> (\<exists>a t b. reads = [(governance_read, a), (governance_read, b)] \<and> table_read a = Some t \<and> ns \<noteq> []
          \<and> p = map_option (\<lambda>u. mergePolicies (table_lookup t (scope_key [])) (table_lookup u (scope_key ns)))
                  (table_read b))"

lemma load_traces:
  "traces (load E) (\<lambda>r t. \<exists>a. t = [(governance_read, a)] \<and> table_read a = (case r of Inl _ \<Rightarrow> None | Inr (u, _) \<Rightarrow> Some u))"
  unfolding load_def governance_read_def
  by (intro tr) (auto simp: table_read_def split: sum.split api_err.split option.split document.split)

lemma GetPolicy_reads:
  "traces (GetPolicy E scope) (\<lambda>r t. \<exists>a. t = [(governance_read, a)]
     \<and> (case r of Inl _ \<Rightarrow> table_read a = None
        | Inr p \<Rightarrow> \<exists>u. table_read a = Some u \<and> p = table_lookup u (scope_key scope)))"
  unfolding GetPolicy_def
  by (rule traces_bind [OF load_traces], rule traces_ret) (auto split: sum.splits)

lemma resolve_reads:
  "traces (ResolvePolicy E ns) (\<lambda>r t. creations t = [] \<and> policy_read ns t (case r of Inl _ \<Rightarrow> None | Inr p \<Rightarrow> Some p))"
proof -
  have quiet: "creations [(governance_read, a)] = []" "creations [(governance_read, a), (governance_read, b)] = []" for a b
    by (simp_all add: governance_read_def)
  show ?thesis
    unfolding ResolvePolicy_def
    by (intro traces_bind [OF GetPolicy_reads] traces_case_sum traces_if traces_ret)
      (auto simp: quiet policy_read_def split: sum.splits)
qed

definition batch_size :: "'k server \<Rightarrow> create_request list \<Rightarrow> string \<Rightarrow> nat" where
  "batch_size sv items ns = length (filter (\<lambda>q. request_namespace sv q = ns) items)"

text \<open>The check of one namespace. Its policy is read. If that fails, or the policy is empty, the namespace
  has no limits; otherwise its sandboxes are listed next, its limits are that policy with the usage
  counted in the listing, and they leave room for all its items of the batch.\<close>

definition ns_checked ::
  "'k server \<Rightarrow> claims \<Rightarrow> create_request list \<Rightarrow> (string \<rightharpoonup> policy \<times> usage) \<Rightarrow> string \<Rightarrow> trace \<Rightarrow> bool" where
  "ns_checked sv cl items known ns seg \<longleftrightarrow>
     (\<exists>reads rest r. seg = reads @ rest \<and> policy_read ns reads r
        \<and> (case r of
             None \<Rightarrow> known ns = None \<and> rest = []
           | Some p \<Rightarrow>
               if IsEmpty p then known ns = None \<and> rest = []
               else (\<exists>existing modes agentN. rest = (ListSandboxes ns, RSandboxes existing) # modes
                       \<and> known ns = Some (p, CountUsage existing (cl_sub cl))
                       \<and> CheckBulk p (CountUsage existing (cl_sub cl)) (batch_size sv items ns) agentN = [])))"

definition checks_done ::
  "'k server \<Rightarrow> claims \<Rightarrow> create_request list \<Rightarrow> string list \<Rightarrow> (string \<rightharpoonup> policy \<times> usage)
   \<Rightarrow> reply + (string \<rightharpoonup> policy \<times> usage) \<Rightarrow> trace \<Rightarrow> bool" where
  "checks_done sv cl items nss known0 r t \<longleftrightarrow>
     creations t = []
     \<and> (case r of
          Inl rep \<Rightarrow> rp_status rep \<in> {409, 500}
        | Inr known \<Rightarrow>
            (\<exists>segs. t = concat segs \<and> list_all2 (ns_checked sv cl items known) nss segs)
            \<and> (\<forall>n. n \<notin> set nss \<longrightarrow> known n = known0 n))"

lemma ns_checked_none:
  "policy_read ns t p \<Longrightarrow> p = None \<or> (\<exists>x. p = Some x \<and> IsEmpty x) \<Longrightarrow> known ns = None
     \<Longrightarrow> ns_checked sv cl items known ns t"
  unfolding ns_checked_def by (intro exI [of _ t] exI [of _ "[]"] exI [of _ p]) auto

lemma checks_done_Cons:
  assumes "checks_done sv cl items rest mid r t'" "creations seg = []"
    and "\<And>known. known ns = mid ns \<Longrightarrow> ns_checked sv cl items known ns seg"
    and "ns \<notin> set rest" "\<And>n. n \<noteq> ns \<Longrightarrow> mid n = known0 n"
  shows "checks_done sv cl items (ns # rest) known0 r (seg @ t')"
proof (cases r)
  case (Inl rep)
  then show ?thesis using assms(1,2) by (simp add: checks_done_def)
next
  case (Inr known)
  then obtain segs where segs: "t' = concat segs" "list_all2 (ns_checked sv cl items known) rest segs"
      "\<forall>n. n \<notin> set rest \<longrightarrow> known n = mid n" "creations t' = []"
    using assms(1) unfolding checks_done_def by auto
  then have "ns_checked sv cl items known ns seg" using assms(3,4) by blast
  then have "list_all2 (ns_checked sv cl items known) (ns # rest) (seg # segs)" "seg @ t' = concat (seg # segs)"
    using segs by simp_all
  moreover have "\<forall>n. n \<notin> set (ns # rest) \<longrightarrow> known n = known0 n" using segs(3) assms(5) by simp
  ultimately show ?thesis unfolding checks_done_def Inr sum.case using assms(2) segs(4) by (metis append_Nil creations_append)
qed

lemma check_namespaces_traces:
  assumes "distinct nss" "\<And>n. n \<in> set nss \<Longrightarrow> known0 n = None"
  shows "traces (check_namespaces E sv cl items nss known0) (checks_done sv cl items nss known0)"
  using assms
proof (induction nss arbitrary: known0)
  case Nil
  show ?case by (auto simp: checks_done_def intro!: traces_ret)
next
  case (Cons ns rest)
  have fresh: "ns \<notin> set rest" using Cons.prems(1) by simp
  have skip: "traces (check_namespaces E sv cl items rest known0)
      (\<lambda>r t'. checks_done sv cl items (ns # rest) known0 r (t @ t'))"
    if "creations t = []" "policy_read ns t p" "p = None \<or> (\<exists>x. p = Some x \<and> IsEmpty x)" for t p
  proof (rule traces_mono [OF Cons.IH])
    fix r t' assume "checks_done sv cl items rest known0 r t'"
    then show "checks_done sv cl items (ns # rest) known0 r (t @ t')"
      using that(1) fresh Cons.prems(2) ns_checked_none [OF that(2,3)]
      by (rule_tac checks_done_Cons) (assumption | simp)+
  qed (use Cons.prems in auto)
  have go: "traces (check_namespaces E sv cl items rest (known0(ns \<mapsto> (p, CountUsage existing (cl_sub cl)))))
      (\<lambda>r t'. checks_done sv cl items (ns # rest) known0 r (t1 @ (ListSandboxes ns, RSandboxes existing) # t2 @ t'))"
    if "creations t1 = []" "creations t2 = []" "\<not> IsEmpty p" "policy_read ns t1 (Some p)"
      "CheckBulk p (CountUsage existing (cl_sub cl)) (batch_size sv items ns) agentN = []"
    for p existing t1 t2 agentN
  proof (rule traces_mono [OF Cons.IH])
    let ?pu = "(p, CountUsage existing (cl_sub cl))" and ?seg = "t1 @ (ListSandboxes ns, RSandboxes existing) # t2"
    fix r t'
    assume IH: "checks_done sv cl items rest (known0(ns \<mapsto> ?pu)) r t'"
    have "ns_checked sv cl items known ns ?seg" if "known ns = (known0(ns \<mapsto> ?pu)) ns" for known
      unfolding ns_checked_def using that \<open>\<not> IsEmpty p\<close> \<open>policy_read ns t1 (Some p)\<close>
        \<open>CheckBulk p (CountUsage existing (cl_sub cl)) (batch_size sv items ns) agentN = []\<close>
      by (intro exI [of _ t1] exI [of _ "(ListSandboxes ns, RSandboxes existing) # t2"] exI [of _ "Some p"]) auto
    then have "checks_done sv cl items (ns # rest) known0 r (?seg @ t')"
      using IH that(1,2) fresh by (intro checks_done_Cons [where mid = "known0(ns \<mapsto> ?pu)"]) auto
    then show "checks_done sv cl items (ns # rest) known0 r (t1 @ (ListSandboxes ns, RSandboxes existing) # t2 @ t')"
      by simp
  qed (use Cons.prems in auto)
  show ?case
    unfolding check_namespaces.simps Let_def
  proof (rule traces_bind [OF resolve_reads])
    fix r :: "string + policy" and t
    assume r: "creations t = [] \<and> policy_read ns t (case r of Inl _ \<Rightarrow> None | Inr p \<Rightarrow> Some p)"
    show "traces (case r of Inl _ \<Rightarrow> check_namespaces E sv cl items rest known0
        | Inr policy \<Rightarrow> if IsEmpty policy then check_namespaces E sv cl items rest known0
            else do {
              ls \<leftarrow> ask E (ListSandboxes ns) as_sandboxes;
              (case ls of
                 Inl e \<Rightarrow> ret (Inl (respondError 500 (''failed to check namespace usage: '' @ err_text e)))
               | Inr existing \<Rightarrow> do {
                   modes \<leftarrow> collect (filter (\<lambda>q. request_namespace sv q = ns) items)
                     (\<lambda>q. resolveTemplateMode E (cq_template q) ns);
                   if CheckBulk policy (CountUsage existing (cl_sub cl))
                        (length (filter (\<lambda>q. request_namespace sv q = ns) items))
                        (length (filter (\<lambda>m. m = SandboxModeAgent) modes)) \<noteq> []
                   then ret (Inl (respondJSON 409 (JObj
                          [(''error'', JText ''quota_would_exceed''), (''namespace'', JText ns),
                           (''violations'', violationsToJSON (CheckBulk policy (CountUsage existing (cl_sub cl))
                              (length (filter (\<lambda>q. request_namespace sv q = ns) items))
                              (length (filter (\<lambda>m. m = SandboxModeAgent) modes))))])))
                   else check_namespaces E sv cl items rest
                          (known0(ns \<mapsto> (policy, CountUsage existing (cl_sub cl))))
                 })
            }) (\<lambda>b t'. checks_done sv cl items (ns # rest) known0 b (t @ t'))"
    proof (intro traces_case_sum traces_if)
      fix e assume "r = Inl e"
      then show "traces (check_namespaces E sv cl items rest known0)
          (\<lambda>b t'. checks_done sv cl items (ns # rest) known0 b (t @ t'))"
        using skip [of t None] r by simp
    next
      fix p assume "r = Inr p" "IsEmpty p"
      then show "traces (check_namespaces E sv cl items rest known0)
          (\<lambda>b t'. checks_done sv cl items (ns # rest) known0 b (t @ t'))"
        using skip [of t "Some p"] r by simp
    next
      fix p assume p: "r = Inr p" "\<not> IsEmpty p"
      have stop: "checks_done sv cl items (ns # rest) known0 (Inl rep) (t @ c # t')"
        if "rp_status rep \<in> {409, 500}" "creations t' = []" "fst c = ListSandboxes ns" for rep c t'
        using that r by (cases c) (simp add: checks_done_def)
      show "traces (do {
              ls \<leftarrow> ask E (ListSandboxes ns) as_sandboxes;
              (case ls of
                 Inl e \<Rightarrow> ret (Inl (respondError 500 (''failed to check namespace usage: '' @ err_text e)))
               | Inr existing \<Rightarrow> do {
                   modes \<leftarrow> collect (filter (\<lambda>q. request_namespace sv q = ns) items)
                     (\<lambda>q. resolveTemplateMode E (cq_template q) ns);
                   if CheckBulk p (CountUsage existing (cl_sub cl))
                        (length (filter (\<lambda>q. request_namespace sv q = ns) items))
                        (length (filter (\<lambda>m. m = SandboxModeAgent) modes)) \<noteq> []
                   then ret (Inl (respondJSON 409 (JObj
                          [(''error'', JText ''quota_would_exceed''), (''namespace'', JText ns),
                           (''violations'', violationsToJSON (CheckBulk p (CountUsage existing (cl_sub cl))
                              (length (filter (\<lambda>q. request_namespace sv q = ns) items))
                              (length (filter (\<lambda>m. m = SandboxModeAgent) modes))))])))
                   else check_namespaces E sv cl items rest (known0(ns \<mapsto> (p, CountUsage existing (cl_sub cl))))
                 })
            }) (\<lambda>b t'. checks_done sv cl items (ns # rest) known0 b (t @ t'))"
        apply (rule traces_ask_bind, rule traces_case_sum)
         apply (rule traces_ret, rule stop; simp)
        apply (rule traces_bind [OF collect_creates_nothing [OF mode_creates_nothing, unfolded creates_nothing_def]])
        apply (rule traces_if)
         apply (rule traces_ret, rule stop; simp)
        apply simp
        apply (rule go)
        using r p apply (simp_all add: batch_size_def)
        done
    qed
  qed
qed

text \<open>A created sandbox answers an item: its name, its namespace, the caller as creator, and no
  violation of the limits known for the namespace.\<close>

definition admitted_item ::
  "(string \<Rightarrow> quantity option) \<Rightarrow> 'k server \<Rightarrow> claims \<Rightarrow> (string \<rightharpoonup> policy \<times> usage) \<Rightarrow> create_request \<Rightarrow> sandbox
   \<Rightarrow> bool" where
  "admitted_item PQ sv cl known q x \<longleftrightarrow>
     sb_name x = cq_name q \<and> sb_namespace x = request_namespace sv q
     \<and> spec_created_by (sb_spec x) = Some (identity_of cl)
     \<and> (case known (request_namespace sv q) of
          None \<Rightarrow> True
        | Some (p, u) \<Rightarrow> \<not> IsEmpty p \<longrightarrow> Check PQ p u x = [])"

lemma requested_object:
  "requested_sandbox cl ns mode q = Inr sb \<Longrightarrow>
     sb_name sb = cq_name q \<and> sb_namespace sb = ns \<and> spec_created_by (sb_spec sb) = Some (identity_of cl)"
  by (auto simp: requested_sandbox_def Let_def new_sandbox_def split: sum.splits if_splits)

definition at_most_for ::
  "(string \<Rightarrow> quantity option) \<Rightarrow> 'k server \<Rightarrow> claims \<Rightarrow> (string \<rightharpoonup> policy \<times> usage) \<Rightarrow> create_request \<Rightarrow> trace
   \<Rightarrow> bool" where
  "at_most_for PQ sv cl known q t \<longleftrightarrow>
     creations t = [] \<or> (\<exists>x. creations t = [x] \<and> admitted_item PQ sv cl known q x)"

lemma create_one_traces:
  assumes "known_limits known (request_namespace sv q) = (p, u)"
  shows "traces (createOneBulkSandbox PQ E cl i q (default_namespace sv) p u)
           (\<lambda>_. at_most_for PQ sv cl known q)"
proof -
  let ?ns = "if cq_namespace q = [] then default_namespace sv else cq_namespace q"
  have admitted: "admitted_item PQ sv cl known q sb"
    if "requested_sandbox cl ?ns mode q = Inr sb" "\<not> (\<not> IsEmpty p \<and> Check PQ p u sb \<noteq> [])" for mode sb
    using requested_object [OF that(1)] that(2) assms
    by (auto simp: admitted_item_def request_namespace_def known_limits_def split: option.splits)
  have none: "traces (ret r) (\<lambda>_. at_most_for PQ sv cl known q)" for r :: bulk_create_result
    by (rule traces_ret) (simp add: at_most_for_def)
  have some: "traces (do {
          c \<leftarrow> ask E (CreateSandbox sb) as_sandbox;
          ret (case c of
                 Inl e \<Rightarrow> bulk_failed i (''failed to create sandbox: '' @ err_text e)
               | Inr x \<Rightarrow>
                   \<lparr>bcr_index = i, bcr_status = ''created'', bcr_sandbox = sb_name x, bcr_error = []\<rparr>)
        }) (\<lambda>_ t'. at_most_for PQ sv cl known q (t @ t'))"
    if "creations t = []" "admitted_item PQ sv cl known q sb" for t sb
    by (rule traces_ask_bind, rule traces_ret) (use that in \<open>simp add: at_most_for_def\<close>)
  show ?thesis
    unfolding createOneBulkSandbox_def Let_def
    apply (intro traces_if traces_case_option none)
    apply (rule traces_bind [OF mode_creates_nothing [unfolded creates_nothing_def]])
    apply (intro traces_case_sum traces_if)
    subgoal by (rule traces_ret) (simp add: at_most_for_def)
    subgoal by (rule traces_ret) (simp add: at_most_for_def)
    subgoal for tref mode t sb by (rule some [OF _ admitted]) blast+
    done
qed

text \<open>The creations of the batch, in the order of its items.\<close>

lemma create_all_traces:
  "traces (collect (enumerate n items) (\<lambda>(i, item).
       case known_limits known (request_namespace sv item) of (p, u) \<Rightarrow>
         createOneBulkSandbox PQ E cl i item (default_namespace sv) p u))
     (\<lambda>_ t. \<exists>picked. subseq picked items \<and> list_all2 (admitted_item PQ sv cl known) picked (creations t))"
proof (induction items arbitrary: n)
  case Nil
  show ?case by (auto intro: traces_ret)
next
  case (Cons q items)
  obtain p u where pu: "known_limits known (request_namespace sv q) = (p, u)" by fastforce
  have step: "\<exists>picked. subseq picked (q # items)
      \<and> list_all2 (admitted_item PQ sv cl known) picked (creations (t @ t'))"
    if t: "at_most_for PQ sv cl known q t"
      and "subseq picked items" "list_all2 (admitted_item PQ sv cl known) picked (creations t')" for t t' picked
  proof (cases "creations t = []")
    case True
    then show ?thesis using that(2,3) by (intro exI [of _ picked]) (simp add: list_emb_Cons)
  next
    case False
    then show ?thesis using that unfolding at_most_for_def by (intro exI [of _ "q # picked"]) auto
  qed
  show ?case
    unfolding enumerate_simps collect.simps prod.case pu
    apply (rule traces_bind [OF create_one_traces [OF pu]])
    apply (rule traces_bind [OF Cons.IH])
    apply (rule traces_ret)
    using step by fastforce
qed

definition in_namespace :: "string \<Rightarrow> sandbox \<Rightarrow> bool" where
  "in_namespace ns x \<longleftrightarrow> sb_namespace x = ns"

lemma batch_counts:
  "list_all2 (admitted_item PQ sv cl known) picked xs \<Longrightarrow> subseq picked items
     \<Longrightarrow> length (filter (in_namespace ns) xs) \<le> batch_size sv items ns"
proof -
  assume "list_all2 (admitted_item PQ sv cl known) picked xs" and sub: "subseq picked items"
  from this(1) have "length (filter (in_namespace ns) xs) = batch_size sv picked ns"
    by (induction rule: list_all2_induct) (auto simp: batch_size_def admitted_item_def in_namespace_def)
  also have "\<dots> \<le> batch_size sv items ns"
    unfolding batch_size_def using sub by (rule list_emb_length [OF subseq_filter])
  finally show ?thesis .
qed

text \<open>The limit on all sandboxes of a namespace, and that on those of the caller, hold after the
  creations \<open>xs\<close> when added to the usage that was counted.\<close>

definition stays_within :: "policy \<times> usage \<Rightarrow> nat \<Rightarrow> bool" where
  "stays_within pu n \<longleftrightarrow>
     (pol_max_total (fst pu) > 0 \<longrightarrow> int (us_total (snd pu) + n) \<le> pol_max_total (fst pu))
     \<and> (pol_max_per_user (fst pu) > 0 \<longrightarrow> int (us_user (snd pu) + n) \<le> pol_max_per_user (fst pu))"

lemma checked_stays_within:
  assumes "ns_checked sv cl items known ns seg" "known ns = Some pu" "n \<le> batch_size sv items ns"
  shows "stays_within pu n"
proof -
  obtain p existing agentN where pu: "pu = (p, CountUsage existing (cl_sub cl))"
    and "CheckBulk p (CountUsage existing (cl_sub cl)) (batch_size sv items ns) agentN = []"
    using assms(1,2) unfolding ns_checked_def by (auto split: option.splits if_splits)
  then show ?thesis using assms(3) unfolding pu stays_within_def CheckBulk_iff by auto
qed

text \<open>What a batch may do: nothing is created and the answer is an error; or every namespace of the batch
  was checked first, one after the other, which yields the limits \<open>known\<close>, and some of the items are
  created, in their order, each within the limits of its namespace.\<close>

definition batch_created ::
  "(string \<Rightarrow> quantity option) \<Rightarrow> 'k server \<Rightarrow> claims \<Rightarrow> create_request list
   \<Rightarrow> (string \<rightharpoonup> policy \<times> usage) \<Rightarrow> trace \<Rightarrow> trace \<Rightarrow> bool" where
  "batch_created PQ sv cl items known t1 t2 \<longleftrightarrow>
     creations t1 = []
     \<and> (\<exists>nss segs. distinct nss \<and> set nss = request_namespace sv ` set items \<and> t1 = concat segs
          \<and> list_all2 (ns_checked sv cl items known) nss segs)
     \<and> (\<exists>picked. subseq picked items \<and> list_all2 (admitted_item PQ sv cl known) picked (creations t2))
     \<and> (\<forall>ns pu. known ns = Some pu \<longrightarrow> stays_within pu (length (filter (in_namespace ns) (creations t2))))"

definition batch_outcome ::
  "(string \<Rightarrow> quantity option) \<Rightarrow> 'k server \<Rightarrow> claims option \<Rightarrow> string + create_request list
   \<Rightarrow> reply \<Rightarrow> trace \<Rightarrow> bool" where
  "batch_outcome PQ sv claims body rep t \<longleftrightarrow>
     (rp_status rep \<noteq> 200 \<and> creations t = [])
     \<or> (\<exists>cl items known t1 t2.
          claims = Some cl \<and> cl_sandbox cl = [] \<and> body = Inr items \<and> items \<noteq> [] \<and> rp_status rep = 200
          \<and> t = t1 @ t2 \<and> batch_created PQ sv cl items known t1 t2)"

lemma status_unauthenticated [simp]: "rp_status unauthenticated = 401"
  by (simp add: unauthenticated_def)

lemma batch_createdI:
  assumes checked: "checks_done sv cl items nss Map.empty (Inr known) t1"
    and cover: "set nss = request_namespace sv ` set items" "distinct nss"
    and picked: "subseq picked items" "list_all2 (admitted_item PQ sv cl known) picked (creations t2)"
  shows "batch_created PQ sv cl items known t1 t2"
proof -
  obtain segs where segs: "t1 = concat segs" "list_all2 (ns_checked sv cl items known) nss segs"
      "\<forall>n. n \<notin> set nss \<longrightarrow> known n = None" "creations t1 = []"
    using checked by (auto simp: checks_done_def)
  have "stays_within pu (length (filter (in_namespace ns) (creations t2)))" if "known ns = Some pu" for ns pu
  proof -
    have "ns \<in> set nss" using that segs(3) by (metis option.distinct(1))
    then obtain seg where "ns_checked sv cl items known ns seg"
      using segs(2) by (metis in_set_conv_nth list_all2_nthD)
    then show ?thesis using that checked_stays_within batch_counts [OF picked(2,1)] by blast
  qed
  then show ?thesis
    unfolding batch_created_def
    by (intro conjI exI [of _ nss] exI [of _ segs] exI [of _ picked]) (use segs cover picked in simp_all)
qed

lemma batch_outcomeI:
  assumes "checks_done sv cl items nss Map.empty (Inr known) t1"
    and "set nss = request_namespace sv ` set items" "distinct nss"
    and "\<exists>picked. subseq picked items \<and> list_all2 (admitted_item PQ sv cl known) picked (creations t2)"
    and "creations t3 = []" "cl_sandbox cl = []" "items \<noteq> []" "rp_status rep = 200"
  shows "batch_outcome PQ sv (Some cl) (Inr items) rep (t1 @ t2 @ t3)"
proof -
  have "\<exists>picked. subseq picked items \<and> list_all2 (admitted_item PQ sv cl known) picked (creations (t2 @ t3))"
    using assms(4,5) by simp
  then have "batch_created PQ sv cl items known t1 (t2 @ t3)"
    using batch_createdI [OF assms(1-3)] by blast
  then show ?thesis using assms(6-8) unfolding batch_outcome_def by blast
qed

section \<open>The bulk action and the single one\<close>

text \<open>The handler that a single action has, and what the bulk response says of its reply.\<close>

definition single_action ::
  "'w api \<Rightarrow> 'k server \<Rightarrow> claims \<Rightarrow> string \<Rightarrow> string \<Rightarrow> ('w, reply) kprog" where
  "single_action E sv cl act i =
     (if act = ''stop'' then handleStopSandbox E sv (Some cl) i
      else if act = ''resume'' then handleResumeSandbox E sv (Some cl) i
      else handleDeleteSandbox E sv (Some cl) i)"

definition action_of :: "string \<Rightarrow> reply \<Rightarrow> bulk_action_result" where
  "action_of i rep =
     (if rp_status rep < 300 then action_done i
      else action_failed i (case field ''error'' (rp_body rep) of Some (JText e) \<Rightarrow> e | _ \<Rightarrow> []))"

lemma action_of_replies [simp]:
  "action_of i (respondError 404 e) = action_failed i e" "action_of i (respondError 409 e) = action_failed i e"
  "action_of i (respondError 500 e) = action_failed i e"
  "action_of i (respondJSON 200 j) = action_done i" "action_of i (respondEmpty 204) = action_done i"
  by (simp_all add: action_of_def respondError_def respondJSON_def respondEmpty_def)

lemma bind_cong: "(\<And>a. f a = g a) \<Longrightarrow> State_Monad.bind m f = State_Monad.bind m g"
  by presburger

lemma ret_bind [simp]: "State_Monad.bind (ret a) f = f a"
  by (simp add: ret_def State_Monad.bind_def)

lemma apply_stop:
  "applyOneBulkAction E sv cl ''stop'' i = do { rep \<leftarrow> handleStopSandbox E sv (Some cl) i; ret (action_of i rep) }"
  unfolding applyOneBulkAction_def handleStopSandbox_def option.case bind_assoc
proof (rule bind_cong, goal_cases)
  case (1 r)
  show ?case by (cases r) (auto intro!: bind_cong split: sum.split)
qed

lemma apply_resume:
  "applyOneBulkAction E sv cl ''resume'' i = do { rep \<leftarrow> handleResumeSandbox E sv (Some cl) i; ret (action_of i rep) }"
  unfolding applyOneBulkAction_def handleResumeSandbox_def option.case bind_assoc
proof (rule bind_cong, goal_cases)
  case (1 r)
  show ?case by (cases r) (auto intro!: bind_cong split: sum.split)
qed

lemma apply_delete:
  "applyOneBulkAction E sv cl ''delete'' i = do { rep \<leftarrow> handleDeleteSandbox E sv (Some cl) i; ret (action_of i rep) }"
  unfolding applyOneBulkAction_def handleDeleteSandbox_def option.case bind_assoc
proof (rule bind_cong, goal_cases)
  case (1 r)
  show ?case by (cases r) (auto intro!: bind_cong split: sum.split)
qed

lemma apply_single:
  "act \<in> set validBulkActions
     \<Longrightarrow> applyOneBulkAction E sv cl act i = do { rep \<leftarrow> single_action E sv cl act i; ret (action_of i rep) }"
  by (auto simp: single_action_def validBulkActions_def apply_stop apply_resume apply_delete)

section \<open>Properties\<close>


text \<open>The limit of two lets two items through, in their order.\<close>

definition two_policy :: policy where "two_policy = empty_policy\<lparr>pol_max_total := 2\<rparr>"

fun cluster_of_two :: "unit api" where
  "cluster_of_two w (GetConfigMap ns n) = (RConfigMap (governance_map [(scope_key [], two_policy)] ''1''), w)"
| "cluster_of_two w (ListSandboxes ns) = (RSandboxes [], w)"
| "cluster_of_two w (CreateSandbox x) = (RSandbox x, w)"
| "cluster_of_two w _ = (RErr NotFound, w)"

definition item_named :: "string \<Rightarrow> create_request" where
  "item_named n =
     \<lparr>cq_name = n, cq_namespace = [],
      cq_template = Some \<lparr>tr_name = ''base'', tr_kind = [], tr_namespace = []\<rparr>,
      cq_timeout = [], cq_idle_timeout = [], cq_storage = None\<rparr>"

text \<open>The steps of a small batch.\<close>

lemma two_resolves:
  "run_state (ResolvePolicy cluster_of_two ''default'') ((), l)
     = (Inr two_policy, ((), l @ replicate 2 (GetConfigMap ConfigMapNamespace ConfigMapName,
          RConfigMap (governance_map [(scope_key [], two_policy)] ''1''))))"
  by (simp add: ResolvePolicy_def GetPolicy_def load_def run_bind governance_map_def
      scope_key_def clusterPolicyKey_def merge_empty_policy numeral_2_eq_2)

lemma two_mode:
  "run_state (resolveTemplateMode cluster_of_two (cq_template (item_named n)) ns) ((), l)
     = (ModeUnset, ((), l @ [(GetClusterTemplate ''base'', RErr NotFound)]))"
  by (simp add: resolveTemplateMode_def item_named_def run_bind)

lemma two_object:
  "requested_sandbox ann ''default'' ModeUnset (item_named n)
     = Inr (new_sandbox ''default'' n (empty_spec\<lparr>spec_template := cq_template (item_named n),
              spec_created_by := Some (identity_of ann)\<rparr>))"
  by (simp add: requested_sandbox_def item_named_def empty_spec_def)

abbreviation two_item :: "string \<Rightarrow> sandbox" where
  "two_item n \<equiv> new_sandbox ''default'' n (empty_spec\<lparr>spec_template := cq_template (item_named n),
              spec_created_by := Some (identity_of ann)\<rparr>)"

lemma two_checks:
  "\<not> IsEmpty two_policy"
  "CheckBulk two_policy (CountUsage [] sub) k 0 = [] \<longleftrightarrow> k \<le> 2"
  "Check (\<lambda>_. None) two_policy (CountUsage [] sub) (two_item n) = []"
  by (simp add: two_policy_def empty_policy_def IsEmpty_def)
   (auto simp: two_policy_def empty_policy_def CheckBulk_iff CountUsage_def Check_def new_sandbox_def
      empty_spec_def item_named_def image_override_def CheckResourceLimits_def over_quantity_def
      over_duration_def limit_in_def)

lemma two_creates:
  "run_state (createOneBulkSandbox (\<lambda>_. None) cluster_of_two ann i (item_named n) ''default''
       two_policy (CountUsage [] sub)) ((), l)
     = (\<lparr>bcr_index = i, bcr_status = ''created'', bcr_sandbox = n, bcr_error = []\<rparr>,
        ((), l @ [(GetClusterTemplate ''base'', RErr NotFound), (CreateSandbox (two_item n), RSandbox (two_item n))]))"
  if "n \<noteq> []"
proof -
  have "cq_template (item_named n) = Some \<lparr>tr_name = ''base'', tr_kind = [], tr_namespace = []\<rparr>"
    "cq_name (item_named n) = n" "cq_namespace (item_named n) = []"
    by (simp_all add: item_named_def)
  then show ?thesis
    using that two_mode [of n "''default''" l] two_checks(3) [of sub n]
    by (simp add: createOneBulkSandbox_def run_bind Let_def two_object new_sandbox_def)
qed

lemma unit_run: "\<exists>a l. (x :: 'a \<times> unit \<times> 'b) = (a, ((), l))"
  by (cases x) simp

lemma two_checked:
  "run_state (check_namespaces cluster_of_two keys_only ann (map item_named ns) [''default''] Map.empty) ((), [])
     = (if length ns \<le> 2 then Inr [''default'' \<mapsto> (two_policy, CountUsage [] ''ann'')]
        else Inl (respondJSON 409 (JObj [(''error'', JText ''quota_would_exceed''), (''namespace'', JText ''default''),
               (''violations'', violationsToJSON (CheckBulk two_policy (CountUsage [] ''ann'') (length ns) 0))])),
        ((), replicate 2 (GetConfigMap ConfigMapNamespace ConfigMapName,
               RConfigMap (governance_map [(scope_key [], two_policy)] ''1''))
             @ (ListSandboxes ''default'', RSandboxes [])
             # replicate (length ns) (GetClusterTemplate ''base'', RErr NotFound)))"
proof -
  have mine: "filter (\<lambda>q. request_namespace keys_only q = ''default'') (map item_named ns) = map item_named ns"
    by (simp add: filter_True request_namespace_def item_named_def default_namespace_def keys_only_def)
  have modes: "run_state (collect (map item_named ns)
        (\<lambda>q. resolveTemplateMode cluster_of_two (cq_template q) ''default'')) ((), l)
      = (replicate (length ns) ModeUnset, ((), l @ replicate (length ns) (GetClusterTemplate ''base'', RErr NotFound)))" for l
    by (induction ns arbitrary: l) (simp_all add: run_bind two_mode)
  show ?thesis
    by (simp add: run_bind two_resolves Let_def mine modes two_checks filter_empty_conv ann_def)
qed


text \<open>C23. A bulk action does to each sandbox of the list exactly what the handler of the single
  action does, call by call and in order, with the same authorization and the same guard on the
  phase, and it reports each answer under the identifier of its sandbox.\<close>

theorem bulk_action_is_the_single_actions:
  "handleBulkAction E sv (Some cl) (Inr (act, ids)) =
     (if cl_sandbox cl \<noteq> []
      then ret (respondError 403 ''sandbox-scoped keys may not perform bulk operations'')
      else if act \<notin> {''stop'', ''resume'', ''delete''}
      then ret (respondError 400 ''action must be one of \"stop\", \"resume\", \"delete\"'')
      else if ids = [] then ret (respondError 400 ''ids must be a non-empty array'')
      else do {
        results \<leftarrow> collect ids (\<lambda>i. do { rep \<leftarrow> single_action E sv cl act i; ret (action_of i rep) });
        tell E (RecordAudit (cl_sub cl) (''bulk.'' @ act) ''sandbox'' []);
        ret (respondJSON 200 (JObj [(''results'', JList (map actionResultJSON results))]))
      })"
proof -
  have actions: "set validBulkActions = {''stop'', ''resume'', ''delete''}"
    by (simp add: validBulkActions_def)
  have same: "applyOneBulkAction E sv cl act = (\<lambda>i. do { rep \<leftarrow> single_action E sv cl act i; ret (action_of i rep) })"
    if "act \<in> {''stop'', ''resume'', ''delete''}"
    using apply_single that unfolding actions by blast
  show ?thesis
    unfolding handleBulkAction_def actions option.case sum.case prod.case
    by (cases "act \<in> {''stop'', ''resume'', ''delete''}") (simp_all only: same if_True if_False not_True_eq_False not_False_eq_True)
qed

end
