(* ===== verification/Sharing_Safety.thy ===== *)
theory Sharing_Safety
  imports Router_Safety
begin

text \<open>
  What sharing and unsharing do to the access to a sandbox: which identities a sandbox admits, and
  how a grant or a revocation changes that, for every caller and every behaviour of the API server.
\<close>

section \<open>Whom a sandbox admits\<close>

text \<open>The entries of the sandbox's sharing through which \<open>cl\<close> comes in.\<close>

definition admitted_by :: "sandbox \<Rightarrow> claims \<Rightarrow> string set" where
  "admitted_by sb cl =
     (case spec_sharing (sb_spec sb) of
        None \<Rightarrow> {}
      | Some sh \<Rightarrow>
          {i \<in> shp_identity ` set (sh_users sh). i \<noteq> [] \<and> i \<in> {cl_sub cl, cl_email cl}}
          \<union> (shp_identity ` set (sh_groups sh) \<inter> set (cl_groups cl)))"

lemma access_iff:
  "userCanAccessSandbox sb (Some cl) \<longleftrightarrow> cl_admin cl \<or> owns cl sb \<or> admitted_by sb cl \<noteq> {}"
  by (auto simp: userCanAccessSandbox_def admitted_by_def list_ex_iff split: option.splits)

definition named_by :: "share_request \<Rightarrow> claims \<Rightarrow> bool" where
  "named_by q cl \<longleftrightarrow>
     (if shq_kind q = ''group'' then shq_identity q \<in> set (cl_groups cl)
      else shq_identity q \<in> {cl_sub cl, cl_email cl})"

lemma upsert_identities [simp]:
  "shp_identity ` set (upsertSharePermission ps p) = insert (shp_identity p) (shp_identity ` set ps)"
  by (induction ps) auto

lemma remove_identities [simp]:
  "shp_identity ` set (removeSharePermission ps i) = shp_identity ` set ps - {i}"
  by (auto simp: removeSharePermission_def)

lemma owns_changed [simp]: "owns cl (change_sharing f sb) = owns cl sb"
  by (simp add: owns_def change_sharing_def Let_def)

lemma admitted_after_grant:
  "shq_identity q \<noteq> []
     \<Longrightarrow> admitted_by (change_sharing (granted_to q) sb) cl
          = (if named_by q cl then insert (shq_identity q) (admitted_by sb cl) else admitted_by sb cl)"
  by (cases "spec_sharing (sb_spec sb)")
    (auto simp: admitted_by_def change_sharing_def granted_to_def named_by_def empty_sharing_def Let_def)

lemma admitted_after_revocation:
  "admitted_by (change_sharing (revoked_from who) sb) cl = admitted_by sb cl - {who}"
  by (cases "spec_sharing (sb_spec sb)")
    (auto simp: admitted_by_def change_sharing_def revoked_from_def empty_sharing_def Let_def)

lemma admitted_unshared: "spec_sharing (sb_spec sb) = None \<Longrightarrow> admitted_by sb cl = {}"
  by (simp add: admitted_by_def)

section \<open>The level of a share\<close>

text \<open>Access does not look at levels: giving every share of a sandbox another level changes nothing.\<close>

definition releveled :: "string \<Rightarrow> sharing_spec \<Rightarrow> sharing_spec" where
  "releveled l sh =
     sh\<lparr>sh_users := map (\<lambda>p. p\<lparr>shp_level := l\<rparr>) (sh_users sh),
        sh_groups := map (\<lambda>p. p\<lparr>shp_level := l\<rparr>) (sh_groups sh)\<rparr>"

lemma level_is_not_enforced:
  "userCanAccessSandbox (change_sharing (releveled l) sb) claims = userCanAccessSandbox sb claims"
proof (cases claims)
  case None
  then show ?thesis by (simp add: userCanAccessSandbox_def)
next
  case (Some cl)
  have "admitted_by (change_sharing (releveled l) sb) cl = admitted_by sb cl"
    by (cases "spec_sharing (sb_spec sb)")
      (simp_all add: admitted_by_def change_sharing_def releveled_def empty_sharing_def Let_def image_image)
  then show ?thesis by (simp add: Some access_iff)
qed

section \<open>The updates of a handler\<close>

fun updates :: "trace \<Rightarrow> sandbox list" where
  "updates [] = []"
| "updates ((UpdateSandbox x, _) # t) = x # updates t"
| "updates (_ # t) = updates t"

lemma updates_append [simp]: "updates (t @ t') = updates t @ updates t'"
  by (induction t rule: updates.induct) auto

lemma reads_update_nothing: "reads_sandboxes t \<Longrightarrow> updates t = []"
  by (induction t rule: updates.induct) (auto simp: reads_sandboxes_def)

lemma event_updates_nothing: "traces (emitSandboxEvent E x a b c) (\<lambda>_ t. updates t = [] \<and> delivered t = [])"
  unfolding emitSandboxEvent_def by (intro tr) auto

text \<open>\<open>access_becomes new rep t\<close>: the only update, if there is one, writes a sandbox that was read in
  this run and to which exactly the callers of \<open>new\<close> then have access; a successful reply comes with
  such an update, or the sandbox was as wanted already.\<close>

definition opens_to :: "(sandbox \<Rightarrow> claims \<Rightarrow> bool) \<Rightarrow> sandbox \<Rightarrow> sandbox \<Rightarrow> bool" where
  "opens_to new sb x \<longleftrightarrow> same_object x sb \<and> (\<forall>cl. userCanAccessSandbox x (Some cl) \<longleftrightarrow> new sb cl)"

definition access_becomes :: "(sandbox \<Rightarrow> claims \<Rightarrow> bool) \<Rightarrow> reply \<Rightarrow> trace \<Rightarrow> bool" where
  "access_becomes new rep t \<longleftrightarrow>
     (\<exists>sb \<in> set (delivered t).
        (\<exists>x. updates t = [x] \<and> opens_to new sb x) \<or> (updates t = [] \<and> opens_to new sb sb))
     \<or> (updates t = [] \<and> rp_status rep \<noteq> 200)"

lemma access_refused: "rp_status rep \<noteq> 200 \<Longrightarrow> reads_sandboxes t \<Longrightarrow> access_becomes new rep t"
  by (simp add: access_becomes_def reads_update_nothing)

lemma access_updated:
  "reads_sandboxes t \<Longrightarrow> sb \<in> set (delivered t) \<Longrightarrow> opens_to new sb x \<Longrightarrow> updates t' = []
     \<Longrightarrow> access_becomes new rep (t @ (UpdateSandbox x, r) # t')"
  by (auto simp: access_becomes_def reads_update_nothing)

lemma access_unchanged:
  "reads_sandboxes t \<Longrightarrow> sb \<in> set (delivered t) \<Longrightarrow> opens_to new sb sb \<Longrightarrow> access_becomes new rep t"
  by (auto simp: access_becomes_def reads_update_nothing)

text \<open>A handler that refuses, or updates the sandbox that it found and reports the event.\<close>

lemma traces_sharing_update:
  assumes "reads_sandboxes t" "sb \<in> set (delivered t)" "opens_to new sb x"
  shows "traces (do {
           u \<leftarrow> ask E (UpdateSandbox x) as_sandbox;
           (case u of
              Inl e \<Rightarrow> ret (refused e)
            | Inr stored \<Rightarrow> do { emitSandboxEvent E stored a b c; ret (answer stored) })
         }) (\<lambda>rep t'. access_becomes new rep (t @ t'))"
  apply (intro traces_ask_bind traces_case_sum)
   apply (rule traces_ret, rule access_updated [OF assms]; simp)
  apply (rule traces_bind [OF event_updates_nothing], rule traces_ret)
  apply (simp, rule access_updated [OF assms]; simp)
  done

lemma grant_opens:
  "shq_identity q \<noteq> []
     \<Longrightarrow> opens_to (\<lambda>sb cl. userCanAccessSandbox sb (Some cl) \<or> named_by q cl) sb (change_sharing (granted_to q) sb)"
  by (auto simp: opens_to_def access_iff admitted_after_grant)

text \<open>Access without what comes through the identity \<open>who\<close>.\<close>

definition without :: "string \<Rightarrow> sandbox \<Rightarrow> claims \<Rightarrow> bool" where
  "without who sb cl \<longleftrightarrow> cl_admin cl \<or> owns cl sb \<or> admitted_by sb cl - {who} \<noteq> {}"

lemma revocation_opens: "opens_to (without who) sb (change_sharing (revoked_from who) sb)"
  by (auto simp: opens_to_def access_iff admitted_after_revocation without_def)

lemma unshared_opens: "spec_sharing (sb_spec sb) = None \<Longrightarrow> opens_to (without who) sb sb"
  by (auto simp: opens_to_def access_iff admitted_unshared without_def same_object_def)

lemma grant_traces:
  "traces (handleShareSandbox E sv claims i (Inr q))
     (access_becomes (\<lambda>sb cl. userCanAccessSandbox sb (Some cl) \<or> named_by q cl))"
  unfolding handleShareSandbox_def sum.case
  apply (intro traces_case_option traces_if)
     apply (rule traces_ret, rule access_refused; simp add: unauthenticated_def)+
  apply (rule traces_bind [OF getSandboxWithAuthCheck_traces], rule traces_case_sum)
   apply (rule traces_ret, rule access_refused; simp)
  apply (rule traces_sharing_update [OF _ _ grant_opens]; blast)
  done

lemma revocation_traces:
  "traces (handleRevokeShare E sv claims i who) (access_becomes (without who))"
  unfolding handleRevokeShare_def Let_def
  apply (intro traces_case_option)
   apply (rule traces_ret, rule access_refused; simp add: unauthenticated_def)
  apply (rule traces_bind [OF getSandboxWithAuthCheck_traces], intro traces_case_sum traces_if)
    apply (rule traces_ret, rule access_refused; simp)
   apply (rule traces_ret, simp, rule access_unchanged [OF _ _ unshared_opens]; blast)
  apply (rule traces_sharing_update [OF _ _ revocation_opens]; blast)
  done

section \<open>Properties\<close>

text \<open>C24. Sharing a sandbox admits exactly the callers that it admitted before and those whom the
  request names, as a user or through a group; revoking an identity takes away exactly what came
  through that identity, so its holder stays in only as owner, administrator or through another
  entry. A successful reply means that this is what was written, or what already held.\<close>

theorem sharing_changes_exactly_one_identity:
  "traces (handleShareSandbox E sv claims i (Inr q))
     (access_becomes (\<lambda>sb cl. userCanAccessSandbox sb (Some cl) \<or> named_by q cl))
   \<and> traces (handleRevokeShare E sv claims i who)
     (access_becomes (without who))"
  by (intro conjI grant_traces revocation_traces)

end
