(* ===== verification/Webhook_State.thy ===== *)
theory Webhook_State
  imports Api_Calls Crypto "HOL-Library.AList"
begin

text \<open>
  What webhook delivery keeps in the cluster and how it talks to receivers
  (\<open>pkg/controller/webhook_delivery\<close>): the delivery state in its ConfigMap (\<open>state.go\<close>), the
  subscriptions in their Secrets and the check of a delivery URL (\<open>subscription.go\<close>), the owner's
  access (\<open>access.go\<close>), the event vocabulary (\<open>events.go\<close>) and a signed attempt (\<open>deliver.go\<close>).
  Parsing a URL into scheme and host is \<open>net/url\<close>'s and the parameter \<open>UP\<close>.
\<close>

section \<open>The delivery state\<close>

definition StateConfigMapName :: string where
  "StateConfigMapName = ''agenttier-webhook-cursor''"

definition maxHistoryPerSubscription :: nat where "maxHistoryPerSubscription = 20"
definition defaultAutoDisableThreshold :: int where "defaultAutoDisableThreshold = 15"

definition empty_delivery_state :: delivery_state where
  "empty_delivery_state = \<lparr>ds_cursor = NoCursor, ds_seen = [], ds_subs = Map.empty\<rparr>"

definition load_state :: "string \<Rightarrow> 'w api \<Rightarrow> ('w, string + delivery_state \<times> string) kprog" where
  "load_state ns E = do {
     r \<leftarrow> ask E (GetConfigMap ns StateConfigMapName) as_config_map;
     ret (case r of
            Inl NotFound \<Rightarrow> Inr (empty_delivery_state, [])
          | Inl e \<Rightarrow> Inl (''load webhook delivery state configmap: '' @ err_text e)
          | Inr cm \<Rightarrow>
              (case cm_data cm ''state'' of
                 None \<Rightarrow> Inr (empty_delivery_state, cm_version cm)
               | Some (DeliveryDoc st) \<Rightarrow> Inr (st, cm_version cm)
               | Some (MalformedDoc raw) \<Rightarrow>
                   if raw = [] then Inr (empty_delivery_state, cm_version cm)
                   else Inl ''parse webhook delivery state configmap''
               | Some _ \<Rightarrow> Inl ''parse webhook delivery state configmap''))
   }"

definition state_map :: "string \<Rightarrow> delivery_state \<Rightarrow> string \<Rightarrow> config_map" where
  "state_map ns st v =
     \<lparr>cm_name = StateConfigMapName, cm_namespace = ns, cm_labels = Map.empty, cm_owner = None, cm_data = [''state'' \<mapsto> DeliveryDoc st],
      cm_version = v\<rparr>"

definition update_state :: "'w api \<Rightarrow> config_map \<Rightarrow> ('w, string + unit) kprog" where
  "update_state E cm = do {
     u \<leftarrow> ask E (UpdateConfigMap cm) as_config_map;
     ret (case u of
            Inl e \<Rightarrow> Inl (''update webhook delivery state configmap: '' @ err_text e)
          | Inr _ \<Rightarrow> Inr ())
   }"

definition save_state :: "string \<Rightarrow> 'w api \<Rightarrow> delivery_state \<Rightarrow> string \<Rightarrow> ('w, string + unit) kprog" where
  "save_state ns E st resourceVersion =
     (if resourceVersion = [] then do {
        c \<leftarrow> ask E (CreateConfigMap (state_map ns st [])) as_config_map;
        (case c of
           Inr _ \<Rightarrow> ret (Inr ())
         | Inl AlreadyExists \<Rightarrow> do {
             g \<leftarrow> ask E (GetConfigMap ns StateConfigMapName) as_config_map;
             (case g of
                Inl e \<Rightarrow> ret (Inl (''reload webhook delivery state configmap: '' @ err_text e))
              | Inr cm \<Rightarrow> update_state E (cm\<lparr>cm_data := [''state'' \<mapsto> DeliveryDoc st]\<rparr>))
           }
         | Inl e \<Rightarrow> ret (Inl (''create webhook delivery state configmap: '' @ err_text e)))
      } else update_state E (state_map ns st resourceVersion))"

record cursor_state =
  cs_cursor :: cursor
  cs_seen :: "string list"

definition LoadCursorState :: "string \<Rightarrow> 'w api \<Rightarrow> ('w, string + cursor_state) kprog" where
  "LoadCursorState ns E = do {
     r \<leftarrow> load_state ns E;
     ret (case r of Inl e \<Rightarrow> Inl e | Inr (st, _) \<Rightarrow> Inr \<lparr>cs_cursor = ds_cursor st, cs_seen = ds_seen st\<rparr>)
   }"

definition SaveCursorState :: "string \<Rightarrow> 'w api \<Rightarrow> cursor_state \<Rightarrow> ('w, string + unit) kprog" where
  "SaveCursorState ns E next = do {
     r \<leftarrow> load_state ns E;
     (case r of
        Inl e \<Rightarrow> ret (Inl e)
      | Inr (st, rv) \<Rightarrow> save_state ns E (st\<lparr>ds_cursor := cs_cursor next, ds_seen := cs_seen next\<rparr>) rv)
   }"

text \<open>The new state of a subscription after an attempt; a subscription without state starts fresh.\<close>

definition fresh_subscription :: subscription_state where
  "fresh_subscription = \<lparr>sbs_failures = 0, sbs_history = []\<rparr>"

definition recorded :: "delivery_attempt \<Rightarrow> subscription_state \<Rightarrow> subscription_state" where
  "recorded a s =
     (let h = sbs_history s @ [a]
      in \<lparr>sbs_failures = (if da_success a then 0 else sbs_failures s + 1),
          sbs_history = (if length h > maxHistoryPerSubscription
                         then drop (length h - maxHistoryPerSubscription) h else h)\<rparr>)"

definition RecordAttempt ::
  "string \<Rightarrow> 'w api \<Rightarrow> string \<Rightarrow> delivery_attempt \<Rightarrow> int \<Rightarrow> ('w, string + bool) kprog" where
  "RecordAttempt ns E subscriptionID a threshold0 = do {
     let threshold = (if threshold0 \<le> 0 then defaultAutoDisableThreshold else threshold0);
     r \<leftarrow> load_state ns E;
     (case r of
        Inl e \<Rightarrow> ret (Inl e)
      | Inr (st, rv) \<Rightarrow>
          (let sub = recorded a (case ds_subs st subscriptionID of None \<Rightarrow> fresh_subscription | Some s \<Rightarrow> s)
           in do {
             w \<leftarrow> save_state ns E (st\<lparr>ds_subs := (ds_subs st)(subscriptionID \<mapsto> sub)\<rparr>) rv;
             ret (case w of Inl e \<Rightarrow> Inl e | Inr _ \<Rightarrow> Inr (sbs_failures sub \<ge> threshold))
           }))
   }"

definition History :: "string \<Rightarrow> 'w api \<Rightarrow> string \<Rightarrow> ('w, string + delivery_attempt list) kprog" where
  "History ns E subscriptionID = do {
     r \<leftarrow> load_state ns E;
     ret (case r of
            Inl e \<Rightarrow> Inl e
          | Inr (st, _) \<Rightarrow>
              Inr (case ds_subs st subscriptionID of None \<Rightarrow> [] | Some s \<Rightarrow> sbs_history s))
   }"

section \<open>Subscriptions\<close>

text \<open>What delivery decodes of a subscription: everything but the time of its creation.\<close>

record subscription =
  sub_id :: string
  sub_user :: string
  sub_url :: string
  sub_types :: "string list"
  sub_sandbox :: string
  sub_namespace :: string
  sub_disabled :: bool
  sub_admin :: bool

definition decoded :: "webhook_record \<Rightarrow> subscription" where
  "decoded r =
     \<lparr>sub_id = wh_id r, sub_user = wh_user r, sub_url = wh_url r, sub_types = wh_types r,
      sub_sandbox = wh_sandbox r, sub_namespace = wh_namespace r, sub_disabled = wh_disabled r,
      sub_admin = wh_admin r\<rparr>"

definition encoded :: "subscription \<Rightarrow> webhook_record" where
  "encoded s =
     \<lparr>wh_id = sub_id s, wh_user = sub_user s, wh_url = sub_url s, wh_types = sub_types s,
      wh_sandbox = sub_sandbox s, wh_namespace = sub_namespace s, wh_created = None,
      wh_disabled = sub_disabled s, wh_admin = sub_admin s\<rparr>"

definition Matches :: "subscription \<Rightarrow> string \<Rightarrow> string \<Rightarrow> string \<Rightarrow> bool" where
  "Matches s eventType sandboxNamespace sandboxName =
     (if sub_disabled s then False
      else if \<not> list_ex (\<lambda>t. t = eventType) (sub_types s) then False
      else if sub_sandbox s \<noteq> [] \<and> sub_sandbox s \<noteq> sandboxName then False
      else if sub_namespace s \<noteq> [] \<and> sub_namespace s \<noteq> sandboxNamespace then False
      else True)"

definition secretNameForSubscriptionID :: "string \<Rightarrow> string" where
  "secretNameForSubscriptionID i = ''agenttier-webhook-'' @ i"

text \<open>The subscriptions by identifier, in the order in which they first appear, and their secrets.\<close>

definition add_subscription ::
  "secret \<Rightarrow> (string \<times> subscription) list \<times> (string \<rightharpoonup> string)
   \<Rightarrow> (string \<times> subscription) list \<times> (string \<rightharpoonup> string)" where
  "add_subscription s acc =
     (case sct_data s ''record'' of
        Some (SecretWebhook r) \<Rightarrow>
          if wh_id r = [] then acc
          else (AList.update (wh_id r) (decoded r) (fst acc),
                if sct_data s ''secret'' = None then snd acc
                else (snd acc)(wh_id r \<mapsto> secret_text s ''secret''))
      | _ \<Rightarrow> acc)"

definition ListSubscriptions ::
  "'w api \<Rightarrow> string \<Rightarrow> ('w, string + (string \<times> subscription) list \<times> (string \<rightharpoonup> string)) kprog" where
  "ListSubscriptions E ns = do {
     r \<leftarrow> ask E (ListSecrets ns [(''agenttier.io/secret-purpose'', ''webhook-subscription'')]) as_secrets;
     ret (case r of
            Inl e \<Rightarrow> Inl (''list webhook subscription secrets: '' @ err_text e)
          | Inr ss \<Rightarrow> Inr (fold add_subscription ss ([], Map.empty)))
   }"

definition DisableSubscription :: "'w api \<Rightarrow> string \<Rightarrow> string \<Rightarrow> ('w, string + unit) kprog" where
  "DisableSubscription E ns i = do {
     g \<leftarrow> ask E (GetSecret ns (secretNameForSubscriptionID i)) as_secret;
     (case g of
        Inl e \<Rightarrow> ret (Inl (''get webhook subscription secret: '' @ err_text e))
      | Inr s \<Rightarrow>
          (case sct_data s ''record'' of
             None \<Rightarrow> ret (Inl (''webhook subscription secret '' @ i @ '' has no record''))
           | Some (SecretWebhook r) \<Rightarrow>
               (let rec = decoded r
                in if sub_disabled rec then ret (Inr ())
                   else do {
                     u \<leftarrow> ask E (UpdateSecret (s\<lparr>sct_data := (sct_data s)
                                  (''record'' \<mapsto> SecretWebhook (encoded (rec\<lparr>sub_disabled := True\<rparr>)))\<rparr>)) as_unit;
                     ret (case u of
                            Inl e \<Rightarrow> Inl (''update webhook subscription secret: '' @ err_text e)
                          | Inr _ \<Rightarrow> Inr ())
                   })
           | Some _ \<Rightarrow> ret (Inl ''parse webhook subscription record'')))
   }"

section \<open>The check of a delivery URL\<close>

text \<open>An address is its 4 or 16 bytes; a network its base and the length of its prefix.\<close>

type_synonym ip = "nat list"

definition To4 :: "ip \<Rightarrow> ip option" where
  "To4 a =
     (if length a = 4 then Some a
      else if length a = 16 \<and> take 10 a = replicate 10 0 \<and> a ! 10 = 255 \<and> a ! 11 = 255
      then Some (drop 12 a) else None)"

definition mask_byte :: "nat \<Rightarrow> nat \<Rightarrow> nat" where
  "mask_byte bits i =
     (if bits \<ge> 8 * (i + 1) then 255 else if bits \<le> 8 * i then 0 else 256 - 2 ^ (8 * (i + 1) - bits))"

definition network_contains :: "ip \<times> nat \<Rightarrow> ip \<Rightarrow> bool" where
  "network_contains nw a0 =
     (let a = (case To4 a0 of Some b \<Rightarrow> b | None \<Rightarrow> a0)
      in length a = length (fst nw)
         \<and> list_all (\<lambda>(i, b, x). b AND mask_byte (snd nw) i = x AND mask_byte (snd nw) i)
             (enumerate 0 (zip (fst nw) a)))"

definition privateOrReservedNetworks :: "(ip \<times> nat) list" where
  "privateOrReservedNetworks =
     [([127, 0, 0, 0], 8), ([169, 254, 0, 0], 16), ([10, 0, 0, 0], 8), ([172, 16, 0, 0], 12),
      ([192, 168, 0, 0], 16), (replicate 15 0 @ [1], 128), ([254, 128] @ replicate 14 0, 10),
      (252 # replicate 15 0, 7)]"

datatype url_error =
    BadUrl string
  | NotHttps
  | NoHost
  | Unresolved string string
  | NoAddress string
  | Disallowed string ip

definition address_error :: "string \<Rightarrow> ip list \<Rightarrow> url_error option" where
  "address_error host ips =
     map_option (Disallowed host) (find (\<lambda>a. list_ex (\<lambda>nw. network_contains nw a) privateOrReservedNetworks) ips)"

type_synonym url_parser = "string \<Rightarrow> string + string \<times> string"

definition ValidateDeliveryURL :: "url_parser \<Rightarrow> 'w api \<Rightarrow> string \<Rightarrow> ('w, url_error option) kprog" where
  "ValidateDeliveryURL UP E raw =
     (case UP raw of
        Inl e \<Rightarrow> ret (Some (BadUrl e))
      | Inr (scheme, host) \<Rightarrow>
          if scheme \<noteq> ''https'' then ret (Some NotHttps)
          else if host = [] then ret (Some NoHost)
          else do {
            r \<leftarrow> ask E (WebCall (LookupIP host)) as_addresses;
            ret (case r of
                   Inl e \<Rightarrow> Some (Unresolved host (err_text e))
                 | Inr ips \<Rightarrow> if ips = [] then Some (NoAddress host) else address_error host ips)
          })"

section \<open>The owner's access\<close>

definition subscriber_can_access :: "sandbox \<Rightarrow> string \<Rightarrow> bool" where
  "subscriber_can_access sb userSub =
     (if userSub = [] then False
      else if (case spec_created_by (sb_spec sb) of None \<Rightarrow> False | Some c \<Rightarrow> uid_sub c = userSub) then True
      else (case spec_sharing (sb_spec sb) of
              None \<Rightarrow> False
            | Some sh \<Rightarrow> list_ex (\<lambda>u. shp_identity u \<noteq> [] \<and> shp_identity u = userSub) (sh_users sh)))"

definition canAccessSandbox :: "'w api \<Rightarrow> subscription \<Rightarrow> string \<Rightarrow> string \<Rightarrow> ('w, bool) kprog" where
  "canAccessSandbox E sub sandboxNamespace sandboxName =
     (if sub_admin sub then ret True
      else do {
        g \<leftarrow> ask E (GetSandbox sandboxNamespace sandboxName) as_sandbox;
        ret (case g of Inl _ \<Rightarrow> False | Inr sb \<Rightarrow> subscriber_can_access sb (sub_user sub))
      })"

section \<open>Event types\<close>

definition eventReasonToWebhookType :: "(string \<times> string) list" where
  "eventReasonToWebhookType =
     [(''Creating'', ''sandbox.creating''), (''Running'', ''sandbox.running''),
      (''Stopped'', ''sandbox.stopped''), (''Error'', ''sandbox.error''), (''Deleted'', ''sandbox.deleting''),
      (''BackupCreated'', ''backup.created''), (''BackupPruned'', ''backup.pruned''),
      (''ShareGranted'', ''share.granted''), (''ShareRevoked'', ''share.revoked''),
      (''AgentInvokeStarted'', ''agent.invoke.started''), (''AgentInvokeCompleted'', ''agent.invoke.completed''),
      (''AgentInvokeFailed'', ''agent.invoke.failed'')]"

definition webhookTypeForReason :: "string \<Rightarrow> string option" where
  "webhookTypeForReason reason = map_of eventReasonToWebhookType reason"

section \<open>One attempt\<close>

text \<open>HMAC with SHA-256 (\<open>crypto/hmac\<close>, block size 64).\<close>

definition hmac_sha256 :: "nat list \<Rightarrow> nat list \<Rightarrow> nat list" where
  "hmac_sha256 key msg =
     (let k0 = (if length key > 64 then sha256 key else key);
          k = k0 @ replicate (64 - length k0) 0
      in sha256 (map (\<lambda>b. b XOR 0x5c) k @ sha256 (map (\<lambda>b. b XOR 0x36) k @ msg)))"

definition signBody :: "string \<Rightarrow> string \<Rightarrow> string" where
  "signBody key body = ''sha256='' @ hex_encode (hmac_sha256 (bytes_of key) (bytes_of body))"

datatype delivery_error =
    Prevalidation url_error
  | BuildFailed string
  | RequestFailed string
  | Non2xx nat

definition deliverOnce ::
  "url_parser \<Rightarrow> 'w api \<Rightarrow> string \<Rightarrow> string \<Rightarrow> string \<Rightarrow> ('w, nat \<times> delivery_error option) kprog" where
  "deliverOnce UP E subURL key body =
     (case UP subURL of
        Inl e \<Rightarrow> ret (0, Some (BuildFailed e))
      | Inr _ \<Rightarrow> do {
          r \<leftarrow> ask E (WebCall (Post subURL (signBody key body) body)) as_status;
          ret (case r of
                 Inl e \<Rightarrow> (0, Some (RequestFailed (err_text e)))
               | Inr code \<Rightarrow> if code < 200 \<or> code \<ge> 300 then (code, Some (Non2xx code)) else (code, None))
        })"

end
