(* ===== verification/Webhook_Addresses.thy ===== *)
theory Webhook_Addresses
  imports Webhook_State
begin

text \<open>
  Which addresses the check of a delivery URL refuses, in numbers: \<open>network_contains\<close> compares the
  masked bytes of an address with those of a network, and the list of networks of
  \<open>subscription.go\<close> comes to a few ranges of the leading bytes.
\<close>

unbundle bit_operations_syntax

section \<open>Masks\<close>

lemma byte_and_255: "unat (a :: 8 word) AND 255 = unat a"
proof -
  have "unat a < 2 ^ 8" using unsigned_less [of a] by simp
  then have "take_bit 8 (unat a) = unat a" by (simp add: take_bit_nat_eq_self)
  then show ?thesis by (simp add: take_bit_eq_mask mask_eq_exp_minus_1)
qed

lemma and_top_bits: "x < 2 ^ (k + m) \<Longrightarrow> x AND (2 ^ (k + m) - 2 ^ k) = 2 ^ k * (x div 2 ^ k)" for x :: nat
proof -
  assume x: "x < 2 ^ (k + m)"
  have m: "2 ^ (k + m) - 2 ^ k = push_bit k (mask m :: nat)"
    by (simp add: push_bit_eq_mult mask_eq_exp_minus_1 power_add algebra_simps)
  have "x AND push_bit k (mask m) = push_bit k (drop_bit k x AND mask m)"
    by (rule bit_eqI) (auto simp: bit_simps)
  also have "drop_bit k x AND mask m = drop_bit k x"
    using x by (simp flip: take_bit_eq_mask add: take_bit_nat_eq_self drop_bit_eq_div less_mult_imp_div_less power_add mult.commute)
  finally show ?thesis by (simp add: m push_bit_eq_mult drop_bit_eq_div mult.commute)
qed

lemma byte_and_240: "unat (a :: 8 word) AND 240 = 16 * (unat a div 16)"
  using and_top_bits [of "unat a" 4 4] unsigned_less [of a] by simp

lemma byte_and_192: "unat (a :: 8 word) AND 192 = 64 * (unat a div 64)"
  using and_top_bits [of "unat a" 6 2] unsigned_less [of a] by simp

lemma byte_and_254: "unat (a :: 8 word) AND 254 = 2 * (unat a div 2)"
  using and_top_bits [of "unat a" 1 7] unsigned_less [of a] by simp

section \<open>The ranges\<close>

text \<open>IPv4: loopback, link-local and the private networks of RFC 1918, by the first two bytes.\<close>

definition reserved4 :: "nat \<Rightarrow> nat \<Rightarrow> bool" where
  "reserved4 a b \<longleftrightarrow> a = 127 \<or> a = 10 \<or> a = 169 \<and> b = 254 \<or> a = 172 \<and> 16 \<le> b \<and> b < 32 \<or> a = 192 \<and> b = 168"

text \<open>IPv6: the loopback address, link-local and unique local addresses.\<close>

definition reserved6 :: "nat list \<Rightarrow> bool" where
  "reserved6 xs \<longleftrightarrow> xs = replicate 15 0 @ [1] \<or> xs ! 0 = 254 \<and> 128 \<le> xs ! 1 \<and> xs ! 1 < 192 \<or> xs ! 0 = 252 \<or> xs ! 0 = 253"

text \<open>An IPv4 address may come in its IPv6 form; an address of another length is never refused.\<close>

definition reserved :: "nat list \<Rightarrow> bool" where
  "reserved xs =
     (if length xs = 4 then reserved4 (xs ! 0) (xs ! 1)
      else if length xs = 16 then
        (if take 12 xs = replicate 10 0 @ [255, 255] then reserved4 (xs ! 12) (xs ! 13) else reserved6 xs)
      else False)"

lemma byte_div:
  "x div 16 = Suc 0 \<longleftrightarrow> 16 \<le> x \<and> x < 32"
  "x div 64 = (2::nat) \<longleftrightarrow> 128 \<le> x \<and> x < 192"
  "x div 2 = (126::nat) \<longleftrightarrow> x = 252 \<or> x = 253"
  by auto

definition refused :: "ip \<Rightarrow> bool" where
  "refused a \<longleftrightarrow> (\<exists>nw \<in> set privateOrReservedNetworks. network_contains nw a)"

lemma sixteen:
  assumes "length xs = 16"
  obtains a b c d e f g h i j k l m n p q where "xs = [a,b,c,d,e,f,g,h,i,j,k,l,m,n,p,q]"
  using assms by (auto simp: length_Suc_conv numeral_eq_Suc)

lemma To4_mapped:
  "length a = 16 \<Longrightarrow> To4 a = (if take 12 a = replicate 10 0 @ [255, 255] then Some (drop 12 a) else None)"
  by (erule sixteen) (auto simp: To4_def numeral_eq_Suc)

lemma zeros:
  "replicate 10 (0::nat) = [0, 0, 0, 0, 0, 0, 0, 0, 0, 0]"
  "replicate 14 (0::nat) = [0, 0, 0, 0, 0, 0, 0, 0, 0, 0, 0, 0, 0, 0]"
  "replicate 15 (0::nat) = [0, 0, 0, 0, 0, 0, 0, 0, 0, 0, 0, 0, 0, 0, 0]"
  by (simp_all add: numeral_eq_Suc)

lemma refused4:
  assumes "case To4 x of Some y \<Rightarrow> y = map unat [a, b, c, d] | None \<Rightarrow> x = map unat [a, b, c, d]"
  shows "refused x \<longleftrightarrow> reserved4 (unat (a :: 8 word)) (unat b)"
proof -
  have x: "(case To4 x of Some b \<Rightarrow> b | None \<Rightarrow> x) = map unat [a, b, c, d]" using assms by (simp split: option.splits)
  show ?thesis
    unfolding refused_def network_contains_def x
    by (simp add: privateOrReservedNetworks_def mask_byte_def byte_and_255 byte_and_240)
      (auto simp: byte_div reserved4_def)
qed

lemma refused6:
  assumes "To4 (map unat [a,b,c,d,e,f,g,h,i,j,k,l,m,n,p,q]) = None"
  shows "refused (map unat [a,b,c,d,e,f,g,h,i,j,k,l,m,n,p,q::8 word]) \<longleftrightarrow> reserved6 (map unat [a,b,c,d,e,f,g,h,i,j,k,l,m,n,p,q])"
  unfolding refused_def network_contains_def assms option.case
  by (simp add: privateOrReservedNetworks_def mask_byte_def zeros byte_and_255 byte_and_192 byte_and_254)
    (auto simp: byte_div reserved6_def zeros)

lemma refused_none: "length xs \<noteq> 4 \<Longrightarrow> length xs \<noteq> 16 \<Longrightarrow> \<not> refused xs"
  by (auto simp: refused_def network_contains_def To4_def privateOrReservedNetworks_def)

lemma refused_iff: "refused (map unat ws) \<longleftrightarrow> reserved (map unat (ws :: 8 word list))"
proof -
  consider "length ws = 4" | "length ws = 16" | "length ws \<noteq> 4" "length ws \<noteq> 16" by blast
  then show ?thesis
  proof cases
    case 1
    then obtain a b c d where "ws = [a, b, c, d]" by (auto simp: length_Suc_conv numeral_eq_Suc)
    then show ?thesis using refused4 [of "map unat ws" a b c d] by (simp add: reserved_def To4_def)
  next
    case 2
    show ?thesis
    proof (cases "To4 (map unat ws)")
      case None
      with 2 have "\<not> take 12 (map unat ws) = replicate 10 0 @ [255, 255]" by (auto simp: To4_mapped split: if_splits)
      with 2 show ?thesis using None
        by (elim sixteen) (auto simp: reserved_def refused6 [simplified])
    next
      case (Some y)
      with 2 have *: "take 12 (map unat ws) = replicate 10 0 @ [255, 255]" "y = drop 12 (map unat ws)"
        by (auto simp: To4_mapped split: if_splits)
      with 2 Some show ?thesis
        by (elim sixteen) (simp add: reserved_def refused4 )
    qed
  next
    case 3
    then show ?thesis by (simp add: reserved_def refused_none)
  qed
qed
text \<open>Addresses are lists of bytes.\<close>

definition bytes_only :: "nat list \<Rightarrow> bool" where
  "bytes_only a \<longleftrightarrow> list_all (\<lambda>b. b < 256) a"

lemma refused_reserved: "bytes_only a \<Longrightarrow> reserved a \<Longrightarrow> refused a"
proof -
  assume a: "bytes_only a" "reserved a"
  have "map unat (map (of_nat :: nat \<Rightarrow> 8 word) a) = a"
    using a(1) by (auto simp: bytes_only_def list_all_iff unsigned_of_nat take_bit_nat_eq_self intro!: map_idI)
  then show "refused a" using a(2) refused_iff [of "map of_nat a"] by simp
qed

text \<open>A URL that has just been resolved, to addresses outside the loopback, link-local, private and unique
  local ranges only.\<close>

definition checked :: "url_parser \<Rightarrow> string \<Rightarrow> trace \<Rightarrow> bool" where
  "checked UP url t \<longleftrightarrow>
     (\<exists>host ips. t = [(WebCall (LookupIP host), RAddresses ips)]
        \<and> UP url = Inr (''https'', host) \<and> host \<noteq> [] \<and> ips \<noteq> []
        \<and> (\<forall>a \<in> set ips. bytes_only a \<longrightarrow> \<not> reserved a))"

lemma address_error_None: "address_error host ips = None \<Longrightarrow> a \<in> set ips \<Longrightarrow> bytes_only a \<Longrightarrow> \<not> reserved a"
  using refused_reserved [of a]
  by (auto simp: address_error_def find_None_iff list_ex_iff refused_def)

text \<open>The addresses of a host are refused exactly when one of them is in the ranges of loopback,
  link-local, private or unique local addresses, in IPv4, in IPv6, or as an IPv4 address in its
  IPv6 form; the first such address is the one reported.\<close>

theorem refused_addresses_are_the_reserved_ranges:
  "address_error host (map (map unat) ips)
     = map_option (Disallowed host) (find reserved (map (map unat) (ips :: 8 word list list)))"
proof -
  have "find refused (map (map unat) ips) = find reserved (map (map unat) ips)"
    by (induction ips) (simp_all add: refused_iff)
  then show ?thesis
    unfolding address_error_def refused_def list_ex_iff by simp
qed

end
