(* ===== verification/Webhook_Delivery.thy ===== *)
theory Webhook_Delivery
  imports Webhook_State Http
begin

text \<open>
  The delivery loop (\<open>pkg/controller/webhook_delivery/deliverer.go\<close>): one pass reads the events at
  or after the cursor, delivers each to every matching subscription with retries, and then moves
  the cursor. Parameters stand for what Go leaves open or does elsewhere: \<open>UP\<close> parses URLs, \<open>MJ\<close>
  is \<open>json.Marshal\<close>, \<open>ties\<close> is the order that the unstable sort starts from for events of the same
  time, and \<open>arrange\<close> the order in which the map of subscriptions is visited for an event.
\<close>

record deliverer =
  dv_namespace :: string
  dv_max_attempts :: nat
  dv_backoff :: duration
  dv_threshold :: int

definition defaultMaxAttempts :: nat where "defaultMaxAttempts = 5"
definition defaultInitialBackoff :: duration where "defaultInitialBackoff = 1 * second"

definition NewDeliverer :: "string \<Rightarrow> deliverer" where
  "NewDeliverer namespace =
     \<lparr>dv_namespace = namespace, dv_max_attempts = defaultMaxAttempts,
      dv_backoff = defaultInitialBackoff, dv_threshold = defaultAutoDisableThreshold\<rparr>"

section \<open>Selecting the events\<close>

definition sandbox_events :: "k8s_event list \<Rightarrow> k8s_event list" where
  "sandbox_events evs = filter (\<lambda>e. ke_kind e = ''Sandbox'' \<and> ke_last e \<noteq> None) evs"

text \<open>The latest time among the cursor and the events; None is the zero time, before all others.\<close>

definition later :: "instant option \<Rightarrow> instant option \<Rightarrow> instant option" where
  "later seen ts =
     (case ts of
        None \<Rightarrow> seen
      | Some t \<Rightarrow> (case seen of None \<Rightarrow> Some t | Some m \<Rightarrow> if t > m then Some t else Some m))"

definition max_seen :: "instant option \<Rightarrow> k8s_event list \<Rightarrow> instant option" where
  "max_seen cursor evs = fold (\<lambda>e m. later m (ke_last e)) evs cursor"

definition is_new :: "instant \<Rightarrow> string list \<Rightarrow> k8s_event \<Rightarrow> bool" where
  "is_new cursorTime seen e =
     (case ke_last e of
        None \<Rightarrow> False
      | Some ts \<Rightarrow> \<not> ts < cursorTime \<and> \<not> (ts = cursorTime \<and> ke_uid e \<in> set seen))"

definition uids_at :: "instant \<Rightarrow> k8s_event list \<Rightarrow> string list" where
  "uids_at m evs = map ke_uid (filter (\<lambda>e. ke_last e = Some m) evs)"

definition by_time :: "k8s_event \<Rightarrow> instant" where
  "by_time e = (case ke_last e of None \<Rightarrow> 0 | Some t \<Rightarrow> t)"

definition cursor_time :: "cursor \<Rightarrow> string + instant option" where
  "cursor_time c =
     (case c of
        NoCursor \<Rightarrow> Inr None
      | CursorAt t \<Rightarrow> Inr (Some t)
      | CursorText raw \<Rightarrow> Inl (''parse persisted cursor '' @ show_quoted raw))"

definition listNewEvents ::
  "(k8s_event list \<Rightarrow> k8s_event list) \<Rightarrow> 'w api \<Rightarrow> cursor_state
   \<Rightarrow> ('w, string + k8s_event list \<times> cursor_state \<times> bool) kprog" where
  "listNewEvents ties E cs =
     (case cursor_time (cs_cursor cs) of
        Inl e \<Rightarrow> ret (Inl e)
      | Inr cursorTime \<Rightarrow> do {
          l \<leftarrow> ask E (ListEvents []) as_events;
          (case l of
             Inl e \<Rightarrow> ret (Inl (''list events: '' @ err_text e))
           | Inr items \<Rightarrow> do {
               let evs = sandbox_events items;
               maxSeen \<leftarrow> (case max_seen cursorTime evs of
                            None \<Rightarrow> ask E Now as_time
                          | Some m \<Rightarrow> ret m);
               let matched = (case cursorTime of
                                None \<Rightarrow> []
                              | Some c \<Rightarrow> sort_key by_time (ties (filter (is_new c (cs_seen cs)) evs)));
               let atMax = uids_at maxSeen evs;
               let seen = (if cursorTime = Some maxSeen then cs_seen cs @ atMax else atMax);
               ret (Inr (matched, \<lparr>cs_cursor = CursorAt maxSeen, cs_seen = seen\<rparr>, cursorTime = None))
             })
        })"

section \<open>Delivering\<close>

text \<open>At most \<open>left\<close> attempts, with the URL checked before each and the pause doubled after each.\<close>

fun attempts ::
  "url_parser \<Rightarrow> 'w api \<Rightarrow> string \<Rightarrow> string \<Rightarrow> string \<Rightarrow> nat \<Rightarrow> duration
   \<Rightarrow> ('w, nat \<times> delivery_error option) kprog" where
  "attempts UP E url key body 0 backoff = ret (0, None)"
| "attempts UP E url key body (Suc left) backoff = do {
     v \<leftarrow> ValidateDeliveryURL UP E url;
     r \<leftarrow> (case v of
            Some e \<Rightarrow> ret (0, Some (Prevalidation e))
          | None \<Rightarrow> deliverOnce UP E url key body);
     (if snd r = None \<or> left = 0 then ret r
      else do {
        tell E (WebCall (Sleep backoff));
        attempts UP E url key body left (wrap64 (2 * backoff))
      })
   }"

definition deliverWithRetry ::
  "deliverer \<Rightarrow> url_parser \<Rightarrow> 'w api \<Rightarrow> string \<Rightarrow> subscription \<Rightarrow> string \<Rightarrow> string \<Rightarrow> string
   \<Rightarrow> ('w, unit) kprog" where
  "deliverWithRetry dv UP E i sub key eventType body = do {
     (lastStatus, lastErr) \<leftarrow> attempts UP E (sub_url sub) key body (dv_max_attempts dv) (dv_backoff dv);
     now \<leftarrow> ask E Now as_time;
     crossed \<leftarrow> RecordAttempt (dv_namespace dv) E i
       \<lparr>da_event = eventType, da_time = whole_seconds now, da_status = lastStatus,
        da_attempt = int (dv_max_attempts dv), da_success = (lastErr = None)\<rparr> (dv_threshold dv);
     (case crossed of
        Inl _ \<Rightarrow> ret ()
      | Inr c \<Rightarrow> if c then do { _ \<leftarrow> DisableSubscription E (dv_namespace dv) i; ret () } else ret ())
   }"

definition webhookPayload :: "string \<Rightarrow> k8s_event \<Rightarrow> json" where
  "webhookPayload webhookType e =
     JObj ([(''event'', JText webhookType)]
       @ (if ke_object e = [] then [] else [(''sandboxId'', JText (ke_object e))])
       @ (if ke_object_namespace e = [] then [] else [(''namespace'', JText (ke_object_namespace e))])
       @ [(''timestamp'', JTime (whole_seconds (by_time e)))]
       @ (if ke_message e = [] then [] else [(''data'', JObj [(''message'', JText (ke_message e))])]))"

text \<open>One event to one subscription.\<close>

definition dispatch_to ::
  "deliverer \<Rightarrow> url_parser \<Rightarrow> 'w api \<Rightarrow> k8s_event \<Rightarrow> string \<Rightarrow> string \<Rightarrow> (string \<rightharpoonup> string)
   \<Rightarrow> string \<times> subscription \<Rightarrow> ('w, unit) kprog" where
  "dispatch_to dv UP E e webhookType body secrets entry =
     (case entry of (i, sub) \<Rightarrow>
        if \<not> Matches sub webhookType (ke_object_namespace e) (ke_object e) then ret ()
        else do {
          ok \<leftarrow> canAccessSandbox E sub (ke_object_namespace e) (ke_object e);
          (if \<not> ok then ret ()
           else (case secrets i of
                   None \<Rightarrow> ret ()
                 | Some key \<Rightarrow>
                     if key = [] then ret ()
                     else deliverWithRetry dv UP E i sub key webhookType body))
        })"

definition dispatchEvent ::
  "deliverer \<Rightarrow> url_parser \<Rightarrow> (json \<Rightarrow> string)
   \<Rightarrow> (k8s_event \<Rightarrow> (string \<times> subscription) list \<Rightarrow> (string \<times> subscription) list)
   \<Rightarrow> 'w api \<Rightarrow> (string \<times> subscription) list \<Rightarrow> (string \<rightharpoonup> string) \<Rightarrow> k8s_event \<Rightarrow> ('w, unit) kprog" where
  "dispatchEvent dv UP MJ arrange E subs secrets e =
     (case webhookTypeForReason (ke_reason e) of
        None \<Rightarrow> ret ()
      | Some webhookType \<Rightarrow>
          for_each (arrange e subs)
            (dispatch_to dv UP E e webhookType (MJ (webhookPayload webhookType e)) secrets))"

definition RunOnce ::
  "deliverer \<Rightarrow> url_parser \<Rightarrow> (json \<Rightarrow> string)
   \<Rightarrow> (k8s_event list \<Rightarrow> k8s_event list)
   \<Rightarrow> (k8s_event \<Rightarrow> (string \<times> subscription) list \<Rightarrow> (string \<times> subscription) list)
   \<Rightarrow> 'w api \<Rightarrow> ('w, unit) kprog" where
  "RunOnce dv UP MJ ties arrange E = do {
     c \<leftarrow> LoadCursorState (dv_namespace dv) E;
     (case c of
        Inl _ \<Rightarrow> ret ()
      | Inr cs \<Rightarrow> do {
          l \<leftarrow> listNewEvents ties E cs;
          (case l of
             Inl _ \<Rightarrow> ret ()
           | Inr (events, next, bootstrap) \<Rightarrow>
               if bootstrap then do { _ \<leftarrow> SaveCursorState (dv_namespace dv) E next; ret () }
               else if events = [] then ret ()
               else do {
                 s \<leftarrow> ListSubscriptions E (dv_namespace dv);
                 (case s of
                    Inl _ \<Rightarrow> ret ()
                  | Inr (subs, secrets) \<Rightarrow> do {
                      for_each events (dispatchEvent dv UP MJ arrange E subs secrets);
                      _ \<leftarrow> SaveCursorState (dv_namespace dv) E next;
                      ret ()
                    })
               })
        })
   }"

end
