(* ===== verification/Guards.thy ===== *)
theory Guards
  imports Api_Calls
begin

text \<open>
  Properties of a run that speak of one call and of what came before it: a call is guarded if it
  satisfies a condition on the calls and answers that precede it. The rules here carry such a
  condition through a program.
\<close>

section \<open>Guarded runs\<close>

text \<open>\<open>guarded J pre t\<close>: every call of \<open>t\<close> satisfies \<open>J\<close> with respect to what was called before it,
  where \<open>t\<close> follows \<open>pre\<close>.\<close>

fun guarded :: "(trace \<Rightarrow> request \<Rightarrow> bool) \<Rightarrow> trace \<Rightarrow> trace \<Rightarrow> bool" where
  "guarded J pre [] = True"
| "guarded J pre ((q, r) # t) = (J pre q \<and> guarded J (pre @ [(q, r)]) t)"

lemma guarded_append [simp]: "guarded J pre (t @ t') = (guarded J pre t \<and> guarded J (pre @ t) t')"
  by (induction J pre t rule: guarded.induct) auto

lemma guarded_iff: "guarded J pre t \<longleftrightarrow> (\<forall>t1 q r t2. t = t1 @ (q, r) # t2 \<longrightarrow> J (pre @ t1) q)"
proof (induction J pre t rule: guarded.induct)
  case (2 J pre q r t)
  then show ?case
    by (auto simp: Cons_eq_append_conv)
qed simp

definition upholds :: "(trace \<Rightarrow> request \<Rightarrow> bool) \<Rightarrow> trace \<Rightarrow> ('w, 'a) kprog \<Rightarrow> bool" where
  "upholds J pre m \<longleftrightarrow> traces m (\<lambda>_ t. guarded J pre t)"

lemma upholds_bind:
  assumes "traces m (\<lambda>a t. guarded J pre t \<and> P a t)" "\<And>a t. P a t \<Longrightarrow> upholds J (pre @ t) (f a)"
  shows "upholds J pre (State_Monad.bind m f)"
  unfolding upholds_def
  by (rule traces_bind [OF assms(1)], rule traces_mono [OF assms(2) [unfolded upholds_def]]) auto

lemma upholds_seq:
  assumes "upholds J pre m" "\<And>a t. upholds J (pre @ t) (f a)"
  shows "upholds J pre (State_Monad.bind m f)"
  by (rule upholds_bind [where P = "\<lambda>_ _. True"]) (use assms in \<open>simp_all add: upholds_def\<close>)

lemma upholds_ret [intro!, simp]: "upholds J pre (ret a)"
  unfolding upholds_def by (rule traces_ret) simp

lemma upholds_ask: "J pre q \<Longrightarrow> upholds J pre (ask E q f)"
  unfolding upholds_def by (rule traces_ask) simp

lemma upholds_ask_bind:
  "J pre q \<Longrightarrow> (\<And>r. upholds J (pre @ [(q, r)]) (g (f r))) \<Longrightarrow> upholds J pre (State_Monad.bind (ask E q f) g)"
  unfolding upholds_def by (rule traces_ask_bind) simp

lemma upholds_case:
  "(\<And>y. x = Inl y \<Longrightarrow> upholds J pre (m y)) \<Longrightarrow> (\<And>z. x = Inr z \<Longrightarrow> upholds J pre (n z))
     \<Longrightarrow> upholds J pre (case x of Inl y \<Rightarrow> m y | Inr z \<Rightarrow> n z)"
  "(opt = None \<Longrightarrow> upholds J pre m') \<Longrightarrow> (\<And>y. opt = Some y \<Longrightarrow> upholds J pre (n' y))
     \<Longrightarrow> upholds J pre (case opt of None \<Rightarrow> m' | Some y \<Rightarrow> n' y)"
  "(b \<Longrightarrow> upholds J pre m') \<Longrightarrow> (\<not> b \<Longrightarrow> upholds J pre k') \<Longrightarrow> upholds J pre (if b then m' else k')"
  "(\<And>u v. p = (u, v) \<Longrightarrow> upholds J pre (l u v)) \<Longrightarrow> upholds J pre (case p of (u, v) \<Rightarrow> l u v)"
  by (auto split: sum.split option.split prod.split)

text \<open>A loop in which every step establishes something about its element that lasts.\<close>

lemma traces_for_each_each:
  assumes step: "\<And>x pre'. x \<in> set xs \<Longrightarrow> prefix pre pre' \<Longrightarrow>
      traces (f x) (\<lambda>_ t. guarded J pre' t \<and> D x (pre' @ t))"
    and lasting: "\<And>x pre' t. D x pre' \<Longrightarrow> D x (pre' @ t)"
  shows "traces (for_each xs f) (\<lambda>_ t. guarded J pre t \<and> (\<forall>x \<in> set xs. D x (pre @ t)))"
  using step
proof (induction xs arbitrary: pre)
  case Nil
  then show ?case by (auto intro: traces_ret)
next
  case (Cons x xs)
  have rest: "traces (for_each xs f) (\<lambda>_ t'. guarded J (pre @ t) t' \<and> (\<forall>x \<in> set xs. D x ((pre @ t) @ t')))" for t
    by (rule Cons.IH) (use Cons.prems in \<open>auto dest: append_prefixD\<close>)
  have "traces (f x) (\<lambda>_ t. guarded J pre t \<and> D x (pre @ t))"
    using Cons.prems by simp
  then show ?case
    unfolding for_each.simps
    by (rule traces_bind) (rule traces_mono [OF rest], use lasting in force)
qed

lemma guarded_mono:
  "guarded J pre t \<Longrightarrow> (\<And>p q. J p q \<Longrightarrow> J' p q) \<Longrightarrow> guarded J' pre t"
  by (induction J pre t rule: guarded.induct) auto

end
