(* ===== verification/Webhook_Safety.thy ===== *)
theory Webhook_Safety
  imports Webhook_Delivery Webhook_Addresses Guards "HOL-Library.Multiset"
begin

text \<open>
  What a delivery pass guarantees: to whom it posts, that no event is passed over when the cursor
  moves, how often an attempt is repeated, and what is recorded of it. As everywhere, the
  statements hold for every behaviour of the API server, of the name service and of the receivers.
\<close>

section \<open>Reading and writing the delivery state\<close>

text \<open>\<open>load_state\<close> as a call and the reading of its answer.\<close>

definition state_in :: "response \<Rightarrow> string + delivery_state \<times> string" where
  "state_in r =
     (case as_config_map r of
        Inl NotFound \<Rightarrow> Inr (empty_delivery_state, [])
      | Inl e \<Rightarrow> Inl (''load webhook delivery state configmap: '' @ err_text e)
      | Inr cm \<Rightarrow>
          (case cm_data cm ''state'' of
             None \<Rightarrow> Inr (empty_delivery_state, cm_version cm)
           | Some (DeliveryDoc st) \<Rightarrow> Inr (st, cm_version cm)
           | Some (MalformedDoc raw) \<Rightarrow>
               if raw = [] then Inr (empty_delivery_state, cm_version cm)
               else Inl ''parse webhook delivery state configmap''
           | Some _ \<Rightarrow> Inl ''parse webhook delivery state configmap''))"

lemma load_state_eq: "load_state ns E = ask E (GetConfigMap ns StateConfigMapName) state_in"
  unfolding load_state_def ask_map state_in_def ..

text \<open>The delivery state that a call would store.\<close>

definition stored_map :: "request \<Rightarrow> config_map option" where
  "stored_map q = (case q of CreateConfigMap cm \<Rightarrow> Some cm | UpdateConfigMap cm \<Rightarrow> Some cm | _ \<Rightarrow> None)"

definition stored_state :: "request \<Rightarrow> delivery_state option" where
  "stored_state q =
     (case stored_map q of
        None \<Rightarrow> None
      | Some cm \<Rightarrow> (case cm_data cm ''state'' of Some (DeliveryDoc st) \<Rightarrow> Some st | _ \<Rightarrow> None))"

lemma stored_state_simps [simp]:
  "stored_state (CreateConfigMap (state_map ns st v)) = Some st"
  "stored_state (UpdateConfigMap (state_map ns st v)) = Some st"
  "stored_state (UpdateConfigMap (cm\<lparr>cm_data := [''state'' \<mapsto> DeliveryDoc st]\<rparr>)) = Some st"
  by (simp_all add: stored_state_def stored_map_def state_map_def)

lemma stored_state_other [simp]:
  "stored_state Now = None"
  "stored_state (GetConfigMap a b) = None"
  "stored_state (GetSandbox a b) = None"
  "stored_state (GetSecret a b) = None"
  "stored_state (UpdateSecret s) = None"
  "stored_state (ListSecrets a l) = None"
  "stored_state (ListEvents a) = None"
  "stored_state (WebCall w) = None"
  by (simp_all add: stored_state_def stored_map_def)

text \<open>Saving a state writes that state and nothing else.\<close>

definition saves :: "delivery_state \<Rightarrow> trace \<Rightarrow> bool" where
  "saves st t \<longleftrightarrow>
     (\<forall>x \<in> set t. stored_state (fst x) = Some st \<or> (\<exists>ns. fst x = GetConfigMap ns StateConfigMapName))"

lemma save_state_saves: "traces (save_state ns E st v) (\<lambda>_ t. saves st t)"
  unfolding save_state_def update_state_def by (intro tr) (auto simp: saves_def)

section \<open>Attempts\<close>

definition sent_request :: "request \<Rightarrow> (string \<times> string \<times> string) list" where
  "sent_request q = (case q of WebCall (Post url sg body) \<Rightarrow> [(url, sg, body)] | _ \<Rightarrow> [])"

definition sent :: "trace \<Rightarrow> (string \<times> string \<times> string) list" where
  "sent t = concat (map (\<lambda>x. sent_request (fst x)) t)"

definition pause :: "request \<Rightarrow> duration list" where
  "pause q = (case q of WebCall (Sleep d) \<Rightarrow> [d] | _ \<Rightarrow> [])"

definition slept :: "trace \<Rightarrow> duration list" where
  "slept t = concat (map (\<lambda>x. pause (fst x)) t)"

lemma sent_simps [simp]:
  "sent [] = []"
  "sent (x # t) = sent_request (fst x) @ sent t"
  "sent (t @ t') = sent t @ sent t'"
  by (simp_all add: sent_def)

lemma slept_simps [simp]:
  "slept [] = []"
  "slept (x # t) = pause (fst x) @ slept t"
  "slept (t @ t') = slept t @ slept t'"
  by (simp_all add: slept_def)

text \<open>The pauses of a delivery that keeps failing.\<close>

fun pauses :: "nat \<Rightarrow> duration \<Rightarrow> duration list" where
  "pauses 0 b = []"
| "pauses (Suc k) b = b # pauses k (wrap64 (2 * b))"

definition is_accepted :: "string \<Rightarrow> string \<Rightarrow> string \<Rightarrow> request \<times> response \<Rightarrow> bool" where
  "is_accepted url key body x \<longleftrightarrow>
     fst x = WebCall (Post url (signBody key body) body)
     \<and> (case as_status (snd x) of Inl _ \<Rightarrow> False | Inr c \<Rightarrow> 200 \<le> c \<and> c < 300)"

text \<open>\<open>tried n b url key body ok t\<close>: \<open>t\<close> is the record of a delivery with at most \<open>n\<close> attempts. Each
  posts the same signed body to the same URL; it ends with the first one that is accepted, or all
  \<open>n\<close> have failed and between them all pauses were kept.\<close>

definition tried :: "nat \<Rightarrow> duration \<Rightarrow> string \<Rightarrow> string \<Rightarrow> string \<Rightarrow> bool \<Rightarrow> trace \<Rightarrow> bool" where
  "tried n b url key body ok t \<longleftrightarrow>
     length (sent t) \<le> n \<and> set (sent t) \<subseteq> {(url, signBody key body, body)}
     \<and> (if ok then (\<exists>k < n. slept t = pauses k b) \<and> t \<noteq> [] \<and> is_accepted url key body (last t)
           \<and> (\<forall>x \<in> set (butlast t). \<not> is_accepted url key body x)
        else slept t = pauses (n - 1) b \<and> (\<forall>x \<in> set t. \<not> is_accepted url key body x))"

definition silent :: "trace \<Rightarrow> bool" where
  "silent t \<longleftrightarrow> sent t = [] \<and> slept t = []"

lemma silent_not_accepted: "silent t \<Longrightarrow> x \<in> set t \<Longrightarrow> \<not> is_accepted url key body x"
  by (auto simp: silent_def sent_def is_accepted_def sent_request_def)

lemma traces_validate:
  "traces (ValidateDeliveryURL UP E url) (\<lambda>v t. silent t \<and> (v = None \<longrightarrow> checked UP url t))"
  unfolding ValidateDeliveryURL_def
  by (intro tr)
    (auto simp: silent_def sent_request_def pause_def checked_def dest: address_error_None split: sum.splits if_splits)

definition one_try :: "string \<Rightarrow> string \<Rightarrow> string \<Rightarrow> bool \<Rightarrow> trace \<Rightarrow> bool" where
  "one_try url key body ok t \<longleftrightarrow>
     slept t = [] \<and> length (sent t) \<le> 1 \<and> set (sent t) \<subseteq> {(url, signBody key body, body)}
     \<and> (if ok then t \<noteq> [] \<and> is_accepted url key body (last t)
             \<and> (\<forall>x \<in> set (butlast t). \<not> is_accepted url key body x)
        else (\<forall>x \<in> set t. \<not> is_accepted url key body x))"

lemma traces_deliver: "traces (deliverOnce UP E url key body) (\<lambda>r t. one_try url key body (snd r = None) t)"
  unfolding deliverOnce_def
  by (intro tr) (auto simp: one_try_def is_accepted_def sent_request_def pause_def split: sum.splits if_splits)

lemma one_try_after: "silent t \<Longrightarrow> one_try url key body ok t' \<Longrightarrow> one_try url key body ok (t @ t')"
  using silent_not_accepted [of t _ url key body]
  by (auto simp: one_try_def silent_def butlast_append split: if_splits)

lemma one_try_failed: "silent t \<Longrightarrow> one_try url key body False t"
  using silent_not_accepted [of t _ url key body] by (auto simp: one_try_def silent_def)

lemma tried_last:
  "one_try url key body ok t \<Longrightarrow> ok \<or> n = 0 \<Longrightarrow> tried (Suc n) b url key body ok t"
  by (auto simp: one_try_def tried_def intro: exI [of _ 0])

lemma tried_Suc:
  assumes "one_try url key body False t" "tried n (wrap64 (2 * b)) url key body ok t'" "n \<noteq> 0"
  shows "tried (Suc n) b url key body ok (t @ (WebCall (Sleep b), r) # t')"
proof -
  have s: "sent_request (WebCall (Sleep b)) = []" "pause (WebCall (Sleep b)) = [b]"
    "\<not> is_accepted url key body (WebCall (Sleep b), r)"
    by (simp_all add: sent_request_def pause_def is_accepted_def)
  obtain m where n: "n = Suc m" using assms(3) by (cases n) auto
  show ?thesis
  proof (cases ok)
    case True
    then obtain k where k: "k < n" "slept t' = pauses k (wrap64 (2 * b))"
      using assms(2) by (auto simp: tried_def)
    show ?thesis
      using assms(1, 2) True s k
      by (auto simp: one_try_def tried_def butlast_append intro!: exI [of _ "Suc k"])
  next
    case False
    then show ?thesis
      using assms(1, 2) s n by (auto simp: one_try_def tried_def)
  qed
qed

lemma traces_attempts:
  "n \<noteq> 0 \<Longrightarrow> traces (attempts UP E url key body n b) (\<lambda>r t. tried n b url key body (snd r = None) t)"
proof (induction n arbitrary: b)
  case (Suc n)
  have one: "traces (case v of None \<Rightarrow> deliverOnce UP E url key body
                     | Some e \<Rightarrow> ret (0, Some (Prevalidation e)))
      (\<lambda>r t'. one_try url key body (snd r = None) (t @ t'))" if "silent t" for v t
    by (intro tr traces_mono [OF traces_deliver] one_try_after that) (auto simp: one_try_def)
  have rest: "traces (if snd r = None \<or> n = 0 then ret r
        else do { tell E (WebCall (Sleep b)); attempts UP E url key body n (wrap64 (2 * b)) })
      (\<lambda>r' t''. tried (Suc n) b url key body (snd r' = None) (t @ t' @ t''))"
    if "one_try url key body (snd r = None) (t @ t')" for r t t'
    using that tried_last [OF that] tried_Suc [of url key body "t @ t'" n b]
    by (intro tr) (auto intro!: traces_mono [OF Suc.IH])
  show ?case
    unfolding attempts.simps
    by (intro traces_bind [OF traces_validate] traces_bind [OF one] rest) simp_all
qed simp

section \<open>Selecting the events\<close>

text \<open>What a cursor says of an event: it has been dealt with in an earlier pass.\<close>

definition processed :: "cursor_state \<Rightarrow> k8s_event \<Rightarrow> bool" where
  "processed cs e =
     (case cs_cursor cs of
        CursorAt c \<Rightarrow>
          (case ke_last e of None \<Rightarrow> True | Some t \<Rightarrow> t < c \<or> t = c \<and> ke_uid e \<in> set (cs_seen cs))
      | _ \<Rightarrow> ke_last e = None)"

text \<open>A reordering of a list, such as Go's visit of a map or its unstable sort.\<close>

definition reordering :: "('a list \<Rightarrow> 'a list) \<Rightarrow> bool" where
  "reordering f \<longleftrightarrow> (\<forall>xs. mset (f xs) = mset xs)"

lemma reordering_set: "reordering f \<Longrightarrow> set (f xs) = set xs"
  unfolding reordering_def by (metis set_mset_mset)

definition picked :: "cursor_state \<Rightarrow> k8s_event list \<Rightarrow> k8s_event list \<Rightarrow> cursor_state \<Rightarrow> bool \<Rightarrow> bool" where
  "picked cs items evs next bootstrap \<longleftrightarrow>
     bootstrap = (cs_cursor cs = NoCursor)
     \<and> mset evs = (if bootstrap then {#} else filter_mset (\<lambda>e. \<not> processed cs e) (mset (sandbox_events items)))
     \<and> sorted (map by_time evs)
     \<and> (\<forall>e \<in> set (sandbox_events items). processed next e)
     \<and> (\<forall>e. processed cs e \<longrightarrow> processed next e)"

lemma later_upper: "later m ts = Some u \<Longrightarrow> (\<forall>t. m = Some t \<longrightarrow> t \<le> u) \<and> (\<forall>t. ts = Some t \<longrightarrow> t \<le> u)"
  by (auto simp: later_def split: option.splits if_splits)

lemma later_None: "later m ts = None \<longleftrightarrow> m = None \<and> ts = None"
  by (auto simp: later_def split: option.splits)

lemma max_seen_upper:
  "max_seen c evs = Some u \<Longrightarrow> (\<forall>t. c = Some t \<longrightarrow> t \<le> u) \<and> (\<forall>e \<in> set evs. \<forall>t. ke_last e = Some t \<longrightarrow> t \<le> u)"
proof (induction evs arbitrary: c)
  case (Cons e evs)
  have "(\<forall>t. later c (ke_last e) = Some t \<longrightarrow> t \<le> u) \<and> (\<forall>e \<in> set evs. \<forall>t. ke_last e = Some t \<longrightarrow> t \<le> u)"
    using Cons.IH Cons.prems by (simp add: max_seen_def)
  then show ?case
    using later_upper [of c "ke_last e"] by (cases "later c (ke_last e)") (auto simp: later_None dest: order_trans)
qed (auto simp: max_seen_def)

lemma max_seen_None: "max_seen c evs = None \<longleftrightarrow> c = None \<and> (\<forall>e \<in> set evs. ke_last e = None)"
  by (induction evs arbitrary: c) (auto simp: max_seen_def later_None)

lemma is_new_iff: "cs_cursor cs = CursorAt c \<Longrightarrow> is_new c (cs_seen cs) e \<longleftrightarrow> \<not> processed cs e"
  by (auto simp: is_new_def processed_def split: option.splits)

lemma next_processes:
  assumes "\<forall>t. ke_last e = Some t \<longrightarrow> t \<le> m" "ke_last e = Some m \<longrightarrow> ke_uid e \<in> set seen"
  shows "processed \<lparr>cs_cursor = CursorAt m, cs_seen = seen\<rparr> e"
  using assms by (auto simp: processed_def less_le split: option.split)

lemma uids_at_set: "e \<in> set evs \<Longrightarrow> ke_last e = Some m \<Longrightarrow> ke_uid e \<in> set (uids_at m evs)"
  by (auto simp: uids_at_def)

lemma picked_selection:
  fixes cs :: cursor_state
  assumes "reordering ties" "cursor_time (cs_cursor cs) = Inr c"
    and m: "max_seen c (sandbox_events items) = Some m \<or> max_seen c (sandbox_events items) = None"
    and seen: "seen = (if c = Some m then cs_seen cs @ uids_at m (sandbox_events items) else uids_at m (sandbox_events items))"
  shows "picked cs items
     (case c of None \<Rightarrow> [] | Some c \<Rightarrow> sort_key by_time (ties (filter (is_new c (cs_seen cs)) (sandbox_events items))))
     \<lparr>cs_cursor = CursorAt m, cs_seen = seen\<rparr> (c = None)"
proof -
  let ?evs = "sandbox_events items"
  have c: "cs_cursor cs = (case c of None \<Rightarrow> NoCursor | Some t \<Rightarrow> CursorAt t)"
    using assms(2) by (auto simp: cursor_time_def split: cursor.splits)
  have dated: "ke_last e \<noteq> None" if "e \<in> set ?evs" for e
    using that by (simp add: sandbox_events_def)
  have upper: "(\<forall>t. c = Some t \<longrightarrow> t \<le> m) \<and> (\<forall>e \<in> set ?evs. \<forall>t. ke_last e = Some t \<longrightarrow> t \<le> m)"
    using m max_seen_upper [of c ?evs m] dated by (auto simp: max_seen_None)
  have all: "\<forall>e \<in> set ?evs. processed \<lparr>cs_cursor = CursorAt m, cs_seen = seen\<rparr> e"
    using upper by (auto intro!: next_processes simp: seen uids_at_set)
  have mono: "processed cs e \<longrightarrow> processed \<lparr>cs_cursor = CursorAt m, cs_seen = seen\<rparr> e" for e
    using c upper seen by (auto simp: processed_def split: option.splits if_splits)
  show ?thesis
    using all mono assms(1) c
    by (auto simp: picked_def reordering_def is_new_iff split: option.split)
qed

lemma traces_newest:
  "traces (case x of None \<Rightarrow> ask E Now as_time | Some m \<Rightarrow> ret m) (\<lambda>m t.
     (\<forall>y \<in> set t. sent_request (fst y) = [] \<and> stored_state (fst y) = None) \<and> (x = Some m \<or> x = None))"
  by (intro tr) (auto simp: sent_request_def)

lemma traces_listNewEvents:
  assumes "reordering ties"
  shows "traces (listNewEvents ties E cs) (\<lambda>r t.
     (\<forall>x \<in> set t. sent_request (fst x) = [] \<and> stored_state (fst x) = None)
     \<and> (\<forall>evs next bootstrap. r = Inr (evs, next, bootstrap) \<longrightarrow>
          (\<exists>items. (ListEvents [], REvents items) \<in> set t \<and> picked cs items evs next bootstrap)))"
proof -
  define out where "out c items m =
      (case c of None \<Rightarrow> [] | Some c \<Rightarrow> sort_key by_time (ties (filter (is_new c (cs_seen cs)) (sandbox_events items))),
       \<lparr>cs_cursor = CursorAt m, cs_seen = (if c = Some m then cs_seen cs @ uids_at m (sandbox_events items)
                                          else uids_at m (sandbox_events items))\<rparr>, c = None)" for c items m
  have out: "picked cs items evs next bootstrap"
    if "cursor_time (cs_cursor cs) = Inr c" "out c items m = (evs, next, bootstrap)"
      "max_seen c (sandbox_events items) = Some m \<or> max_seen c (sandbox_events items) = None"
    for c items m evs "next" bootstrap
    using picked_selection [OF assms that(1, 3) refl] that(2) by (simp add: out_def)
  show ?thesis
    unfolding listNewEvents_def Let_def out_def [symmetric]
    by (intro traces_case_sum traces_ask_bind traces_ret traces_bind [OF traces_newest])
      (auto dest: out simp: sent_request_def)
qed

section \<open>What a pass guarantees of its calls\<close>

definition known :: "secret list \<Rightarrow> (string \<times> subscription) list \<times> (string \<rightharpoonup> string)" where
  "known ss = fold add_subscription ss ([], Map.empty)"

definition subscription_list :: "string \<Rightarrow> secret list \<Rightarrow> request \<times> response" where
  "subscription_list ns ss =
     (ListSecrets ns [(''agenttier.io/secret-purpose'', ''webhook-subscription'')], RSecrets ss)"

definition cursor_of :: "delivery_state \<Rightarrow> cursor_state" where
  "cursor_of st = \<lparr>cs_cursor = ds_cursor st, cs_seen = ds_seen st\<rparr>"

text \<open>A cursor that was read from the cluster in this pass.\<close>

definition loaded :: "string \<Rightarrow> trace \<Rightarrow> cursor_state \<Rightarrow> bool" where
  "loaded ns pre cs \<longleftrightarrow>
     (\<exists>r st v. (GetConfigMap ns StateConfigMapName, r) \<in> set pre \<and> state_in r = Inr (st, v) \<and> cs = cursor_of st)"

text \<open>Whether the owner of a subscription may learn of an event, as the sandbox read in this pass says.\<close>

definition may_see :: "trace \<Rightarrow> subscription \<Rightarrow> k8s_event \<Rightarrow> bool" where
  "may_see pre sub e \<longleftrightarrow>
     sub_admin sub
     \<or> (\<exists>sb. (GetSandbox (ke_object_namespace e) (ke_object e), RSandbox sb) \<in> set pre
            \<and> subscriber_can_access sb (sub_user sub))"

definition shut_out :: "trace \<Rightarrow> subscription \<Rightarrow> k8s_event \<Rightarrow> bool" where
  "shut_out pre sub e \<longleftrightarrow>
     \<not> sub_admin sub
     \<and> (\<exists>r. (GetSandbox (ke_object_namespace e) (ke_object e), r) \<in> set pre
          \<and> (case as_sandbox r of Inl _ \<Rightarrow> True | Inr sb \<Rightarrow> \<not> subscriber_can_access sb (sub_user sub)))"

text \<open>\<open>due\<close>: a body that this pass owes to a URL: the description of an event that the cursor does not
  cover, for an enabled subscription of that kind of event whose owner may see the sandbox.\<close>

definition due :: "string \<Rightarrow> (json \<Rightarrow> string) \<Rightarrow> trace \<Rightarrow> string \<Rightarrow> string \<Rightarrow> string \<Rightarrow> bool" where
  "due ns MJ pre url key body \<longleftrightarrow>
     (\<exists>ss items cs i sub e ty.
        subscription_list ns ss \<in> set pre \<and> (i, sub) \<in> set (fst (known ss))
        \<and> snd (known ss) i = Some key \<and> key \<noteq> [] \<and> url = sub_url sub
        \<and> (ListEvents [], REvents items) \<in> set pre \<and> e \<in> set (sandbox_events items)
        \<and> loaded ns pre cs \<and> \<not> processed cs e
        \<and> webhookTypeForReason (ke_reason e) = Some ty
        \<and> Matches sub ty (ke_object_namespace e) (ke_object e)
        \<and> body = MJ (webhookPayload ty e) \<and> may_see pre sub e)"

definition post_ok :: "string \<Rightarrow> url_parser \<Rightarrow> (json \<Rightarrow> string) \<Rightarrow> trace \<Rightarrow> request \<Rightarrow> bool" where
  "post_ok ns UP MJ pre q \<longleftrightarrow>
     (\<forall>(url, sg, body) \<in> set (sent_request q).
        (\<exists>key. sg = signBody key body \<and> due ns MJ pre url key body)
        \<and> (\<exists>t0 t. pre = t0 @ t \<and> checked UP url t))"

text \<open>\<open>settled\<close>: nothing is left to do for an event and a subscription: it does not apply, it has no
  secret, its owner was shut out, or the delivery was tried to the end.\<close>

definition settled ::
  "deliverer \<Rightarrow> (json \<Rightarrow> string) \<Rightarrow> (string \<rightharpoonup> string) \<Rightarrow> k8s_event \<Rightarrow> string \<times> subscription \<Rightarrow> trace \<Rightarrow> bool" where
  "settled dv MJ secrets e entry pre \<longleftrightarrow>
     (\<forall>ty key. webhookTypeForReason (ke_reason e) = Some ty
        \<and> Matches (snd entry) ty (ke_object_namespace e) (ke_object e)
        \<and> secrets (fst entry) = Some key \<and> key \<noteq> []
        \<longrightarrow> shut_out pre (snd entry) e
            \<or> (\<exists>t0 t t1 ok. pre = t0 @ t @ t1
                 \<and> tried (dv_max_attempts dv) (dv_backoff dv) (sub_url (snd entry)) key
                     (MJ (webhookPayload ty e)) ok t))"

text \<open>A stored delivery state either keeps a cursor read before, or moves it when every event that
  the old cursor leaves open is settled for every subscription.\<close>

definition may_store :: "deliverer \<Rightarrow> (json \<Rightarrow> string) \<Rightarrow> trace \<Rightarrow> delivery_state \<Rightarrow> bool" where
  "may_store dv MJ pre st \<longleftrightarrow>
     loaded (dv_namespace dv) pre (cursor_of st)
     \<or> (\<exists>cs items. loaded (dv_namespace dv) pre cs \<and> (ListEvents [], REvents items) \<in> set pre
          \<and> (\<forall>e \<in> set (sandbox_events items). processed (cursor_of st) e)
          \<and> (\<forall>e. processed cs e \<longrightarrow> processed (cursor_of st) e)
          \<and> (cs_cursor cs = NoCursor
             \<or> (\<exists>ss. subscription_list (dv_namespace dv) ss \<in> set pre
                  \<and> (\<forall>e \<in> set (sandbox_events items). \<not> processed cs e \<longrightarrow>
                       (\<forall>entry \<in> set (fst (known ss)). settled dv MJ (snd (known ss)) e entry pre)))))"

definition cursor_ok :: "deliverer \<Rightarrow> (json \<Rightarrow> string) \<Rightarrow> trace \<Rightarrow> request \<Rightarrow> bool" where
  "cursor_ok dv MJ pre q \<longleftrightarrow> (\<forall>st. stored_state q = Some st \<longrightarrow> may_store dv MJ pre st)"

definition pass_ok :: "deliverer \<Rightarrow> url_parser \<Rightarrow> (json \<Rightarrow> string) \<Rightarrow> trace \<Rightarrow> request \<Rightarrow> bool" where
  "pass_ok dv UP MJ pre q \<longleftrightarrow> post_ok (dv_namespace dv) UP MJ pre q \<and> cursor_ok dv MJ pre q"

lemma pass_quiet:
  "sent_request q = [] \<Longrightarrow> stored_state q = None \<Longrightarrow> pass_ok dv UP MJ pre q"
  by (simp add: pass_ok_def post_ok_def cursor_ok_def)

lemma sent_request_other [simp]:
  "sent_request Now = []"
  "sent_request (GetConfigMap a b) = []"
  "sent_request (CreateConfigMap m) = []"
  "sent_request (UpdateConfigMap m) = []"
  "sent_request (GetSandbox a b) = []"
  "sent_request (GetSecret a b) = []"
  "sent_request (UpdateSecret s) = []"
  "sent_request (ListSecrets a l) = []"
  "sent_request (ListEvents a) = []"
  "sent_request (WebCall (Sleep d)) = []"
  "sent_request (WebCall (LookupIP h)) = []"
  "sent_request (WebCall (Post url sg body)) = [(url, sg, body)]"
  by (simp_all add: sent_request_def)

lemma guarded_quiet:
  "(\<forall>x \<in> set t. sent_request (fst x) = [] \<and> stored_state (fst x) = None) \<Longrightarrow> guarded (pass_ok dv UP MJ) pre t"
  by (induction t arbitrary: pre) (auto simp: pass_quiet)

text \<open>What was established stays so.\<close>

lemma loaded_append [simp]: "loaded ns pre cs \<Longrightarrow> loaded ns (pre @ t) cs"
  by (auto simp: loaded_def)

lemma may_see_append [simp]: "may_see pre sub e \<Longrightarrow> may_see (pre @ t) sub e"
  by (auto simp: may_see_def)

lemma due_append [simp]: "due ns MJ pre url key body \<Longrightarrow> due ns MJ (pre @ t) url key body"
  unfolding due_def by (metis UnI1 loaded_append may_see_append set_append)

lemma settled_append [simp]: "settled dv MJ secrets e entry pre \<Longrightarrow> settled dv MJ secrets e entry (pre @ t)"
  unfolding settled_def shut_out_def by (metis UnI1 append.assoc set_append)

text \<open>The steps of a pass keep the guard.\<close>

lemma checked_recent: "checked UP url t \<Longrightarrow> \<exists>t0 t1. pre @ t = t0 @ t1 \<and> checked UP url t1"
  by blast

lemma guarded_checked: "checked UP url t \<Longrightarrow> guarded (pass_ok dv UP MJ) pre t"
  by (rule guarded_quiet) (auto simp: checked_def)

lemma upholds_attempts:
  assumes "due (dv_namespace dv) MJ pre url key body"
  shows "upholds (pass_ok dv UP MJ) pre (attempts UP E url key body n b)"
  using assms
proof (induction n arbitrary: b pre)
  case (Suc n)
  let ?J = "pass_ok dv UP MJ"
  have check: "traces (ValidateDeliveryURL UP E url)
      (\<lambda>v t. guarded ?J pre t \<and> (v = None \<longrightarrow> checked UP url t))"
    unfolding ValidateDeliveryURL_def
    by (intro tr) (auto simp: checked_def pass_quiet dest: address_error_None split: sum.splits if_splits)
  have deliver: "upholds ?J (pre @ t) (deliverOnce UP E url key body)" if "checked UP url t" for t
    unfolding deliverOnce_def
    by (intro upholds_case upholds_ask_bind upholds_ret)
      (use that Suc.prems in \<open>auto simp: pass_ok_def post_ok_def cursor_ok_def\<close>)
  have rest: "upholds ?J (pre @ t)
      (if snd r = None \<or> n = 0 then ret r
       else do { tell E (WebCall (Sleep b)); attempts UP E url key body n (wrap64 (2 * b)) })" for r t
    unfolding tell_def
    by (intro upholds_case upholds_ask_bind upholds_ret Suc.IH) (auto simp: pass_quiet Suc.prems)
  show ?case
    unfolding attempts.simps
    by (rule upholds_bind [OF check], rule upholds_seq)
      (intro upholds_case deliver upholds_ret, simp_all only: append_assoc rest)
qed simp

lemma traces_access:
  "traces (canAccessSandbox E sub (ke_object_namespace e) (ke_object e)) (\<lambda>ok t.
     (\<forall>x \<in> set t. sent_request (fst x) = [] \<and> stored_state (fst x) = None)
     \<and> (if ok then may_see t sub e else shut_out t sub e))"
  unfolding canAccessSandbox_def by (intro tr) (auto simp: may_see_def shut_out_def split: sum.splits)

lemma may_store_append [simp]: "may_store dv MJ pre st \<Longrightarrow> may_store dv MJ (pre @ t) st"
  unfolding may_store_def by (metis UnI1 loaded_append settled_append set_append)

lemma guarded_saves: "saves st t \<Longrightarrow> may_store dv MJ pre st \<Longrightarrow> guarded (pass_ok dv UP MJ) pre t"
proof (induction t arbitrary: pre)
  case (Cons x t)
  obtain q r where x: "x = (q, r)" by (cases x)
  have "sent_request q = []" "stored_state q = Some st \<or> stored_state q = None"
    using Cons.prems(1) by (auto simp: saves_def x stored_state_def stored_map_def sent_request_def split: request.splits)
  then have "pass_ok dv UP MJ pre q"
    using Cons.prems(2) by (auto simp: pass_ok_def post_ok_def cursor_ok_def)
  moreover have "guarded (pass_ok dv UP MJ) (pre @ [x]) t"
    using Cons.prems by (intro Cons.IH) (auto simp: saves_def)
  ultimately show ?case by (simp add: x)
qed simp

lemma upholds_save:
  "may_store dv MJ pre st \<Longrightarrow> upholds (pass_ok dv UP MJ) pre (save_state ns E st v)"
  unfolding upholds_def by (rule traces_mono [OF save_state_saves]) (rule guarded_saves)

lemma may_keep: "loaded (dv_namespace dv) pre (cursor_of st) \<Longrightarrow> may_store dv MJ pre st"
  by (simp add: may_store_def)

lemma loaded_now: "state_in r = Inr (st, v) \<Longrightarrow> loaded ns (pre @ [(GetConfigMap ns StateConfigMapName, r)]) (cursor_of st)"
  by (auto simp: loaded_def)

lemma cursor_of_subs [simp]: "cursor_of (st\<lparr>ds_subs := m\<rparr>) = cursor_of st"
  by (simp add: cursor_of_def)

lemma upholds_record: "upholds (pass_ok dv UP MJ) pre (RecordAttempt (dv_namespace dv) E i a th)"
  unfolding RecordAttempt_def load_state_eq Let_def
  by (intro upholds_ask_bind upholds_case upholds_seq upholds_save upholds_ret may_keep pass_quiet)
    (simp_all add: loaded_now)

lemma upholds_disable: "upholds (pass_ok dv UP MJ) pre (DisableSubscription E ns i)"
proof -
  have doc: "upholds J pre (case v of SecretText x \<Rightarrow> a x | SecretRecord r \<Rightarrow> b r | SecretWebhook w \<Rightarrow> c w)"
    if "\<And>x. upholds J pre (a x)" "\<And>r. upholds J pre (b r)" "\<And>w. upholds J pre (c w)"
    for J pre v and a b and c :: "webhook_record \<Rightarrow> ('a, string + unit) kprog"
    using that by (cases v) auto
  show ?thesis
    unfolding DisableSubscription_def Let_def
    by (intro upholds_ask_bind upholds_case upholds_ret doc pass_quiet) simp_all
qed

lemma traces_deliverWithRetry:
  assumes "due (dv_namespace dv) MJ pre (sub_url sub) key body" "dv_max_attempts dv \<noteq> 0"
  shows "traces (deliverWithRetry dv UP E i sub key ty body) (\<lambda>_ t.
     guarded (pass_ok dv UP MJ) pre t
     \<and> (\<exists>t1 t2 ok. t = t1 @ t2 \<and> tried (dv_max_attempts dv) (dv_backoff dv) (sub_url sub) key body ok t1))"
proof -
  have rest: "upholds (pass_ok dv UP MJ) pre' (do {
       now \<leftarrow> ask E Now as_time;
       crossed \<leftarrow> RecordAttempt (dv_namespace dv) E i (a now) th;
       (case crossed of
          Inl _ \<Rightarrow> ret ()
        | Inr c \<Rightarrow> if c then do { _ \<leftarrow> DisableSubscription E (dv_namespace dv) i; ret () } else ret ())
     })" for pre' a th
    by (intro upholds_ask_bind upholds_seq upholds_record upholds_disable upholds_case upholds_ret pass_quiet)
      simp_all
  show ?thesis
    unfolding deliverWithRetry_def
    apply (rule traces_bind [OF traces_conj [OF upholds_attempts [OF assms(1), unfolded upholds_def]
          traces_attempts [OF assms(2)]]])
    apply (intro traces_case_prod)
    apply (rule traces_mono [OF rest [unfolded upholds_def]])
    by auto
qed

text \<open>What is known when an event is dispatched.\<close>

definition pass_context :: "deliverer \<Rightarrow> trace \<Rightarrow> secret list \<Rightarrow> cursor_state \<Rightarrow> k8s_event \<Rightarrow> bool" where
  "pass_context dv pre ss cs e \<longleftrightarrow>
     subscription_list (dv_namespace dv) ss \<in> set pre \<and> loaded (dv_namespace dv) pre cs \<and> \<not> processed cs e
     \<and> (\<exists>items. (ListEvents [], REvents items) \<in> set pre \<and> e \<in> set (sandbox_events items))"

lemma pass_context_append [simp]: "pass_context dv pre ss cs e \<Longrightarrow> pass_context dv (pre @ t) ss cs e"
  by (auto simp: pass_context_def)

lemma due_now:
  assumes "pass_context dv pre ss cs e" "(i, sub) \<in> set (fst (known ss))" "snd (known ss) i = Some key" "key \<noteq> []"
    and "webhookTypeForReason (ke_reason e) = Some ty" "Matches sub ty (ke_object_namespace e) (ke_object e)"
    and "may_see t sub e"
  shows "due (dv_namespace dv) MJ (pre @ t) (sub_url sub) key (MJ (webhookPayload ty e))"
proof -
  obtain items where "(ListEvents [], REvents items) \<in> set (pre @ t)" "e \<in> set (sandbox_events items)"
    "subscription_list (dv_namespace dv) ss \<in> set (pre @ t)" "loaded (dv_namespace dv) (pre @ t) cs" "\<not> processed cs e"
    using assms(1) by (auto simp: pass_context_def)
  moreover have "may_see (pre @ t) sub e"
    using assms(7) by (auto simp: may_see_def)
  ultimately show ?thesis
    unfolding due_def using assms(2-6) by blast
qed

lemma settled_shut_out: "shut_out t (snd entry) e \<Longrightarrow> settled dv MJ secrets e entry (pre @ t)"
  unfolding settled_def shut_out_def by (metis UnI2 set_append)

lemma settled_tried:
  assumes "tried (dv_max_attempts dv) (dv_backoff dv) (sub_url (snd entry)) key (MJ (webhookPayload ty e)) ok t"
    and "webhookTypeForReason (ke_reason e) = Some ty" "secrets (fst entry) = Some key"
  shows "settled dv MJ secrets e entry (pre @ t @ t')"
  using assms unfolding settled_def by auto

lemma traces_dispatch_to:
  assumes ctx: "pass_context dv pre ss cs e" and sub: "entry \<in> set (fst (known ss))"
    and ty: "webhookTypeForReason (ke_reason e) = Some ty" and n: "dv_max_attempts dv \<noteq> 0"
  shows "traces (dispatch_to dv UP E e ty (MJ (webhookPayload ty e)) (snd (known ss)) entry) (\<lambda>_ t.
     guarded (pass_ok dv UP MJ) pre t \<and> settled dv MJ (snd (known ss)) e entry (pre @ t))"
proof -
  obtain i sub where entry: "entry = (i, sub)" by (cases entry)
  have skip: "settled dv MJ (snd (known ss)) e entry pre'"
    if "\<not> Matches sub ty (ke_object_namespace e) (ke_object e) \<or> snd (known ss) i = None \<or> snd (known ss) i = Some []"
    for pre'
    using that ty by (auto simp: settled_def entry)
  have send: "traces (deliverWithRetry dv UP E i sub key ty (MJ (webhookPayload ty e))) (\<lambda>_ t'.
       guarded (pass_ok dv UP MJ) (pre @ t) t' \<and> settled dv MJ (snd (known ss)) e entry (pre @ t @ t'))"
    if "Matches sub ty (ke_object_namespace e) (ke_object e)" "may_see t sub e"
      "snd (known ss) i = Some key" "key \<noteq> []" for t key
    by (rule traces_mono [OF traces_deliverWithRetry [OF due_now [OF ctx _ that(3,4) ty that(1,2)] n]])
      (use sub that(3) settled_tried [of dv entry key MJ ty e _ _ "snd (known ss)" "pre @ t"] ty in \<open>auto simp: entry\<close>)
  show ?thesis
    unfolding dispatch_to_def entry prod.case
    apply (intro traces_if traces_ret)
     apply (simp add: skip [unfolded entry])
    apply (rule traces_bind [OF traces_access])
    apply (intro traces_if traces_ret traces_case_option)
       apply (simp add: guarded_quiet settled_shut_out)
      apply (simp add: guarded_quiet skip [unfolded entry])
     apply (simp add: guarded_quiet skip [unfolded entry])
    apply (rule traces_mono [OF send [unfolded entry]])
        apply (auto simp: guarded_quiet)
    done
qed

lemma traces_dispatchEvent:
  assumes ctx: "pass_context dv pre ss cs e" and n: "dv_max_attempts dv \<noteq> 0" and ord: "reordering (arrange e)"
  shows "traces (dispatchEvent dv UP MJ arrange E (fst (known ss)) (snd (known ss)) e) (\<lambda>_ t.
     guarded (pass_ok dv UP MJ) pre t
     \<and> (\<forall>entry \<in> set (fst (known ss)). settled dv MJ (snd (known ss)) e entry (pre @ t)))"
proof (cases "webhookTypeForReason (ke_reason e)")
  case None
  then show ?thesis
    by (auto simp: dispatchEvent_def settled_def intro!: traces_ret)
next
  case (Some ty)
  have "traces (for_each (arrange e (fst (known ss)))
      (dispatch_to dv UP E e ty (MJ (webhookPayload ty e)) (snd (known ss)))) (\<lambda>_ t.
      guarded (pass_ok dv UP MJ) pre t
      \<and> (\<forall>entry \<in> set (arrange e (fst (known ss))). settled dv MJ (snd (known ss)) e entry (pre @ t)))"
    by (rule traces_for_each_each, rule traces_dispatch_to [where cs = cs])
      (use ctx n Some in \<open>auto simp: reordering_set [OF ord] prefix_def\<close>)
  then show ?thesis
    by (simp add: dispatchEvent_def Some reordering_set [OF ord])
qed

lemma cursor_of_moved [simp]: "cursor_of (st\<lparr>ds_cursor := cs_cursor c, ds_seen := cs_seen c\<rparr>) = c"
  by (simp add: cursor_of_def)

lemma upholds_SaveCursorState:
  assumes "\<And>st. cursor_of st = next \<Longrightarrow> may_store dv MJ pre st"
  shows "upholds (pass_ok dv UP MJ) pre (SaveCursorState ns E next)"
  unfolding SaveCursorState_def load_state_eq
  by (intro upholds_ask_bind upholds_case upholds_save upholds_ret pass_quiet may_store_append assms) simp_all

text \<open>A pass whose order of delivery is any order.\<close>

lemma traces_LoadCursorState:
  "traces (LoadCursorState ns E) (\<lambda>r t.
     (\<forall>x \<in> set t. sent_request (fst x) = [] \<and> stored_state (fst x) = None)
     \<and> (\<forall>cs. r = Inr cs \<longrightarrow> loaded ns t cs))"
  unfolding LoadCursorState_def load_state_eq
  by (intro tr) (auto simp: loaded_def cursor_of_def split: sum.splits)

lemma traces_ListSubscriptions:
  "traces (ListSubscriptions E ns) (\<lambda>r t.
     (\<forall>x \<in> set t. sent_request (fst x) = [] \<and> stored_state (fst x) = None)
     \<and> (\<forall>subs secrets. r = Inr (subs, secrets) \<longrightarrow>
          (\<exists>ss. subscription_list ns ss \<in> set t \<and> (subs, secrets) = known ss)))"
  unfolding ListSubscriptions_def
  by (intro tr) (auto simp: subscription_list_def known_def split: sum.splits)

lemma picked_events: "picked cs items evs next b \<Longrightarrow> e \<in> set evs \<Longrightarrow> e \<in> set (sandbox_events items) \<and> \<not> processed cs e"
  unfolding picked_def by (metis (no_types, lifting) count_filter_mset count_greater_zero_iff
      empty_iff filter_mset_eq_conv mem_Collect_eq set_mset_empty set_mset_filter set_mset_mset)

lemma loaded_in: "loaded ns t cs \<Longrightarrow> loaded ns (pre @ t) cs"
  by (auto simp: loaded_def)

lemma save_bootstrap:
  assumes "loaded (dv_namespace dv) pre cs" "(ListEvents [], REvents items) \<in> set pre" "picked cs items evs next True"
  shows "upholds (pass_ok dv UP MJ) pre (do { _ \<leftarrow> SaveCursorState ns E next; ret () })"
  by (intro upholds_seq upholds_SaveCursorState upholds_ret)
    (use assms in \<open>auto simp: may_store_def picked_def\<close>)

lemma save_moved:
  assumes "loaded (dv_namespace dv) pre cs" "(ListEvents [], REvents items) \<in> set pre" "picked cs items evs next False"
    and "subscription_list (dv_namespace dv) ss \<in> set pre"
    and "\<forall>e \<in> set evs. \<forall>entry \<in> set (fst (known ss)). settled dv MJ (snd (known ss)) e entry pre"
  shows "upholds (pass_ok dv UP MJ) pre (do { _ \<leftarrow> SaveCursorState ns E next; ret () })"
proof -
  have "set evs = {e \<in> set (sandbox_events items). \<not> processed cs e}"
    using assms(3) unfolding picked_def by (metis set_mset_filter set_mset_mset)
  then have "may_store dv MJ pre st" if "cursor_of st = next" for st
    using that assms unfolding may_store_def picked_def by blast
  then show ?thesis
    by (intro upholds_seq upholds_SaveCursorState upholds_ret)
qed

lemma upholds_dispatch_all:
  assumes picked: "picked cs items evs next False" and loaded: "loaded (dv_namespace dv) pre cs"
    and items: "(ListEvents [], REvents items) \<in> set pre" and ss: "subscription_list (dv_namespace dv) ss \<in> set pre"
    and n: "dv_max_attempts dv \<noteq> 0" and ord: "\<And>e. reordering (arrange e)"
  shows "upholds (pass_ok dv UP MJ) pre (do {
       for_each evs (dispatchEvent dv UP MJ arrange E (fst (known ss)) (snd (known ss)));
       _ \<leftarrow> SaveCursorState ns E next;
       ret ()
     })"
proof (rule upholds_bind)
  show "traces (for_each evs (dispatchEvent dv UP MJ arrange E (fst (known ss)) (snd (known ss)))) (\<lambda>_ t.
      guarded (pass_ok dv UP MJ) pre t
      \<and> (\<forall>e \<in> set evs. \<forall>entry \<in> set (fst (known ss)). settled dv MJ (snd (known ss)) e entry (pre @ t)))"
  proof (rule traces_for_each_each, goal_cases)
    case (1 e pre')
    have "pass_context dv pre ss cs e"
      using 1(1) picked_events [OF picked] loaded items ss by (auto simp: pass_context_def)
    then have "pass_context dv pre' ss cs e"
      using 1(2) by (auto simp: prefix_def)
    then show ?case by (rule traces_dispatchEvent [OF _ n ord])
  qed auto
next
  fix t
  assume "\<forall>e \<in> set evs. \<forall>entry \<in> set (fst (known ss)). settled dv MJ (snd (known ss)) e entry (pre @ t)"
  then show "upholds (pass_ok dv UP MJ) (pre @ t) (do { _ \<leftarrow> SaveCursorState ns E next; ret () })"
    by (intro save_moved [OF _ _ picked]) (use loaded items ss in auto)
qed

lemma upholds_quietly:
  assumes "traces m (\<lambda>a t. (\<forall>x \<in> set t. sent_request (fst x) = [] \<and> stored_state (fst x) = None) \<and> P a t)"
    and "\<And>a t. P a t \<Longrightarrow> upholds (pass_ok dv UP MJ) (pre @ t) (f a)"
  shows "upholds (pass_ok dv UP MJ) pre (State_Monad.bind m f)"
  by (rule upholds_bind [OF traces_mono [OF assms(1)] assms(2)]) (auto intro: guarded_quiet)

lemma upholds_after_picking:
  assumes picked: "picked cs items evs next bootstrap" and loaded: "loaded (dv_namespace dv) pre cs"
    and items: "(ListEvents [], REvents items) \<in> set pre"
    and n: "dv_max_attempts dv \<noteq> 0" and ord: "\<And>e. reordering (arrange e)"
  shows "upholds (pass_ok dv UP MJ) pre
     (if bootstrap then do { _ \<leftarrow> SaveCursorState ns E next; ret () }
      else if evs = [] then ret ()
      else do {
        s \<leftarrow> ListSubscriptions E (dv_namespace dv);
        (case s of
           Inl _ \<Rightarrow> ret ()
         | Inr (subs, secrets) \<Rightarrow> do {
             for_each evs (dispatchEvent dv UP MJ arrange E subs secrets);
             _ \<leftarrow> SaveCursorState ns E next;
             ret ()
           })
      })"
proof (intro upholds_case upholds_ret upholds_quietly [OF traces_ListSubscriptions])
  show "bootstrap \<Longrightarrow> upholds (pass_ok dv UP MJ) pre (do { _ \<leftarrow> SaveCursorState ns E next; ret () })"
    by (rule save_bootstrap [where cs = cs and items = items and evs = evs]) (use picked loaded items in auto)
next
  fix s t z subs secrets
  assume boot: "\<not> bootstrap" and s: "s = Inr z" "z = (subs, secrets)"
    and "\<forall>subs secrets. s = Inr (subs, secrets) \<longrightarrow>
      (\<exists>ss. subscription_list (dv_namespace dv) ss \<in> set t \<and> (subs, secrets) = known ss)"
  then obtain ss where ss: "subscription_list (dv_namespace dv) ss \<in> set (pre @ t)"
      "subs = fst (known ss)" "secrets = snd (known ss)"
    by (metis UnI2 fst_conv set_append snd_conv)
  show "upholds (pass_ok dv UP MJ) (pre @ t) (do {
      for_each evs (dispatchEvent dv UP MJ arrange E subs secrets);
      _ \<leftarrow> SaveCursorState ns E next;
      ret ()
    })"
    unfolding ss(2, 3)
    by (rule upholds_dispatch_all [where cs = cs and items = items]) (use picked boot loaded items ss(1) n ord in auto)
qed

lemma upholds_RunOnce:
  assumes "dv_max_attempts dv \<noteq> 0" "reordering ties" "\<And>e. reordering (arrange e)"
  shows "upholds (pass_ok dv UP MJ) [] (RunOnce dv UP MJ ties arrange E)"
  unfolding RunOnce_def
proof (intro upholds_quietly [OF traces_LoadCursorState] upholds_quietly [OF traces_listNewEvents [OF assms(2)]]
    upholds_case(1,4) upholds_ret, unfold append_Nil)
  fix c t1 cs l t2 z evs rest "next" bootstrap
  assume "\<forall>cs. c = Inr cs \<longrightarrow> loaded (dv_namespace dv) t1 cs" "c = Inr cs" "l = Inr z" "z = (evs, rest)"
    "rest = (next, bootstrap)"
    "\<forall>evs next bootstrap. l = Inr (evs, next, bootstrap) \<longrightarrow>
       (\<exists>items. (ListEvents [], REvents items) \<in> set t2 \<and> picked cs items evs next bootstrap)"
  then obtain items where *: "(ListEvents [], REvents items) \<in> set (t1 @ t2)" "picked cs items evs next bootstrap"
      "loaded (dv_namespace dv) (t1 @ t2) cs"
    by auto
  show "upholds (pass_ok dv UP MJ) (t1 @ t2)
     (if bootstrap then do { _ \<leftarrow> SaveCursorState (dv_namespace dv) E next; ret () }
      else if evs = [] then ret ()
      else do {
        s \<leftarrow> ListSubscriptions E (dv_namespace dv);
        (case s of
           Inl _ \<Rightarrow> ret ()
         | Inr (subs, secrets) \<Rightarrow> do {
             for_each evs (dispatchEvent dv UP MJ arrange E subs secrets);
             _ \<leftarrow> SaveCursorState (dv_namespace dv) E next;
             ret ()
           })
      })"
    by (rule upholds_after_picking [OF *(2,3,1) assms(1,3)])
qed

section \<open>What is recorded\<close>

text \<open>Every delivery state stored in \<open>t\<close> is one read in \<open>t\<close> in which \<open>f\<close> changed the entry of the
  subscription \<open>i\<close> and nothing else.\<close>

definition changes_entry :: "string \<Rightarrow> string \<Rightarrow> (subscription_state \<Rightarrow> subscription_state) \<Rightarrow> trace \<Rightarrow> bool" where
  "changes_entry ns i f t \<longleftrightarrow>
     (\<forall>x \<in> set t. \<forall>st. stored_state (fst x) = Some st \<longrightarrow>
        (\<exists>r st0 v. (GetConfigMap ns StateConfigMapName, r) \<in> set t \<and> state_in r = Inr (st0, v)
           \<and> st = st0\<lparr>ds_subs := (ds_subs st0)(i \<mapsto>
                f (case ds_subs st0 i of None \<Rightarrow> fresh_subscription | Some s \<Rightarrow> s))\<rparr>))"

definition stores_nothing :: "trace \<Rightarrow> bool" where
  "stores_nothing t \<longleftrightarrow> (\<forall>x \<in> set t. stored_state (fst x) = None)"

lemma changes_entry_around:
  "stores_nothing t1 \<Longrightarrow> changes_entry ns i f t \<Longrightarrow> stores_nothing t2 \<Longrightarrow> changes_entry ns i f (t1 @ t @ t2)"
  unfolding changes_entry_def stores_nothing_def by fastforce

lemma saves_changes_entry:
  assumes "saves st t" "state_in r = Inr (st0, v)"
    "st = st0\<lparr>ds_subs := (ds_subs st0)(i \<mapsto> f (case ds_subs st0 i of None \<Rightarrow> fresh_subscription | Some s \<Rightarrow> s))\<rparr>"
  shows "changes_entry ns i f ((GetConfigMap ns StateConfigMapName, r) # t)"
  using assms unfolding changes_entry_def saves_def by fastforce

lemma stored_state_Some: "stored_state q = Some st \<Longrightarrow> \<exists>cm. q = CreateConfigMap cm \<or> q = UpdateConfigMap cm"
  by (cases q) (simp_all add: stored_state_def stored_map_def)

lemma silent_Cons: "silent (x # t) \<longleftrightarrow> silent [x] \<and> silent t"
  by (auto simp: silent_def)

lemma saves_silent: "saves st t \<Longrightarrow> silent t"
proof (induction t)
  case (Cons x t)
  have "silent [x]"
    using Cons.prems stored_state_Some [of "fst x" st] by (auto simp: saves_def silent_def pause_def)
  then show ?case using Cons by (simp add: silent_Cons [of x t] saves_def)
qed (simp add: silent_def)

lemma silent_append: "silent (t @ t') \<longleftrightarrow> silent t \<and> silent t'"
  by (auto simp: silent_def)

lemma traces_RecordAttempt:
  "traces (RecordAttempt ns E i a th) (\<lambda>_ t. silent t \<and> changes_entry ns i (recorded a) t)"
  unfolding RecordAttempt_def load_state_eq Let_def
  apply (intro traces_ask_bind traces_case_sum traces_case_prod traces_ret)
   apply (simp add: changes_entry_def silent_def pause_def)
  apply (rule traces_bind [OF save_state_saves], rule traces_ret)
  apply (auto intro!: saves_changes_entry simp: silent_Cons [of _ "_ # _"] silent_def pause_def dest: saves_silent)
  done

lemma traces_Disable: "traces (DisableSubscription E ns i) (\<lambda>_ t. silent t \<and> stores_nothing t)"
proof -
  have doc: "traces (case v of SecretText x \<Rightarrow> a x | SecretRecord r \<Rightarrow> b r | SecretWebhook w \<Rightarrow> c w) P"
    if "\<And>x. traces (a x) P" "\<And>r. traces (b r) P" "\<And>w. traces (c w) P"
    for v P and a b and c :: "webhook_record \<Rightarrow> ('a, string + unit) kprog"
    using that by (cases v) auto
  show ?thesis
    unfolding DisableSubscription_def Let_def
    by (intro tr doc) (simp_all add: silent_def pause_def stores_nothing_def)
qed

lemma tried_stores_nothing: "traces (attempts UP E url key body n b) (\<lambda>_ t. stores_nothing t)"
proof (induction n arbitrary: b)
  case (Suc n)
  have check: "traces (ValidateDeliveryURL UP E url) (\<lambda>_ t. stores_nothing t)"
    unfolding ValidateDeliveryURL_def by (intro tr) (simp_all add: stores_nothing_def)
  have deliver: "traces (deliverOnce UP E url key body) (\<lambda>_ t'. stores_nothing (t @ t'))" if "stores_nothing t" for t
    unfolding deliverOnce_def using that by (intro tr) (simp_all add: stores_nothing_def)
  have rest: "traces (attempts UP E url key body n b') (\<lambda>_ t'. stores_nothing (t @ (WebCall (Sleep b), r) # t'))"
    if "stores_nothing t" for t r b b'
    by (rule traces_mono [OF Suc.IH]) (use that in \<open>auto simp: stores_nothing_def\<close>)
  show ?case
    unfolding attempts.simps
    apply (rule traces_bind [OF check], rule traces_bind [where P = "\<lambda>_ t. stores_nothing t"])
     apply (intro tr traces_mono [OF deliver [of "[]"]]; simp add: stores_nothing_def)
    apply (intro tr)
     apply (simp add: stores_nothing_def ball_Un)
    apply (rule traces_mono [OF rest [of "_ @ _"]])
     apply (auto simp: stores_nothing_def)
    done
qed (auto simp: stores_nothing_def intro: traces_ret)

text \<open>The whole record of a delivery: the attempts, then what is stored and the auto-disable.\<close>

definition delivery_record :: "string \<Rightarrow> string \<Rightarrow> subscription \<Rightarrow> string \<Rightarrow> string \<Rightarrow> string \<Rightarrow> trace \<Rightarrow> bool" where
  "delivery_record ns i sub key ty body t \<longleftrightarrow>
     (\<exists>ok a. length (sent t) \<le> 5 \<and> set (sent t) \<subseteq> {(sub_url sub, signBody key body, body)}
        \<and> prefix (slept t) [1 * second, 2 * second, 4 * second, 8 * second]
        \<and> length (filter (is_accepted (sub_url sub) key body) t) = (if ok then 1 else 0)
        \<and> (\<not> ok \<longrightarrow> slept t = [1 * second, 2 * second, 4 * second, 8 * second])
        \<and> da_event a = ty \<and> da_success a = ok \<and> changes_entry ns i (recorded a) t)"

lemma pauses_5: "pauses 4 second = [second, 2 * second, 4 * second, 8 * second]"
  by (simp add: eval_nat_numeral wrap64_def second_def)

lemma pauses_prefix: "k \<le> n \<Longrightarrow> prefix (pauses k b) (pauses n b)"
proof (induction n arbitrary: k b)
  case (Suc n)
  then show ?case by (cases k) auto
qed simp

lemma accepted_once:
  "tried n b url key body ok t \<Longrightarrow> length (filter (is_accepted url key body) t) = (if ok then 1 else 0)"
proof (cases ok)
  case True
  assume tr: "tried n b url key body ok t"
  then have "t = butlast t @ [last t]" "filter (is_accepted url key body) (butlast t) = []"
      "is_accepted url key body (last t)"
    using True by (auto simp: tried_def filter_empty_conv)
  then have "filter (is_accepted url key body) t = [last t]"
    by (metis append_Nil filter.simps filter_append)
  then show ?thesis by (simp add: True)
qed (auto simp: tried_def filter_empty_conv)

lemma silent_accepts_nothing: "silent t \<Longrightarrow> filter (is_accepted url key body) t = []"
  by (auto simp: filter_empty_conv dest: silent_not_accepted)

lemma tried_record:
  assumes "tried 5 (1 * second) (sub_url sub) key body (da_success a) t" "silent t'"
    "changes_entry ns i (recorded a) (t @ t')" "da_event a = ty"
  shows "delivery_record ns i sub key ty body (t @ t')"
proof -
  have "prefix (slept t) (pauses 4 (1 * second))"
    using assms(1) by (auto simp: tried_def pauses_prefix split: if_splits)
  moreover have "\<not> da_success a \<longrightarrow> slept t = pauses 4 (1 * second)"
    using assms(1) by (auto simp: tried_def)
  moreover have "length (sent t) \<le> 5" "set (sent t) \<subseteq> {(sub_url sub, signBody key body, body)}"
    using assms(1) by (auto simp: tried_def)
  moreover have "sent t' = []" "slept t' = []"
    using assms(2) by (auto simp: silent_def)
  ultimately show ?thesis
    unfolding delivery_record_def
    using assms(3,4) accepted_once [OF assms(1)] silent_accepts_nothing [OF assms(2)]
    by (intro exI [of _ "da_success a"] exI [of _ a]) (simp add: pauses_5)
qed

lemma NewDeliverer_simps:
  "dv_namespace (NewDeliverer ns) = ns"
  "dv_max_attempts (NewDeliverer ns) = 5"
  "dv_backoff (NewDeliverer ns) = second"
  "dv_threshold (NewDeliverer ns) = defaultAutoDisableThreshold"
  by (simp_all add: NewDeliverer_def defaultMaxAttempts_def defaultInitialBackoff_def)

lemma traces_recorded:
  assumes "tried 5 second (sub_url sub) key body ok t" "stores_nothing t" "\<And>now. da_event (a now) = ty"
    "\<And>now. da_success (a now) = ok"
  shows "traces (do {
       now \<leftarrow> ask E Now as_time;
       crossed \<leftarrow> RecordAttempt ns E i (a now) th;
       (case crossed of
          Inl _ \<Rightarrow> ret ()
        | Inr c \<Rightarrow> if c then do { _ \<leftarrow> DisableSubscription E ns i; ret () } else ret ())
     }) (\<lambda>_ t'. delivery_record ns i sub key ty body (t @ t'))"
proof -
  have fin: "delivery_record ns i sub key ty body (t @ (Now, r) # t1 @ t2)"
    if t12: "silent t1" "changes_entry ns i (recorded (a (as_time r))) t1" "silent t2" "stores_nothing t2" for r t1 t2
  proof (rule tried_record [where a = "a (as_time r)"])
    show "changes_entry ns i (recorded (a (as_time r))) (t @ (Now, r) # t1 @ t2)"
      using changes_entry_around [of "t @ [(Now, r)]" ns i _ t1 t2] t12 assms(2)
      by (simp add: stores_nothing_def)
  qed (use t12 assms in \<open>auto simp: silent_def pause_def\<close>)
  have none: "silent []" "stores_nothing []" by (simp_all add: silent_def stores_nothing_def)
  note fin0 = fin [OF _ _ none, unfolded append_Nil2]
  show ?thesis
    apply (rule traces_ask_bind, rule traces_bind [OF traces_RecordAttempt])
    apply (intro traces_case_sum traces_if traces_ret traces_bind [OF traces_Disable])
    using fin fin0 by auto
qed

text \<open>Every delivery of the production configuration makes at most five attempts, all of the
  same signed body to the subscription's URL, pausing 1, 2, 4 and 8 seconds in between; it stops at
  the first accepted one and gives up only when all pauses were kept; and it records exactly its
  outcome in the state of that one subscription.\<close>

theorem a_delivery_is_bounded_and_recorded:
  "traces (deliverWithRetry (NewDeliverer ns) UP E i sub key ty body) (\<lambda>_ t. delivery_record ns i sub key ty body t)"
  unfolding deliverWithRetry_def NewDeliverer_simps
  by (rule traces_bind [OF traces_conj [OF traces_attempts tried_stores_nothing]])
    (simp, intro traces_case_prod, rule traces_recorded, auto)

section \<open>The history of a subscription\<close>

text \<open>What the state of a subscription says about all attempts so far, oldest first.\<close>

definition failing_run :: "delivery_attempt list \<Rightarrow> nat" where
  "failing_run as = length (takeWhile (\<lambda>a. \<not> da_success a) (rev as))"

definition summary :: "delivery_attempt list \<Rightarrow> subscription_state" where
  "summary as = \<lparr>sbs_failures = int (failing_run as), sbs_history = drop (length as - 20) as\<rparr>"

lemma recorded_summary: "recorded a (summary as) = summary (as @ [a])"
  by (cases "20 \<le> length as")
    (auto simp: recorded_def summary_def failing_run_def maxHistoryPerSubscription_def Let_def drop_append
      simp flip: Suc_diff_le)

lemma failing_run_ge:
  "n \<le> failing_run as \<longleftrightarrow> n \<le> length as \<and> list_all (\<lambda>a. \<not> da_success a) (drop (length as - n) as)"
proof (induction n arbitrary: as)
  case (Suc n)
  show ?case
  proof (cases as rule: rev_cases)
    case (snoc xs x)
    then show ?thesis using Suc [of xs] by (auto simp: failing_run_def)
  qed (simp add: failing_run_def)
qed simp

text \<open>After any attempts, the state kept for a subscription is their summary: the last twenty in
  order, and the length of the run of failures at the end. The subscription reaches the threshold
  of auto-disabling exactly when its last fifteen attempts have all failed.\<close>

theorem subscription_state_summarises_attempts:
  "let s = fold recorded as fresh_subscription
   in s = summary as
      \<and> (defaultAutoDisableThreshold \<le> sbs_failures s
         \<longleftrightarrow> 15 \<le> length as \<and> list_all (\<lambda>a. \<not> da_success a) (drop (length as - 15) as))"
proof -
  have "fold recorded as fresh_subscription = summary as"
    by (induction as rule: rev_induct)
      (simp_all add: recorded_summary, simp add: summary_def fresh_subscription_def failing_run_def)
  then show ?thesis
    using failing_run_ge [of 15 as] by (simp add: summary_def defaultAutoDisableThreshold_def)
qed

text \<open>Auto-disabling rewrites the record of a subscription without the time of its creation.\<close>

lemma disabling_forgets_creation:
  "wh_created (encoded ((decoded r)\<lparr>sub_disabled := True\<rparr>)) = None"
  by (simp add: encoded_def)

section \<open>Passes\<close>

text \<open>C7. In every pass of the deliverer, whatever the cluster, the name service and the receivers
  answer, each post goes to the URL of an enabled subscription listed in that pass, for an event of
  a kind it asked for that the cursor does not cover yet; its owner is an administrator or owns the
  sandbox or shares it, as the sandbox read in that pass says; the body is signed with the
  subscription's non-empty secret; and the call just before it resolved the URL's host, with
  https and with no address of the loopback, link-local, RFC 1918 or unique local ranges among the
  answers, in IPv4, in IPv6 or as IPv4 in IPv6. Other special addresses, such as 0.0.0.0, are not ruled
  out, nor is a connection that resolves the name anew.\<close>

theorem posts_are_warranted:
  assumes "reordering ties" "\<And>e. reordering (arrange e)"
  shows "traces (RunOnce (NewDeliverer ns) UP MJ ties arrange E) (\<lambda>_ t. guarded (post_ok ns UP MJ) [] t)"
  by (rule traces_mono [OF upholds_RunOnce [unfolded upholds_def]])
    (use assms in \<open>auto simp: NewDeliverer_simps pass_ok_def elim: guarded_mono\<close>)

text \<open>C8. A pass moves the cursor only past settled events. A pass that starts from a stored cursor stores a new
  one only when every listed event that the old cursor left open is settled for every listed subscription:
  the delivery was tried to the end, or the event does not apply to the subscription, or the subscription
  has no secret, or its owner was shut out because the sandbox does not admit it or could not be read. The
  new cursor covers all events listed and all those that the old one covered; any other state that is
  stored keeps the cursor. This is less than delivery of every event at least once: a pass that finds no
  cursor stores one without delivering the backlog, a delivery tried to the end may have failed each time,
  and an event that is listed only later, with a time before the cursor, counts as covered.\<close>

theorem the_cursor_moves_past_settled_events:
  assumes "reordering ties" "\<And>e. reordering (arrange e)"
  shows "traces (RunOnce (NewDeliverer ns) UP MJ ties arrange E)
    (\<lambda>_ t. guarded (cursor_ok (NewDeliverer ns) MJ) [] t)"
  by (rule traces_mono [OF upholds_RunOnce [unfolded upholds_def]])
    (use assms in \<open>auto simp: NewDeliverer_simps pass_ok_def elim: guarded_mono\<close>)

text \<open>A cluster with one event, one subscription of an administrator, and a receiver that accepts.\<close>

definition sample_event :: k8s_event where
  "sample_event =
     \<lparr>ke_uid = ''u1'', ke_namespace = ''default'', ke_version = [], ke_kind = ''Sandbox'', ke_object = ''dev'',
      ke_object_namespace = ''default'', ke_reason = ''Running'', ke_message = [], ke_type = ''Normal'',
      ke_first = None, ke_last = Some 7, ke_event_time = None, ke_count = 1, ke_component = []\<rparr>"

definition sample_subscription :: webhook_record where
  "sample_subscription =
     \<lparr>wh_id = ''w1'', wh_user = ''ann'', wh_url = ''https://hooks.example.com/in'', wh_types = [''sandbox.running''],
      wh_sandbox = [], wh_namespace = [], wh_created = None, wh_disabled = False, wh_admin = True\<rparr>"

definition sample_state :: delivery_state where
  "sample_state = \<lparr>ds_cursor = CursorAt 5, ds_seen = [], ds_subs = Map.empty\<rparr>"

fun sample_answer :: "request \<Rightarrow> response" where
  "sample_answer (GetConfigMap ns n) = RConfigMap (state_map ns sample_state ''1'')"
| "sample_answer (UpdateConfigMap cm) = RConfigMap cm"
| "sample_answer (ListEvents ns) = REvents [sample_event]"
| "sample_answer (ListSecrets ns l) =
     RSecrets [\<lparr>sct_name = ''agenttier-webhook-w1'', sct_namespace = ns, sct_labels = Map.empty, sct_owner = None,
       sct_data = [''record'' \<mapsto> SecretWebhook sample_subscription, ''secret'' \<mapsto> SecretText ''s3cret'']\<rparr>]"
| "sample_answer Now = RTime 8"
| "sample_answer (WebCall (LookupIP h)) = RAddresses [[93, 184, 216, 34]]"
| "sample_answer (WebCall (Post u g b)) = RStatus 204"
| "sample_answer q = ROk"

definition sample_cluster :: "unit api" where
  "sample_cluster w q = (sample_answer q, ())"

definition sample_url :: url_parser where
  "sample_url u = Inr (''https'', ''hooks.example.com'')"

definition sample_pass :: "trace" where
  "sample_pass = snd (snd (run_state
     (RunOnce (NewDeliverer ''at'') sample_url (\<lambda>_. ''{}'') id (\<lambda>_. id) sample_cluster) ((), [])))"

lemma sample_address: "address_error h [[93, 184, 216, 34]] = None"
  by (simp add: address_error_def privateOrReservedNetworks_def network_contains_def To4_def mask_byte_def)

lemma sample_attempts:
  "run_state (attempts sample_url sample_cluster u key body (Suc 4) b) ((), l) =
     ((204, None), ((), l @ [(WebCall (LookupIP ''hooks.example.com''), RAddresses [[93, 184, 216, 34]]),
        (WebCall (Post u (signBody key body) body), RStatus 204)]))"
  unfolding attempts.simps
  by (simp add: ValidateDeliveryURL_def deliverOnce_def sample_cluster_def sample_url_def sample_address)

lemma sample_record:
  "\<exists>t. run_state (RecordAttempt ns sample_cluster i a defaultAutoDisableThreshold) ((), l) = (Inr False, ((), l @ t))
       \<and> silent t"
  by (simp add: RecordAttempt_def load_state_eq sample_cluster_def state_in_def state_map_def Let_def save_state_def
      update_state_def sample_state_def recorded_def fresh_subscription_def defaultAutoDisableThreshold_def
      silent_def pause_def)

lemma sample_lists:
  "run_state (LoadCursorState ns sample_cluster) ((), l) =
    (Inr \<lparr>cs_cursor = CursorAt 5, cs_seen = []\<rparr>,
     ((), l @ [(GetConfigMap ns StateConfigMapName, RConfigMap (state_map ns sample_state ''1''))]))"
  by (simp add: LoadCursorState_def load_state_eq sample_cluster_def state_in_def state_map_def sample_state_def)

lemma sample_events:
  "run_state (listNewEvents id sample_cluster \<lparr>cs_cursor = CursorAt 5, cs_seen = []\<rparr>) ((), l) =
    (Inr ([sample_event], \<lparr>cs_cursor = CursorAt 7, cs_seen = [''u1'']\<rparr>, False),
     ((), l @ [(ListEvents [], REvents [sample_event])]))"
  by (simp add: listNewEvents_def cursor_time_def sample_cluster_def sandbox_events_def sample_event_def max_seen_def
      later_def is_new_def uids_at_def Let_def by_time_def)

lemma sample_subscriptions:
  "run_state (ListSubscriptions sample_cluster ns) ((), l) =
    (Inr ([(''w1'', decoded sample_subscription)], [''w1'' \<mapsto> ''s3cret'']),
     ((), l @ [(ListSecrets ns [(''agenttier.io/secret-purpose'', ''webhook-subscription'')],
        sample_answer (ListSecrets ns []))]))"
  by (simp add: ListSubscriptions_def sample_cluster_def add_subscription_def sample_subscription_def secret_text_def)

lemma sample_delivery:
  "\<exists>t. run_state (deliverWithRetry (NewDeliverer ns) sample_url sample_cluster i sub key ty body) ((), l)
       = ((), ((), l @ t)) \<and> sent t = [(sub_url sub, signBody key body, body)]"
proof -
  let ?t = "[(WebCall (LookupIP ''hooks.example.com''), RAddresses [[93, 184, 216, 34]]),
        (WebCall (Post (sub_url sub) (signBody key body) body), RStatus 204)]"
  obtain t where "run_state (RecordAttempt ns sample_cluster i
      \<lparr>da_event = ty, da_time = whole_seconds 8, da_status = 204, da_attempt = 5, da_success = True\<rparr>
      defaultAutoDisableThreshold) ((), l @ ?t @ [(Now, RTime 8)])
      = (Inr False, ((), (l @ ?t @ [(Now, RTime 8)]) @ t))" "silent t"
    using sample_record by blast
  moreover have "sample_cluster () Now = (RTime 8, ())"
    by (simp add: sample_cluster_def)
  ultimately show ?thesis
    using sample_attempts [of "sub_url sub" key body second l]
    by (simp add: deliverWithRetry_def NewDeliverer_simps run_bind silent_def del: attempts.simps)
qed

lemma sample_dispatch:
  "\<exists>t. run_state (dispatchEvent (NewDeliverer ns) sample_url (\<lambda>_. ''{}'') (\<lambda>_. id) sample_cluster
         [(''w1'', decoded sample_subscription)] [''w1'' \<mapsto> ''s3cret''] sample_event) ((), l) = ((), ((), l @ t))
       \<and> sent t = [(''https://hooks.example.com/in'', signBody ''s3cret'' ''{}'', ''{}'')]"
  using sample_delivery [of ns "''w1''" "decoded sample_subscription" "''s3cret''" "''sandbox.running''" "''{}''" l]
  by (simp add: dispatchEvent_def sample_event_def webhookTypeForReason_def eventReasonToWebhookType_def
      dispatch_to_def Matches_def decoded_def sample_subscription_def canAccessSandbox_def)

lemma sample_save:
  "\<exists>t. run_state (SaveCursorState ns sample_cluster n) ((), l) = (Inr (), ((), l @ t)) \<and> sent t = []"
  by (simp add: SaveCursorState_def load_state_eq sample_cluster_def state_in_def state_map_def save_state_def
        update_state_def)

lemma sample_pass_posts: "sent sample_pass = [(''https://hooks.example.com/in'', signBody ''s3cret'' ''{}'', ''{}'')]"
proof -
  let ?l = "[(GetConfigMap ''at'' StateConfigMapName, RConfigMap (state_map ''at'' sample_state ''1'')),
    (ListEvents [], REvents [sample_event]),
    (ListSecrets ''at'' [(''agenttier.io/secret-purpose'', ''webhook-subscription'')], sample_answer (ListSecrets ''at'' []))]"
  obtain t where t: "run_state (dispatchEvent (NewDeliverer ''at'') sample_url (\<lambda>_. ''{}'') (\<lambda>_. id) sample_cluster
         [(''w1'', decoded sample_subscription)] [''w1'' \<mapsto> ''s3cret''] sample_event) ((), ?l) = ((), ((), ?l @ t))"
    "sent t = [(''https://hooks.example.com/in'', signBody ''s3cret'' ''{}'', ''{}'')]"
    using sample_dispatch by blast
  obtain t' where "run_state (SaveCursorState ''at'' sample_cluster \<lparr>cs_cursor = CursorAt 7, cs_seen = [''u1'']\<rparr>)
      ((), ?l @ t) = (Inr (), ((), (?l @ t) @ t'))" "sent t' = []"
    using sample_save by blast
  then show ?thesis
    using t by (simp add: sample_pass_def RunOnce_def NewDeliverer_simps sample_lists sample_events sample_subscriptions
        id_def [symmetric])
qed

lemma reordering_id: "reordering id"
  by (simp add: reordering_def)

theorem posts_are_warranted_witness:
  "sent sample_pass \<noteq> [] \<and> guarded (post_ok ''at'' sample_url (\<lambda>_. ''{}'')) [] sample_pass"
proof
  show "sent sample_pass \<noteq> []" by (simp add: sample_pass_posts)
  show "guarded (post_ok ''at'' sample_url (\<lambda>_. ''{}'')) [] sample_pass"
    using posts_are_warranted [OF reordering_id reordering_id, of "''at''" sample_url "\<lambda>_. ''{}''" sample_cluster]
    unfolding traces_def sample_pass_def by (metis append_Nil)
qed

theorem the_cursor_moves_past_settled_events_witness:
  "sent sample_pass \<noteq> [] \<and> guarded (cursor_ok (NewDeliverer ''at'') (\<lambda>_. ''{}'')) [] sample_pass"
proof
  show "sent sample_pass \<noteq> []" by (simp add: sample_pass_posts)
  show "guarded (cursor_ok (NewDeliverer ''at'') (\<lambda>_. ''{}'')) [] sample_pass"
    using the_cursor_moves_past_settled_events
      [OF reordering_id reordering_id, of "''at''" sample_url "\<lambda>_. ''{}''" sample_cluster]
    unfolding traces_def sample_pass_def by (metis append_Nil)
qed

end
