(* ===== verification/Webhook_Handlers.thy ===== *)
theory Webhook_Handlers
  imports Webhook_Addresses Guards Key_Handlers
begin

text \<open>
  The router's side of webhook subscriptions: their store in Secrets
  (\<open>pkg/router/webhook_store.go\<close>) and the handlers that create, list and delete them and read the
  history of deliveries (\<open>pkg/router/webhook_handlers.go\<close>).
\<close>

section \<open>Addresses as text\<close>

text \<open>\<open>net.IP.String\<close>: dotted decimal, or groups of hexadecimal digits with the first of the longest
  runs of at least two zero groups elided.\<close>

fun show_hex :: "nat \<Rightarrow> string" where
  "show_hex n = (if n < 16 then [hex_digit n] else show_hex (n div 16) @ [hex_digit (n mod 16)])"

declare show_hex.simps [simp del]

fun groups_of :: "ip \<Rightarrow> nat list" where
  "groups_of (a # b # rest) = (a * 256 + b) # groups_of rest"
| "groups_of _ = []"

definition zero_run :: "nat list \<Rightarrow> nat \<Rightarrow> nat" where
  "zero_run gs i = length (takeWhile (\<lambda>g. g = 0) (drop i gs))"

definition longest_zeros :: "nat list \<Rightarrow> nat \<times> nat" where
  "longest_zeros gs =
     fold (\<lambda>i best. if zero_run gs i \<ge> 2 \<and> zero_run gs i > snd best then (i, zero_run gs i) else best)
       [0..<length gs] (0, 0)"

definition ip6_text :: "nat list \<Rightarrow> string" where
  "ip6_text gs =
     (let (i, n) = longest_zeros gs
      in if n = 0 then str_join '':'' (map show_hex gs)
         else str_join '':'' (map show_hex (take i gs)) @ ''::'' @ str_join '':'' (map show_hex (drop (i + n) gs)))"

definition ip_text :: "ip \<Rightarrow> string" where
  "ip_text a =
     (if a = [] then ''<nil>''
      else case To4 a of
        Some b \<Rightarrow> str_join ''.'' (map show_nat b)
      | None \<Rightarrow> if length a = 16 then ip6_text (groups_of a) else ''?'' @ hex_encode a)"

fun url_error_text :: "url_error \<Rightarrow> string" where
  "url_error_text (BadUrl e) = ''invalid url: '' @ e"
| "url_error_text NotHttps = ''url must use https://''"
| "url_error_text NoHost = ''url must have a host''"
| "url_error_text (Unresolved host e) = ''failed to resolve host '' @ show_quoted host @ '': '' @ e"
| "url_error_text (NoAddress host) = ''host '' @ show_quoted host @ '' did not resolve to any address''"
| "url_error_text (Disallowed host a) =
     ''host '' @ show_quoted host @ '' resolves to a disallowed address range ('' @ ip_text a @ '')''"

section \<open>The store\<close>

definition webhookAllowedEventTypes :: "string list" where
  "webhookAllowedEventTypes =
     [''sandbox.creating'', ''sandbox.running'', ''sandbox.stopped'', ''sandbox.error'', ''sandbox.deleting'',
      ''backup.created'', ''backup.pruned'', ''share.granted'', ''share.revoked'',
      ''agent.invoke.started'', ''agent.invoke.completed'', ''agent.invoke.failed'']"

definition validateWebhookEventTypes :: "string list \<Rightarrow> string option" where
  "validateWebhookEventTypes types =
     (if types = [] then Some ''eventTypes must contain at least one event type''
      else map_option (\<lambda>t. ''unknown event type '' @ show_quoted t)
             (find (\<lambda>t. t \<notin> set webhookAllowedEventTypes) types))"

text \<open>The router has its own copy of the check of a URL, the same line by line.\<close>

definition validateWebhookURL :: "url_parser \<Rightarrow> 'w api \<Rightarrow> string \<Rightarrow> ('w, url_error option) kprog" where
  "validateWebhookURL UP E raw = ValidateDeliveryURL UP E raw"

definition newWebhookStore :: "string \<Rightarrow> string" where
  "newWebhookStore namespace = (if namespace = [] then ''agenttier'' else namespace)"

definition generateWebhookSecret :: "'w api \<Rightarrow> ('w, string + string) kprog" where
  "generateWebhookSecret E = do {
     b \<leftarrow> ask E (RandBytes 32) as_bytes;
     ret (case b of
            Inl e \<Rightarrow> Inl (''generate webhook secret: '' @ err_text e)
          | Inr bs \<Rightarrow> Inr (RawURLEncoding bs))
   }"

definition secretNameForWebhookID :: "string \<Rightarrow> string" where
  "secretNameForWebhookID i = ''agenttier-webhook-'' @ i"

definition generateWebhookID :: "'w api \<Rightarrow> ('w, string + string) kprog" where
  "generateWebhookID E = do {
     b \<leftarrow> ask E (RandBytes 16) as_bytes;
     ret (case b of
            Inl e \<Rightarrow> Inl (''generate webhook id: '' @ err_text e)
          | Inr bs \<Rightarrow> Inr (hex_encode bs))
   }"

definition webhook_secret :: "string \<Rightarrow> webhook_record \<Rightarrow> string \<Rightarrow> secret" where
  "webhook_secret ns rec key =
     \<lparr>sct_name = secretNameForWebhookID (wh_id rec), sct_namespace = ns,
      sct_labels = [''agenttier.io/secret-purpose'' \<mapsto> ''webhook-subscription'',
                    ''agenttier.io/webhook-owner'' \<mapsto> SanitizeLabelValue (wh_user rec)],
      sct_owner = None,
      sct_data = [''record'' \<mapsto> SecretWebhook rec, ''secret'' \<mapsto> SecretText key]\<rparr>"

definition CreateSubscription ::
  "string \<Rightarrow> 'w api \<Rightarrow> string \<Rightarrow> webhook_record \<Rightarrow> ('w, string + string \<times> string) kprog" where
  "CreateSubscription ns E userID rec = do {
     i \<leftarrow> generateWebhookID E;
     (case i of
        Inl e \<Rightarrow> ret (Inl e)
      | Inr i \<Rightarrow> do {
          k \<leftarrow> generateWebhookSecret E;
          (case k of
             Inl e \<Rightarrow> ret (Inl e)
           | Inr key \<Rightarrow> do {
               now \<leftarrow> ask E Now as_time;
               c \<leftarrow> ask E (CreateSecret (webhook_secret ns
                       (rec\<lparr>wh_id := i, wh_user := userID, wh_created := Some now\<rparr>) key)) as_unit;
               ret (case c of
                      Inl e \<Rightarrow> Inl (''create webhook secret: '' @ err_text e)
                    | Inr _ \<Rightarrow> Inr (i, key))
             })
        })
   }"

definition record_in_secret :: "secret \<Rightarrow> webhook_record option" where
  "record_in_secret s = (case sct_data s ''record'' of Some (SecretWebhook r) \<Rightarrow> Some r | _ \<Rightarrow> None)"

definition ListForUserWebhooks :: "string \<Rightarrow> 'w api \<Rightarrow> string \<Rightarrow> ('w, string + webhook_record list) kprog" where
  "ListForUserWebhooks ns E userID = do {
     r \<leftarrow> ask E (ListSecrets ns [(''agenttier.io/secret-purpose'', ''webhook-subscription''),
                              (''agenttier.io/webhook-owner'', SanitizeLabelValue userID)]) as_secrets;
     ret (case r of
            Inl e \<Rightarrow> Inl (''list webhook subscriptions: '' @ err_text e)
          | Inr ss \<Rightarrow> Inr (List.map_filter record_in_secret ss))
   }"

text \<open>A secret without a record decodes to the empty one.\<close>

definition empty_webhook :: webhook_record where
  "empty_webhook =
     \<lparr>wh_id = [], wh_user = [], wh_url = [], wh_types = [], wh_sandbox = [], wh_namespace = [],
      wh_created = None, wh_disabled = False, wh_admin = False\<rparr>"

definition is_subscription :: "secret \<Rightarrow> bool" where
  "is_subscription s \<longleftrightarrow> sct_labels s ''agenttier.io/secret-purpose'' = Some ''webhook-subscription''"

definition GetSubscription ::
  "string \<Rightarrow> 'w api \<Rightarrow> string \<Rightarrow> string \<Rightarrow> bool \<Rightarrow> ('w, string + webhook_record) kprog" where
  "GetSubscription ns E i userID admin = do {
     g \<leftarrow> ask E (GetSecret ns (secretNameForWebhookID i)) as_secret;
     ret (case g of
            Inl _ \<Rightarrow> Inl ''webhook subscription not found''
          | Inr s \<Rightarrow>
              if \<not> is_subscription s then Inl ''webhook subscription not found''
              else if sct_data s ''record'' \<noteq> None \<and> record_in_secret s = None
              then Inl ''corrupt webhook record''
              else (let rec = (case record_in_secret s of None \<Rightarrow> empty_webhook | Some r \<Rightarrow> r)
                    in if \<not> admin \<and> wh_user rec \<noteq> userID then Inl ''access denied'' else Inr rec))
   }"

definition DeleteSubscription ::
  "string \<Rightarrow> 'w api \<Rightarrow> string \<Rightarrow> string \<Rightarrow> bool \<Rightarrow> ('w, string + unit) kprog" where
  "DeleteSubscription ns E i userID admin = do {
     g \<leftarrow> ask E (GetSecret ns (secretNameForWebhookID i)) as_secret;
     (case g of
        Inl _ \<Rightarrow> ret (Inl ''webhook subscription not found'')
      | Inr s \<Rightarrow>
          if \<not> is_subscription s then ret (Inl ''webhook subscription not found'')
          else if \<not> admin
               \<and> wh_user (case record_in_secret s of None \<Rightarrow> empty_webhook | Some r \<Rightarrow> r) \<noteq> userID
          then ret (Inl ''access denied'')
          else do {
            d \<leftarrow> ask E (DeleteSecret (sct_namespace s) (sct_name s)) as_unit;
            ret (case d of
                   Inl e \<Rightarrow> Inl (''delete webhook subscription: '' @ err_text e)
                 | Inr _ \<Rightarrow> Inr ())
          })
   }"

section \<open>The handlers\<close>

text \<open>A time that is not set is written as the zero time.\<close>

fun JCreated :: "instant option \<Rightarrow> json" where
  "JCreated None = JText ''0001-01-01T00:00:00Z''"
| "JCreated (Some t) = JTime t"

definition webhookToJSON :: "webhook_record \<Rightarrow> string \<Rightarrow> (string \<times> json) list" where
  "webhookToJSON rec key =
     [(''id'', JText (wh_id rec)), (''url'', JText (wh_url rec)), (''eventTypes'', JTexts (wh_types rec)),
      (''createdAt'', JCreated (wh_created rec)), (''disabled'', JBool (wh_disabled rec))]
     @ omit_empty ''sandboxId'' (wh_sandbox rec)
     @ omit_empty ''namespace'' (wh_namespace rec)
     @ omit_empty ''secret'' key"

record webhook_request =
  wq_url :: string
  wq_types :: "string list"
  wq_sandbox :: string
  wq_namespace :: string

text \<open>The reply that refuses the scope of a subscription, if it is refused.\<close>

definition subscription_refusal ::
  "'w api \<Rightarrow> 'k server \<Rightarrow> claims \<Rightarrow> webhook_request \<Rightarrow> ('w, reply option) kprog" where
  "subscription_refusal E sv cl q =
     (if wq_sandbox q \<noteq> []
      then do {
        r \<leftarrow> getSandboxWithAuthCheck E sv (wq_sandbox q) cl;
        ret (case r of Inl _ \<Rightarrow> Some (respondError 404 ''sandbox not found'') | Inr _ \<Rightarrow> None)
      }
      else if \<not> cl_admin cl
      then ret (Some (respondError 403 ''sandboxId is required for non-admin subscriptions''))
      else ret None)"

definition requested_webhook :: "claims \<Rightarrow> webhook_request \<Rightarrow> webhook_record" where
  "requested_webhook cl q =
     empty_webhook\<lparr>wh_url := wq_url q, wh_types := wq_types q, wh_sandbox := wq_sandbox q,
       wh_namespace := wq_namespace q, wh_admin := cl_admin cl\<rparr>"

definition handleCreateWebhook ::
  "url_parser \<Rightarrow> 'w api \<Rightarrow> 'k server \<Rightarrow> claims option \<Rightarrow> string + webhook_request \<Rightarrow> ('w, reply) kprog" where
  "handleCreateWebhook UP E sv claims body =
     (case claims of
        None \<Rightarrow> ret unauthenticated
      | Some cl \<Rightarrow>
          (case body of
             Inl e \<Rightarrow> ret (respondError 400 (''invalid request body: '' @ e))
           | Inr q \<Rightarrow>
               if wq_url q = [] then ret (respondError 400 ''url is required'')
               else (case validateWebhookEventTypes (wq_types q) of
                 Some e \<Rightarrow> ret (respondError 400 e)
               | None \<Rightarrow> do {
                   v \<leftarrow> validateWebhookURL UP E (wq_url q);
                   (case v of
                      Some e \<Rightarrow> ret (respondError 400 (''invalid url: '' @ url_error_text e))
                    | None \<Rightarrow> do {
                        f \<leftarrow> subscription_refusal E sv cl q;
                        (case f of
                           Some rep \<Rightarrow> ret rep
                         | None \<Rightarrow> do {
                             c \<leftarrow> CreateSubscription (newWebhookStore (sv_install_ns sv)) E (cl_sub cl)
                                   (requested_webhook cl q);
                             (case c of
                                Inl e \<Rightarrow> ret (respondError 500 (''failed to create webhook subscription: '' @ e))
                              | Inr (i, key) \<Rightarrow> do {
                                  tell E (RecordAudit (cl_sub cl) ''webhook.create'' ''webhook'' i);
                                  ret (respondJSON 201 (JObj
                                    (webhookToJSON ((requested_webhook cl q)\<lparr>wh_id := i\<rparr>) key
                                     @ [(''warning'', JText (''Store this secret now '' @ em_dash
                                          @ '' it is shown only once.''))])))
                                })
                           })
                      })
                 })))"

definition handleListWebhooks :: "'w api \<Rightarrow> 'k server \<Rightarrow> claims option \<Rightarrow> ('w, reply) kprog" where
  "handleListWebhooks E sv claims =
     (case claims of
        None \<Rightarrow> ret unauthenticated
      | Some cl \<Rightarrow> do {
          r \<leftarrow> ListForUserWebhooks (newWebhookStore (sv_install_ns sv)) E (cl_sub cl);
          ret (case r of
                 Inl e \<Rightarrow> respondError 500 (''failed to list webhook subscriptions: '' @ e)
               | Inr recs \<Rightarrow> respondJSON 200 (JObj
                   [(''webhooks'', JList (map (\<lambda>rec. JObj (webhookToJSON rec [])) recs))]))
        })"

definition webhook_denied :: "string \<Rightarrow> reply" where
  "webhook_denied e =
     (if e = ''access denied'' then respondError 403 ''you do not own this webhook subscription''
      else respondError 404 e)"

definition handleDeleteWebhook ::
  "'w api \<Rightarrow> 'k server \<Rightarrow> claims option \<Rightarrow> string \<Rightarrow> ('w, reply) kprog" where
  "handleDeleteWebhook E sv claims i =
     (case claims of
        None \<Rightarrow> ret unauthenticated
      | Some cl \<Rightarrow> do {
          d \<leftarrow> DeleteSubscription (newWebhookStore (sv_install_ns sv)) E i (cl_sub cl) (cl_admin cl);
          (case d of
             Inl e \<Rightarrow> ret (webhook_denied e)
           | Inr _ \<Rightarrow> do {
               tell E (RecordAudit (cl_sub cl) ''webhook.delete'' ''webhook'' i);
               ret (respondEmpty 204)
             })
        })"

text \<open>The history is read in the namespace of the installation as configured.\<close>

definition webhookDeliveryHistory ::
  "'w api \<Rightarrow> 'k server \<Rightarrow> string \<Rightarrow> ('w, string + delivery_attempt list) kprog" where
  "webhookDeliveryHistory E sv i = do {
     g \<leftarrow> ask E (GetConfigMap (sv_install_ns sv) StateConfigMapName) as_config_map;
     ret (case g of
            Inl NotFound \<Rightarrow> Inr []
          | Inl e \<Rightarrow> Inl (''get webhook delivery state configmap: '' @ err_text e)
          | Inr cm \<Rightarrow>
              (case cm_data cm ''state'' of
                 None \<Rightarrow> Inr []
               | Some (DeliveryDoc st) \<Rightarrow>
                   Inr (case ds_subs st i of None \<Rightarrow> [] | Some s \<Rightarrow> sbs_history s)
               | Some (MalformedDoc raw) \<Rightarrow>
                   if raw = [] then Inr [] else Inl ''parse webhook delivery state configmap''
               | Some _ \<Rightarrow> Inl ''parse webhook delivery state configmap''))
   }"

definition attempt_json :: "delivery_attempt \<Rightarrow> json" where
  "attempt_json a =
     JObj ([(''eventType'', JText (da_event a)), (''timestamp'', JTime (da_time a))]
       @ (if da_status a = 0 then [] else [(''statusCode'', JInt (int (da_status a)))])
       @ [(''attempt'', JInt (da_attempt a)), (''success'', JBool (da_success a))])"

definition handleGetWebhookDeliveries ::
  "'w api \<Rightarrow> 'k server \<Rightarrow> claims option \<Rightarrow> string \<Rightarrow> ('w, reply) kprog" where
  "handleGetWebhookDeliveries E sv claims i =
     (case claims of
        None \<Rightarrow> ret unauthenticated
      | Some cl \<Rightarrow> do {
          g \<leftarrow> GetSubscription (newWebhookStore (sv_install_ns sv)) E i (cl_sub cl) (cl_admin cl);
          (case g of
             Inl e \<Rightarrow> ret (webhook_denied e)
           | Inr _ \<Rightarrow> do {
               h \<leftarrow> webhookDeliveryHistory E sv i;
               ret (case h of
                      Inl e \<Rightarrow> respondError 500 (''failed to read delivery history: '' @ e)
                    | Inr ds \<Rightarrow> respondJSON 200 (JObj [(''deliveries'', JList (map attempt_json ds))]))
             })
        })"

section \<open>Who may register and remove a subscription\<close>

definition owner_of :: "secret \<Rightarrow> string" where
  "owner_of s = wh_user (case record_in_secret s of None \<Rightarrow> empty_webhook | Some r \<Rightarrow> r)"

text \<open>The record of a new subscription carries the caller's identity and rights, a vocabulary that
  delivery knows, and a sandbox that the API server delivered and the caller owns, unless the
  caller is an administrator; its URL has been checked.\<close>

definition registered_for :: "url_parser \<Rightarrow> claims \<Rightarrow> trace \<Rightarrow> webhook_record \<Rightarrow> bool" where
  "registered_for UP cl pre r \<longleftrightarrow>
     wh_user r = cl_sub cl \<and> wh_admin r = cl_admin cl \<and> \<not> wh_disabled r
     \<and> wh_types r \<noteq> [] \<and> set (wh_types r) \<subseteq> set webhookAllowedEventTypes
     \<and> (wh_sandbox r \<noteq> [] \<and> (\<exists>sb \<in> set (delivered pre). cl_admin cl \<or> owns cl sb)
        \<or> wh_sandbox r = [] \<and> cl_admin cl)
     \<and> (\<exists>t0 t t1. pre = t0 @ t @ t1 \<and> checked UP (wh_url r) t)"

definition may_register :: "url_parser \<Rightarrow> claims option \<Rightarrow> trace \<Rightarrow> request \<Rightarrow> bool" where
  "may_register UP claims pre q =
     (case q of
        CreateSecret s \<Rightarrow>
          (\<exists>cl r. claims = Some cl \<and> record_in_secret s = Some r \<and> is_subscription s \<and> registered_for UP cl pre r)
      | DeleteSecret ns n \<Rightarrow>
          (\<exists>cl s m. claims = Some cl \<and> (m, RSecret s) \<in> set pre \<and> is_subscription s
             \<and> sct_namespace s = ns \<and> sct_name s = n \<and> (cl_admin cl \<or> owner_of s = cl_sub cl))
      | UpdateSecret s \<Rightarrow> False
      | _ \<Rightarrow> True)"

lemma may_register_quiet [simp]:
  "may_register UP cls pre Now" "may_register UP cls pre (RandBytes n)"
  "may_register UP cls pre (GetSecret a b)" "may_register UP cls pre (ListSecrets a l)"
  "may_register UP cls pre (GetConfigMap a b)" "may_register UP cls pre (WebCall w)"
  "may_register UP cls pre (GetSandbox a b)" "may_register UP cls pre (ListSandboxes a)"
  "may_register UP cls pre (RecordAudit a b c d)"
  by (simp_all add: may_register_def)

lemma reads_guarded: "reads_sandboxes t \<Longrightarrow> guarded (may_register UP cls) pre t"
proof (induction t arbitrary: pre)
  case (Cons x t)
  obtain q r where x: "x = (q, r)" by (cases x)
  with Cons show ?case
    by (cases q) (auto simp: reads_sandboxes_def)
qed simp

lemma validated_registers:
  "traces (validateWebhookURL UP E url) (\<lambda>v t. guarded (may_register UP cls) pre t \<and> (v = None \<longrightarrow> checked UP url t))"
  unfolding validateWebhookURL_def ValidateDeliveryURL_def
  by (intro tr) (auto simp: checked_def dest: address_error_None split: sum.splits if_splits)

lemma refusal_registers:
  "traces (subscription_refusal E sv cl q) (\<lambda>f t. guarded (may_register UP cls) pre t
     \<and> (f = None \<longrightarrow> wq_sandbox q \<noteq> [] \<and> (\<exists>sb \<in> set (delivered t). cl_admin cl \<or> owns cl sb)
          \<or> wq_sandbox q = [] \<and> cl_admin cl))"
  unfolding subscription_refusal_def
  by (intro traces_if traces_bind [OF getSandboxWithAuthCheck_traces] traces_ret)
    (auto simp: reads_guarded split: sum.splits)

lemma create_registers:
  assumes "\<And>i now t key. may_register UP cls (pre @ t)
      (CreateSecret (webhook_secret ns (rec\<lparr>wh_id := i, wh_user := u, wh_created := now\<rparr>) key))"
  shows "upholds (may_register UP cls) pre (CreateSubscription ns E u rec)"
  unfolding CreateSubscription_def generateWebhookID_def generateWebhookSecret_def ask_map
  by (intro upholds_ask_bind upholds_ask upholds_case upholds_ret) (use assms in auto)

lemma types_allowed:
  "validateWebhookEventTypes ts = None \<Longrightarrow> ts \<noteq> [] \<and> set ts \<subseteq> set webhookAllowedEventTypes"
  by (auto simp: validateWebhookEventTypes_def find_None_iff split: if_splits)

lemma webhook_secret_simps [simp]:
  "record_in_secret (webhook_secret ns r key) = Some r" "is_subscription (webhook_secret ns r key)"
  by (simp_all add: record_in_secret_def webhook_secret_def is_subscription_def)

lemma requested_registers:
  assumes "validateWebhookEventTypes (wq_types q) = None" "checked UP (wq_url q) t1"
    "wq_sandbox q \<noteq> [] \<and> (\<exists>sb \<in> set (delivered t2). cl_admin cl \<or> owns cl sb) \<or> wq_sandbox q = [] \<and> cl_admin cl"
  shows "may_register UP (Some cl) ((t1 @ t2) @ t) (CreateSecret (webhook_secret ns
      ((requested_webhook cl q)\<lparr>wh_id := i, wh_user := cl_sub cl, wh_created := now\<rparr>) key))"
proof -
  have "\<exists>t0 t' t3. (t1 @ t2) @ t = t0 @ t' @ t3 \<and> checked UP (wq_url q) t'"
    using assms(2) by (intro exI [of _ "[]"] exI [of _ t1] exI [of _ "t2 @ t"]) simp
  then show ?thesis
    using assms(3) types_allowed [OF assms(1)]
    by (auto simp: may_register_def registered_for_def requested_webhook_def empty_webhook_def)
qed

lemma create_webhook_registers: "upholds (may_register UP cls) [] (handleCreateWebhook UP E sv cls body)"
proof (cases cls)
  case (Some cl)
  have finish: "upholds (may_register UP cls) (t1 @ t2) (do {
      c \<leftarrow> CreateSubscription ns E (cl_sub cl) (requested_webhook cl q);
      (case c of
         Inl e \<Rightarrow> ret (f e)
       | Inr (i, key) \<Rightarrow> do { tell E (RecordAudit (cl_sub cl) ''webhook.create'' ''webhook'' i); ret (g i key) })
    })"
    if "validateWebhookEventTypes (wq_types q) = None" "checked UP (wq_url q) t1"
      "wq_sandbox q \<noteq> [] \<and> (\<exists>sb \<in> set (delivered t2). cl_admin cl \<or> owns cl sb) \<or> wq_sandbox q = [] \<and> cl_admin cl"
    for q t1 t2 ns f and g :: "string \<Rightarrow> string \<Rightarrow> reply"
    unfolding Some tell_def
    by (intro upholds_seq create_registers requested_registers that upholds_case upholds_ask_bind upholds_ret) simp_all
  have refuse: "upholds (may_register UP cls) t1 (do {
      f \<leftarrow> subscription_refusal E sv cl q;
      (case f of Some rep \<Rightarrow> ret rep
       | None \<Rightarrow> do {
           c \<leftarrow> CreateSubscription ns E (cl_sub cl) (requested_webhook cl q);
           (case c of
              Inl e \<Rightarrow> ret (fe e)
            | Inr (i, key) \<Rightarrow> do { tell E (RecordAudit (cl_sub cl) ''webhook.create'' ''webhook'' i); ret (g i key) })
         })
    })"
    if "validateWebhookEventTypes (wq_types q) = None" "checked UP (wq_url q) t1"
    for q t1 ns fe and g :: "string \<Rightarrow> string \<Rightarrow> reply"
    by (rule upholds_bind [OF refusal_registers]) (intro upholds_case upholds_ret finish that, simp)
  show ?thesis
    unfolding handleCreateWebhook_def Some option.case
    apply (intro upholds_case upholds_ret upholds_bind [OF validated_registers], unfold append_Nil)
    using refuse [unfolded Some] by simp
qed (simp add: handleCreateWebhook_def)

lemma delete_webhook_registers: "upholds (may_register UP cls) [] (handleDeleteWebhook E sv cls i)"
  unfolding handleDeleteWebhook_def DeleteSubscription_def tell_def owner_of_def [symmetric]
  by (intro upholds_case upholds_ret upholds_ask_bind upholds_ask upholds_seq)
    (auto simp: may_register_def [of _ _ _ "DeleteSecret _ _"])

lemma list_webhook_registers: "upholds (may_register UP cls) [] (handleListWebhooks E sv cls)"
  unfolding handleListWebhooks_def ListForUserWebhooks_def
  by (intro upholds_case upholds_ret upholds_ask_bind upholds_ask upholds_seq) simp_all

lemma deliveries_registers: "upholds (may_register UP cls) [] (handleGetWebhookDeliveries E sv cls i)"
  unfolding handleGetWebhookDeliveries_def GetSubscription_def webhookDeliveryHistory_def
  by (intro upholds_case upholds_ret upholds_ask_bind upholds_ask upholds_seq) simp_all

text \<open>A subscription is registered only for the caller, with the caller's own rights, with known event
  types and a URL that was just checked, and, unless the caller is an administrator, only for a
  sandbox that the API server delivered to its owner; a subscription is deleted only by its owner
  or by an administrator; and no other secret is created, deleted or changed.\<close>

theorem subscriptions_belong_to_their_callers:
  "traces (handleCreateWebhook UP E sv claims body) (\<lambda>_ t. guarded (may_register UP claims) [] t)
   \<and> traces (handleDeleteWebhook E sv claims i) (\<lambda>_ t. guarded (may_register UP claims) [] t)
   \<and> traces (handleListWebhooks E sv claims) (\<lambda>_ t. guarded (may_register UP claims) [] t)
   \<and> traces (handleGetWebhookDeliveries E sv claims i) (\<lambda>_ t. guarded (may_register UP claims) [] t)"
  by (intro conjI; fold upholds_def)
    (rule create_webhook_registers delete_webhook_registers list_webhook_registers deliveries_registers)+

end
