(* ===== verification/Backups.thy ===== *)
theory Backups
  imports Guards Reconciler Key_Handlers
begin

text \<open>
  Backups of workspaces: the scheduler that takes and prunes snapshots
  (\<open>pkg/controller/backup/scheduler.go\<close>) and the router's handlers that list, take, delete and
  restore them (\<open>pkg/router/backup_handlers.go\<close>).
\<close>

section \<open>The scheduler\<close>

definition LabelManaged :: string where "LabelManaged = ''agenttier.io/managed''"
definition LabelSnapshotKind :: string where "LabelSnapshotKind = ''agenttier.io/snapshot-kind''"
definition SnapshotKindBackup :: string where "SnapshotKindBackup = ''scheduled-backup''"
definition LabelSourcePVC :: string where "LabelSourcePVC = ''agenttier.io/source-pvc''"

record scheduler =
  sch_namespace :: string
  sch_retention :: duration
  sch_class :: string

definition backup_name :: "string \<Rightarrow> instant \<Rightarrow> string" where
  "backup_name pvcName now = pvcName @ ''-backup-'' @ show_int (unix_seconds now)"

definition backup_snapshot :: "string \<Rightarrow> string \<Rightarrow> instant \<Rightarrow> string \<Rightarrow> snapshot" where
  "backup_snapshot ns pvcName now cls =
     \<lparr>snap_name = backup_name pvcName now, snap_namespace = ns,
      snap_labels = [LabelSnapshotKind \<mapsto> SnapshotKindBackup, LabelSourcePVC \<mapsto> pvcName, LabelManaged \<mapsto> ''true''],
      snap_pvc = pvcName, snap_class = (if cls = [] then None else Some cls),
      snap_created = None, snap_deleting = False, snap_status = None\<rparr>"

text \<open>The API server answers a creation with the object as stored.\<close>

fun as_created :: "snapshot \<Rightarrow> response \<Rightarrow> api_err + snapshot" where
  "as_created s (RSnapshot s') = Inr s'"
| "as_created s ROk = Inr s"
| "as_created s (RErr e) = Inl e"
| "as_created s _ = Inl bad_response"

fun snapshot_loop :: "scheduler \<Rightarrow> 'w api \<Rightarrow> nat \<Rightarrow> pvc list \<Rightarrow> ('w, nat) kprog" where
  "snapshot_loop sch E count [] = ret count"
| "snapshot_loop sch E count (p # ps) =
     (if pvc_labels p LabelPooled = Some ''true'' then snapshot_loop sch E count ps
      else do {
        now \<leftarrow> ask E Now as_time;
        c \<leftarrow> ask E (CreateSnapshot (backup_snapshot (sch_namespace sch) (pvc_name p) now (sch_class sch))) as_unit;
        (case c of
           Inl _ \<Rightarrow> snapshot_loop sch E count ps
         | Inr _ \<Rightarrow> snapshot_loop sch E (count + 1) ps)
      })"

definition snapshotManagedPVCs :: "scheduler \<Rightarrow> 'w api \<Rightarrow> ('w, string + nat) kprog" where
  "snapshotManagedPVCs sch E = do {
     l \<leftarrow> ask E (ClusterCall (ListPVCs (sch_namespace sch) [(LabelManaged, ''true'')])) as_pvcs;
     (case l of
        Inl e \<Rightarrow> ret (Inl (''list managed PVCs: '' @ err_text e))
      | Inr pvcs \<Rightarrow> do { n \<leftarrow> snapshot_loop sch E 0 pvcs; ret (Inr n) })
   }"

definition is_expired :: "instant \<Rightarrow> snapshot \<Rightarrow> bool" where
  "is_expired cutoff s = (case snap_created s of None \<Rightarrow> False | Some t \<Rightarrow> \<not> t > cutoff)"

fun prune_loop :: "'w api \<Rightarrow> instant \<Rightarrow> nat \<Rightarrow> snapshot list \<Rightarrow> ('w, nat) kprog" where
  "prune_loop E cutoff count [] = ret count"
| "prune_loop E cutoff count (s # ss) =
     (if \<not> is_expired cutoff s then prune_loop E cutoff count ss
      else do {
        d \<leftarrow> ask E (DeleteSnapshot (snap_namespace s) (snap_name s)) as_unit;
        (case d of
           Inl _ \<Rightarrow> prune_loop E cutoff count ss
         | Inr _ \<Rightarrow> prune_loop E cutoff (count + 1) ss)
      })"

definition pruneExpired :: "scheduler \<Rightarrow> 'w api \<Rightarrow> ('w, string + nat) kprog" where
  "pruneExpired sch E = do {
     l \<leftarrow> ask E (ListSnapshots (sch_namespace sch) [(LabelSnapshotKind, SnapshotKindBackup)]) as_snapshots;
     (case l of
        Inl e \<Rightarrow> ret (Inl (''list backup snapshots: '' @ err_text e))
      | Inr snaps \<Rightarrow> do {
          now \<leftarrow> ask E Now as_time;
          n \<leftarrow> prune_loop E (now + wrap64 (- sch_retention sch)) 0 snaps;
          ret (Inr n)
        })
   }"

text \<open>Both halves only log their errors.\<close>

definition backup_pass :: "scheduler \<Rightarrow> 'w api \<Rightarrow> ('w, unit) kprog" where
  "backup_pass sch E = do {
     _ \<leftarrow> snapshotManagedPVCs sch E;
     _ \<leftarrow> pruneExpired sch E;
     ret ()
   }"

section \<open>The handlers\<close>

definition backupSnapshotSourceSandboxLabel :: string where
  "backupSnapshotSourceSandboxLabel = ''agenttier.io/source-sandbox''"

definition snapshotBelongsToSandbox :: "snapshot \<Rightarrow> sandbox \<Rightarrow> bool" where
  "snapshotBelongsToSandbox s sb =
     (if st_pvc (sb_status sb) \<noteq> [] \<and> text_at (snap_labels s) LabelSourcePVC = st_pvc (sb_status sb) then True
      else text_at (snap_labels s) backupSnapshotSourceSandboxLabel = sb_name sb)"

definition backupInfoFromSnapshot :: "snapshot \<Rightarrow> string \<Rightarrow> json" where
  "backupInfoFromSnapshot s kind =
     (let st = snap_status s;
          taken = (case st of None \<Rightarrow> None | Some x \<Rightarrow> sns_created x);
          createdAt = (if taken = None then snap_created s else taken);
          size = (case st of None \<Rightarrow> None | Some x \<Rightarrow> sns_size x)
      in JObj ([(''name'', JText (snap_name s))]
           @ (case createdAt of None \<Rightarrow> [] | Some t \<Rightarrow> [(''createdAt'', JTime (whole_seconds t))])
           @ [(''kind'', JText kind),
              (''readyToUse'', JBool (case st of None \<Rightarrow> False | Some x \<Rightarrow> sns_ready x = Some True))]
           @ (case size of None \<Rightarrow> [] | Some q \<Rightarrow> [(''restoreSize'', JText (q_text q))])))"

definition list_scheduled :: "'w api \<Rightarrow> sandbox \<Rightarrow> ('w, api_err + snapshot list) kprog" where
  "list_scheduled E sb =
     (if st_pvc (sb_status sb) = [] then ret (Inr [])
      else ask E (ListSnapshots (sb_namespace sb)
             [(LabelSnapshotKind, SnapshotKindBackup), (LabelSourcePVC, st_pvc (sb_status sb))]) as_snapshots)"

definition handleListBackups :: "'w api \<Rightarrow> 'k server \<Rightarrow> claims option \<Rightarrow> string \<Rightarrow> ('w, reply) kprog" where
  "handleListBackups E sv claims sandboxID =
     (case claims of
        None \<Rightarrow> ret unauthenticated
      | Some cl \<Rightarrow> do {
          r \<leftarrow> getSandboxWithAuthCheck E sv sandboxID cl;
          (case r of
             Inl e \<Rightarrow> ret (respondError 404 e)
           | Inr sb \<Rightarrow> do {
               l \<leftarrow> list_scheduled E sb;
               (case l of
                  Inl e \<Rightarrow> ret (respondError 500 (''failed to list backup snapshots: '' @ err_text e))
                | Inr scheduled \<Rightarrow> do {
                    c \<leftarrow> ask E (ListSnapshots (sb_namespace sb)
                               [(backupSnapshotSourceSandboxLabel, sb_name sb)]) as_snapshots;
                    ret (case c of
                           Inl e \<Rightarrow> respondError 500 (''failed to list clone snapshots: '' @ err_text e)
                         | Inr clones \<Rightarrow> respondJSON 200 (JObj [(''backups'', JList
                             (map (\<lambda>s. backupInfoFromSnapshot s SnapshotKindBackup) scheduled
                              @ map (\<lambda>s. backupInfoFromSnapshot s ''clone'') clones))]))
                  })
             })
        })"

text \<open>The optional body of a request for a backup is the class of the snapshot.\<close>

definition handleCreateBackup ::
  "'w api \<Rightarrow> 'k server \<Rightarrow> claims option \<Rightarrow> string \<Rightarrow> (string + string) option \<Rightarrow> ('w, reply) kprog" where
  "handleCreateBackup E sv claims sandboxID body =
     (case claims of
        None \<Rightarrow> ret unauthenticated
      | Some cl \<Rightarrow> do {
          r \<leftarrow> getSandboxWithAuthCheck E sv sandboxID cl;
          (case r of
             Inl e \<Rightarrow> ret (respondError 404 e)
           | Inr sb \<Rightarrow>
               if st_pvc (sb_status sb) = []
               then ret (respondError 400 (''sandbox '' @ sb_name sb
                      @ '' has no PVC to back up (phase='' @ phase_text (sb_phase sb) @ '')''))
               else (case (case body of None \<Rightarrow> Inr [] | Some b \<Rightarrow> b) of
                 Inl e \<Rightarrow> ret (respondError 400 (''invalid request body: '' @ e))
               | Inr snapshotClass \<Rightarrow> do {
                   now \<leftarrow> ask E Now as_time;
                   let sn = backup_snapshot (sb_namespace sb) (st_pvc (sb_status sb)) now snapshotClass;
                   c \<leftarrow> ask E (CreateSnapshot sn) (as_created sn);
                   (case c of
                      Inl e \<Rightarrow> ret (respondError 500 (''failed to create backup snapshot: '' @ err_text e))
                    | Inr s \<Rightarrow> do {
                        tell E (RecordAudit (cl_sub cl) ''backup.create'' ''sandbox'' (sb_name sb));
                        emitSandboxEvent E sb ''Normal'' ''BackupCreated'' (snap_name s);
                        ret (respondJSON 201 (backupInfoFromSnapshot s SnapshotKindBackup))
                      })
                 }))
        })"

definition handleDeleteBackup ::
  "'w api \<Rightarrow> 'k server \<Rightarrow> claims option \<Rightarrow> string \<Rightarrow> string \<Rightarrow> ('w, reply) kprog" where
  "handleDeleteBackup E sv claims sandboxID snapshotName =
     (case claims of
        None \<Rightarrow> ret unauthenticated
      | Some cl \<Rightarrow> do {
          r \<leftarrow> getSandboxWithAuthCheck E sv sandboxID cl;
          (case r of
             Inl e \<Rightarrow> ret (respondError 404 e)
           | Inr sb \<Rightarrow> do {
               g \<leftarrow> ask E (GetSnapshot (sb_namespace sb) snapshotName) as_snapshot;
               (case g of
                  Inl e \<Rightarrow> ret (if e = NotFound then respondError 404 ''snapshot not found''
                                else respondError 500 (''failed to look up snapshot: '' @ err_text e))
                | Inr s \<Rightarrow>
                    if \<not> snapshotBelongsToSandbox s sb then ret (respondError 404 ''snapshot not found'')
                    else do {
                      d \<leftarrow> ask E (DeleteSnapshot (snap_namespace s) (snap_name s)) as_unit;
                      (case d of
                         Inl e \<Rightarrow> ret (if e = NotFound then respondError 404 ''snapshot not found''
                                       else respondError 500 (''failed to delete snapshot: '' @ err_text e))
                       | Inr _ \<Rightarrow> do {
                           tell E (RecordAudit (cl_sub cl) ''backup.delete'' ''sandbox'' (sb_name sb));
                           emitSandboxEvent E sb ''Normal'' ''BackupPruned'' snapshotName;
                           ret (respondJSON 200 (JObj [(''status'', JText ''deleted''),
                                                      (''name'', JText snapshotName)]))
                         })
                    })
             })
        })"

definition restored_sandbox :: "sandbox \<Rightarrow> claims \<Rightarrow> string \<Rightarrow> string \<Rightarrow> sandbox" where
  "restored_sandbox source cl restoreName snapshotName =
     (new_sandbox (sb_namespace source) restoreName
        ((sb_spec source)\<lparr>spec_clone_from := snapshotName, spec_created_by := Some (identity_of cl)\<rparr>))
       \<lparr>sb_labels := [''agenttier.io/restored-from'' \<mapsto> sb_name source]\<rparr>"

text \<open>The restore once snapshot and name are settled.\<close>

definition restore_from ::
  "(string \<Rightarrow> quantity option) \<Rightarrow> 'w api \<Rightarrow> claims \<Rightarrow> sandbox \<Rightarrow> string \<Rightarrow> string \<Rightarrow> ('w, reply) kprog" where
  "restore_from PQ E cl source restoreName snapshotName =
     (let restore = restored_sandbox source cl restoreName snapshotName
      in do {
        refusal \<leftarrow> governance_refusal PQ E cl (sb_namespace source) restore;
        (case refusal of
           Some rep \<Rightarrow> ret rep
         | None \<Rightarrow> do {
             c \<leftarrow> ask E (CreateSandbox restore) as_sandbox;
             (case c of
                Inl e \<Rightarrow> ret (respondError 500 (''failed to create restored sandbox: '' @ err_text e))
              | Inr stored \<Rightarrow> do {
                  tell E (RecordAudit (cl_sub cl) ''backup.restore'' ''sandbox'' restoreName);
                  ret (respondJSON 202 (JObj
                    [(''name'', JText restoreName), (''namespace'', JText (sb_namespace stored)),
                     (''restoredFrom'', JText (sb_name source)), (''snapshot'', JText snapshotName),
                     (''phase'', JText ''Pending''),
                     (''message'', JText (''Restore in progress. Poll GET /api/v1/sandboxes/'' @ restoreName
                        @ '' for status.''))]))
                })
           })
      })"

definition handleRestoreBackup ::
  "(string \<Rightarrow> quantity option) \<Rightarrow> 'w api \<Rightarrow> 'k server \<Rightarrow> claims option \<Rightarrow> string \<Rightarrow> string
   \<Rightarrow> (string + string) option \<Rightarrow> ('w, reply) kprog" where
  "handleRestoreBackup PQ E sv claims sandboxID snapshotName body =
     (case claims of
        None \<Rightarrow> ret unauthenticated
      | Some cl \<Rightarrow> do {
          r \<leftarrow> getSandboxWithAuthCheck E sv sandboxID cl;
          (case r of
             Inl e \<Rightarrow> ret (respondError 404 e)
           | Inr source \<Rightarrow> do {
               g \<leftarrow> ask E (GetSnapshot (sb_namespace source) snapshotName) as_snapshot;
               (case g of
                  Inl e \<Rightarrow> ret (if e = NotFound then respondError 404 ''snapshot not found (it may have been pruned)''
                                else respondError 500 (''failed to look up snapshot: '' @ err_text e))
                | Inr s \<Rightarrow>
                    if snap_deleting s then ret (respondError 409 ''snapshot is being deleted'')
                    else if \<not> snapshotBelongsToSandbox s source
                    then ret (respondError 404 ''snapshot not found (it may have been pruned)'')
                    else (case (case body of None \<Rightarrow> Inr [] | Some b \<Rightarrow> b) of
                      Inl e \<Rightarrow> ret (respondError 400 (''invalid request body: '' @ e))
                    | Inr name \<Rightarrow> do {
                        restoreName \<leftarrow>
                          (if name \<noteq> [] then ret name
                           else do {
                             now \<leftarrow> ask E Now as_time;
                             ret (sb_name source @ ''-restore-'' @ show_int (unix_seconds now))
                           });
                        if \<not> validSandboxName restoreName
                        then ret (respondError 400 ''name must match RFC 1123 label rules: lowercase alphanumeric or '-', start/end alphanumeric, max 63 chars'')
                        else restore_from PQ E cl source restoreName snapshotName
                      }))
             })
        })"

section \<open>What a backup pass does\<close>

text \<open>The snapshots that a trace asks for and deletes, and the claims and snapshots listed in it.\<close>

definition made_by :: "request \<times> response \<Rightarrow> snapshot list" where
  "made_by x = (case fst x of CreateSnapshot s \<Rightarrow> [s] | _ \<Rightarrow> [])"

definition dropped_by :: "request \<times> response \<Rightarrow> (string \<times> string) list" where
  "dropped_by x = (case fst x of DeleteSnapshot ns n \<Rightarrow> [(ns, n)] | _ \<Rightarrow> [])"

definition claims_in :: "request \<times> response \<Rightarrow> pvc list" where
  "claims_in x = (case x of (ClusterCall (ListPVCs ns l), RPVCs ps) \<Rightarrow> ps | _ \<Rightarrow> [])"

definition snapshots_in :: "request \<times> response \<Rightarrow> snapshot list" where
  "snapshots_in x = (case x of (ListSnapshots ns l, RSnapshots ss) \<Rightarrow> ss | _ \<Rightarrow> [])"

fun all_of :: "(request \<times> response \<Rightarrow> 'a list) \<Rightarrow> trace \<Rightarrow> 'a list" where
  "all_of f [] = []"
| "all_of f (x # t) = f x @ all_of f t"

lemma all_of_append [simp]: "all_of f (t @ t') = all_of f t @ all_of f t'"
  by (induction t) auto

lemma of_calls [simp]:
  "made_by (Now, r) = []" "dropped_by (Now, r) = []" "claims_in (Now, r) = []" "snapshots_in (Now, r) = []"
  "made_by (CreateSnapshot s, r) = [s]" "dropped_by (CreateSnapshot s, r) = []"
  "claims_in (CreateSnapshot s, r) = []" "snapshots_in (CreateSnapshot s, r) = []"
  "made_by (DeleteSnapshot ns n, r) = []" "dropped_by (DeleteSnapshot ns n, r) = [(ns, n)]"
  "claims_in (DeleteSnapshot ns n, r) = []" "snapshots_in (DeleteSnapshot ns n, r) = []"
  "made_by (ListSnapshots ns l, r) = []" "dropped_by (ListSnapshots ns l, r) = []"
  "claims_in (ListSnapshots ns l, r) = []"
  "made_by (ClusterCall c, r) = []" "dropped_by (ClusterCall c, r) = []" "snapshots_in (ClusterCall c, r) = []"
  by (simp_all add: made_by_def dropped_by_def claims_in_def snapshots_in_def)

lemma of_lists [simp]:
  "as_pvcs r = Inl e \<Longrightarrow> claims_in (ClusterCall (ListPVCs ns l), r) = []"
  "claims_in (ClusterCall (ListPVCs ns l), RPVCs ps) = ps"
  "as_snapshots r = Inl e \<Longrightarrow> snapshots_in (ListSnapshots ns l, r) = []"
  "snapshots_in (ListSnapshots ns l, RSnapshots ss) = ss"
  by (cases r; simp add: claims_in_def snapshots_in_def)+

definition unpooled :: "pvc \<Rightarrow> bool" where
  "unpooled p \<longleftrightarrow> pvc_labels p LabelPooled \<noteq> Some ''true''"

definition is_backup_of :: "scheduler \<Rightarrow> snapshot \<Rightarrow> pvc \<Rightarrow> bool" where
  "is_backup_of sch s p \<longleftrightarrow>
     snap_namespace s = sch_namespace sch \<and> snap_pvc s = pvc_name p
     \<and> snap_labels s LabelSnapshotKind = Some SnapshotKindBackup \<and> snap_labels s LabelSourcePVC = Some (pvc_name p)"

text \<open>\<open>backed_up sch ps t\<close>: one backup of each of \<open>ps\<close> that is not pooled, in order, and nothing deleted.\<close>

definition backed_up :: "scheduler \<Rightarrow> pvc list \<Rightarrow> trace \<Rightarrow> bool" where
  "backed_up sch ps t \<longleftrightarrow>
     list_all2 (is_backup_of sch) (all_of made_by t) (filter unpooled ps)
     \<and> all_of dropped_by t = [] \<and> all_of snapshots_in t = [] \<and> all_of claims_in t = []"

lemma one_backup:
  "is_backup_of sch (backup_snapshot (sch_namespace sch) (pvc_name p) now cls) p"
  by (simp add: is_backup_of_def backup_snapshot_def LabelManaged_def LabelSnapshotKind_def LabelSourcePVC_def)

lemma backed_up_Cons:
  "unpooled p \<Longrightarrow> backed_up sch ps t
     \<Longrightarrow> backed_up sch (p # ps)
           ((Now, r) # (CreateSnapshot (backup_snapshot (sch_namespace sch) (pvc_name p) now cls), r') # t)"
  by (simp add: backed_up_def one_backup)

lemma snapshot_loop_traces: "traces (snapshot_loop sch E n ps) (\<lambda>_ t. backed_up sch ps t)"
proof (induction ps arbitrary: n)
  case Nil
  then show ?case by (auto simp: backed_up_def intro: traces_ret)
next
  case (Cons p ps)
  show ?case
    unfolding snapshot_loop.simps
  proof (intro traces_if traces_ask_bind traces_case_sum)
    show "traces (snapshot_loop sch E n ps) (\<lambda>_ t. backed_up sch (p # ps) t)"
      if "pvc_labels p LabelPooled = Some ''true''"
      using Cons.IH that by (simp add: backed_up_def unpooled_def)
  qed (rule traces_mono [OF Cons.IH], rule backed_up_Cons, simp add: unpooled_def, assumption)+
qed

lemma prune_loop_traces:
  "traces (prune_loop E cutoff n ss) (\<lambda>_ t. all_of made_by t = [] \<and> all_of claims_in t = [] \<and> all_of snapshots_in t = []
     \<and> all_of dropped_by t = map (\<lambda>s. (snap_namespace s, snap_name s)) (filter (is_expired cutoff) ss))"
proof (induction ss arbitrary: n)
  case Nil
  then show ?case by (auto intro: traces_ret)
next
  case (Cons s ss)
  show ?case
    unfolding prune_loop.simps
    by (intro traces_if traces_ask_bind traces_case_sum; (rule traces_mono [OF Cons.IH])?)
      auto
qed

text \<open>The cut-off of a pass is a reading of the clock less the retention.\<close>

definition pass_record :: "scheduler \<Rightarrow> trace \<Rightarrow> bool" where
  "pass_record sch t \<longleftrightarrow>
     list_all2 (is_backup_of sch) (all_of made_by t) (filter unpooled (all_of claims_in t))
     \<and> (\<exists>r. ((Now, r) \<in> set t \<or> all_of snapshots_in t = [])
          \<and> all_of dropped_by t = map (\<lambda>s. (snap_namespace s, snap_name s))
               (filter (is_expired (as_time r + wrap64 (- sch_retention sch))) (all_of snapshots_in t)))"

definition half_backed :: "scheduler \<Rightarrow> trace \<Rightarrow> bool" where
  "half_backed sch t \<longleftrightarrow>
     list_all2 (is_backup_of sch) (all_of made_by t) (filter unpooled (all_of claims_in t))
     \<and> all_of dropped_by t = [] \<and> all_of snapshots_in t = []"

lemma snapshotManagedPVCs_traces: "traces (snapshotManagedPVCs sch E) (\<lambda>_ t. half_backed sch t)"
proof -
  have loop: "traces (snapshot_loop sch E 0 ps) (\<lambda>_ t. half_backed sch ((ClusterCall (ListPVCs ns l), RPVCs ps) # t))"
    for ps ns l
    by (rule traces_mono [OF snapshot_loop_traces])
      (auto simp: half_backed_def backed_up_def)
  show ?thesis
    unfolding snapshotManagedPVCs_def
    by (intro traces_ask_bind traces_case_sum traces_ret traces_bind [OF loop])
      (auto simp: half_backed_def)
qed

text \<open>In every backup pass, each listed claim that is not marked as pooled gets exactly one snapshot,
  labelled as a scheduled backup of that claim, in order and whatever else fails; and the listed
  backups that are deleted are exactly those of known age that were created no later than the
  clock reading less the retention.\<close>

theorem a_backup_pass_is_exact: "traces (backup_pass sch E) (\<lambda>_ t. pass_record sch t)"
proof -
  have loop: "traces (prune_loop E (as_time r + wrap64 (- sch_retention sch)) 0 ss)
      (\<lambda>_ t'. pass_record sch (t @ (ListSnapshots ns l, RSnapshots ss) # (Now, r) # t'))"
    if "half_backed sch t" for r ss t ns l
    by (rule traces_mono [OF prune_loop_traces])
      (use that in \<open>auto simp: pass_record_def half_backed_def intro!: exI [of _ r]\<close>)
  have failed: "pass_record sch (t @ [(ListSnapshots ns l, r)])" if "half_backed sch t" "as_snapshots r = Inl e" for t ns l r e
    using that by (auto simp: pass_record_def half_backed_def)
  show ?thesis
    unfolding backup_pass_def pruneExpired_def
    apply (rule traces_bind [OF snapshotManagedPVCs_traces])
    apply (rule traces_bind [where P = "\<lambda>_ t'. pass_record sch (_ @ t')"])
     apply (intro traces_ask_bind traces_case_sum traces_ret)
      apply (rule failed, assumption+)
     apply (rule traces_bind, rule loop, assumption)
     apply (intro traces_ret)
     apply simp
    apply (intro traces_ret)
    apply simp
    done
qed

text \<open>A sandbox that started from the warm pool keeps the volume of the pool pod. Its claim loses the
  pool's labels but never gets the label by which the scheduler finds the claims of sandboxes.\<close>

lemma adopted_claim_is_not_backed_up:
  "traces (adopt_pvc E sb n) (\<lambda>_ t. \<forall>p r. (UpdatePVC p, r) \<in> set t \<longrightarrow>
     (\<forall>ns tpl size PQ. (GetPVC (sb_namespace sb) n, RPVC (pool_pvc PQ ns n tpl size)) \<in> set t
        \<longrightarrow> pvc_labels p LabelManaged = None))"
  unfolding adopt_pvc_def Let_def
  by (intro tr) (auto simp: pool_pvc_def LabelPooled_def LabelTemplate_def LabelManaged_def)

section \<open>Whose backups a handler touches\<close>

text \<open>The policy check before a creation: the policy of the namespace could not be read or sets no
  limit, or the new sandbox breaks no rule of it against the sandboxes listed.\<close>

definition cleared :: "(string \<Rightarrow> quantity option) \<Rightarrow> 'w api \<Rightarrow> claims \<Rightarrow> sandbox \<Rightarrow> trace \<Rightarrow> bool" where
  "cleared PQ E cl x pre \<longleftrightarrow>
     (\<exists>s. case fst (run_state (ResolvePolicy E (sb_namespace x)) s) of
            Inl _ \<Rightarrow> True
          | Inr p \<Rightarrow> IsEmpty p
              \<or> (\<exists>items. (ListSandboxes (sb_namespace x), RSandboxes items) \<in> set pre
                   \<and> Check PQ p (CountUsage items (cl_sub cl)) x = []))"

definition may_touch :: "(string \<Rightarrow> quantity option) \<Rightarrow> 'w api \<Rightarrow> claims option \<Rightarrow> trace \<Rightarrow> request \<Rightarrow> bool" where
  "may_touch PQ E claims pre q \<longleftrightarrow>
     (case q of
        CreateSnapshot s \<Rightarrow>
          (\<exists>cl sb. claims = Some cl \<and> sb \<in> set (delivered pre) \<and> (cl_admin cl \<or> owns cl sb)
             \<and> snap_namespace s = sb_namespace sb \<and> snap_pvc s = st_pvc (sb_status sb) \<and> snap_pvc s \<noteq> [])
      | DeleteSnapshot ns n \<Rightarrow>
          (\<exists>cl sb s m. claims = Some cl \<and> sb \<in> set (delivered pre) \<and> (cl_admin cl \<or> owns cl sb)
             \<and> (GetSnapshot (sb_namespace sb) m, RSnapshot s) \<in> set pre \<and> snapshotBelongsToSandbox s sb
             \<and> ns = snap_namespace s \<and> n = snap_name s)
      | CreateSandbox x \<Rightarrow>
          (\<exists>cl sb s m. claims = Some cl \<and> sb \<in> set (delivered pre) \<and> (cl_admin cl \<or> owns cl sb)
             \<and> (GetSnapshot (sb_namespace sb) m, RSnapshot s) \<in> set pre \<and> snapshotBelongsToSandbox s sb
             \<and> \<not> snap_deleting s \<and> x = restored_sandbox sb cl (sb_name x) m \<and> validSandboxName (sb_name x)
             \<and> cleared PQ E cl x pre)
      | UpdateSandbox _ \<Rightarrow> False
      | UpdateSandboxStatus _ \<Rightarrow> False
      | DeleteSandbox _ _ \<Rightarrow> False
      | _ \<Rightarrow> True)"

lemma may_touch_quiet [simp]:
  "may_touch PQ E cls pre Now" "may_touch PQ E cls pre (GetSandbox a b)" "may_touch PQ E cls pre (ListSandboxes a)"
  "may_touch PQ E cls pre (GetSnapshot a b)" "may_touch PQ E cls pre (ListSnapshots a l)"
  "may_touch PQ E cls pre (GetConfigMap a b)" "may_touch PQ E cls pre (RecordAudit a b c d)"
  "may_touch PQ E cls pre (CreateEvent e)"
  by (simp_all add: may_touch_def)

lemma reads_touch: "reads_sandboxes t \<Longrightarrow> guarded (may_touch PQ E cls) pre t"
proof (induction t arbitrary: pre)
  case (Cons x t)
  obtain q r where x: "x = (q, r)" by (cases x)
  with Cons show ?case
    by (cases q) (auto simp: reads_sandboxes_def)
qed simp

lemma upholds_found:
  assumes "\<And>sb t. sb \<in> set (delivered t) \<Longrightarrow> cl_admin cl \<or> owns cl sb \<Longrightarrow> upholds (may_touch PQ E (Some cl)) t (g sb)"
    "\<And>e t. upholds (may_touch PQ E (Some cl)) t (f e)"
  shows "upholds (may_touch PQ E (Some cl)) [] (do {
      r \<leftarrow> getSandboxWithAuthCheck E sv i cl;
      (case r of Inl e \<Rightarrow> f e | Inr sb \<Rightarrow> g sb)
    })"
  by (rule upholds_bind [OF traces_mono [OF getSandboxWithAuthCheck_traces],
        where P = "\<lambda>r t. \<forall>sb. r = Inr sb \<longrightarrow> sb \<in> set (delivered t) \<and> (cl_admin cl \<or> owns cl sb)"])
    (auto intro: reads_touch upholds_case assms split: sum.split)

lemma upholds_event: "upholds (may_touch PQ E cls) pre (emitSandboxEvent E sb a b c)"
  unfolding emitSandboxEvent_def tell_def by (intro upholds_ask_bind upholds_ask) simp_all

lemmas touch_rules = upholds_case upholds_ret upholds_ask_bind upholds_ask upholds_event

lemma list_backups_touch: "upholds (may_touch PQ E cls) [] (handleListBackups E sv cls i)"
proof (cases cls)
  case (Some cl)
  show ?thesis
    unfolding handleListBackups_def Some option.case list_scheduled_def
    by (intro upholds_found upholds_seq touch_rules) simp_all
qed (simp add: handleListBackups_def)

lemma create_backup_touch: "upholds (may_touch PQ E cls) [] (handleCreateBackup E sv cls i body)"
proof (cases cls)
  case (Some cl)
  show ?thesis
    unfolding handleCreateBackup_def Some option.case tell_def Let_def
    by (intro upholds_found touch_rules upholds_seq)
      (auto simp: may_touch_def [of _ _ _ _ "CreateSnapshot _"] backup_snapshot_def)
qed (simp add: handleCreateBackup_def)

lemma delete_backup_touch: "upholds (may_touch PQ E cls) [] (handleDeleteBackup E sv cls i n)"
proof (cases cls)
  case (Some cl)
  have del: "may_touch PQ E (Some cl) (t @ [(GetSnapshot (sb_namespace sb) n, r)])
      (DeleteSnapshot (snap_namespace s) (snap_name s))"
    if "sb \<in> set (delivered t)" "cl_admin cl \<or> owns cl sb" "as_snapshot r = Inr s" "snapshotBelongsToSandbox s sb"
    for sb t r s
    using that by (auto simp: may_touch_def)
  show ?thesis
    unfolding handleDeleteBackup_def Some option.case tell_def Let_def
    by (intro upholds_found touch_rules upholds_seq del) simp_all
qed (simp add: handleDeleteBackup_def)

text \<open>The result of a program is one of its results.\<close>

lemma traces_result: "traces m P \<Longrightarrow> traces m (\<lambda>r t. P r t \<and> (\<exists>s. r = fst (run_state m s)))"
  unfolding traces_def by blast

definition reads_only :: "trace \<Rightarrow> bool" where
  "reads_only t \<longleftrightarrow> (\<forall>x \<in> set t. case fst x of GetConfigMap _ _ \<Rightarrow> True | ListSandboxes _ \<Rightarrow> True | _ \<Rightarrow> False)"

lemma reads_only_touch: "reads_only t \<Longrightarrow> guarded (may_touch PQ E cls) pre t"
proof (induction t arbitrary: pre)
  case (Cons x t)
  obtain q r where x: "x = (q, r)" by (cases x)
  with Cons show ?case
    by (cases q) (auto simp: reads_only_def)
qed simp

lemma ResolvePolicy_reads: "traces (ResolvePolicy E ns) (\<lambda>_ t. reads_only t)"
proof -
  have get: "traces (GetPolicy E x) (\<lambda>_ t. reads_only t)" for x
    unfolding GetPolicy_def load_def ask_map by (intro tr) (auto simp: reads_only_def)
  show ?thesis
    unfolding ResolvePolicy_def
    by (intro traces_bind [OF get] traces_case_sum traces_if traces_ret) (auto simp: reads_only_def)
qed

lemma clearedI:
  "Inl e = fst (run_state (ResolvePolicy E (sb_namespace x)) s) \<Longrightarrow> cleared PQ E cl x t"
  "Inr p = fst (run_state (ResolvePolicy E (sb_namespace x)) s) \<Longrightarrow> IsEmpty p \<Longrightarrow> cleared PQ E cl x t"
  "Inr p = fst (run_state (ResolvePolicy E (sb_namespace x)) s)
     \<Longrightarrow> (ListSandboxes (sb_namespace x), RSandboxes items) \<in> set t
     \<Longrightarrow> Check PQ p (CountUsage items (cl_sub cl)) x = [] \<Longrightarrow> cleared PQ E cl x t"
  unfolding cleared_def by (rule exI [of _ s], force split: sum.split)+

lemma refusal_cleared:
  "traces (governance_refusal PQ E cl (sb_namespace x) x) (\<lambda>f t. reads_only t \<and> (f = None \<longrightarrow> cleared PQ E cl x t))"
  unfolding governance_refusal_def
  apply (rule traces_bind [OF traces_result [OF ResolvePolicy_reads]])
  apply (intro traces_case_sum traces_if traces_ask_bind traces_ret)
    apply (auto simp: reads_only_def Let_def split: sum.splits if_splits intro: clearedI)
  done

lemma cleared_append [simp]: "cleared PQ E cl x t \<Longrightarrow> cleared PQ E cl x (pre @ t)"
  unfolding cleared_def by (auto split: sum.splits) blast

lemma restored_simps [simp]:
  "sb_namespace (restored_sandbox sb cl n m) = sb_namespace sb" "sb_name (restored_sandbox sb cl n m) = n"
  by (simp_all add: restored_sandbox_def new_sandbox_def)

lemma restore_touch:
  assumes "sb \<in> set (delivered pre)" "cl_admin cl \<or> owns cl sb"
    "(GetSnapshot (sb_namespace sb) m, RSnapshot s) \<in> set pre" "snapshotBelongsToSandbox s sb" "\<not> snap_deleting s"
    "validSandboxName n"
  shows "upholds (may_touch PQ E (Some cl)) pre (restore_from PQ E cl sb n m)"
proof -
  have create: "may_touch PQ E (Some cl) (pre @ t) (CreateSandbox (restored_sandbox sb cl n m))"
    if "cleared PQ E cl (restored_sandbox sb cl n m) t" for t
    using assms that by (auto simp: may_touch_def)
  have check: "traces (governance_refusal PQ E cl (sb_namespace sb) (restored_sandbox sb cl n m))
      (\<lambda>f t. guarded (may_touch PQ E (Some cl)) pre t \<and> (f = None \<longrightarrow> cleared PQ E cl (restored_sandbox sb cl n m) t))"
    by (rule traces_mono [OF refusal_cleared [where x = "restored_sandbox sb cl n m", simplified]])
      (simp add: reads_only_touch)
  show ?thesis
    unfolding restore_from_def Let_def tell_def
    by (rule upholds_bind [OF check]) (intro touch_rules create; simp)
qed

lemma restore_backup_touch: "upholds (may_touch PQ E cls) [] (handleRestoreBackup PQ E sv cls i m body)"
proof (cases cls)
  case (Some cl)
  have named: "upholds (may_touch PQ E (Some cl)) (t @ [(GetSnapshot (sb_namespace sb) m, r)]) (do {
      n \<leftarrow> (if name \<noteq> [] then ret name else do { now \<leftarrow> ask E Now as_time; ret (f now) });
      if \<not> validSandboxName n then ret rep else restore_from PQ E cl sb n m
    })"
    if "sb \<in> set (delivered t)" "cl_admin cl \<or> owns cl sb" "as_snapshot r = Inr s" "snapshotBelongsToSandbox s sb"
      "\<not> snap_deleting s" for sb t r s name f rep
    by (intro upholds_seq touch_rules restore_touch [where s = s]) (use that in auto)
  show ?thesis
    unfolding handleRestoreBackup_def Some option.case
    by (intro upholds_found touch_rules named) simp_all
qed (simp add: handleRestoreBackup_def)


text \<open>Labels tie a snapshot to a sandbox by names, which are free again once the sandbox is deleted:
  a new sandbox of that name, whoever owns it, inherits the snapshots.\<close>

lemma backups_follow_the_name:
  "sb_name sb' = sb_name sb \<Longrightarrow> st_pvc (sb_status sb') = st_pvc (sb_status sb)
     \<Longrightarrow> snapshotBelongsToSandbox s sb' = snapshotBelongsToSandbox s sb"
  by (simp add: snapshotBelongsToSandbox_def)

end
