(* ===== verification/Rate_Limit.thy ===== *)
theory Rate_Limit
  imports Complex_Main Sandbox_Handlers
begin

text \<open>
  The router's rate limiter (\<open>pkg/router/ratelimit.go\<close> and the route costs of \<open>server.go\<close>): token
  buckets per client address and per user. The buckets are those of \<open>golang.org/x/time/rate\<close>, whose
  operations are the parameter \<open>bucket_ops\<close>. A request is one step here; the program locks the
  maps only around the look-up of a bucket, and a bucket around each of its operations.
\<close>

section \<open>Configuration\<close>

text \<open>Rates are \<open>float64\<close> values, which are rational numbers.\<close>

record rate_config =
  rlc_ip_rate :: rat
  rlc_ip_burst :: int
  rlc_user_rate :: rat
  rlc_user_burst :: int
  rlc_cleanup :: duration
  rlc_ttl :: duration
  rlc_trust :: bool

definition DefaultRateLimitConfig :: rate_config where
  "DefaultRateLimitConfig =
     \<lparr>rlc_ip_rate = 1, rlc_ip_burst = 30, rlc_user_rate = 10, rlc_user_burst = 100,
      rlc_cleanup = 10 * minute, rlc_ttl = 30 * minute, rlc_trust = False\<rparr>"

text \<open>\<open>NewLimiter\<close>, \<open>AllowN\<close>, and \<open>ReserveN\<close> with the delay read and the reservation cancelled.\<close>

record 'b bucket_ops =
  bo_new :: "rat \<Rightarrow> int \<Rightarrow> 'b"
  bo_allow :: "instant \<Rightarrow> int \<Rightarrow> 'b \<Rightarrow> bool \<times> 'b"
  bo_delay :: "instant \<Rightarrow> int \<Rightarrow> 'b \<Rightarrow> duration \<times> 'b"

record 'b limiter_entry =
  le_limiter :: 'b
  le_seen :: instant

type_synonym 'b buckets = "string \<rightharpoonup> 'b limiter_entry"

record 'b rate_limiter =
  rl_cfg :: rate_config
  rl_ip :: "'b buckets"
  rl_user :: "'b buckets"

definition newRateLimiter :: "rate_config \<Rightarrow> 'b rate_limiter" where
  "newRateLimiter cfg0 =
     (let cfg = cfg0\<lparr>rlc_cleanup := (if rlc_cleanup cfg0 = 0 then 10 * minute else rlc_cleanup cfg0),
                     rlc_ttl := (if rlc_ttl cfg0 = 0 then 30 * minute else rlc_ttl cfg0)\<rparr>
      in \<lparr>rl_cfg = cfg, rl_ip = Map.empty, rl_user = Map.empty\<rparr>)"

section \<open>Buckets\<close>

text \<open>The burst of a new bucket; a float is truncated towards zero.\<close>

definition truncated :: "rat \<Rightarrow> int" where
  "truncated x = (if x < 0 then - \<lfloor>- x\<rfloor> else \<lfloor>x\<rfloor>)"

definition effective_burst :: "rat \<Rightarrow> int \<Rightarrow> int" where
  "effective_burst perSec burst = (if burst \<le> 0 then max (truncated perSec) 1 else burst)"

definition getOrCreate :: "'b bucket_ops \<Rightarrow> instant \<Rightarrow> 'b buckets \<Rightarrow> string \<Rightarrow> rat \<Rightarrow> int \<Rightarrow> 'b" where
  "getOrCreate ops now m key perSec burst =
     (case m key of
        Some e \<Rightarrow> le_limiter e
      | None \<Rightarrow> bo_new ops perSec (effective_burst perSec burst))"

text \<open>One layer: the bucket is looked up at \<open>seen\<close> and charged at \<open>now\<close>; a refusal carries the delay.\<close>

definition charge ::
  "'b bucket_ops \<Rightarrow> rat \<Rightarrow> int \<Rightarrow> instant \<Rightarrow> instant \<Rightarrow> string \<Rightarrow> int \<Rightarrow> 'b buckets \<Rightarrow> duration option \<times> 'b buckets" where
  "charge ops perSec burst seen now key cost m =
     (let l = getOrCreate ops seen m key perSec burst;
          (ok, l') = bo_allow ops now cost l
      in if ok then (None, m(key \<mapsto> \<lparr>le_limiter = l', le_seen = seen\<rparr>))
         else let (d, l'') = bo_delay ops now cost l'
              in (Some d, m(key \<mapsto> \<lparr>le_limiter = l'', le_seen = seen\<rparr>)))"

definition evict :: "instant \<Rightarrow> 'b buckets \<Rightarrow> 'b buckets" where
  "evict cutoff m =
     (\<lambda>k. case m k of None \<Rightarrow> None | Some e \<Rightarrow> if le_seen e < cutoff then None else Some e)"

definition evictStale :: "'w api \<Rightarrow> 'b rate_limiter \<Rightarrow> ('w, 'b rate_limiter) kprog" where
  "evictStale E L = do {
     now \<leftarrow> ask E Now as_time;
     (let cutoff = now + wrap64 (- rlc_ttl (rl_cfg L))
      in ret (L\<lparr>rl_ip := evict cutoff (rl_ip L), rl_user := evict cutoff (rl_user L)\<rparr>))
   }"

text \<open>\<open>gateRequestN\<close>: None lets the request pass.\<close>

definition gateRequestN ::
  "'b bucket_ops \<Rightarrow> 'w api \<Rightarrow> 'b rate_limiter \<Rightarrow> string \<Rightarrow> string \<Rightarrow> int
   \<Rightarrow> ('w, duration option \<times> 'b rate_limiter) kprog" where
  "gateRequestN ops E L ip userSub cost0 =
     (let cost = (if cost0 < 1 then 1 else cost0); cfg = rl_cfg L
      in do {
        (r, L1) \<leftarrow>
          (if rlc_ip_rate cfg > 0 \<and> ip \<noteq> []
           then do {
             seen \<leftarrow> ask E Now as_time;
             now \<leftarrow> ask E Now as_time;
             (let (r, m) = charge ops (rlc_ip_rate cfg) (rlc_ip_burst cfg) seen now ip cost (rl_ip L)
              in ret (r, L\<lparr>rl_ip := m\<rparr>))
           }
           else ret (None, L));
        (if r \<noteq> None then ret (r, L1)
         else if rlc_user_rate cfg > 0 \<and> userSub \<noteq> []
         then do {
           seen \<leftarrow> ask E Now as_time;
           now \<leftarrow> ask E Now as_time;
           (let (r', m) = charge ops (rlc_user_rate cfg) (rlc_user_burst cfg) seen now userSub cost (rl_user L1)
            in ret (r', L1\<lparr>rl_user := m\<rparr>))
         }
         else ret (None, L1))
      })"

definition gateRequest ::
  "'b bucket_ops \<Rightarrow> 'w api \<Rightarrow> 'b rate_limiter \<Rightarrow> string \<Rightarrow> string
   \<Rightarrow> ('w, duration option \<times> 'b rate_limiter) kprog" where
  "gateRequest ops E L ip userSub = gateRequestN ops E L ip userSub 1"

section \<open>Costs\<close>

text \<open>A request body: absent, unreadable, or its bytes. The decoder of a batch yields the number of
  its items, or an error.\<close>

datatype request_body = NoBody | BadBody | Body string

definition routeCostMaxPeekBytes :: nat where "routeCostMaxPeekBytes = 8 * 1024 * 1024"

definition bulkCreateRouteCost :: "(string \<Rightarrow> string + nat) \<Rightarrow> string \<Rightarrow> int" where
  "bulkCreateRouteCost decode body = (case decode body of Inl _ \<Rightarrow> 1 | Inr n \<Rightarrow> int n)"

definition bulkActionRouteCost :: "(string \<Rightarrow> string + nat) \<Rightarrow> string \<Rightarrow> int" where
  "bulkActionRouteCost decode body = (case decode body of Inl _ \<Rightarrow> 1 | Inr n \<Rightarrow> int n)"

definition route_costs ::
  "(string \<Rightarrow> string + nat) \<Rightarrow> (string \<Rightarrow> string + nat) \<Rightarrow> (string \<times> (string \<Rightarrow> int)) list" where
  "route_costs items ids =
     [(''/api/v1/sandboxes/bulk'', bulkCreateRouteCost items),
      (''/api/v1/sandboxes/bulk-action'', bulkActionRouteCost ids)]"

text \<open>The cost, and the body that the handler will see.\<close>

definition costForRequest ::
  "(string \<times> (string \<Rightarrow> int)) list \<Rightarrow> string \<Rightarrow> request_body \<Rightarrow> int \<times> request_body" where
  "costForRequest costs tmpl body =
     (if tmpl = [] then (1, body)
      else case map_of costs tmpl of
        None \<Rightarrow> (1, body)
      | Some fn \<Rightarrow>
          (case body of
             BadBody \<Rightarrow> (1, Body [])
           | NoBody \<Rightarrow> (max 1 (fn []), NoBody)
           | Body b \<Rightarrow> (let d = take routeCostMaxPeekBytes b in (max 1 (fn d), Body d))))"

section \<open>The client's address\<close>

definition last_colon :: "string \<Rightarrow> nat option" where
  "last_colon s =
     (if CHR '':'' \<in> set s then Some (length s - 1 - length (takeWhile (\<lambda>c. c \<noteq> CHR '':'') (rev s))) else None)"

text \<open>\<open>net.SplitHostPort\<close>, of which only the host is used.\<close>

definition SplitHostPort :: "string \<Rightarrow> string option" where
  "SplitHostPort s =
     (case last_colon s of
        None \<Rightarrow> None
      | Some i \<Rightarrow>
          if hd s = CHR ''[''
          then let e = length (takeWhile (\<lambda>c. c \<noteq> CHR '']'') s)
               in if e = length s \<or> e + 1 \<noteq> i then None
                  else if CHR ''['' \<in> set (drop 1 s) \<or> CHR '']'' \<in> set (drop (e + 1) s) then None
                  else Some (take (e - 1) (drop 1 s))
          else if CHR '':'' \<in> set (take i s) \<or> CHR ''['' \<in> set s \<or> CHR '']'' \<in> set s then None
          else Some (take i s))"

definition clientIP :: "http_request \<Rightarrow> string \<Rightarrow> bool \<Rightarrow> string" where
  "clientIP req remote trustForwarded =
     (let xff = text_at (rq_headers req) ''X-Forwarded-For'';
          xri = text_at (rq_headers req) ''X-Real-IP'';
          first = takeWhile (\<lambda>c. c \<noteq> CHR '','') xff
      in if trustForwarded \<and> xff \<noteq> []
         then (if first \<noteq> [] \<and> first \<noteq> xff then TrimSpace first else TrimSpace xff)
         else if trustForwarded \<and> xri \<noteq> [] then TrimSpace xri
         else (case SplitHostPort remote of None \<Rightarrow> remote | Some host \<Rightarrow> host))"

section \<open>The middleware\<close>

definition isExemptFromRateLimit :: "string \<Rightarrow> bool" where
  "isExemptFromRateLimit path \<longleftrightarrow>
     path = ''/healthz'' \<or> path = ''/readyz'' \<or> path = ''/metrics'' \<or> has_prefix path ''/ws/''"

definition retry_seconds :: "duration \<Rightarrow> int" where
  "retry_seconds retryAfter = max 1 (retryAfter div second + 1)"

definition writeRateLimitResponse :: "duration \<Rightarrow> reply" where
  "writeRateLimitResponse retryAfter =
     (let s = retry_seconds retryAfter
      in respondJSON 429 (JObj [(''error'', JText ''rate_limited''), (''retryAfter'', JInt s),
           (''message'', JText (''too many requests; retry after '' @ show_int s @ '' seconds''))]))"

definition rate_reply :: "duration option \<Rightarrow> reply option" where
  "rate_reply r = map_option writeRateLimitResponse r"

text \<open>None of the reply lets the request through. The first middleware runs before authentication.\<close>

definition rateLimitMiddleware ::
  "'b bucket_ops \<Rightarrow> 'w api \<Rightarrow> 'b rate_limiter \<Rightarrow> string \<Rightarrow> string \<Rightarrow> http_request
   \<Rightarrow> ('w, reply option \<times> 'b rate_limiter) kprog" where
  "rateLimitMiddleware ops E L path remote req =
     (if isExemptFromRateLimit path then ret (None, L)
      else do {
        (r, L') \<leftarrow> gateRequest ops E L (clientIP req remote (rlc_trust (rl_cfg L))) [];
        ret (rate_reply r, L')
      })"

definition rateLimitAuthenticatedMiddleware ::
  "'b bucket_ops \<Rightarrow> (string \<times> (string \<Rightarrow> int)) list \<Rightarrow> 'w api \<Rightarrow> 'b rate_limiter \<Rightarrow> string
   \<Rightarrow> claims option \<Rightarrow> http_request \<Rightarrow> request_body
   \<Rightarrow> ('w, (reply option \<times> request_body) \<times> 'b rate_limiter) kprog" where
  "rateLimitAuthenticatedMiddleware ops costs E L path claims req body =
     (if isExemptFromRateLimit path then ret ((None, body), L)
      else case claims of
        None \<Rightarrow> ret ((None, body), L)
      | Some cl \<Rightarrow>
          if cl_sub cl = [] then ret ((None, body), L)
          else (let (cost, body') = costForRequest costs (rq_route req) body
                in do {
                  (r, L') \<leftarrow> gateRequestN ops E L [] (cl_sub cl) cost;
                  ret ((rate_reply r, body'), L')
                }))"

section \<open>Every caller has a bucket of its own\<close>

text \<open>A history of one layer: charges and sweeps, and the answers that the charges get.\<close>

datatype bucket_step = Charged instant instant string int | Swept instant

fun serve ::
  "'b bucket_ops \<Rightarrow> rat \<Rightarrow> int \<Rightarrow> bucket_step list \<Rightarrow> 'b buckets \<Rightarrow> (string \<times> duration option) list" where
  "serve ops perSec burst [] m = []"
| "serve ops perSec burst (Charged seen now key cost # hs) m =
     (let (r, m') = charge ops perSec burst seen now key cost m in (key, r) # serve ops perSec burst hs m')"
| "serve ops perSec burst (Swept cutoff # hs) m = serve ops perSec burst hs (evict cutoff m)"

fun concerns :: "string \<Rightarrow> bucket_step \<Rightarrow> bool" where
  "concerns key (Charged _ _ key' _) \<longleftrightarrow> key' = key"
| "concerns key (Swept _) \<longleftrightarrow> True"

lemma charge_own:
  "charge ops perSec burst seen now key cost (m |` {key}) =
     (let (r, m') = charge ops perSec burst seen now key cost m in (r, m' |` {key}))"
  by (auto simp: charge_def getOrCreate_def restrict_map_def Let_def split: prod.splits option.splits)

lemma charge_other:
  "key' \<noteq> key \<Longrightarrow> snd (charge ops perSec burst seen now key' cost m) |` {key} = m |` {key}"
  by (auto simp: charge_def restrict_map_def Let_def fun_eq_iff split: prod.splits)

lemma evict_restrict: "evict cutoff (m |` A) = evict cutoff m |` A"
  by (auto simp: evict_def restrict_map_def)

text \<open>C27. A caller's answers depend on that caller's requests and the sweeps alone: in any history of
  a layer, the answers given to one key are those that a limiter holding only this key's bucket
  gives to this key's charges. No caller can spend or refill the tokens of another.
\<close>
theorem callers_have_their_own_buckets:
  "filter (\<lambda>a. fst a = key) (serve ops perSec burst hs m) =
     serve ops perSec burst (filter (concerns key) hs) (m |` {key})"
proof (induction hs arbitrary: m)
  case Nil
  then show ?case by simp
next
  case (Cons h hs)
  show ?case
  proof (cases h)
    case (Charged seen now key' cost)
    obtain r m' where c: "charge ops perSec burst seen now key' cost m = (r, m')" by fastforce
    show ?thesis
    proof (cases "key' = key")
      case True
      then show ?thesis using Charged c Cons.IH [of m'] by (simp add: charge_own)
    next
      case False
      then show ?thesis
        using Charged c Cons.IH [of m'] charge_other [OF False, of ops perSec burst seen now cost m] by simp
    qed
  next
    case (Swept cutoff)
    then show ?thesis using Cons.IH [of "evict cutoff m"] by (simp add: evict_restrict)
  qed
qed

section \<open>A batch larger than the burst\<close>

text \<open>
  What the documentation of \<open>x/time/rate\<close> says of a limiter whose limit is not infinite: its burst
  is the one it was made with, \<open>AllowN\<close> refuses more tokens than the burst at any time, and the
  delay of such a reservation is \<open>InfDuration\<close>, the largest duration.
\<close>

definition InfDuration :: duration where "InfDuration = 9223372036854775807"

definition documented_bucket :: "'b bucket_ops \<Rightarrow> ('b \<Rightarrow> int) \<Rightarrow> bool" where
  "documented_bucket ops burst_of \<longleftrightarrow>
     (\<forall>r n. burst_of (bo_new ops r n) = n)
     \<and> (\<forall>now n b. burst_of (snd (bo_allow ops now n b)) = burst_of b)
     \<and> (\<forall>now n b. burst_of (snd (bo_delay ops now n b)) = burst_of b)
     \<and> (\<forall>now n b. n > burst_of b \<longrightarrow> \<not> fst (bo_allow ops now n b) \<and> fst (bo_delay ops now n b) = InfDuration)"

inductive limiter_run :: "'b bucket_ops \<Rightarrow> 'w api \<Rightarrow> rate_config \<Rightarrow> 'b rate_limiter \<Rightarrow> bool"
  for ops :: "'b bucket_ops" and E :: "'w api" and cfg :: rate_config where
  started: "limiter_run ops E cfg (newRateLimiter cfg)"
| gated: "limiter_run ops E cfg L \<Longrightarrow> run_state (gateRequestN ops E L ip userSub cost) s = ((r, L'), s')
            \<Longrightarrow> limiter_run ops E cfg L'"
| swept: "limiter_run ops E cfg L \<Longrightarrow> run_state (evictStale E L) s = (L', s') \<Longrightarrow> limiter_run ops E cfg L'"

definition bursts :: "('b \<Rightarrow> int) \<Rightarrow> int \<Rightarrow> 'b buckets \<Rightarrow> bool" where
  "bursts burst_of n m \<longleftrightarrow> (\<forall>e \<in> ran m. burst_of (le_limiter e) = n)"

definition sized :: "('b \<Rightarrow> int) \<Rightarrow> rate_config \<Rightarrow> 'b rate_limiter \<Rightarrow> bool" where
  "sized burst_of cfg L \<longleftrightarrow>
     rlc_user_rate (rl_cfg L) = rlc_user_rate cfg \<and> rlc_user_burst (rl_cfg L) = rlc_user_burst cfg
     \<and> bursts burst_of (effective_burst (rlc_user_rate cfg) (rlc_user_burst cfg)) (rl_user L)"

lemma bursts_evict: "bursts burst_of n m \<Longrightarrow> bursts burst_of n (evict cutoff m)"
  by (auto simp: bursts_def ran_def evict_def split: option.splits if_splits)

lemma bursts_upd: "bursts burst_of n m \<Longrightarrow> burst_of b = n \<Longrightarrow> bursts burst_of n (m(k \<mapsto> \<lparr>le_limiter = b, le_seen = t\<rparr>))"
  by (auto simp: bursts_def ran_def split: if_splits)

lemma getOrCreate_burst:
  "documented_bucket ops burst_of \<Longrightarrow> bursts burst_of (effective_burst r n) m
     \<Longrightarrow> burst_of (getOrCreate ops seen m key r n) = effective_burst r n"
  by (auto simp: documented_bucket_def bursts_def getOrCreate_def ran_def split: option.splits)

lemma charge_keeps_bursts:
  assumes "documented_bucket ops burst_of" "bursts burst_of (effective_burst r n) m"
  shows "bursts burst_of (effective_burst r n) (snd (charge ops r n seen now key cost m))"
proof -
  let ?b = "getOrCreate ops seen m key r n"
  have "burst_of ?b = effective_burst r n" using assms by (rule getOrCreate_burst)
  moreover have "burst_of (snd (bo_allow ops now cost b)) = burst_of b"
    "burst_of (snd (bo_delay ops now cost b)) = burst_of b" for b
    using assms(1) by (auto simp: documented_bucket_def)
  ultimately show ?thesis
    by (auto simp: charge_def Let_def split: prod.splits intro!: bursts_upd assms(2)) (metis snd_conv)+
qed

lemma charge_above_burst:
  assumes "documented_bucket ops burst_of" "bursts burst_of (effective_burst r n) m" "effective_burst r n < cost"
  shows "fst (charge ops r n seen now key cost m) = Some InfDuration"
proof -
  have size: "burst_of (getOrCreate ops seen m key r n) = effective_burst r n"
    using assms(1,2) by (rule getOrCreate_burst)
  have keep: "burst_of (snd (bo_allow ops now cost b)) = burst_of b"
    and refuse: "cost > burst_of b \<Longrightarrow> \<not> fst (bo_allow ops now cost b)"
    and inf: "cost > burst_of b \<Longrightarrow> fst (bo_delay ops now cost b) = InfDuration" for b
    using assms(1) by (auto simp: documented_bucket_def)
  show ?thesis
    using size keep [of "getOrCreate ops seen m key r n"] refuse [of "getOrCreate ops seen m key r n"]
      inf [of "snd (bo_allow ops now cost (getOrCreate ops seen m key r n))"] assms(3)
    by (auto simp: charge_def Let_def split: prod.splits)
qed

lemma gateRequestN_sized:
  "documented_bucket ops burst_of \<Longrightarrow> sized burst_of cfg L
     \<Longrightarrow> traces (gateRequestN ops E L ip userSub cost) (\<lambda>a _. sized burst_of cfg (snd a))"
  unfolding gateRequestN_def Let_def
  apply (rule traces_bind [where P = "\<lambda>a _. sized burst_of cfg (snd a)"])
   apply (intro tr; simp add: sized_def split_beta)
  apply (simp only: split_beta)
  apply (intro tr; simp add: sized_def charge_keeps_bursts)
  done

lemma evictStale_sized: "sized burst_of cfg L \<Longrightarrow> traces (evictStale E L) (\<lambda>a _. sized burst_of cfg a)"
  unfolding evictStale_def by (auto simp: sized_def intro!: tr bursts_evict)

lemma limiter_run_sized:
  assumes "documented_bucket ops burst_of" "limiter_run ops E cfg L"
  shows "sized burst_of cfg L"
  using assms(2)
proof induction
  case started
  then show ?case by (simp add: sized_def newRateLimiter_def bursts_def Let_def)
next
  case (gated L ip userSub cost s r L' s')
  obtain w l w' l' where "s = (w, l)" "s' = (w', l')" by fastforce
  then show ?case using gated tracesD [OF gateRequestN_sized [OF assms(1) gated.IH]] by fastforce
next
  case (swept L s L' s')
  obtain w l w' l' where "s = (w, l)" "s' = (w', l')" by fastforce
  then show ?case using swept tracesD [OF evictStale_sized [OF swept.IH]] by fastforce
qed

lemma costs_of_batches:
  "fst (costForRequest (route_costs items ids) tmpl body) =
     (if tmpl = ''/api/v1/sandboxes/bulk'' \<or> tmpl = ''/api/v1/sandboxes/bulk-action''
      then (case body of
          BadBody \<Rightarrow> 1
        | NoBody \<Rightarrow> max 1 (bulkCreateRouteCost (if tmpl = ''/api/v1/sandboxes/bulk'' then items else ids) [])
        | Body b \<Rightarrow> max 1 (bulkCreateRouteCost (if tmpl = ''/api/v1/sandboxes/bulk'' then items else ids)
                               (take routeCostMaxPeekBytes b)))
      else 1)"
  by (auto simp: costForRequest_def route_costs_def bulkCreateRouteCost_def bulkActionRouteCost_def Let_def
      split: request_body.splits sum.splits)

lemma user_gate:
  assumes "documented_bucket ops burst_of" "sized burst_of cfg L" "rlc_user_rate cfg > 0" "userSub \<noteq> []"
    "effective_burst (rlc_user_rate cfg) (rlc_user_burst cfg) < cost" "1 < cost"
  shows "traces (gateRequestN ops E L [] userSub cost) (\<lambda>a _. fst a = Some InfDuration)"
  unfolding gateRequestN_def Let_def
  apply (rule traces_bind [where P = "\<lambda>a t. a = (None, L)"])
   apply (intro tr; simp)
  using assms by (simp add: sized_def split_beta) (intro tr; simp add: charge_above_burst)

lemma retry_after_inf: "retry_seconds InfDuration = 9223372037"
  by (simp add: retry_seconds_def InfDuration_def second_def)

lemma shown_delay: "show_int 9223372037 = ''9223372037''"
  by (simp add: show_int_def show_nat.simps digit_char_def)

lemma effective_burst_pos: "1 \<le> effective_burst r n"
  by (simp add: effective_burst_def)

text \<open>A batch with more items than the caller's burst is never admitted: in every state that the
  limiter can reach, after any time, the caller's bucket refuses it, and the reply tells the client
  to try again after 9223372037 seconds (292 years), the largest duration. The default burst is 100.
\<close>
theorem a_batch_above_the_burst_is_never_admitted:
  assumes "documented_bucket ops burst_of" "limiter_run ops E cfg L" "rlc_user_rate cfg > 0"
    "\<not> isExemptFromRateLimit path" "cl_sub cl \<noteq> []" "rq_route req = ''/api/v1/sandboxes/bulk''"
    "items (take routeCostMaxPeekBytes b) = Inr n"
    "effective_burst (rlc_user_rate cfg) (rlc_user_burst cfg) < int n"
  shows "traces (rateLimitAuthenticatedMiddleware ops (route_costs items ids) E L path (Some cl) req (Body b))
           (\<lambda>((refusal, _), _) _. refusal = Some (respondJSON 429 (JObj
              [(''error'', JText ''rate_limited''), (''retryAfter'', JInt 9223372037),
               (''message'', JText ''too many requests; retry after 9223372037 seconds'')])))"
proof -
  have cost: "costForRequest (route_costs items ids) (rq_route req) (Body b) =
      (int n, Body (take routeCostMaxPeekBytes b))"
    using assms(6-8) effective_burst_pos [of "rlc_user_rate cfg" "rlc_user_burst cfg"]
    by (simp add: costForRequest_def route_costs_def bulkCreateRouteCost_def Let_def)
  have gate: "traces (gateRequestN ops E L [] (cl_sub cl) (int n)) (\<lambda>a _. fst a = Some InfDuration)"
    using user_gate [OF assms(1) limiter_run_sized [OF assms(1,2)] assms(3,5,8)]
      effective_burst_pos [of "rlc_user_rate cfg" "rlc_user_burst cfg"] assms(8) by simp
  have reply: "writeRateLimitResponse InfDuration = respondJSON 429 (JObj
              [(''error'', JText ''rate_limited''), (''retryAfter'', JInt 9223372037),
               (''message'', JText ''too many requests; retry after 9223372037 seconds'')])"
    by (simp add: writeRateLimitResponse_def retry_after_inf shown_delay)
  show ?thesis
    unfolding rateLimitAuthenticatedMiddleware_def
    using assms(4,5)
    by (simp add: cost) (rule traces_bind [OF gate], auto simp: rate_reply_def reply intro!: tr)
qed

text \<open>A bucket that starts full and is never refilled meets the documentation.\<close>

definition full_bucket :: "(int \<times> int) bucket_ops" where
  "full_bucket =
     \<lparr>bo_new = (\<lambda>r n. (n, n)),
      bo_allow = (\<lambda>now c (n, left). if c \<le> left \<and> c \<le> n then (True, (n, left - c)) else (False, (n, left))),
      bo_delay = (\<lambda>now c (n, left). (InfDuration, (n, left)))\<rparr>"

lemma full_bucket_documented: "documented_bucket full_bucket fst"
  by (auto simp: documented_bucket_def full_bucket_def)

definition small_burst :: rate_config where "small_burst = DefaultRateLimitConfig\<lparr>rlc_user_burst := 2\<rparr>"

definition eve :: claims where
  "eve = \<lparr>cl_sub = ''eve'', cl_email = [], cl_name = [], cl_groups = [], cl_admin = False, cl_namespaces = [],
          cl_sandbox = [], cl_actions = []\<rparr>"

definition bulk_post :: http_request where
  "bulk_post = \<lparr>rq_method = ''POST'', rq_route = ''/api/v1/sandboxes/bulk'', rq_vars = Map.empty,
                rq_headers = Map.empty, rq_query = Map.empty\<rparr>"

theorem a_batch_above_the_burst_is_never_admitted_witness:
  "traces (rateLimitAuthenticatedMiddleware full_bucket (route_costs (\<lambda>b. Inr (length b)) (\<lambda>b. Inr 0))
             (\<lambda>w q. (RTime 0, w)) (newRateLimiter small_burst) ''/api/v1/sandboxes/bulk'' (Some eve) bulk_post (Body ''xyz''))
     (\<lambda>((refusal, _), _) _. refusal = Some (respondJSON 429 (JObj
        [(''error'', JText ''rate_limited''), (''retryAfter'', JInt 9223372037),
         (''message'', JText ''too many requests; retry after 9223372037 seconds'')])))"
proof (rule a_batch_above_the_burst_is_never_admitted [OF full_bucket_documented limiter_run.started])
  have "3 \<le> routeCostMaxPeekBytes" by (simp add: routeCostMaxPeekBytes_def)
  then show "Inr (length (take routeCostMaxPeekBytes ''xyz'')) = (Inr 3 :: string + nat)" by simp
qed (simp_all add: small_burst_def DefaultRateLimitConfig_def eve_def bulk_post_def effective_burst_def
      isExemptFromRateLimit_def has_prefix_def)

end
