(* ===== verification/Routes.thy ===== *)
theory Routes
  imports Rate_Limit Key_Handlers
begin

text \<open>
  The router's table of routes and the way of a request to its handler (\<open>NewServer\<close> in
  \<open>pkg/router/server.go\<close>, the routes of \<open>pkg/router/agent/handler.go\<close>): matching, the chain of
  middleware, and the adapters that the agent handlers are given. Handlers are referred to by their
  names in the source.
\<close>

section \<open>The table\<close>

text \<open>An \<open>Open\<close> route lies outside \<open>/api/v1\<close>; a route without methods takes every method.\<close>

datatype gate = Open | Api | AdminOnly

record route =
  rt_prefix :: bool
  rt_methods :: "string list"
  rt_template :: string
  rt_gate :: gate
  rt_handler :: string

definition route_of :: "string \<Rightarrow> bool \<times> string list \<times> string \<times> gate \<times> string \<Rightarrow> route" where
  "route_of base r =
     (case r of (pre, ms, p, g, h) \<Rightarrow>
        \<lparr>rt_prefix = pre, rt_methods = ms, rt_template = base @ p, rt_gate = g, rt_handler = h\<rparr>)"

definition api_routes :: "(bool \<times> string list \<times> string \<times> gate \<times> string) list" where
  "api_routes =
     [(False, [''GET''], ''/sandboxes'', Api, ''handleListSandboxes''),
      (False, [''POST''], ''/sandboxes'', Api, ''handleCreateSandbox''),
      (False, [''GET''], ''/sandboxes/{id}'', Api, ''handleGetSandbox''),
      (False, [''DELETE''], ''/sandboxes/{id}'', Api, ''handleDeleteSandbox''),
      (False, [''POST''], ''/sandboxes/{id}/stop'', Api, ''handleStopSandbox''),
      (False, [''POST''], ''/sandboxes/{id}/resume'', Api, ''handleResumeSandbox''),
      (False, [''POST''], ''/sandboxes/{id}/clone'', Api, ''handleCloneSandbox''),
      (False, [''PATCH''], ''/sandboxes/{id}'', Api, ''handlePatchSandbox''),
      (False, [''POST''], ''/sandboxes/bulk'', Api, ''handleBulkCreate''),
      (False, [''POST''], ''/sandboxes/bulk-action'', Api, ''handleBulkAction''),
      (False, [''GET''], ''/sandboxes/{id}/backups'', Api, ''handleListBackups''),
      (False, [''POST''], ''/sandboxes/{id}/backups'', Api, ''handleCreateBackup''),
      (False, [''POST''], ''/sandboxes/{id}/backups/{snapshotName}/restore'', Api, ''handleRestoreBackup''),
      (False, [''DELETE''], ''/sandboxes/{id}/backups/{snapshotName}'', Api, ''handleDeleteBackup''),
      (False, [''POST''], ''/sandboxes/{id}/exec'', Api, ''handleExecCommand''),
      (False, [''GET''], ''/sandboxes/{id}/files/'', Api, ''handleListFiles''),
      (False, [''GET''], ''/sandboxes/{id}/files/{path:.*}'', Api, ''handleGetFile''),
      (False, [''PUT''], ''/sandboxes/{id}/files/{path:.*}'', Api, ''handlePutFile''),
      (False, [''GET''], ''/sandboxes/{id}/archive'', Api, ''handleArchive''),
      (False, [''GET''], ''/sandboxes/{id}/ports'', Api, ''handleListPorts''),
      (False, [''POST''], ''/sandboxes/{id}/ports'', Api, ''handleForwardPort''),
      (False, [''DELETE''], ''/sandboxes/{id}/ports/{port}'', Api, ''handleRemovePort''),
      (True, [], ''/sandboxes/{id}/preview/{port}/'', Api, ''handlePortPreview''),
      (False, [], ''/sandboxes/{id}/preview/{port}'', Api, ''handlePortPreview''),
      (False, [''GET''], ''/sandboxes/{id}/share'', Api, ''handleGetSharing''),
      (False, [''POST''], ''/sandboxes/{id}/share'', Api, ''handleShareSandbox''),
      (False, [''DELETE''], ''/sandboxes/{id}/share/{userId}'', Api, ''handleRevokeShare''),
      (False, [''POST''], ''/sandboxes/{id}/share-links'', Api, ''handleCreateShareLink''),
      (False, [''GET''], ''/templates'', Api, ''handleListTemplates''),
      (False, [''POST''], ''/templates'', AdminOnly, ''handleCreateTemplate''),
      (False, [''GET''], ''/templates/{name}'', Api, ''handleGetTemplate''),
      (False, [''PUT''], ''/templates/{name}'', AdminOnly, ''handleUpdateTemplate''),
      (False, [''DELETE''], ''/templates/{name}'', AdminOnly, ''handleDeleteTemplate''),
      (False, [''POST''], ''/webhooks'', Api, ''handleCreateWebhook''),
      (False, [''GET''], ''/webhooks'', Api, ''handleListWebhooks''),
      (False, [''DELETE''], ''/webhooks/{id}'', Api, ''handleDeleteWebhook''),
      (False, [''GET''], ''/webhooks/{id}/deliveries'', Api, ''handleGetWebhookDeliveries''),
      (False, [''GET''], ''/governance/policies'', Api, ''handleListPolicies''),
      (False, [''PUT''], ''/governance/policies'', AdminOnly, ''handleUpsertClusterPolicy''),
      (False, [''GET''], ''/governance/policies/{namespace}'', Api, ''handleGetPolicy''),
      (False, [''PUT''], ''/governance/policies/{namespace}'', AdminOnly, ''handleSetPolicy''),
      (False, [''DELETE''], ''/governance/policies/{namespace}'', AdminOnly, ''handleDeletePolicy''),
      (False, [''GET''], ''/governance/effective'', Api, ''handleGetEffectivePolicy''),
      (False, [''GET''], ''/audit/events'', AdminOnly, ''handleListAuditEvents''),
      (False, [''GET''], ''/analytics/usage'', AdminOnly, ''handleGetUsageAnalytics''),
      (False, [''GET''], ''/analytics/costs'', AdminOnly, ''handleGetCostEstimates''),
      (False, [''GET''], ''/admin/sandboxes'', AdminOnly, ''handleAdminListSandboxes''),
      (False, [''GET''], ''/admin/sharing'', AdminOnly, ''handleAdminListSharing''),
      (False, [''GET''], ''/user/me'', Api, ''handleGetMe''),
      (False, [''GET''], ''/user/preferences'', Api, ''handleGetPreferences''),
      (False, [''PUT''], ''/user/preferences'', Api, ''handleUpdatePreferences''),
      (False, [''GET''], ''/user/api-keys'', Api, ''handleListAPIKeys''),
      (False, [''POST''], ''/user/api-keys'', Api, ''handleCreateAPIKey''),
      (False, [''DELETE''], ''/user/api-keys/{keyId}'', Api, ''handleRevokeAPIKey''),
      (False, [''GET''], ''/warmpool/status'', Api, ''handleGetWarmPoolStatus''),
      (False, [''PUT''], ''/warmpool/config'', AdminOnly, ''handleSetWarmPoolConfig''),
      (False, [''GET''], ''/cluster/status'', Api, ''handleGetClusterStatus''),
      (False, [''GET''], ''/cluster/nodes'', AdminOnly, ''handleGetClusterNodes''),
      (False, [''GET''], ''/cluster/headroom'', Api, ''handleGetHeadroomConfig''),
      (False, [''PUT''], ''/cluster/headroom'', AdminOnly, ''handleSetHeadroomConfig'')]"

definition agent_routes :: "(bool \<times> string list \<times> string \<times> gate \<times> string) list" where
  "agent_routes =
     [(False, [''POST''], ''/sandboxes/{id}/configure'', Api, ''handleConfigure''),
      (False, [''GET''], ''/sandboxes/{id}/configure/install-log'', Api, ''handleGetInstallLog''),
      (False, [''POST''], ''/sandboxes/{id}/invoke'', Api, ''handleInvoke''),
      (False, [''POST''], ''/sandboxes/{id}/invoke/cancel'', Api, ''handleInvokeCancel'')]"

text \<open>All routes in the order in which they are tried.\<close>

definition routes :: "route list" where
  "routes =
     map (route_of [])
       [(True, [''OPTIONS''], ''/'', Open, ''preflight''),
        (False, [''GET''], ''/healthz'', Open, ''handleHealthz''),
        (False, [''GET''], ''/readyz'', Open, ''handleReadyz''),
        (False, [''GET''], ''/metrics'', Open, ''promhttp'')]
     @ map (route_of ''/api/v1'') (api_routes @ agent_routes)
     @ map (route_of []) [(False, [], ''/ws/terminal/{sandboxId}'', Open, ''handleTerminalWebSocket'')]"

text \<open>
  The first route wins whose template and method match (\<open>gorilla/mux\<close>). Whether a path matches a
  template, and with which variables, is the parameter \<open>M\<close>; its first argument tells prefixes from
  whole paths.
\<close>

type_synonym matcher = "bool \<Rightarrow> string \<Rightarrow> string \<Rightarrow> (string \<rightharpoonup> string) option"

definition takes :: "route \<Rightarrow> string \<Rightarrow> bool" where
  "takes rt meth \<longleftrightarrow> rt_methods rt = [] \<or> meth \<in> set (rt_methods rt)"

fun first_match :: "matcher \<Rightarrow> string \<Rightarrow> string \<Rightarrow> route list \<Rightarrow> (route \<times> (string \<rightharpoonup> string)) option" where
  "first_match M meth path [] = None"
| "first_match M meth path (rt # rts) =
     (case M (rt_prefix rt) (rt_template rt) path of
        None \<Rightarrow> first_match M meth path rts
      | Some vars \<Rightarrow> if takes rt meth then Some (rt, vars) else first_match M meth path rts)"

section \<open>The chain of middleware\<close>

text \<open>\<open>Unrouted\<close>: the answer of the multiplexer itself. \<open>Preflight\<close>: a cross-origin request ended
  by its middleware.\<close>

datatype outcome =
    Unrouted
  | Preflight nat
  | Rejected reply
  | Reached string "claims option" http_request request_body

text \<open>The caches of keys and buckets that requests share. A router without rate limits has no limiter.\<close>

type_synonym 'b shared = "key_store_cache \<times> 'b rate_limiter option"

definition ip_gate ::
  "'b bucket_ops \<Rightarrow> 'w api \<Rightarrow> 'b rate_limiter option \<Rightarrow> string \<Rightarrow> string \<Rightarrow> http_request
   \<Rightarrow> ('w, reply option \<times> 'b rate_limiter option) kprog" where
  "ip_gate ops E lm path remote req =
     (case lm of
        None \<Rightarrow> ret (None, None)
      | Some L \<Rightarrow> do { (r, L') \<leftarrow> rateLimitMiddleware ops E L path remote req; ret (r, Some L') })"

definition user_limit ::
  "'b bucket_ops \<Rightarrow> (string \<times> (string \<Rightarrow> int)) list \<Rightarrow> 'w api \<Rightarrow> 'b rate_limiter option \<Rightarrow> string
   \<Rightarrow> claims \<Rightarrow> http_request \<Rightarrow> request_body
   \<Rightarrow> ('w, (reply option \<times> request_body) \<times> 'b rate_limiter option) kprog" where
  "user_limit ops costs E lm path cl req body =
     (case lm of
        None \<Rightarrow> ret ((None, body), None)
      | Some L \<Rightarrow> do {
          (r, L') \<leftarrow> rateLimitAuthenticatedMiddleware ops costs E L path (Some cl) req body;
          ret (r, Some L')
        })"

text \<open>The subrouter's part: authentication, the caller's rate limit, the scope of the key, and the
  administrator check of the route.\<close>

definition api_chain ::
  "'b bucket_ops \<Rightarrow> (string \<times> (string \<Rightarrow> int)) list \<Rightarrow> 'w api \<Rightarrow> 'k server \<Rightarrow> 'b shared \<Rightarrow> string
   \<Rightarrow> route \<Rightarrow> http_request \<Rightarrow> request_body \<Rightarrow> ('w, outcome \<times> 'b shared) kprog" where
  "api_chain ops costs E sv sh path rt req body =
     (case sh of (c, lm) \<Rightarrow> do {
        (a, c') \<leftarrow> authMiddleware E sv c req;
        (case a of
           Inl e \<Rightarrow> ret (Rejected e, (c', lm))
         | Inr cl \<Rightarrow> do {
             ((r, body'), lm') \<leftarrow> user_limit ops costs E lm path cl req body;
             ret (case r of
                Some e \<Rightarrow> Rejected e
              | None \<Rightarrow> (case requireSandboxScope (Some cl) req of
                  Some e \<Rightarrow> Rejected e
                | None \<Rightarrow> (case (if rt_gate rt = AdminOnly then requireAdmin (Some cl) else None) of
                    Some e \<Rightarrow> Rejected e
                  | None \<Rightarrow> Reached (rt_handler rt) (Some cl) req body')), (c', lm'))
           })
      })"

definition serve_request ::
  "matcher \<Rightarrow> 'b bucket_ops \<Rightarrow> (string \<times> (string \<Rightarrow> int)) list \<Rightarrow> 'w api \<Rightarrow> 'k server \<Rightarrow> 'b shared
   \<Rightarrow> string \<Rightarrow> string \<Rightarrow> http_request \<Rightarrow> request_body \<Rightarrow> ('w, outcome \<times> 'b shared) kprog" where
  "serve_request M ops costs E sv sh path remote req0 body =
     (case first_match M (rq_method req0) path routes of
        None \<Rightarrow> ret (Unrouted, sh)
      | Some (rt, vars) \<Rightarrow>
          (let req = req0\<lparr>rq_route := rt_template rt, rq_vars := vars\<rparr>
           in case snd (corsMiddleware sv req) of
                Some status \<Rightarrow> ret (Preflight status, sh)
              | None \<Rightarrow> do {
                  (r, lm) \<leftarrow> ip_gate ops E (snd sh) path remote req;
                  (case r of
                     Some e \<Rightarrow> ret (Rejected e, (fst sh, lm))
                   | None \<Rightarrow>
                       if rt_gate rt = Open then ret (Reached (rt_handler rt) None req body, (fst sh, lm))
                       else api_chain ops costs E sv (fst sh, lm) path rt req body)
                }))"

section \<open>What the agent handlers are given\<close>

record agent_claims =
  agc_sub :: string
  agc_email :: string
  agc_name :: string
  agc_admin :: bool

definition agentClaims :: "claims option \<Rightarrow> agent_claims option" where
  "agentClaims cl =
     map_option (\<lambda>c. \<lparr>agc_sub = cl_sub c, agc_email = cl_email c, agc_name = cl_name c, agc_admin = cl_admin c\<rparr>) cl"

definition agentSandboxOf ::
  "'w api \<Rightarrow> 'k server \<Rightarrow> string \<Rightarrow> agent_claims option \<Rightarrow> ('w, string + sandbox) kprog" where
  "agentSandboxOf E sv sandboxID ac =
     (case ac of
        None \<Rightarrow> ret (Inl ''authentication required'')
      | Some a \<Rightarrow> getSandboxWithAuthCheck E sv sandboxID
          \<lparr>cl_sub = agc_sub a, cl_email = agc_email a, cl_name = agc_name a, cl_groups = [],
           cl_admin = agc_admin a, cl_namespaces = [], cl_sandbox = [], cl_actions = []\<rparr>)"

definition isOTelExempt :: "string \<Rightarrow> bool" where
  "isOTelExempt path \<longleftrightarrow> path \<in> {''/healthz'', ''/readyz'', ''/metrics''} \<or> has_prefix path ''/ws/''"

text \<open>The readiness probe asks for one object; the bound on the listing is not part of the request here.\<close>

definition handleReadyz :: "'w api \<Rightarrow> ('w, reply) kprog" where
  "handleReadyz E = do {
     l \<leftarrow> ask E (ListSandboxes []) as_sandboxes;
     ret (case l of
            Inl e \<Rightarrow> http_error (''not ready: '' @ err_text e) 503
          | Inr _ \<Rightarrow> http_error ''ok'' 200)
   }"

section \<open>The table, checked\<close>

text \<open>Which handlers are meant for everybody, for administrators, and for which action of a key.\<close>

definition open_handlers :: "string list" where
  "open_handlers = [''preflight'', ''handleHealthz'', ''handleReadyz'', ''promhttp'', ''handleTerminalWebSocket'']"

definition admin_handlers :: "string list" where
  "admin_handlers =
     [''handleCreateTemplate'', ''handleUpdateTemplate'', ''handleDeleteTemplate'', ''handleUpsertClusterPolicy'',
      ''handleSetPolicy'', ''handleDeletePolicy'', ''handleListAuditEvents'', ''handleGetUsageAnalytics'',
      ''handleGetCostEstimates'', ''handleAdminListSandboxes'', ''handleAdminListSharing'',
      ''handleSetWarmPoolConfig'', ''handleGetClusterNodes'', ''handleSetHeadroomConfig'']"

definition delegated :: "(string \<times> string) list" where
  "delegated =
     [(''handleExecCommand'', ''run-command''), (''handleListFiles'', ''files:read''),
      (''handleGetFile'', ''files:read''), (''handleArchive'', ''files:read''), (''handlePutFile'', ''files:write''),
      (''handleListPorts'', ''ports''), (''handleForwardPort'', ''ports''), (''handleRemovePort'', ''ports''),
      (''handleConfigure'', ''agent:configure''), (''handleGetInstallLog'', ''agent:configure''),
      (''handleInvoke'', ''agent:invoke''), (''handleInvokeCancel'', ''agent:invoke''),
      (''handleResumeSandbox'', ''resume''), (''handleStopSandbox'', ''stop'')]"

text \<open>What the table has to say of one route.\<close>

definition scope_entry :: "route \<Rightarrow> string \<Rightarrow> bool" where
  "scope_entry rt meth \<longleftrightarrow>
     (case map_of scopedKeyRouteActions (meth @ '' '' @ rt_template rt) of
        None \<Rightarrow> True
      | Some act \<Rightarrow> (rt_handler rt, act) \<in> set delegated)"

definition route_sound :: "route \<Rightarrow> bool" where
  "route_sound rt \<longleftrightarrow>
     (rt_gate rt = Open) = (rt_handler rt \<in> set open_handlers)
     \<and> (rt_gate rt = AdminOnly) = (rt_handler rt \<in> set admin_handlers)
     \<and> (if rt_methods rt = []
        then list_all (\<lambda>(k, a). \<not> suffix (rt_template rt) k) scopedKeyRouteActions
        else list_all (scope_entry rt) (rt_methods rt))"

lemma routes_sound: "list_all route_sound routes"
  by code_simp

lemma route_sound_at: "rt \<in> set routes \<Longrightarrow> route_sound rt"
  using routes_sound by (simp add: list_all_iff)

lemma first_match_in: "first_match M meth path rts = Some (rt, vars) \<Longrightarrow> rt \<in> set rts \<and> takes rt meth"
  by (induction rts) (auto split: option.splits if_splits)

lemma scope_entry_of_route:
  assumes "rt \<in> set routes" "takes rt meth"
  shows "scope_entry rt meth"
proof (cases "rt_methods rt = []")
  case True
  then have none: "list_all (\<lambda>(k, a). \<not> suffix (rt_template rt) k) scopedKeyRouteActions"
    using route_sound_at [OF assms(1)] by (simp add: route_sound_def)
  have "map_of scopedKeyRouteActions (meth @ '' '' @ rt_template rt) = None"
  proof (rule ccontr)
    assume "map_of scopedKeyRouteActions (meth @ '' '' @ rt_template rt) \<noteq> None"
    then obtain a where "(meth @ '' '' @ rt_template rt, a) \<in> set scopedKeyRouteActions"
      by (auto dest: map_of_SomeD)
    moreover have "suffix (rt_template rt) (meth @ '' '' @ rt_template rt)"
      unfolding suffix_def by (metis append.assoc)
    ultimately show False using none by (auto simp: list_all_iff)
  qed
  then show ?thesis by (simp only: scope_entry_def option.case)
next
  case False
  then show ?thesis
    using route_sound_at [OF assms(1)] assms(2) by (simp add: route_sound_def takes_def list_all_iff)
qed

text \<open>What may be said of a request that reached a handler.\<close>

definition admitted :: "'w api \<Rightarrow> 'k server \<Rightarrow> key_store_cache \<Rightarrow> http_request \<Rightarrow> claims \<Rightarrow> bool" where
  "admitted E sv c req cl \<longleftrightarrow> (\<exists>s. fst (fst (run_state (authMiddleware E sv c req) s)) = Inr cl)"

definition behind_its_gate ::
  "matcher \<Rightarrow> 'w api \<Rightarrow> 'k server \<Rightarrow> key_store_cache \<Rightarrow> string \<Rightarrow> string \<Rightarrow> outcome \<Rightarrow> bool" where
  "behind_its_gate M E sv c meth path out =
     (case out of
        Reached h caller req body \<Rightarrow>
          (\<exists>rt vars. first_match M meth path routes = Some (rt, vars) \<and> rt_handler rt = h \<and> rq_vars req = vars)
          \<and> meth \<noteq> ''OPTIONS''
          \<and> (case caller of
               None \<Rightarrow> h \<in> set open_handlers
             | Some cl \<Rightarrow>
                 h \<notin> set open_handlers \<and> admitted E sv c req cl
                 \<and> (h \<in> set admin_handlers \<longrightarrow> cl_admin cl)
                 \<and> (cl_sandbox cl \<noteq> [] \<longrightarrow>
                      text_at (rq_vars req) ''id'' = cl_sandbox cl
                      \<and> (\<exists>act \<in> set (cl_actions cl). (h, act) \<in> set delegated)))
      | _ \<Rightarrow> True)"

lemma behind_its_gate_rejected [simp]:
  "behind_its_gate M E sv c meth path Unrouted" "behind_its_gate M E sv c meth path (Preflight n)"
  "behind_its_gate M E sv c meth path (Rejected e)"
  by (simp_all add: behind_its_gate_def)

lemma behind_its_gate_open:
  "first_match M meth path routes = Some (rt, vars) \<Longrightarrow> rt_gate rt = Open \<Longrightarrow> meth \<noteq> ''OPTIONS'' \<Longrightarrow> rq_vars req = vars
     \<Longrightarrow> behind_its_gate M E sv c meth path (Reached (rt_handler rt) None req body)"
  using route_sound_at [of rt] first_match_in [of M meth path routes rt vars]
  by (auto simp: behind_its_gate_def route_sound_def)

lemma api_chain_gated:
  assumes route: "first_match M meth path routes = Some (rt, vars)" "rt_gate rt \<noteq> Open"
    and req: "rq_vars req = vars" "rq_route req = rt_template rt" "rq_method req = meth" "meth \<noteq> ''OPTIONS''"
  shows "behind_its_gate M E sv c meth path (fst (fst (run_state (api_chain ops costs E sv (c, lm) path rt req body) s)))"
proof -
  have rt: "rt \<in> set routes" "takes rt meth" using first_match_in [OF route(1)] by auto
  note sound = route_sound_at [OF rt(1), unfolded route_sound_def]
  note entry = scope_entry_of_route [OF rt]
  have reached: "behind_its_gate M E sv c meth path (Reached (rt_handler rt) (Some cl) req body')"
    if cl: "admitted E sv c req cl" and scope: "requireSandboxScope (Some cl) req = None"
      and adm: "(if rt_gate rt = AdminOnly then requireAdmin (Some cl) else None) = None" for cl body'
  proof -
    have "cl_admin cl" if "rt_handler rt \<in> set admin_handlers"
      using that adm sound by (auto simp: requireAdmin_def split: if_splits)
    moreover have "text_at (rq_vars req) ''id'' = cl_sandbox cl
        \<and> (\<exists>act \<in> set (cl_actions cl). (rt_handler rt, act) \<in> set delegated)" if "cl_sandbox cl \<noteq> []"
      using scope that entry req
      by (auto simp: scope_passed_iff scope_entry_def split: option.splits)
    ultimately show ?thesis
      using route req(1,4) cl sound by (auto simp: behind_its_gate_def)
  qed
  obtain a c' s1 where a: "run_state (authMiddleware E sv c req) s = ((a, c'), s1)" by (metis prod.collapse)
  show ?thesis
  proof (cases a)
    case (Inl e)
    then show ?thesis using a by (simp add: api_chain_def run_bind behind_its_gate_def)
  next
    case (Inr cl)
    then have "admitted E sv c req cl" unfolding admitted_def using a by (metis fst_conv)
    note reached = reached [OF this]
    obtain r body' lm' s2 where "run_state (user_limit ops costs E lm path cl req body) s1 = (((r, body'), lm'), s2)"
      by (metis prod.collapse)
    then show ?thesis
      using a Inr reached by (auto simp: api_chain_def run_bind  split: option.splits if_splits)
  qed
qed

text \<open>C2. Whatever the router's matcher, cluster, limiter and key cache do, a request reaches a handler
  only through the first route whose template and method match; only probes, metrics and the
  terminal are reached without a caller; every other handler gets the claims that authentication
  returned; the administrators' handlers get administrators; and a sandbox-scoped key reaches just
  the handlers that its actions stand for, on its own sandbox, so no deletion, no template, no
  policy and no batch.\<close>
theorem every_handler_is_behind_its_gate:
  "behind_its_gate M E sv c (rq_method req) path
     (fst (fst (run_state (serve_request M ops costs E sv (c, lm) path remote req body) s)))"
proof (cases "first_match M (rq_method req) path routes")
  case None
  then show ?thesis by (simp add: serve_request_def )
next
  case (Some m)
  obtain rt vars where m: "m = (rt, vars)" by fastforce
  define req' where "req' = req\<lparr>rq_route := rt_template rt, rq_vars := vars\<rparr>"
  show ?thesis
  proof (cases "snd (corsMiddleware sv req')")
    case (Some status)
    then show ?thesis
      using \<open>first_match M (rq_method req) path routes = Some m\<close> m
      by (simp add: serve_request_def  req'_def)
  next
    case None
    then have "rq_method req \<noteq> ''OPTIONS''"
      by (auto simp: corsMiddleware_def Let_def req'_def split: if_splits)
    moreover obtain r lm' s1 where "run_state (ip_gate ops E lm path remote req') s = ((r, lm'), s1)"
      by (metis prod.collapse)
    moreover have "rt \<in> set routes" "takes rt (rq_method req)" using first_match_in Some m by blast+
    ultimately show ?thesis
      using Some m None behind_its_gate_open [of M "rq_method req" path rt vars req' E sv c body]
        api_chain_gated [of M "rq_method req" path rt vars req' E sv c ops costs lm' body s1]
      by (auto simp: serve_request_def run_bind req'_def [symmetric] split: option.splits) (simp_all add: req'_def)
  qed
qed

text \<open>A browser may not send the one method that updates a sandbox: it is routed, but absent from the
  methods that the preflight answer allows.\<close>

lemma patch_is_routed_but_not_allowed:
  "(\<exists>rt \<in> set routes. rt_handler rt = ''handlePatchSandbox'' \<and> rt_methods rt = [''PATCH''])
   \<and> (text_at (rq_headers req) ''Origin'' \<noteq> [] \<and> isAllowedOrigin sv (text_at (rq_headers req) ''Origin'')
      \<longrightarrow> map_of (fst (corsMiddleware sv req)) ''Access-Control-Allow-Methods'' = Some ''GET, POST, PUT, DELETE, OPTIONS'')"
proof
  have "list_ex (\<lambda>rt. rt_handler rt = ''handlePatchSandbox'' \<and> rt_methods rt = [''PATCH'']) routes" by code_simp
  then show "\<exists>rt \<in> set routes. rt_handler rt = ''handlePatchSandbox'' \<and> rt_methods rt = [''PATCH'']"
    by (simp add: list_ex_iff)
qed (simp add: corsMiddleware_def Let_def)

text \<open>The agent handlers look a sandbox up as the router does: identity and administrator flag are all
  that the look-up reads of the claims.\<close>

lemma agentSandboxOf_is_getSandboxWithAuthCheck:
  "agentSandboxOf E sv i (agentClaims (Some cl)) = getSandboxWithAuthCheck E sv i cl"
  by (simp add: agentSandboxOf_def agentClaims_def getSandboxWithAuthCheck_def owns_def cong: sum.case_cong option.case_cong)

end
