(* ===== verification/Ports.thy ===== *)
theory Ports
  imports Key_Handlers
begin

text \<open>
  Forwarded ports: the manager that exposes a port of a sandbox by a service and an ingress
  (\<open>pkg/router/portforward/manager.go\<close>, \<open>proxy.go\<close>) and the router's port handlers
  (\<open>handlers.go\<close>). The last sections show what the manager keeps against a server that keeps its
  word about services, and what a preview may reach.
\<close>

section \<open>Services and ingresses of a port\<close>

definition LabelManagedBy :: string where "LabelManagedBy = ''agenttier.io/port-forward''"
definition LabelSandboxOf :: string where "LabelSandboxOf = ''agenttier.io/sandbox''"
definition LabelPort :: string where "LabelPort = ''agenttier.io/port''"

record port_options =
  po_domain :: string
  po_class :: string

record port_info =
  pi_port :: int
  pi_protocol :: string
  pi_preview :: string
  pi_internal :: string

definition serviceName :: "string \<Rightarrow> int \<Rightarrow> string" where
  "serviceName sandbox port = ''pf-'' @ sandbox @ ''-'' @ show_int port"

definition previewHost :: "string \<Rightarrow> int \<Rightarrow> string \<Rightarrow> string" where
  "previewHost sandbox port domain =
     ''sandbox-'' @ sandbox @ ''-'' @ show_int port @ ''.'' @ TrimSpace (TrimPrefix domain ''.'')"

definition internal_url :: "string \<Rightarrow> string \<Rightarrow> int \<Rightarrow> string" where
  "internal_url name ns port = ''http://'' @ name @ ''.'' @ ns @ ''.svc.cluster.local:'' @ show_int port"

text \<open>The owner reference is kept as the owner's uid.\<close>

definition port_labels :: "sandbox \<Rightarrow> int \<Rightarrow> labels" where
  "port_labels sb port =
     [LabelManagedBy \<mapsto> ''true'', LabelSandboxOf \<mapsto> sb_name sb, LabelPort \<mapsto> show_int port]"

definition port_service :: "sandbox \<Rightarrow> int \<Rightarrow> service" where
  "port_service sb port =
     \<lparr>svc_name = serviceName (sb_name sb) port, svc_namespace = sb_namespace sb,
      svc_labels = port_labels sb port, svc_owner = Some (sb_uid sb),
      svc_selector = [LabelSandboxOf \<mapsto> sb_name sb], svc_ports = [port],
      svc_cluster_ip = ([], []), svc_version = []\<rparr>"

definition buildIngress :: "string \<Rightarrow> string \<Rightarrow> string \<Rightarrow> int \<Rightarrow> string \<Rightarrow> sandbox \<Rightarrow> ingress" where
  "buildIngress name ns host port className sb =
     \<lparr>ing_name = name, ing_namespace = ns, ing_labels = port_labels sb port, ing_owner = Some (sb_uid sb),
      ing_host = host, ing_backend = (name, port),
      ing_class = (if className = [] then None else Some className), ing_version = []\<rparr>"

definition upsertService :: "'w api \<Rightarrow> service \<Rightarrow> ('w, api_err + unit) kprog" where
  "upsertService E desired = do {
     g \<leftarrow> ask E (PortCall (GetService (svc_namespace desired) (svc_name desired))) as_service;
     (case g of
        Inl e \<Rightarrow> if e = NotFound then ask E (PortCall (CreateService desired)) as_unit else ret (Inl e)
      | Inr existing \<Rightarrow>
          ask E (PortCall (UpdateService (desired\<lparr>svc_version := svc_version existing,
                                                  svc_cluster_ip := svc_cluster_ip existing\<rparr>))) as_unit)
   }"

definition upsertIngress :: "'w api \<Rightarrow> ingress \<Rightarrow> ('w, api_err + unit) kprog" where
  "upsertIngress E desired = do {
     g \<leftarrow> ask E (PortCall (GetIngress (ing_namespace desired) (ing_name desired))) as_ingress;
     (case g of
        Inl e \<Rightarrow> if e = NotFound then ask E (PortCall (CreateIngress desired)) as_unit else ret (Inl e)
      | Inr existing \<Rightarrow>
          ask E (PortCall (UpdateIngress (desired\<lparr>ing_version := ing_version existing\<rparr>))) as_unit)
   }"

section \<open>The manager\<close>

definition CreatePort ::
  "port_options \<Rightarrow> 'w api \<Rightarrow> sandbox \<Rightarrow> int \<Rightarrow> string \<Rightarrow> ('w, string + port_info) kprog" where
  "CreatePort po E sb port protocol0 =
     (if port \<le> 0 \<or> port > 65535
      then ret (Inl (''port must be 1-65535 (got '' @ show_int port @ '')''))
      else
        let protocol = (if protocol0 = [] then ''http'' else protocol0);
            name = serviceName (sb_name sb) port;
            result = \<lparr>pi_port = port, pi_protocol = protocol, pi_preview = [],
                      pi_internal = internal_url name (sb_namespace sb) port\<rparr>
        in do {
          u \<leftarrow> upsertService E (port_service sb port);
          (case u of
             Inl e \<Rightarrow> ret (Inl (''upsert service: '' @ err_text e))
           | Inr _ \<Rightarrow>
               if po_domain po = [] then ret (Inr result)
               else let host = previewHost (sb_name sb) port (po_domain po)
                    in do {
                      i \<leftarrow> upsertIngress E (buildIngress name (sb_namespace sb) host port (po_class po) sb);
                      ret (case i of
                             Inl e \<Rightarrow> Inl (''upsert ingress: '' @ err_text e)
                           | Inr _ \<Rightarrow> Inr (result\<lparr>pi_preview := ''https://'' @ host @ ''/''\<rparr>))
                    })
        })"

definition DeletePort :: "'w api \<Rightarrow> sandbox \<Rightarrow> int \<Rightarrow> ('w, string + unit) kprog" where
  "DeletePort E sb port =
     (let name = serviceName (sb_name sb) port
      in do {
        d \<leftarrow> ask E (PortCall (DeleteService (sb_namespace sb) name)) as_unit;
        (case d of
           Inl e \<Rightarrow> if e \<noteq> NotFound then ret (Inl (''delete service: '' @ err_text e))
                    else do {
                      i \<leftarrow> ask E (PortCall (DeleteIngress (sb_namespace sb) name)) as_unit;
                      ret (case i of
                             Inl e' \<Rightarrow> if e' \<noteq> NotFound then Inl (''delete ingress: '' @ err_text e') else Inr ()
                           | Inr _ \<Rightarrow> Inr ())
                    }
         | Inr _ \<Rightarrow> do {
             i \<leftarrow> ask E (PortCall (DeleteIngress (sb_namespace sb) name)) as_unit;
             ret (case i of
                    Inl e' \<Rightarrow> if e' \<noteq> NotFound then Inl (''delete ingress: '' @ err_text e') else Inr ()
                  | Inr _ \<Rightarrow> Inr ())
           })
      })"

definition port_of_service :: "port_options \<Rightarrow> sandbox \<Rightarrow> service \<Rightarrow> port_info option" where
  "port_of_service po sb s =
     (case svc_ports s of
        [] \<Rightarrow> None
      | p # _ \<Rightarrow> Some
          \<lparr>pi_port = p, pi_protocol = ''http'',
           pi_preview = (if po_domain po = [] then []
                         else ''https://'' @ previewHost (sb_name sb) p (po_domain po) @ ''/''),
           pi_internal = internal_url (svc_name s) (svc_namespace s) p\<rparr>)"

definition ListPorts :: "port_options \<Rightarrow> 'w api \<Rightarrow> sandbox \<Rightarrow> ('w, string + port_info list) kprog" where
  "ListPorts po E sb = do {
     l \<leftarrow> ask E (PortCall (ListServices (sb_namespace sb)
                [(LabelManagedBy, ''true''), (LabelSandboxOf, sb_name sb)])) as_services;
     ret (case l of
            Inl e \<Rightarrow> Inl (''list port-forward services: '' @ err_text e)
          | Inr ss \<Rightarrow> Inr (List.map_filter (port_of_service po sb) ss))
   }"

section \<open>The handlers\<close>

definition port_json :: "port_info \<Rightarrow> json" where
  "port_json p =
     JObj ([(''port'', JInt (pi_port p)), (''protocol'', JText (pi_protocol p))]
        @ (if pi_preview p = [] then [] else [(''previewUrl'', JText (pi_preview p))])
        @ (if pi_internal p = [] then [] else [(''internalUrl'', JText (pi_internal p))]))"

text \<open>None: the list holds the port already.\<close>

definition appendForwardedPort :: "sandbox \<Rightarrow> port_info \<Rightarrow> sandbox option" where
  "appendForwardedPort sb p =
     (if list_ex (\<lambda>x. fp_port x = pi_port p) (st_ports (sb_status sb)) then None
      else Some (sb\<lparr>sb_status := (sb_status sb)
             \<lparr>st_ports := st_ports (sb_status sb)
                @ [\<lparr>fp_port = pi_port p, fp_preview_url = pi_preview p, fp_protocol = pi_protocol p\<rparr>]\<rparr>\<rparr>))"

fun drop_port :: "int \<Rightarrow> forwarded_port list \<Rightarrow> forwarded_port list option" where
  "drop_port port [] = None"
| "drop_port port (x # xs) =
     (if fp_port x = port then Some xs else map_option ((#) x) (drop_port port xs))"

definition removeForwardedPort :: "sandbox \<Rightarrow> int \<Rightarrow> sandbox option" where
  "removeForwardedPort sb port =
     map_option (\<lambda>ps. sb\<lparr>sb_status := (sb_status sb)\<lparr>st_ports := ps\<rparr>\<rparr>) (drop_port port (st_ports (sb_status sb)))"

definition handleListPorts ::
  "port_options \<Rightarrow> 'w api \<Rightarrow> 'k server \<Rightarrow> claims option \<Rightarrow> string \<Rightarrow> ('w, reply) kprog" where
  "handleListPorts po E sv claims sandboxID =
     (case claims of
        None \<Rightarrow> ret unauthenticated
      | Some cl \<Rightarrow> do {
          r \<leftarrow> getSandboxWithAuthCheck E sv sandboxID cl;
          (case r of
             Inl e \<Rightarrow> ret (respondError 404 e)
           | Inr sb \<Rightarrow> do {
               l \<leftarrow> ListPorts po E sb;
               ret (case l of
                      Inl e \<Rightarrow> respondError 500 (''failed to list ports: '' @ e)
                    | Inr ports \<Rightarrow> respondJSON 200 (JObj [(''ports'', JList (map port_json ports))]))
             })
        })"

text \<open>A failed update of the status is only logged.\<close>

definition handleForwardPort ::
  "port_options \<Rightarrow> 'w api \<Rightarrow> 'k server \<Rightarrow> claims option \<Rightarrow> string \<Rightarrow> string + int \<times> string \<Rightarrow> ('w, reply) kprog" where
  "handleForwardPort po E sv claims sandboxID body =
     (case claims of
        None \<Rightarrow> ret unauthenticated
      | Some cl \<Rightarrow> do {
          r \<leftarrow> getSandboxWithAuthCheck E sv sandboxID cl;
          (case r of
             Inl e \<Rightarrow> ret (respondError 404 e)
           | Inr sb \<Rightarrow>
               (case body of
                  Inl e \<Rightarrow> ret (respondError 400 (''invalid request body: '' @ e))
                | Inr (port, protocol) \<Rightarrow>
                    if port \<le> 0 then ret (respondError 400 ''port must be > 0'')
                    else do {
                      c \<leftarrow> CreatePort po E sb port protocol;
                      (case c of
                         Inl e \<Rightarrow> ret (respondError 500 (''failed to create port forward: '' @ e))
                       | Inr fp \<Rightarrow>
                           (case appendForwardedPort sb fp of
                              None \<Rightarrow> ret (respondJSON 201 (port_json fp))
                            | Some sb' \<Rightarrow> do {
                                tell E (UpdateSandboxStatus sb');
                                ret (respondJSON 201 (port_json fp))
                              }))
                    }))
        })"

text \<open>\<open>strconv.ParseInt\<close> to 32 bits in base ten.\<close>

definition digits_value :: "string \<Rightarrow> int" where
  "digits_value s = foldl (\<lambda>n c. n * 10 + int (digit_value c)) 0 s"

definition ParseInt32 :: "string \<Rightarrow> int option" where
  "ParseInt32 s =
     (let neg = (s \<noteq> [] \<and> hd s = CHR ''-'');
          ds = (if s \<noteq> [] \<and> hd s \<in> {CHR ''-'', CHR ''+''} then tl s else s);
          n = (if neg then - digits_value ds else digits_value ds)
      in if ds = [] \<or> \<not> list_all is_digit ds then None
         else if n < - (2 ^ 31) \<or> n \<ge> 2 ^ 31 then None
         else Some n)"

definition handleRemovePort ::
  "port_options \<Rightarrow> 'w api \<Rightarrow> 'k server \<Rightarrow> claims option \<Rightarrow> string \<Rightarrow> string \<Rightarrow> ('w, reply) kprog" where
  "handleRemovePort po E sv claims sandboxID portStr =
     (case claims of
        None \<Rightarrow> ret unauthenticated
      | Some cl \<Rightarrow> do {
          r \<leftarrow> getSandboxWithAuthCheck E sv sandboxID cl;
          (case r of
             Inl e \<Rightarrow> ret (respondError 404 e)
           | Inr sb \<Rightarrow>
               (case ParseInt32 portStr of
                  None \<Rightarrow> ret (respondError 400 (''invalid port: '' @ portStr))
                | Some port \<Rightarrow>
                    if port \<le> 0 then ret (respondError 400 (''invalid port: '' @ portStr))
                    else do {
                      d \<leftarrow> DeletePort E sb port;
                      (case d of
                         Inl e \<Rightarrow> ret (respondError 500 (''failed to remove port: '' @ e))
                       | Inr _ \<Rightarrow>
                           (case removeForwardedPort sb port of
                              None \<Rightarrow> ret (respondEmpty 204)
                            | Some sb' \<Rightarrow> do { tell E (UpdateSandboxStatus sb'); ret (respondEmpty 204) }))
                    }))
        })"

section \<open>The preview\<close>

text \<open>A request passed on to a sandbox: the host it is sent to, its path, and its headers. The reverse
  proxy of Go's library drops the hop-by-hop headers and keeps the others; those that it adds are
  not modelled.\<close>

record proxied =
  px_host :: string
  px_path :: string
  px_headers :: "string \<rightharpoonup> string"

definition hop_headers :: "string list" where
  "hop_headers =
     [''Connection'', ''Proxy-Connection'', ''Keep-Alive'', ''Proxy-Authenticate'', ''Proxy-Authorization'',
      ''Te'', ''Trailer'', ''Transfer-Encoding'', ''Upgrade'']"

definition Proxy :: "string \<Rightarrow> string \<Rightarrow> int \<Rightarrow> string \<Rightarrow> string \<Rightarrow> (string \<rightharpoonup> string) \<Rightarrow> proxied" where
  "Proxy sandboxName ns port stripPrefix path headers =
     \<lparr>px_host = serviceName sandboxName port @ ''.'' @ ns @ ''.svc.cluster.local:'' @ show_int port,
      px_path = (if stripPrefix \<noteq> [] \<and> has_prefix path stripPrefix
                 then ''/'' @ TrimPrefix (TrimPrefix path stripPrefix) ''/'' else path),
      px_headers = headers |` (- set hop_headers)\<rparr>"

definition preview_prefix :: "string \<Rightarrow> int \<Rightarrow> string" where
  "preview_prefix sandboxID port = ''/api/v1/sandboxes/'' @ sandboxID @ ''/preview/'' @ show_int port"

definition handlePortPreview ::
  "port_options \<Rightarrow> 'w api \<Rightarrow> 'k server \<Rightarrow> claims option \<Rightarrow> string \<Rightarrow> string \<Rightarrow> string \<Rightarrow> http_request
   \<Rightarrow> ('w, reply + proxied) kprog" where
  "handlePortPreview po E sv claims sandboxID portStr path req =
     (case claims of
        None \<Rightarrow> ret (Inl unauthenticated)
      | Some cl \<Rightarrow>
          (case ParseInt32 portStr of
             None \<Rightarrow> ret (Inl (respondError 400 (''invalid port: '' @ portStr)))
           | Some port \<Rightarrow>
               if port \<le> 0 then ret (Inl (respondError 400 (''invalid port: '' @ portStr)))
               else do {
                 r \<leftarrow> getSandboxWithAuthCheck E sv sandboxID cl;
                 (case r of
                    Inl e \<Rightarrow> ret (Inl (respondError 404 e))
                  | Inr sb \<Rightarrow>
                      if sb_phase sb \<noteq> SandboxPhaseRunning
                      then ret (Inl (respondError 409 ''sandbox is not running''))
                      else do {
                        l \<leftarrow> ListPorts po E sb;
                        ret (case l of
                               Inl e \<Rightarrow> Inl (respondError 500 (''failed to verify port: '' @ e))
                             | Inr ports \<Rightarrow>
                                 if \<not> list_ex (\<lambda>p. pi_port p = port) ports
                                 then Inl (respondError 404 (''port '' @ show_int port @ '' is not forwarded''))
                                 else Inr (Proxy (sb_name sb) (sb_namespace sb) port
                                             (preview_prefix sandboxID port) path (rq_headers req)))
                      })
               }))"

section \<open>Names\<close>

lemma show_nat_step: "n \<ge> 10 \<Longrightarrow> show_nat n = show_nat (n div 10) @ [digit_char (n mod 10)]"
  by (subst show_nat.simps) simp

lemma show_nat_digit: "n < 10 \<Longrightarrow> show_nat n = [digit_char n]"
  by (subst show_nat.simps) simp

lemma digits_of_show_nat: "list_all is_digit (show_nat n) \<and> digits_value (show_nat n) = int n"
proof (induction n rule: show_nat.induct)
  case (1 n)
  show ?case
  proof (cases "n < 10")
    case True
    then show ?thesis using digit_char_facts [of n] by (simp add: show_nat_digit digits_value_def)
  next
    case False
    have "int (n div 10) * 10 + int (n mod 10) = int n"
      by (metis div_mult_mod_eq of_nat_add of_nat_mult of_nat_numeral)
    then show ?thesis
      using False "1.IH" digit_char_facts [of "n mod 10"] by (simp add: show_nat_step digits_value_def)
  qed
qed

lemma show_int_nat: "0 \<le> a \<Longrightarrow> show_int a = show_nat (nat a)"
  by (simp add: show_int_def)

lemma digits_of_show_int: "0 \<le> a \<Longrightarrow> digits_value (show_int a) = a"
  using digits_of_show_nat [of "nat a"] by (simp only: show_int_nat int_nat_eq if_True)

lemma show_int_inj: "0 \<le> a \<Longrightarrow> 0 \<le> b \<Longrightarrow> show_int a = show_int b \<longleftrightarrow> a = b"
  by (metis digits_of_show_int)

lemma no_dash: "0 \<le> a \<Longrightarrow> CHR ''-'' \<notin> set (show_int a)"
proof
  assume "0 \<le> a" "CHR ''-'' \<in> set (show_int a)"
  then have "is_digit CHR ''-''"
    using digits_of_show_nat [of "nat a"] by (simp only: show_int_nat list_all_iff)
  then show False by (simp add: is_digit_def)
qed

lemma last_part: "c \<notin> set xs \<Longrightarrow> c \<notin> set ys \<Longrightarrow> as @ c # xs = bs @ c # ys \<Longrightarrow> as = bs \<and> xs = ys"
proof (induction as arbitrary: bs)
  case Nil
  then show ?case by (cases bs) auto
next
  case (Cons a as)
  then show ?case by (cases bs) auto
qed

lemma serviceName_inj:
  "0 \<le> p \<Longrightarrow> 0 \<le> q \<Longrightarrow> serviceName a p = serviceName b q \<longleftrightarrow> a = b \<and> p = q"
  using last_part [OF no_dash no_dash, of p q a b] show_int_inj [of p q] by (auto simp: serviceName_def)

text \<open>The host of a preview lacks the namespace: sandboxes of the same name in two namespaces claim
  the same host for the same port.\<close>

lemma preview_hosts_collide:
  "sb_name a = sb_name b
     \<Longrightarrow> ing_host (buildIngress n (sb_namespace a) (previewHost (sb_name a) p dm) p c a)
       = ing_host (buildIngress n (sb_namespace b) (previewHost (sb_name b) p dm) p c b)"
  by (simp add: buildIngress_def)

text \<open>The credentials of the caller reach the sandbox.\<close>

lemma credentials_reach_the_sandbox:
  "px_headers (Proxy n ns p strip path headers) ''X-API-Key'' = headers ''X-API-Key''"
  "px_headers (Proxy n ns p strip path headers) ''Authorization'' = headers ''Authorization''"
  by (simp_all add: Proxy_def hop_headers_def)

section \<open>Against a server that keeps its word\<close>

definition has_labels :: "(string \<times> string) list \<Rightarrow> labels \<Rightarrow> bool" where
  "has_labels ls m \<longleftrightarrow> list_all (\<lambda>(k, v). m k = Some v) ls"

text \<open>The API server's contract for services: \<open>svcs\<close> reads them out of the world. Calls about ingresses
  succeed and leave the services alone.\<close>

definition service_server :: "'w api \<Rightarrow> ('w \<Rightarrow> string \<times> string \<rightharpoonup> service) \<Rightarrow> bool" where
  "service_server E svcs \<longleftrightarrow>
     (\<forall>w ns n. E w (PortCall (GetService ns n)) =
        ((case svcs w (ns, n) of None \<Rightarrow> RErr NotFound | Some s \<Rightarrow> RService s), w))
     \<and> (\<forall>w s. svcs w (svc_namespace s, svc_name s) = None \<longrightarrow>
          (\<exists>w'. E w (PortCall (CreateService s)) = (ROk, w')
             \<and> svcs w' = (svcs w)((svc_namespace s, svc_name s) \<mapsto> s)))
     \<and> (\<forall>w s s0. svcs w (svc_namespace s, svc_name s) = Some s0 \<and> svc_version s = svc_version s0 \<longrightarrow>
          (\<exists>w'. E w (PortCall (UpdateService s)) = (ROk, w')
             \<and> svcs w' = (svcs w)((svc_namespace s, svc_name s) \<mapsto> s)))
     \<and> (\<forall>w ns n. \<exists>w'. E w (PortCall (DeleteService ns n)) =
          ((if svcs w (ns, n) = None then RErr NotFound else ROk), w') \<and> svcs w' = (svcs w)((ns, n) := None))
     \<and> (\<forall>w ns ls. \<exists>xs. E w (PortCall (ListServices ns ls)) = (RServices xs, w)
          \<and> set xs = {s. \<exists>n. svcs w (ns, n) = Some s \<and> has_labels ls (svc_labels s)})
     \<and> (\<forall>w ns n. \<exists>r w'. E w (PortCall (GetIngress ns n)) = (r, w') \<and> svcs w' = svcs w
          \<and> (r = RErr NotFound \<or> (\<exists>i. r = RIngress i)))
     \<and> (\<forall>w i. \<exists>w'. E w (PortCall (CreateIngress i)) = (ROk, w') \<and> svcs w' = svcs w)
     \<and> (\<forall>w i. \<exists>w'. E w (PortCall (UpdateIngress i)) = (ROk, w') \<and> svcs w' = svcs w)
     \<and> (\<forall>w ns n. \<exists>w'. E w (PortCall (DeleteIngress ns n)) = (ROk, w') \<and> svcs w' = svcs w)"

text \<open>The services of the manager for one sandbox, the ports they stand for, and the form that all of
  the manager's services have.\<close>

definition own_labels :: "string \<Rightarrow> (string \<times> string) list" where
  "own_labels sandbox = [(LabelManagedBy, ''true''), (LabelSandboxOf, sandbox)]"

definition ports_open :: "(string \<times> string \<rightharpoonup> service) \<Rightarrow> string \<Rightarrow> string \<Rightarrow> int set" where
  "ports_open m ns sandbox =
     {p. \<exists>n s. m (ns, n) = Some s \<and> has_labels (own_labels sandbox) (svc_labels s) \<and> svc_ports s = [p]}"

definition well_named :: "(string \<times> string \<rightharpoonup> service) \<Rightarrow> bool" where
  "well_named m \<longleftrightarrow>
     (\<forall>ns n s. m (ns, n) = Some s \<longrightarrow>
        (\<exists>p sandbox. 0 < p \<and> n = serviceName sandbox p \<and> svc_ports s = [p]
           \<and> (\<forall>sb. has_labels (own_labels sb) (svc_labels s) \<longleftrightarrow> sb = sandbox)))"

lemma own_labels_port [simp]: "has_labels (own_labels x) (port_labels sb p) \<longleftrightarrow> x = sb_name sb"
  by (auto simp: has_labels_def own_labels_def port_labels_def LabelManagedBy_def LabelSandboxOf_def LabelPort_def)

lemma well_namedD:
  assumes "well_named m" "m (ns, n) = Some s" "has_labels (own_labels x) (svc_labels s)"
  obtains q where "0 < q" "n = serviceName x q" "svc_ports s = [q]"
proof -
  from assms(1) [unfolded well_named_def, rule_format, OF assms(2)]
  obtain p y where y: "0 < p" "n = serviceName y p" "svc_ports s = [p]"
    and own: "\<And>x. has_labels (own_labels x) (svc_labels s) \<longleftrightarrow> x = y" by auto
  have "x = y" using own assms(3) by simp
  then show thesis using that y by simp
qed

lemma well_named_open:
  assumes "well_named m"
  shows "p \<in> ports_open m ns x \<longleftrightarrow>
     0 < p \<and> (\<exists>s. m (ns, serviceName x p) = Some s \<and> has_labels (own_labels x) (svc_labels s) \<and> svc_ports s = [p])"
    (is "?open \<longleftrightarrow> ?named")
proof
  assume ?open
  then obtain n s where s: "m (ns, n) = Some s" "has_labels (own_labels x) (svc_labels s)" "svc_ports s = [p]"
    by (auto simp: ports_open_def)
  from well_namedD [OF assms s(1,2)] show ?named using s by (metis list.inject)
qed (auto simp: ports_open_def)

text \<open>Under a well-named map a port is open exactly when the service of its name is there and belongs to
  its sandbox, so a change at one name changes one port of one sandbox.\<close>

lemma well_named_put:
  assumes "well_named m" "0 < p" "svc_labels s = port_labels sb p" "svc_ports s = [p]"
  defines "m' \<equiv> m((sb_namespace sb, serviceName (sb_name sb) p) \<mapsto> s)"
  shows "well_named m'"
    and "ports_open m' ns x = (if ns = sb_namespace sb \<and> x = sb_name sb then insert p (ports_open m ns x)
                               else ports_open m ns x)"
proof -
  show wn: "well_named m'"
    unfolding well_named_def m'_def using assms(1-4) by (auto simp: well_named_def)
  show "ports_open m' ns x = (if ns = sb_namespace sb \<and> x = sb_name sb then insert p (ports_open m ns x)
                               else ports_open m ns x)"
  proof (rule set_eqI)
    fix q
    show "q \<in> ports_open m' ns x \<longleftrightarrow> q \<in> (if ns = sb_namespace sb \<and> x = sb_name sb
        then insert p (ports_open m ns x) else ports_open m ns x)"
    proof (cases "0 < q \<and> serviceName x q = serviceName (sb_name sb) p")
      case True
      then have "q = p \<and> x = sb_name sb" using assms(2) by (metis serviceName_inj less_imp_le)
      then show ?thesis using True assms(2-4) by (simp add: well_named_open [OF wn [unfolded m'_def]] well_named_open [OF assms(1)] m'_def)
    next
      case False
      then have "\<not> (q = p \<and> x = sb_name sb)" using assms(2) by auto
      then show ?thesis
        using False by (auto simp: well_named_open [OF wn [unfolded m'_def]] well_named_open [OF assms(1)] m'_def)
    qed
  qed
qed

lemma well_named_drop:
  assumes "well_named m" "0 < p" and m': "m' = m((ns', serviceName y p) := None)"
  shows "well_named m'"
    and "ports_open m' ns x = (if ns = ns' \<and> x = y then ports_open m ns x - {p} else ports_open m ns x)"
proof -
  show wn: "well_named m'" unfolding well_named_def m' using assms(1) by (auto simp: well_named_def)
  show "ports_open m' ns x = (if ns = ns' \<and> x = y then ports_open m ns x - {p} else ports_open m ns x)"
  proof (rule set_eqI)
    fix q
    show "q \<in> ports_open m' ns x \<longleftrightarrow> q \<in> (if ns = ns' \<and> x = y then ports_open m ns x - {p} else ports_open m ns x)"
    proof (cases "0 < q \<and> serviceName x q = serviceName y p")
      case True
      then have "q = p \<and> x = y" using assms(2) by (metis serviceName_inj less_imp_le)
      then show ?thesis using True by (simp add: well_named_open [OF wn [unfolded m']] well_named_open [OF assms(1)] m')
    next
      case False
      then have "\<not> (q = p \<and> x = y)" using assms(2) by auto
      then show ?thesis
        using False by (auto simp: well_named_open [OF wn [unfolded m']] well_named_open [OF assms(1)] m')
    qed
  qed
qed

text \<open>The calls of the manager against such a server.\<close>

lemma srv_get:
  "service_server E svcs \<Longrightarrow> E w (PortCall (GetService ns n)) =
      ((case svcs w (ns, n) of None \<Rightarrow> RErr NotFound | Some s \<Rightarrow> RService s), w)"
  unfolding service_server_def by (elim conjE) blast

lemma srv_create:
  "service_server E svcs \<Longrightarrow> svcs w (svc_namespace s, svc_name s) = None \<Longrightarrow>
      \<exists>w'. E w (PortCall (CreateService s)) = (ROk, w') \<and> svcs w' = (svcs w)((svc_namespace s, svc_name s) \<mapsto> s)"
  unfolding service_server_def by (elim conjE) blast

lemma srv_update:
  "service_server E svcs \<Longrightarrow> svcs w (svc_namespace s, svc_name s) = Some s0 \<Longrightarrow> svc_version s = svc_version s0 \<Longrightarrow>
      \<exists>w'. E w (PortCall (UpdateService s)) = (ROk, w') \<and> svcs w' = (svcs w)((svc_namespace s, svc_name s) \<mapsto> s)"
  unfolding service_server_def by (elim conjE) blast

lemma srv_delete:
  "service_server E svcs \<Longrightarrow> \<exists>w'. E w (PortCall (DeleteService ns n)) = ((if svcs w (ns, n) = None then RErr NotFound else ROk), w')
      \<and> svcs w' = (svcs w)((ns, n) := None)"
  unfolding service_server_def by (elim conjE) blast

lemma srv_list:
  "service_server E svcs \<Longrightarrow> \<exists>xs. E w (PortCall (ListServices ns ls)) = (RServices xs, w)
      \<and> set xs = {s. \<exists>n. svcs w (ns, n) = Some s \<and> has_labels ls (svc_labels s)}"
  unfolding service_server_def by (elim conjE) blast

lemma srv_get_ing:
  "service_server E svcs \<Longrightarrow> \<exists>r w'. E w (PortCall (GetIngress ns n)) = (r, w') \<and> svcs w' = svcs w
      \<and> (r = RErr NotFound \<or> (\<exists>i. r = RIngress i))"
  unfolding service_server_def by (elim conjE) simp

lemma srv_create_ing:
  "service_server E svcs \<Longrightarrow> \<exists>w'. E w (PortCall (CreateIngress i)) = (ROk, w') \<and> svcs w' = svcs w"
  unfolding service_server_def by (elim conjE) simp

lemma srv_update_ing:
  "service_server E svcs \<Longrightarrow> \<exists>w'. E w (PortCall (UpdateIngress i)) = (ROk, w') \<and> svcs w' = svcs w"
  unfolding service_server_def by (elim conjE) simp

lemma srv_delete_ing:
  "service_server E svcs \<Longrightarrow> \<exists>w'. E w (PortCall (DeleteIngress ns n)) = (ROk, w') \<and> svcs w' = svcs w"
  unfolding service_server_def by (elim conjE) simp

lemma port_service_simps [simp]:
  "svc_namespace (port_service sb p) = sb_namespace sb" "svc_name (port_service sb p) = serviceName (sb_name sb) p"
  "svc_labels (port_service sb p) = port_labels sb p" "svc_ports (port_service sb p) = [p]"
  by (simp_all add: port_service_def)

lemma upsertService_run:
  assumes "service_server E svcs" "svc_namespace s = ns" "svc_name s = n"
  shows "\<exists>w' l' s'. run_state (upsertService E s) (w, l) = (Inr (), (w', l')) \<and> svcs w' = (svcs w)((ns, n) \<mapsto> s')
    \<and> svc_labels s' = svc_labels s \<and> svc_ports s' = svc_ports s"
proof (cases "svcs w (ns, n)")
  case None
  then obtain w' where "E w (PortCall (CreateService s)) = (ROk, w')" "svcs w' = (svcs w)((ns, n) \<mapsto> s)"
    using srv_create [OF assms(1), of w s] assms(2,3) by auto
  then show ?thesis
    using None assms(2,3) by (auto simp: upsertService_def run_bind srv_get [OF assms(1)])
next
  case (Some s0)
  let ?s = "s\<lparr>svc_version := svc_version s0, svc_cluster_ip := svc_cluster_ip s0\<rparr>"
  obtain w' where "E w (PortCall (UpdateService ?s)) = (ROk, w')" "svcs w' = (svcs w)((ns, n) \<mapsto> ?s)"
    using srv_update [OF assms(1), of w ?s s0] Some assms(2,3) by auto
  then show ?thesis
    using Some assms(2,3) by (auto simp: upsertService_def run_bind srv_get [OF assms(1)])
qed

lemma upsertIngress_run:
  assumes "service_server E svcs"
  shows "\<exists>w' l'. run_state (upsertIngress E i) (w, l) = (Inr (), (w', l')) \<and> svcs w' = svcs w"
proof -
  obtain r w1 where get: "E w (PortCall (GetIngress (ing_namespace i) (ing_name i))) = (r, w1)" "svcs w1 = svcs w"
    "r = RErr NotFound \<or> (\<exists>j. r = RIngress j)"
    using srv_get_ing [OF assms] by blast
  obtain w2 where new: "E w1 (PortCall (CreateIngress i)) = (ROk, w2)" "svcs w2 = svcs w1"
    using srv_create_ing [OF assms] by blast
  have "\<exists>w3. E w1 (PortCall (UpdateIngress j)) = (ROk, w3) \<and> svcs w3 = svcs w1" for j
    using srv_update_ing [OF assms] by blast
  then obtain u where u: "\<And>j. E w1 (PortCall (UpdateIngress j)) = (ROk, u j) \<and> svcs (u j) = svcs w1" by metis
  from get(3) show ?thesis using get(1,2) new u by (auto simp: upsertIngress_def run_bind)
qed

lemma CreatePort_run:
  assumes "service_server E svcs" "well_named (svcs w)" "1 \<le> port" "port \<le> 65535"
  shows "\<exists>info w' l' s'. run_state (CreatePort po E sb port proto) (w, l) = (Inr info, (w', l'))
    \<and> svcs w' = (svcs w)((sb_namespace sb, serviceName (sb_name sb) port) \<mapsto> s')
    \<and> svc_labels s' = port_labels sb port \<and> svc_ports s' = [port]"
proof -
  obtain w1 l1 s' where up: "run_state (upsertService E (port_service sb port)) (w, l) = (Inr (), (w1, l1))"
    "svcs w1 = (svcs w)((sb_namespace sb, serviceName (sb_name sb) port) \<mapsto> s')"
    "svc_labels s' = port_labels sb port" "svc_ports s' = [port]"
    using upsertService_run [OF assms(1), of "port_service sb port" "sb_namespace sb"
        "serviceName (sb_name sb) port" w l] by auto
  have "\<exists>w' l'. run_state (upsertIngress E i) (w1, l1) = (Inr (), (w', l')) \<and> svcs w' = svcs w1" for i
    by (rule upsertIngress_run [OF assms(1)])
  then obtain w2 l2 where "run_state (upsertIngress E (buildIngress (serviceName (sb_name sb) port) (sb_namespace sb)
      (previewHost (sb_name sb) port (po_domain po)) port (po_class po) sb)) (w1, l1) = (Inr (), (w2, l2))"
    "svcs w2 = svcs w1" by blast
  then show ?thesis using up assms(3,4) by (auto simp: CreatePort_def run_bind Let_def)
qed

lemma DeletePort_run:
  assumes "service_server E svcs"
  shows "\<exists>w' l'. run_state (DeletePort E sb port) (w, l) = (Inr (), (w', l'))
    \<and> svcs w' = (svcs w)((sb_namespace sb, serviceName (sb_name sb) port) := None)"
proof -
  let ?n = "serviceName (sb_name sb) port"
  obtain w1 where d: "E w (PortCall (DeleteService (sb_namespace sb) ?n)) =
      ((if svcs w (sb_namespace sb, ?n) = None then RErr NotFound else ROk), w1)"
    "svcs w1 = (svcs w)((sb_namespace sb, ?n) := None)"
    using srv_delete [OF assms] by blast
  obtain w2 where "E w1 (PortCall (DeleteIngress (sb_namespace sb) ?n)) = (ROk, w2)" "svcs w2 = svcs w1"
    using srv_delete_ing [OF assms] by blast
  then show ?thesis using d by (auto simp: DeletePort_def run_bind Let_def)
qed

lemma ports_of_services:
  "\<forall>s \<in> set xs. \<exists>p. svc_ports s = [p]
     \<Longrightarrow> pi_port ` set (List.map_filter (port_of_service po sb) xs) = {p. \<exists>s \<in> set xs. svc_ports s = [p]}"
proof (induction xs)
  case Nil
  then show ?case by simp
next
  case (Cons s xs)
  then obtain p where p: "svc_ports s = [p]" by auto
  have rest: "pi_port ` set (List.map_filter (port_of_service po sb) xs) = {p. \<exists>s \<in> set xs. svc_ports s = [p]}"
    using Cons by simp
  obtain i where "port_of_service po sb s = Some i" "pi_port i = p" using p by (simp add: port_of_service_def)
  then have "pi_port ` set (List.map_filter (port_of_service po sb) (s # xs))
      = insert p (pi_port ` set (List.map_filter (port_of_service po sb) xs))" by simp
  then show ?case using rest p by auto
qed

lemma ListPorts_run:
  assumes "service_server E svcs" "well_named (svcs w)"
  shows "\<exists>ps l'. run_state (ListPorts po E sb) (w, l) = (Inr ps, (w, l'))
    \<and> pi_port ` set ps = ports_open (svcs w) (sb_namespace sb) (sb_name sb)"
proof -
  obtain xs where xs: "E w (PortCall (ListServices (sb_namespace sb) (own_labels (sb_name sb)))) = (RServices xs, w)"
    "set xs = {s. \<exists>n. svcs w (sb_namespace sb, n) = Some s \<and> has_labels (own_labels (sb_name sb)) (svc_labels s)}"
    using srv_list [OF assms(1)] by blast
  have one: "\<exists>p. svc_ports s = [p]" if "s \<in> set xs" for s
    using that xs(2) assms(2) by (fastforce simp: well_named_def)
  have "pi_port ` set (List.map_filter (port_of_service po sb) xs) = {p. \<exists>s \<in> set xs. svc_ports s = [p]}"
    by (rule ports_of_services) (simp add: one)
  also have "\<dots> = ports_open (svcs w) (sb_namespace sb) (sb_name sb)"
    unfolding ports_open_def xs(2) by blast
  finally show ?thesis using xs(1) by (auto simp: ListPorts_def run_bind own_labels_def)
qed

section \<open>Properties\<close>

text \<open>Against an API server that keeps its word about services, the manager keeps the set of open
  ports of each sandbox: listing returns exactly the set, forwarding a port always succeeds and adds
  just this port to just this sandbox, also when it was open before, removing one takes away just
  this port, and no operation disturbs the ports of another sandbox of the namespace, whatever its
  name.\<close>
theorem forwarded_ports_are_a_set_per_sandbox:
  assumes "service_server E svcs" "well_named (svcs w)" "1 \<le> port" "port \<le> 65535"
  shows "(\<exists>ps l'. run_state (ListPorts po E sb) (w, l) = (Inr ps, (w, l'))
            \<and> pi_port ` set ps = ports_open (svcs w) (sb_namespace sb) (sb_name sb))
    \<and> (\<exists>i w' l'. run_state (CreatePort po E sb port proto) (w, l) = (Inr i, (w', l')) \<and> well_named (svcs w')
         \<and> ports_open (svcs w') = (\<lambda>ns x. if ns = sb_namespace sb \<and> x = sb_name sb
              then insert port (ports_open (svcs w) ns x) else ports_open (svcs w) ns x))
    \<and> (\<exists>w' l'. run_state (DeletePort E sb port) (w, l) = (Inr (), (w', l')) \<and> well_named (svcs w')
         \<and> ports_open (svcs w') = (\<lambda>ns x. if ns = sb_namespace sb \<and> x = sb_name sb
              then ports_open (svcs w) ns x - {port} else ports_open (svcs w) ns x))"
proof (intro conjI)
  show "\<exists>ps l'. run_state (ListPorts po E sb) (w, l) = (Inr ps, (w, l'))
      \<and> pi_port ` set ps = ports_open (svcs w) (sb_namespace sb) (sb_name sb)"
    by (rule ListPorts_run [OF assms(1,2)])
next
  obtain i w' l' s' where c: "run_state (CreatePort po E sb port proto) (w, l) = (Inr i, (w', l'))"
    "svcs w' = (svcs w)((sb_namespace sb, serviceName (sb_name sb) port) \<mapsto> s')"
    "svc_labels s' = port_labels sb port" "svc_ports s' = [port]"
    using CreatePort_run [OF assms] by blast
  have p: "0 < port" using assms(3) by simp
  note put = well_named_put [OF assms(2) p c(3,4)]
  show "\<exists>i w' l'. run_state (CreatePort po E sb port proto) (w, l) = (Inr i, (w', l')) \<and> well_named (svcs w')
      \<and> ports_open (svcs w') = (\<lambda>ns x. if ns = sb_namespace sb \<and> x = sb_name sb
           then insert port (ports_open (svcs w) ns x) else ports_open (svcs w) ns x)"
    by (intro exI conjI, rule c(1), rule put(1) [folded c(2)], intro ext, rule put(2) [folded c(2)])
next
  obtain w' l' where d: "run_state (DeletePort E sb port) (w, l) = (Inr (), (w', l'))"
    "svcs w' = (svcs w)((sb_namespace sb, serviceName (sb_name sb) port) := None)"
    using DeletePort_run [OF assms(1)] by blast
  have p: "0 < port" using assms(3) by simp
  note drop = well_named_drop [OF assms(2) p d(2)]
  show "\<exists>w' l'. run_state (DeletePort E sb port) (w, l) = (Inr (), (w', l')) \<and> well_named (svcs w')
      \<and> ports_open (svcs w') = (\<lambda>ns x. if ns = sb_namespace sb \<and> x = sb_name sb
           then ports_open (svcs w) ns x - {port} else ports_open (svcs w) ns x)"
    by (intro exI conjI, rule d(1), rule drop(1), intro ext, rule drop(2))
qed

text \<open>A server for services alone, with a list as its store.\<close>

type_synonym service_store = "((string \<times> string) \<times> service) list"

definition under_key :: "(string \<times> string) \<times> service \<Rightarrow> bool" where
  "under_key e \<longleftrightarrow> fst e = (svc_namespace (snd e), svc_name (snd e))"

fun tiny_service_server :: "service_store api" where
  "tiny_service_server w (PortCall (GetService ns n)) =
     ((case map_of w (ns, n) of None \<Rightarrow> RErr NotFound | Some s \<Rightarrow> RService s), w)"
| "tiny_service_server w (PortCall (CreateService s)) = (ROk, ((svc_namespace s, svc_name s), s) # w)"
| "tiny_service_server w (PortCall (UpdateService s)) = (ROk, ((svc_namespace s, svc_name s), s) # w)"
| "tiny_service_server w (PortCall (DeleteService ns n)) =
     ((if map_of w (ns, n) = None then RErr NotFound else ROk), filter (\<lambda>e. fst e \<noteq> (ns, n)) w)"
| "tiny_service_server w (PortCall (ListServices ns ls)) =
     (RServices (map snd (filter (\<lambda>(k, s). fst k = ns \<and> map_of w k = Some s \<and> has_labels ls (svc_labels s)) w)), w)"
| "tiny_service_server w (PortCall (GetIngress ns n)) = (RErr NotFound, w)"
| "tiny_service_server w _ = (ROk, w)"

lemma map_of_without: "map_of (filter (\<lambda>e. fst e \<noteq> k) w) = (map_of w)(k := None)"
  by (induction w) (auto simp: fun_eq_iff)

lemma tiny_service_server_ok: "service_server tiny_service_server map_of"
  unfolding service_server_def
  by (auto simp: map_of_without split: option.splits) (force intro: map_of_SomeD)+

definition web_box :: sandbox where "web_box = new_sandbox ''default'' ''web'' empty_spec"

theorem forwarded_ports_are_a_set_per_sandbox_witness:
  "\<exists>i w' l'. run_state (CreatePort \<lparr>po_domain = ''p.io'', po_class = []\<rparr> tiny_service_server web_box 8080 []) ([], [])
       = (Inr i, (w', l')) \<and> ports_open (map_of w') ''default'' ''web'' = {8080}"
proof -
  have none: "ports_open Map.empty ns x = {}" for ns x by (simp add: ports_open_def)
  have "well_named (map_of [])" by (simp add: well_named_def)
  from forwarded_ports_are_a_set_per_sandbox [OF tiny_service_server_ok this, of 8080 "\<lparr>po_domain = ''p.io'', po_class = []\<rparr>"
      web_box "[]" "[]"]
  obtain i w' l' where "run_state (CreatePort \<lparr>po_domain = ''p.io'', po_class = []\<rparr> tiny_service_server web_box 8080 [])
      ([], []) = (Inr i, (w', l'))"
    "ports_open (map_of w') = (\<lambda>ns x. if ns = sb_namespace web_box \<and> x = sb_name web_box
       then insert 8080 (ports_open (map_of []) ns x) else ports_open (map_of []) ns x)" by auto
  then show ?thesis by (auto simp: none web_box_def new_sandbox_def)
qed

text \<open>What may be said of a preview that is passed on.\<close>

definition open_in_trace :: "sandbox \<Rightarrow> int \<Rightarrow> trace \<Rightarrow> bool" where
  "open_in_trace sb port t \<longleftrightarrow>
     (\<exists>ss s. (PortCall (ListServices (sb_namespace sb) (own_labels (sb_name sb))), RServices ss) \<in> set t
        \<and> s \<in> set ss \<and> svc_ports s \<noteq> [] \<and> hd (svc_ports s) = port)"

definition preview_ok :: "claims option \<Rightarrow> http_request \<Rightarrow> reply + proxied \<Rightarrow> trace \<Rightarrow> bool" where
  "preview_ok claims req out t \<longleftrightarrow>
     (case out of
        Inl _ \<Rightarrow> True
      | Inr px \<Rightarrow> (\<exists>cl sb port. claims = Some cl \<and> sb \<in> set (delivered t) \<and> (cl_admin cl \<or> owns cl sb)
          \<and> sb_phase sb = SandboxPhaseRunning \<and> 0 < port \<and> port < 2 ^ 31 \<and> open_in_trace sb port t
          \<and> px_host px = serviceName (sb_name sb) port @ ''.'' @ sb_namespace sb @ ''.svc.cluster.local:'' @ show_int port
          \<and> px_headers px = rq_headers req |` (- set hop_headers)))"

lemma ListPorts_traces:
  "traces (ListPorts po E sb) (\<lambda>r t. delivered t = [] \<and> (\<forall>ps. r = Inr ps \<longrightarrow> (\<forall>p \<in> set ps. open_in_trace sb (pi_port p) t)))"
  unfolding ListPorts_def
  by (intro tr)
    (auto simp: open_in_trace_def own_labels_def map_filter_def port_of_service_def as_Inr split: sum.splits list.splits)

lemma open_in_trace_append: "open_in_trace sb port t' \<Longrightarrow> open_in_trace sb port (t @ t')"
  unfolding open_in_trace_def by auto

lemma preview_ok_reply [simp]: "preview_ok claims req (Inl r) t"
  by (simp add: preview_ok_def)

lemma preview_okI:
  assumes "claims = Some cl" "sb \<in> set (delivered t)" "cl_admin cl \<or> owns cl sb" "sb_phase sb = SandboxPhaseRunning"
    "0 < port" "port < 2 ^ 31" "open_in_trace sb port t'"
  shows "preview_ok claims req
    (Inr (Proxy (sb_name sb) (sb_namespace sb) port strip path (rq_headers req))) (t @ t')"
  using assms open_in_trace_append [OF assms(7), of t] unfolding preview_ok_def by (auto simp: Proxy_def)

lemma traces_looked_up:
  assumes "\<And>e t. traces (f (Inl e)) (\<lambda>b t'. Q b (t @ t'))"
    and "\<And>sb t. sb \<in> set (delivered t) \<Longrightarrow> cl_admin cl \<or> owns cl sb \<Longrightarrow> traces (f (Inr sb)) (\<lambda>b t'. Q b (t @ t'))"
  shows "traces (State_Monad.bind (getSandboxWithAuthCheck E sv i cl) f) Q"
proof (rule traces_bind [OF getSandboxWithAuthCheck_traces])
  fix r :: "string + sandbox" and t
  assume "reads_sandboxes t \<and> (\<forall>sb. r = Inr sb \<longrightarrow> sb \<in> set (delivered t) \<and> (cl_admin cl \<or> owns cl sb))"
  then show "traces (f r) (\<lambda>b t'. Q b (t @ t'))" by (cases r) (simp_all add: assms)
qed

text \<open>C28. A preview passes a request on only for an authenticated caller, to a running sandbox that the
  API server delivered and that the caller owns or administers, on a port that the listing of this
  run shows as forwarded for it, and only to the service of that port; all headers but the
  hop-by-hop ones go with it.\<close>
theorem previews_reach_own_forwarded_ports_only:
  "traces (handlePortPreview po E sv claims sandboxID portStr path req) (preview_ok claims req)"
proof (cases claims)
  case None
  then show ?thesis by (auto simp: handlePortPreview_def preview_ok_def intro!: tr)
next
  case (Some cl)
  have range: "ParseInt32 s = Some p \<Longrightarrow> p < 2 ^ 31" for s p
    by (auto simp: ParseInt32_def Let_def split: if_splits)
  show ?thesis
    unfolding handlePortPreview_def Some option.case
    apply (rule traces_case_option)
     apply (simp add: preview_ok_def traces_ret)
    apply (rule traces_if)
     apply (simp add: preview_ok_def traces_ret)
    apply (rule traces_looked_up)
     apply (simp add: preview_ok_def traces_ret)
    apply simp
    apply (intro impI conjI)
     apply (simp add: preview_ok_def traces_ret)
    apply (rule traces_bind [OF ListPorts_traces])
    apply (rule traces_ret)
    apply (auto simp: list_ex_iff split: sum.splits intro!: preview_okI [OF refl] dest: range)
    done
qed

end
