(* ===== verification/Shell.thy ===== *)
theory Shell
  imports Prelude
begin

text \<open>
  Command lines for \<open>/bin/sh\<close>. First what a POSIX shell reads from a line without expansions
  (\<open>sh_words\<close>), as the measure for the quoting that the router does; then \<open>shellQuote\<close> and
  \<open>buildInvokeCommand\<close> of \<open>pkg/router/agent/invoke.go\<close>, and lemmas on text in quotes that the file
  handlers and the agent's configuration share.
\<close>

section \<open>What a shell reads\<close>

text \<open>A line is read into words and operator characters. Inside single quotes every character stands
  for itself. A line with an expansion, a comment or an open quote has no reading here.\<close>

datatype sh_token = Word string | Op char

datatype sh_mode = Bare | Single | Double

definition word_so_far :: "string option \<Rightarrow> string" where
  "word_so_far w = (case w of None \<Rightarrow> [] | Some s \<Rightarrow> s)"

definition word_end :: "string option \<Rightarrow> sh_token list" where
  "word_end w = (case w of None \<Rightarrow> [] | Some s \<Rightarrow> [Word s])"

definition sh_operators :: string where
  "sh_operators = [CHR ''&'', CHR ''|'', CHR '';'', CHR ''<'', CHR ''>'', CHR ''('', CHR '')'', CHR 0x0A]"

definition sh_specials :: string where
  "sh_specials = [CHR ''$'', CHR 0x60, CHR 0x5C, CHR ''*'', CHR ''?'', CHR ''['', CHR ''~'', CHR ''#'',
                  CHR ''!'', CHR ''{'', CHR ''}'']"

fun sh_read :: "sh_mode \<Rightarrow> string option \<Rightarrow> string \<Rightarrow> sh_token list option" where
  "sh_read Bare w [] = Some (word_end w)"
| "sh_read Single w [] = None"
| "sh_read Double w [] = None"
| "sh_read Single w (c # cs) =
     (if c = CHR 0x27 then sh_read Bare (Some (word_so_far w)) cs
      else sh_read Single (Some (word_so_far w @ [c])) cs)"
| "sh_read Double w (c # cs) =
     (if c = CHR 0x22 then sh_read Bare (Some (word_so_far w)) cs
      else if c \<in> {CHR ''$'', CHR 0x60, CHR 0x5C} then None
      else sh_read Double (Some (word_so_far w @ [c])) cs)"
| "sh_read Bare w (c # cs) =
     (if c = CHR '' '' \<or> c = CHR 0x09 then map_option ((@) (word_end w)) (sh_read Bare None cs)
      else if c = CHR 0x27 then sh_read Single (Some (word_so_far w)) cs
      else if c = CHR 0x22 then sh_read Double (Some (word_so_far w)) cs
      else if c \<in> set sh_operators then map_option (\<lambda>ts. word_end w @ Op c # ts) (sh_read Bare None cs)
      else if c \<in> set sh_specials then None
      else sh_read Bare (Some (word_so_far w @ [c])) cs)"

definition sh_words :: "string \<Rightarrow> sh_token list option" where
  "sh_words s = sh_read Bare None s"

text \<open>Characters that stand for themselves outside quotes.\<close>

definition sh_plain :: "char \<Rightarrow> bool" where
  "sh_plain c \<longleftrightarrow> c \<notin> {CHR '' '', CHR 0x09, CHR 0x27, CHR 0x22} \<and> c \<notin> set sh_operators \<and> c \<notin> set sh_specials"

lemma word_so_far_simps [simp]: "word_so_far None = []" "word_so_far (Some s) = s"
  by (simp_all add: word_so_far_def)

lemma word_end_simps [simp]: "word_end None = []" "word_end (Some s) = [Word s]"
  by (simp_all add: word_end_def)

lemma sh_read_plain:
  "list_all sh_plain s \<Longrightarrow> sh_read Bare (Some w) (s @ cs) = sh_read Bare (Some (w @ s)) cs"
  by (induction s arbitrary: w) (auto simp: sh_plain_def)

lemma sh_read_plain_word:
  "list_all sh_plain s \<Longrightarrow> s \<noteq> [] \<Longrightarrow> sh_read Bare None (s @ cs) = sh_read Bare (Some s) cs"
  using sh_read_plain [of "tl s" "[hd s]" cs] by (cases s) (auto simp: sh_plain_def)

lemma sh_read_single:
  "CHR 0x27 \<notin> set s \<Longrightarrow> sh_read Single (Some w) (s @ CHR 0x27 # cs) = sh_read Bare (Some (w @ s)) cs"
  by (induction s arbitrary: w) auto

lemma sh_read_double:
  "list_all (\<lambda>c. c \<notin> {CHR 0x22, CHR ''$'', CHR 0x60, CHR 0x5C}) s
     \<Longrightarrow> sh_read Double (Some w) (s @ CHR 0x22 # cs) = sh_read Bare (Some (w @ s)) cs"
  by (induction s arbitrary: w) auto

section \<open>Quoting\<close>

definition needs_quotes :: "char \<Rightarrow> bool" where
  "needs_quotes c \<longleftrightarrow>
     c \<in> {CHR 0x27, CHR 0x5C, CHR 0x22, CHR ''$'', CHR 0x60, CHR ''!'', CHR ''*'', CHR ''?'', CHR ''['', CHR '' '',
          CHR 0x09, CHR 0x0A, CHR ''#'', CHR ''&'', CHR ''|'', CHR '';'', CHR ''<'', CHR ''>'', CHR ''('', CHR '')'',
          CHR ''{'', CHR ''}'', CHR ''~''}"

text \<open>\<open>ReplaceAll\<close> of a single quote by the text that closes the quotes, quotes it, and opens them again.\<close>

definition requoted :: "char \<Rightarrow> string" where
  "requoted c = (if c = CHR 0x27 then [CHR 0x27, CHR 0x22, CHR 0x27, CHR 0x22, CHR 0x27] else [c])"

definition shellQuote :: "string \<Rightarrow> string" where
  "shellQuote s =
     (if s = [] then [CHR 0x27, CHR 0x27]
      else if \<not> list_ex needs_quotes s then s
      else CHR 0x27 # concat (map requoted s) @ [CHR 0x27])"

definition join_with :: "string \<Rightarrow> string list \<Rightarrow> string" where
  "join_with sep xs =
     (case xs of [] \<Rightarrow> [] | x # rest \<Rightarrow> x @ concat (map (\<lambda>y. sep @ y) rest))"

definition buildInvokeCommand :: "string list \<Rightarrow> string list" where
  "buildInvokeCommand argv = [''/bin/sh'', ''-c'', join_with '' '' (map shellQuote argv)]"

lemma plain_iff: "sh_plain c \<longleftrightarrow> \<not> needs_quotes c"
  by (auto simp: sh_plain_def needs_quotes_def sh_operators_def sh_specials_def)

lemma sh_read_requoted:
  "sh_read Single (Some w) (concat (map requoted s) @ CHR 0x27 # cs) = sh_read Bare (Some (w @ s)) cs"
  by (induction s arbitrary: w) (auto simp: requoted_def)

lemma sh_read_shellQuote: "sh_read Bare None (shellQuote s @ cs) = sh_read Bare (Some s) cs"
  using sh_read_plain_word [of s cs] sh_read_requoted [of "[]" s cs]
  by (auto simp: shellQuote_def list_all_iff list_ex_iff plain_iff)

lemma sh_read_quoted_words:
  "sh_read Bare None (join_with '' '' (map shellQuote argv)) = Some (map Word argv)"
proof (cases argv)
  case (Cons a rest)
  have "sh_read Bare (Some a) (concat (map (\<lambda>y. '' '' @ shellQuote y) rest)) = Some (map Word (a # rest))" for a
    by (induction rest arbitrary: a) (simp_all add: sh_read_shellQuote)
  then show ?thesis by (simp add: Cons join_with_def sh_read_shellQuote comp_def)
qed (simp add: join_with_def)

text \<open>C32. Round trip of the agent's arguments through the shell: from the line that is handed to
  the shell, a shell reads exactly the entrypoint's words, the prompt included, whatever characters they
  contain; no word is split, expanded or taken for an operator.\<close>
theorem invoked_arguments_survive_the_shell:
  "\<exists>line. buildInvokeCommand argv = [''/bin/sh'', ''-c'', line] \<and> sh_words line = Some (map Word argv)"
  by (simp add: buildInvokeCommand_def sh_words_def sh_read_quoted_words)

text \<open>A word that assigns a variable is not quoted, so as the first one it is no command.\<close>

lemma assignments_stay_bare: "shellQuote ''LANG=C'' = ''LANG=C''"
  by (simp add: shellQuote_def needs_quotes_def)

end
