(* ===== verification/Exec_Dispatch.thy ===== *)
theory Exec_Dispatch
  imports Key_Handlers
begin

text \<open>
  Running a command in a sandbox: the bridge to the pod's exec endpoint
  (\<open>pkg/router/terminal/bridge.go\<close>), the client of the runtime inside the pod
  (\<open>pkg/router/sandboxhttp/client.go\<close>), the choice between the two
  (\<open>pkg/router/exec_dispatch.go\<close>) and the exec handler of \<open>handlers.go\<close>.
\<close>

section \<open>The bridge\<close>

record command_result =
  cr_stdout :: string
  cr_stderr :: string
  cr_exit :: int

text \<open>\<open>limitedBuffer\<close>: the writes of a stream, kept up to a maximum.\<close>

definition limited_write :: "nat \<Rightarrow> string \<Rightarrow> string \<Rightarrow> string" where
  "limited_write maxSize buf p =
     (if maxSize \<le> length buf then buf
      else if length p > maxSize - length buf then buf @ take (maxSize - length buf) p
      else buf @ p)"

definition limited :: "nat \<Rightarrow> string list \<Rightarrow> string" where
  "limited maxSize ps = foldl (limited_write maxSize) [] ps"

lemma limited_take: "foldl (limited_write n) (take n b) ps = take n (b @ concat ps)"
proof (induction ps arbitrary: b)
  case (Cons p ps)
  have "limited_write n (take n b) p = take n (b @ p)"
    by (auto simp: limited_write_def)
  then show ?case using Cons.IH [of "b @ p"] by simp
qed simp

lemma limited_eq: "limited n ps = take n (concat ps)"
  using limited_take [of n "[]" ps] by (simp add: limited_def)

text \<open>How the stream ended: \<open>Inr\<close> the command's exit code, \<open>Inl\<close> any other error. An error before
  the stream is the error of the whole call.\<close>

fun as_stream :: "response \<Rightarrow> api_err + (api_err + int) \<times> string \<times> string" where
  "as_stream (RExec r out err) = Inr (r, out, err)"
| "as_stream (RErr e) = Inl e"
| "as_stream _ = Inl bad_response"

definition extractExitCode :: "api_err + int \<Rightarrow> int" where
  "extractExitCode r = (case r of Inl _ \<Rightarrow> - 1 | Inr code \<Rightarrow> code)"

definition output_limit :: nat where "output_limit = 2 ^ 20"

text \<open>The time-out is an argument of the code as well, and unused there.\<close>

definition ExecCommand ::
  "'w api \<Rightarrow> string \<Rightarrow> string \<Rightarrow> string \<Rightarrow> string list \<Rightarrow> int \<Rightarrow> ('w, string + command_result) kprog" where
  "ExecCommand E ns podName container command timeout = do {
     s \<leftarrow> ask E (WebCall (ExecPod ns podName container command [])) as_stream;
     ret (case s of
            Inl e \<Rightarrow> Inl (''failed to create executor: '' @ err_text e)
          | Inr (r, out, err) \<Rightarrow> Inr
              \<lparr>cr_stdout = limited output_limit [out], cr_stderr = limited output_limit [err],
               cr_exit = (if extractExitCode r = - 1 then 1 else extractExitCode r)\<rparr>)
   }"

text \<open>The streaming variants; the outputs go to writers, here as the second part of the result. A
  context that has ended takes precedence over what the stream returned.\<close>

definition ExecCommandStreamWithStdin ::
  "'w api \<Rightarrow> string \<Rightarrow> string \<Rightarrow> string \<Rightarrow> string list \<Rightarrow> string
   \<Rightarrow> ('w, (string + int) \<times> string \<times> string) kprog" where
  "ExecCommandStreamWithStdin E ns podName container command stdin = do {
     s \<leftarrow> ask E (WebCall (ExecPod ns podName container command stdin)) as_stream;
     (case s of
        Inl e \<Rightarrow> ret (Inl (''failed to create executor: '' @ err_text e), [], [])
      | Inr (r, out, err) \<Rightarrow> do {
          c \<leftarrow> ask E (WebCall ContextState) as_context;
          ret (case c of
                 DeadlineExceeded \<Rightarrow> Inl ''context deadline exceeded''
               | ContextCanceled \<Rightarrow> Inl ''context canceled''
               | ContextLive \<Rightarrow> Inr (extractExitCode r), out, err)
        })
   }"

definition ExecCommandStream ::
  "'w api \<Rightarrow> string \<Rightarrow> string \<Rightarrow> string \<Rightarrow> string list \<Rightarrow> ('w, (string + int) \<times> string \<times> string) kprog" where
  "ExecCommandStream E ns podName container command =
     ExecCommandStreamWithStdin E ns podName container command []"

section \<open>The client of the runtime\<close>

text \<open>JSON encoding and decoding of its messages is the parameter \<open>runtime_codec\<close>.\<close>

record runtime_codec =
  rc_exec :: "string list \<Rightarrow> int \<Rightarrow> string"
  rc_result :: "string \<Rightarrow> string + command_result"
  rc_invoke :: "string list \<Rightarrow> string \<Rightarrow> int \<Rightarrow> string \<Rightarrow> string"
  rc_log :: "string \<Rightarrow> (string \<times> string) option"
  rc_exit :: "string \<Rightarrow> (int \<times> string) option"

record http_client =
  hc_base :: string
  hc_token :: string

definition auth_headers :: "http_client \<Rightarrow> (string \<times> string) list" where
  "auth_headers c = (if hc_token c = [] then [] else [(''Authorization'', ''Bearer '' @ hc_token c)])"

definition no_base :: string where "no_base = ''sandboxhttp.Client: BaseURL is empty''"

definition Healthz :: "'w api \<Rightarrow> http_client \<Rightarrow> ('w, string + unit) kprog" where
  "Healthz E c =
     (if hc_base c = [] then ret (Inl no_base)
      else do {
        r \<leftarrow> ask E (WebCall (Fetch ''GET'' (hc_base c @ ''/healthz'') (auth_headers c) [])) as_http;
        ret (case r of
               Inl e \<Rightarrow> Inl (err_text e)
             | Inr (st, body, _) \<Rightarrow>
                 if st \<noteq> 200 then Inl (''healthz returned '' @ show_nat st @ '': '' @ take 512 body) else Inr ())
      })"

definition ExecHTTP ::
  "runtime_codec \<Rightarrow> 'w api \<Rightarrow> http_client \<Rightarrow> string list \<Rightarrow> int \<Rightarrow> ('w, string + command_result) kprog" where
  "ExecHTTP rc E c command timeout =
     (if hc_base c = [] then ret (Inl no_base)
      else do {
        r \<leftarrow> ask E (WebCall (Fetch ''POST'' (hc_base c @ ''/exec'')
               ((''Content-Type'', ''application/json'') # auth_headers c) (rc_exec rc command timeout))) as_http;
        ret (case r of
               Inl e \<Rightarrow> Inl (err_text e)
             | Inr (st, body, _) \<Rightarrow>
                 if st \<noteq> 200 then Inl (''exec returned '' @ show_nat st @ '': '' @ take 8192 body)
                 else (case rc_result rc body of
                         Inl e \<Rightarrow> Inl (''decode exec response: '' @ e)
                       | Inr out \<Rightarrow> Inr out))
      })"

text \<open>The lines of \<open>bufio.Scanner\<close>: without their end of line, up to the first that does not fit the
  buffer of one mebibyte, which is an error.\<close>

definition drop_cr :: "string \<Rightarrow> string" where
  "drop_cr l = (if l \<noteq> [] \<and> last l = CHR 0x0D then butlast l else l)"

definition line_limit :: nat where "line_limit = 2 ^ 20"

function scan_lines :: "string \<Rightarrow> string list \<times> bool" where
  "scan_lines s =
     (if s = [] then ([], True)
      else let l = takeWhile (\<lambda>c. c \<noteq> CHR 0x0A) s; rest = drop (length l + 1) s
           in if length l \<ge> line_limit then ([], False)
              else let (ls, ok) = scan_lines rest in (drop_cr l # ls, ok))"
  by pat_completeness auto
termination by (relation "measure length") auto

declare scan_lines.simps [simp del]

text \<open>The events of a stream: name and data of each, in order; an event without its blank line is lost.\<close>

fun sse_events :: "string \<Rightarrow> string \<Rightarrow> string list \<Rightarrow> (string \<times> string) list" where
  "sse_events ev dat [] = []"
| "sse_events ev dat (l # ls) =
     (if l = [] then (if ev \<noteq> [] \<or> dat \<noteq> [] then [(ev, dat)] else []) @ sse_events [] [] ls
      else if has_prefix l ''event:'' then sse_events (TrimSpace (TrimPrefix l ''event:'')) dat ls
      else if has_prefix l ''data:'' then sse_events ev (TrimSpace (TrimPrefix l ''data:'')) ls
      else sse_events ev dat ls)"

text \<open>\<open>parseSSE\<close> on a body that was read to the end or to an error.\<close>

definition parseSSE :: "string \<Rightarrow> string option \<Rightarrow> (string \<times> string) list \<times> string option" where
  "parseSSE body broken =
     (case scan_lines body of (ls, ok) \<Rightarrow>
        (sse_events [] [] ls, if ok then broken else Some ''bufio.Scanner: token too long''))"

text \<open>The events are handed to a callback one by one; the callback of the agent handler keeps the
  stream going whatever it gets, so the events are the result here.\<close>

definition InvokeStream ::
  "runtime_codec \<Rightarrow> 'w api \<Rightarrow> http_client \<Rightarrow> string list \<Rightarrow> string \<Rightarrow> int \<Rightarrow> string
   \<Rightarrow> ('w, (string \<times> string) list \<times> string option) kprog" where
  "InvokeStream rc E c command stdin timeout invokeID =
     (if hc_base c = [] then ret ([], Some no_base)
      else do {
        r \<leftarrow> ask E (WebCall (Fetch ''POST'' (hc_base c @ ''/invoke'')
               ([(''Content-Type'', ''application/json''), (''Accept'', ''text/event-stream'')] @ auth_headers c)
               (rc_invoke rc command stdin timeout invokeID))) as_http;
        ret (case r of
               Inl e \<Rightarrow> ([], Some (err_text e))
             | Inr (st, body, broken) \<Rightarrow>
                 if st \<noteq> 200 then ([], Some (''invoke returned '' @ show_nat st @ '': '' @ take 8192 body))
                 else parseSSE body broken)
      })"

definition InvokeCancel :: "'w api \<Rightarrow> http_client \<Rightarrow> string \<Rightarrow> ('w, string + unit) kprog" where
  "InvokeCancel E c invokeID =
     (if hc_base c = [] then ret (Inl no_base)
      else if invokeID = [] then ret (Inl ''invokeID is required'')
      else do {
        r \<leftarrow> ask E (WebCall (Fetch ''POST'' (hc_base c @ ''/invoke/cancel/'' @ invokeID) (auth_headers c) [])) as_http;
        ret (case r of
               Inl e \<Rightarrow> Inl (err_text e)
             | Inr (st, body, _) \<Rightarrow>
                 if st = 204 then Inr ()
                 else Inl (''invoke cancel returned '' @ show_nat st @ '': '' @ take 1024 body))
      })"

section \<open>The choice\<close>

datatype executor = SpdyExecutor | HttpExecutor http_client

definition lookupPodIP :: "'w api \<Rightarrow> sandbox \<Rightarrow> ('w, string) kprog" where
  "lookupPodIP E sb =
     (if st_pod (sb_status sb) = [] then ret []
      else do {
        g \<leftarrow> ask E (GetPod (sb_namespace sb) (st_pod (sb_status sb))) as_pod;
        ret (case g of Inl _ \<Rightarrow> [] | Inr p \<Rightarrow> pst_ip (p_status p))
      })"

definition runtime_client :: "string \<Rightarrow> string \<Rightarrow> http_client" where
  "runtime_client podIP token = \<lparr>hc_base = ''http://'' @ podIP @ '':9000'', hc_token = token\<rparr>"

text \<open>The executor and why it is not the runtime; the reason is only logged.\<close>

definition pickExecutor :: "'w api \<Rightarrow> sandbox \<Rightarrow> ('w, executor \<times> string) kprog" where
  "pickExecutor E sb = do {
     t \<leftarrow> ReadRuntimeToken E (sb_name sb) (sb_namespace sb);
     (case t of
        Inl e \<Rightarrow> ret (SpdyExecutor, ''runtime-token Secret read failed: '' @ err_text e)
      | Inr token \<Rightarrow>
          if token = [] then ret (SpdyExecutor, [])
          else do {
            podIP \<leftarrow> lookupPodIP E sb;
            (if podIP = [] then ret (SpdyExecutor, ''pod IP not yet assigned'')
             else do {
               h \<leftarrow> Healthz E (runtime_client podIP token);
               ret (case h of
                      Inl e \<Rightarrow> (SpdyExecutor, ''runtime healthz failed: '' @ e)
                    | Inr _ \<Rightarrow> (HttpExecutor (runtime_client podIP token), []))
             })
          })
   }"

definition Execute ::
  "runtime_codec \<Rightarrow> 'w api \<Rightarrow> executor \<Rightarrow> sandbox \<Rightarrow> string list \<Rightarrow> int \<Rightarrow> ('w, string + command_result) kprog" where
  "Execute rc E ex sb command timeout =
     (case ex of
        SpdyExecutor \<Rightarrow> ExecCommand E (sb_namespace sb) (st_pod (sb_status sb)) ''sandbox'' command timeout
      | HttpExecutor c \<Rightarrow> ExecHTTP rc E c command timeout)"

definition dispatchExec ::
  "runtime_codec \<Rightarrow> 'w api \<Rightarrow> sandbox \<Rightarrow> string list \<Rightarrow> int \<Rightarrow> ('w, string + command_result) kprog" where
  "dispatchExec rc E sb command timeout = do {
     (ex, _) \<leftarrow> pickExecutor E sb;
     Execute rc E ex sb command timeout
   }"

definition agentHTTPExec :: "'w api \<Rightarrow> sandbox \<Rightarrow> ('w, http_client option) kprog" where
  "agentHTTPExec E sb = do {
     t \<leftarrow> ReadRuntimeToken E (sb_name sb) (sb_namespace sb);
     (case t of
        Inl _ \<Rightarrow> ret None
      | Inr token \<Rightarrow>
          if token = [] then ret None
          else do {
            podIP \<leftarrow> lookupPodIP E sb;
            (if podIP = [] then ret None
             else do {
               h \<leftarrow> Healthz E (runtime_client podIP token);
               ret (case h of Inl _ \<Rightarrow> None | Inr _ \<Rightarrow> Some (runtime_client podIP token))
             })
          })
   }"

section \<open>The exec handler\<close>

definition result_json :: "command_result \<Rightarrow> json" where
  "result_json r =
     JObj [(''stdout'', JText (cr_stdout r)), (''stderr'', JText (cr_stderr r)), (''exitCode'', JInt (cr_exit r))]"

text \<open>The body is the command and its time-out in seconds.\<close>

definition handleExecCommand ::
  "runtime_codec \<Rightarrow> 'w api \<Rightarrow> 'k server \<Rightarrow> claims option \<Rightarrow> string \<Rightarrow> string + string \<times> int \<Rightarrow> ('w, reply) kprog" where
  "handleExecCommand rc E sv claims sandboxID body =
     (case claims of
        None \<Rightarrow> ret unauthenticated
      | Some cl \<Rightarrow> do {
          r \<leftarrow> getSandboxWithAuthCheck E sv sandboxID cl;
          (case r of
             Inl e \<Rightarrow> ret (respondError 404 e)
           | Inr sb \<Rightarrow>
               if sb_phase sb \<noteq> SandboxPhaseRunning then ret (respondError 409 ''sandbox is not running'')
               else (case body of
                 Inl _ \<Rightarrow> ret (respondError 400 ''invalid request body'')
               | Inr (command, timeout) \<Rightarrow>
                   if command = [] then ret (respondError 400 ''command is required'')
                   else do {
                     x \<leftarrow> dispatchExec rc E sb [''/bin/sh'', ''-c'', command] (if timeout = 0 then 30 else timeout);
                     ret (case x of
                            Inl e \<Rightarrow> respondError 500 (''exec failed: '' @ e)
                          | Inr res \<Rightarrow> respondJSON 200 (result_json res))
                   }))
        })"

text \<open>The agent's resolver takes the runtime exactly when the dispatcher does.\<close>

lemma agentHTTPExec_is_pickExecutor:
  "agentHTTPExec E sb =
     do { (ex, _) \<leftarrow> pickExecutor E sb; ret (case ex of SpdyExecutor \<Rightarrow> None | HttpExecutor c \<Rightarrow> Some c) }"
  by (rule state.expand)
    (auto simp: fun_eq_iff agentHTTPExec_def pickExecutor_def split: sum.split prod.split)

lemma exec_ignores_timeout: "ExecCommand E ns p c command t = ExecCommand E ns p c command t'"
  by (simp add: ExecCommand_def)

text \<open>Cutting at a character.\<close>

lemma split_at_free: "list_all (\<lambda>s. c \<notin> set s) (split_at c s)"
  by (induction s) (auto split: list.splits)

lemma split_at_never_empty: "split_at c s \<noteq> []"
  by (induction s) (auto split: list.splits)

lemma split_at_none: "c \<notin> set s \<Longrightarrow> split_at c s = [s]"
  by (induction s) auto

lemma split_at_mark: "c \<notin> set l \<Longrightarrow> split_at c (l @ c # rest) = l # split_at c rest"
  by (simp add: split_at_append split_at_none)

lemma split_at_joined: "split_at c (a @ b) = butlast (split_at c a) @ split_at c (last (split_at c a) @ b)"
proof (induction a)
  case (Cons x a)
  then show ?case
    by (cases "split_at c a"; cases "split_at c (last (split_at c a) @ b)")
      (auto simp: split_at_never_empty neq_Nil_conv split: list.splits)
qed simp

end
