(* ===== verification/Files.thy ===== *)
theory Files
  imports Shell Exec_Dispatch
begin

text \<open>
  Files of a sandbox: the paths that the router accepts, the shell commands that it builds from them
  and the handlers that list, read, write and archive (\<open>handlers.go\<close> and \<open>archive.go\<close> in
  \<open>pkg/router\<close>). The last sections read the commands back with \<open>sh_words\<close> and follow the bytes of a
  file through base64 and the bridge's output limit.
\<close>

section \<open>Paths\<close>

text \<open>\<open>path.Clean\<close> of a rooted path: the segments without empty ones and dots, each \<open>..\<close> undoing the
  one before it.\<close>

definition clean_step :: "string list \<Rightarrow> string \<Rightarrow> string list" where
  "clean_step st seg =
     (if seg = [] \<or> seg = ''.'' then st
      else if seg = ''..'' then tl st
      else seg # st)"

definition clean_segments :: "string \<Rightarrow> string list" where
  "clean_segments s = rev (foldl clean_step [] (split_at CHR ''/'' s))"

definition rooted :: "string list \<Rightarrow> string" where
  "rooted segs = ''/'' @ join_with ''/'' segs"

definition CleanRooted :: "string \<Rightarrow> string" where
  "CleanRooted s = rooted (clean_segments s)"

text \<open>\<open>path.Dir\<close> and \<open>path.Base\<close> of a rooted path.\<close>

definition DirRooted :: "string \<Rightarrow> string" where
  "DirRooted s = CleanRooted (rev (dropWhile (\<lambda>c. c \<noteq> CHR ''/'') (rev s)))"

definition Base :: "string \<Rightarrow> string" where
  "Base s =
     (if s = [] then ''.''
      else let t = rev (dropWhile (\<lambda>c. c = CHR ''/'') (rev s));
               b = rev (takeWhile (\<lambda>c. c \<noteq> CHR ''/'') (rev t))
           in if b = [] then ''/'' else b)"

definition disallowed :: "char \<Rightarrow> bool" where
  "disallowed c \<longleftrightarrow> c \<in> {CHR 0x27, CHR 0x5C, CHR 0x60, CHR 0x0A, CHR 0x0D}"

definition sandboxFilePath :: "string \<Rightarrow> string + string" where
  "sandboxFilePath raw =
     (let p = CleanRooted (''/'' @ TrimPrefix raw ''/'')
      in if list_ex disallowed p then Inl ''path contains disallowed characters'' else Inr p)"

definition archiveRoot :: string where "archiveRoot = ''/workspace''"

definition archivePath :: "string \<Rightarrow> string + string" where
  "archivePath raw =
     (let p = CleanRooted (''/'' @ TrimPrefix raw ''/'')
      in if list_ex disallowed p then Inl ''path contains disallowed characters''
         else if p \<noteq> archiveRoot \<and> \<not> has_prefix p (archiveRoot @ ''/'')
         then Inl (''path must live under '' @ archiveRoot)
         else Inr p)"

definition name_char :: "char \<Rightarrow> bool" where
  "name_char c \<longleftrightarrow>
     c \<in> set ''ABCDEFGHIJKLMNOPQRSTUVWXYZabcdefghijklmnopqrstuvwxyz0123456789._-''"

definition sanitizeFilename :: "string \<Rightarrow> string" where
  "sanitizeFilename name = (let c = filter name_char name in if c = [] then ''file'' else c)"

section \<open>Commands\<close>

definition sq :: "string \<Rightarrow> string" where "sq s = [CHR 0x27] @ s @ [CHR 0x27]"

definition list_line :: "string \<Rightarrow> string" where
  "list_line p = ''cd '' @ sq p @ '' 2>/dev/null && ls -la --time-style=+%s | tail -n +2''"

definition stat_line :: "string \<Rightarrow> string" where
  "stat_line p = ''stat -c %s '' @ sq p @ '' 2>/dev/null || wc -c < '' @ sq p"

definition read_line :: "string \<Rightarrow> string" where
  "read_line p = ''base64 -w0 '' @ sq p @ '' 2>/dev/null || base64 '' @ sq p"

definition write_line :: "string \<Rightarrow> string \<Rightarrow> string \<Rightarrow> string" where
  "write_line dir encoded p =
     ''mkdir -p '' @ sq dir @ '' && printf '' @ sq ''%s'' @ '' '' @ show_quoted encoded
     @ '' | base64 -d > '' @ sq p"

definition test_line :: "string \<Rightarrow> string" where
  "test_line p = ''test -d '' @ sq p @ '' && echo ok || echo missing''"

definition tar_line :: "string \<Rightarrow> string" where
  "tar_line p = ''cd '' @ sq p @ '' && tar -cf - .''"

definition sh :: "string \<Rightarrow> string list" where "sh line = [''/bin/sh'', ''-c'', line]"

section \<open>Base64\<close>

definition b64_value :: "char \<Rightarrow> nat option" where
  "b64_value c = (if c \<in> set std_alphabet then Some (length (takeWhile (\<lambda>x. x \<noteq> c) std_alphabet)) else None)"

fun b64_decode :: "string \<Rightarrow> nat list option" where
  "b64_decode [] = Some []"
| "b64_decode (a # b # c # d # rest) =
     (case (b64_value a, b64_value b) of
        (Some x, Some y) \<Rightarrow>
          if c = CHR ''='' \<and> d = CHR ''='' \<and> rest = [] then Some [x * 4 + y div 16]
          else (case (b64_value c, b64_value d) of
             (Some z, None) \<Rightarrow>
               if d = CHR ''='' \<and> rest = [] then Some [x * 4 + y div 16, y mod 16 * 16 + z div 4] else None
           | (Some z, Some u) \<Rightarrow>
               map_option (\<lambda>bs. [x * 4 + y div 16, y mod 16 * 16 + z div 4, z mod 4 * 64 + u] @ bs) (b64_decode rest)
           | _ \<Rightarrow> None)
      | _ \<Rightarrow> None)"
| "b64_decode _ = None"

text \<open>\<open>DecodeString\<close> skips line ends.\<close>

definition DecodeString :: "string \<Rightarrow> nat list option" where
  "DecodeString s = b64_decode (filter (\<lambda>c. c \<noteq> CHR 0x0A \<and> c \<noteq> CHR 0x0D) s)"

section \<open>The handlers\<close>

definition fileTransferMaxBytes :: nat where "fileTransferMaxBytes = 32 * 1024 * 1024"

text \<open>What the four handlers share: the caller, the sandbox, its phase.\<close>

definition with_running ::
  "'w api \<Rightarrow> 'k server \<Rightarrow> claims option \<Rightarrow> string \<Rightarrow> (reply \<Rightarrow> 'a) \<Rightarrow> (sandbox \<Rightarrow> ('w, 'a) kprog) \<Rightarrow> ('w, 'a) kprog" where
  "with_running E sv claims sandboxID refuse f =
     (case claims of
        None \<Rightarrow> ret (refuse unauthenticated)
      | Some cl \<Rightarrow> do {
          r \<leftarrow> getSandboxWithAuthCheck E sv sandboxID cl;
          (case r of
             Inl e \<Rightarrow> ret (refuse (respondError 404 e))
           | Inr sb \<Rightarrow>
               if sb_phase sb \<noteq> SandboxPhaseRunning then ret (refuse (respondError 409 ''sandbox is not running''))
               else f sb)
        })"

text \<open>\<open>strings.Fields\<close>, \<open>strings.Split\<close> on lines, and \<open>ParseInt\<close> whose error is dropped.\<close>

fun fields_from :: "string \<Rightarrow> string \<Rightarrow> string list" where
  "fields_from w [] = (if w = [] then [] else [w])"
| "fields_from w (c # cs) =
     (if is_space c then (if w = [] then [] else [w]) @ fields_from [] cs else fields_from (w @ [c]) cs)"

definition Fields :: "string \<Rightarrow> string list" where "Fields s = fields_from [] s"

definition trim_right_newlines :: "string \<Rightarrow> string" where
  "trim_right_newlines s = rev (dropWhile (\<lambda>c. c = CHR 0x0A) (rev s))"

definition int_or_zero :: "string \<Rightarrow> int" where
  "int_or_zero s =
     (let neg = (s \<noteq> [] \<and> hd s = CHR ''-'');
          ds = (if s \<noteq> [] \<and> hd s \<in> {CHR ''-'', CHR ''+''} then tl s else s);
          n = foldl (\<lambda>n c. n * 10 + int (digit_value c)) 0 ds
      in if ds = [] \<or> \<not> list_all is_digit ds then 0
         else if neg then max (- (2 ^ 63)) (- n) else min (2 ^ 63 - 1) n)"

definition file_entry :: "string \<Rightarrow> json option" where
  "file_entry line =
     (let fs = Fields line
      in if length fs < 7 then None
         else if hd fs = ''total'' then None
         else let name = join_with '' '' (drop 6 fs)
              in if name = ''.'' \<or> name = ''..'' then None
                 else Some (JObj
                   [(''name'', JText name), (''size'', JInt (int_or_zero (fs ! 4))),
                    (''isDir'', JBool (has_prefix (hd fs) ''d'')), (''mode'', JText (hd fs)),
                    (''modifiedAt'', JInt (int_or_zero (fs ! 5)))]))"

definition handleListFiles ::
  "runtime_codec \<Rightarrow> 'w api \<Rightarrow> 'k server \<Rightarrow> claims option \<Rightarrow> string \<Rightarrow> http_request \<Rightarrow> ('w, reply) kprog" where
  "handleListFiles rc E sv claims sandboxID req =
     with_running E sv claims sandboxID id (\<lambda>sb.
       let q = text_at (rq_query req) ''path''; dir = (if q = [] then ''/workspace'' else q)
       in case sandboxFilePath dir of
            Inl e \<Rightarrow> ret (respondError 400 e)
          | Inr cleaned \<Rightarrow> do {
              x \<leftarrow> dispatchExec rc E sb (sh (list_line cleaned)) 10;
              ret (case x of
                     Inl e \<Rightarrow> respondError 500 (''list failed: '' @ e)
                   | Inr r \<Rightarrow>
                       if cr_exit r \<noteq> 0 then respondError 404 (''path not found: '' @ cleaned)
                       else respondJSON 200 (JObj
                         [(''path'', JText cleaned),
                          (''entries'', JList (List.map_filter file_entry
                             (split_at CHR 0x0A (trim_right_newlines (cr_stdout r)))))]))
            })"

text \<open>The reply of a download: the file's name for the client and its bytes.\<close>

definition handleGetFile ::
  "runtime_codec \<Rightarrow> 'w api \<Rightarrow> 'k server \<Rightarrow> claims option \<Rightarrow> string \<Rightarrow> string
   \<Rightarrow> ('w, reply + string \<times> nat list) kprog" where
  "handleGetFile rc E sv claims sandboxID raw =
     with_running E sv claims sandboxID Inl (\<lambda>sb.
       case sandboxFilePath (''/'' @ raw) of
         Inl e \<Rightarrow> ret (Inl (respondError 400 e))
       | Inr cleaned \<Rightarrow> do {
           st \<leftarrow> dispatchExec rc E sb (sh (stat_line cleaned)) 5;
           (case st of
              Inl _ \<Rightarrow> ret (Inl (respondError 404 (''file not found: '' @ cleaned)))
            | Inr r0 \<Rightarrow>
                if cr_exit r0 \<noteq> 0 then ret (Inl (respondError 404 (''file not found: '' @ cleaned)))
                else let size = int_or_zero (TrimSpace (cr_stdout r0))
                in if size > int fileTransferMaxBytes
                   then ret (Inl (respondError 413 (''file is '' @ show_int size @ '' bytes, max ''
                          @ show_nat fileTransferMaxBytes @ '' - use the terminal for large files'')))
                   else do {
                     x \<leftarrow> dispatchExec rc E sb (sh (read_line cleaned)) 30;
                     ret (case x of
                            Inl e \<Rightarrow> Inl (respondError 500 (''read failed: '' @ e))
                          | Inr r \<Rightarrow>
                              if cr_exit r \<noteq> 0 then Inl (respondError 404 (''file not found: '' @ cleaned))
                              else (case DecodeString (filter (\<lambda>c. c \<noteq> CHR 0x0A) (TrimSpace (cr_stdout r))) of
                                      None \<Rightarrow> Inl (respondError 500 ''decode failed'')
                                    | Some bytes \<Rightarrow> Inr (sanitizeFilename (Base cleaned), bytes)))
                   })
         })"

definition handlePutFile ::
  "runtime_codec \<Rightarrow> 'w api \<Rightarrow> 'k server \<Rightarrow> claims option \<Rightarrow> string \<Rightarrow> string \<Rightarrow> string + nat list
   \<Rightarrow> ('w, reply) kprog" where
  "handlePutFile rc E sv claims sandboxID raw content =
     with_running E sv claims sandboxID id (\<lambda>sb.
       case sandboxFilePath (''/'' @ raw) of
         Inl e \<Rightarrow> ret (respondError 400 e)
       | Inr cleaned \<Rightarrow>
           (case content of
              Inl e \<Rightarrow> ret (respondError 400 (''failed to read request body: '' @ e))
            | Inr whole \<Rightarrow>
                let body = take (fileTransferMaxBytes + 1) whole
                in if length body > fileTransferMaxBytes
                   then ret (respondError 413 (''payload exceeds '' @ show_nat fileTransferMaxBytes @ '' bytes''))
                   else do {
                     x \<leftarrow> dispatchExec rc E sb
                            (sh (write_line (DirRooted cleaned) (StdEncoding body) cleaned)) 60;
                     ret (case x of
                            Inl e \<Rightarrow> respondError 500 (''write failed: '' @ e)
                          | Inr r \<Rightarrow>
                              if cr_exit r \<noteq> 0 then respondError 500 (''write failed: '' @ TrimSpace (cr_stderr r))
                              else respondJSON 201 (JObj
                                [(''path'', JText cleaned), (''bytes'', JInt (int (length body)))]))
                   }))"

section \<open>Archives\<close>

text \<open>Reading tar and writing zip are the standard library's: the entries of the tar stream, with the
  error that ended it, and a zip writer \<open>put\<close>, which takes an entry or fails while it creates
  the entry's header or copies its content.\<close>

datatype tar_type = TypeDir | TypeReg | TypeSymlink | TypeOther

record tar_entry =
  te_name :: string
  te_type :: tar_type
  te_link :: string
  te_modified :: instant
  te_body :: string

datatype zip_method = ZipStore | ZipDeflate

record zip_entry =
  ze_name :: string
  ze_method :: zip_method
  ze_modified :: instant
  ze_body :: string

datatype zip_failure = CreateFailed string | CopyFailed string

definition archiveMaxBytes :: nat where "archiveMaxBytes = 5 * 1024 * 1024 * 1024"

definition zip_entry_of :: "tar_entry \<Rightarrow> zip_entry option" where
  "zip_entry_of e =
     (let name = TrimPrefix (te_name e) ''./''
      in if name = [] then None
         else case te_type e of
           TypeDir \<Rightarrow> Some \<lparr>ze_name = (if last name = CHR ''/'' then name else name @ ''/''), ze_method = ZipStore,
                           ze_modified = te_modified e, ze_body = []\<rparr>
         | TypeReg \<Rightarrow> Some \<lparr>ze_name = name, ze_method = ZipDeflate, ze_modified = te_modified e,
                           ze_body = take archiveMaxBytes (te_body e)\<rparr>
         | TypeSymlink \<Rightarrow> Some \<lparr>ze_name = name, ze_method = ZipStore, ze_modified = te_modified e,
                               ze_body = te_link e\<rparr>
         | TypeOther \<Rightarrow> None)"

definition zip_error :: "tar_type \<Rightarrow> string \<Rightarrow> zip_failure \<Rightarrow> string" where
  "zip_error ty name f =
     (let kind = (case ty of TypeDir \<Rightarrow> ''dir '' | TypeSymlink \<Rightarrow> ''link '' | _ \<Rightarrow> [])
      in case f of
           CreateFailed e \<Rightarrow> ''zip create '' @ kind @ show_quoted name @ '': '' @ e
         | CopyFailed e \<Rightarrow> ''zip copy '' @ kind @ show_quoted name @ '': '' @ e)"

fun streamTarToZip ::
  "('z \<Rightarrow> zip_entry \<Rightarrow> zip_failure option \<times> 'z) \<Rightarrow> string option \<Rightarrow> tar_entry list \<Rightarrow> 'z \<Rightarrow> string option \<times> 'z" where
  "streamTarToZip put ended [] zw = (map_option (\<lambda>e. ''tar: '' @ e) ended, zw)"
| "streamTarToZip put ended (e # es) zw =
     (case zip_entry_of e of
        None \<Rightarrow> streamTarToZip put ended es zw
      | Some ze \<Rightarrow>
          (case put zw ze of
             (Some f, zw') \<Rightarrow> (Some (zip_error (te_type e) (ze_name ze) f), zw')
           | (None, zw') \<Rightarrow> streamTarToZip put ended es zw'))"

text \<open>The writers below the zip writer and under tar's error output. The writer that is wrapped by
  \<open>countingWriter\<close> is the client's connection: what it takes of a write, and its error.\<close>

record countingWriter =
  cw_max :: nat
  cw_written :: nat
  cw_exceeded :: bool

definition limit_exceeded :: string where "limit_exceeded = ''archive size limit exceeded''"

definition cw_Write ::
  "(string \<Rightarrow> nat \<times> string option) \<Rightarrow> countingWriter \<Rightarrow> string \<Rightarrow> (nat \<times> string option) \<times> countingWriter" where
  "cw_Write w c p =
     (if cw_exceeded c then ((0, Some limit_exceeded), c)
      else if cw_max c \<le> cw_written c then ((0, Some limit_exceeded), c\<lparr>cw_exceeded := True\<rparr>)
      else let remaining = cw_max c - cw_written c;
               over = length p > remaining;
               (n, err) = w (if over then take remaining p else p)
           in ((n, if over \<and> err = None then Some limit_exceeded else err),
               c\<lparr>cw_written := cw_written c + n, cw_exceeded := over\<rparr>))"

definition bb_Write :: "nat \<Rightarrow> string \<Rightarrow> string \<Rightarrow> nat \<times> string" where
  "bb_Write maxSize buf p =
     (if maxSize \<le> length buf then (length p, buf)
      else let avail = maxSize - length buf
           in if length p \<le> avail then (length p, buf @ p) else (length p, buf @ take avail p))"

text \<open>The reply of an archive: the name for the client, and the zip writer after the last entry.
  What is logged about the stream's errors is left out.\<close>

definition handleArchive ::
  "(string \<Rightarrow> tar_entry list \<times> string option) \<Rightarrow> ('z \<Rightarrow> zip_entry \<Rightarrow> zip_failure option \<times> 'z) \<Rightarrow> 'z
   \<Rightarrow> runtime_codec \<Rightarrow> 'w api \<Rightarrow> 'k server \<Rightarrow> claims option \<Rightarrow> string \<Rightarrow> http_request
   \<Rightarrow> ('w, reply + string \<times> 'z) kprog" where
  "handleArchive untar put zw rc E sv claims sandboxID req =
     with_running E sv claims sandboxID Inl (\<lambda>sb.
       let q = text_at (rq_query req) ''path''
       in case archivePath (if q = [] then archiveRoot else q) of
            Inl e \<Rightarrow> ret (Inl (respondError 400 e))
          | Inr cleaned \<Rightarrow> do {
              st \<leftarrow> dispatchExec rc E sb (sh (test_line cleaned)) 5;
              (case st of
                 Inl e \<Rightarrow> ret (Inl (respondError 500 (''stat failed: '' @ e)))
               | Inr r0 \<Rightarrow>
                   if cr_exit r0 \<noteq> 0 \<or> TrimSpace (cr_stdout r0) \<noteq> ''ok''
                   then ret (Inl (respondError 404 (''directory not found: '' @ cleaned)))
                   else do {
                     (res, out, err) \<leftarrow> ExecCommandStream E (sb_namespace sb) (st_pod (sb_status sb)) ''sandbox''
                       (sh (tar_line cleaned));
                     let (es, ended) = untar out;
                         base = sanitizeFilename (Base cleaned);
                         stream_end = (case res of Inl e \<Rightarrow> Some e | Inr _ \<Rightarrow> ended)
                     in ret (Inr (sanitizeFilename (sb_name sb) @ ''-'' @ (if base = ''.'' then ''workspace'' else base)
                                    @ ''.zip'',
                                  snd (streamTarToZip put stream_end es zw)))
                   })
            })"

end
