(* ===== verification/File_Safety.thy ===== *)
theory File_Safety
  imports Files
begin

text \<open>
  Properties of the file handlers: the paths that they accept, what a shell reads from the commands
  that they build, and the bytes that come back through base64 and the bridge.
\<close>

section \<open>Lemmas on paths and commands\<close>

text \<open>A segment that names an entry of a directory.\<close>

definition path_segment :: "string \<Rightarrow> bool" where
  "path_segment s \<longleftrightarrow> s \<notin> {[], ''.'', ''..''} \<and> CHR ''/'' \<notin> set s"

lemma clean_step_ok:
  "list_all path_segment st \<Longrightarrow> CHR ''/'' \<notin> set seg \<Longrightarrow> list_all path_segment (clean_step st seg)"
  by (cases st) (auto simp: clean_step_def path_segment_def)

lemma foldl_clean_ok:
  "list_all path_segment st \<Longrightarrow> list_all (\<lambda>s. CHR ''/'' \<notin> set s) segs
     \<Longrightarrow> list_all path_segment (foldl clean_step st segs)"
  by (induction segs arbitrary: st) (simp_all add: clean_step_ok)

lemma clean_segments_ok: "list_all path_segment (clean_segments s)"
proof -
  have "list_all path_segment (foldl clean_step [] (split_at CHR ''/'' s))"
    by (rule foldl_clean_ok) (simp_all add: split_at_free)
  then show ?thesis by (simp add: clean_segments_def)
qed

lemma path_accepted:
  "sandboxFilePath raw = Inr p \<longleftrightarrow> p = CleanRooted (''/'' @ TrimPrefix raw ''/'') \<and> \<not> list_ex disallowed p"
  by (auto simp: sandboxFilePath_def Let_def)

lemma archive_accepted:
  "archivePath raw = Inr p \<longleftrightarrow>
     sandboxFilePath raw = Inr p \<and> (p = archiveRoot \<or> has_prefix p (archiveRoot @ ''/''))"
  by (auto simp: sandboxFilePath_def archivePath_def Let_def)

lemma unquoted: "\<not> list_ex disallowed p \<Longrightarrow> CHR 0x27 \<notin> set p"
  by (auto simp: disallowed_def list_ex_iff)

lemma append_one: "(@) [c] = (#) c"
  by (simp add: fun_eq_iff)

lemma first_segment:
  assumes "p = rooted segs" "list_all path_segment segs" "has_prefix p (''/'' @ w @ ''/'')" "CHR ''/'' \<notin> set w"
  shows "segs \<noteq> [] \<and> hd segs = w"
proof (cases segs)
  case Nil
  then show ?thesis using assms by (auto simp: rooted_def join_with_def has_prefix_def prefix_def Cons_eq_append_conv)
next
  case (Cons s rest)
  obtain z where z: "s @ concat (map ((#) CHR ''/'') rest) = w @ CHR ''/'' # z"
    using assms(1,3) by (auto simp: rooted_def join_with_def has_prefix_def prefix_def Cons append_one)
  have no_slash: "CHR ''/'' \<notin> set s"
    using assms(2) by (simp add: Cons path_segment_def)
  have "takeWhile (\<lambda>c. c \<noteq> CHR ''/'') (s @ concat (map ((#) CHR ''/'') rest)) = s"
    using no_slash by (cases rest) (auto simp: takeWhile_append takeWhile_eq_all_conv)
  moreover have "takeWhile (\<lambda>c. c \<noteq> CHR ''/'') (w @ CHR ''/'' # z) = w"
    using assms(4) by (auto simp: takeWhile_append takeWhile_eq_all_conv)
  ultimately show ?thesis using z Cons by simp
qed

lemma read_quoted: "CHR 0x27 \<notin> set p \<Longrightarrow> sh_read Bare None (sq p @ cs) = sh_read Bare (Some p) cs"
  by (simp add: sq_def sh_read_single)

text \<open>C40. Path safety of an archive: whatever path the request names, with dots and empty segments, an
  accepted one is the workspace directory followed by proper segments only, so no pair of dots leaves
  the workspace; and the command that packs it is read by the shell as a change to that very path and
  a call of tar.\<close>
theorem archives_stay_in_the_workspace:
  "case archivePath raw of
     Inl _ \<Rightarrow> True
   | Inr p \<Rightarrow> \<exists>segs. list_all path_segment segs \<and> p = rooted (''workspace'' # segs)
       \<and> sh_words (tar_line p) = Some
           ([Word ''cd'', Word p, Op CHR ''&'', Op CHR ''&'', Word ''tar'', Word ''-cf'', Word ''-'', Word ''.''])"
proof (cases "archivePath raw")
  case (Inr p)
  define segs where "segs = clean_segments (''/'' @ TrimPrefix raw ''/'')"
  have p: "p = rooted segs" "CHR 0x27 \<notin> set p" "p = archiveRoot \<or> has_prefix p (archiveRoot @ ''/'')"
    using Inr by (auto simp: archive_accepted path_accepted CleanRooted_def segs_def unquoted)
  have ok: "list_all path_segment segs"
    unfolding segs_def by (rule clean_segments_ok)
  have "segs \<noteq> [] \<and> hd segs = ''workspace''"
    using p(3)
  proof
    assume "p = archiveRoot"
    then have "rooted (segs @ [''x'']) = archiveRoot @ ''/x''"
      using p(1) by (cases segs) (auto simp: rooted_def join_with_def archiveRoot_def append_one)
    then have "has_prefix (rooted (segs @ [''x''])) (archiveRoot @ ''/'')"
      by (simp add: archiveRoot_def has_prefix_def)
    then show ?thesis
      using first_segment [of _ "segs @ [''x'']" "''workspace''"] ok
      by (cases segs) (auto simp: archiveRoot_def path_segment_def)
  next
    assume "has_prefix p (archiveRoot @ ''/'')"
    then show ?thesis
      using first_segment [of p segs "''workspace''"] p(1) ok by (simp add: archiveRoot_def)
  qed
  then obtain rest where rest: "segs = ''workspace'' # rest"
    by (cases segs) auto
  have words: "sh_words (tar_line p) = Some
      [Word ''cd'', Word p, Op CHR ''&'', Op CHR ''&'', Word ''tar'', Word ''-cf'', Word ''-'', Word ''.'']"
    unfolding tar_line_def sh_words_def
    by (simp add: read_quoted p(2) sh_operators_def sh_specials_def)
  show ?thesis
    using words ok p(1) by (auto simp: Inr rest)
qed simp

lemma b64_value_digit: "n < 64 \<Longrightarrow> b64_value (std_alphabet ! n) = Some n"
proof -
  have "list_all (\<lambda>n. b64_value (std_alphabet ! n) = Some n) [0..<64]"
    by code_simp
  then show "n < 64 \<Longrightarrow> b64_value (std_alphabet ! n) = Some n" by (simp add: list_all_iff)
qed

lemma b64_value_pad: "b64_value CHR ''='' = None"
  by code_simp

lemma sextet_not_pad: "n < 64 \<Longrightarrow> std_alphabet ! n \<noteq> CHR ''=''"
  using b64_value_digit [of n] b64_value_pad by auto

lemma quotient:
  fixes v q m r :: nat
  assumes "v = q * m + r" "r < m"
  shows "v div m = q" "v mod m = r"
  using assms by simp_all

text \<open>The four sextets of three bytes.\<close>

lemma sextets:
  fixes a b c :: nat
  assumes "a < 256" "b < 256" "c < 256"
  defines "v \<equiv> a * 2 ^ 16 + b * 2 ^ 8 + c"
  shows "v div 2 ^ 18 mod 64 = a div 4"
    and "v div 2 ^ 12 mod 64 = a mod 4 * 16 + b div 16"
    and "v div 2 ^ 6 mod 64 = b mod 16 * 4 + c div 64"
    and "v mod 64 = c mod 64"
proof -
  define a1 a0 b1 b0 c1 c0 where parts: "a1 = a div 4" "a0 = a mod 4" "b1 = b div 16" "b0 = b mod 16"
    "c1 = c div 64" "c0 = c mod 64"
  have eqs: "a = a1 * 4 + a0" "b = b1 * 16 + b0" "c = c1 * 64 + c0"
    unfolding parts by simp_all
  have bounds: "a1 < 64" "a0 < 4" "b1 < 16" "b0 < 16" "c1 < 4" "c0 < 64"
    using assms(1-3) unfolding parts by simp_all
  have "v div 2 ^ 18 = a1"
    by (rule quotient(1) [of _ _ _ "a0 * 65536 + b * 256 + c"]) (use assms(2,3) eqs(1) bounds in \<open>simp_all add: v_def\<close>)
  then show "v div 2 ^ 18 mod 64 = a div 4"
    using bounds(1) by (simp only: mod_less parts)
  have "v div 2 ^ 12 = a1 * 64 + (a0 * 16 + b1)"
    by (rule quotient(1) [of _ _ _ "b0 * 256 + c"]) (use assms(3) eqs(1,2) bounds in \<open>simp_all add: v_def\<close>)
  then show "v div 2 ^ 12 mod 64 = a mod 4 * 16 + b div 16"
    unfolding parts(2,3) [symmetric] by (rule quotient(2)) (use bounds in simp)
  have "v div 2 ^ 6 = (a * 16 + b1) * 64 + (b0 * 4 + c1)"
    by (rule quotient(1) [of _ _ _ c0]) (use eqs(2,3) bounds in \<open>simp_all add: v_def\<close>)
  then show "v div 2 ^ 6 mod 64 = b mod 16 * 4 + c div 64"
    unfolding parts(4,5) [symmetric] by (rule quotient(2)) (use bounds in simp)
  show "v mod 64 = c mod 64"
    unfolding parts(6) [symmetric]
    by (rule quotient(2) [of _ "a * 1024 + b * 4 + c1"]) (use eqs(3) bounds in \<open>simp_all add: v_def\<close>)
qed

text \<open>Sextets that stand for three bytes.\<close>

definition packs :: "nat \<Rightarrow> nat \<Rightarrow> nat \<Rightarrow> nat \<Rightarrow> nat \<Rightarrow> nat \<Rightarrow> nat \<Rightarrow> bool" where
  "packs a b c x y z u \<longleftrightarrow> x < 64 \<and> y < 64 \<and> z < 64 \<and> u < 64
     \<and> x * 4 + y div 16 = a \<and> y mod 16 * 16 + z div 4 = b \<and> z mod 4 * 64 + u = c"

lemma packed:
  assumes "a < 256" "b < 256" "c < 256"
  shows "packs a b c (a div 4) (a mod 4 * 16 + b div 16) (b mod 16 * 4 + c div 64) (c mod 64)"
proof -
  have small: "b div 16 < 16" "c div 64 < 4" "a div 4 < 64" "a mod 4 < 4" "b mod 16 < 16" "c mod 64 < 64"
    using assms by simp_all
  note digits = quotient [of _ "a mod 4" 16 "b div 16", OF refl small(1)]
    quotient [of _ "b mod 16" 4 "c div 64", OF refl small(2)]
  show ?thesis
    unfolding packs_def digits using small by (intro conjI) (linarith | simp only: div_mult_mod_eq)+
qed

lemma encoded:
  assumes "a < 256" "b < 256" "c < 256"
  obtains x y z u where "packs a b c x y z u"
    "base64_encode al pad (a # b # c # rest) = [al ! x, al ! y, al ! z, al ! u] @ base64_encode al pad rest"
  by (rule that [OF packed [OF assms]]) (simp only: base64_encode.simps Let_def sextets [OF assms])

lemma encoded2:
  assumes "a < 256" "b < 256"
  obtains x y z u where "packs a b 0 x y z u" "base64_encode al pad [a, b] = [al ! x, al ! y, al ! z] @ pad"
  by (rule that [OF packed [OF assms zero_less_numeral]])
    (simp only: base64_encode.simps Let_def sextets [OF assms zero_less_numeral, unfolded add_0_right])

lemma encoded1:
  assumes "a < 256"
  obtains x y z u where "packs a 0 0 x y z u" "base64_encode al pad [a] = [al ! x, al ! y] @ pad @ pad"
  by (rule that [OF packed [OF assms zero_less_numeral zero_less_numeral]])
    (simp only: base64_encode.simps Let_def
       sextets [OF assms zero_less_numeral zero_less_numeral, unfolded add_0_right mult_0])

lemma decode_encode:
  "list_all (\<lambda>b. b < 256) bs \<Longrightarrow> b64_decode (base64_encode std_alphabet ''='' bs) = Some bs"
proof (induction std_alphabet "''=''" bs rule: base64_encode.induct)
  case (2 a)
  then have "a < 256" by simp
  then obtain x y z u where "packs a 0 0 x y z u"
    and "base64_encode std_alphabet ''='' [a] = [std_alphabet ! x, std_alphabet ! y] @ ''='' @ ''=''"
    by (rule encoded1)
  then show ?case by (simp add: b64_value_digit packs_def del: base64_encode.simps)
next
  case (3 a b)
  then have "a < 256" "b < 256" by simp_all
  then obtain x y z u where "packs a b 0 x y z u"
    and "base64_encode std_alphabet ''='' [a, b] = [std_alphabet ! x, std_alphabet ! y, std_alphabet ! z] @ ''=''"
    by (rule encoded2)
  then show ?case
    by (simp add: b64_value_digit b64_value_pad sextet_not_pad packs_def del: base64_encode.simps)
next
  case (4 a b c rest)
  then have "a < 256" "b < 256" "c < 256" by simp_all
  then obtain x y z u where "packs a b c x y z u"
    and "base64_encode std_alphabet ''='' (a # b # c # rest)
      = [std_alphabet ! x, std_alphabet ! y, std_alphabet ! z, std_alphabet ! u]
        @ base64_encode std_alphabet ''='' rest"
    by (rule encoded)
  then show ?case using 4
    by (simp add: b64_value_digit sextet_not_pad packs_def del: base64_encode.simps)
qed simp

lemma encoding_chars: "set (base64_encode std_alphabet ''='' bs) \<subseteq> insert CHR ''='' (set std_alphabet)"
proof -
  have digit: "std_alphabet ! (n mod 64) \<in> set std_alphabet" for n
    by (rule nth_mem) (simp add: std_alphabet_def)
  show ?thesis
    by (induction std_alphabet "''=''" bs rule: base64_encode.induct) (auto simp: Let_def digit simp del: mod_mult_self1)
qed

lemma encoding_take:
  assumes "length pad = 1"
  shows "take (4 * n) (base64_encode al pad bs) = base64_encode al pad (take (3 * n) bs)"
proof (induction n arbitrary: bs)
  case (Suc n)
  consider "bs = []" | a where "bs = [a]" | a b where "bs = [a, b]" | a b c rest where "bs = a # b # c # rest"
    by (metis list.exhaust)
  then show ?case
  proof cases
    case 4
    have "4 * Suc n = Suc (Suc (Suc (Suc (4 * n))))" "3 * Suc n = Suc (Suc (Suc (3 * n)))"
      by simp_all
    then show ?thesis using Suc.IH unfolding 4 by (simp only: take_Suc_Cons base64_encode.simps Let_def append_Cons append_Nil)
  qed (use assms in \<open>auto simp: Let_def length_Suc_conv\<close>)
qed simp

lemma alphabet_harmless:
  "list_all (\<lambda>c. \<not> is_space c \<and> c \<notin> {CHR 0x22, CHR 0x5C, CHR ''$'', CHR 0x60}) (CHR ''='' # std_alphabet)"
  by code_simp

lemma encoding_harmless:
  "c \<in> set (StdEncoding bs) \<Longrightarrow> \<not> is_space c \<and> c \<notin> {CHR 0x22, CHR 0x5C, CHR ''$'', CHR 0x60}"
  using encoding_chars [of bs] alphabet_harmless unfolding StdEncoding_def list_all_iff by (metis insert_iff list.set(2) subsetD)

lemma quoted_encoding: "show_quoted (StdEncoding bs) = CHR 0x22 # StdEncoding bs @ [CHR 0x22]"
proof -
  have "concat (map (\<lambda>c. if c = CHR 0x22 \<or> c = CHR 0x5C then [CHR 0x5C, c] else [c]) s) = s"
    if "\<forall>c \<in> set s. c \<notin> {CHR 0x22, CHR 0x5C}" for s
    using that by (induction s) auto
  then show ?thesis
    using encoding_harmless unfolding show_quoted_def by blast
qed

lemma trimmed:
  assumes "\<forall>c \<in> set s. \<not> is_space c"
  shows "TrimSpace s = s"
proof -
  have kept: "dropWhile is_space s = s" if "\<forall>c \<in> set s. \<not> is_space c" for s
    using that by (cases s) auto
  have "dropWhile is_space (rev s) = rev s"
    by (rule kept) (use assms in simp)
  then show ?thesis
    by (simp only: TrimSpace_def kept [OF assms] rev_rev_ident)
qed

lemma unspaced: "\<forall>c \<in> set s. \<not> is_space c \<Longrightarrow> filter (\<lambda>c. c \<noteq> CHR 0x0A) s = s \<and> filter (\<lambda>c. c \<noteq> CHR 0x0A \<and> c \<noteq> CHR 0x0D) s = s"
  by (auto simp: is_space_def intro!: filter_True)

text \<open>What a client receives of a file whose content the pod prints in base64: over the bridge no
  more than its output limit holds.\<close>

definition received :: "nat list \<Rightarrow> nat list option" where
  "received content =
     DecodeString (filter (\<lambda>c. c \<noteq> CHR 0x0A) (TrimSpace (limited output_limit [StdEncoding content])))"

lemma received_eq: "list_all (\<lambda>b. b < 256) content \<Longrightarrow> received content = Some (take 786432 content)"
proof -
  assume bytes: "list_all (\<lambda>b. b < 256) content"
  define e where "e = StdEncoding (take 786432 content)"
  have "limited output_limit [StdEncoding content] = e"
    using encoding_take [of "''=''" 262144 std_alphabet content]
    by (simp add: limited_eq output_limit_def StdEncoding_def e_def)
  moreover have "\<forall>c \<in> set e. \<not> is_space c"
    unfolding e_def using encoding_harmless by blast
  moreover have "b64_decode e = Some (take 786432 content)"
    unfolding e_def StdEncoding_def
    by (rule decode_encode) (use bytes in \<open>auto simp: list_all_iff dest: in_set_takeD\<close>)
  ultimately show ?thesis
    unfolding received_def DecodeString_def by (simp add: trimmed unspaced)
qed

lemma bytes_small: "list_all (\<lambda>b. b < 256) (bytes_of s)"
  by (simp add: bytes_of_def list_all_iff nat_of_char_less_256)

text \<open>Round trip of a download over the bridge: base64, the output limit and the decoder together
  deliver exactly the first 786432 bytes of the file, so a file up to that size arrives unchanged and a
  longer one is cut there without an error, although the handler admits 32 MiB.\<close>
theorem downloads_over_the_bridge:
  "received (bytes_of content) = Some (bytes_of (take 786432 content))"
  by (simp add: received_eq bytes_small) (simp add: bytes_of_def take_map)

lemma split_at_chars: "seg \<in> set (split_at sep s) \<Longrightarrow> c \<in> set seg \<Longrightarrow> c \<in> set s"
proof (induction s arbitrary: seg)
  case (Cons a s)
  then show ?case by (cases "split_at sep s") (force split: if_splits)+
qed simp

lemma clean_subset: "set (foldl clean_step st segs) \<subseteq> set st \<union> set segs"
proof (induction segs arbitrary: st)
  case (Cons seg segs)
  have "set (clean_step st seg) \<subseteq> insert seg (set st)"
    by (cases st) (auto simp: clean_step_def)
  then show ?case using Cons.IH [of "clean_step st seg"] by auto
qed simp

lemma join_chars: "c \<in> set (join_with sep xs) \<Longrightarrow> c \<in> set sep \<or> (\<exists>x \<in> set xs. c \<in> set x)"
  by (cases xs) (auto simp: join_with_def split: if_splits)

lemma clean_chars: "c \<in> set (CleanRooted s) \<Longrightarrow> c = CHR ''/'' \<or> c \<in> set s"
  using clean_subset [of "[]" "split_at CHR ''/'' s"]
  by (fastforce simp: CleanRooted_def rooted_def clean_segments_def dest!: join_chars dest: split_at_chars)

lemma unquoted_dir:
  assumes "CHR 0x27 \<notin> set p"
  shows "CHR 0x27 \<notin> set (DirRooted p)"
proof
  assume "CHR 0x27 \<in> set (DirRooted p)"
  then have "CHR 0x27 \<in> set (dropWhile (\<lambda>c. c \<noteq> CHR ''/'') (rev p))"
    using clean_chars by (fastforce simp: DirRooted_def)
  then show False
    using assms by (metis set_dropWhileD set_rev)
qed

lemma read_encoding:
  "sh_read Bare None (show_quoted (StdEncoding bs) @ cs) = sh_read Bare (Some (StdEncoding bs)) cs"
  using sh_read_double [of "StdEncoding bs" "[]" cs] encoding_harmless [of _ bs]
  by (simp add: quoted_encoding list_all_iff)

lemmas reading = read_quoted read_encoding sh_operators_def sh_specials_def

text \<open>The operators between the words.\<close>

definition amp :: "sh_token list" where "amp = [Op CHR ''&'', Op CHR ''&'']"
definition bar :: "sh_token list" where "bar = [Op CHR ''|'', Op CHR ''|'']"
definition no_stderr :: "sh_token list" where "no_stderr = [Word ''2'', Op CHR ''>'', Word ''/dev/null'']"

lemma write_words:
  assumes "CHR 0x27 \<notin> set p"
  shows "sh_words (write_line (DirRooted p) (StdEncoding content) p) = Some
         ([Word ''mkdir'', Word ''-p'', Word (DirRooted p)] @ amp
          @ [Word ''printf'', Word ''%s'', Word (StdEncoding content), Op CHR ''|'', Word ''base64'', Word ''-d'',
             Op CHR ''>'', Word p])"
  unfolding write_line_def sh_words_def
  using assms unquoted_dir [OF assms] read_quoted [OF assms, of "[]"] read_quoted [of "''%s''"]
  by (simp add: reading amp_def)

text \<open>C31. No injection: for every accepted path and every content, a shell reads from the command lines
  of listing, size, reading and writing exactly the intended words, with the path (the directory, the
  encoded content) as one word in its place, whatever characters it contains.\<close>
theorem file_commands_carry_the_path:
  "case sandboxFilePath raw of
     Inl _ \<Rightarrow> True
   | Inr p \<Rightarrow>
       sh_words (list_line p) = Some ([Word ''cd'', Word p] @ no_stderr @ amp
         @ [Word ''ls'', Word ''-la'', Word ''--time-style=+%s'', Op CHR ''|'', Word ''tail'', Word ''-n'', Word ''+2''])
     \<and> sh_words (stat_line p) = Some ([Word ''stat'', Word ''-c'', Word ''%s'', Word p] @ no_stderr @ bar
         @ [Word ''wc'', Word ''-c'', Op CHR ''<'', Word p])
     \<and> sh_words (read_line p) = Some ([Word ''base64'', Word ''-w0'', Word p] @ no_stderr @ bar
         @ [Word ''base64'', Word p])
     \<and> sh_words (write_line (DirRooted p) (StdEncoding content) p) = Some
         ([Word ''mkdir'', Word ''-p'', Word (DirRooted p)] @ amp
          @ [Word ''printf'', Word ''%s'', Word (StdEncoding content), Op CHR ''|'', Word ''base64'', Word ''-d'',
             Op CHR ''>'', Word p])"
proof (cases "sandboxFilePath raw")
  case (Inr p)
  have p: "CHR 0x27 \<notin> set p" "CHR 0x27 \<notin> set (DirRooted p)"
    using Inr by (auto simp: path_accepted unquoted unquoted_dir)
  have "sh_words (list_line p) = Some ([Word ''cd'', Word p] @ no_stderr @ amp
         @ [Word ''ls'', Word ''-la'', Word ''--time-style=+%s'', Op CHR ''|'', Word ''tail'', Word ''-n'', Word ''+2''])"
    unfolding list_line_def sh_words_def by (simp add: reading p no_stderr_def amp_def)
  moreover have "sh_words (stat_line p) = Some ([Word ''stat'', Word ''-c'', Word ''%s'', Word p] @ no_stderr @ bar
         @ [Word ''wc'', Word ''-c'', Op CHR ''<'', Word p])"
    unfolding stat_line_def sh_words_def using read_quoted [OF p(1), of "[]"] by (simp add: reading p no_stderr_def bar_def)
  moreover have "sh_words (read_line p) = Some ([Word ''base64'', Word ''-w0'', Word p] @ no_stderr @ bar
         @ [Word ''base64'', Word p])"
    unfolding read_line_def sh_words_def using read_quoted [OF p(1), of "[]"]  by (simp add: reading p no_stderr_def bar_def)
  ultimately show ?thesis using write_words [OF p(1)] by (simp add: Inr)
qed simp

end
