(* ===== verification/Agent_Stream.thy ===== *)
theory Agent_Stream
  imports Shell Exec_Dispatch Sharing
begin

text \<open>
  What the agent's handlers share (\<open>handler.go\<close>, \<open>sse.go\<close> and the small writers of \<open>configure.go\<close>
  in \<open>pkg/router/agent\<close>): the stream of events to the client, cut into lines; the tail of a log;
  the audit event; and the first step of every handler.
\<close>

section \<open>The event stream\<close>

text \<open>The index of the first newline; \<open>None\<close> is the code's \<open>- 1\<close>.\<close>

fun indexNewline :: "string \<Rightarrow> nat option" where
  "indexNewline [] = None"
| "indexNewline (c # cs) = (if c = CHR 0x0A then Some 0 else map_option Suc (indexNewline cs))"

lemma indexNewline_Some: "indexNewline s = Some i \<Longrightarrow> i < length s \<and> s ! i = CHR 0x0A \<and> CHR 0x0A \<notin> set (take i s)"
  by (induction s arbitrary: i) (auto split: if_splits)

lemma indexNewline_None: "indexNewline s = None \<longleftrightarrow> CHR 0x0A \<notin> set s"
  by (induction s) auto

text \<open>The loop of \<open>Write\<close>: the complete lines of what is pending, and the rest.\<close>

function drain :: "string \<Rightarrow> string list \<times> string" where
  "drain pending =
     (case indexNewline pending of
        None \<Rightarrow> ([], pending)
      | Some i \<Rightarrow> (let (ls, rest) = drain (drop (i + 1) pending) in (take i pending # ls, rest)))"
  by pat_completeness auto
termination by (relation "measure length") (auto dest: indexNewline_Some)

declare drain.simps [simp del]

text \<open>A writer of the stream: its name, and what it holds back. The copies that \<open>withStream\<close> makes
  share the connection and its lock, and each starts with nothing pending.\<close>

record sse_writer =
  sw_stream :: string
  sw_pending :: string

definition newSSEWriter :: sse_writer where "newSSEWriter = \<lparr>sw_stream = [], sw_pending = []\<rparr>"

definition withStream :: "sse_writer \<Rightarrow> string \<Rightarrow> sse_writer" where
  "withStream w name = \<lparr>sw_stream = name, sw_pending = []\<rparr>"

definition log_event :: "string \<Rightarrow> string \<Rightarrow> string \<times> json" where
  "log_event stream line =
     (''log'', JObj [(''stream'', JText (if stream = [] then ''stdout'' else stream)), (''data'', JText line)])"

definition sse_Write :: "sse_writer \<Rightarrow> string \<Rightarrow> (string \<times> json) list \<times> sse_writer" where
  "sse_Write w p =
     (if p = [] then ([], w)
      else let (ls, rest) = drain (sw_pending w @ p)
           in (map (log_event (sw_stream w)) ls, w\<lparr>sw_pending := rest\<rparr>))"

definition flushPending :: "sse_writer \<Rightarrow> (string \<times> json) list \<times> sse_writer" where
  "flushPending w =
     (if sw_pending w = [] then ([], w)
      else ([log_event (sw_stream w) (sw_pending w)], w\<lparr>sw_pending := []\<rparr>))"

text \<open>\<open>WriteEvent\<close>. A failed write is not looked at by any caller.\<close>

definition WriteEvent :: "'w api \<Rightarrow> string \<times> json \<Rightarrow> ('w, unit) kprog" where
  "WriteEvent E ev = tell E (WebCall (Emit (fst ev) (snd ev)))"

definition emit_all :: "'w api \<Rightarrow> (string \<times> json) list \<Rightarrow> ('w, unit) kprog" where
  "emit_all E evs = for_each evs (WriteEvent E)"

text \<open>A sequence of writes.\<close>

fun sse_writes :: "sse_writer \<Rightarrow> string list \<Rightarrow> (string \<times> json) list \<times> sse_writer" where
  "sse_writes w [] = ([], w)"
| "sse_writes w (p # ps) =
     (let (evs, w') = sse_Write w p; (evs', w'') = sse_writes w' ps in (evs @ evs', w''))"

section \<open>The tail of a log\<close>

definition tail_Write :: "nat \<Rightarrow> string \<Rightarrow> string \<Rightarrow> string" where
  "tail_Write maxSize buf p =
     (let d = buf @ p in if length d > maxSize then drop (length d - maxSize) d else d)"

section \<open>The audit event and the first step\<close>

definition recordAuditEvent :: "'w api \<Rightarrow> sandbox \<Rightarrow> string \<Rightarrow> string \<Rightarrow> string \<Rightarrow> ('w, unit) kprog" where
  "recordAuditEvent E sb eventType reason message = do {
     now \<leftarrow> ask E Now as_time;
     tell E (CreateEvent ((sandbox_event sb eventType reason message now)\<lparr>ke_component := ''agenttier-router/agent''\<rparr>))
   }"

definition loadSandbox ::
  "'w api \<Rightarrow> 'k server \<Rightarrow> claims option \<Rightarrow> string \<Rightarrow> ('w, reply + sandbox \<times> claims) kprog" where
  "loadSandbox E sv claims sandboxID =
     (case claims of
        None \<Rightarrow> ret (Inl (respondError 401 ''authentication required''))
      | Some cl \<Rightarrow> do {
          r \<leftarrow> getSandboxWithAuthCheck E sv sandboxID cl;
          ret (case r of Inl e \<Rightarrow> Inl (respondError 404 e) | Inr sb \<Rightarrow> Inr (sb, cl))
        })"

definition modeOrDefault :: "sandbox_mode \<Rightarrow> string" where
  "modeOrDefault m = (if m = ModeUnset then ''code'' else mode_text m)"

text \<open>The reply of a handler that may stream: once the stream is open, its events are the reply.\<close>

datatype agent_reply = Plain reply | Streamed

section \<open>Lines, however they arrive\<close>

abbreviation lines_of :: "string \<Rightarrow> string list" where
  "lines_of s \<equiv> split_at CHR 0x0A s"

lemma drain_eq: "drain s = (butlast (lines_of s), last (lines_of s))"
proof (induction s rule: drain.induct)
  case (1 s)
  show ?case
  proof (cases "indexNewline s")
    case None
    then have "lines_of s = [s]"
      by (simp add: indexNewline_None split_at_none)
    then show ?thesis using None by (simp add: drain.simps [of s])
  next
    case (Some i)
    note i = indexNewline_Some [OF Some]
    have "lines_of s = lines_of (take i s @ CHR 0x0A # drop (i + 1) s)"
      using i by (metis Suc_eq_plus1 id_take_nth_drop)
    then have "lines_of s = take i s # lines_of (drop (i + 1) s)"
      using i by (simp only: split_at_mark not_False_eq_True)
    then show ?thesis using 1 [OF Some] Some
      by (simp add: drain.simps [of s] split_at_never_empty)
  qed
qed

lemma sse_writes_from:
  assumes "lines_of (sw_pending w) = [sw_pending w]"
  shows "sse_writes w ps =
    (map (log_event (sw_stream w)) (butlast (lines_of (sw_pending w @ concat ps))),
     w\<lparr>sw_pending := last (lines_of (sw_pending w @ concat ps))\<rparr>)"
  using assms
proof (induction ps arbitrary: w)
  case Nil
  then show ?case by simp
next
  case (Cons p ps)
  define rest where "rest = last (lines_of (sw_pending w @ p))"
  have one: "lines_of rest = [rest]"
    unfolding rest_def using split_at_free [of "CHR 0x0A" "sw_pending w @ p"]
    by (intro split_at_none) (auto simp: list_all_iff split_at_never_empty)
  have step: "sse_Write w p = (map (log_event (sw_stream w)) (butlast (lines_of (sw_pending w @ p))),
      w\<lparr>sw_pending := rest\<rparr>)"
    using Cons.prems by (cases "p = []") (simp_all add: sse_Write_def drain_eq rest_def)
  have "lines_of (sw_pending w @ p @ concat ps) = butlast (lines_of (sw_pending w @ p)) @ lines_of (rest @ concat ps)"
    using split_at_joined [of "CHR 0x0A" "sw_pending w @ p" "concat ps"] by (simp add: rest_def)
  then show ?case
    using Cons.IH [of "w\<lparr>sw_pending := rest\<rparr>"] one
    by (simp add: step split_at_never_empty butlast_append)
qed

text \<open>The events of a stream do not depend on how the output arrives: whatever the chunks, a
  writer for one of the command's outputs sends exactly the complete lines of the whole output, in
  order, and holds back what follows the last newline. That rest is never sent: the flush at the end
  goes to the writer from which the two copies were made.\<close>
theorem streamed_lines_ignore_chunks:
  "sse_writes (withStream w name) chunks =
     (map (log_event name) (butlast (lines_of (concat chunks))),
      \<lparr>sw_stream = name, sw_pending = last (lines_of (concat chunks))\<rparr>)"
  using sse_writes_from [of "withStream w name" chunks] by (simp add: withStream_def)

text \<open>The tail is the end of everything written.\<close>

lemma tail_Write_drop: "tail_Write n (drop (length b - n) b) p = drop (length (b @ p) - n) (b @ p)"
proof (cases "length b \<le> n")
  case True
  then show ?thesis by (simp add: tail_Write_def Let_def)
next
  case False
  then have "length b + length p - n - (length b - n) = length p" by simp
  then show ?thesis using False by (auto simp: tail_Write_def Let_def add.commute)
qed

lemma tail_writes: "foldl (tail_Write n) [] ps = drop (length (concat ps) - n) (concat ps)"
proof (induction ps rule: rev_induct)
  case (snoc p ps)
  then show ?case using tail_Write_drop [of n "concat ps" p] by simp
qed simp

end
