(* ===== verification/Agent_Configure.thy ===== *)
theory Agent_Configure
  imports Agent_Stream Files
begin

text \<open>
  Configuring an agent (\<open>pkg/router/agent/configure.go\<close>): the request and its checks, the hash by
  which a repeated configuration is recognised, writing the files, running the install command,
  and what is kept of it in the sandbox's status and in a ConfigMap with the log.
\<close>

section \<open>The request\<close>

record configure_file =
  cf_path :: string
  cf_content :: string
  cf_base64 :: string

record configure_request =
  cq_files :: "configure_file list"
  cq_install :: "string list"
  cq_entrypoint :: "string list"

record configure_response =
  co_at :: instant
  co_hash :: string
  co_entrypoint :: "string list"
  co_exit :: int
  co_skipped :: bool

definition installSoftTimeout :: duration where "installSoftTimeout = 15 * minute"
definition configureFileLimitBytes :: nat where "configureFileLimitBytes = 32 * 1024 * 1024"
definition configureFileTotalLimitBytes :: nat where "configureFileTotalLimitBytes = 4 * configureFileLimitBytes"
definition configureFileMaxCount :: nat where "configureFileMaxCount = 200"
definition installLogTailBytes :: nat where "installLogTailBytes = 8 * 1024"

text \<open>The check of one file, with its index.\<close>

definition file_complaint :: "nat \<Rightarrow> configure_file \<Rightarrow> string option" where
  "file_complaint i f =
     (let at = ''files['' @ show_nat i @ '']''
      in if cf_path f = [] then Some (at @ ''.path is required'')
         else if \<not> has_prefix (cf_path f) ''/''
         then Some (at @ ''.path must be absolute (got '' @ show_quoted (cf_path f) @ '')'')
         else if str_contains (cf_path f) ''..'' then Some (at @ ''.path must not contain '' @ sq ''..'')
         else if list_ex disallowed (cf_path f) then Some (at @ ''.path contains disallowed characters'')
         else if cf_content f = [] \<and> cf_base64 f = [] then Some (at @ '' must set content or contentBase64'')
         else if cf_content f \<noteq> [] \<and> cf_base64 f \<noteq> []
         then Some (at @ '': set content OR contentBase64, not both'')
         else None)"

fun files_complaint :: "nat \<Rightarrow> configure_file list \<Rightarrow> string option" where
  "files_complaint i [] = None"
| "files_complaint i (f # fs) =
     (case file_complaint i f of Some e \<Rightarrow> Some e | None \<Rightarrow> files_complaint (i + 1) fs)"

definition validate_configure :: "configure_request \<Rightarrow> string option" where
  "validate_configure req =
     (if cq_files req = [] \<and> cq_install req = [] \<and> cq_entrypoint req = []
      then Some ''at least one of files, installCommand, or entrypoint is required''
      else files_complaint 0 (cq_files req))"

section \<open>Governance\<close>

definition file_size :: "configure_file \<Rightarrow> nat" where
  "file_size f = length (cf_content f) + length (cf_base64 f)"

fun size_complaint :: "nat \<Rightarrow> nat \<Rightarrow> configure_file list \<Rightarrow> string option" where
  "size_complaint i sofar [] = None"
| "size_complaint i sofar (f # fs) =
     (if file_size f > configureFileLimitBytes
      then Some (''files['' @ show_nat i @ ''] ('' @ cf_path f @ ''): '' @ show_nat (file_size f)
                 @ '' bytes exceeds per-file cap '' @ show_nat configureFileLimitBytes)
      else if sofar + file_size f > configureFileTotalLimitBytes
      then Some (''aggregate file size '' @ show_nat (sofar + file_size f) @ '' bytes exceeds total cap ''
                 @ show_nat configureFileTotalLimitBytes)
      else size_complaint (i + 1) (sofar + file_size f) fs)"

definition policyContains :: "string list \<Rightarrow> string \<Rightarrow> bool" where
  "policyContains haystack needle \<longleftrightarrow> needle \<in> set haystack"

fun registryPrefixAllowed :: "string \<Rightarrow> string list \<Rightarrow> bool" where
  "registryPrefixAllowed img [] = False"
| "registryPrefixAllowed img (p # ps) =
     (if p = [] then registryPrefixAllowed img ps
      else if has_prefix img p then True
      else registryPrefixAllowed img ps)"

definition policy_complaint :: "policy \<Rightarrow> sandbox \<Rightarrow> string option" where
  "policy_complaint p sb =
     (let tmpl = st_template (sb_status sb);
          img = (case spec_image (sb_spec sb) of None \<Rightarrow> [] | Some i \<Rightarrow> img_repository i)
      in if IsEmpty p then None
         else if pol_allowed_templates p \<noteq> [] \<and> tmpl \<noteq> [] \<and> \<not> policyContains (pol_allowed_templates p) tmpl
         then Some (''template '' @ show_quoted tmpl @ '' is not in the AllowedTemplates list (''
                    @ str_join '', '' (pol_allowed_templates p) @ '')'')
         else if pol_allowed_agent_images p \<noteq> [] \<and> img \<noteq> []
                 \<and> \<not> registryPrefixAllowed img (pol_allowed_agent_images p)
         then Some (''agent image '' @ show_quoted img @ '' is not in the AllowedAgentImages list (''
                    @ str_join '', '' (pol_allowed_agent_images p) @ '')'')
         else None)"

text \<open>The resolver of policies may be absent; an error of it is let pass.\<close>

type_synonym 'w policy_resolver = "(string \<Rightarrow> ('w, string + policy) kprog) option"

definition checkConfigureGovernance ::
  "'w policy_resolver \<Rightarrow> sandbox \<Rightarrow> configure_request \<Rightarrow> ('w, string option) kprog" where
  "checkConfigureGovernance PolicyOf sb req =
     (if length (cq_files req) > configureFileMaxCount
      then ret (Some (''too many files in request: '' @ show_nat (length (cq_files req)) @ '' (max ''
                      @ show_nat configureFileMaxCount @ '')''))
      else case size_complaint 0 0 (cq_files req) of
        Some e \<Rightarrow> ret (Some e)
      | None \<Rightarrow>
          (case PolicyOf of
             None \<Rightarrow> ret None
           | Some resolve \<Rightarrow> do {
               p \<leftarrow> resolve (sb_namespace sb);
               ret (case p of Inl _ \<Rightarrow> None | Inr pol \<Rightarrow> policy_complaint pol sb)
             }))"

section \<open>The hash\<close>

text \<open>The order of files with equal paths is \<open>sort.Slice\<close>'s: \<open>by_path\<close> is the sorted list.\<close>

definition hashed_text :: "configure_file list \<Rightarrow> string list \<Rightarrow> string" where
  "hashed_text fs install =
     concat (map (\<lambda>c. c @ [CHR 0x00]) install)
     @ concat (map (\<lambda>f. cf_path f @ [CHR 0x00] @ (if cf_base64 f \<noteq> [] then cf_base64 f else cf_content f)
                       @ [CHR 0x00]) fs)"

definition installHash :: "(configure_file list \<Rightarrow> configure_file list) \<Rightarrow> configure_request \<Rightarrow> string" where
  "installHash by_path req = hex_encode (sha256 (bytes_of (hashed_text (by_path (cq_files req)) (cq_install req))))"

section \<open>Files and install\<close>

definition stdout_log :: "string \<Rightarrow> string \<times> json" where
  "stdout_log line = log_event ''stdout'' line"

fun writeFiles :: "'w api \<Rightarrow> sandbox \<Rightarrow> configure_file list \<Rightarrow> ('w, string option) kprog" where
  "writeFiles E sb [] = ret None"
| "writeFiles E sb (f # fs) =
     (let cleaned = CleanRooted (cf_path f)
      in do {
           WriteEvent E (stdout_log (''[configure] uploading '' @ cleaned));
           (case (if cf_base64 f \<noteq> [] then DecodeString (cf_base64 f) else Some (bytes_of (cf_content f))) of
              None \<Rightarrow> ret (Some (''decode '' @ cleaned))
            | Some raw \<Rightarrow>
                if length raw > configureFileLimitBytes
                then ret (Some (cleaned @ '': '' @ show_nat (length raw) @ '' bytes exceeds limit of ''
                                @ show_nat configureFileLimitBytes))
                else do {
                  (res, _, err) \<leftarrow> ExecCommandStream E (sb_namespace sb) (st_pod (sb_status sb)) ''sandbox''
                    (sh (write_line (DirRooted cleaned) (StdEncoding raw) cleaned));
                  (case res of
                     Inl e \<Rightarrow> ret (Some (''write '' @ cleaned @ '': '' @ e))
                   | Inr code \<Rightarrow>
                       if code \<noteq> 0
                       then ret (Some (''write '' @ cleaned @ '' exited '' @ show_int code @ '': '' @ TrimSpace err))
                       else writeFiles E sb fs)
                })
         })"

text \<open>The install command's two outputs go to the stream and to the tail; the model sends first the
  one, then the other. The flush at the end is that of the original writer, which has nothing
  pending.\<close>

definition runInstall ::
  "'w api \<Rightarrow> sandbox \<Rightarrow> string list \<Rightarrow> ('w, string + int \<times> string) kprog" where
  "runInstall E sb command = do {
     WriteEvent E (stdout_log (''[configure] running install: '' @ str_join '' '' command));
     (res, out, err) \<leftarrow> ExecCommandStream E (sb_namespace sb) (st_pod (sb_status sb)) ''sandbox'' command;
     emit_all E (fst (sse_Write (withStream newSSEWriter ''stdout'') out));
     emit_all E (fst (sse_Write (withStream newSSEWriter ''stderr'') err));
     emit_all E (fst (flushPending newSSEWriter));
     (case res of
        Inl e \<Rightarrow> do {
          c \<leftarrow> ask E (WebCall ContextState) as_context;
          ret (Inl (if c = DeadlineExceeded then ''install timed out after '' @ show_duration installSoftTimeout else e))
        }
      | Inr code \<Rightarrow> ret (Inr (code, tail_Write installLogTailBytes (tail_Write installLogTailBytes [] out) err)))
   }"

section \<open>What is kept\<close>

definition installLogConfigMapName :: "string \<Rightarrow> string" where
  "installLogConfigMapName sandboxName = sandboxName @ ''-install-log''"

definition install_log_map :: "sandbox \<Rightarrow> string \<Rightarrow> config_map \<Rightarrow> config_map" where
  "install_log_map sb log cm = cm
     \<lparr>cm_labels := (cm_labels cm)(''agenttier.io/sandbox'' \<mapsto> sb_name sb, ''agenttier.io/kind'' \<mapsto> ''install-log''),
      cm_owner := Some (sb_uid sb),
      cm_data := [''log'' \<mapsto> TextDoc log]\<rparr>"

definition new_install_log_map :: "sandbox \<Rightarrow> config_map" where
  "new_install_log_map sb =
     \<lparr>cm_name = installLogConfigMapName (sb_name sb), cm_namespace = sb_namespace sb, cm_labels = Map.empty,
      cm_owner = None, cm_data = Map.empty, cm_version = []\<rparr>"

text \<open>The name of the ConfigMap, empty if there is none.\<close>

definition writeInstallLog :: "'w api \<Rightarrow> sandbox \<Rightarrow> string \<Rightarrow> ('w, api_err + string) kprog" where
  "writeInstallLog E sb log =
     (let name = installLogConfigMapName (sb_name sb)
      in do {
           g \<leftarrow> ask E (GetConfigMap (sb_namespace sb) name) as_config_map;
           (case g of
              Inl NotFound \<Rightarrow>
                (if log = [] then ret (Inr [])
                 else do {
                   c \<leftarrow> ask E (CreateConfigMap (install_log_map sb log (new_install_log_map sb))) as_unit;
                   ret (case c of Inl e \<Rightarrow> Inl e | Inr _ \<Rightarrow> Inr name)
                 })
            | Inl e \<Rightarrow> ret (Inl e)
            | Inr cm \<Rightarrow>
                (if log = [] then do {
                   d \<leftarrow> ask E (ClusterCall (DeleteConfigMap (cm_namespace cm) (cm_name cm))) as_unit;
                   ret (case d of Inl NotFound \<Rightarrow> Inr [] | Inl e \<Rightarrow> Inl e | Inr _ \<Rightarrow> Inr [])
                 }
                 else do {
                   u \<leftarrow> ask E (UpdateConfigMap (install_log_map sb log cm)) as_unit;
                   ret (case u of Inl e \<Rightarrow> Inl e | Inr _ \<Rightarrow> Inr name)
                 }))
         })"

text \<open>\<open>int32(d.Seconds())\<close>: the fraction is cut off.\<close>

definition seconds_of :: "duration \<Rightarrow> int" where
  "seconds_of d = (if d < 0 then - ((- d) div second) else d div second)"

definition configured :: "configure_response \<Rightarrow> local_object_reference option \<Rightarrow> int \<Rightarrow> duration \<Rightarrow> agent_configure_status" where
  "configured resp logRef maxConcurrent defaultTimeout =
     \<lparr>acs_last = Some (co_at resp), acs_install_hash = co_hash resp, acs_entrypoint = co_entrypoint resp,
      acs_install_exit = co_exit resp, acs_log_ref = logRef, acs_max_concurrent = maxConcurrent,
      acs_default_timeout = wrap32 (seconds_of defaultTimeout)\<rparr>"

fun persist_loop :: "'w api \<Rightarrow> sandbox \<Rightarrow> agent_configure_status \<Rightarrow> api_err option \<Rightarrow> nat \<Rightarrow> ('w, api_err option) kprog" where
  "persist_loop E sb acs lastErr 0 = ret lastErr"
| "persist_loop E sb acs lastErr (Suc tries) = do {
     g \<leftarrow> ask E (GetSandbox (sb_namespace sb) (sb_name sb)) as_sandbox;
     (case g of
        Inl e \<Rightarrow> ret (Some e)
      | Inr fresh \<Rightarrow> do {
          u \<leftarrow> ask E (UpdateSandboxStatus
                 (fresh\<lparr>sb_status := (sb_status fresh)\<lparr>st_agent_configure := Some acs\<rparr>\<rparr>)) as_unit;
          (case u of
             Inl Conflict \<Rightarrow> persist_loop E sb acs (Some Conflict) tries
           | Inl e \<Rightarrow> ret (Some e)
           | Inr _ \<Rightarrow> ret None)
        })
   }"

definition persistStatus ::
  "'w api \<Rightarrow> sandbox \<Rightarrow> configure_response \<Rightarrow> string \<Rightarrow> int \<Rightarrow> duration \<Rightarrow> ('w, api_err option) kprog" where
  "persistStatus E sb resp installLog maxConcurrent defaultTimeout = do {
     l \<leftarrow> writeInstallLog E sb installLog;
     persist_loop E sb
       (configured resp (case l of Inl _ \<Rightarrow> None | Inr name \<Rightarrow> if name = [] then None else Some \<lparr>lor_name = name\<rparr>)
          maxConcurrent defaultTimeout) None 3
   }"

section \<open>The agent's limits\<close>

definition agent_of :: "api_err + sandbox_template_spec \<times> string \<Rightarrow> agent_spec option" where
  "agent_of g =
     (case g of
        Inl _ \<Rightarrow> None
      | Inr (t, _) \<Rightarrow> (case tpl_harness t of None \<Rightarrow> None | Some har \<Rightarrow> har_agent har))"

definition directTemplateAgentSpec ::
  "'w api \<Rightarrow> sandbox \<Rightarrow> template_reference \<Rightarrow> ('w, agent_spec option) kprog" where
  "directTemplateAgentSpec E sb tref =
     (let kind = (if tr_kind tref = [] then ''ClusterSandboxTemplate'' else tr_kind tref)
      in if kind = ''ClusterSandboxTemplate'' then do {
           g \<leftarrow> ask E (GetClusterTemplate (tr_name tref)) as_template;
           ret (agent_of g)
         }
         else if kind = ''SandboxTemplate'' then do {
           g \<leftarrow> ask E (GetTemplate (if tr_namespace tref = [] then sb_namespace sb else tr_namespace tref)
                            (tr_name tref)) as_template;
           ret (agent_of g)
         }
         else ret None)"

definition resolveAgentCaps ::
  "'w policy_resolver \<Rightarrow> 'w api \<Rightarrow> sandbox \<Rightarrow> ('w, int \<times> duration) kprog" where
  "resolveAgentCaps PolicyOf E sb = do {
     ag \<leftarrow> (case (st_agent_spec (sb_status sb), spec_template (sb_spec sb)) of
             (None, Some tref) \<Rightarrow> directTemplateAgentSpec E sb tref
           | (a, _) \<Rightarrow> ret a);
     (case ag of
        None \<Rightarrow> ret (0, 0)
      | Some a \<Rightarrow>
          let maxConcurrent = (case ag_max_concurrent a of None \<Rightarrow> 0 | Some n \<Rightarrow> n);
              defaultTimeout = (case ag_default_timeout a of None \<Rightarrow> 0 | Some d \<Rightarrow> d)
          in case PolicyOf of
               None \<Rightarrow> ret (maxConcurrent, defaultTimeout)
             | Some resolve \<Rightarrow> do {
                 p \<leftarrow> resolve (sb_namespace sb);
                 ret (case p of Inl _ \<Rightarrow> maxConcurrent | Inr pol \<Rightarrow> ClampConcurrency pol maxConcurrent,
                      defaultTimeout)
               })
   }"

section \<open>The handlers\<close>

definition result_event :: "configure_response \<Rightarrow> string \<times> json" where
  "result_event r =
     (''result'', JObj
        ([(''lastConfiguredAt'', JTime (co_at r)), (''installCommandHash'', JText (co_hash r))]
         @ (if co_entrypoint r = [] then [] else [(''entrypoint'', JTexts (co_entrypoint r))])
         @ [(''installExitCode'', JInt (co_exit r)), (''skipped'', JBool (co_skipped r))]))"

definition error_event :: "string \<Rightarrow> string \<Rightarrow> string \<times> json" where
  "error_event phase message = (''error'', JObj [(''phase'', JText phase), (''message'', JText message)])"

text \<open>The end of a configuration: what is kept, the audit event and the result.\<close>

definition finish_configure ::
  "'w api \<Rightarrow> sandbox \<Rightarrow> configure_request \<Rightarrow> string \<Rightarrow> bool \<Rightarrow> int \<Rightarrow> string \<Rightarrow> int \<Rightarrow> duration \<Rightarrow> ('w, agent_reply) kprog" where
  "finish_configure E sb req hash skipped exitCode installLog maxConcurrent defaultTimeout = do {
     now \<leftarrow> ask E Now as_time;
     let resp = \<lparr>co_at = now, co_hash = hash, co_entrypoint = cq_entrypoint req, co_exit = exitCode,
                 co_skipped = skipped\<rparr>
     in do {
          _ \<leftarrow> (if exitCode = 0 \<or> skipped then persistStatus E sb resp installLog maxConcurrent defaultTimeout
                else ret None);
          recordAuditEvent E sb (if exitCode \<noteq> 0 then ''Warning'' else ''Normal'') ''AgentConfigured''
            (''install_exit_code='' @ show_int exitCode @ '' skipped='' @ (if skipped then ''true'' else ''false''));
          WriteEvent E (result_event resp);
          ret Streamed
        }
   }"

text \<open>The work after the checks: the files, the install, the end.\<close>

definition run_configure ::
  "'w policy_resolver \<Rightarrow> (configure_file list \<Rightarrow> configure_file list) \<Rightarrow> 'w api \<Rightarrow> sandbox \<Rightarrow> configure_request
   \<Rightarrow> ('w, agent_reply) kprog" where
  "run_configure PolicyOf by_path E sb req =
     (let hash = installHash by_path req;
          skipped = (case st_agent_configure (sb_status sb) of
                       None \<Rightarrow> False | Some acs \<Rightarrow> acs_install_hash acs = hash \<and> hash \<noteq> [])
      in do {
           (maxConcurrent, defaultTimeout) \<leftarrow> resolveAgentCaps PolicyOf E sb;
           w \<leftarrow> (if skipped then ret None else writeFiles E sb (cq_files req));
           (case w of
              Some e \<Rightarrow> do { WriteEvent E (error_event ''files'' e); ret Streamed }
            | None \<Rightarrow>
                if skipped \<or> cq_install req = []
                then finish_configure E sb req hash skipped 0 [] maxConcurrent defaultTimeout
                else do {
                  i \<leftarrow> runInstall E sb (cq_install req);
                  (case i of
                     Inl e \<Rightarrow> do { WriteEvent E (error_event ''install'' e); ret Streamed }
                   | Inr (exitCode, log) \<Rightarrow>
                       finish_configure E sb req hash skipped exitCode log maxConcurrent defaultTimeout)
                })
         })"

definition handleConfigure ::
  "'w policy_resolver \<Rightarrow> (configure_file list \<Rightarrow> configure_file list) \<Rightarrow> 'w api \<Rightarrow> 'k server \<Rightarrow> claims option
   \<Rightarrow> string \<Rightarrow> string + configure_request \<Rightarrow> ('w, agent_reply) kprog" where
  "handleConfigure PolicyOf by_path E sv claims sandboxID body = do {
     l \<leftarrow> loadSandbox E sv claims sandboxID;
     (case l of
        Inl rep \<Rightarrow> ret (Plain rep)
      | Inr (sb, _) \<Rightarrow>
          if spec_mode (sb_spec sb) \<noteq> SandboxModeAgent
          then ret (Plain (respondError 400
                 (''sandbox '' @ sb_name sb @ '' is in mode '' @ show_quoted (modeOrDefault (spec_mode (sb_spec sb)))
                  @ '' '' @ em_dash @ '' /configure is only valid for mode: agent. Use the file-transfer and exec APIs for interactive sandboxes.'')))
          else if sb_phase sb \<noteq> SandboxPhaseRunning
          then ret (Plain (respondError 409
                 (''sandbox is in phase '' @ show_quoted (phase_text (sb_phase sb)) @ '' '' @ em_dash
                  @ '' wait for Running before configuring'')))
          else (case body of
            Inl e \<Rightarrow> ret (Plain (respondError 400 (''invalid request body: '' @ e)))
          | Inr req \<Rightarrow>
              (case validate_configure req of
                 Some e \<Rightarrow> ret (Plain (respondError 400 e))
               | None \<Rightarrow> do {
                   d \<leftarrow> checkConfigureGovernance PolicyOf sb req;
                   (case d of
                      Some reason \<Rightarrow> do {
                        recordAuditEvent E sb ''Warning'' ''ConfigureDenied'' reason;
                        ret (Plain (respondError 403 reason))
                      }
                    | None \<Rightarrow> run_configure PolicyOf by_path E sb req)
                 })))
   }"

text \<open>The log is a Go string literal, which is JSON as long as it holds no control character.\<close>

definition handleGetInstallLog ::
  "'w api \<Rightarrow> 'k server \<Rightarrow> claims option \<Rightarrow> string \<Rightarrow> ('w, reply + string) kprog" where
  "handleGetInstallLog E sv claims sandboxID = do {
     l \<leftarrow> loadSandbox E sv claims sandboxID;
     (case l of
        Inl rep \<Rightarrow> ret (Inl rep)
      | Inr (sb, _) \<Rightarrow> do {
          g \<leftarrow> ask E (GetConfigMap (sb_namespace sb) (installLogConfigMapName (sb_name sb))) as_config_map;
          ret (case g of
                 Inl NotFound \<Rightarrow> Inl (respondError 404 ''no install log available for this sandbox'')
               | Inl e \<Rightarrow> Inl (respondError 500 (''failed to read install log: '' @ err_text e))
               | Inr cm \<Rightarrow> Inr (''{'' @ show_quoted ''log'' @ '': ''
                   @ show_quoted (case cm_data cm ''log'' of Some (TextDoc t) \<Rightarrow> t | _ \<Rightarrow> []) @ ''}''))
        })
   }"

end
