(* ===== verification/Agent_Invoke.thy ===== *)
theory Agent_Invoke
  imports Agent_Configure
begin

text \<open>
  Invoking an agent (\<open>pkg/router/agent/invoke.go\<close>): the slots that limit how many invocations of a
  sandbox run at once, the register of running invocations by which one is cancelled, the time-out,
  the command, and the two handlers.
\<close>

section \<open>Slots and the register\<close>

definition defaultInvokeTimeout :: duration where "defaultInvokeTimeout = 30 * minute"

text \<open>\<open>concurrencyTracker\<close>: the running invocations by sandbox name; an absent counter is 0. A lock
  makes each operation one step.\<close>

type_synonym tracker = "string \<Rightarrow> int"

definition newConcurrencyTracker :: tracker where "newConcurrencyTracker = (\<lambda>_. 0)"

definition try_slot :: "tracker \<Rightarrow> string \<Rightarrow> int \<Rightarrow> (int \<times> bool) \<times> tracker" where
  "try_slot c sandboxID limit =
     (let cur = c sandboxID
      in if limit > 0 \<and> cur \<ge> limit then ((cur, False), c)
         else ((cur + 1, True), c(sandboxID := cur + 1)))"

definition release_slot :: "tracker \<Rightarrow> string \<Rightarrow> tracker" where
  "release_slot c sandboxID = (if c sandboxID > 0 then c(sandboxID := c sandboxID - 1) else c)"

record invoke_entry =
  ie_sandbox :: string
  ie_actor :: string
  ie_started :: instant
  ie_cancelled :: bool

record agent_state =
  as_counts :: tracker
  as_invokes :: "string \<rightharpoonup> invoke_entry"

section \<open>Time-out, identifier and command\<close>

definition resolveConcurrencyLimit :: "sandbox \<Rightarrow> int" where
  "resolveConcurrencyLimit sb =
     (case st_agent_configure (sb_status sb) of None \<Rightarrow> 0 | Some acs \<Rightarrow> acs_max_concurrent acs)"

definition resolveInvokeTimeout :: "sandbox \<Rightarrow> string \<Rightarrow> duration" where
  "resolveInvokeTimeout sb override =
     (let limit = (case st_agent_configure (sb_status sb) of
                     None \<Rightarrow> defaultInvokeTimeout
                   | Some acs \<Rightarrow>
                       let d = wrap64 (acs_default_timeout acs * second)
                       in if acs_default_timeout acs > 0 \<and> d > 0 then d else defaultInvokeTimeout)
      in if override = [] then limit
         else case ParseDuration override of
                None \<Rightarrow> limit
              | Some d \<Rightarrow> if d > 0 \<and> d < limit then d else limit)"

definition newInvokeID :: "'w api \<Rightarrow> ('w, string) kprog" where
  "newInvokeID E = do {
     b \<leftarrow> ask E (RandBytes 12) as_bytes;
     (case b of
        Inr bs \<Rightarrow> ret (''inv-'' @ hex_encode bs)
      | Inl _ \<Rightarrow> do { now \<leftarrow> ask E Now as_time; ret (''inv-'' @ show_int now) })
   }"

definition invoke_argv :: "string list \<Rightarrow> string \<Rightarrow> string list" where
  "invoke_argv entrypoint prompt = entrypoint @ (if prompt = [] then [] else [''--prompt='' @ prompt])"

definition maxBodyBytes :: nat where "maxBodyBytes = 16 * 1024 * 1024"

section \<open>The runtime's events\<close>

text \<open>What the callback does with one event: a log goes to the writer of its stream, an exit is
  remembered. The state is the two writers and the exit seen last; the events to the client are the
  output.\<close>

type_synonym relay = "sse_writer \<times> sse_writer \<times> (int \<times> string) option"

definition relay_event :: "runtime_codec \<Rightarrow> relay \<Rightarrow> string \<times> string \<Rightarrow> (string \<times> json) list \<times> relay" where
  "relay_event rc st ev =
     (case st of (out, err, seen) \<Rightarrow>
        if fst ev = ''log'' then
          (case rc_log rc (snd ev) of
             None \<Rightarrow> ([], st)
           | Some (stream, data) \<Rightarrow>
               if stream = ''stderr''
               then (let (evs, err') = sse_Write err data in (evs, (out, err', seen)))
               else (let (evs, out') = sse_Write out data in (evs, (out', err, seen))))
        else if fst ev = ''exit'' then
          (case rc_exit rc (snd ev) of None \<Rightarrow> ([], st) | Some x \<Rightarrow> ([], (out, err, Some x)))
        else ([], st))"

fun relay_events :: "runtime_codec \<Rightarrow> relay \<Rightarrow> (string \<times> string) list \<Rightarrow> (string \<times> json) list \<times> relay" where
  "relay_events rc st [] = ([], st)"
| "relay_events rc st (e # es) =
     (let (evs, st') = relay_event rc st e; (evs', st'') = relay_events rc st' es in (evs @ evs', st''))"

definition streamInvokeViaHTTP ::
  "runtime_codec \<Rightarrow> 'w api \<Rightarrow> http_client \<Rightarrow> string \<Rightarrow> string list \<Rightarrow> string \<Rightarrow> int \<Rightarrow> ('w, int \<times> string) kprog" where
  "streamInvokeViaHTTP rc E c invokeID cmd stdin timeoutSeconds = do {
     (evs, failed) \<leftarrow> InvokeStream rc E c cmd stdin timeoutSeconds invokeID;
     let (out, _, _, seen) =
       relay_events rc (withStream newSSEWriter ''stdout'', withStream newSSEWriter ''stderr'', None) evs
     in do {
          emit_all E out;
          (case failed of
             Some _ \<Rightarrow> do {
               x \<leftarrow> ask E (WebCall ContextState) as_context;
               ret (- 1, case x of DeadlineExceeded \<Rightarrow> ''timeout'' | ContextCanceled \<Rightarrow> ''canceled''
                                 | ContextLive \<Rightarrow> ''error'')
             }
           | None \<Rightarrow> ret (case seen of None \<Rightarrow> (- 1, ''error'') | Some x \<Rightarrow> x))
        }
   }"

text \<open>The command over the bridge; its outputs are sent one after the other here.\<close>

definition invoke_via_bridge ::
  "'w api \<Rightarrow> sandbox \<Rightarrow> string list \<Rightarrow> string \<Rightarrow> ('w, string + int) kprog" where
  "invoke_via_bridge E sb cmd stdin = do {
     (res, out, err) \<leftarrow> ExecCommandStreamWithStdin E (sb_namespace sb) (st_pod (sb_status sb)) ''sandbox'' cmd stdin;
     emit_all E (fst (sse_Write (withStream newSSEWriter ''stdout'') out));
     emit_all E (fst (sse_Write (withStream newSSEWriter ''stderr'') err));
     ret res
   }"

text \<open>Exit code and reason of a run: by the runtime if there is one, else by the bridge. An error is
  told apart by the state of the context.\<close>

definition run_invoke ::
  "runtime_codec \<Rightarrow> 'w api \<Rightarrow> sandbox \<Rightarrow> string \<Rightarrow> string list \<Rightarrow> string \<Rightarrow> duration \<Rightarrow> ('w, int \<times> string) kprog" where
  "run_invoke rc E sb invokeID cmd stdin timeout = do {
     d \<leftarrow> agentHTTPExec E sb;
     (code, reason, failed) \<leftarrow> (case d of
        Some c \<Rightarrow> do {
          (code, reason) \<leftarrow> streamInvokeViaHTTP rc E c invokeID cmd stdin (seconds_of timeout);
          ret (code, reason, code < 0 \<and> reason = ''error'')
        }
      | None \<Rightarrow> do {
          r \<leftarrow> invoke_via_bridge E sb cmd stdin;
          ret (case r of Inl _ \<Rightarrow> (- 1, ''completed'', True) | Inr code \<Rightarrow> (code, ''completed'', False))
        });
     emit_all E (fst (flushPending newSSEWriter));
     (if \<not> failed then ret (code, reason)
      else do {
        x \<leftarrow> ask E (WebCall ContextState) as_context;
        ret (- 1, case x of DeadlineExceeded \<Rightarrow> ''timeout'' | ContextCanceled \<Rightarrow> ''canceled''
                          | ContextLive \<Rightarrow> ''error'')
      })
   }"

section \<open>The handlers\<close>

definition enter :: "agent_state \<Rightarrow> string \<Rightarrow> int \<Rightarrow> (int \<times> bool) \<times> agent_state" where
  "enter st name limit =
     (let (r, c) = try_slot (as_counts st) name limit in (r, st\<lparr>as_counts := c\<rparr>))"

definition register :: "agent_state \<Rightarrow> string \<Rightarrow> invoke_entry \<Rightarrow> agent_state" where
  "register st invokeID e = st\<lparr>as_invokes := (as_invokes st)(invokeID \<mapsto> e)\<rparr>"

definition unregister :: "agent_state \<Rightarrow> string \<Rightarrow> agent_state" where
  "unregister st invokeID = st\<lparr>as_invokes := (as_invokes st)(invokeID := None)\<rparr>"

definition leave_slot :: "agent_state \<Rightarrow> string \<Rightarrow> agent_state" where
  "leave_slot st name = st\<lparr>as_counts := release_slot (as_counts st) name\<rparr>"

definition throttled :: "sandbox \<Rightarrow> int \<Rightarrow> int \<Rightarrow> reply" where
  "throttled sb limit current = respondJSON 429 (JObj
     [(''error'', JText ''concurrency_exceeded''), (''limit'', JInt limit), (''inflight'', JInt current),
      (''message'', JText (''sandbox '' @ sb_name sb @ '' already has '' @ show_int current
                          @ '' concurrent invokes (max '' @ show_int limit @ '')''))])"

definition start_event :: "string \<Rightarrow> instant \<Rightarrow> string \<times> json" where
  "start_event invokeID started =
     (''start'', JObj [(''invokeId'', JText invokeID), (''startedAt'', JInt (started div millisecond))])"

definition exit_event :: "string \<Rightarrow> int \<Rightarrow> duration \<Rightarrow> string \<Rightarrow> string \<times> json" where
  "exit_event invokeID code took reason =
     (''exit'', JObj ([(''invokeId'', JText invokeID), (''exitCode'', JInt code),
                      (''durationMs'', JInt (took div millisecond))]
                     @ (if reason = [] then [] else [(''reason'', JText reason)])))"

definition audit_of_exit :: "int \<Rightarrow> string \<Rightarrow> string \<times> string" where
  "audit_of_exit code reason =
     (if reason = ''timeout'' \<or> reason = ''error'' \<or> (reason = ''completed'' \<and> code \<noteq> 0)
      then (''Warning'', ''AgentInvokeFailed'') else (''Normal'', ''AgentInvokeCompleted''))"

text \<open>The streamed part of an invocation. While it runs, the register holds its entry; the state that
  it returns is the one after its removal.\<close>

definition stream_invoke ::
  "runtime_codec \<Rightarrow> 'w api \<Rightarrow> sandbox \<Rightarrow> claims \<Rightarrow> instant \<Rightarrow> duration \<Rightarrow> string list \<Rightarrow> string \<Rightarrow> agent_state
   \<Rightarrow> ('w, agent_state) kprog" where
  "stream_invoke rc E sb cl started timeout argv stdin st = do {
     invokeID \<leftarrow> newInvokeID E;
     WriteEvent E (start_event invokeID started);
     recordAuditEvent E sb ''Normal'' ''AgentInvokeStarted'' (''invokeId='' @ invokeID);
     let st1 = register st invokeID
           \<lparr>ie_sandbox = sb_name sb, ie_actor = cl_sub cl, ie_started = started, ie_cancelled = False\<rparr>
     in do {
          (code, reason) \<leftarrow> run_invoke rc E sb invokeID (buildInvokeCommand argv) stdin timeout;
          t1 \<leftarrow> ask E Now as_time;
          WriteEvent E (exit_event invokeID code (time_sub t1 started) reason);
          t2 \<leftarrow> ask E Now as_time;
          recordAuditEvent E sb (fst (audit_of_exit code reason)) (snd (audit_of_exit code reason))
            (''invokeId='' @ invokeID @ '' exit='' @ show_int code @ '' reason='' @ reason @ '' duration_ms=''
             @ show_int (time_sub t2 started div millisecond));
          ret (unregister st1 invokeID)
        }
   }"

definition handleInvoke ::
  "runtime_codec \<Rightarrow> 'w api \<Rightarrow> 'k server \<Rightarrow> claims option \<Rightarrow> string \<Rightarrow> http_request \<Rightarrow> string \<Rightarrow> agent_state
   \<Rightarrow> ('w, agent_reply \<times> agent_state) kprog" where
  "handleInvoke rc E sv claims sandboxID req content st = do {
     l \<leftarrow> loadSandbox E sv claims sandboxID;
     (case l of
        Inl rep \<Rightarrow> ret (Plain rep, st)
      | Inr (sb, cl) \<Rightarrow>
          let mode = spec_mode (sb_spec sb);
              entrypoint = (case st_agent_configure (sb_status sb) of None \<Rightarrow> [] | Some acs \<Rightarrow> acs_entrypoint acs)
          in if mode \<noteq> SandboxModeAgent
          then ret (Plain (respondError 400
                 (''sandbox '' @ sb_name sb @ '' is in mode '' @ show_quoted (modeOrDefault mode) @ '' '' @ em_dash
                  @ '' /invoke is only valid for mode: agent'')), st)
          else if sb_phase sb \<noteq> SandboxPhaseRunning
          then ret (Plain (respondError 409
                 (''sandbox is in phase '' @ show_quoted (phase_text (sb_phase sb)) @ '' '' @ em_dash
                  @ '' must be Running to invoke'')), st)
          else if entrypoint = []
          then ret (Plain (respondError 424
                 (''sandbox '' @ sb_name sb @ '' has no entrypoint '' @ em_dash
                  @ '' call POST /configure first to set one'')), st)
          else do {
            started \<leftarrow> ask E Now as_time;
            (case enter st (sb_name sb) (resolveConcurrencyLimit sb) of
               ((current, False), _) \<Rightarrow> ret (Plain (throttled sb (resolveConcurrencyLimit sb) current), st)
             | ((_, True), st1) \<Rightarrow>
                 let prompt = text_at (rq_query req) ''prompt'';
                     body = take (maxBodyBytes + 1) content
                 in if length body > maxBodyBytes
                    then ret (Plain (respondError 413 (''request body exceeds '' @ show_nat maxBodyBytes @ '' bytes'')),
                              leave_slot st1 (sb_name sb))
                    else do {
                      st2 \<leftarrow> stream_invoke rc E sb cl started
                        (resolveInvokeTimeout sb (text_at (rq_query req) ''timeout''))
                        (invoke_argv entrypoint prompt) (if body = [] then prompt else body) st1;
                      ret (Streamed, leave_slot st2 (sb_name sb))
                    })
          })
   }"

definition not_in_flight :: "string \<Rightarrow> reply" where
  "not_in_flight invokeID = respondError 404 (''invoke '' @ invokeID @ '' not in flight'')"

text \<open>The body is the identifier; a body that cannot be read counts as an empty one.\<close>

definition handleInvokeCancel ::
  "'w api \<Rightarrow> 'k server \<Rightarrow> claims option \<Rightarrow> string \<Rightarrow> string + string \<Rightarrow> agent_state
   \<Rightarrow> ('w, reply \<times> agent_state) kprog" where
  "handleInvokeCancel E sv claims sandboxID body st = do {
     l \<leftarrow> loadSandbox E sv claims sandboxID;
     (case l of
        Inl rep \<Rightarrow> ret (rep, st)
      | Inr (sb, cl) \<Rightarrow>
          if spec_mode (sb_spec sb) \<noteq> SandboxModeAgent
          then ret (respondError 400 ''sandbox is not in mode: agent'', st)
          else let invokeID = (case body of Inl _ \<Rightarrow> [] | Inr i \<Rightarrow> i)
          in if invokeID = [] then ret (respondError 400 ''invokeId is required in request body'', st)
             else case as_invokes st invokeID of
               Some e \<Rightarrow>
                 if ie_sandbox e \<noteq> sb_name sb
                 then ret (respondError 404 ''invoke does not belong to this sandbox'', st)
                 else if \<not> cl_admin cl \<and> ie_actor e \<noteq> cl_sub cl
                 then ret (respondError 403 ''you do not own this invoke'', st)
                 else ret (respondEmpty 204, register st invokeID (e\<lparr>ie_cancelled := True\<rparr>))
             | None \<Rightarrow>
                 if \<not> cl_admin cl then ret (not_in_flight invokeID, st)
                 else do {
                   d \<leftarrow> agentHTTPExec E sb;
                   (case d of
                      None \<Rightarrow> ret (not_in_flight invokeID, st)
                    | Some c \<Rightarrow> do {
                        x \<leftarrow> InvokeCancel E c invokeID;
                        ret (case x of Inr _ \<Rightarrow> respondEmpty 204 | Inl _ \<Rightarrow> not_in_flight invokeID, st)
                      })
                 })
   }"

end
