(* ===== verification/Exec_Safety.thy ===== *)
theory Exec_Safety
  imports Guards File_Safety Agent_Invoke
begin

text \<open>
  Where commands run: the handlers that execute something in a sandbox reach only the pod of a
  sandbox that the API server delivered to its owner or an administrator, and the agent's handlers
  write nothing but that sandbox's configuration status and its install log.
\<close>

section \<open>What a call may do\<close>

text \<open>A client for the runtime of a sandbox: its address is that of the sandbox's pod, its token that of
  the sandbox's secret, as this run read them.\<close>

definition client_of :: "sandbox \<Rightarrow> trace \<Rightarrow> http_client \<Rightarrow> bool" where
  "client_of sb pre c \<longleftrightarrow>
     (\<exists>p s. (GetPod (sb_namespace sb) (st_pod (sb_status sb)), RPod p) \<in> set pre
        \<and> (GetSecret (sb_namespace sb) (runtimeTokenSecretName (sb_name sb)), RSecret s) \<in> set pre
        \<and> c = runtime_client (pst_ip (p_status p)) (secret_text s ''token'') \<and> hc_token c \<noteq> [])"

definition admitted :: "claims option \<Rightarrow> trace \<Rightarrow> sandbox \<Rightarrow> bool" where
  "admitted claims pre sb \<longleftrightarrow>
     (\<exists>cl. claims = Some cl \<and> sb \<in> set (delivered pre) \<and> (cl_admin cl \<or> owns cl sb))"

definition plain_headers :: "(string \<times> string) set" where
  "plain_headers = {(''Content-Type'', ''application/json''), (''Accept'', ''text/event-stream'')}"

text \<open>The routes of a runtime that start nothing: its health and the cancellation of an invocation.\<close>

definition starts_nothing :: "string \<Rightarrow> bool" where
  "starts_nothing path \<longleftrightarrow> path = ''healthz'' \<or> take 14 path = ''invoke/cancel/''"

text \<open>Every call that the following conditions do not mention must be one of these: it reads, draws random
  bytes, waits, or sends an event to the client that made the request.\<close>

fun only_reads :: "request \<Rightarrow> bool" where
  "only_reads Now = True"
| "only_reads (RandBytes n) = True"
| "only_reads (GetSandbox a b) = True"
| "only_reads (ListSandboxes a) = True"
| "only_reads (GetTemplate a b) = True"
| "only_reads (GetClusterTemplate a) = True"
| "only_reads (GetPod a b) = True"
| "only_reads (GetSecret a b) = True"
| "only_reads (GetConfigMap a b) = True"
| "only_reads (WebCall (Sleep d)) = True"
| "only_reads (WebCall (Emit a b)) = True"
| "only_reads (WebCall ContextState) = True"
| "only_reads q = False"

fun own_pod :: "claims option \<Rightarrow> trace \<Rightarrow> request \<Rightarrow> bool" where
  "own_pod cls pre (WebCall (ExecPod ns pod c cmd stdin)) =
     (\<exists>sb. admitted cls pre sb \<and> sb_phase sb = SandboxPhaseRunning
        \<and> ns = sb_namespace sb \<and> pod = st_pod (sb_status sb) \<and> c = ''sandbox'')"
| "own_pod cls pre (WebCall (Fetch m url hs body)) =
     (\<exists>sb c path. admitted cls pre sb \<and> client_of sb pre c \<and> url = hc_base c @ ''/'' @ path
        \<and> set hs \<subseteq> set (auth_headers c) \<union> plain_headers
        \<and> (sb_phase sb = SandboxPhaseRunning \<or> starts_nothing path))"
| "own_pod cls pre (WebCall (Post a b c)) = False"
| "own_pod cls pre (UpdateSandboxStatus x) =
     (\<exists>sb fresh acs. admitted cls pre sb
        \<and> (GetSandbox (sb_namespace sb) (sb_name sb), RSandbox fresh) \<in> set pre
        \<and> x = fresh\<lparr>sb_status := (sb_status fresh)\<lparr>st_agent_configure := Some acs\<rparr>\<rparr>)"
| "own_pod cls pre (CreateConfigMap cm) =
     (\<exists>sb log. admitted cls pre sb \<and> cm = install_log_map sb log (new_install_log_map sb))"
| "own_pod cls pre (UpdateConfigMap cm) =
     (\<exists>sb log old. admitted cls pre sb
        \<and> (GetConfigMap (sb_namespace sb) (installLogConfigMapName (sb_name sb)), RConfigMap old) \<in> set pre
        \<and> cm = install_log_map sb log old)"
| "own_pod cls pre (ClusterCall (DeleteConfigMap ns n)) =
     (\<exists>sb old. admitted cls pre sb
        \<and> (GetConfigMap (sb_namespace sb) (installLogConfigMapName (sb_name sb)), RConfigMap old) \<in> set pre
        \<and> ns = cm_namespace old \<and> n = cm_name old)"
| "own_pod cls pre (CreateEvent e) = (\<exists>sb. admitted cls pre sb \<and> ke_object e = sb_name sb \<and> ke_namespace e = sb_namespace sb)"
| "own_pod cls pre q = only_reads q"

lemma admitted_later [intro]: "admitted cls pre sb \<Longrightarrow> admitted cls (pre @ t) sb"
  by (auto simp: admitted_def)

lemma client_later [intro]: "client_of sb pre c \<Longrightarrow> client_of sb (pre @ t) c"
  by (auto simp: client_of_def)

section \<open>The executor\<close>

lemma ReadRuntimeToken_own:
  "traces (ReadRuntimeToken E n ns) (\<lambda>r t. guarded (own_pod cls) pre t
     \<and> (\<forall>tok. r = Inr tok \<longrightarrow> tok = [] \<or> (\<exists>s. (GetSecret ns (runtimeTokenSecretName n), RSecret s) \<in> set t
          \<and> tok = secret_text s ''token'')))"
  unfolding ReadRuntimeToken_def by (intro tr) (auto split: sum.splits api_err.splits)

lemma lookupPodIP_own:
  "traces (lookupPodIP E sb) (\<lambda>ip t. guarded (own_pod cls) pre t
     \<and> (ip = [] \<or> (\<exists>p. (GetPod (sb_namespace sb) (st_pod (sb_status sb)), RPod p) \<in> set t \<and> ip = pst_ip (p_status p))))"
  unfolding lookupPodIP_def by (intro tr) (auto split: sum.splits)

lemma Healthz_own:
  assumes "admitted cls pre sb" "client_of sb pre c"
  shows "traces (Healthz E c) (\<lambda>_ t. guarded (own_pod cls) pre t)"
  unfolding Healthz_def by (intro tr) (use assms in \<open>auto simp: starts_nothing_def intro!: exI\<close>)

lemma pickExecutor_own:
  assumes adm: "admitted cls pre sb"
  shows "traces (pickExecutor E sb) (\<lambda>r t. guarded (own_pod cls) pre t
     \<and> (\<forall>c. fst r = HttpExecutor c \<longrightarrow> client_of sb (pre @ t) c))"
  unfolding pickExecutor_def
proof (rule traces_bind [OF ReadRuntimeToken_own [of E _ _ cls pre]], rule traces_case_sum)
  fix r :: "api_err + string" and t tok
  assume t: "guarded (own_pod cls) pre t \<and> (\<forall>tok. r = Inr tok \<longrightarrow> tok = [] \<or>
      (\<exists>s. (GetSecret (sb_namespace sb) (runtimeTokenSecretName (sb_name sb)), RSecret s) \<in> set t
        \<and> tok = secret_text s ''token''))" and r: "r = Inr tok"
  show "traces (if tok = [] then ret (SpdyExecutor, [])
      else do {
        podIP \<leftarrow> lookupPodIP E sb;
        (if podIP = [] then ret (SpdyExecutor, ''pod IP not yet assigned'')
         else do {
           h \<leftarrow> Healthz E (runtime_client podIP tok);
           ret (case h of
                  Inl e \<Rightarrow> (SpdyExecutor, ''runtime healthz failed: '' @ e)
                | Inr _ \<Rightarrow> (HttpExecutor (runtime_client podIP tok), []))
         })
      }) (\<lambda>r t'. guarded (own_pod cls) pre (t @ t') \<and> (\<forall>c. fst r = HttpExecutor c \<longrightarrow> client_of sb (pre @ t @ t') c))"
  proof (rule traces_if, use t in \<open>simp add: traces_ret\<close>,
      rule traces_bind [OF lookupPodIP_own [of E sb cls "pre @ t"]], rule traces_if, use t in \<open>simp add: traces_ret\<close>)
    fix ip t2
    assume ip: "guarded (own_pod cls) (pre @ t) t2 \<and> (ip = [] \<or>
        (\<exists>p. (GetPod (sb_namespace sb) (st_pod (sb_status sb)), RPod p) \<in> set t2 \<and> ip = pst_ip (p_status p)))"
      and "ip \<noteq> []" "tok \<noteq> []"
    then have c: "client_of sb (pre @ t @ t2) (runtime_client ip tok)"
      using t r unfolding client_of_def by (auto simp: runtime_client_def)
    have "admitted cls (pre @ t @ t2) sb" using adm by blast
    from Healthz_own [OF this c, of E]
    show "traces (do {
           h \<leftarrow> Healthz E (runtime_client ip tok);
           ret (case h of
                  Inl e \<Rightarrow> (SpdyExecutor, ''runtime healthz failed: '' @ e)
                | Inr _ \<Rightarrow> (HttpExecutor (runtime_client ip tok), []))
         }) (\<lambda>r t'. guarded (own_pod cls) pre (t @ t2 @ t')
              \<and> (\<forall>c. fst r = HttpExecutor c \<longrightarrow> client_of sb (pre @ t @ t2 @ t') c))"
      by (rule traces_bind, intro traces_ret)
        (use t ip client_later [OF c] in \<open>auto split: sum.splits\<close>)
  qed
qed (simp add: traces_ret)

lemma upholds_executor:
  assumes "admitted cls pre sb" "sb_phase sb = SandboxPhaseRunning"
    "\<And>c. ex = HttpExecutor c \<Longrightarrow> client_of sb pre c"
  shows "upholds (own_pod cls) pre (Execute rc E ex sb command timeout)"
  using assms unfolding Execute_def ExecCommand_def ExecHTTP_def
  by (cases ex) (auto simp: plain_headers_def intro!: upholds_ask_bind exI)

lemma upholds_dispatch:
  assumes "admitted cls pre sb" "sb_phase sb = SandboxPhaseRunning"
  shows "upholds (own_pod cls) pre (dispatchExec rc E sb command timeout)"
  unfolding dispatchExec_def
  by (rule upholds_bind [OF pickExecutor_own [OF assms(1), of E]])
    (auto split: prod.split intro!: upholds_executor assms(2) admitted_later [OF assms(1)])

lemma upholds_stream:
  assumes "admitted cls pre sb" "sb_phase sb = SandboxPhaseRunning"
  shows "upholds (own_pod cls) pre
    (ExecCommandStreamWithStdin E (sb_namespace sb) (st_pod (sb_status sb)) ''sandbox'' command stdin)"
  unfolding ExecCommandStreamWithStdin_def
  by (intro upholds_ask_bind upholds_case upholds_ret) (use assms in \<open>auto intro!: exI\<close>)

section \<open>The handlers of the router\<close>

lemma lookups_guarded: "reads_sandboxes t \<Longrightarrow> guarded (own_pod cls) pre t"
proof (induction t arbitrary: pre)
  case (Cons c t)
  then show ?case by (cases c) (auto simp: reads_sandboxes_def split: request.splits)
qed simp

lemma upholds_looked_up:
  assumes "\<And>e t. upholds (own_pod (Some cl)) t (f (Inl e))"
    and "\<And>sb t. admitted (Some cl) t sb \<Longrightarrow> upholds (own_pod (Some cl)) t (f (Inr sb))"
  shows "upholds (own_pod (Some cl)) [] (State_Monad.bind (getSandboxWithAuthCheck E sv i cl) f)"
proof (rule upholds_bind [where P = "\<lambda>r t. \<forall>sb. r = Inr sb \<longrightarrow> admitted (Some cl) t sb"])
  show "traces (getSandboxWithAuthCheck E sv i cl)
      (\<lambda>r t. guarded (own_pod (Some cl)) [] t \<and> (\<forall>sb. r = Inr sb \<longrightarrow> admitted (Some cl) t sb))"
    by (rule traces_mono [OF getSandboxWithAuthCheck_traces]) (auto simp: admitted_def lookups_guarded)
next
  fix r :: "string + sandbox" and t
  assume "\<forall>sb. r = Inr sb \<longrightarrow> admitted (Some cl) t sb"
  then show "upholds (own_pod (Some cl)) ([] @ t) (f r)"
    by (cases r) (simp_all add: assms)
qed

lemma upholds_running:
  assumes "\<And>sb t. admitted cls t sb \<Longrightarrow> sb_phase sb = SandboxPhaseRunning \<Longrightarrow> upholds (own_pod cls) t (f sb)"
  shows "upholds (own_pod cls) [] (with_running E sv cls i g f)"
proof (cases cls)
  case None
  then show ?thesis by (simp add: with_running_def)
next
  case (Some cl)
  show ?thesis
    unfolding with_running_def Some option.case
    by (rule upholds_looked_up) (use assms Some in \<open>auto intro: upholds_case\<close>)
qed

lemmas command_rules = upholds_case upholds_ret upholds_seq [OF upholds_dispatch]

lemma exec_own: "upholds (own_pod cls) [] (handleExecCommand rc E sv cls i body)"
proof (cases cls)
  case (Some cl)
  show ?thesis
    unfolding handleExecCommand_def Some option.case
    apply (rule upholds_looked_up)
     apply simp
    apply (auto intro!: upholds_case upholds_seq [OF upholds_dispatch])
    done
qed (simp add: handleExecCommand_def)

lemma list_own: "upholds (own_pod cls) [] (handleListFiles rc E sv cls i req)"
  unfolding handleListFiles_def
  by (rule upholds_running) (auto simp: Let_def intro!: upholds_case upholds_seq [OF upholds_dispatch])

lemma get_own: "upholds (own_pod cls) [] (handleGetFile rc E sv cls i raw)"
  unfolding handleGetFile_def
  by (rule upholds_running)
    (auto simp: Let_def intro!: upholds_case upholds_seq [OF upholds_dispatch] intro: admitted_later)

lemma put_own: "upholds (own_pod cls) [] (handlePutFile rc E sv cls i raw content)"
  unfolding handlePutFile_def
  by (rule upholds_running) (auto simp: Let_def intro!: upholds_case upholds_seq [OF upholds_dispatch])

lemma archive_own: "upholds (own_pod cls) [] (handleArchive untar put zw rc E sv cls i req)"
  unfolding handleArchive_def ExecCommandStream_def
  by (rule upholds_running)
    (auto simp: Let_def intro!: upholds_case upholds_seq [OF upholds_dispatch] upholds_seq [OF upholds_stream]
       intro: admitted_later split: prod.split)

section \<open>The handlers of the agent\<close>

definition agent_policy_resolver :: "bool \<Rightarrow> 'w api \<Rightarrow> 'w policy_resolver" where
  "agent_policy_resolver store E =
     Some (\<lambda>ns. if \<not> store then ret (Inr empty_policy) else ResolvePolicy E ns)"

lemma upholds_resolve: "upholds (own_pod cls) pre (ResolvePolicy E ns)"
  unfolding ResolvePolicy_def GetPolicy_def load_def upholds_def
  by (intro tr traces_bind [where P = "\<lambda>_ t. \<exists>c. t = [(GetConfigMap ConfigMapNamespace ConfigMapName, c)]"]) auto

lemma upholds_policy:
  "PolicyOf = agent_policy_resolver store E \<Longrightarrow> PolicyOf = Some resolve \<Longrightarrow> upholds (own_pod cls) pre (resolve ns)"
  by (auto simp: agent_policy_resolver_def upholds_resolve)

lemma upholds_emitted: "upholds (own_pod cls) pre (WriteEvent E ev)"
  unfolding WriteEvent_def tell_def by (intro upholds_ask) simp

lemma upholds_emit: "upholds (own_pod cls) pre (emit_all E evs)"
  unfolding emit_all_def
  by (induction evs arbitrary: pre) (auto intro!: upholds_seq [OF upholds_emitted])

lemma upholds_audit:
  assumes "admitted cls pre sb"
  shows "upholds (own_pod cls) pre (recordAuditEvent E sb a b c)"
  unfolding recordAuditEvent_def tell_def
  by (intro upholds_ask_bind upholds_ask) (use assms in \<open>auto simp: sandbox_event_def intro!: exI\<close>)

lemma loadSandbox_own:
  "traces (loadSandbox E sv cls i) (\<lambda>r t. guarded (own_pod cls) [] t
     \<and> (\<forall>sb cl. r = Inr (sb, cl) \<longrightarrow> cls = Some cl \<and> admitted cls t sb))"
proof (cases cls)
  case None
  then show ?thesis by (simp add: loadSandbox_def traces_ret)
next
  case (Some cl)
  show ?thesis
    unfolding loadSandbox_def Some option.case
    by (rule traces_bind [OF getSandboxWithAuthCheck_traces], rule traces_ret)
      (auto simp: admitted_def lookups_guarded split: sum.splits)
qed

lemma upholds_loaded:
  assumes "\<And>rep t. upholds (own_pod cls) t (f (Inl rep))"
    and "\<And>sb cl t. cls = Some cl \<Longrightarrow> admitted cls t sb \<Longrightarrow> upholds (own_pod cls) t (f (Inr (sb, cl)))"
  shows "upholds (own_pod cls) [] (State_Monad.bind (loadSandbox E sv cls i) f)"
proof (rule upholds_bind [OF loadSandbox_own])
  fix r :: "reply + sandbox \<times> claims" and t
  assume "\<forall>sb cl. r = Inr (sb, cl) \<longrightarrow> cls = Some cl \<and> admitted cls t sb"
  then show "upholds (own_pod cls) ([] @ t) (f r)"
    using assms by (cases r) auto
qed

lemma upholds_files:
  assumes "admitted cls pre sb" "sb_phase sb = SandboxPhaseRunning"
  shows "upholds (own_pod cls) pre (writeFiles E sb fs)"
  using assms(1)
proof (induction fs arbitrary: pre)
  case (Cons f fs)
  show ?case
    unfolding writeFiles.simps Let_def ExecCommandStream_def
    by (auto split: prod.split simp: Cons.prems assms(2)
        intro!: upholds_seq [OF upholds_emitted] upholds_case upholds_seq [OF upholds_stream] admitted_later Cons.IH)
qed simp

lemma upholds_install:
  assumes "admitted cls pre sb" "sb_phase sb = SandboxPhaseRunning"
  shows "upholds (own_pod cls) pre (runInstall E sb command)"
  unfolding runInstall_def ExecCommandStream_def
  by (auto simp: assms split: prod.split intro!: upholds_seq [OF upholds_emitted] upholds_seq [OF upholds_stream]
      upholds_seq [OF upholds_emit] upholds_case upholds_ask_bind admitted_later)

lemma upholds_case_api_err:
  "(x = NotFound \<Longrightarrow> upholds J pre a) \<Longrightarrow> (x = AlreadyExists \<Longrightarrow> upholds J pre b) \<Longrightarrow> (x = Conflict \<Longrightarrow> upholds J pre c)
     \<Longrightarrow> (\<And>m. x = OtherErr m \<Longrightarrow> upholds J pre (d m))
     \<Longrightarrow> upholds J pre (case x of NotFound \<Rightarrow> a | AlreadyExists \<Rightarrow> b | Conflict \<Rightarrow> c | OtherErr m \<Rightarrow> d m)"
  by (cases x) simp_all

lemma upholds_install_log:
  assumes adm: "admitted cls pre sb"
  shows "upholds (own_pod cls) pre (writeInstallLog E sb log)"
proof -
  have created: "own_pod cls (pre @ t) (CreateConfigMap (install_log_map sb log (new_install_log_map sb)))" for t
    using adm by auto
  have fetched: "own_pod cls (pre @ [(GetConfigMap (sb_namespace sb) (installLogConfigMapName (sb_name sb)), r)])
        (UpdateConfigMap (install_log_map sb log cm))"
      "own_pod cls (pre @ [(GetConfigMap (sb_namespace sb) (installLogConfigMapName (sb_name sb)), r)])
        (ClusterCall (DeleteConfigMap (cm_namespace cm) (cm_name cm)))"
    if "as_config_map r = Inr cm" for r cm
    using adm that by (auto intro!: exI [of _ sb] exI [of _ log] exI [of _ cm])
  show ?thesis
    unfolding writeInstallLog_def Let_def
    by (intro upholds_ask_bind upholds_case upholds_case_api_err upholds_ret created fetched) simp_all
qed

lemma upholds_persist:
  assumes "admitted cls pre sb"
  shows "upholds (own_pod cls) pre (persist_loop E sb acs e n)"
  using assms
proof (induction n arbitrary: pre e)
  case (Suc n)
  have status: "own_pod cls (pre @ [(GetSandbox (sb_namespace sb) (sb_name sb), r)])
      (UpdateSandboxStatus (fresh\<lparr>sb_status := (sb_status fresh)\<lparr>st_agent_configure := Some acs\<rparr>\<rparr>))"
    if "as_sandbox r = Inr fresh" for r fresh
  proof -
    have "admitted cls (pre @ [(GetSandbox (sb_namespace sb) (sb_name sb), r)]) sb"
      using Suc.prems by (rule admitted_later)
    then show ?thesis using that unfolding own_pod.simps by auto
  qed
  show ?case
    unfolding persist_loop.simps
    by (intro upholds_ask_bind upholds_case upholds_case_api_err upholds_ret status Suc.IH admitted_later)
      (simp_all add: Suc.prems admitted_later)
qed simp

lemma upholds_kept:
  assumes "admitted cls pre sb"
  shows "upholds (own_pod cls) pre (persistStatus E sb resp log n d)"
  unfolding persistStatus_def
  by (intro upholds_seq [OF upholds_install_log] upholds_persist admitted_later assms)

lemma upholds_finish:
  assumes "admitted cls pre sb"
  shows "upholds (own_pod cls) pre (finish_configure E sb req hash skipped code log n d)"
  unfolding finish_configure_def Let_def
  by (intro upholds_ask_bind upholds_seq [OF upholds_case(3) [OF upholds_kept upholds_ret]]
      upholds_seq [OF upholds_audit] upholds_seq [OF upholds_emitted] upholds_ret admitted_later assms) simp

lemma upholds_caps:
  assumes "PolicyOf = agent_policy_resolver store E"
  shows "upholds (own_pod cls) pre (resolveAgentCaps PolicyOf E sb)"
  unfolding resolveAgentCaps_def directTemplateAgentSpec_def Let_def
  by (auto split: option.split intro!: upholds_seq upholds_case upholds_ask_bind upholds_seq [OF upholds_policy [OF assms]])

lemma upholds_governance:
  assumes "PolicyOf = agent_policy_resolver store E"
  shows "upholds (own_pod cls) pre (checkConfigureGovernance PolicyOf sb req)"
  unfolding checkConfigureGovernance_def
  by (intro upholds_case upholds_ret upholds_seq [OF upholds_policy [OF assms]])

lemma upholds_run_configure:
  assumes "admitted cls pre sb" "sb_phase sb = SandboxPhaseRunning"
  shows "upholds (own_pod cls) pre (run_configure (agent_policy_resolver store E) by_path E sb req)"
  unfolding run_configure_def Let_def
  by (intro upholds_seq [OF upholds_caps [OF refl]] upholds_case upholds_ret upholds_seq [OF upholds_case(3)]
      upholds_seq [OF upholds_files] upholds_seq [OF upholds_emitted] upholds_finish upholds_files
      upholds_seq [OF upholds_install] admitted_later assms)

lemma configure_own:
  "upholds (own_pod cls) [] (handleConfigure (agent_policy_resolver store E) by_path E sv cls i body)"
  unfolding handleConfigure_def
  apply (rule upholds_loaded)
   apply simp
  apply (simp only: sum.case prod.case)
  apply (intro upholds_case upholds_ret upholds_seq [OF upholds_governance [OF refl]] upholds_seq [OF upholds_audit]
      upholds_run_configure admitted_later)
  apply simp_all
  done

lemma install_log_own: "upholds (own_pod cls) [] (handleGetInstallLog E sv cls i)"
  unfolding handleGetInstallLog_def
  by (rule upholds_loaded) (auto intro!: upholds_ask_bind)


lemma upholds_agent_exec:
  assumes "admitted cls pre sb"
  shows "traces (agentHTTPExec E sb) (\<lambda>r t. guarded (own_pod cls) pre t
     \<and> (\<forall>c. r = Some c \<longrightarrow> client_of sb (pre @ t) c))"
  unfolding agentHTTPExec_is_pickExecutor
  by (rule traces_bind [OF pickExecutor_own [OF assms, of E]]) (auto split: prod.split executor.split intro!: traces_ret)

lemma upholds_via_http:
  assumes "admitted cls pre sb" "sb_phase sb = SandboxPhaseRunning" "client_of sb pre c"
  shows "upholds (own_pod cls) pre (streamInvokeViaHTTP rc E c invokeID cmd stdin n)"
proof -
  have "upholds (own_pod cls) pre (InvokeStream rc E c cmd stdin n invokeID)"
    unfolding InvokeStream_def
    by (auto simp: plain_headers_def intro!: upholds_case upholds_ask_bind exI assms)
  then show ?thesis
    unfolding streamInvokeViaHTTP_def Let_def
    by (rule upholds_seq) (intro upholds_case upholds_seq [OF upholds_emit] upholds_ask_bind upholds_ret; simp)
qed

lemma upholds_via_bridge:
  assumes "admitted cls pre sb" "sb_phase sb = SandboxPhaseRunning"
  shows "upholds (own_pod cls) pre (invoke_via_bridge E sb cmd stdin)"
  unfolding invoke_via_bridge_def
  by (intro upholds_seq [OF upholds_stream] upholds_case upholds_seq [OF upholds_emit] upholds_ret assms)

lemma upholds_run_invoke:
  assumes "admitted cls pre sb" "sb_phase sb = SandboxPhaseRunning"
  shows "upholds (own_pod cls) pre (run_invoke rc E sb invokeID cmd stdin timeout)"
  unfolding run_invoke_def
proof (rule upholds_bind [OF upholds_agent_exec [OF assms(1)]])
  fix d :: "http_client option" and t
  assume "\<forall>c. d = Some c \<longrightarrow> client_of sb (pre @ t) c"
  then have c: "d = Some c \<Longrightarrow> client_of sb (pre @ t) c" for c by simp
  show "upholds (own_pod cls) (pre @ t) (do {
     (code, reason, failed) \<leftarrow> (case d of
        Some c \<Rightarrow> do {
          (code, reason) \<leftarrow> streamInvokeViaHTTP rc E c invokeID cmd stdin (seconds_of timeout);
          ret (code, reason, code < 0 \<and> reason = ''error'')
        }
      | None \<Rightarrow> do {
          r \<leftarrow> invoke_via_bridge E sb cmd stdin;
          ret (case r of Inl _ \<Rightarrow> (- 1, ''completed'', True) | Inr code \<Rightarrow> (code, ''completed'', False))
        });
     emit_all E (fst (flushPending newSSEWriter));
     (if \<not> failed then ret (code, reason)
      else do {
        x \<leftarrow> ask E (WebCall ContextState) as_context;
        ret (- 1, case x of DeadlineExceeded \<Rightarrow> ''timeout'' | ContextCanceled \<Rightarrow> ''canceled''
                          | ContextLive \<Rightarrow> ''error'')
      })
   })"
    apply (rule upholds_seq)
     apply (intro upholds_case upholds_seq [OF upholds_via_http [where sb = sb]] upholds_seq [OF upholds_via_bridge] upholds_ret
        admitted_later assms c)
     apply assumption
    apply (intro upholds_case upholds_seq [OF upholds_emit] upholds_ask_bind upholds_ret)
    apply simp
    done
qed

lemma upholds_stream_invoke:
  assumes "admitted cls pre sb" "sb_phase sb = SandboxPhaseRunning"
  shows "upholds (own_pod cls) pre (stream_invoke rc E sb cl started timeout argv stdin st)"
proof -
  have id: "upholds (own_pod cls) pre' (newInvokeID E)" for pre'
    unfolding newInvokeID_def by (intro upholds_ask_bind upholds_case upholds_ret; simp)
  show ?thesis
    unfolding stream_invoke_def Let_def
    by (intro upholds_seq [OF id] upholds_seq [OF upholds_emitted] upholds_seq [OF upholds_audit]
        upholds_seq [OF upholds_run_invoke] upholds_case upholds_ask_bind upholds_ret admitted_later assms; simp)
qed

lemma invoke_own: "upholds (own_pod cls) [] (handleInvoke rc E sv cls i req content st)"
  unfolding handleInvoke_def Let_def
  apply (rule upholds_loaded)
   apply simp
  apply (simp only: sum.case prod.case)
  apply (intro upholds_case upholds_ask_bind upholds_ret)
   apply (auto split: bool.split prod.split intro!: upholds_case upholds_seq [OF upholds_stream_invoke] admitted_later)
  done

lemma cancel_own: "upholds (own_pod cls) [] (handleInvokeCancel E sv cls i body st)"
proof -
  have stop: "upholds (own_pod cls) pre (InvokeCancel E c invokeID)"
    if "admitted cls pre sb" "client_of sb pre c" for pre sb c invokeID
    unfolding InvokeCancel_def by (auto simp: starts_nothing_def intro!: upholds_case upholds_ask_bind exI that)
  have "upholds (own_pod cls) t (do {
       d \<leftarrow> agentHTTPExec E sb;
       (case d of
          None \<Rightarrow> ret (not_in_flight invokeID, st)
        | Some c \<Rightarrow> do {
            x \<leftarrow> InvokeCancel E c invokeID;
            ret (case x of Inr _ \<Rightarrow> respondEmpty 204 | Inl _ \<Rightarrow> not_in_flight invokeID, st)
          })
     })" if "admitted cls t sb" for t sb invokeID
    by (rule upholds_bind [OF upholds_agent_exec [OF that]])
      (use that in \<open>auto intro!: upholds_case upholds_seq [OF stop] admitted_later\<close>)
  then show ?thesis
    unfolding handleInvokeCancel_def Let_def
    by (intro upholds_loaded) (auto intro!: upholds_case)
qed

text \<open>C1. Commands stay in their sandboxes: every handler that runs something in a sandbox (exec, the
  files, the archive, the agent's configuration and invocation) starts a command only in the pod of a
  running sandbox that the API server delivered in this very run and that the caller owns or
  administers; it talks to a runtime only at the address of that sandbox's pod and with that sandbox's
  own token, and where the sandbox is not running only to ask for its health or to cancel; it writes
  only that sandbox's configuration status and its install log, and records events, audit entries and
  what it streams to its client; every other call that it makes only reads.\<close>

theorem commands_stay_in_own_sandboxes:
  "upholds (own_pod cls) [] (handleExecCommand rc E sv cls i cmd)
   \<and> upholds (own_pod cls) [] (handleListFiles rc E sv cls i req)
   \<and> upholds (own_pod cls) [] (handleGetFile rc E sv cls i raw)
   \<and> upholds (own_pod cls) [] (handlePutFile rc E sv cls i raw content)
   \<and> upholds (own_pod cls) [] (handleArchive untar put zw rc E sv cls i req)
   \<and> upholds (own_pod cls) [] (handleConfigure (agent_policy_resolver store E) by_path E sv cls i conf)
   \<and> upholds (own_pod cls) [] (handleGetInstallLog E sv cls i)
   \<and> upholds (own_pod cls) [] (handleInvoke rc E sv cls i req stdin st)
   \<and> upholds (own_pod cls) [] (handleInvokeCancel E sv cls i body st)"
  by (simp add: exec_own list_own get_own put_own archive_own configure_own install_log_own invoke_own cancel_own)

end
