(* ===== verification/Agent_Safety.thy ===== *)
theory Agent_Safety
  imports Exec_Safety
begin

text \<open>
  The slot that an invocation takes; when a configuration is skipped, and
  what the hash confuses; the time-outs; who may cancel.
\<close>

section \<open>Slots\<close>

lemma counts_register [simp]:
  "as_counts (register st i e) = as_counts st" "as_counts (unregister st i) = as_counts st"
  by (simp_all add: register_def unregister_def)

text \<open>Whatever the API server, the pod and the runtime answer.\<close>

lemma wp_any:
  "(\<And>a s'. wp (f a) Q s') \<Longrightarrow> wp (State_Monad.bind m f) Q s"
  "P a s \<Longrightarrow> wp (ret a) P s"
  "(b \<Longrightarrow> wp m1 Q s) \<Longrightarrow> (\<not> b \<Longrightarrow> wp m2 Q s) \<Longrightarrow> wp (if b then m1 else m2) Q s"
  "(\<And>y. x = Inl y \<Longrightarrow> wp (g y) Q s) \<Longrightarrow> (\<And>z. x = Inr z \<Longrightarrow> wp (h z) Q s)
     \<Longrightarrow> wp (case x of Inl y \<Rightarrow> g y | Inr z \<Rightarrow> h z) Q s"
  "(\<And>u v. p = (u, v) \<Longrightarrow> wp (l u v) Q s) \<Longrightarrow> wp (case p of (u, v) \<Rightarrow> l u v) Q s"
  "(c \<Longrightarrow> wp m1 Q s) \<Longrightarrow> (\<not> c \<Longrightarrow> wp m2 Q s) \<Longrightarrow> wp (case c of True \<Rightarrow> m1 | False \<Rightarrow> m2) Q s"
  by (simp_all add: wp split_beta wp_def split: sum.split bool.split)

definition gives_back :: "agent_state \<Rightarrow> ('w, 'a \<times> agent_state) kprog \<Rightarrow> bool" where
  "gives_back st m \<longleftrightarrow> (\<forall>s. wp m (\<lambda>r _. as_counts (snd r) = as_counts st) s)"

lemma stream_keeps_counts: "wp (stream_invoke rc E sb cl started timeout argv stdin st) (\<lambda>st' _. as_counts st' = as_counts st) s"
  unfolding stream_invoke_def Let_def
  by (intro wp_any) simp

lemma leave_after_enter:
  assumes "0 \<le> as_counts st n" "enter st n limit = ((k, True), st1)" "as_counts st2 = as_counts st1"
  shows "as_counts (leave_slot st2 n) = as_counts st"
  using assms by (auto simp: enter_def try_slot_def leave_slot_def release_slot_def Let_def split: if_splits)

lemma stream_gives_back:
  assumes "0 \<le> as_counts st n" "enter st n limit = ((k, True), st1)"
  shows "wp (do { st2 \<leftarrow> stream_invoke rc E sb cl started timeout argv stdin st1; ret (Streamed, leave_slot st2 n) })
    (\<lambda>r _. as_counts (snd r) = as_counts st) s"
  unfolding wp_bind
  by (rule wp_mono [OF stream_keeps_counts]) (use assms in \<open>simp add: wp leave_after_enter\<close>)

text \<open>A run of the handler gives the slot back that it took, on every path and whatever it is answered. The
  counters are kept by the sandbox's name without its namespace, so sandboxes of one name share them.\<close>

lemma invoke_gives_back:
  assumes "\<And>n. 0 \<le> as_counts st n"
  shows "gives_back st (handleInvoke rc E sv cls i req content st)"
  unfolding gives_back_def
proof
  fix s
  have admitted: "wp (case enter st (sb_name sb) limit of
               ((current, False), _) \<Rightarrow> ret (Plain (throttled sb limit current), st)
             | ((_, True), st1) \<Rightarrow>
                 if length body > maxBodyBytes
                 then ret (Plain too_large, leave_slot st1 (sb_name sb))
                 else do {
                   st2 \<leftarrow> stream_invoke rc E sb cl started timeout argv stdin st1;
                   ret (Streamed, leave_slot st2 (sb_name sb))
                 }) (\<lambda>r _. as_counts (snd r) = as_counts st) s'"
    for sb cl limit body too_large timeout argv stdin started and s' :: "'a \<times> (request \<times> response) list"
  proof (cases "enter st (sb_name sb) limit" rule: prod.exhaust [where 'a = "int \<times> bool"])
    case (Pair r st1)
    then show ?thesis
      using stream_gives_back [OF assms, of "sb_name sb" limit "fst r" st1] leave_after_enter [OF assms, of "sb_name sb" limit _ st1 st1]
      by (cases r; cases "snd r"; cases s') (auto simp: wp)
  qed
  show "wp (handleInvoke rc E sv cls i req content st) (\<lambda>r _. as_counts (snd r) = as_counts st) s"
    unfolding handleInvoke_def Let_def
    by (rule wp_any(1), rule wp_any(4), rule wp_any(2), simp, rule wp_any(5))
      (intro wp_any(3), (rule wp_any(2), simp)+, rule wp_any(1), rule admitted)
qed

section \<open>Cancelling\<close>

definition cancel_ok :: "claims option \<Rightarrow> agent_state \<Rightarrow> agent_state \<Rightarrow> trace \<Rightarrow> bool" where
  "cancel_ok cls st st' t \<longleftrightarrow>
     st' = st \<or> (\<exists>cl sb i e. cls = Some cl \<and> admitted cls t sb \<and> as_invokes st i = Some e
       \<and> ie_sandbox e = sb_name sb \<and> (cl_admin cl \<or> ie_actor e = cl_sub cl)
       \<and> st' = register st i (e\<lparr>ie_cancelled := True\<rparr>))"

lemma cancel_ok_same [simp]: "cancel_ok cls st st t"
  by (simp add: cancel_ok_def)

text \<open>C33. Who may cancel: the register of running invocations changes only by marking one entry as
  cancelled, for a caller who owns or administers the sandbox that the API server delivered, where the
  entry carries that sandbox's name and the caller started it or is an administrator.\<close>
theorem only_starter_or_admin_cancels:
  "traces (handleInvokeCancel E sv cls i body st) (\<lambda>r t. cancel_ok cls st (snd r) t)"
proof -
  have rest: "traces (do {
       d \<leftarrow> agentHTTPExec E sb;
       (case d of
          None \<Rightarrow> ret (not_in_flight invokeID, st)
        | Some c \<Rightarrow> do {
            x \<leftarrow> InvokeCancel E c invokeID;
            ret (case x of Inr _ \<Rightarrow> respondEmpty 204 | Inl _ \<Rightarrow> not_in_flight invokeID, st)
          })
     }) (\<lambda>r t'. cancel_ok cls' st (snd r) (t @ t'))" if "admitted cls' t sb" for cls' t sb invokeID
  proof (rule traces_bind [OF upholds_agent_exec [OF that]], rule traces_case_option)
    fix c t2
    have "traces (InvokeCancel E c invokeID) (\<lambda>_ _. True)"
      unfolding InvokeCancel_def by (intro tr) simp_all
    then show "traces (do {
            x \<leftarrow> InvokeCancel E c invokeID;
            ret (case x of Inr _ \<Rightarrow> respondEmpty 204 | Inl _ \<Rightarrow> not_in_flight invokeID, st)
          }) (\<lambda>r t'. cancel_ok cls' st (snd r) (t @ t2 @ t'))"
      by (rule traces_bind) (simp add: traces_ret)
  qed (simp add: traces_ret)
  show ?thesis
    unfolding handleInvokeCancel_def Let_def
    apply (rule traces_bind [OF loadSandbox_own], rule traces_case_sum)
     apply (simp add: traces_ret)
    apply (auto intro!: traces_ret traces_if traces_case_option rest split: prod.split)
    apply (auto simp: cancel_ok_def)
    done
qed

section \<open>Time-outs\<close>

text \<open>Time-outs: an invocation always has a positive limit, and the caller's own can only lower the
  one that the configuration set.\<close>
theorem invocations_end:
  "0 < resolveInvokeTimeout sb override \<and> resolveInvokeTimeout sb override \<le> resolveInvokeTimeout sb []"
  by (auto simp: resolveInvokeTimeout_def Let_def defaultInvokeTimeout_def dur_units split: option.split)

text \<open>The runtime is told whole seconds, so a limit below one second arrives as none.\<close>

lemma short_limit_is_lost: "seconds_of (500 * millisecond) = 0"
  by (simp add: seconds_of_def dur_units)

section \<open>Configuration\<close>

text \<open>A command and a file are hashed to the same text, and so are a file's text and its base64 form.\<close>

lemma hash_confuses_command_and_file:
  "installHash id \<lparr>cq_files = [], cq_install = [''/x'', ''c''], cq_entrypoint = []\<rparr>
     = installHash id \<lparr>cq_files = [\<lparr>cf_path = ''/x'', cf_content = ''c'', cf_base64 = []\<rparr>], cq_install = [], cq_entrypoint = []\<rparr>"
  by (simp add: installHash_def hashed_text_def)

lemma hash_confuses_encodings:
  "installHash id \<lparr>cq_files = [\<lparr>cf_path = p, cf_content = ''YQ=='', cf_base64 = []\<rparr>], cq_install = cmd, cq_entrypoint = []\<rparr>
     = installHash id \<lparr>cq_files = [\<lparr>cf_path = p, cf_content = [], cf_base64 = ''YQ==''\<rparr>], cq_install = cmd, cq_entrypoint = []\<rparr>"
  by (simp add: installHash_def hashed_text_def)

lemma files_checked: "files_complaint i fs = None \<Longrightarrow> f \<in> set fs \<Longrightarrow> \<exists>j. file_complaint j f = None"
  by (induction fs arbitrary: i) (auto split: option.splits)

lemma checked_path: "file_complaint i f = None \<Longrightarrow> CHR 0x27 \<notin> set (CleanRooted (cf_path f))"
  using clean_chars [of "CHR 0x27" "cf_path f"] unquoted [of "cf_path f"]
  by (auto simp: file_complaint_def Let_def split: if_splits)

text \<open>Uploads of a configuration: for every file of a request that passed the check, a shell reads
  from the command that writes it exactly the intended words, with the cleaned path, its directory and
  the encoded content as one word each.\<close>
theorem configured_files_are_written_where_named:
  "validate_configure req = None \<Longrightarrow> f \<in> set (cq_files req) \<Longrightarrow>
     sh_words (write_line (DirRooted (CleanRooted (cf_path f))) (StdEncoding raw) (CleanRooted (cf_path f))) = Some
         ([Word ''mkdir'', Word ''-p'', Word (DirRooted (CleanRooted (cf_path f)))] @ amp
          @ [Word ''printf'', Word ''%s'', Word (StdEncoding raw), Op CHR ''|'', Word ''base64'', Word ''-d'',
             Op CHR ''>'', Word (CleanRooted (cf_path f))])"
  by (rule write_words) (auto simp: validate_configure_def dest: files_checked checked_path split: if_splits)

theorem configured_files_are_written_where_named_witness:
  "sh_words (write_line ''/a b'' ''YQ=='' ''/a b/c'') = Some
     ([Word ''mkdir'', Word ''-p'', Word ''/a b''] @ amp
      @ [Word ''printf'', Word ''%s'', Word ''YQ=='', Op CHR ''|'', Word ''base64'', Word ''-d'',
         Op CHR ''>'', Word ''/a b/c''])"
proof -
  define req where "req = \<lparr>cq_files = [\<lparr>cf_path = ''/a b/c'', cf_content = ''a'', cf_base64 = []\<rparr>],
      cq_install = [], cq_entrypoint = []\<rparr>"
  have "validate_configure req = None" "hd (cq_files req) \<in> set (cq_files req)"
    unfolding req_def by code_simp+
  moreover have "CleanRooted ''/a b/c'' = ''/a b/c''" "DirRooted ''/a b/c'' = ''/a b''"
      "StdEncoding [97] = ''YQ==''"
    by (simp_all add: CleanRooted_def DirRooted_def clean_segments_def clean_step_def rooted_def join_with_def
        StdEncoding_def std_alphabet_def Let_def)
  ultimately show ?thesis
    using configured_files_are_written_where_named [of req "hd (cq_files req)" "[97]"] by (simp add: req_def)
qed

end
