(* ===== verification/Terminals.thy ===== *)
theory Terminals
  imports Exec_Dispatch
begin

text \<open>
  Terminal sessions: the messages of the protocol (\<open>pkg/router/terminal/protocol.go\<close>), a session between
  a browser and a shell (\<open>session.go\<close>), the shell's command line (\<open>bridge.go\<close>) and the table of
  sessions (\<open>manager.go\<close>). What happens on connections is recorded in order; JSON decoding is the
  parameter \<open>parse\<close>, and a message that is sent stands for its JSON text.
\<close>

section \<open>Messages\<close>

record ws_message =
  ws_type :: string
  ws_data :: string
  ws_stream :: string
  ws_cols :: int
  ws_rows :: int
  ws_reason :: string
  ws_code :: int
  ws_text :: string
  ws_ts :: int

definition message :: "string \<Rightarrow> ws_message" where
  "message t = \<lparr>ws_type = t, ws_data = [], ws_stream = [], ws_cols = 0, ws_rows = 0, ws_reason = [],
                ws_code = 0, ws_text = [], ws_ts = 0\<rparr>"

definition MessageTypeInput :: string where "MessageTypeInput = ''input''"
definition MessageTypeResize :: string where "MessageTypeResize = ''resize''"
definition MessageTypePing :: string where "MessageTypePing = ''ping''"
definition MessageTypeOutput :: string where "MessageTypeOutput = ''output''"
definition MessageTypeError :: string where "MessageTypeError = ''error''"
definition MessageTypeClose :: string where "MessageTypeClose = ''close''"
definition MessageTypePong :: string where "MessageTypePong = ''pong''"
definition MessageTypeHeartbeat :: string where "MessageTypeHeartbeat = ''heartbeat''"

lemmas message_types =
  MessageTypeInput_def MessageTypeResize_def MessageTypePing_def MessageTypeOutput_def
  MessageTypeError_def MessageTypeClose_def MessageTypePong_def MessageTypeHeartbeat_def

definition MarshalHeartbeat :: "int \<Rightarrow> ws_message" where
  "MarshalHeartbeat ts = (message MessageTypeHeartbeat)\<lparr>ws_ts := ts\<rparr>"

definition MarshalInput :: "string \<Rightarrow> ws_message" where
  "MarshalInput d = (message MessageTypeInput)\<lparr>ws_data := d\<rparr>"

definition MarshalOutput :: "string \<Rightarrow> string \<Rightarrow> ws_message" where
  "MarshalOutput stream d = (message MessageTypeOutput)\<lparr>ws_stream := stream, ws_data := d\<rparr>"

definition MarshalResize :: "int \<Rightarrow> int \<Rightarrow> ws_message" where
  "MarshalResize cols rows = (message MessageTypeResize)\<lparr>ws_cols := cols, ws_rows := rows\<rparr>"

definition MarshalError :: "string \<Rightarrow> ws_message" where
  "MarshalError t = (message MessageTypeError)\<lparr>ws_text := t\<rparr>"

definition MarshalClose :: "string \<Rightarrow> int \<Rightarrow> ws_message" where
  "MarshalClose reason code = (message MessageTypeClose)\<lparr>ws_reason := reason, ws_code := code\<rparr>"

section \<open>Sizes\<close>

definition clampTerminalDim :: "int \<Rightarrow> 16 word" where
  "clampTerminalDim v = (if v < 1 then 1 else if v \<ge> 2 ^ 16 then NOT 0 else of_int v)"

record terminal_size =
  sz_width :: "16 word"
  sz_height :: "16 word"

text \<open>The queue is a channel with room for one size; a push to a full channel takes the old size out
  first.\<close>

type_synonym size_queue = "terminal_size option"

definition Push :: "terminal_size \<Rightarrow> size_queue \<Rightarrow> size_queue" where
  "Push sz q = (case q of None \<Rightarrow> Some sz | Some _ \<Rightarrow> Some sz)"

text \<open>\<open>Next\<close> takes the size out; on an empty channel it blocks (\<open>None\<close>).\<close>

definition NextSize :: "size_queue \<Rightarrow> (terminal_size \<times> size_queue) option" where
  "NextSize q = map_option (\<lambda>sz. (sz, None)) q"

section \<open>A session\<close>

record terminal_session =
  ts_id :: string
  ts_sandbox :: string
  ts_namespace :: string
  ts_user :: string
  ts_email :: string
  ts_pod :: string
  ts_shell :: string
  ts_conn :: nat
  ts_active :: instant
  ts_created :: instant
  ts_in :: int
  ts_out :: int
  ts_viewer :: bool
  ts_sizes :: size_queue
  ts_closed :: bool
  ts_disconnected :: "instant option"

definition NewSession ::
  "instant \<Rightarrow> string \<Rightarrow> string \<Rightarrow> string \<Rightarrow> string \<Rightarrow> string \<Rightarrow> string \<Rightarrow> string \<Rightarrow> nat \<Rightarrow> bool \<Rightarrow> terminal_session" where
  "NewSession now sid sandboxID namespace userID email podName shell conn isViewer =
     \<lparr>ts_id = sid, ts_sandbox = sandboxID, ts_namespace = namespace, ts_user = userID, ts_email = email,
      ts_pod = podName, ts_shell = shell, ts_conn = conn, ts_active = now, ts_created = now, ts_in = 0,
      ts_out = 0, ts_viewer = isViewer, ts_sizes = Push \<lparr>sz_width = 120, sz_height = 40\<rparr> None,
      ts_closed = False, ts_disconnected = None\<rparr>"

text \<open>What is done to a connection. Writes whose errors are ignored are events only.\<close>

datatype conn_event =
    Sent nat ws_message
  | Pinged nat
  | ReadDeadline nat instant
  | WriteDeadline nat instant
  | ConnClosed nat

definition KeepaliveInterval :: duration where "KeepaliveInterval = 30 * second"
definition PongWait :: duration where "PongWait = 70 * second"
definition WriteWait :: duration where "WriteWait = 10 * second"

definition sendPong :: "terminal_session \<Rightarrow> conn_event" where
  "sendPong s = Sent (ts_conn s) (message MessageTypePong)"

text \<open>\<open>Read\<close> with a buffer of \<open>n\<close> bytes. The frames are what \<open>ReadMessage\<close> returns, each with the time of its
  arrival, until it fails (\<open>None\<close>). The rest of the frames is left for the next call.\<close>

fun Read ::
  "(string \<Rightarrow> ws_message option) \<Rightarrow> nat \<Rightarrow> (instant \<times> string) list \<Rightarrow> terminal_session
   \<Rightarrow> (string \<times> (instant \<times> string) list) option \<times> conn_event list \<times> terminal_session" where
  "Read parse n [] s = (None, [], s)"
| "Read parse n ((now, raw) # rest) s =
     (case parse raw of
        None \<Rightarrow> Read parse n rest s
      | Some msg \<Rightarrow>
          let s = s\<lparr>ts_active := now\<rparr> in
          if ws_type msg = MessageTypeInput then
            (if ts_viewer s then Read parse n rest s
             else (Some (take n (ws_data msg), rest), [],
                   s\<lparr>ts_in := wrap64 (ts_in s + int (length (ws_data msg)))\<rparr>))
          else if ws_type msg = MessageTypeResize then
            Read parse n rest
              (s\<lparr>ts_sizes := Push \<lparr>sz_width = clampTerminalDim (ws_cols msg), sz_height = clampTerminalDim (ws_rows msg)\<rparr>
                              (ts_sizes s)\<rparr>)
          else if ws_type msg = MessageTypePing then
            (let (r, evs, s') = Read parse n rest s in (r, sendPong s # evs, s'))
          else Read parse n rest s)"

text \<open>\<open>Write\<close>; the environment's part is the error of the write on the connection, if any.\<close>

definition Write ::
  "instant \<Rightarrow> string option \<Rightarrow> string \<Rightarrow> terminal_session \<Rightarrow> (string + nat) \<times> conn_event list \<times> terminal_session" where
  "Write now failed p s =
     (if ts_closed s then (Inl ''io: read/write on closed pipe'', [], s)
      else (case failed of None \<Rightarrow> Inr (length p) | Some e \<Rightarrow> Inl e,
            [WriteDeadline (ts_conn s) (now + WriteWait), Sent (ts_conn s) (MarshalOutput ''stdout'' p)],
            s\<lparr>ts_out := wrap64 (ts_out s + int (length p))\<rparr>))"

definition CloseSession :: "terminal_session \<Rightarrow> conn_event list \<times> terminal_session" where
  "CloseSession s = (if \<not> ts_closed s then ([ConnClosed (ts_conn s)], s\<lparr>ts_closed := True\<rparr>) else ([], s))"

definition SendError :: "string \<Rightarrow> terminal_session \<Rightarrow> conn_event list" where
  "SendError t s = [Sent (ts_conn s) (MarshalError t)]"

definition SendClose :: "string \<Rightarrow> int \<Rightarrow> terminal_session \<Rightarrow> conn_event list \<times> terminal_session" where
  "SendClose reason code s = ([Sent (ts_conn s) (MarshalClose reason code)], s\<lparr>ts_closed := True\<rparr>)"

text \<open>The errors of the two writes of a keep-alive are the environment's part; a failure ends the
  session.\<close>

definition writePingAndHeartbeat ::
  "instant \<Rightarrow> bool \<Rightarrow> bool \<Rightarrow> terminal_session \<Rightarrow> bool \<times> conn_event list" where
  "writePingAndHeartbeat now ping_ok beat_ok s =
     (if ts_closed s then (False, [])
      else if \<not> ping_ok then (False, [Pinged (ts_conn s)])
      else (beat_ok, [Pinged (ts_conn s), WriteDeadline (ts_conn s) (now + WriteWait),
                      Sent (ts_conn s) (MarshalHeartbeat (now div millisecond))]))"

definition keepalive_tick ::
  "instant \<Rightarrow> bool \<Rightarrow> bool \<Rightarrow> terminal_session \<Rightarrow> bool \<times> conn_event list \<times> terminal_session" where
  "keepalive_tick now ping_ok beat_ok s =
     (case writePingAndHeartbeat now ping_ok beat_ok s of (ok, evs) \<Rightarrow>
        if ok then (True, evs, s)
        else (case CloseSession s of (evs', s') \<Rightarrow> (False, evs @ evs', s')))"

text \<open>On its start and on every pong the read deadline moves.\<close>

definition pong_received :: "instant \<Rightarrow> terminal_session \<Rightarrow> conn_event" where
  "pong_received now s = ReadDeadline (ts_conn s) (now + PongWait)"

definition IsDisconnected :: "terminal_session \<Rightarrow> bool" where
  "IsDisconnected s \<longleftrightarrow> ts_disconnected s \<noteq> None"

definition MarkDisconnected :: "instant \<Rightarrow> terminal_session \<Rightarrow> terminal_session" where
  "MarkDisconnected now s = s\<lparr>ts_disconnected := Some now\<rparr>"

definition Duration :: "instant \<Rightarrow> terminal_session \<Rightarrow> duration" where
  "Duration now s = time_sub now (ts_created s)"

definition ReconnectSession :: "instant \<Rightarrow> nat \<Rightarrow> terminal_session \<Rightarrow> conn_event list \<times> terminal_session" where
  "ReconnectSession now conn s =
     ([ReadDeadline conn (now + PongWait)], s\<lparr>ts_conn := conn, ts_disconnected := None, ts_closed := False\<rparr>)"

section \<open>The command line of the shell\<close>

text \<open>Every single quote becomes: quotes closed, an escaped quote, quotes opened.\<close>

definition quote_escaped :: "char \<Rightarrow> string" where
  "quote_escaped c = (if c = CHR 0x27 then [CHR 0x27, CHR 0x5C, CHR 0x27, CHR 0x27] else [c])"

definition quoted_path :: "string \<Rightarrow> string" where
  "quoted_path s = [CHR 0x27] @ concat (map quote_escaped s) @ [CHR 0x27]"

definition nl :: string where "nl = [CHR 0x0A]"

definition tmuxConfigPath :: string where "tmuxConfigPath = ''/tmp/.agenttier-tmux.conf''"

definition tmuxConfig :: string where
  "tmuxConfig =
     ''set -g status off'' @ nl
     @ ''set -g default-terminal '' @ [CHR 0x22] @ ''tmux-256color'' @ [CHR 0x22] @ nl
     @ ''set -ga terminal-overrides '' @ [CHR 0x27] @ ''xterm*:smcup@:rmcup@'' @ [CHR 0x27] @ nl"

definition buildShellCommand :: "terminal_session \<Rightarrow> string list" where
  "buildShellCommand s =
     (let shell = quoted_path (if ts_shell s = [] then ''/bin/bash'' else ts_shell s);
          writeConfig = ''printf '' @ [CHR 0x27] @ ''%s'' @ [CHR 0x27] @ '' '' @ quoted_path tmuxConfig
                          @ '' > '' @ tmuxConfigPath;
          tmuxCmd = ''exec tmux -u -2 -f '' @ tmuxConfigPath @ '' new-session -A -s ''
                      @ quoted_path (''agenttier-'' @ ts_sandbox s) @ '' -- '' @ shell @ '' -l'';
          fallbackCmd = ''exec '' @ shell @ '' -l''
      in [''/bin/sh'', ''-c'',
          ''command -v tmux >/dev/null 2>&1 && { '' @ writeConfig @ ''; '' @ tmuxCmd @ ''; } || '' @ fallbackCmd])"

section \<open>The table of sessions\<close>

text \<open>Sessions are objects that both indexes point to: \<open>mg_heap\<close> holds them under their addresses, and
  nothing is ever freed there. \<open>mg_log\<close> is what happened on the connections.\<close>

record manager =
  mg_heap :: "terminal_session list"
  mg_sessions :: "string \<rightharpoonup> nat"
  mg_by_sandbox :: "string \<rightharpoonup> nat list"
  mg_ttl :: duration
  mg_log :: "conn_event list"

definition DefaultReconnectTTL :: duration where "DefaultReconnectTTL = 30 * second"

definition NewManager :: manager where
  "NewManager = \<lparr>mg_heap = [], mg_sessions = Map.empty, mg_by_sandbox = Map.empty,
                  mg_ttl = DefaultReconnectTTL, mg_log = []\<rparr>"

text \<open>A missing entry reads as the empty list.\<close>

definition in_sandbox :: "manager \<Rightarrow> string \<Rightarrow> nat list" where
  "in_sandbox m sandboxID = (case mg_by_sandbox m sandboxID of None \<Rightarrow> [] | Some l \<Rightarrow> l)"

definition object_at :: "manager \<Rightarrow> nat \<Rightarrow> terminal_session" where
  "object_at m a = mg_heap m ! a"

text \<open>An operation on a session that may write to its connection.\<close>

definition on_session ::
  "nat \<Rightarrow> (terminal_session \<Rightarrow> conn_event list \<times> terminal_session) \<Rightarrow> manager \<Rightarrow> manager" where
  "on_session a f m =
     (case f (object_at m a) of (evs, s) \<Rightarrow>
        m\<lparr>mg_heap := (mg_heap m)[a := s], mg_log := mg_log m @ evs\<rparr>)"

text \<open>The session's identifier is random and an argument here.\<close>

definition CreateSession ::
  "instant \<Rightarrow> string \<Rightarrow> string \<Rightarrow> string \<Rightarrow> string \<Rightarrow> string \<Rightarrow> string \<Rightarrow> string \<Rightarrow> nat \<Rightarrow> bool
   \<Rightarrow> manager \<Rightarrow> nat \<times> manager" where
  "CreateSession now sid sandboxID namespace userID email podName shell conn isViewer m =
     (let a = length (mg_heap m)
      in (a, m\<lparr>mg_heap := mg_heap m @ [NewSession now sid sandboxID namespace userID email podName shell conn isViewer],
               mg_sessions := (mg_sessions m)(sid \<mapsto> a),
               mg_by_sandbox := (mg_by_sandbox m)(sandboxID \<mapsto> in_sandbox m sandboxID @ [a])\<rparr>))"

definition GetSession :: "string \<Rightarrow> manager \<Rightarrow> nat option" where
  "GetSession sid m = mg_sessions m sid"

fun drop_session :: "terminal_session list \<Rightarrow> string \<Rightarrow> nat list \<Rightarrow> nat list" where
  "drop_session h sid [] = []"
| "drop_session h sid (a # as) = (if ts_id (h ! a) = sid then as else a # drop_session h sid as)"

definition removeSandboxSession :: "string \<Rightarrow> string \<Rightarrow> manager \<Rightarrow> manager" where
  "removeSandboxSession sandboxID sid m =
     (let rest = drop_session (mg_heap m) sid (in_sandbox m sandboxID)
      in m\<lparr>mg_by_sandbox := (mg_by_sandbox m)(sandboxID := if rest = [] then None else Some rest)\<rparr>)"

definition forget :: "string \<Rightarrow> nat \<Rightarrow> manager \<Rightarrow> manager" where
  "forget sid a m =
     removeSandboxSession (ts_sandbox (object_at m a)) sid (m\<lparr>mg_sessions := (mg_sessions m)(sid := None)\<rparr>)"

definition expired :: "instant \<Rightarrow> manager \<Rightarrow> nat \<Rightarrow> bool" where
  "expired now m a =
     (case ts_disconnected (object_at m a) of
        None \<Rightarrow> False
      | Some t \<Rightarrow> time_sub now t > mg_ttl m)"

definition Reconnect :: "instant \<Rightarrow> string \<Rightarrow> nat \<Rightarrow> manager \<Rightarrow> (string + nat) \<times> manager" where
  "Reconnect now sid conn m =
     (case mg_sessions m sid of
        None \<Rightarrow> (Inl (''session '' @ sid @ '' not found''), m)
      | Some a \<Rightarrow>
          (case ts_disconnected (object_at m a) of
             None \<Rightarrow> (Inl (''session '' @ sid @ '' is not disconnected''), m)
           | Some t \<Rightarrow>
               if time_sub now t > mg_ttl m
               then (Inl (''session '' @ sid @ '' expired (disconnected for ''
                            @ show_duration (time_sub now t) @ '')''), forget sid a m)
               else (Inr a, on_session a (ReconnectSession now conn) m)))"

definition DisconnectSession :: "instant \<Rightarrow> string \<Rightarrow> manager \<Rightarrow> manager" where
  "DisconnectSession now sid m =
     (case mg_sessions m sid of
        None \<Rightarrow> m
      | Some a \<Rightarrow> on_session a (\<lambda>s. ([], MarkDisconnected now s)) m)"

definition RemoveSession :: "string \<Rightarrow> manager \<Rightarrow> manager" where
  "RemoveSession sid m = (case mg_sessions m sid of None \<Rightarrow> m | Some a \<Rightarrow> forget sid a m)"

definition GetSandboxSessions :: "string \<Rightarrow> manager \<Rightarrow> nat list" where
  "GetSandboxSessions sandboxID m = in_sandbox m sandboxID"

definition hang_up :: "string \<Rightarrow> int \<Rightarrow> terminal_session \<Rightarrow> conn_event list \<times> terminal_session" where
  "hang_up reason code s =
     (let (evs, s) = SendClose reason code s; (evs', s) = CloseSession s in (evs @ evs', s))"

text \<open>\<open>TerminateSandboxSessions\<close> holds the lock to detach the sandbox's list, and again for each session;
  in between other operations may run.\<close>

definition detach_sandbox :: "string \<Rightarrow> manager \<Rightarrow> nat list \<times> manager" where
  "detach_sandbox sandboxID m =
     (in_sandbox m sandboxID, m\<lparr>mg_by_sandbox := (mg_by_sandbox m)(sandboxID := None)\<rparr>)"

definition terminate_one :: "string \<Rightarrow> nat \<Rightarrow> manager \<Rightarrow> manager" where
  "terminate_one reason a m =
     (let m = on_session a (hang_up reason 4001) m
      in m\<lparr>mg_sessions := (mg_sessions m)(ts_id (object_at m a) := None)\<rparr>)"

definition TerminateSandboxSessions :: "string \<Rightarrow> string \<Rightarrow> manager \<Rightarrow> manager" where
  "TerminateSandboxSessions sandboxID reason m =
     (case detach_sandbox sandboxID m of (as, m') \<Rightarrow> fold (terminate_one reason) as m')"

fun revoke_loop :: "string \<Rightarrow> string \<Rightarrow> nat list \<Rightarrow> nat list \<Rightarrow> manager \<Rightarrow> nat list \<times> manager" where
  "revoke_loop userID reason remaining [] m = (remaining, m)"
| "revoke_loop userID reason remaining (a # as) m =
     (if ts_user (object_at m a) = userID then
        (let m = on_session a (hang_up reason 4003) m
         in revoke_loop userID reason remaining as
              (m\<lparr>mg_sessions := (mg_sessions m)(ts_id (object_at m a) := None)\<rparr>))
      else revoke_loop userID reason (remaining @ [a]) as m)"

definition TerminateUserSessions :: "string \<Rightarrow> string \<Rightarrow> string \<Rightarrow> manager \<Rightarrow> manager" where
  "TerminateUserSessions sandboxID userID reason m =
     (case revoke_loop userID reason [] (in_sandbox m sandboxID) m of
        (remaining, m') \<Rightarrow> m'\<lparr>mg_by_sandbox := (mg_by_sandbox m')(sandboxID \<mapsto> remaining)\<rparr>)"

text \<open>The number of entries; the table is finite.\<close>

definition ActiveSessionCount :: "manager \<Rightarrow> nat" where
  "ActiveSessionCount m = card (dom (mg_sessions m))"

text \<open>\<open>cleanup\<close> ranges over the table, in the order given by \<open>sids\<close>.\<close>

definition cleanup_one :: "instant \<Rightarrow> string \<Rightarrow> manager \<Rightarrow> manager" where
  "cleanup_one now sid m =
     (case mg_sessions m sid of
        None \<Rightarrow> m
      | Some a \<Rightarrow> if expired now m a then forget sid a m else m)"

definition cleanup :: "instant \<Rightarrow> string list \<Rightarrow> manager \<Rightarrow> manager" where
  "cleanup now sids m = fold (cleanup_one now) sids m"

section \<open>Runs of the table\<close>

text \<open>One operation under the lock, or one operation of a session on itself. The second component is
  the list of sessions that are being terminated: detached from their sandbox, still in the table.\<close>

inductive manager_step :: "manager \<times> nat list \<Rightarrow> manager \<times> nat list \<Rightarrow> bool" where
  creates: "sid \<notin> ts_id ` set (mg_heap m) \<Longrightarrow>
     manager_step (m, p) (snd (CreateSession now sid sandboxID ns user email pod shell conn viewer m), p)"
| reconnects: "manager_step (m, p) (snd (Reconnect now sid conn m), p)"
| disconnects: "manager_step (m, p) (DisconnectSession now sid m, p)"
| removes: "manager_step (m, p) (RemoveSession sid m, p)"
| cleans_up: "manager_step (m, p) (cleanup now sids m, p)"
| revokes: "manager_step (m, p) (TerminateUserSessions sandboxID user reason m, p)"
| detaches: "detach_sandbox sandboxID m = (as, m') \<Longrightarrow> manager_step (m, p) (m', p @ as)"
| hangs_up: "a \<in> set p \<Longrightarrow> manager_step (m, p) (on_session a (hang_up reason 4001) m, p)"
| forgets: "a \<in> set p \<Longrightarrow>
     manager_step (m, p)
       (m\<lparr>mg_sessions := (mg_sessions m)(ts_id (object_at m a) := None)\<rparr>, remove1 a p)"
| reads: "a < length (mg_heap m) \<Longrightarrow>
     manager_step (m, p) (on_session a (\<lambda>s. snd (Read parse n frames s)) m, p)"
| writes: "a < length (mg_heap m) \<Longrightarrow>
     manager_step (m, p) (on_session a (\<lambda>s. snd (Write now failed text s)) m, p)"
| beats: "a < length (mg_heap m) \<Longrightarrow>
     manager_step (m, p) (on_session a (\<lambda>s. snd (keepalive_tick now ping_ok beat_ok s)) m, p)"

text \<open>An object keeps its identifier and its sandbox.\<close>

definition keeps_identity :: "(terminal_session \<Rightarrow> conn_event list \<times> terminal_session) \<Rightarrow> bool" where
  "keeps_identity f \<longleftrightarrow> (\<forall>s. ts_id (snd (f s)) = ts_id s \<and> ts_sandbox (snd (f s)) = ts_sandbox s)"

text \<open>The table and the lists of the sandboxes agree: every entry of the table points to an object of
  that identifier, which is in its sandbox's list or being terminated; every list points, without
  repetition, to objects of its sandbox that are in the table; no object is both listed and being
  terminated; identifiers are unique.\<close>

definition indexes_agree :: "manager \<Rightarrow> nat list \<Rightarrow> bool" where
  "indexes_agree m p \<longleftrightarrow>
     distinct (map ts_id (mg_heap m)) \<and> set p \<subseteq> {..<length (mg_heap m)} \<and>
     (\<forall>sid a. mg_sessions m sid = Some a \<longrightarrow>
        a < length (mg_heap m) \<and> ts_id (object_at m a) = sid \<and>
        (a \<in> set (in_sandbox m (ts_sandbox (object_at m a))) \<or> a \<in> set p)) \<and>
     (\<forall>sandboxID. distinct (in_sandbox m sandboxID)) \<and>
     (\<forall>sandboxID. \<forall>a\<in>set (in_sandbox m sandboxID).
        a < length (mg_heap m) \<and> a \<notin> set p \<and> ts_sandbox (object_at m a) = sandboxID \<and>
        mg_sessions m (ts_id (object_at m a)) = Some a)"

lemma agree_facts:
  assumes "indexes_agree m p"
  shows "distinct (map ts_id (mg_heap m))"
    and "set p \<subseteq> {..<length (mg_heap m)}"
    and "mg_sessions m sid = Some a \<Longrightarrow> a < length (mg_heap m)"
    and "mg_sessions m sid = Some a \<Longrightarrow> ts_id (object_at m a) = sid"
    and "mg_sessions m sid = Some a \<Longrightarrow> a \<notin> set p \<Longrightarrow> a \<in> set (in_sandbox m (ts_sandbox (object_at m a)))"
    and "distinct (in_sandbox m sandboxID)"
    and "a \<in> set (in_sandbox m sandboxID) \<Longrightarrow> a < length (mg_heap m)"
    and "a \<in> set (in_sandbox m sandboxID) \<Longrightarrow> a \<notin> set p"
    and "a \<in> set (in_sandbox m sandboxID) \<Longrightarrow> ts_sandbox (object_at m a) = sandboxID"
    and "a \<in> set (in_sandbox m sandboxID) \<Longrightarrow> mg_sessions m (ts_id (object_at m a)) = Some a"
  using assms by (auto simp: indexes_agree_def)

lemma agreeI:
  assumes "distinct (map ts_id (mg_heap m))" "set p \<subseteq> {..<length (mg_heap m)}"
    and "\<And>sid a. mg_sessions m sid = Some a \<Longrightarrow> a < length (mg_heap m)"
    and "\<And>sid a. mg_sessions m sid = Some a \<Longrightarrow> ts_id (object_at m a) = sid"
    and "\<And>sid a. mg_sessions m sid = Some a \<Longrightarrow> a \<notin> set p \<Longrightarrow> a \<in> set (in_sandbox m (ts_sandbox (object_at m a)))"
    and "\<And>x. distinct (in_sandbox m x)"
    and "\<And>x a. a \<in> set (in_sandbox m x) \<Longrightarrow> a < length (mg_heap m)"
    and "\<And>x a. a \<in> set (in_sandbox m x) \<Longrightarrow> a \<notin> set p"
    and "\<And>x a. a \<in> set (in_sandbox m x) \<Longrightarrow> ts_sandbox (object_at m a) = x"
    and "\<And>x a. a \<in> set (in_sandbox m x) \<Longrightarrow> mg_sessions m (ts_id (object_at m a)) = Some a"
  shows "indexes_agree m p"
  using assms unfolding indexes_agree_def by blast

lemma identity_Read: "ts_id (snd (snd (Read parse n fs s))) = ts_id s \<and> ts_sandbox (snd (snd (Read parse n fs s))) = ts_sandbox s"
  by (induction fs arbitrary: s) (auto simp: Let_def case_prod_beta split: option.split)

lemma viewer_Read: "ts_viewer (snd (snd (Read parse n fs s))) = ts_viewer s"
proof (induction fs arbitrary: s)
  case (Cons f fs)
  obtain now raw where f: "f = (now, raw)" by (cases f)
  show ?case by (cases "parse raw") (simp_all add: f Cons.IH Let_def case_prod_beta)
qed simp

lemma identity_steps [simp]:
  "keeps_identity (\<lambda>s. snd (Read parse n fs s))"
  "keeps_identity (\<lambda>s. snd (Write now failed text s))"
  "keeps_identity (\<lambda>s. snd (keepalive_tick now ping_ok beat_ok s))"
  "keeps_identity (hang_up reason code)"
  "keeps_identity (ReconnectSession now conn)"
  "keeps_identity (\<lambda>s. ([], MarkDisconnected now s))"
  by (auto simp: keeps_identity_def identity_Read Write_def keepalive_tick_def hang_up_def SendClose_def
      CloseSession_def ReconnectSession_def MarkDisconnected_def split: prod.split)

lemma on_session_simps [simp]:
  "length (mg_heap (on_session a f m)) = length (mg_heap m)"
  "mg_sessions (on_session a f m) = mg_sessions m"
  "mg_by_sandbox (on_session a f m) = mg_by_sandbox m"
  "in_sandbox (on_session a f m) sandboxID = in_sandbox m sandboxID"
  "mg_ttl (on_session a f m) = mg_ttl m"
  by (simp_all add: on_session_def in_sandbox_def split: prod.split)

lemma on_session_identity [simp]:
  assumes "keeps_identity f"
  shows "ts_id (object_at (on_session a f m) b) = ts_id (object_at m b)"
    and "ts_sandbox (object_at (on_session a f m) b) = ts_sandbox (object_at m b)"
    and "map ts_id (mg_heap (on_session a f m)) = map ts_id (mg_heap m)"
proof -
  obtain evs s where f: "f (object_at m a) = (evs, s)" by (cases "f (object_at m a)")
  have same: "ts_id s = ts_id (object_at m a)" "ts_sandbox s = ts_sandbox (object_at m a)"
    using assms f by (auto simp: keeps_identity_def dest: spec [of _ "object_at m a"])
  have at: "object_at (on_session a f m) b = (if b = a \<and> a < length (mg_heap m) then s else object_at m b)"
    using f by (cases "a < length (mg_heap m)") (auto simp: on_session_def object_at_def nth_list_update list_update_beyond)
  show "ts_id (object_at (on_session a f m) b) = ts_id (object_at m b)"
    "ts_sandbox (object_at (on_session a f m) b) = ts_sandbox (object_at m b)"
    using same by (auto simp: at)
  have "(map ts_id (mg_heap m))[a := ts_id (mg_heap m ! a)] = map ts_id (mg_heap m)"
    by (metis list_update_beyond list_update_id length_map linorder_not_less nth_map)
  then show "map ts_id (mg_heap (on_session a f m)) = map ts_id (mg_heap m)"
    using same by (simp add: on_session_def object_at_def f[unfolded object_at_def] map_update)
qed

lemma agree_on_session: "keeps_identity f \<Longrightarrow> indexes_agree m p \<Longrightarrow> indexes_agree (on_session a f m) p"
  by (simp add: indexes_agree_def)

lemma identified:
  assumes "indexes_agree m p" "a < length (mg_heap m)" "b < length (mg_heap m)"
    and "ts_id (object_at m a) = ts_id (object_at m b)"
  shows "a = b"
  using assms nth_eq_iff_index_eq [of "map ts_id (mg_heap m)" a b] by (simp add: indexes_agree_def object_at_def)

text \<open>Adding an entry.\<close>

lemma agree_creates:
  assumes ok: "indexes_agree m p" and new: "sid \<notin> ts_id ` set (mg_heap m)"
  shows "indexes_agree (snd (CreateSession now sid sandboxID ns user email pod shell conn viewer m)) p"
proof -
  let ?a = "length (mg_heap m)"
  let ?s = "NewSession now sid sandboxID ns user email pod shell conn viewer"
  let ?m = "snd (CreateSession now sid sandboxID ns user email pod shell conn viewer m)"
  have old: "b < ?a \<Longrightarrow> object_at ?m b = object_at m b" for b
    by (simp add: CreateSession_def object_at_def nth_append Let_def)
  have created: "object_at ?m ?a = ?s"
    by (simp add: CreateSession_def object_at_def Let_def)
  have lists: "in_sandbox ?m x = in_sandbox m x @ (if x = sandboxID then [?a] else [])" for x
    by (simp add: CreateSession_def in_sandbox_def Let_def)
  have heap: "mg_heap ?m = mg_heap m @ [?s]" and table: "mg_sessions ?m = (mg_sessions m)(sid \<mapsto> ?a)"
    by (simp_all add: CreateSession_def Let_def)
  have same: "ts_id ?s = sid" "ts_sandbox ?s = sandboxID" by (simp_all add: NewSession_def)
  have other: "b < ?a \<Longrightarrow> ts_id (object_at m b) \<noteq> sid" for b using new by (auto simp: object_at_def)
  show ?thesis
  proof (rule agreeI)
    show "distinct (map ts_id (mg_heap ?m))" using agree_facts(1) [OF ok] new by (auto simp: heap same)
    show "set p \<subseteq> {..<length (mg_heap ?m)}" using agree_facts(2) [OF ok] by (auto simp: heap)
  next
    fix k b assume "mg_sessions ?m k = Some b"
    then have b: "(k = sid \<and> b = ?a) \<or> mg_sessions m k = Some b" by (auto simp: table split: if_splits)
    note entry = agree_facts(3-5) [OF ok, of k b]
    show "b < length (mg_heap ?m)" using b entry by (auto simp: heap)
    show "ts_id (object_at ?m b) = k" using b entry by (auto simp: created same old)
    show "b \<in> set (in_sandbox ?m (ts_sandbox (object_at ?m b)))" if "b \<notin> set p"
      using b entry that by (auto simp: created same old lists)
  next
    fix x show "distinct (in_sandbox ?m x)"
      using agree_facts(6) [OF ok, of x] agree_facts(7) [OF ok, of ?a x] by (auto simp: lists)
  next
    fix x b assume "b \<in> set (in_sandbox ?m x)"
    then have b: "b \<in> set (in_sandbox m x) \<or> b = ?a \<and> x = sandboxID" by (auto simp: lists split: if_splits)
    note listed = agree_facts(7-10) [OF ok, of b x]
    show "b < length (mg_heap ?m)" using b listed by (auto simp: heap)
    show "b \<notin> set p" using b listed agree_facts(2) [OF ok] by auto
    show "ts_sandbox (object_at ?m b) = x" using b listed by (auto simp: old created same)
    show "mg_sessions ?m (ts_id (object_at ?m b)) = Some b"
      using b listed other by (auto simp: old created same table)
  qed
qed

text \<open>Taking an entry out of both indexes.\<close>

lemma drop_session_filter:
  "inj_on (\<lambda>a. ts_id (h ! a)) (set l) \<Longrightarrow> distinct l
     \<Longrightarrow> drop_session h sid l = filter (\<lambda>a. ts_id (h ! a) \<noteq> sid) l"
proof (induction l)
  case (Cons a l)
  have "ts_id (h ! a) = sid \<Longrightarrow> filter (\<lambda>a. ts_id (h ! a) \<noteq> sid) l = l"
    using Cons.prems by (fastforce simp: inj_on_def filter_id_conv)
  with Cons show ?case by (simp add: inj_on_def)
qed simp

lemma listed_dropped:
  assumes "indexes_agree m p"
  shows "drop_session (mg_heap m) sid (in_sandbox m sandboxID)
           = filter (\<lambda>a. ts_id (object_at m a) \<noteq> sid) (in_sandbox m sandboxID)"
proof -
  have "inj_on (\<lambda>a. ts_id (mg_heap m ! a)) (set (in_sandbox m sandboxID))"
    by (rule inj_onI) (use identified [OF assms] agree_facts(7) [OF assms] in \<open>auto simp: object_at_def\<close>)
  then show ?thesis using agree_facts(6) [OF assms] by (simp add: drop_session_filter object_at_def)
qed

lemma agree_forget:
  assumes ok: "indexes_agree m p" and a: "mg_sessions m sid = Some a"
  shows "indexes_agree (forget sid a m) p"
proof -
  let ?x = "ts_sandbox (object_at m a)"
  let ?m = "forget sid a m"
  have heap: "mg_heap ?m = mg_heap m" and at: "object_at ?m b = object_at m b" for b
    by (simp_all add: forget_def removeSandboxSession_def object_at_def Let_def)
  have table: "mg_sessions ?m = (mg_sessions m)(sid := None)"
    by (simp add: forget_def removeSandboxSession_def Let_def)
  have lists: "in_sandbox ?m y = filter (\<lambda>b. ts_id (object_at m b) \<noteq> sid) (in_sandbox m y)" for y
  proof (cases "y = ?x")
    case True
    then show ?thesis using listed_dropped [OF ok, of sid y]
      by (simp add: forget_def removeSandboxSession_def in_sandbox_def Let_def)
  next
    case False
    have "ts_id (object_at m b) \<noteq> sid" if "b \<in> set (in_sandbox m y)" for b
      using agree_facts(9,10) [OF ok that] a False by auto
    then have "filter (\<lambda>b. ts_id (object_at m b) \<noteq> sid) (in_sandbox m y) = in_sandbox m y"
      by (simp add: filter_id_conv)
    then show ?thesis using False
      by (simp add: forget_def removeSandboxSession_def in_sandbox_def Let_def)
  qed
  show ?thesis
  proof (rule agreeI)
    show "distinct (map ts_id (mg_heap ?m))" "set p \<subseteq> {..<length (mg_heap ?m)}"
      using agree_facts(1,2) [OF ok] by (auto simp: heap)
  next
    fix k b assume "mg_sessions ?m k = Some b"
    then have b: "mg_sessions m k = Some b" and k: "k \<noteq> sid" by (auto simp: table split: if_splits)
    note entry = agree_facts(3-5) [OF ok b]
    show "b < length (mg_heap ?m)" "ts_id (object_at ?m b) = k" using entry by (auto simp: heap at)
    show "b \<in> set (in_sandbox ?m (ts_sandbox (object_at ?m b)))" if "b \<notin> set p"
      using entry k that by (auto simp: at lists)
  next
    fix x show "distinct (in_sandbox ?m x)" using agree_facts(6) [OF ok, of x] by (auto simp: lists)
  next
    fix x b assume "b \<in> set (in_sandbox ?m x)"
    then have b: "b \<in> set (in_sandbox m x)" and new: "ts_id (object_at m b) \<noteq> sid" by (auto simp: lists)
    note listed = agree_facts(7-10) [OF ok b]
    show "b < length (mg_heap ?m)" "b \<notin> set p" "ts_sandbox (object_at ?m b) = x"
      "mg_sessions ?m (ts_id (object_at ?m b)) = Some b"
      using listed new by (auto simp: heap at table)
  qed
qed

text \<open>Sessions that are being terminated may stay in the table or leave it.\<close>

definition unlist :: "nat \<Rightarrow> manager \<Rightarrow> manager" where
  "unlist a m = m\<lparr>mg_sessions := (mg_sessions m)(ts_id (object_at m a) := None)\<rparr>"

lemma unlist_simps [simp]:
  "mg_heap (unlist a m) = mg_heap m" "object_at (unlist a m) b = object_at m b"
  "in_sandbox (unlist a m) x = in_sandbox m x" "mg_by_sandbox (unlist a m) = mg_by_sandbox m"
  "mg_sessions (unlist a m) = (mg_sessions m)(ts_id (object_at m a) := None)"
  by (simp_all add: unlist_def object_at_def in_sandbox_def)

lemma agree_detaches:
  assumes "indexes_agree m p" "detach_sandbox x m = (as, m')"
  shows "indexes_agree m' (p @ as)"
proof -
  have as: "as = in_sandbox m x" and heap: "mg_heap m' = mg_heap m" "\<And>b. object_at m' b = object_at m b"
    and table: "mg_sessions m' = mg_sessions m" and lists: "\<And>y. in_sandbox m' y = (if y = x then [] else in_sandbox m y)"
    using assms(2) by (auto simp: detach_sandbox_def object_at_def in_sandbox_def)
  note facts = agree_facts [OF assms(1)]
  show ?thesis
  proof (rule agreeI)
    show "set (p @ as) \<subseteq> {..<length (mg_heap m')}" using facts(2) facts(7) [of _ x] by (auto simp: as heap)
  next
    fix k b assume "mg_sessions m' k = Some b"
    then have b: "mg_sessions m k = Some b" by (simp add: table)
    show "b < length (mg_heap m')" "ts_id (object_at m' b) = k" using facts(3,4) [OF b] by (simp_all add: heap)
    show "b \<in> set (in_sandbox m' (ts_sandbox (object_at m' b)))" if "b \<notin> set (p @ as)"
      using facts(5) [OF b] that by (auto simp: heap lists as)
  next
    fix y b assume "b \<in> set (in_sandbox m' y)"
    then have b: "b \<in> set (in_sandbox m y)" and "y \<noteq> x" by (auto simp: lists split: if_splits)
    then show "b \<notin> set (p @ as)" using facts(8,9) [of b] by (auto simp: as)
    show "b < length (mg_heap m')" "ts_sandbox (object_at m' b) = y" "mg_sessions m' (ts_id (object_at m' b)) = Some b"
      using facts(7,9,10) [OF b] by (simp_all add: heap table)
  qed (simp_all add: heap lists facts(1,6))
qed

lemma agree_unlist:
  assumes ok: "indexes_agree m p" and a: "a \<in> set p"
  shows "indexes_agree (unlist a m) (remove1 a p)"
proof -
  have sub: "set (remove1 a p) \<subseteq> set p" by (rule set_remove1_subset)
  note facts = agree_facts [OF ok]
  show ?thesis
  proof (rule agreeI)
    fix k b assume "mg_sessions (unlist a m) k = Some b"
    then have b: "mg_sessions m k = Some b" and "b \<noteq> a" using facts(4) [of k b] by (auto split: if_splits)
    then show "b \<in> set (in_sandbox (unlist a m) (ts_sandbox (object_at (unlist a m) b)))"
      if "b \<notin> set (remove1 a p)"
      using facts(5) [OF b] that by (simp add: in_set_remove1)
    show "b < length (mg_heap (unlist a m))" "ts_id (object_at (unlist a m) b) = k" using facts(3,4) [OF b] by auto
  next
    fix x b assume "b \<in> set (in_sandbox (unlist a m) x)"
    then have b: "b \<in> set (in_sandbox m x)" by simp
    have "ts_id (object_at m b) \<noteq> ts_id (object_at m a)"
      using identified [OF ok, of b a] facts(2) facts(7,8) [OF b] a by auto
    then show "mg_sessions (unlist a m) (ts_id (object_at (unlist a m) b)) = Some b" using facts(10) [OF b] by simp
    show "b < length (mg_heap (unlist a m))" "b \<notin> set (remove1 a p)" "ts_sandbox (object_at (unlist a m) b) = x"
      using facts(7-9) [OF b] sub by auto
  qed (use facts(1,2,6) sub in auto)
qed

text \<open>The loop of a revocation: detaching the user's sessions is a detour over the sessions being
  terminated.\<close>

definition detached :: "string \<Rightarrow> nat list \<Rightarrow> manager \<Rightarrow> manager" where
  "detached x rest m = m\<lparr>mg_by_sandbox := (mg_by_sandbox m)(x \<mapsto> rest)\<rparr>"

lemma detached_simps [simp]:
  "mg_heap (detached x r m) = mg_heap m" "object_at (detached x r m) b = object_at m b"
  "mg_sessions (detached x r m) = mg_sessions m"
  "in_sandbox (detached x r m) y = (if y = x then r else in_sandbox m y)"
  by (simp_all add: detached_def object_at_def in_sandbox_def)

lemma agree_without_one:
  assumes ok: "indexes_agree (detached x (pre @ a # as) m) p"
  shows "indexes_agree (detached x (pre @ as) (unlist a m)) p" (is "indexes_agree ?m p")
proof -
  note facts = agree_facts [OF ok, unfolded detached_simps]
  have a: "a < length (mg_heap m)" "ts_sandbox (object_at m a) = x" using facts(7,9) [of a x] by simp_all
  have away: "ts_id (object_at m b) = ts_id (object_at m a) \<Longrightarrow> b < length (mg_heap m) \<Longrightarrow> b = a" for b
    using identified [OF ok, of b a] a by simp
  have other: "a \<notin> set pre" "a \<notin> set as" using facts(6) [of x] by auto
  show ?thesis
  proof (rule agreeI)
    fix k b assume "mg_sessions ?m k = Some b"
    then have b: "mg_sessions m k = Some b" and k: "k \<noteq> ts_id (object_at m a)" by (auto split: if_splits)
    show "b < length (mg_heap ?m)" "ts_id (object_at ?m b) = k" using facts(3,4) [OF b] by auto
    show "b \<in> set (in_sandbox ?m (ts_sandbox (object_at ?m b)))" if "b \<notin> set p"
      using facts(4,5) [OF b] k that by (auto split: if_splits)
  next
    fix y show "distinct (in_sandbox ?m y)" using facts(6) [of y] by (auto split: if_splits)
  next
    fix y b assume "b \<in> set (in_sandbox ?m y)"
    then have b: "b \<in> set (if y = x then pre @ a # as else in_sandbox m y)" by (auto split: if_splits)
    have "b \<noteq> a"
      using \<open>b \<in> set (in_sandbox ?m y)\<close> other a(2) facts(9) [OF b] by (auto split: if_splits)
    then show "mg_sessions ?m (ts_id (object_at ?m b)) = Some b"
      using facts(7,10) [OF b] away by auto
    show "b < length (mg_heap ?m)" "b \<notin> set p" "ts_sandbox (object_at ?m b) = y"
      using facts(7-9) [OF b] by auto
  qed (use facts(1,2) in auto)
qed

lemma detached_on_session: "detached x l (on_session a f m) = on_session a f (detached x l m)"
  by (simp add: detached_def on_session_def object_at_def split: prod.split)

lemma agree_revoke_loop:
  "indexes_agree (detached x (pre @ as) m) p \<Longrightarrow> revoke_loop u reason pre as m = (rest, m')
     \<Longrightarrow> indexes_agree (detached x rest m') p"
proof (induction as arbitrary: pre m)
  case (Cons a as)
  show ?case
  proof (cases "ts_user (object_at m a) = u")
    case True
    have "indexes_agree (detached x (pre @ a # as) (on_session a (hang_up reason 4003) m)) p"
      using agree_on_session [OF identity_steps(4) Cons.prems(1)] by (simp add: detached_on_session)
    from Cons.IH [OF agree_without_one [OF this]] Cons.prems(2) True show ?thesis
      by (simp add: unlist_def Let_def)
  next
    case False
    then show ?thesis using Cons.IH [of "pre @ [a]" m] Cons.prems by simp
  qed
qed simp

lemma agree_revokes:
  assumes "indexes_agree m p"
  shows "indexes_agree (TerminateUserSessions x u reason m) p"
proof -
  have views: "in_sandbox (detached x (in_sandbox m x) m) y = in_sandbox m y" for y by simp
  have "indexes_agree (detached x ([] @ in_sandbox m x) m) p"
    using assms by (simp add: indexes_agree_def views del: detached_simps(4))
  then show ?thesis
    by (cases "revoke_loop u reason [] (in_sandbox m x) m")
      (use agree_revoke_loop in \<open>auto simp: TerminateUserSessions_def detached_def [symmetric] simp del: append_Nil\<close>)
qed

lemma agree_cleans_up: "indexes_agree m p \<Longrightarrow> indexes_agree (cleanup now sids m) p"
  by (induction sids arbitrary: m) (auto simp: cleanup_def cleanup_one_def agree_forget split: option.split)

lemma agree_step: "manager_step x y \<Longrightarrow> indexes_agree (fst x) (snd x) \<Longrightarrow> indexes_agree (fst y) (snd y)"
proof (induction rule: manager_step.induct)
  case (reconnects m p now sid conn)
  then show ?case by (auto simp: Reconnect_def agree_forget agree_on_session split: option.split)
next
  case (disconnects m p now sid)
  then show ?case by (auto simp: DisconnectSession_def agree_on_session split: option.split)
next
  case (removes m p sid)
  then show ?case by (auto simp: RemoveSession_def agree_forget split: option.split)
next
  case (forgets a p m)
  then show ?case using agree_unlist [of m p a] by (simp add: unlist_def)
qed (simp_all add: agree_creates agree_cleans_up agree_revokes agree_detaches agree_on_session)

definition manager_runs :: "manager \<Rightarrow> nat list \<Rightarrow> bool" where
  "manager_runs m p \<longleftrightarrow> manager_step\<^sup>*\<^sup>* (NewManager, []) (m, p)"

lemma agree_new: "indexes_agree NewManager []"
  by (simp add: indexes_agree_def NewManager_def in_sandbox_def)

text \<open>C34. Well-formedness of the table of terminal sessions: whatever operations have run, interleaved
  with terminations that hold the lock only for parts of their work, every entry points to a session of
  its identifier that is listed under its sandbox or being terminated, and every list points, each once,
  to sessions of its sandbox that are in the table.\<close>
theorem session_indexes_agree:
  assumes "manager_runs m p"
  shows "indexes_agree m p"
proof -
  have "indexes_agree (fst x) (snd x)" if "manager_step\<^sup>*\<^sup>* (NewManager, []) x" for x
    using that by (induction rule: rtranclp_induct) (use agree_new agree_step in simp_all)
  from this [of "(m, p)"] assms show ?thesis by (simp add: manager_runs_def)
qed

theorem session_indexes_agree_witness:
  "indexes_agree
     (snd (CreateSession 0 ''s1'' ''box'' ''ns'' ''ann'' ''a@x'' ''pod'' ''/bin/bash'' 0 False NewManager)) []"
  by (rule session_indexes_agree)
    (simp add: manager_runs_def r_into_rtranclp manager_step.creates NewManager_def)

section \<open>What a session reads\<close>

lemma clampTerminalDim_range: "uint (clampTerminalDim v) = max 1 (min 65535 v)"
  by (auto simp: clampTerminalDim_def uint_word_of_int unsigned_minus_1_eq_mask mask_eq_exp_minus_1)

definition types_input :: "(string \<Rightarrow> ws_message option) \<Rightarrow> instant \<times> string \<Rightarrow> bool" where
  "types_input parse f = (case parse (snd f) of None \<Rightarrow> False | Some msg \<Rightarrow> ws_type msg = MessageTypeInput)"

definition is_ping :: "(string \<Rightarrow> ws_message option) \<Rightarrow> instant \<times> string \<Rightarrow> bool" where
  "is_ping parse f = (case parse (snd f) of None \<Rightarrow> False | Some msg \<Rightarrow> ws_type msg = MessageTypePing)"

definition typed_text :: "(string \<Rightarrow> ws_message option) \<Rightarrow> instant \<times> string \<Rightarrow> string" where
  "typed_text parse f = (case parse (snd f) of None \<Rightarrow> [] | Some msg \<Rightarrow> ws_data msg)"

text \<open>The first frame with input from somebody who may type; the frames before it are worked off.\<close>

definition reading :: "(string \<Rightarrow> ws_message option) \<Rightarrow> terminal_session \<Rightarrow> instant \<times> string \<Rightarrow> bool" where
  "reading parse s f \<longleftrightarrow> \<not> ts_viewer s \<and> types_input parse f"

lemma Read_search:
  "case Read parse n fs s of (r, evs, s') \<Rightarrow>
     r = (case dropWhile (\<lambda>f. \<not> reading parse s f) fs of
            [] \<Rightarrow> None
          | f # rest \<Rightarrow> Some (take n (typed_text parse f), rest)) \<and>
     evs = map (\<lambda>_. sendPong s) (filter (is_ping parse) (takeWhile (\<lambda>f. \<not> reading parse s f) fs))"
proof (induction fs arbitrary: s)
  case (Cons f fs)
  obtain now raw where f: "f = (now, raw)" by (cases f)
  have same: "reading parse (s\<lparr>ts_active := t\<rparr>) = reading parse s"
    "reading parse (s\<lparr>ts_active := t, ts_sizes := q\<rparr>) = reading parse s"
    "sendPong (s\<lparr>ts_active := t\<rparr>) = sendPong s" "sendPong (s\<lparr>ts_active := t, ts_sizes := q\<rparr>) = sendPong s" for t q
    by (auto simp: fun_eq_iff reading_def sendPong_def)
  show ?case
  proof (cases "parse raw")
    case None
    then have "\<not> reading parse s f" "\<not> is_ping parse f" by (auto simp: f reading_def types_input_def is_ping_def)
    then show ?thesis using Cons.IH [of s] None by (simp add: f)
  next
    case (Some msg)
    have rf: "reading parse s f \<longleftrightarrow> \<not> ts_viewer s \<and> ws_type msg = MessageTypeInput"
      and pf: "is_ping parse f \<longleftrightarrow> ws_type msg = MessageTypePing" and tf: "typed_text parse f = ws_data msg"
      using Some by (simp_all add: f reading_def types_input_def is_ping_def typed_text_def)
    have distinct_types: "MessageTypeInput \<noteq> MessageTypePing" "MessageTypeResize \<noteq> MessageTypePing"
      "MessageTypeInput \<noteq> MessageTypeResize" by (simp_all add: message_types)
    note IH = Cons.IH [of "s\<lparr>ts_active := now\<rparr>", unfolded same case_prod_beta]
      Cons.IH [of "s\<lparr>ts_active := now, ts_sizes := q\<rparr>" for q, unfolded same case_prod_beta]
    consider "ws_type msg = MessageTypeInput" | "ws_type msg = MessageTypeResize" | "ws_type msg = MessageTypePing"
      | "ws_type msg \<notin> {MessageTypeInput, MessageTypeResize, MessageTypePing}" by auto
    then show ?thesis
      by cases (use Some distinct_types IH rf pf tf in \<open>simp_all add: f case_prod_beta Let_def same\<close>)
  qed
qed simp

section \<open>What a termination does\<close>

text \<open>\<open>SendClose\<close> marks the session closed, so the \<open>Close\<close> that follows leaves the connection alone.\<close>

lemma hang_up_eq:
  "hang_up reason code s = ([Sent (ts_conn s) (MarshalClose reason code)], s\<lparr>ts_closed := True\<rparr>)"
  by (simp add: hang_up_def SendClose_def CloseSession_def)

text \<open>Hence a closed session that is still connected is read as before.\<close>

lemma closed_sessions_still_read: "fst (Read parse n fs (s\<lparr>ts_closed := True\<rparr>)) = fst (Read parse n fs s)"
proof -
  have "reading parse (s\<lparr>ts_closed := True\<rparr>) = reading parse s" by (simp add: fun_eq_iff reading_def)
  then show ?thesis
    using Read_search [where parse = parse and n = n and fs = fs and s = s]
      Read_search [where parse = parse and n = n and fs = fs and s = "s\<lparr>ts_closed := True\<rparr>"]
    by (simp add: case_prod_beta)
qed

definition closing :: "string \<Rightarrow> int \<Rightarrow> manager \<Rightarrow> nat \<Rightarrow> conn_event" where
  "closing reason code m a = Sent (ts_conn (object_at m a)) (MarshalClose reason code)"

definition user_of :: "manager \<Rightarrow> nat \<Rightarrow> string" where
  "user_of m a = ts_user (object_at m a)"

lemma hung_up_object:
  "object_at (on_session a (hang_up reason code) m) b =
     (if a = b \<and> a < length (mg_heap m) then (object_at m b)\<lparr>ts_closed := True\<rparr> else object_at m b)"
  by (cases "a < length (mg_heap m)")
    (auto simp: on_session_def hang_up_eq object_at_def nth_list_update list_update_beyond)

lemma hung_up_views [simp]:
  "user_of (m\<lparr>mg_sessions := t\<rparr>) = user_of m" "closing reason code (m\<lparr>mg_sessions := t\<rparr>) = closing reason code m"
  "user_of (on_session a (hang_up r c) m) = user_of m"
  "closing reason code (on_session a (hang_up r c) m) = closing reason code m"
  "mg_log (on_session a (hang_up r c) m) = mg_log m @ [closing r c m a]"
  by (auto simp: fun_eq_iff user_of_def closing_def hung_up_object)
    (simp_all add: object_at_def on_session_def hang_up_eq)

lemma revoke_loop_views:
  "revoke_loop u reason pre as m = (rest, m')
     \<Longrightarrow> rest = pre @ filter (\<lambda>a. user_of m a \<noteq> u) as
       \<and> mg_log m' = mg_log m @ map (closing reason 4003 m) (filter (\<lambda>a. user_of m a = u) as)"
proof (induction as arbitrary: pre m)
  case (Cons a as)
  then show ?case
    by (cases "user_of m a = u") (fastforce simp: user_of_def [symmetric] Let_def)+
qed simp

text \<open>Revocation of a user's access: exactly the user's sessions leave the sandbox's list, in the
  order of the list each is told so once, with the reason and code 4003, and nothing else is done to any
  connection; no connection is closed.\<close>
lemma revocation_tells_the_user_only:
  "case TerminateUserSessions sandboxID u reason m of m' \<Rightarrow>
     in_sandbox m' sandboxID = filter (\<lambda>a. user_of m a \<noteq> u) (in_sandbox m sandboxID) \<and>
     mg_log m' = mg_log m @ map (closing reason 4003 m) (filter (\<lambda>a. user_of m a = u) (in_sandbox m sandboxID))"
  using revoke_loop_views [of u reason "[]" "in_sandbox m sandboxID" m]
  by (cases "revoke_loop u reason [] (in_sandbox m sandboxID) m")
    (simp add: TerminateUserSessions_def, simp add: in_sandbox_def)

text \<open>Every branch of a reconnection.\<close>

lemma reconnection_within_the_window:
  "case Reconnect now sid conn m of (r, m') \<Rightarrow>
     (case r of
        Inl _ \<Rightarrow> mg_log m' = mg_log m \<and> mg_heap m' = mg_heap m
      | Inr a \<Rightarrow> mg_sessions m sid = Some a \<and> IsDisconnected (object_at m a) \<and> \<not> expired now m a
          \<and> mg_log m' = mg_log m @ [ReadDeadline conn (now + PongWait)])"
  by (auto simp: Reconnect_def forget_def removeSandboxSession_def IsDisconnected_def expired_def
      on_session_def ReconnectSession_def Let_def split: option.split)

section \<open>The transport\<close>

datatype terminal_transport = SpdyTerminal | HttpTerminal http_client string

text \<open>\<open>pickTerminalTransport\<close>, with why it is not the runtime.\<close>

definition pickTerminalTransport :: "'w api \<Rightarrow> sandbox \<Rightarrow> ('w, terminal_transport \<times> string) kprog" where
  "pickTerminalTransport E sb = do {
     t \<leftarrow> ReadRuntimeToken E (sb_name sb) (sb_namespace sb);
     (case t of
        Inl e \<Rightarrow> ret (SpdyTerminal, ''runtime-token Secret read failed: '' @ err_text e)
      | Inr token \<Rightarrow>
          if token = [] then ret (SpdyTerminal, [])
          else do {
            podIP \<leftarrow> lookupPodIP E sb;
            (if podIP = [] then ret (SpdyTerminal, ''pod IP not yet assigned'')
             else do {
               h \<leftarrow> Healthz E (runtime_client podIP token);
               ret (case h of
                      Inl e \<Rightarrow> (SpdyTerminal, ''runtime healthz failed: '' @ e)
                    | Inr _ \<Rightarrow> (HttpTerminal (runtime_client podIP token) (''agenttier-'' @ sb_name sb), []))
             })
          })
   }"

definition terminal_for :: "sandbox \<Rightarrow> executor \<Rightarrow> terminal_transport" where
  "terminal_for sb ex =
     (case ex of SpdyExecutor \<Rightarrow> SpdyTerminal | HttpExecutor c \<Rightarrow> HttpTerminal c (''agenttier-'' @ sb_name sb))"

text \<open>The terminal takes the same way into the pod as a command would, and for the same reason.\<close>

lemma terminals_go_where_commands_go:
  "pickTerminalTransport E sb = do { (ex, why) \<leftarrow> pickExecutor E sb; ret (terminal_for sb ex, why) }"
  by (rule state.expand)
    (auto simp: fun_eq_iff pickTerminalTransport_def pickExecutor_def terminal_for_def split: sum.split prod.split)

text \<open>\<open>run\<close> ferries frames: those of the browser as they are, those of the runtime without its own
  signs of life. \<open>peek\<close> is the type of a frame that is JSON.\<close>

definition ferry_up :: "string list \<Rightarrow> string list" where
  "ferry_up frames = frames"

fun ferry_down :: "(string \<Rightarrow> string option) \<Rightarrow> string list \<Rightarrow> string list" where
  "ferry_down peek [] = []"
| "ferry_down peek (raw # rest) =
     (case peek raw of
        None \<Rightarrow> raw # ferry_down peek rest
      | Some ty \<Rightarrow>
          if ty = ''heartbeat'' \<or> ty = ''pong'' then ferry_down peek rest
          else raw # ferry_down peek rest)"

lemma ferry_down_filter:
  "ferry_down peek frames = filter (\<lambda>raw. peek raw \<notin> {Some ''heartbeat'', Some ''pong''}) frames"
  by (induction frames) (auto split: option.split)

end
