(* ===== verification/Runtime.thy ===== *)
theory Runtime
  imports Terminals Ports Files
begin

text \<open>
  The runtime inside a sandbox's pod (\<open>pkg/sandboxruntime\<close>): its bearer token, the commands it runs
  (\<open>exec.go\<close>), the invocations it streams and cancels (\<open>invoke.go\<close>), and the terminals it spawns
  (\<open>pty.go\<close>), with the router's side of the request for one (\<open>DialPTY\<close> of \<open>sandboxhttp/client.go\<close>).
\<close>

section \<open>Query strings\<close>

text \<open>\<open>url.QueryEscape\<close> and the reading of a raw query by \<open>URL.Query\<close>, which skips what is malformed.\<close>

definition unreserved :: "char \<Rightarrow> bool" where
  "unreserved c \<longleftrightarrow> c \<in> set ''abcdefghijklmnopqrstuvwxyzABCDEFGHIJKLMNOPQRSTUVWXYZ0123456789-_.~''"

definition upper_hex :: "nat \<Rightarrow> char" where
  "upper_hex d = (''0123456789ABCDEF'' ! (d mod 16))"

definition escaped :: "char \<Rightarrow> string" where
  "escaped c =
     (if c = CHR '' '' then ''+''
      else if unreserved c then [c]
      else [CHR ''%'', upper_hex (of_char c div 16), upper_hex (of_char c mod 16)])"

definition urlQueryEscape :: "string \<Rightarrow> string" where
  "urlQueryEscape s = concat (map escaped s)"

definition unhex :: "char \<Rightarrow> nat option" where
  "unhex c =
     (if c \<in> set ''0123456789'' then Some (of_char c - 48)
      else if c \<in> set ''abcdef'' then Some (of_char c - 87)
      else if c \<in> set ''ABCDEF'' then Some (of_char c - 55)
      else None)"

fun query_unescape :: "string \<Rightarrow> string option" where
  "query_unescape [] = Some []"
| "query_unescape (c # cs) =
     (if c = CHR ''%'' then
        (case cs of
           a # b # rest \<Rightarrow>
             (case (unhex a, unhex b) of
                (Some x, Some y) \<Rightarrow> map_option ((#) (char_of (x * 16 + y))) (query_unescape rest)
              | _ \<Rightarrow> None)
         | _ \<Rightarrow> None)
      else map_option ((#) (if c = CHR ''+'' then CHR '' '' else c)) (query_unescape cs))"

definition parse_pair :: "string \<Rightarrow> (string \<times> string) option" where
  "parse_pair p =
     (if CHR '';'' \<in> set p \<or> p = [] then None
      else let k = takeWhile (\<lambda>c. c \<noteq> CHR ''='') p; v = drop (length k + 1) p
           in (case (query_unescape k, query_unescape v) of
                 (Some k, Some v) \<Rightarrow> Some (k, v)
               | _ \<Rightarrow> None))"

definition parse_query :: "string \<Rightarrow> (string \<times> string) list" where
  "parse_query q = List.map_filter parse_pair (split_at CHR ''&'' q)"

definition query_get :: "(string \<times> string) list \<Rightarrow> string \<Rightarrow> string" where
  "query_get kvs k = (case map_of kvs k of None \<Rightarrow> [] | Some v \<Rightarrow> v)"

section \<open>The request for a terminal\<close>

record pty_options =
  po_shell :: string
  po_cwd :: string
  po_cols :: int
  po_rows :: int
  po_session :: string

definition pty_query :: "pty_options \<Rightarrow> string" where
  "pty_query opts =
     ''shell='' @ urlQueryEscape (po_shell opts)
     @ (if po_cwd opts \<noteq> [] then ''&cwd='' @ urlQueryEscape (po_cwd opts) else [])
     @ (if po_cols opts > 0 then ''&cols='' @ show_int (po_cols opts) else [])
     @ (if po_rows opts > 0 then ''&rows='' @ show_int (po_rows opts) else [])
     @ (if po_session opts \<noteq> [] then ''&session='' @ urlQueryEscape (po_session opts) else [])"

text \<open>The URL that \<open>DialPTY\<close> dials, and the headers it sends.\<close>

definition DialPTY :: "http_client \<Rightarrow> pty_options \<Rightarrow> string + string \<times> (string \<times> string) list" where
  "DialPTY c opts =
     (if hc_base c = [] then Inl no_base
      else if po_shell opts = [] then Inl ''sandboxhttp.Client.DialPTY: Shell is required''
      else if has_prefix (hc_base c) ''http://''
      then Inr (''ws://'' @ TrimPrefix (hc_base c) ''http://'' @ ''/pty?'' @ pty_query opts, auth_headers c)
      else if has_prefix (hc_base c) ''https://''
      then Inr (''wss://'' @ TrimPrefix (hc_base c) ''https://'' @ ''/pty?'' @ pty_query opts, auth_headers c)
      else Inl (''sandboxhttp.Client.DialPTY: BaseURL must start with http:// or https://, got ''
                  @ show_quoted (hc_base c)))"

text \<open>\<open>fmt.Sscanf\<close> with \<open>%d\<close>: blanks, a sign, digits, as many as there are; what follows is left.\<close>

definition sscanf_d :: "string \<Rightarrow> int option" where
  "sscanf_d s =
     (let t = dropWhile (\<lambda>c. c \<in> {CHR '' '', CHR 0x09, CHR 0x0B, CHR 0x0C, CHR 0x0D}) s;
          neg = (t \<noteq> [] \<and> hd t = CHR ''-'');
          u = (if t \<noteq> [] \<and> hd t \<in> {CHR ''-'', CHR ''+''} then tl t else t);
          ds = takeWhile is_digit u;
          n = (if neg then - digits_value ds else digits_value ds)
      in if ds = [] \<or> \<not> in64 n then None else Some n)"

definition parseDim :: "string \<Rightarrow> int \<Rightarrow> int" where
  "parseDim s fallback =
     (if s = [] then fallback
      else case sscanf_d s of
             None \<Rightarrow> fallback
           | Some v \<Rightarrow> if v < 1 then 1 else if v \<ge> 2 ^ 16 then 2 ^ 16 - 1 else v)"

record pty_request =
  pr_shell :: string
  pr_cwd :: string
  pr_cols :: int
  pr_rows :: int
  pr_session :: string

definition parsePTYRequest :: "string \<Rightarrow> string + pty_request" where
  "parsePTYRequest query =
     (let q = parse_query query;
          shell = (if query_get q ''shell'' = [] then ''/bin/bash'' else query_get q ''shell'')
      in if \<not> has_prefix shell ''/''
         then Inl (''shell must be an absolute path, got '' @ show_quoted shell)
         else Inr \<lparr>pr_shell = shell, pr_cwd = query_get q ''cwd'',
                   pr_cols = parseDim (query_get q ''cols'') 120, pr_rows = parseDim (query_get q ''rows'') 40,
                   pr_session = query_get q ''session''\<rparr>)"

definition clampU16 :: "int \<Rightarrow> 16 word" where
  "clampU16 v = (if v < 1 then 1 else if v \<ge> 2 ^ 16 then NOT 0 else of_int v)"

definition ptyShellQuote :: "string \<Rightarrow> string" where
  "ptyShellQuote s = [CHR 0x27] @ concat (map quote_escaped s) @ [CHR 0x27]"

definition buildPTYCommand :: "pty_request \<Rightarrow> string list" where
  "buildPTYCommand req =
     (let shell = (if pr_shell req = [] then ''/bin/bash'' else pr_shell req)
      in if pr_session req = [] then [shell, ''-l'']
         else let writeConfig = ''printf '' @ [CHR 0x27] @ ''%s'' @ [CHR 0x27] @ '' '' @ ptyShellQuote tmuxConfig
                                  @ '' > '' @ tmuxConfigPath;
                  tmuxCmd = ''exec tmux -u -2 -f '' @ tmuxConfigPath @ '' new-session -A -s ''
                              @ ptyShellQuote (pr_session req) @ '' -- '' @ ptyShellQuote shell @ '' -l'';
                  fallbackCmd = ''exec '' @ ptyShellQuote shell @ '' -l''
              in [''/bin/sh'', ''-c'',
                  ''command -v tmux >/dev/null 2>&1 && { '' @ writeConfig @ ''; '' @ tmuxCmd @ ''; } || '' @ fallbackCmd])"

text \<open>Both transports start the same command.\<close>

lemma both_transports_run_the_same_shell:
  "pr_session req = ''agenttier-'' @ ts_sandbox s \<Longrightarrow> pr_shell req = ts_shell s
     \<Longrightarrow> buildPTYCommand req = buildShellCommand s"
  by (simp add: buildPTYCommand_def buildShellCommand_def ptyShellQuote_def quoted_path_def Let_def)

lemma clampU16_eq: "clampU16 v = clampTerminalDim v"
  by (simp add: clampU16_def clampTerminalDim_def)

lemma hex_round_trip: "n < 16 \<Longrightarrow> unhex (upper_hex n) = Some n"
proof -
  have "\<forall>n\<in>set [0..<16]. unhex (upper_hex n) = Some n" by code_simp
  then show "n < 16 \<Longrightarrow> unhex (upper_hex n) = Some n" by simp
qed

lemma unescape_escaped: "query_unescape (escaped c @ rest) = map_option ((#) c) (query_unescape rest)"
proof -
  have "of_char c div 16 < (16::nat)" using nat_of_char_less_256 [of c] by linarith
  moreover have "char_of (of_char c div 16 * 16 + of_char c mod 16 :: nat) = c" by simp
  moreover have "c \<noteq> CHR ''%'' \<and> c \<noteq> CHR ''+''" if "unreserved c"
    using that by (auto simp: unreserved_def)
  ultimately show ?thesis by (auto simp: escaped_def hex_round_trip)
qed

lemma unescape_query: "query_unescape (urlQueryEscape s @ rest) = map_option ((@) s) (query_unescape rest)"
  by (induction s) (simp_all add: urlQueryEscape_def unescape_escaped option.map_comp comp_def option.map_ident)

lemma escape_chars: "c \<in> set (urlQueryEscape s) \<Longrightarrow> c \<noteq> CHR ''&'' \<and> c \<noteq> CHR '';''"
proof -
  have hex: "upper_hex n \<in> set ''0123456789ABCDEF''" for n
    unfolding upper_hex_def by (rule nth_mem) simp
  have "upper_hex n \<noteq> CHR ''&'' \<and> upper_hex n \<noteq> CHR '';''" for n
  proof -
    have "list_all (\<lambda>c. c \<noteq> CHR ''&'' \<and> c \<noteq> CHR '';'') ''0123456789ABCDEF''" by simp
    then show ?thesis using hex [of n] unfolding list_all_iff by blast
  qed
  then show "c \<in> set (urlQueryEscape s) \<Longrightarrow> c \<noteq> CHR ''&'' \<and> c \<noteq> CHR '';''"
    by (auto simp: urlQueryEscape_def escaped_def unreserved_def split: if_splits)
qed

lemma query_pair:
  assumes "CHR ''='' \<notin> set k" "CHR '';'' \<notin> set k" "query_unescape k = Some k"
  shows "parse_pair (k @ ''='' @ urlQueryEscape v) = Some (k, v)"
proof -
  have "takeWhile (\<lambda>c. c \<noteq> CHR ''='') (k @ ''='' @ urlQueryEscape v) = k"
    using assms(1) by (simp add: takeWhile_append)
  moreover have "CHR '';'' \<notin> set (k @ ''='' @ urlQueryEscape v)" using assms(2) escape_chars by fastforce
  ultimately show ?thesis using assms(3) unescape_query [of v "[]"] by (simp add: parse_pair_def)
qed

text \<open>Digits are their own escape.\<close>

lemma escape_digits: "list_all is_digit s \<Longrightarrow> urlQueryEscape s = s"
  by (induction s) (auto simp: urlQueryEscape_def escaped_def unreserved_def is_digit_def)

lemma split_pairs:
  "CHR ''&'' \<notin> set p \<Longrightarrow> list_all (\<lambda>q. CHR ''&'' \<notin> set q) ps
     \<Longrightarrow> split_at CHR ''&'' (p @ concat (map ((#) CHR ''&'') ps)) = p # ps"
proof (induction ps arbitrary: p)
  case (Cons q ps)
  then show ?case by (simp add: split_at_mark)
qed (simp add: split_at_none)

definition dims :: "string \<Rightarrow> int \<Rightarrow> (string \<times> string) list" where
  "dims k v = (if v > 0 then [(k, show_int v)] else [])"

text \<open>The parameters of the request for a terminal.\<close>

definition pty_params :: "pty_options \<Rightarrow> (string \<times> string) list" where
  "pty_params opts =
     (if po_cwd opts \<noteq> [] then [(''cwd'', po_cwd opts)] else [])
     @ dims ''cols'' (po_cols opts) @ dims ''rows'' (po_rows opts)
     @ (if po_session opts \<noteq> [] then [(''session'', po_session opts)] else [])"

definition pair_text :: "string \<times> string \<Rightarrow> string" where
  "pair_text p = fst p @ ''='' @ urlQueryEscape (snd p)"

lemma show_int_digits: "0 \<le> v \<Longrightarrow> list_all is_digit (show_int v)"
  using digits_of_show_nat [of "nat v"] by (simp add: show_int_nat)

lemma pty_query_pairs:
  "pty_query opts = pair_text (''shell'', po_shell opts) @ concat (map ((#) CHR ''&'') (map pair_text (pty_params opts)))"
proof -
  have "0 < v \<Longrightarrow> urlQueryEscape (show_int v) = show_int v" for v
    by (simp add: escape_digits show_int_digits)
  then show ?thesis by (simp add: pty_query_def pty_params_def pair_text_def dims_def)
qed

lemma parse_pty_query: "parse_query (pty_query opts) = (''shell'', po_shell opts) # pty_params opts"
proof -
  have keys: "fst ` set (pty_params opts) \<subseteq> {''cwd'', ''cols'', ''rows'', ''session''}"
    by (auto simp: pty_params_def dims_def)
  have pairs: "parse_pair (pair_text kv) = Some kv" if "fst kv \<in> {''shell'', ''cwd'', ''cols'', ''rows'', ''session''}" for kv
    using that query_pair [of "fst kv" "snd kv"] by (auto simp: pair_text_def)
  have amp: "CHR ''&'' \<notin> set (pair_text kv)" if "fst kv \<in> {''shell'', ''cwd'', ''cols'', ''rows'', ''session''}" for kv
    using that escape_chars [of "CHR ''&''"] by (auto simp: pair_text_def)
  have "split_at CHR ''&'' (pty_query opts) = map pair_text ((''shell'', po_shell opts) # pty_params opts)"
    unfolding pty_query_pairs using keys amp by (subst split_pairs) (auto simp: list_all_iff)
  moreover have "List.map_filter parse_pair (map pair_text kvs) = kvs"
    if "fst ` set kvs \<subseteq> {''shell'', ''cwd'', ''cols'', ''rows'', ''session''}" for kvs
    using that by (induction kvs) (simp_all add: map_filter_simps pairs)
  moreover have "fst ` set ((''shell'', po_shell opts) # pty_params opts)
      \<subseteq> {''shell'', ''cwd'', ''cols'', ''rows'', ''session''}" using keys by auto
  ultimately show ?thesis unfolding parse_query_def by metis
qed

lemma sscanf_show: "0 < v \<Longrightarrow> sscanf_d (show_int v) = (if in64 v then Some v else None)"
proof -
  assume v: "0 < v"
  have ds: "list_all is_digit (show_int v)" "show_int v \<noteq> []"
    using v show_int_digits [of v] by (auto simp: show_int_nat show_nat.simps [of "nat v"])
  have h: "is_digit (hd (show_int v))" using ds by (cases "show_int v") auto
  then have "dropWhile (\<lambda>c. c \<in> {CHR '' '', CHR 0x09, CHR 0x0B, CHR 0x0C, CHR 0x0D}) (show_int v) = show_int v"
    by (cases "show_int v") (auto simp: is_digit_def)
  moreover have nonneg: "hd (show_int v) \<noteq> CHR ''-''" "hd (show_int v) \<notin> {CHR ''-'', CHR ''+''}"
    using h by (auto simp: is_digit_def)
  moreover have "takeWhile is_digit (show_int v) = show_int v" using ds(1) by (simp add: list_all_iff takeWhile_eq_all_conv)
  moreover have "digits_value (show_int v) = v" using v digits_of_show_int [of v] by simp
  ultimately show ?thesis using ds(2) unfolding sscanf_d_def Let_def by (simp only: if_False if_True simp_thms if_not_P if_P, simp)
qed

text \<open>A size as it arrives: none, or one beyond 64 bits, is the default.\<close>

definition arriving :: "int \<Rightarrow> int \<Rightarrow> int" where
  "arriving v fallback = (if v < 1 \<or> \<not> in64 v then fallback else min v 65535)"

lemma parseDim_arriving: "parseDim (query_get (dims k v @ rest) k) d = arriving v d" if "map_of rest k = None"
  using that sscanf_show [of v] by (auto simp: dims_def query_get_def parseDim_def arriving_def show_int_nat show_nat.simps [of "nat v"])

lemma pty_query_fields:
  "query_get (parse_query (pty_query opts)) ''shell'' = po_shell opts"
  "query_get (parse_query (pty_query opts)) ''cwd'' = po_cwd opts"
  "query_get (parse_query (pty_query opts)) ''session'' = po_session opts"
  "parseDim (query_get (parse_query (pty_query opts)) ''cols'') 120 = arriving (po_cols opts) 120"
  "parseDim (query_get (parse_query (pty_query opts)) ''rows'') 40 = arriving (po_rows opts) 40"
proof -
  have dims_map: "map_of (dims k v) j = (if j = k \<and> v > 0 then Some (show_int v) else None)" for k v j
    by (simp add: dims_def)
  show "query_get (parse_query (pty_query opts)) ''shell'' = po_shell opts"
    "query_get (parse_query (pty_query opts)) ''cwd'' = po_cwd opts"
    "query_get (parse_query (pty_query opts)) ''session'' = po_session opts"
    by (auto simp: parse_pty_query query_get_def pty_params_def map_of_append map_add_def dims_map split: option.split)
  have "query_get (parse_query (pty_query opts)) ''cols'' = query_get (dims ''cols'' (po_cols opts) @ []) ''cols''"
    "query_get (parse_query (pty_query opts)) ''rows'' = query_get (dims ''rows'' (po_rows opts) @ []) ''rows''"
    by (auto simp: parse_pty_query query_get_def pty_params_def map_of_append map_add_def dims_map split: option.split)
  then show "parseDim (query_get (parse_query (pty_query opts)) ''cols'') 120 = arriving (po_cols opts) 120"
    "parseDim (query_get (parse_query (pty_query opts)) ''rows'') 40 = arriving (po_rows opts) 40"
    by (simp_all only: parseDim_arriving map_of.simps)
qed

text \<open>C37. Round trip of the request for a terminal: whatever the shell's path, the directory and the
  session's name contain, the query that the router's client builds is read back by the runtime as the
  same request; sizes arrive up to the largest that a terminal can have, and the client's bearer token
  goes with it.\<close>
theorem terminal_requests_round_trip:
  "case DialPTY c opts of
     Inl e \<Rightarrow> \<not> (po_shell opts \<noteq> [] \<and> (has_prefix (hc_base c) ''http://'' \<or> has_prefix (hc_base c) ''https://''))
   | Inr (url, headers) \<Rightarrow> headers = auth_headers c
       \<and> (\<exists>before. url = before @ ''/pty?'' @ pty_query opts)
       \<and> parsePTYRequest (pty_query opts)
           = (if has_prefix (po_shell opts) ''/''
              then Inr \<lparr>pr_shell = po_shell opts, pr_cwd = po_cwd opts, pr_cols = arriving (po_cols opts) 120,
                        pr_rows = arriving (po_rows opts) 40, pr_session = po_session opts\<rparr>
              else Inl (''shell must be an absolute path, got '' @ show_quoted (po_shell opts)))"
proof -
  have parsed: "po_shell opts \<noteq> [] \<Longrightarrow> parsePTYRequest (pty_query opts)
      = (if has_prefix (po_shell opts) ''/''
         then Inr \<lparr>pr_shell = po_shell opts, pr_cwd = po_cwd opts, pr_cols = arriving (po_cols opts) 120,
                   pr_rows = arriving (po_rows opts) 40, pr_session = po_session opts\<rparr>
         else Inl (''shell must be an absolute path, got '' @ show_quoted (po_shell opts)))"
    by (simp add: parsePTYRequest_def pty_query_fields Let_def)
  show ?thesis
    by (cases "hc_base c = []"; cases "po_shell opts = []"; cases "has_prefix (hc_base c) ''http://''";
        cases "has_prefix (hc_base c) ''https://''")
      (auto simp: DialPTY_def parsed has_prefix_def prefix_def)
qed

section \<open>Frames\<close>

text \<open>What the reader of the connection does with the frames of a browser, while writes to the terminal
  succeed; the first write that fails, here after \<open>k\<close> others, ends it.\<close>

datatype pty_action = Typed string | Resized "16 word" "16 word" | Ponged

fun pty_input :: "(string \<Rightarrow> ws_message option) \<Rightarrow> nat \<Rightarrow> string list \<Rightarrow> pty_action list" where
  "pty_input parse k [] = []"
| "pty_input parse k (raw # rest) =
     (case parse raw of
        None \<Rightarrow> pty_input parse k rest
      | Some msg \<Rightarrow>
          if ws_type msg = ''input'' then
            (case k of 0 \<Rightarrow> [] | Suc k' \<Rightarrow> Typed (ws_data msg) # pty_input parse k' rest)
          else if ws_type msg = ''resize'' then
            Resized (clampU16 (ws_cols msg)) (clampU16 (ws_rows msg)) # pty_input parse k rest
          else if ws_type msg = ''ping'' then Ponged # pty_input parse k rest
          else pty_input parse k rest)"

fun typed_of :: "pty_action list \<Rightarrow> string list" where
  "typed_of [] = []"
| "typed_of (Typed d # as) = d # typed_of as"
| "typed_of (_ # as) = typed_of as"

text \<open>All that a session delivers, read by read.\<close>

lemma Read_fst:
  "fst (Read parse n fs s) =
     (case dropWhile (\<lambda>f. \<not> reading parse s f) fs of
        [] \<Rightarrow> None | f # rest \<Rightarrow> Some (take n (typed_text parse f), rest))"
  using Read_search [where parse = parse and n = n and fs = fs and s = s] by (simp add: case_prod_beta)

lemma Read_shorter: "Read parse n fs s = (Some (d, rest), evs, s') \<Longrightarrow> length rest < length fs"
  using Read_fst [of parse n fs s] length_dropWhile_le [of "\<lambda>f. \<not> reading parse s f" fs]
  by (cases "dropWhile (\<lambda>f. \<not> reading parse s f) fs") auto

function reads_of ::
  "(string \<Rightarrow> ws_message option) \<Rightarrow> nat \<Rightarrow> (instant \<times> string) list \<Rightarrow> terminal_session \<Rightarrow> string list" where
  "reads_of parse n fs s =
     (case Read parse n fs s of
        (None, _, _) \<Rightarrow> []
      | (Some (d, rest), _, s') \<Rightarrow> d # reads_of parse n rest s')"
  by pat_completeness auto
termination
  by (relation "measure (\<lambda>(parse, n, fs, s). length fs)") (auto dest!: sym [of "(_, _)" "Read _ _ _ _"] Read_shorter)

declare reads_of.simps [simp del]

lemma filter_by_search:
  "filter P xs = (case dropWhile (\<lambda>x. \<not> P x) xs of [] \<Rightarrow> [] | x # rest \<Rightarrow> x # filter P rest)"
  by (induction xs) auto

lemma reads_of_eq: "reads_of parse n fs s = map (\<lambda>f. take n (typed_text parse f)) (filter (reading parse s) fs)"
proof (induction parse n fs s rule: reads_of.induct)
  case (1 parse n fs s)
  obtain r evs s' where read: "Read parse n fs s = (r, evs, s')" by (cases "Read parse n fs s")
  have viewer: "reading parse s' = reading parse s"
    using viewer_Read [of parse n fs s] read by (simp add: fun_eq_iff reading_def)
  show ?case
  proof (cases "dropWhile (\<lambda>f. \<not> reading parse s f) fs")
    case Nil
    then have r: "r = None" using Read_fst [of parse n fs s] by (simp only: read fst_conv list.case)
    moreover have "filter (reading parse s) fs = []" using Nil by (simp add: filter_empty_conv)
    ultimately show ?thesis using read by (simp add: reads_of.simps [of parse n fs s])
  next
    case (Cons f rest)
    then have r: "r = Some (take n (typed_text parse f), rest)"
      using Read_fst [of parse n fs s] by (simp only: read fst_conv list.case)
    then have "reads_of parse n rest s' = map (\<lambda>f. take n (typed_text parse f)) (filter (reading parse s') rest)"
      using "1.IH" [OF read [symmetric]] by simp
    then show ?thesis using Cons read r by (simp add: reads_of.simps [of parse n fs s] filter_by_search [of _ fs] viewer)
  qed
qed

lemma pty_input_typed:
  "length fs \<le> k \<Longrightarrow>
     typed_of (pty_input parse k (map snd fs)) = map (typed_text parse) (filter (types_input parse) fs)"
proof (induction fs arbitrary: k)
  case (Cons f fs)
  then show ?case
    by (cases k) (auto simp: types_input_def typed_text_def message_types split: option.split)
qed simp

text \<open>C36. The two ways of a terminal into the pod deliver the same input: what a browser's session
  reads for the exec stream, read by read, is what the runtime types for the frames it is handed, each
  message cut at the reader's buffer; except that a viewer's session delivers nothing.\<close>
theorem both_transports_type_the_same:
  "reads_of parse n fs s =
     (if ts_viewer s then []
      else map (take n) (typed_of (pty_input parse (length fs) (ferry_up (map snd fs)))))"
proof -
  have "reading parse s = (\<lambda>f. \<not> ts_viewer s \<and> types_input parse f)" by (simp add: fun_eq_iff reading_def)
  then show ?thesis by (simp add: reads_of_eq pty_input_typed ferry_up_def comp_def)
qed

section \<open>The life of a terminal in the pod\<close>

text \<open>\<open>runPTYSession\<close> runs the shell and three goroutines, and returns when the shell has exited or the
  session's context is cancelled, and all three have ended. Only then its deferred calls close the
  terminal and kill what is left of the shell. \<open>pt_stuck\<close> and \<open>pt_killed\<close> record that output could not be
  delivered, and that the shell was alive when it was killed.\<close>

record pty_run =
  pt_alive :: bool
  pt_client :: bool
  pt_reader :: bool
  pt_writer :: bool
  pt_beat :: bool
  pt_cancelled :: bool
  pt_joining :: bool
  pt_returned :: bool
  pt_stuck :: bool
  pt_killed :: bool

definition pty_started :: pty_run where
  "pty_started = \<lparr>pt_alive = True, pt_client = True, pt_reader = True, pt_writer = True, pt_beat = True,
                  pt_cancelled = False, pt_joining = False, pt_returned = False, pt_stuck = False, pt_killed = False\<rparr>"

inductive pty_step :: "pty_run \<Rightarrow> pty_run \<Rightarrow> bool" where
  shell_exits: "pt_alive x \<Longrightarrow> pty_step x (x\<lparr>pt_alive := False\<rparr>)"
| client_goes: "pty_step x (x\<lparr>pt_client := False\<rparr>)"
| context_ends: "pty_step x (x\<lparr>pt_cancelled := True\<rparr>)"
| output_undelivered: "pt_reader x \<Longrightarrow> pty_step x (x\<lparr>pt_reader := False, pt_cancelled := True, pt_stuck := True\<rparr>)"
| terminal_closed: "pt_reader x \<Longrightarrow> \<not> pt_alive x \<Longrightarrow> pty_step x (x\<lparr>pt_reader := False, pt_cancelled := True\<rparr>)"
| input_ends: "pt_writer x \<Longrightarrow> pty_step x (x\<lparr>pt_writer := False, pt_cancelled := True\<rparr>)"
| beat_ends: "pt_beat x \<Longrightarrow> pt_cancelled x \<or> \<not> pt_client x \<Longrightarrow> pty_step x (x\<lparr>pt_beat := False\<rparr>)"
| sees_cancel: "pt_cancelled x \<Longrightarrow> pty_step x (x\<lparr>pt_joining := True\<rparr>)"
| sees_exit: "\<not> pt_alive x \<Longrightarrow> pty_step x (x\<lparr>pt_joining := True, pt_cancelled := True\<rparr>)"
| returns: "pt_joining x \<Longrightarrow> \<not> pt_reader x \<Longrightarrow> \<not> pt_writer x \<Longrightarrow> \<not> pt_beat x \<Longrightarrow> \<not> pt_returned x \<Longrightarrow>
     pty_step x (x\<lparr>pt_returned := True, pt_killed := pt_alive x, pt_alive := False\<rparr>)"

text \<open>The reader waits for the shell, and the shell is killed only after the reader has ended: a shell that
  prints nothing outlives its client, however the session was given up.\<close>

lemma idle_shells_are_never_killed:
  "pty_step\<^sup>*\<^sup>* pty_started x \<Longrightarrow> (\<not> pt_reader x \<longrightarrow> \<not> pt_alive x \<or> pt_stuck x) \<and> (pt_killed x \<longrightarrow> pt_stuck x)"
proof (induction rule: rtranclp_induct)
  case base
  then show ?case by (simp add: pty_started_def)
next
  case (step x y)
  from step.hyps(2) step.IH show ?case by (cases rule: pty_step.cases) auto
qed

text \<open>So the client going away is not enough for the handler to return.\<close>

lemma returning_needs_the_shell:
  "pty_step\<^sup>*\<^sup>* pty_started x \<Longrightarrow> pt_alive x \<Longrightarrow> \<not> pt_stuck x \<Longrightarrow> pt_reader x"
  using idle_shells_are_never_killed by blast

section \<open>Commands\<close>

definition MaxExecOutputBytes :: nat where "MaxExecOutputBytes = 8 * 1024 * 1024"
definition MaxExecTimeout :: duration where "MaxExecTimeout = 30 * minute"
definition DefaultExecTimeout :: duration where "DefaultExecTimeout = 60 * second"

record exec_request =
  er_command :: "string list"
  er_stdin :: string
  er_timeout :: int
  er_dir :: string
  er_env :: "(string \<times> string) list"

record exec_response =
  xr_exit :: int
  xr_stdout :: string
  xr_stderr :: string
  xr_duration :: int
  xr_timed_out :: bool
  xr_truncated :: bool

text \<open>A buffer that stops to grow.\<close>

record capped_buffer =
  cb_text :: string
  cb_truncated :: bool

definition capped_write :: "nat \<Rightarrow> capped_buffer \<Rightarrow> string \<Rightarrow> capped_buffer" where
  "capped_write mx c p =
     (if mx \<le> length (cb_text c) then c\<lparr>cb_truncated := True\<rparr>
      else if length p \<le> mx - length (cb_text c) then c\<lparr>cb_text := cb_text c @ p\<rparr>
      else c\<lparr>cb_text := cb_text c @ take (mx - length (cb_text c)) p, cb_truncated := True\<rparr>)"

definition capped :: "nat \<Rightarrow> string list \<Rightarrow> capped_buffer" where
  "capped mx ps = foldl (capped_write mx) \<lparr>cb_text = [], cb_truncated = False\<rparr> ps"

definition capped_text :: "capped_buffer \<Rightarrow> string" where
  "capped_text c = (if cb_truncated c then cb_text c @ nl @ ''[truncated]'' else cb_text c)"

text \<open>The duration for which a command may run. The product is Go's, on 64 bits.\<close>

definition timeout_or :: "duration \<Rightarrow> int \<Rightarrow> duration" where
  "timeout_or fallback seconds =
     (let t = wrap64 (seconds * second); t = (if t \<le> 0 then fallback else t)
      in if t > MaxExecTimeout then MaxExecTimeout else t)"

text \<open>What the operating system makes of a command: the writes to its outputs, its end or the error of
  not starting it, its duration, and whether the deadline had passed then.\<close>

datatype process_end = ExitedWith int | FailedWith string

record process_run =
  pn_out :: "string list"
  pn_err :: "string list"
  pn_end :: process_end
  pn_took :: duration
  pn_deadline :: bool

text \<open>The process that is started: words, directory, variables on top of the runtime's own (in the order
  in which the map is ranged over), and its deadline.\<close>

record process_spec =
  ps_argv :: "string list"
  ps_dir :: string
  ps_env :: "string list"
  ps_stdin :: string
  ps_deadline :: duration

definition spawn_of :: "string list \<Rightarrow> duration \<Rightarrow> exec_request \<Rightarrow> process_spec" where
  "spawn_of environ fallback req =
     \<lparr>ps_argv = er_command req, ps_dir = er_dir req,
      ps_env = environ @ map (\<lambda>(k, v). k @ ''='' @ v) (er_env req),
      ps_stdin = er_stdin req, ps_deadline = timeout_or fallback (er_timeout req)\<rparr>"

definition trim_newlines :: "string \<Rightarrow> string" where
  "trim_newlines s = rev (dropWhile (\<lambda>c. c = CHR 0x0A) (rev s))"

definition exec_result :: "process_run \<Rightarrow> exec_response" where
  "exec_result pn =
     (let out = capped MaxExecOutputBytes (pn_out pn); err = capped MaxExecOutputBytes (pn_err pn);
          resp = \<lparr>xr_exit = 0, xr_stdout = capped_text out, xr_stderr = capped_text err,
                  xr_duration = pn_took pn div millisecond, xr_timed_out = False,
                  xr_truncated = (cb_truncated out \<or> cb_truncated err)\<rparr>
      in if pn_deadline pn then resp\<lparr>xr_timed_out := True, xr_exit := - 1\<rparr>
         else case pn_end pn of
                ExitedWith code \<Rightarrow> resp\<lparr>xr_exit := code\<rparr>
              | FailedWith e \<Rightarrow> resp\<lparr>xr_exit := - 1, xr_stderr := trim_newlines (xr_stderr resp) @ nl @ ''[runtime] '' @ e\<rparr>)"

text \<open>Requests to the runtime; what a request does is recorded.\<close>

record runtime_request =
  ur_method :: string
  ur_path :: string
  ur_authorization :: string
  ur_query :: string
  ur_body :: string

datatype runtime_effect =
    RunsCommand process_spec
  | StreamsCommand string process_spec
  | Cancels nat
  | SpawnsTerminal "string list" string

definition runtime_error :: "nat \<Rightarrow> string \<Rightarrow> reply" where
  "runtime_error status msg =
     \<lparr>rp_status = status, rp_body = JObj [(''code'', JInt (int status)), (''error'', JText msg)]\<rparr>"

definition result_body :: "exec_response \<Rightarrow> json" where
  "result_body x =
     JObj ([(''exitCode'', JInt (xr_exit x)), (''stdout'', JText (xr_stdout x)), (''stderr'', JText (xr_stderr x)),
            (''durationMs'', JInt (xr_duration x)), (''timedOut'', JBool (xr_timed_out x))]
           @ (if xr_truncated x then [(''truncated'', JBool True)] else []))"

text \<open>The body is read up to its limit and decoded, strictly, by \<open>dec\<close>, which also gets whether the
  limit cut it; \<open>run\<close> is what becomes of the process.\<close>

definition body_limit :: nat where "body_limit = MaxExecOutputBytes + 1024"

definition handleExec ::
  "(string \<Rightarrow> bool \<Rightarrow> string + exec_request) \<Rightarrow> string list \<Rightarrow> (process_spec \<Rightarrow> process_run)
   \<Rightarrow> runtime_request \<Rightarrow> reply \<times> runtime_effect list" where
  "handleExec dec environ run r =
     (if ur_method r \<noteq> ''POST'' then (runtime_error 405 ''POST required'', [])
      else case dec (take body_limit (ur_body r)) (length (ur_body r) > body_limit) of
             Inl e \<Rightarrow> (runtime_error 400 (''invalid request body: '' @ e), [])
           | Inr req \<Rightarrow>
               if er_command req = [] then (runtime_error 400 ''command is required'', [])
               else let p = spawn_of environ DefaultExecTimeout req
                    in (respondJSON 200 (result_body (exec_result (run p))), [RunsCommand p]))"

lemma capped_foldl:
  assumes "list_all (\<lambda>p. p \<noteq> []) ps"
  shows "foldl (capped_write n) \<lparr>cb_text = take n b, cb_truncated = (length b > n)\<rparr> ps
           = \<lparr>cb_text = take n (b @ concat ps), cb_truncated = (length (b @ concat ps) > n)\<rparr>"
  using assms
proof (induction ps arbitrary: b)
  case (Cons p ps)
  have "p \<noteq> []" using Cons.prems by simp
  then have "capped_write n \<lparr>cb_text = take n b, cb_truncated = (length b > n)\<rparr> p
      = \<lparr>cb_text = take n (b @ p), cb_truncated = (length (b @ p) > n)\<rparr>"
    by (cases p) (auto simp: capped_write_def)
  then show ?case using Cons.IH [of "b @ p"] Cons.prems by simp
qed simp

lemma capped_eq:
  "list_all (\<lambda>p. p \<noteq> []) ps \<Longrightarrow>
     capped n ps = \<lparr>cb_text = take n (concat ps), cb_truncated = (length (concat ps) > n)\<rparr>"
  using capped_foldl [of ps n "[]"] by (simp add: capped_def)

lemma timeout_bounds:
  "0 < d \<Longrightarrow> d \<le> MaxExecTimeout \<Longrightarrow> 0 < timeout_or d t \<and> timeout_or d t \<le> MaxExecTimeout"
  by (simp add: timeout_or_def Let_def MaxExecTimeout_def dur_units)

lemma timeout_exact:
  "0 < t \<Longrightarrow> t \<le> 9223372036 \<Longrightarrow> timeout_or d t = min (t * second) MaxExecTimeout"
  by (simp add: timeout_or_def Let_def second_def wrap64_id in64_def)

text \<open>Beyond that the product wraps: a request for more than five hundred years ends within a third of a
  second.\<close>

lemma long_timeouts_wrap: "timeout_or d 18446744074 = 290448384"
  by (simp add: timeout_or_def Let_def MaxExecTimeout_def dur_units wrap64_def)

section \<open>Invocations\<close>

record invoke_request =
  ir_exec :: exec_request
  ir_id :: string

text \<open>The registry maps an identifier to the run whose context its cancel function ends.\<close>

type_synonym invoke_registry = "string \<rightharpoonup> nat"

definition registry_add :: "string \<Rightarrow> nat \<Rightarrow> invoke_registry \<Rightarrow> invoke_registry" where
  "registry_add k run reg = reg(k \<mapsto> run)"

definition registry_remove :: "string \<Rightarrow> invoke_registry \<Rightarrow> invoke_registry" where
  "registry_remove k reg = reg(k := None)"

definition registry_cancel :: "string \<Rightarrow> invoke_registry \<Rightarrow> nat option \<times> invoke_registry" where
  "registry_cancel k reg = (reg k, reg(k := None))"

text \<open>What a streamed process shows: chunks of its outputs in the order in which they were read, or that
  it did not start, its end, and the state of its context then.\<close>

record stream_run =
  sr_started :: bool
  sr_chunks :: "(string \<times> string) list"
  sr_end :: process_end
  sr_context :: context_state

definition runStreamed :: "stream_run \<Rightarrow> (string \<times> json) list \<times> int \<times> string" where
  "runStreamed sr =
     (if \<not> sr_started sr then ([], - 1, ''error'')
      else (map (\<lambda>(stream, d). (''log'', JObj [(''data'', JText d), (''stream'', JText stream)])) (sr_chunks sr),
            case sr_context sr of
              DeadlineExceeded \<Rightarrow> (- 1, ''timeout'')
            | ContextCanceled \<Rightarrow> (- 1, ''canceled'')
            | ContextLive \<Rightarrow> (case sr_end sr of
                                  ExitedWith code \<Rightarrow> (code, ''completed'')
                                | FailedWith _ \<Rightarrow> (- 1, ''error''))))"

datatype runtime_answer =
    Answered reply
  | EventStream "(string \<times> json) list"

text \<open>A whole invocation. The identifier \<open>fresh\<close> is random; \<open>during\<close> is what other requests do to the
  registry while the command runs; \<open>clock\<close> reads the start and the end.\<close>

definition runtimeInvoke ::
  "(string \<Rightarrow> bool \<Rightarrow> string + invoke_request) \<Rightarrow> string list \<Rightarrow> (process_spec \<Rightarrow> stream_run) \<Rightarrow> string
   \<Rightarrow> instant \<times> instant \<Rightarrow> (invoke_registry \<Rightarrow> invoke_registry) \<Rightarrow> nat \<Rightarrow> runtime_request \<Rightarrow> invoke_registry
   \<Rightarrow> runtime_answer \<times> runtime_effect list \<times> invoke_registry" where
  "runtimeInvoke dec environ run fresh clock during n r reg =
     (if ur_method r \<noteq> ''POST'' then (Answered (runtime_error 405 ''POST required''), [], reg)
      else case dec (take body_limit (ur_body r)) (length (ur_body r) > body_limit) of
             Inl e \<Rightarrow> (Answered (runtime_error 400 (''invalid request body: '' @ e)), [], reg)
           | Inr req \<Rightarrow>
               if er_command (ir_exec req) = []
               then (Answered (runtime_error 400 ''command is required''), [], reg)
               else let invokeID = (if ir_id req = [] then fresh else ir_id req);
                        p = spawn_of environ (30 * minute) (ir_exec req);
                        (logs, code, reason) = runStreamed (run p)
                    in (EventStream
                          ([(''start'', JObj [(''invokeId'', JText invokeID), (''startedAt'', JInt (fst clock div millisecond))])]
                           @ logs
                           @ [(''exit'', JObj [(''durationMs'', JInt (time_sub (snd clock) (fst clock) div millisecond)),
                                               (''exitCode'', JInt code), (''invokeId'', JText invokeID),
                                               (''reason'', JText reason)])]),
                        [StreamsCommand invokeID p],
                        registry_remove invokeID (during (registry_add invokeID n reg))))"

text \<open>\<open>path.Clean\<close> of a path that may be relative.\<close>

definition clean_relative_step :: "string list \<Rightarrow> string \<Rightarrow> string list" where
  "clean_relative_step st seg =
     (if seg = [] \<or> seg = ''.'' then st
      else if seg = ''..'' then (if st = [] \<or> hd st = ''..'' then seg # st else tl st)
      else seg # st)"

definition path_clean :: "string \<Rightarrow> string" where
  "path_clean s =
     (if s = [] then ''.''
      else if hd s = CHR ''/'' then CleanRooted s
      else let segs = rev (foldl clean_relative_step [] (split_at CHR ''/'' s))
           in if segs = [] then ''.'' else join_with ''/'' segs)"

definition runtimeInvokeCancel ::
  "runtime_request \<Rightarrow> invoke_registry \<Rightarrow> reply \<times> runtime_effect list \<times> invoke_registry" where
  "runtimeInvokeCancel r reg =
     (if ur_method r \<noteq> ''POST'' then (runtime_error 405 ''POST required'', [], reg)
      else let k = path_clean (TrimPrefix (ur_path r) ''/invoke/cancel/'')
           in if k = [] \<or> k = ''.'' \<or> k = ''/''
              then (runtime_error 400 ''invokeId path component required'', [], reg)
              else case registry_cancel k reg of
                     (Some n, reg') \<Rightarrow> (respondEmpty 204, [Cancels n], reg')
                   | (None, _) \<Rightarrow> (runtime_error 404 ''no in-flight invoke with that id'', [], reg))"

text \<open>Identifiers of one path segment are found as they are.\<close>

lemma path_clean_segment:
  "k \<noteq> [] \<Longrightarrow> CHR ''/'' \<notin> set k \<Longrightarrow> k \<noteq> ''.'' \<Longrightarrow> path_clean k = k"
  by (cases k) (auto simp: path_clean_def split_at_none clean_relative_step_def join_with_def)

text \<open>An identifier that is used again while its first run is going on: the end of the first run takes
  the second one out of the registry as well, and nobody can cancel it any more.\<close>

lemma reused_identifier_is_lost:
  "fst (registry_cancel k (registry_remove k (registry_add k n' (registry_add k n reg)))) = None"
  by (simp add: registry_cancel_def registry_remove_def registry_add_def)

section \<open>The event stream\<close>

text \<open>\<open>writeEvent\<close>; \<open>mj\<close> is \<open>json.Marshal\<close>. The router's client parses what the runtime writes.\<close>

definition event_text :: "(json \<Rightarrow> string) \<Rightarrow> string \<times> json \<Rightarrow> string" where
  "event_text mj ev = ''event: '' @ fst ev @ nl @ ''data: '' @ mj (snd ev) @ nl @ nl"

definition stream_text :: "(json \<Rightarrow> string) \<Rightarrow> (string \<times> json) list \<Rightarrow> string" where
  "stream_text mj evs = concat (map (event_text mj) evs)"

text \<open>Text that fits one line of the stream: no line break, no blank at its ends, not too long.\<close>

definition one_line :: "string \<Rightarrow> bool" where
  "one_line s \<longleftrightarrow> s \<noteq> [] \<and> CHR 0x0A \<notin> set s \<and> TrimSpace s = s \<and> length s + 7 < line_limit"

lemma scan_line:
  assumes "CHR 0x0A \<notin> set l" "length l < line_limit"
  shows "scan_lines (l @ CHR 0x0A # rest) = (case scan_lines rest of (ls, ok) \<Rightarrow> (drop_cr l # ls, ok))"
proof -
  have "takeWhile (\<lambda>c. c \<noteq> CHR 0x0A) (l @ CHR 0x0A # rest) = l" using assms(1) by (simp add: takeWhile_tail takeWhile_append)
  then show ?thesis using assms(2) by (simp add: scan_lines.simps [of "l @ CHR 0x0A # rest"] Let_def)
qed

lemma trim_keeps_last: "TrimSpace s = s \<Longrightarrow> s \<noteq> [] \<Longrightarrow> \<not> is_space (last s)"
proof -
  assume t: "TrimSpace s = s" and s: "s \<noteq> []"
  let ?u = "dropWhile is_space (rev (dropWhile is_space s))"
  have u: "rev s = ?u" using t by (simp add: TrimSpace_def rev_swap)
  moreover have "?u \<noteq> []" using s by (simp add: u [symmetric])
  ultimately show "\<not> is_space (last s)" using hd_dropWhile [of is_space "rev (dropWhile is_space s)"] s
    by (metis hd_rev)
qed

lemma trim_blank: "TrimSpace ('' '' @ s) = TrimSpace s"
  by (simp add: TrimSpace_def is_space_def)

lemma one_line_facts:
  assumes "one_line s"
  shows "drop_cr (p @ s) = p @ s" "TrimSpace ('' '' @ s) = s"
proof -
  have "last s \<noteq> CHR 0x0D" using assms trim_keeps_last [of s] by (auto simp: one_line_def is_space_def)
  then show "drop_cr (p @ s) = p @ s" using assms by (simp add: drop_cr_def one_line_def)
  show "TrimSpace ('' '' @ s) = s" using assms trim_blank [of s] by (simp only: one_line_def)
qed

lemma drop_cr_empty: "drop_cr [] = []" by (simp add: drop_cr_def)

lemma scan_event:
  assumes "one_line name" "one_line text"
  shows "scan_lines (''event: '' @ name @ nl @ ''data: '' @ text @ nl @ nl @ rest)
      = (case scan_lines rest of (ls, ok) \<Rightarrow> ((''event: '' @ name) # (''data: '' @ text) # [] # ls, ok))"
proof -
  have e: "CHR 0x0A \<notin> set (''event: '' @ name)" "length (''event: '' @ name) < line_limit"
    and d: "CHR 0x0A \<notin> set (''data: '' @ text)" "length (''data: '' @ text) < line_limit"
    using assms by (auto simp: one_line_def)
  have blank: "scan_lines (CHR 0x0A # rest) = (case scan_lines rest of (ls, ok) \<Rightarrow> ([] # ls, ok))"
    using scan_line [of "[]" rest] by (simp add: drop_cr_empty line_limit_def)
  have "scan_lines ((''event: '' @ name) @ CHR 0x0A # (''data: '' @ text) @ CHR 0x0A # CHR 0x0A # rest)
      = (case scan_lines rest of (ls, ok) \<Rightarrow> ((''event: '' @ name) # (''data: '' @ text) # [] # ls, ok))"
    unfolding scan_line [OF e] scan_line [OF d] blank one_line_facts(1) [OF assms(1)] one_line_facts(1) [OF assms(2)]
    by (simp add: case_prod_beta)
  then show ?thesis by (simp add: nl_def)
qed

lemma events_of_event:
  assumes "one_line name" "one_line text"
  shows "sse_events [] [] ((''event: '' @ name) # (''data: '' @ text) # [] # ls) = (name, text) # sse_events [] [] ls"
proof -
  have "TrimPrefix (''event: '' @ name) ''event:'' = '' '' @ name" "TrimPrefix (''data: '' @ text) ''data:'' = '' '' @ text"
    by (simp_all add: TrimPrefix_def has_prefix_def)
  then show ?thesis using assms one_line_facts(2) [OF assms(1)] one_line_facts(2) [OF assms(2)]
    by (simp add: has_prefix_def one_line_def)
qed

text \<open>C38. What the runtime streams is what the router reads: the client's parser gets from the text of
  the events exactly the events, name and data of each, in order and without an error, as long as each
  event's JSON is one line that fits the parser's buffer.\<close>
theorem streamed_events_arrive:
  assumes "list_all (\<lambda>(name, d). one_line name \<and> one_line (mj d)) evs"
  shows "parseSSE (stream_text mj evs) None = (map (\<lambda>(name, d). (name, mj d)) evs, None)"
proof -
  have "scan_lines (stream_text mj evs) = (ls, ok) \<Longrightarrow>
      ok \<and> sse_events [] [] ls = map (\<lambda>(name, d). (name, mj d)) evs" for ls ok
    using assms
  proof (induction evs arbitrary: ls ok)
    case Nil
    then show ?case by (simp add: stream_text_def scan_lines.simps [of "[]"])
  next
    case (Cons ev evs)
    obtain name d where ev: "ev = (name, d)" by (cases ev)
    have lines: "one_line name" "one_line (mj d)" using Cons.prems(2) by (simp_all add: ev)
    obtain ls' ok' where rest: "scan_lines (stream_text mj evs) = (ls', ok')" by force
    have "stream_text mj (ev # evs) = ''event: '' @ name @ nl @ ''data: '' @ mj d @ nl @ nl @ stream_text mj evs"
      by (simp add: stream_text_def event_text_def ev)
    then have "ls = (''event: '' @ name) # (''data: '' @ mj d) # [] # ls'" "ok = ok'"
      using Cons.prems(1) scan_event [OF lines, of "stream_text mj evs"] rest by simp_all
    then show ?case using events_of_event [OF lines, of ls'] Cons.IH [OF rest] Cons.prems(2) by (simp add: ev)
  qed
  then show ?thesis
    by (cases "scan_lines (stream_text mj evs)") (auto simp: parseSSE_def)
qed

theorem streamed_events_arrive_witness:
  "parseSSE (stream_text (\<lambda>_. ''{}'') [(''start'', JNull), (''exit'', JNull)]) None
     = ([(''start'', ''{}''), (''exit'', ''{}'')], None)"
  by (subst streamed_events_arrive) (simp_all add: one_line_def TrimSpace_def is_space_def line_limit_def)

section \<open>The server\<close>

text \<open>\<open>requireAuth\<close>: the error, if any. A missing header reads as the empty string.\<close>

definition requireAuth :: "string \<Rightarrow> runtime_request \<Rightarrow> reply option" where
  "requireAuth token r =
     (if token = [] then None
      else if \<not> has_prefix (ur_authorization r) ''Bearer '' then Some (runtime_error 401 ''missing bearer token'')
      else if TrimPrefix (ur_authorization r) ''Bearer '' \<noteq> token then Some (runtime_error 401 ''invalid bearer token'')
      else None)"

text \<open>The handler of a terminal up to the shell: \<open>upgrade\<close> is whether the connection becomes a
  WebSocket.\<close>

definition handlePTY :: "bool \<Rightarrow> runtime_request \<Rightarrow> reply option \<times> runtime_effect list" where
  "handlePTY upgrade r =
     (if ur_method r \<noteq> ''GET'' then (Some (runtime_error 405 ''GET required for WebSocket upgrade''), [])
      else case parsePTYRequest (ur_query r) of
             Inl e \<Rightarrow> (Some (runtime_error 400 e), [])
           | Inr req \<Rightarrow>
               if \<not> upgrade then (None, [])
               else (None, [SpawnsTerminal (buildPTYCommand req) (pr_cwd req)]))"

text \<open>Where \<open>ServeMux\<close> sends a path: paths that are not clean, and the root of the subtree without its
  slash, are redirected.\<close>

datatype runtime_route = Healthy | Exec | Invoke | InvokeCancelled | Pty | Redirected string | NoRoute

definition mux_clean :: "string \<Rightarrow> string" where
  "mux_clean p =
     (let q = CleanRooted (if p \<noteq> [] \<and> hd p = CHR ''/'' then p else CHR ''/'' # p)
      in if p \<noteq> [] \<and> last p = CHR ''/'' \<and> q \<noteq> ''/'' then q @ ''/'' else q)"

definition runtime_route_of :: "string \<Rightarrow> runtime_route" where
  "runtime_route_of p =
     (if mux_clean p \<noteq> p then Redirected (mux_clean p)
      else if p = ''/healthz'' then Healthy
      else if p = ''/exec'' then Exec
      else if p = ''/invoke'' then Invoke
      else if has_prefix p ''/invoke/cancel/'' then InvokeCancelled
      else if p = ''/invoke/cancel'' then Redirected ''/invoke/cancel/''
      else if p = ''/pty'' then Pty
      else NoRoute)"

text \<open>The environment of a request.\<close>

record runtime_env =
  re_exec :: "string \<Rightarrow> bool \<Rightarrow> string + exec_request"
  re_invoke :: "string \<Rightarrow> bool \<Rightarrow> string + invoke_request"
  re_environ :: "string list"
  re_run :: "process_spec \<Rightarrow> process_run"
  re_stream :: "process_spec \<Rightarrow> stream_run"
  re_fresh :: string
  re_clock :: "instant \<times> instant"
  re_during :: "invoke_registry \<Rightarrow> invoke_registry"
  re_upgrade :: bool

definition with_auth ::
  "string \<Rightarrow> runtime_request \<Rightarrow> invoke_registry
   \<Rightarrow> runtime_answer option \<times> runtime_effect list \<times> invoke_registry
   \<Rightarrow> runtime_answer option \<times> runtime_effect list \<times> invoke_registry" where
  "with_auth token r reg answer =
     (case requireAuth token r of Some rep \<Rightarrow> (Some (Answered rep), [], reg) | None \<Rightarrow> answer)"

text \<open>A terminal's connection has no answer of its own (\<open>None\<close>).\<close>

definition serve_runtime ::
  "runtime_env \<Rightarrow> string \<Rightarrow> nat \<Rightarrow> runtime_request \<Rightarrow> invoke_registry
   \<Rightarrow> runtime_answer option \<times> runtime_effect list \<times> invoke_registry" where
  "serve_runtime re token n r reg =
     (case runtime_route_of (ur_path r) of
        Healthy \<Rightarrow> (Some (Answered (respondJSON 200 (JObj [(''status'', JText ''ok'')]))), [], reg)
      | Exec \<Rightarrow> with_auth token r reg
          (case handleExec (re_exec re) (re_environ re) (re_run re) r of (rep, effs) \<Rightarrow> (Some (Answered rep), effs, reg))
      | Invoke \<Rightarrow> with_auth token r reg
          (case runtimeInvoke (re_invoke re) (re_environ re) (re_stream re) (re_fresh re) (re_clock re) (re_during re) n r reg
           of (ans, effs, reg') \<Rightarrow> (Some ans, effs, reg'))
      | InvokeCancelled \<Rightarrow> with_auth token r reg
          (case runtimeInvokeCancel r reg of (rep, effs, reg') \<Rightarrow> (Some (Answered rep), effs, reg'))
      | Pty \<Rightarrow> with_auth token r reg
          (case handlePTY (re_upgrade re) r of (rep, effs) \<Rightarrow> (map_option Answered rep, effs, reg))
      | Redirected p \<Rightarrow> (Some (Answered (respondEmpty 301)), [], reg)
      | NoRoute \<Rightarrow> (Some (Answered (http_error ''404 page not found'' 404)), [], reg))"

lemma requireAuth_iff:
  "requireAuth token r = None \<longleftrightarrow> token = [] \<or> ur_authorization r = ''Bearer '' @ token"
  by (auto simp: requireAuth_def TrimPrefix_def has_prefix_def prefix_def)

definition deadline_of :: "runtime_effect \<Rightarrow> duration option" where
  "deadline_of e = (case e of RunsCommand p \<Rightarrow> Some (ps_deadline p) | StreamsCommand _ p \<Rightarrow> Some (ps_deadline p) | _ \<Rightarrow> None)"

definition ends_in_time :: "runtime_effect \<Rightarrow> bool" where
  "ends_in_time e = (case deadline_of e of None \<Rightarrow> True | Some d \<Rightarrow> 0 < d \<and> d \<le> 30 * minute)"

text \<open>C35. The runtime acts only for the holder of its token: without exactly that token in the header, a
  request starts no command and no terminal, cancels nothing and leaves the registry alone; and every
  command it does start has a deadline after now and within half an hour.\<close>
theorem runtime_acts_for_its_token:
  "case serve_runtime re token n r reg of (ans, effs, reg') \<Rightarrow>
     (if token = [] \<or> ur_authorization r = ''Bearer '' @ token then list_all ends_in_time effs
      else effs = [] \<and> reg' = reg)"
proof -
  have bounds: "0 < timeout_or DefaultExecTimeout t \<and> timeout_or DefaultExecTimeout t \<le> 30 * minute"
    "0 < timeout_or (30 * minute) t \<and> timeout_or (30 * minute) t \<le> 30 * minute" for t
    using timeout_bounds [of DefaultExecTimeout t] timeout_bounds [of "30 * minute" t]
    by (simp_all add: DefaultExecTimeout_def MaxExecTimeout_def dur_units)
  have exec: "list_all ends_in_time (snd (handleExec dec env run r))" for dec env run
    by (auto simp: handleExec_def ends_in_time_def deadline_of_def spawn_of_def bounds Let_def split: sum.split)
  have inv: "list_all ends_in_time (fst (snd (runtimeInvoke dec env run fresh clock during n r reg)))"
    for dec env run fresh clock during
    by (auto simp: runtimeInvoke_def ends_in_time_def deadline_of_def spawn_of_def bounds Let_def split: sum.split prod.split)
  have cancel: "list_all ends_in_time (fst (snd (runtimeInvokeCancel r reg)))"
    by (auto simp: runtimeInvokeCancel_def ends_in_time_def deadline_of_def Let_def split: option.split prod.split)
  have pty: "list_all ends_in_time (snd (handlePTY u r))" for u
    by (auto simp: handlePTY_def ends_in_time_def deadline_of_def split: sum.split)
  show ?thesis
    using exec inv cancel pty requireAuth_iff [of token r]
    by (auto simp: serve_runtime_def with_auth_def case_prod_beta split: runtime_route.split option.split)
qed

text \<open>The router's client presents the token that it was made with.\<close>

lemma clients_are_let_in:
  "map_of (auth_headers c) ''Authorization'' = Some (ur_authorization r) \<Longrightarrow> requireAuth (hc_token c) r = None"
  by (simp add: auth_headers_def requireAuth_iff split: if_splits)

end
