(* ===== verification/Console.thy ===== *)
theory Console
  imports Key_Handlers Warm_Pool Guards Complex_Main
begin

text \<open>
  The handlers behind the pages of the console: templates, governance policies, activity, usage, costs,
  preferences, the warm pool (\<open>pkg/router/handlers.go\<close>), the status of the cluster
  (\<open>cluster_status.go\<close>), its headroom (\<open>headroom.go\<close>), and the headers of deprecated routes
  (\<open>deprecation.go\<close>). JSON encoding of the API's own types and \<open>resource.ParseQuantity\<close> are the
  parameter \<open>console_codec\<close>.
\<close>

record console_codec =
  cc_spec :: "sandbox_template_spec \<Rightarrow> json"
  cc_policy :: "policy \<Rightarrow> json"
  cc_marshal :: "json \<Rightarrow> string"
  cc_unmarshal :: "string \<Rightarrow> json option"
  cc_quantity :: "string \<Rightarrow> string + quantity"

text \<open>A slice that nothing was appended to is \<open>null\<close>.\<close>

definition json_slice :: "json list \<Rightarrow> json" where
  "json_slice xs = (if xs = [] then JNull else JList xs)"

section \<open>Templates\<close>

definition imageFromSpec :: "image_spec option \<Rightarrow> string" where
  "imageFromSpec img = (case img of None \<Rightarrow> [] | Some i \<Rightarrow> img_repository i)"

text \<open>A cluster template is its name, its spec and its resource version.\<close>

definition templateToJSON :: "console_codec \<Rightarrow> string \<times> sandbox_template_spec \<times> string \<Rightarrow> json" where
  "templateToJSON cc t =
     (case t of (name, spec, version) \<Rightarrow>
        JObj [(''name'', JText name), (''description'', JText (tpl_description spec)),
              (''image'', JText (imageFromSpec (tpl_image spec))), (''resourceVersion'', JText version),
              (''spec'', cc_spec cc spec)])"

definition handleListTemplates :: "console_codec \<Rightarrow> 'w api \<Rightarrow> ('w, reply) kprog" where
  "handleListTemplates cc E = do {
     l \<leftarrow> ask E (TemplateCall ListClusterTemplates) as_templates;
     ret (case l of
            Inl e \<Rightarrow> respondError 500 (''failed to list templates: '' @ err_text e)
          | Inr ts \<Rightarrow> respondJSON 200 (JObj [(''templates'', json_slice (map (templateToJSON cc) ts))]))
   }"

definition managed_labels :: labels where
  "managed_labels = [''agenttier.io/managed'' \<mapsto> ''true'']"

text \<open>The created object has the version that the server answers with.\<close>

definition handleCreateTemplate ::
  "console_codec \<Rightarrow> 'w api \<Rightarrow> claims option \<Rightarrow> string + string \<times> sandbox_template_spec \<Rightarrow> ('w, reply) kprog" where
  "handleCreateTemplate cc E claims body =
     (case claims of
        None \<Rightarrow> ret unauthenticated
      | Some _ \<Rightarrow>
          (case body of
             Inl e \<Rightarrow> ret (respondError 400 (''invalid request body: '' @ e))
           | Inr (name, spec) \<Rightarrow>
               if name = [] then ret (respondError 400 ''name is required'')
               else do {
                 c \<leftarrow> ask E (TemplateCall (CreateClusterTemplate name managed_labels spec)) as_template;
                 ret (case c of
                        Inl e \<Rightarrow> respondError 500 (''failed to create template: '' @ err_text e)
                      | Inr (spec', version) \<Rightarrow> respondJSON 201 (templateToJSON cc (name, spec', version)))
               }))"

definition handleGetTemplate :: "console_codec \<Rightarrow> 'w api \<Rightarrow> string \<Rightarrow> ('w, reply) kprog" where
  "handleGetTemplate cc E name = do {
     g \<leftarrow> ask E (GetClusterTemplate name) as_template;
     ret (case g of
            Inl _ \<Rightarrow> respondError 404 ''template not found''
          | Inr (spec, version) \<Rightarrow> respondJSON 200 (templateToJSON cc (name, spec, version)))
   }"

text \<open>The update carries the version that was read.\<close>

definition handleUpdateTemplate ::
  "console_codec \<Rightarrow> 'w api \<Rightarrow> claims option \<Rightarrow> string \<Rightarrow> string + sandbox_template_spec \<Rightarrow> ('w, reply) kprog" where
  "handleUpdateTemplate cc E claims name body =
     (case claims of
        None \<Rightarrow> ret unauthenticated
      | Some _ \<Rightarrow> do {
          g \<leftarrow> ask E (GetClusterTemplate name) as_template;
          (case g of
             Inl _ \<Rightarrow> ret (respondError 404 ''template not found'')
           | Inr (_, version) \<Rightarrow>
               (case body of
                  Inl e \<Rightarrow> ret (respondError 400 (''invalid request body: '' @ e))
                | Inr spec \<Rightarrow> do {
                    u \<leftarrow> ask E (TemplateCall (UpdateClusterTemplate name spec version)) as_template;
                    ret (case u of
                           Inl e \<Rightarrow> respondError 500 (''failed to update template: '' @ err_text e)
                         | Inr (spec', version') \<Rightarrow> respondJSON 200 (templateToJSON cc (name, spec', version')))
                  }))
        })"

text \<open>The first running sandbox that was resolved from the template.\<close>

fun template_user :: "string \<Rightarrow> sandbox list \<Rightarrow> sandbox option" where
  "template_user name [] = None"
| "template_user name (sb # rest) =
     (if st_template (sb_status sb) = name \<and> sb_phase sb = SandboxPhaseRunning then Some sb
      else template_user name rest)"

definition handleDeleteTemplate :: "'w api \<Rightarrow> claims option \<Rightarrow> string \<Rightarrow> ('w, reply) kprog" where
  "handleDeleteTemplate E claims name =
     (case claims of
        None \<Rightarrow> ret unauthenticated
      | Some _ \<Rightarrow> do {
          l \<leftarrow> ask E (ListSandboxes []) as_sandboxes;
          (case (case l of Inl _ \<Rightarrow> None | Inr items \<Rightarrow> template_user name items) of
             Some sb \<Rightarrow> ret (respondError 409
               (''cannot delete template: sandbox '' @ show_quoted (sb_name sb) @ '' is still using it''))
           | None \<Rightarrow> do {
               g \<leftarrow> ask E (GetClusterTemplate name) as_template;
               (case g of
                  Inl _ \<Rightarrow> ret (respondError 404 ''template not found'')
                | Inr _ \<Rightarrow> do {
                    d \<leftarrow> ask E (TemplateCall (DeleteClusterTemplate name)) as_unit;
                    ret (case d of
                           Inl e \<Rightarrow> respondError 500 (''failed to delete template: '' @ err_text e)
                         | Inr _ \<Rightarrow> respondEmpty 204)
                  })
             })
        })"

section \<open>Policies\<close>

text \<open>The cluster's policy is the last entry of its scope.\<close>

definition policies_json :: "console_codec \<Rightarrow> (string \<times> policy) list \<Rightarrow> json" where
  "policies_json cc ps =
     (let cluster = filter (\<lambda>(scope, _). scope = []) ps; rest = filter (\<lambda>(scope, _). scope \<noteq> []) ps
      in JObj [(''cluster'', if cluster = [] then JNull else cc_policy cc (snd (last cluster))),
               (''namespaces'', JList (map (\<lambda>(scope, p).
                  JObj [(''namespace'', JText scope), (''policy'', cc_policy cc p)]) rest))])"

definition policy_reply :: "console_codec \<Rightarrow> string \<Rightarrow> string \<Rightarrow> policy \<Rightarrow> reply" where
  "policy_reply cc key scope p = respondJSON 200 (JObj [(key, JText scope), (''policy'', cc_policy cc p)])"

definition handleListPolicies :: "console_codec \<Rightarrow> 'w api \<Rightarrow> ('w, reply) kprog" where
  "handleListPolicies cc E = do {
     l \<leftarrow> ListPolicies E;
     ret (case l of
            Inl e \<Rightarrow> respondError 500 (''failed to list policies: '' @ e)
          | Inr ps \<Rightarrow> respondJSON 200 (policies_json cc ps))
   }"

definition handleGetPolicy :: "console_codec \<Rightarrow> 'w api \<Rightarrow> string \<Rightarrow> ('w, reply) kprog" where
  "handleGetPolicy cc E namespace = do {
     g \<leftarrow> GetPolicy E namespace;
     ret (case g of
            Inl e \<Rightarrow> respondError 500 (''failed to get policy: '' @ e)
          | Inr p \<Rightarrow> policy_reply cc ''namespace'' namespace p)
   }"

definition handleUpsertClusterPolicy :: "console_codec \<Rightarrow> 'w api \<Rightarrow> string + policy \<Rightarrow> ('w, reply) kprog" where
  "handleUpsertClusterPolicy cc E body =
     (case body of
        Inl e \<Rightarrow> ret (respondError 400 (''invalid request body: '' @ e))
      | Inr p \<Rightarrow> do {
          r \<leftarrow> SetPolicy E [] p;
          ret (case r of
                 Inl e \<Rightarrow> respondError 500 (''failed to save policy: '' @ e)
               | Inr _ \<Rightarrow> policy_reply cc ''scope'' ''cluster'' p)
        })"

definition handleSetPolicy :: "console_codec \<Rightarrow> 'w api \<Rightarrow> string \<Rightarrow> string + policy \<Rightarrow> ('w, reply) kprog" where
  "handleSetPolicy cc E namespace body =
     (if namespace = [] then ret (respondError 400 ''namespace is required'')
      else case body of
        Inl e \<Rightarrow> ret (respondError 400 (''invalid request body: '' @ e))
      | Inr p \<Rightarrow> do {
          r \<leftarrow> SetPolicy E namespace p;
          ret (case r of
                 Inl e \<Rightarrow> respondError 500 (''failed to save policy: '' @ e)
               | Inr _ \<Rightarrow> policy_reply cc ''namespace'' namespace p)
        })"

definition handleDeletePolicy :: "'w api \<Rightarrow> string \<Rightarrow> ('w, reply) kprog" where
  "handleDeletePolicy E namespace =
     (if namespace = [] then ret (respondError 400 ''namespace is required'')
      else do {
        r \<leftarrow> DeletePolicy E namespace;
        ret (case r of
               Inl e \<Rightarrow> respondError 500 (''failed to delete policy: '' @ e)
             | Inr _ \<Rightarrow> respondEmpty 204)
      })"

definition handleGetEffectivePolicy :: "console_codec \<Rightarrow> 'w api \<Rightarrow> 'k server \<Rightarrow> string \<Rightarrow> ('w, reply) kprog" where
  "handleGetEffectivePolicy cc E sv asked =
     (let namespace = (if asked = [] then sv_sandbox_ns sv else asked);
          namespace = (if namespace = [] then ''default'' else namespace)
      in do {
        r \<leftarrow> ResolvePolicy E namespace;
        ret (case r of
               Inl e \<Rightarrow> respondError 500 (''failed to resolve policy: '' @ e)
             | Inr p \<Rightarrow> policy_reply cc ''namespace'' namespace p)
      })"

section \<open>Activity and statistics\<close>

definition zero_time_text :: string where "zero_time_text = ''0001-01-01T00:00:00Z''"

definition event_json :: "k8s_event \<Rightarrow> json" where
  "event_json ev =
     JObj [(''timestamp'', case ke_last ev of None \<Rightarrow> JText zero_time_text | Some t \<Rightarrow> JTime t),
           (''eventType'', JText (ke_reason ev)), (''sandboxId'', JText (ke_object ev)),
           (''sandboxName'', JText (ke_object ev)), (''namespace'', JText (ke_object_namespace ev)),
           (''userEmail'', JText []), (''details'', JObj [(''reason'', JText (ke_message ev))])]"

text \<open>The events of sandboxes, in the reverse order of the server's answer.\<close>

definition handleListAuditEvents :: "'w api \<Rightarrow> ('w, reply) kprog" where
  "handleListAuditEvents E = do {
     l \<leftarrow> ask E (ListEvents []) as_events;
     ret (respondJSON 200 (JObj [(''events'', json_slice (case l of
            Inl _ \<Rightarrow> []
          | Inr evs \<Rightarrow> rev (map event_json (filter (\<lambda>ev. ke_kind ev = ''Sandbox'') evs))))]))
   }"

text \<open>Counters by name, in the order of their first use.\<close>

fun tally :: "string \<Rightarrow> (string \<times> nat) list \<Rightarrow> (string \<times> nat) list" where
  "tally k [] = [(k, 1)]"
| "tally k ((j, n) # rest) = (if j = k then (j, n + 1) # rest else (j, n) # tally k rest)"

definition tallies :: "string list \<Rightarrow> (string \<times> nat) list" where
  "tallies ks = fold tally ks []"

definition phase_name :: "sandbox \<Rightarrow> string" where
  "phase_name sb = (if phase_text (sb_phase sb) = [] then ''creating'' else phase_text (sb_phase sb))"

definition template_name :: "sandbox \<Rightarrow> string" where
  "template_name sb = (if st_template (sb_status sb) = [] then ''unknown'' else st_template (sb_status sb))"

text \<open>Go's division truncates.\<close>

definition go_div :: "int \<Rightarrow> int \<Rightarrow> int" where
  "go_div a b = (if (a < 0) = (b < 0) then \<bar>a\<bar> div \<bar>b\<bar> else - (\<bar>a\<bar> div \<bar>b\<bar>))"

definition startup_ms :: "sandbox \<Rightarrow> int option" where
  "startup_ms sb = map_option (\<lambda>t. go_div (time_sub t (sb_created sb)) millisecond) (st_started (sb_status sb))"

record usage_report =
  ur_total :: nat
  ur_phases :: "(string \<times> nat) list"
  ur_templates :: "(string \<times> nat) list"
  ur_avg_startup :: int
  ur_samples :: nat

definition usage_of :: "sandbox list \<Rightarrow> usage_report" where
  "usage_of items =
     (let times = List.map_filter startup_ms items; total = foldl (\<lambda>a b. wrap64 (a + b)) 0 times
      in \<lparr>ur_total = length items, ur_phases = tallies (map phase_name items),
          ur_templates = tallies (map template_name items),
          ur_avg_startup = (if times = [] then 0 else go_div total (int (length times))),
          ur_samples = length times\<rparr>)"

definition tally_json :: "(string \<times> nat) list \<Rightarrow> json" where
  "tally_json cs = JObj (map (\<lambda>(k, n). (k, JInt (int n))) cs)"

definition handleGetUsageAnalytics :: "'w api \<Rightarrow> ('w, reply) kprog" where
  "handleGetUsageAnalytics E = do {
     l \<leftarrow> ask E (ListSandboxes []) as_sandboxes;
     ret (respondJSON 200 (case l of
            Inl _ \<Rightarrow> JObj []
          | Inr items \<Rightarrow> (let u = usage_of items in
              JObj [(''total_sandboxes'', JInt (int (ur_total u))), (''status_breakdown'', tally_json (ur_phases u)),
                    (''template_breakdown'', tally_json (ur_templates u)),
                    (''avg_startup_ms'', JInt (ur_avg_startup u)),
                    (''startup_sample_count'', JInt (int (ur_samples u)))])))
   }"

text \<open>Costs in US dollars, as rational numbers for the floats of the code. The costs per template come in
  any order from a map; here in the order of the first running sandbox.\<close>

record cost_report =
  cr_running :: nat
  cr_stopped :: nat
  cr_hourly_compute :: rat
  cr_hourly_storage :: rat
  cr_monthly :: rat
  cr_per_template :: "(string \<times> rat \<times> nat) list"

definition cpuPerHour :: rat where "cpuPerHour = 4 / 100"
definition memPerGBHour :: rat where "memPerGBHour = 5 / 1000"
definition storagePerGBMonth :: rat where "storagePerGBMonth = 10 / 100"

definition hourlyCost :: rat where "hourlyCost = 2 * cpuPerHour + 4 * memPerGBHour"

definition running :: "sandbox list \<Rightarrow> sandbox list" where
  "running items = filter (\<lambda>sb. sb_phase sb = SandboxPhaseRunning) items"

definition cost_of :: "sandbox list \<Rightarrow> cost_report" where
  "cost_of items =
     (let compute = of_nat (length (running items)) * hourlyCost;
          storage = of_nat (length items) * 10 * storagePerGBMonth / 30 * 24;
          counts = tallies (map template_name items)
      in \<lparr>cr_running = length (running items),
          cr_stopped = length (filter (\<lambda>sb. sb_phase sb = SandboxPhaseStopped) items),
          cr_hourly_compute = compute, cr_hourly_storage = storage,
          cr_monthly = (compute + storage) * 24 * 30,
          cr_per_template =
            map (\<lambda>(k, n). (k, of_nat n * hourlyCost, case map_of counts k of None \<Rightarrow> 0 | Some m \<Rightarrow> m))
              (tallies (map template_name (running items)))\<rparr>)"

text \<open>\<open>None\<close> is the empty object.\<close>

definition handleGetCostEstimates :: "'w api \<Rightarrow> ('w, cost_report option) kprog" where
  "handleGetCostEstimates E = do {
     l \<leftarrow> ask E (ListSandboxes []) as_sandboxes;
     ret (case l of Inl _ \<Rightarrow> None | Inr items \<Rightarrow> Some (cost_of items))
   }"

section \<open>Preferences and the caller\<close>

definition userPrefsConfigMapName :: "string \<Rightarrow> string" where
  "userPrefsConfigMapName sub = ''agenttier-prefs-'' @ take 16 (hex_encode (sha256 (bytes_of sub)))"

definition prefsNamespace :: "'k server \<Rightarrow> string" where
  "prefsNamespace sv = (if sv_install_ns sv \<noteq> [] then sv_install_ns sv else ''default'')"

text \<open>Preferences that do not parse are answered as far as they did; here, as empty ones.\<close>

definition handleGetPreferences :: "console_codec \<Rightarrow> 'w api \<Rightarrow> 'k server \<Rightarrow> claims option \<Rightarrow> ('w, reply) kprog" where
  "handleGetPreferences cc E sv claims =
     (case claims of
        None \<Rightarrow> ret unauthenticated
      | Some cl \<Rightarrow> do {
          g \<leftarrow> ask E (GetConfigMap (prefsNamespace sv) (userPrefsConfigMapName (cl_sub cl))) as_config_map;
          ret (respondJSON 200
            (case g of
               Inl _ \<Rightarrow> JObj []
             | Inr cm \<Rightarrow> (case cm_data cm ''preferences'' of
                 Some (TextDoc raw) \<Rightarrow>
                   (if raw = [] then JObj []
                    else case cc_unmarshal cc raw of None \<Rightarrow> JObj [] | Some prefs \<Rightarrow> prefs)
               | _ \<Rightarrow> JObj [])))
        })"

definition prefs_labels :: labels where
  "prefs_labels = [''agenttier.io/component'' \<mapsto> ''user-preferences'']"

definition handleUpdatePreferences ::
  "console_codec \<Rightarrow> 'w api \<Rightarrow> 'k server \<Rightarrow> claims option \<Rightarrow> string + json \<Rightarrow> ('w, reply) kprog" where
  "handleUpdatePreferences cc E sv claims body =
     (case claims of
        None \<Rightarrow> ret unauthenticated
      | Some cl \<Rightarrow>
          (case body of
             Inl e \<Rightarrow> ret (respondError 400 (''invalid request body: '' @ e))
           | Inr prefs \<Rightarrow> (let name = userPrefsConfigMapName (cl_sub cl); ns = prefsNamespace sv;
                              data = TextDoc (cc_marshal cc prefs)
               in do {
                 g \<leftarrow> ask E (GetConfigMap ns name) as_config_map;
                 s \<leftarrow> (case g of
                    Inl _ \<Rightarrow> ask E (CreateConfigMap
                      \<lparr>cm_name = name, cm_namespace = ns, cm_labels = prefs_labels, cm_owner = None,
                       cm_data = [''preferences'' \<mapsto> data], cm_version = []\<rparr>) as_config_map
                  | Inr cm \<Rightarrow> ask E (UpdateConfigMap (cm\<lparr>cm_data := (cm_data cm)(''preferences'' \<mapsto> data)\<rparr>)) as_config_map);
                 ret (case s of
                        Inl e \<Rightarrow> respondError 500 (''failed to save preferences: '' @ err_text e)
                      | Inr _ \<Rightarrow> respondJSON 200 prefs)
               })))"

definition handleGetMe :: "claims option \<Rightarrow> reply" where
  "handleGetMe claims =
     (case claims of
        None \<Rightarrow> unauthenticated
      | Some cl \<Rightarrow> respondJSON 200
          (JObj [(''sub'', JText (cl_sub cl)), (''email'', JText (cl_email cl)), (''name'', JText (cl_name cl)),
                 (''groups'', json_slice (map JText (cl_groups cl))), (''isAdmin'', JBool (cl_admin cl))]))"

text \<open>\<open>recordAudit\<close>; without a backend nothing is recorded, and errors are only logged.\<close>

definition recordAudit ::
  "'w api \<Rightarrow> bool \<Rightarrow> claims option \<Rightarrow> string \<Rightarrow> string \<Rightarrow> string \<Rightarrow> ('w, unit) kprog" where
  "recordAudit E has_store claims action resource sandboxID =
     (if \<not> has_store then ret ()
      else tell E (RecordAudit (case claims of None \<Rightarrow> [] | Some cl \<Rightarrow> cl_sub cl) action resource sandboxID))"

section \<open>The warm pool\<close>

definition count_json :: "string \<Rightarrow> int \<Rightarrow> (string \<times> json) list" where
  "count_json k n = (if n = 0 then [] else [(k, JInt n)])"

definition warm_status_json :: "warm_status \<Rightarrow> json" where
  "warm_status_json s =
     JObj ((if ws_pools s = [] then []
            else [(''pools'', JList (map (\<lambda>p.
                    JObj [(''template'', JText (pls_template p)), (''desiredCount'', JInt (pls_desired p)),
                          (''readyCount'', JInt (int (pls_ready p))), (''pendingCount'', JInt (int (pls_pending p)))])
                    (ws_pools s)))])
           @ count_json ''desiredCount'' (ws_desired s) @ count_json ''readyCount'' (int (ws_ready s))
           @ count_json ''pendingCount'' (int (ws_pending s))
           @ (if ws_template s = [] then [] else [(''template'', JText (ws_template s))]))"

definition handleGetWarmPoolStatus :: "'w api \<Rightarrow> 'k server \<Rightarrow> ('w, reply) kprog" where
  "handleGetWarmPoolStatus E sv = do {
     s \<leftarrow> GetStatus E (sv_install_ns sv) (sv_sandbox_ns sv);
     ret (respondJSON 200 (warm_status_json s))
   }"

text \<open>The first pool that is refused.\<close>

fun pool_error :: "nat \<Rightarrow> pool_config list \<Rightarrow> string option" where
  "pool_error i [] = None"
| "pool_error i (p # rest) =
     (if pc_template p = [] then Some (''pools['' @ show_nat i @ ''].template is required'')
      else if pc_desired p < 0 \<or> pc_desired p > 10
      then Some (''pools['' @ show_nat i @ ''].desiredCount must be 0-10'')
      else pool_error (i + 1) rest)"

definition handleSetWarmPoolConfig ::
  "'w api \<Rightarrow> 'k server \<Rightarrow> string + pool_config list \<times> int \<times> string \<Rightarrow> ('w, reply) kprog" where
  "handleSetWarmPoolConfig E sv body =
     (case body of
        Inl _ \<Rightarrow> ret (respondError 400 ''invalid request body'')
      | Inr (pools, desired, template) \<Rightarrow>
          let cfg = Normalize \<lparr>wc_pools = pools, wc_desired = desired, wc_template = template\<rparr>
          in (case pool_error 0 (wc_pools cfg) of
                Some e \<Rightarrow> ret (respondError 400 e)
              | None \<Rightarrow> do {
                  r \<leftarrow> SetConfig E (sv_install_ns sv) cfg;
                  ret (case r of
                         Inl e \<Rightarrow> respondError 500 (''failed to save config: '' @ e)
                       | Inr _ \<Rightarrow> respondJSON 200
                           (JObj [(''status'', JText ''updated''),
                                  (''pools'', json_slice (map (\<lambda>p. JObj [(''template'', JText (pc_template p)),
                                     (''desiredCount'', JInt (pc_desired p))]) (wc_pools cfg)))]))
                }))"

section \<open>The cluster\<close>

record cluster_status =
  cs_nodes :: nat
  cs_nodes_ready :: nat
  cs_pods :: nat
  cs_sandbox_pods :: nat
  cs_headroom :: nat
  cs_autoscaler :: bool

definition node_ready :: "node \<Rightarrow> bool" where
  "node_ready n \<longleftrightarrow> (''Ready'', ''True'') \<in> set (nd_conditions n)"

definition component_label :: "pod \<Rightarrow> string" where
  "component_label p = text_at (p_labels p) ''app.kubernetes.io/component''"

definition count_cluster_pod :: "cluster_status \<Rightarrow> pod \<Rightarrow> cluster_status" where
  "count_cluster_pod s p =
     (if pst_phase (p_status p) \<noteq> PodRunning then s
      else let s = s\<lparr>cs_pods := cs_pods s + 1\<rparr>
           in if component_label p = ''sandbox'' then s\<lparr>cs_sandbox_pods := cs_sandbox_pods s + 1\<rparr>
              else if component_label p = ''headroom'' then s\<lparr>cs_headroom := cs_headroom s + 1\<rparr>
              else if component_label p = ''cluster-autoscaler'' then s\<lparr>cs_autoscaler := True\<rparr>
              else s)"

definition computeClusterStatus :: "'w api \<Rightarrow> ('w, api_err + cluster_status) kprog" where
  "computeClusterStatus E = do {
     n \<leftarrow> ask E (ClusterCall ListNodes) as_nodes;
     (case n of
        Inl e \<Rightarrow> ret (Inl e)
      | Inr nodes \<Rightarrow> do {
          p \<leftarrow> ask E (ListPods [] []) as_pods;
          ret (case p of
                 Inl e \<Rightarrow> Inl e
               | Inr pods \<Rightarrow> Inr (foldl count_cluster_pod
                   \<lparr>cs_nodes = length nodes, cs_nodes_ready = length (filter node_ready nodes), cs_pods = 0,
                    cs_sandbox_pods = 0, cs_headroom = 0, cs_autoscaler = False\<rparr> pods))
        })
   }"

definition handleGetClusterStatus :: "'w api \<Rightarrow> ('w, reply) kprog" where
  "handleGetClusterStatus E = do {
     r \<leftarrow> computeClusterStatus E;
     ret (case r of
            Inl e \<Rightarrow> respondError 500 (''failed to compute cluster status: '' @ err_text e)
          | Inr s \<Rightarrow> respondJSON 200
              (JObj [(''nodes'', JInt (int (cs_nodes s))), (''nodesReady'', JInt (int (cs_nodes_ready s))),
                     (''pods'', JInt (int (cs_pods s))), (''sandboxPods'', JInt (int (cs_sandbox_pods s))),
                     (''headroomReady'', JInt (int (cs_headroom s))), (''autoscalerEnabled'', JBool (cs_autoscaler s))]))
   }"

record headroom_config =
  hr_replicas :: int
  hr_cpu :: string
  hr_memory :: string
  hr_ready :: int
  hr_enabled :: bool

definition headroomDeploymentName :: string where "headroomDeploymentName = ''agenttier-headroom''"

definition quantity_text :: "(string \<rightharpoonup> quantity) \<Rightarrow> string \<Rightarrow> string" where
  "quantity_text m k = (case m k of None \<Rightarrow> [] | Some q \<Rightarrow> q_text q)"

definition readHeadroom :: "'w api \<Rightarrow> 'k server \<Rightarrow> ('w, headroom_config) kprog" where
  "readHeadroom E sv = do {
     g \<leftarrow> ask E (ClusterCall (GetDeployment (sv_install_ns sv) headroomDeploymentName)) as_deployment;
     ret (case g of
            Inl _ \<Rightarrow> \<lparr>hr_replicas = 0, hr_cpu = [], hr_memory = [], hr_ready = 0, hr_enabled = False\<rparr>
          | Inr d \<Rightarrow> (let requests = (case dep_containers d of
                                     [] \<Rightarrow> Map.empty
                                   | c # _ \<Rightarrow> (case c_resources c of None \<Rightarrow> Map.empty | Some rr \<Rightarrow> rr_requests rr))
              in \<lparr>hr_replicas = (case dep_replicas d of None \<Rightarrow> 0 | Some n \<Rightarrow> n),
                  hr_cpu = quantity_text requests ''cpu'', hr_memory = quantity_text requests ''memory'',
                  hr_ready = dep_ready d, hr_enabled = True\<rparr>))
   }"

text \<open>A quantity that is given becomes the request and the limit.\<close>

definition reserve :: "console_codec \<Rightarrow> string \<Rightarrow> string \<Rightarrow> resource_requirements \<Rightarrow> resource_requirements" where
  "reserve cc k text rr =
     (if text = [] then rr
      else case cc_quantity cc text of
             Inl _ \<Rightarrow> rr
           | Inr q \<Rightarrow> rr\<lparr>rr_requests := (rr_requests rr)(k \<mapsto> q), rr_limits := (rr_limits rr)(k \<mapsto> q)\<rparr>)"

definition no_resources :: resource_requirements where
  "no_resources = \<lparr>rr_limits = Map.empty, rr_requests = Map.empty, rr_rest = []\<rparr>"

definition headroom_container :: "console_codec \<Rightarrow> headroom_config \<Rightarrow> container \<Rightarrow> container" where
  "headroom_container cc req c =
     c\<lparr>c_resources := Some (reserve cc ''memory'' (hr_memory req) (reserve cc ''cpu'' (hr_cpu req)
        (case c_resources c of None \<Rightarrow> no_resources | Some rr \<Rightarrow> rr)))\<rparr>"

definition writeHeadroom ::
  "console_codec \<Rightarrow> 'w api \<Rightarrow> 'k server \<Rightarrow> headroom_config \<Rightarrow> ('w, string + unit) kprog" where
  "writeHeadroom cc E sv req = do {
     g \<leftarrow> ask E (ClusterCall (GetDeployment (sv_install_ns sv) headroomDeploymentName)) as_deployment;
     (case g of
        Inl e \<Rightarrow> ret (Inl
          (''headroom Deployment not found (is optional.headroom.enabled in your Helm values?): '' @ err_text e))
      | Inr d \<Rightarrow> do {
          u \<leftarrow> ask E (ClusterCall (UpdateDeployment
                 (d\<lparr>dep_replicas := Some (wrap32 (hr_replicas req)),
                    dep_containers := (case dep_containers d of
                                         [] \<Rightarrow> [] | c # cs \<Rightarrow> headroom_container cc req c # cs)\<rparr>))) as_deployment;
          ret (case u of Inl e \<Rightarrow> Inl (err_text e) | Inr _ \<Rightarrow> Inr ())
        })
   }"

definition headroom_json :: "headroom_config \<Rightarrow> json" where
  "headroom_json c =
     JObj ([(''replicas'', JInt (hr_replicas c)), (''cpu'', JText (hr_cpu c)), (''memory'', JText (hr_memory c))]
           @ count_json ''readyReplicas'' (hr_ready c) @ [(''enabled'', JBool (hr_enabled c))])"

definition handleGetHeadroomConfig :: "'w api \<Rightarrow> 'k server \<Rightarrow> ('w, reply) kprog" where
  "handleGetHeadroomConfig E sv = do {
     c \<leftarrow> readHeadroom E sv;
     ret (respondJSON 200 (headroom_json c))
   }"

definition headroom_error :: "console_codec \<Rightarrow> headroom_config \<Rightarrow> string option" where
  "headroom_error cc req =
     (if hr_replicas req < 0 \<or> hr_replicas req > 50 then Some ''replicas must be in [0, 50]''
      else case (if hr_cpu req = [] then Inr zero_quantity else cc_quantity cc (hr_cpu req)) of
             Inl e \<Rightarrow> Some (''invalid cpu quantity: '' @ e)
           | Inr _ \<Rightarrow>
               (case (if hr_memory req = [] then Inr zero_quantity else cc_quantity cc (hr_memory req)) of
                  Inl e \<Rightarrow> Some (''invalid memory quantity: '' @ e)
                | Inr _ \<Rightarrow> None))"

definition handleSetHeadroomConfig ::
  "console_codec \<Rightarrow> 'w api \<Rightarrow> 'k server \<Rightarrow> string + headroom_config \<Rightarrow> ('w, reply) kprog" where
  "handleSetHeadroomConfig cc E sv body =
     (case body of
        Inl _ \<Rightarrow> ret (respondError 400 ''invalid request body'')
      | Inr req \<Rightarrow>
          (case headroom_error cc req of
             Some e \<Rightarrow> ret (respondError 400 e)
           | None \<Rightarrow> do {
               w \<leftarrow> writeHeadroom cc E sv req;
               (case w of
                  Inl e \<Rightarrow> ret (respondError 500 (''failed to update headroom: '' @ e))
                | Inr _ \<Rightarrow> do {
                    c \<leftarrow> readHeadroom E sv;
                    ret (respondJSON 200 (headroom_json c))
                  })
             }))"

section \<open>Deprecated routes\<close>

record deprecated_endpoint =
  de_sunset :: "instant option"
  de_successor :: string

definition deprecatedRoutes :: "string \<rightharpoonup> deprecated_endpoint" where
  "deprecatedRoutes = Map.empty"

text \<open>\<open>http_date\<close> is the format of HTTP dates.\<close>

definition stampDeprecation ::
  "(instant \<Rightarrow> string) \<Rightarrow> deprecated_endpoint \<Rightarrow> (string \<rightharpoonup> string) \<Rightarrow> (string \<rightharpoonup> string)" where
  "stampDeprecation http_date de h =
     (let h = h(''Deprecation'' \<mapsto> ''true'');
          h = (case de_sunset de of None \<Rightarrow> h | Some t \<Rightarrow> h(''Sunset'' \<mapsto> http_date t))
      in if de_successor de = [] then h
         else h(''Link'' \<mapsto> ''<'' @ de_successor de @ ''>; rel='' @ [CHR 0x22] @ ''successor-version'' @ [CHR 0x22]))"

definition deprecationMiddleware ::
  "(instant \<Rightarrow> string) \<Rightarrow> (string \<rightharpoonup> deprecated_endpoint) \<Rightarrow> string option \<Rightarrow> (string \<rightharpoonup> string) \<Rightarrow> (string \<rightharpoonup> string)" where
  "deprecationMiddleware http_date routes template h =
     (case template of
        None \<Rightarrow> h
      | Some t \<Rightarrow> if t = [] then h
          else (case routes t of None \<Rightarrow> h | Some de \<Rightarrow> stampDeprecation http_date de h))"

section \<open>Properties\<close>

lemma tally_lookup: "map_of (tally k cs) j = (if j = k then Some (1 + (case map_of cs k of None \<Rightarrow> 0 | Some n \<Rightarrow> n)) else map_of cs j)"
  by (induction k cs rule: tally.induct) auto

lemma tallies_lookup:
  "map_of (tallies ks) k = (if count_list ks k = 0 then None else Some (count_list ks k))"
proof -
  have "map_of (fold tally ks cs) k =
      (case map_of cs k of None \<Rightarrow> if count_list ks k = 0 then None else Some (count_list ks k)
       | Some n \<Rightarrow> Some (n + count_list ks k))" for cs
    by (induction ks arbitrary: cs) (auto simp: tally_lookup split: option.split)
  then show ?thesis by (simp add: tallies_def)
qed

lemma tally_total: "sum_list (map snd (tally k cs)) = sum_list (map snd cs) + 1"
  by (induction k cs rule: tally.induct) auto

lemma tallies_total: "sum_list (map snd (tallies ks)) = length ks"
proof -
  have "sum_list (map snd (fold tally ks cs)) = sum_list (map snd cs) + length ks" for cs
    by (induction ks arbitrary: cs) (simp_all add: tally_total)
  then show ?thesis by (simp add: tallies_def)
qed

text \<open>The statistics count every sandbox once.\<close>

lemma usage_counts:
  "sum_list (map snd (ur_phases (usage_of items))) = ur_total (usage_of items)"
  "sum_list (map snd (ur_templates (usage_of items))) = ur_total (usage_of items)"
  "map_of (ur_phases (usage_of items)) k =
     (let n = length (filter (\<lambda>sb. phase_name sb = k) items) in if n = 0 then None else Some n)"
proof -
  have "count_list (map phase_name items) k = length (filter (\<lambda>sb. phase_name sb = k) items)"
    by (induction items) auto
  then show "map_of (ur_phases (usage_of items)) k =
     (let n = length (filter (\<lambda>sb. phase_name sb = k) items) in if n = 0 then None else Some n)"
    by (simp add: usage_of_def Let_def tallies_lookup)
qed (simp_all add: usage_of_def Let_def tallies_total)

text \<open>Ten gigabytes at ten cents a month are a dollar a month; the estimate is 576 dollars.\<close>

lemma storage_estimate:
  "cr_monthly (cost_of items) =
     of_nat (length (running items)) * hourlyCost * 720 + of_nat (length items) * (10 * storagePerGBMonth) * 576"
  by (simp add: cost_of_def Let_def storagePerGBMonth_def algebra_simps)

definition pool_valid :: "pool_config \<Rightarrow> bool" where
  "pool_valid p \<longleftrightarrow> pc_template p \<noteq> [] \<and> 0 \<le> pc_desired p \<and> pc_desired p \<le> 10"

lemma pool_error_none: "pool_error i ps = None \<longleftrightarrow> list_all pool_valid ps"
  by (induction i ps rule: pool_error.induct) (auto simp: pool_valid_def)

definition pools_in :: "config_map \<Rightarrow> pool_config list" where
  "pools_in cm = (case cm_data cm ''config'' of Some (PoolDoc c) \<Rightarrow> wc_pools c | _ \<Rightarrow> [])"

text \<open>What an administrator's change may do.\<close>

fun checked_change :: "trace \<Rightarrow> request \<Rightarrow> bool" where
  "checked_change pre (CreateConfigMap cm) = list_all pool_valid (pools_in cm)"
| "checked_change pre (UpdateConfigMap cm) = list_all pool_valid (pools_in cm)"
| "checked_change pre (ClusterCall (UpdateDeployment d)) =
     (\<exists>n. dep_replicas d = Some n \<and> 0 \<le> n \<and> n \<le> 50)"
| "checked_change pre (TemplateCall (DeleteClusterTemplate name)) =
     (\<forall>items. (ListSandboxes [], RSandboxes items) \<in> set pre \<longrightarrow> template_user name items = None)"
| "checked_change pre _ = True"

lemma normalized: "Normalize (Normalize c) = Normalize c"
  by (simp add: Normalize_def)

lemma set_pools_checked: "list_all pool_valid (wc_pools (Normalize c)) \<Longrightarrow> upholds checked_change pre (SetConfig E ns c)"
  unfolding SetConfig_def Let_def
  by (rule upholds_ask_bind) (auto intro!: upholds_ask_bind simp: pools_in_def split: sum.split api_err.split)

lemma pools_change_checked: "upholds checked_change pre (handleSetWarmPoolConfig E sv body)"
  unfolding handleSetWarmPoolConfig_def Let_def
  by (intro upholds_case upholds_ret upholds_seq set_pools_checked) (simp_all add: pool_error_none normalized)

lemma headroom_read: "upholds checked_change pre (readHeadroom E sv)"
  unfolding readHeadroom_def by (rule upholds_ask_bind) simp_all

lemma headroom_change_checked: "upholds checked_change pre (handleSetHeadroomConfig cc E sv body)"
proof -
  have "upholds checked_change pre (writeHeadroom cc E sv req)" if none: "headroom_error cc req = None" for pre req
  proof -
    have range: "0 \<le> hr_replicas req \<and> hr_replicas req \<le> 50"
      using none by (cases "hr_replicas req < 0 \<or> hr_replicas req > 50") (simp_all add: headroom_error_def not_less)
    then have wrapped: "wrap32 (hr_replicas req) = hr_replicas req" by (simp add: wrap32_id in32_def)
    show ?thesis
      unfolding writeHeadroom_def wrapped
      by (intro upholds_ask_bind upholds_case upholds_ret) (use range in simp_all)
  qed
  then show ?thesis
    unfolding handleSetHeadroomConfig_def
    by (intro upholds_case upholds_ret upholds_seq headroom_read) simp_all
qed

lemma template_delete_checked: "upholds checked_change [] (handleDeleteTemplate E claims name)"
  unfolding handleDeleteTemplate_def
proof (intro upholds_case upholds_ret upholds_ask_bind)
  fix r r' assume none: "(case as_sandboxes r of Inl _ \<Rightarrow> None | Inr items \<Rightarrow> template_user name items) = None"
  show "checked_change (([] @ [(ListSandboxes [], r)]) @ [(GetClusterTemplate name, r')]) (TemplateCall (DeleteClusterTemplate name))"
    using none by (cases r) auto
qed simp_all

text \<open>Administrators' changes are checked before they are stored: a pool configuration names a
  template and at most ten pods for each pool, the headroom is between 0 and 50 replicas, and a template
  is deleted only when no sandbox of the listing that was read runs from it.\<close>
theorem console_changes_are_checked:
  "upholds checked_change [] (handleSetWarmPoolConfig E sv pools) \<and>
   upholds checked_change [] (handleSetHeadroomConfig cc E sv headroom) \<and>
   upholds checked_change [] (handleDeleteTemplate E claims name)"
  by (intro conjI pools_change_checked headroom_change_checked template_delete_checked)

end
