(* ===== verification/Client.thy ===== *)
theory Client
  imports Runtime Routes
begin

text \<open>
  The Go client of the REST API (\<open>pkg/agenttierclient\<close>): how it escapes identifiers, the call each
  operation makes, how a call is sent, and how an answer becomes a result or an error. An operation is
  the description of its call, which \<open>client_Do\<close>, \<open>DoRawUpload\<close> or \<open>DoRawDownload\<close> performs. A request
  body and the decoding of a reply are \<open>encoding/json\<close>'s.
\<close>

section \<open>Escaping\<close>

text \<open>\<open>url.PathEscape\<close>, and the reading of an escaped path by \<open>url.Parse\<close>.\<close>

definition path_plain :: "char \<Rightarrow> bool" where
  "path_plain c \<longleftrightarrow> unreserved c \<or> c \<in> set ''$&+:=@''"

definition path_escaped :: "char \<Rightarrow> string" where
  "path_escaped c =
     (if path_plain c then [c] else [CHR ''%'', upper_hex (of_char c div 16), upper_hex (of_char c mod 16)])"

definition PathEscape :: "string \<Rightarrow> string" where
  "PathEscape s = concat (map path_escaped s)"

fun path_unescape :: "string \<Rightarrow> string option" where
  "path_unescape [] = Some []"
| "path_unescape (c # cs) =
     (if c = CHR ''%'' then
        (case cs of
           a # b # rest \<Rightarrow>
             (case (unhex a, unhex b) of
                (Some x, Some y) \<Rightarrow> map_option ((#) (char_of (x * 16 + y))) (path_unescape rest)
              | _ \<Rightarrow> None)
         | _ \<Rightarrow> None)
      else map_option ((#) c) (path_unescape cs))"

text \<open>\<open>url.Values.Encode\<close> for distinct keys that need no escape, in their order.\<close>

definition encode_values :: "(string \<times> string) list \<Rightarrow> string" where
  "encode_values kvs = join_with ''&'' (map pair_text kvs)"

section \<open>Calls\<close>

datatype op_body = NoBody | JsonBody json | RawBody string string

record api_call =
  op_method :: string
  op_path :: string
  op_body :: op_body

definition Client_Get :: "string \<Rightarrow> api_call" where
  "Client_Get path = \<lparr>op_method = ''GET'', op_path = path, op_body = NoBody\<rparr>"

definition json_body :: "json option \<Rightarrow> op_body" where
  "json_body b = (case b of None \<Rightarrow> NoBody | Some j \<Rightarrow> JsonBody j)"

definition Client_Post :: "string \<Rightarrow> json option \<Rightarrow> api_call" where
  "Client_Post path b = \<lparr>op_method = ''POST'', op_path = path, op_body = json_body b\<rparr>"

definition Client_Put :: "string \<Rightarrow> json option \<Rightarrow> api_call" where
  "Client_Put path b = \<lparr>op_method = ''PUT'', op_path = path, op_body = json_body b\<rparr>"

definition Client_Patch :: "string \<Rightarrow> json option \<Rightarrow> api_call" where
  "Client_Patch path b = \<lparr>op_method = ''PATCH'', op_path = path, op_body = json_body b\<rparr>"

definition Client_Delete :: "string \<Rightarrow> api_call" where
  "Client_Delete path = \<lparr>op_method = ''DELETE'', op_path = path, op_body = NoBody\<rparr>"

subsection \<open>Sandboxes\<close>

definition Client_CreateSandbox :: "json \<Rightarrow> api_call" where
  "Client_CreateSandbox req = Client_Post ''/sandboxes'' (Some req)"

definition Client_ListSandboxes :: "string \<Rightarrow> string \<Rightarrow> api_call" where
  "Client_ListSandboxes namespace status =
     Client_Get (''/sandboxes''
       @ (let q = (if namespace = [] then [] else [(''namespace'', namespace)])
                  @ (if status = [] then [] else [(''status'', status)]);
              encoded = encode_values q
          in if encoded = [] then [] else ''?'' @ encoded))"

definition Client_GetSandbox :: "string \<Rightarrow> api_call" where
  "Client_GetSandbox ident = Client_Get (''/sandboxes/'' @ PathEscape ident)"

definition Client_DeleteSandbox :: "string \<Rightarrow> api_call" where
  "Client_DeleteSandbox ident = Client_Delete (''/sandboxes/'' @ PathEscape ident)"

definition Client_StopSandbox :: "string \<Rightarrow> api_call" where
  "Client_StopSandbox ident = Client_Post (''/sandboxes/'' @ PathEscape ident @ ''/stop'') None"

definition Client_ResumeSandbox :: "string \<Rightarrow> api_call" where
  "Client_ResumeSandbox ident = Client_Post (''/sandboxes/'' @ PathEscape ident @ ''/resume'') None"

definition Client_CloneSandbox :: "string \<Rightarrow> json \<Rightarrow> api_call" where
  "Client_CloneSandbox ident req = Client_Post (''/sandboxes/'' @ PathEscape ident @ ''/clone'') (Some req)"

definition Client_ExecCommand :: "string \<Rightarrow> json \<Rightarrow> api_call" where
  "Client_ExecCommand ident req = Client_Post (''/sandboxes/'' @ PathEscape ident @ ''/exec'') (Some req)"

definition Client_PatchSandbox :: "string \<Rightarrow> json \<Rightarrow> api_call" where
  "Client_PatchSandbox ident req = Client_Patch (''/sandboxes/'' @ PathEscape ident) (Some req)"

definition Client_BulkCreateSandboxes :: "json list \<Rightarrow> api_call" where
  "Client_BulkCreateSandboxes items = Client_Post ''/sandboxes/bulk'' (Some (JObj [(''items'', JList items)]))"

definition Client_BulkAction :: "string \<Rightarrow> string list \<Rightarrow> api_call" where
  "Client_BulkAction action ids =
     Client_Post ''/sandboxes/bulk-action'' (Some (JObj [(''action'', JText action), (''ids'', JTexts ids)]))"

subsection \<open>Files and ports\<close>

definition Client_ListFiles :: "string \<Rightarrow> string \<Rightarrow> api_call" where
  "Client_ListFiles ident dir =
     Client_Get (''/sandboxes/'' @ PathEscape ident @ ''/files/''
       @ (if dir = [] then [] else ''?'' @ encode_values [(''path'', dir)]))"

definition joinPath :: "string list \<Rightarrow> string" where
  "joinPath segments = join_with ''/'' segments"

definition encodeFilePath :: "string \<Rightarrow> string" where
  "encodeFilePath filePath = joinPath (map PathEscape (split_at CHR ''/'' filePath))"

definition Client_GetFile :: "string \<Rightarrow> string \<Rightarrow> api_call" where
  "Client_GetFile ident filePath =
     \<lparr>op_method = ''GET'', op_path = ''/sandboxes/'' @ PathEscape ident @ ''/files/'' @ encodeFilePath filePath,
      op_body = NoBody\<rparr>"

definition Client_PutFile :: "string \<Rightarrow> string \<Rightarrow> string \<Rightarrow> api_call" where
  "Client_PutFile ident filePath data =
     \<lparr>op_method = ''PUT'', op_path = ''/sandboxes/'' @ PathEscape ident @ ''/files/'' @ encodeFilePath filePath,
      op_body = RawBody ''application/octet-stream'' data\<rparr>"

definition Client_ListPorts :: "string \<Rightarrow> api_call" where
  "Client_ListPorts ident = Client_Get (''/sandboxes/'' @ PathEscape ident @ ''/ports'')"

definition Client_ForwardPort :: "string \<Rightarrow> int \<Rightarrow> string \<Rightarrow> api_call" where
  "Client_ForwardPort ident port protocol =
     Client_Post (''/sandboxes/'' @ PathEscape ident @ ''/ports'')
       (Some (JObj [(''port'', JInt port), (''protocol'', JText protocol)]))"

definition Client_RemovePort :: "string \<Rightarrow> int \<Rightarrow> api_call" where
  "Client_RemovePort ident port =
     Client_Delete (''/sandboxes/'' @ PathEscape ident @ ''/ports/'' @ show_int port)"

subsection \<open>Sharing, backups and templates\<close>

definition Client_GetSharing :: "string \<Rightarrow> api_call" where
  "Client_GetSharing ident = Client_Get (''/sandboxes/'' @ PathEscape ident @ ''/share'')"

definition Client_ShareSandbox :: "string \<Rightarrow> json \<Rightarrow> api_call" where
  "Client_ShareSandbox ident req = Client_Post (''/sandboxes/'' @ PathEscape ident @ ''/share'') (Some req)"

definition Client_RevokeShare :: "string \<Rightarrow> string \<Rightarrow> api_call" where
  "Client_RevokeShare ident userID = Client_Delete (''/sandboxes/'' @ PathEscape ident @ ''/share/'' @ PathEscape userID)"

definition Client_CreateShareLink :: "string \<Rightarrow> json \<Rightarrow> api_call" where
  "Client_CreateShareLink ident req = Client_Post (''/sandboxes/'' @ PathEscape ident @ ''/share-links'') (Some req)"

definition Client_ListBackups :: "string \<Rightarrow> api_call" where
  "Client_ListBackups ident = Client_Get (''/sandboxes/'' @ PathEscape ident @ ''/backups'')"

definition Client_CreateBackup :: "string \<Rightarrow> json \<Rightarrow> api_call" where
  "Client_CreateBackup ident req = Client_Post (''/sandboxes/'' @ PathEscape ident @ ''/backups'') (Some req)"

definition Client_RestoreBackup :: "string \<Rightarrow> string \<Rightarrow> json \<Rightarrow> api_call" where
  "Client_RestoreBackup ident snapshotName req = Client_Post (''/sandboxes/'' @ PathEscape ident @ ''/backups/'' @ PathEscape snapshotName @ ''/restore'') (Some req)"

definition Client_DeleteBackup :: "string \<Rightarrow> string \<Rightarrow> api_call" where
  "Client_DeleteBackup ident snapshotName = Client_Delete (''/sandboxes/'' @ PathEscape ident @ ''/backups/'' @ PathEscape snapshotName)"

definition Client_ListTemplates :: "api_call" where
  "Client_ListTemplates = Client_Get ''/templates''"

definition Client_GetTemplate :: "string \<Rightarrow> api_call" where
  "Client_GetTemplate name = Client_Get (''/templates/'' @ PathEscape name)"

definition Client_CreateTemplate :: "json \<Rightarrow> api_call" where
  "Client_CreateTemplate req = Client_Post ''/templates'' (Some req)"

definition Client_UpdateTemplate :: "string \<Rightarrow> json \<Rightarrow> api_call" where
  "Client_UpdateTemplate name req = Client_Put (''/templates/'' @ PathEscape name) (Some req)"

definition Client_DeleteTemplate :: "string \<Rightarrow> api_call" where
  "Client_DeleteTemplate name = Client_Delete (''/templates/'' @ PathEscape name)"

subsection \<open>Policies, statistics and the cluster\<close>

definition Client_ListPolicies :: "api_call" where
  "Client_ListPolicies = Client_Get ''/governance/policies''"

definition Client_SetClusterPolicy :: "json \<Rightarrow> api_call" where
  "Client_SetClusterPolicy policy = Client_Put ''/governance/policies'' (Some policy)"

definition Client_GetPolicy :: "string \<Rightarrow> api_call" where
  "Client_GetPolicy namespace = Client_Get (''/governance/policies/'' @ PathEscape namespace)"

definition Client_SetPolicy :: "string \<Rightarrow> json \<Rightarrow> api_call" where
  "Client_SetPolicy namespace policy = Client_Put (''/governance/policies/'' @ PathEscape namespace) (Some policy)"

definition Client_DeletePolicy :: "string \<Rightarrow> api_call" where
  "Client_DeletePolicy namespace = Client_Delete (''/governance/policies/'' @ PathEscape namespace)"

definition Client_GetEffectivePolicy :: "string \<Rightarrow> api_call" where
  "Client_GetEffectivePolicy namespace =
     Client_Get (''/governance/effective''
       @ (if namespace = [] then [] else ''?'' @ encode_values [(''namespace'', namespace)]))"

definition Client_ListAuditEvents :: "api_call" where
  "Client_ListAuditEvents = Client_Get ''/audit/events''"

definition Client_GetUsageAnalytics :: "api_call" where
  "Client_GetUsageAnalytics = Client_Get ''/analytics/usage''"

definition Client_GetCostEstimates :: "api_call" where
  "Client_GetCostEstimates = Client_Get ''/analytics/costs''"

definition Client_AdminListSandboxes :: "api_call" where
  "Client_AdminListSandboxes = Client_Get ''/admin/sandboxes''"

definition Client_AdminListSharing :: "api_call" where
  "Client_AdminListSharing = Client_Get ''/admin/sharing''"

definition Client_GetWarmPoolStatus :: "api_call" where
  "Client_GetWarmPoolStatus = Client_Get ''/warmpool/status''"

definition Client_SetWarmPoolConfig :: "json \<Rightarrow> api_call" where
  "Client_SetWarmPoolConfig cfg = Client_Put ''/warmpool/config'' (Some cfg)"

definition Client_GetClusterStatus :: "api_call" where
  "Client_GetClusterStatus = Client_Get ''/cluster/status''"

definition Client_GetClusterNodes :: "api_call" where
  "Client_GetClusterNodes = Client_Get ''/cluster/nodes''"

definition Client_GetHeadroomConfig :: "api_call" where
  "Client_GetHeadroomConfig = Client_Get ''/cluster/headroom''"

definition Client_SetHeadroomConfig :: "json \<Rightarrow> api_call" where
  "Client_SetHeadroomConfig cfg = Client_Put ''/cluster/headroom'' (Some cfg)"

subsection \<open>Webhooks, the user and keys\<close>

definition Client_CreateWebhook :: "json \<Rightarrow> api_call" where
  "Client_CreateWebhook req = Client_Post ''/webhooks'' (Some req)"

definition Client_ListWebhooks :: "api_call" where
  "Client_ListWebhooks = Client_Get ''/webhooks''"

definition Client_DeleteWebhook :: "string \<Rightarrow> api_call" where
  "Client_DeleteWebhook ident = Client_Delete (''/webhooks/'' @ PathEscape ident)"

definition Client_GetWebhookDeliveries :: "string \<Rightarrow> api_call" where
  "Client_GetWebhookDeliveries ident = Client_Get (''/webhooks/'' @ PathEscape ident @ ''/deliveries'')"

definition Client_GetCurrentUser :: "api_call" where
  "Client_GetCurrentUser = Client_Get ''/user/me''"

definition Client_GetPreferences :: "api_call" where
  "Client_GetPreferences = Client_Get ''/user/preferences''"

definition Client_UpdatePreferences :: "json \<Rightarrow> api_call" where
  "Client_UpdatePreferences prefs = Client_Put ''/user/preferences'' (Some prefs)"

definition Client_ListAPIKeys :: "api_call" where
  "Client_ListAPIKeys = Client_Get ''/user/api-keys''"

definition Client_CreateAPIKey :: "json \<Rightarrow> api_call" where
  "Client_CreateAPIKey req = Client_Post ''/user/api-keys'' (Some req)"

definition Client_RevokeAPIKey :: "string \<Rightarrow> api_call" where
  "Client_RevokeAPIKey keyID = Client_Delete (''/user/api-keys/'' @ PathEscape keyID)"

section \<open>Performing a call\<close>

record client_config =
  cg_url :: string
  cg_key :: string
  cg_token :: string

record api_client =
  ac_base :: string
  ac_key :: string
  ac_token :: string
  ac_agent :: string
  ac_warned :: "string set"

definition trim_right :: "char \<Rightarrow> string \<Rightarrow> string" where
  "trim_right c s = rev (dropWhile (\<lambda>x. x = c) (rev s))"

definition NewClient :: "string \<Rightarrow> client_config \<Rightarrow> string + api_client" where
  "NewClient version cfg =
     (if TrimSpace (cg_url cfg) = [] then Inl ''agenttierclient: APIURL must be a non-empty string''
      else Inr \<lparr>ac_base = trim_right CHR ''/'' (cg_url cfg) @ ''/api/v1'', ac_key = cg_key cfg, ac_token = cg_token cfg,
                ac_agent = ''agenttier-go-client/'' @ version, ac_warned = {}\<rparr>)"

record wire_request =
  wq_method :: string
  wq_url :: string
  wq_headers :: "(string \<times> string) list"
  wq_body :: "string option"

text \<open>An answer knows the request it belongs to, which a redirection may have changed: its method and
  its path. The body is read to its end, or reading fails.\<close>

record wire_response =
  ws_status :: nat
  ws_header :: "string \<Rightarrow> string"
  ws_body :: "string + string"
  ws_method :: string
  ws_path :: string

text \<open>The libraries under the client: the check of a URL, the transport, JSON, the texts of status codes,
  and the variable that turns warnings off.\<close>

record client_env =
  ce_build :: "wire_request \<Rightarrow> string option"
  ce_transport :: "wire_request \<Rightarrow> string + wire_response"
  ce_marshal :: "json \<Rightarrow> string + string"
  ce_object :: "string \<Rightarrow> string + (string \<rightharpoonup> json)"
  ce_status_text :: "nat \<Rightarrow> string"
  ce_warnings :: string

datatype client_error = ClientError string | APIError nat string "(string \<rightharpoonup> json) option"

text \<open>The type a reply is decoded into: its zero value, and \<open>json.Unmarshal\<close> into it.\<close>

record 'o decoder =
  dc_zero :: 'o
  dc_decode :: "string \<Rightarrow> string + 'o"

definition no_result :: "unit decoder" where
  "no_result = \<lparr>dc_zero = (), dc_decode = \<lambda>_. Inr ()\<rparr>"

definition applyAuth :: "api_client \<Rightarrow> (string \<times> string) list" where
  "applyAuth c =
     (if ac_key c \<noteq> [] then [(''X-API-Key'', ac_key c)]
      else if ac_token c \<noteq> [] then [(''Authorization'', ''Bearer '' @ ac_token c)]
      else [])"

definition text_field :: "(string \<rightharpoonup> json) \<Rightarrow> string \<Rightarrow> string option" where
  "text_field m k = (case m k of Some (JText t) \<Rightarrow> if t = [] then None else Some t | _ \<Rightarrow> None)"

definition decodeAPIError :: "client_env \<Rightarrow> nat \<Rightarrow> string \<Rightarrow> client_error" where
  "decodeAPIError X status raw =
     (if raw = [] then APIError status (ce_status_text X status) None
      else case ce_object X raw of
             Inl _ \<Rightarrow> APIError status (TrimSpace raw) None
           | Inr m \<Rightarrow>
               APIError status
                 (case text_field m ''error'' of
                    Some t \<Rightarrow> t
                  | None \<Rightarrow> (case text_field m ''message'' of Some t \<Rightarrow> t | None \<Rightarrow> ce_status_text X status))
                 (Some m))"

definition lower_ascii :: "char \<Rightarrow> char" where
  "lower_ascii c = (if c \<in> set ''ABCDEFGHIJKLMNOPQRSTUVWXYZ'' then char_of (of_char c + 32 :: nat) else c)"

text \<open>\<open>strings.EqualFold\<close> on ASCII.\<close>

definition equal_fold :: "string \<Rightarrow> string \<Rightarrow> bool" where
  "equal_fold a b \<longleftrightarrow> map lower_ascii a = map lower_ascii b"

definition deprecation_text :: "string \<Rightarrow> wire_response \<Rightarrow> string" where
  "deprecation_text key r =
     ''agenttier API endpoint '' @ key @ '' is deprecated''
     @ (if ws_header r ''Sunset'' \<noteq> [] then '' (sunset '' @ ws_header r ''Sunset'' @ '')'' else [])
     @ (if str_contains ''successor-version'' (ws_header r ''Link'') then ''; see '' @ ws_header r ''Link'' else [])"

text \<open>The client with the endpoint remembered, and what is logged.\<close>

definition warnIfDeprecated :: "client_env \<Rightarrow> wire_response \<Rightarrow> api_client \<Rightarrow> string list \<times> api_client" where
  "warnIfDeprecated X r c =
     (if \<not> equal_fold (ws_header r ''Deprecation'') ''true'' \<or> equal_fold (ce_warnings X) ''off'' then ([], c)
      else let key = ws_method r @ '' '' @ ws_path r
           in if key \<in> ac_warned c then ([], c)
              else ([deprecation_text key r], c\<lparr>ac_warned := insert key (ac_warned c)\<rparr>))"

definition exchange ::
  "client_env \<Rightarrow> api_client \<Rightarrow> wire_request \<Rightarrow> string \<Rightarrow> (nat \<Rightarrow> string \<Rightarrow> client_error + 'o)
   \<Rightarrow> (client_error + 'o) \<times> string list \<times> api_client" where
  "exchange X c req name k =
     (case ce_build X req of
        Some e \<Rightarrow> (Inl (ClientError (''agenttierclient: build request: '' @ e)), [], c)
      | None \<Rightarrow>
          (case ce_transport X req of
             Inl e \<Rightarrow> (Inl (ClientError (''agenttierclient: '' @ name @ '': '' @ e)), [], c)
           | Inr r \<Rightarrow>
               ((case ws_body r of
                   Inl e \<Rightarrow> Inl (ClientError (''agenttierclient: read response body: '' @ e))
                 | Inr raw \<Rightarrow> if ws_status r div 100 \<noteq> 2 then Inl (decodeAPIError X (ws_status r) raw)
                            else k (ws_status r) raw),
                warnIfDeprecated X r c)))"

definition decoded_reply :: "'o decoder \<Rightarrow> string \<Rightarrow> client_error + 'o" where
  "decoded_reply dc raw =
     (if raw = [] then Inr (dc_zero dc)
      else case dc_decode dc raw of
             Inl e \<Rightarrow> Inl (ClientError (''agenttierclient: decode response body: '' @ e))
           | Inr v \<Rightarrow> Inr v)"

definition client_Do ::
  "client_env \<Rightarrow> 'o decoder \<Rightarrow> api_client \<Rightarrow> string \<Rightarrow> string \<Rightarrow> json option
   \<Rightarrow> (client_error + 'o) \<times> string list \<times> api_client" where
  "client_Do X dc c meth path b =
     (case (case b of None \<Rightarrow> Inr None | Some j \<Rightarrow> (case ce_marshal X j of Inl e \<Rightarrow> Inl e | Inr t \<Rightarrow> Inr (Some t))) of
        Inl e \<Rightarrow> (Inl (ClientError (''agenttierclient: marshal request body: '' @ e)), [], c)
      | Inr content \<Rightarrow>
          exchange X c
            \<lparr>wq_method = meth, wq_url = ac_base c @ path,
             wq_headers = (if b \<noteq> None then [(''Content-Type'', ''application/json'')] else [])
               @ [(''Accept'', ''application/json''), (''User-Agent'', ac_agent c)] @ applyAuth c,
             wq_body = content\<rparr>
            (meth @ '' '' @ path) (\<lambda>_ raw. decoded_reply dc raw))"

definition DoRawUpload ::
  "client_env \<Rightarrow> 'o decoder \<Rightarrow> api_client \<Rightarrow> string \<Rightarrow> string \<Rightarrow> string \<Rightarrow> string
   \<Rightarrow> (client_error + 'o) \<times> string list \<times> api_client" where
  "DoRawUpload X dc c meth path contentType content =
     exchange X c
       \<lparr>wq_method = meth, wq_url = ac_base c @ path,
        wq_headers = (if contentType \<noteq> [] then [(''Content-Type'', contentType)] else [])
          @ [(''Accept'', ''application/json''), (''User-Agent'', ac_agent c)] @ applyAuth c,
        wq_body = Some content\<rparr>
       (meth @ '' '' @ path) (\<lambda>_ raw. decoded_reply dc raw)"

definition DoRawDownload ::
  "client_env \<Rightarrow> api_client \<Rightarrow> string \<Rightarrow> (client_error + string) \<times> string list \<times> api_client" where
  "DoRawDownload X c path =
     exchange X c
       \<lparr>wq_method = ''GET'', wq_url = ac_base c @ path,
        wq_headers = [(''User-Agent'', ac_agent c)] @ applyAuth c, wq_body = None\<rparr>
       (''GET '' @ path) (\<lambda>_ raw. Inr raw)"

text \<open>Calls in their JSON form.\<close>

definition call_json ::
  "client_env \<Rightarrow> 'o decoder \<Rightarrow> api_client \<Rightarrow> api_call \<Rightarrow> (client_error + 'o) \<times> string list \<times> api_client" where
  "call_json X dc c ac =
     (case op_body ac of
        RawBody t d \<Rightarrow> DoRawUpload X dc c (op_method ac) (op_path ac) t d
      | NoBody \<Rightarrow> client_Do X dc c (op_method ac) (op_path ac) None
      | JsonBody j \<Rightarrow> client_Do X dc c (op_method ac) (op_path ac) (Some j))"

section \<open>Where the calls arrive\<close>

text \<open>The templates of routes, by their segments: a literal, a variable of one segment, or the rest of
  the path. This is the documented matching of \<open>gorilla/mux\<close>; it is a hypothesis about the parameter
  \<open>M\<close> of \<open>Routes\<close>.\<close>

datatype template_segment = Lit string | Var string | Rest string

definition parse_segment :: "string \<Rightarrow> template_segment" where
  "parse_segment s =
     (if s \<noteq> [] \<and> hd s = CHR ''{''
      then let inner = butlast (tl s)
           in if suffix '':.*'' inner then Rest (take (length inner - 3) inner) else Var inner
      else Lit s)"

definition template_segments :: "string \<Rightarrow> template_segment list" where
  "template_segments t = map parse_segment (split_at CHR ''/'' t)"

fun match_segments :: "bool \<Rightarrow> template_segment list \<Rightarrow> string list \<Rightarrow> (string \<rightharpoonup> string) option" where
  "match_segments pre [] [] = Some Map.empty"
| "match_segments pre [] (s # ss) = None"
| "match_segments pre (Lit l # ps) [] = None"
| "match_segments pre (Lit l # ps) (s # ss) =
     (if pre \<and> ps = [] then (if has_prefix s l then Some Map.empty else None)
      else if s = l then match_segments pre ps ss else None)"
| "match_segments pre (Var v # ps) [] = None"
| "match_segments pre (Var v # ps) (s # ss) =
     (if s = [] then None else map_option (\<lambda>m. m(v \<mapsto> s)) (match_segments pre ps ss))"
| "match_segments pre (Rest v # ps) ss =
     (if ps = [] \<and> ss \<noteq> [] \<and> list_all (\<lambda>s. CHR 0x0A \<notin> set s) ss then Some [v \<mapsto> join_with ''/'' ss] else None)"

definition documented_matching :: "matcher \<Rightarrow> bool" where
  "documented_matching M \<longleftrightarrow>
     (\<forall>rt \<in> set routes. \<forall>path.
        M (rt_prefix rt) (rt_template rt) path
          = match_segments (rt_prefix rt) (template_segments (rt_template rt)) (split_at CHR ''/'' path))"

text \<open>The path that the router sees, and the route it takes. The multiplexer redirects a path that
  \<open>path.Clean\<close> would change, other than by a slash at its end; a call that reaches its handler is not
  redirected.\<close>

definition sent_path :: "api_call \<Rightarrow> string option" where
  "sent_path ac = path_unescape (takeWhile (\<lambda>c. c \<noteq> CHR ''?'') (''/api/v1'' @ op_path ac))"

definition clean_path :: "string \<Rightarrow> bool" where
  "clean_path p \<longleftrightarrow> p = CleanRooted p \<or> p = CleanRooted p @ ''/''"

definition reaches :: "matcher \<Rightarrow> api_call \<Rightarrow> string \<Rightarrow> (string \<rightharpoonup> string) \<Rightarrow> bool" where
  "reaches M ac h vars \<longleftrightarrow>
     (\<exists>p rt. sent_path ac = Some p \<and> clean_path p
        \<and> first_match M (op_method ac) p routes = Some (rt, vars) \<and> rt_handler rt = h)"

definition plain_segment :: "string \<Rightarrow> bool" where
  "plain_segment s \<longleftrightarrow> s \<notin> {[], ''.'', ''..''} \<and> CHR ''/'' \<notin> set s"

definition plain_file_path :: "string \<Rightarrow> bool" where
  "plain_file_path p \<longleftrightarrow> list_all (\<lambda>s. plain_segment s \<and> CHR 0x0A \<notin> set s) (split_at CHR ''/'' p)"

text \<open>The shape of a path: what is fixed, and which arguments are filled in.\<close>

datatype shape = Const string | Arg nat | Tail nat

fun shape_text :: "(nat \<Rightarrow> string) \<Rightarrow> shape \<Rightarrow> string" where
  "shape_text x (Const s) = s"
| "shape_text x (Arg n) = x n"
| "shape_text x (Tail n) = x n"

fun shape_escaped :: "(nat \<Rightarrow> string) \<Rightarrow> shape \<Rightarrow> string" where
  "shape_escaped x (Const s) = s"
| "shape_escaped x (Arg n) = PathEscape (x n)"
| "shape_escaped x (Tail n) = encodeFilePath (x n)"

fun shape_segments :: "(nat \<Rightarrow> string) \<Rightarrow> shape \<Rightarrow> string list" where
  "shape_segments x (Const s) = [s]"
| "shape_segments x (Arg n) = [x n]"
| "shape_segments x (Tail n) = split_at CHR ''/'' (x n)"

fun shape_ok :: "(nat \<Rightarrow> string) \<Rightarrow> shape \<Rightarrow> bool" where
  "shape_ok x (Const s) = True"
| "shape_ok x (Arg n) = plain_segment (x n)"
| "shape_ok x (Tail n) = plain_file_path (x n)"

text \<open>Matching of a shape: \<open>None\<close> where the answer depends on the arguments.\<close>

fun match_shape :: "bool \<Rightarrow> template_segment list \<Rightarrow> shape list \<Rightarrow> (string \<times> shape) list option option" where
  "match_shape pre [] [] = Some (Some [])"
| "match_shape pre [] (s # ss) = Some None"
| "match_shape pre (Lit l # ps) [] = Some None"
| "match_shape pre (Var v # ps) [] = Some None"
| "match_shape pre (Lit l # ps) (Const s # ss) =
     (if pre \<and> ps = [] then (if has_prefix s l then Some (Some []) else Some None)
      else if s = l then match_shape pre ps ss else Some None)"
| "match_shape pre (Lit l # ps) (Arg n # ss) =
     (if pre \<and> ps = [] then None
      else if l = [] \<or> match_shape pre ps ss = Some None then Some None else None)"
| "match_shape pre (Lit l # ps) (Tail n # ss) = (if \<not> pre \<and> l = [] then Some None else None)"
| "match_shape pre (Var v # ps) (Const s # ss) =
     (if s = [] then Some None else map_option (map_option ((#) (v, Const s))) (match_shape pre ps ss))"
| "match_shape pre (Var v # ps) (Arg n # ss) = map_option (map_option ((#) (v, Arg n))) (match_shape pre ps ss)"
| "match_shape pre (Var v # ps) (Tail n # ss) = None"
| "match_shape pre (Rest v # ps) ss =
     (case ss of [Tail n] \<Rightarrow> if ps = [] then Some (Some [(v, Tail n)]) else None | _ \<Rightarrow> None)"

type_synonym parsed_route = "string list \<times> bool \<times> template_segment list \<times> string"

definition parsed_route :: "route \<Rightarrow> parsed_route" where
  "parsed_route rt = (rt_methods rt, rt_prefix rt, template_segments (rt_template rt), rt_handler rt)"

fun shape_route :: "string \<Rightarrow> shape list \<Rightarrow> parsed_route list \<Rightarrow> (string \<times> (string \<times> shape) list) option" where
  "shape_route meth ss [] = None"
| "shape_route meth ss ((ms, pre, ps, h) # rts) =
     (if ms \<noteq> [] \<and> meth \<notin> set ms then shape_route meth ss rts
      else case match_shape pre ps ss of
             None \<Rightarrow> None
           | Some None \<Rightarrow> shape_route meth ss rts
           | Some (Some b) \<Rightarrow> Some (h, b))"

definition bound :: "(nat \<Rightarrow> string) \<Rightarrow> (string \<times> shape) list \<Rightarrow> (string \<times> string) list" where
  "bound x b = map (\<lambda>(v, s). (v, shape_text x s)) b"

lemma join_split: "join_with [c] (split_at c s) = s"
proof (induction s)
  case (Cons a s)
  obtain p ps where ps: "split_at c s = p # ps" using split_at_never_empty by (metis list.exhaust)
  then show ?case using Cons by (cases "a = c") (auto simp: join_with_def)
qed (simp add: join_with_def)

lemma plain_first: "plain_file_path p \<Longrightarrow> \<exists>s ss. split_at CHR ''/'' p = s # ss \<and> s \<noteq> []"
  using split_at_never_empty [of "CHR ''/''" p]
  by (cases "split_at CHR ''/'' p") (auto simp: plain_file_path_def plain_segment_def)

lemma shape_segments_nonempty [simp]: "shape_segments x s \<noteq> []"
  by (cases s) (simp_all add: split_at_never_empty)

lemma bound_Cons: "map_of (bound x ((v, s) # b)) = (map_of (bound x b))(v \<mapsto> shape_text x s)"
  by (simp add: bound_def)

lemma match_shape_sound:
  "match_shape pre ps ss = Some r \<Longrightarrow> list_all (shape_ok x) ss \<Longrightarrow>
   match_segments pre ps (concat (map (shape_segments x) ss)) = map_option (\<lambda>b. map_of (bound x b)) r"
proof (induction pre ps ss arbitrary: r rule: match_shape.induct)
  case (2 pre s ss)
  then show ?case by (cases "concat (map (shape_segments x) (s # ss))") auto
next
  case (6 pre l ps n ss)
  then show ?case by (auto simp: plain_segment_def split: if_splits)
next
  case (7 pre l ps n ss)
  then show ?case using plain_first [of "x n"] by (auto split: if_splits)
next
  case (8 pre v ps s ss)
  then show ?case by (auto simp: bound_Cons option.map_comp comp_def split: if_splits)
next
  case (9 pre v ps n ss)
  then show ?case by (auto simp: plain_segment_def bound_Cons option.map_comp comp_def)
next
  case (11 pre v ps ss)
  then show ?case
    by (auto simp: bound_def plain_file_path_def list_all_iff join_split split_at_never_empty
        split: list.splits shape.splits if_splits)
qed (auto simp: bound_def split: if_splits)

lemma shape_route_sound:
  assumes "\<forall>rt \<in> set rts. \<forall>path. M (rt_prefix rt) (rt_template rt) path
             = match_segments (rt_prefix rt) (template_segments (rt_template rt)) (split_at CHR ''/'' path)"
    and "list_all (shape_ok x) ss" "split_at CHR ''/'' p = concat (map (shape_segments x) ss)"
    and "shape_route meth ss (map parsed_route rts) = Some (h, b)"
  shows "\<exists>rt. first_match M meth p rts = Some (rt, map_of (bound x b)) \<and> rt_handler rt = h"
  using assms(1,4)
proof (induction rts)
  case (Cons rt rts)
  have here: "M (rt_prefix rt) (rt_template rt) p
      = match_segments (rt_prefix rt) (template_segments (rt_template rt)) (concat (map (shape_segments x) ss))"
    using Cons.prems(1) assms(3) by simp
  show ?case
  proof (cases "takes rt meth")
    case True
    then obtain r where r: "match_shape (rt_prefix rt) (template_segments (rt_template rt)) ss = Some r"
      using Cons.prems(2) by (auto simp: parsed_route_def takes_def split: option.splits)
    then have "M (rt_prefix rt) (rt_template rt) p = map_option (\<lambda>b. map_of (bound x b)) r"
      using here match_shape_sound [OF r assms(2)] by simp
    then show ?thesis using Cons r True by (auto simp: parsed_route_def takes_def split: option.splits)
  next
    case False
    then show ?thesis using Cons by (auto simp: parsed_route_def takes_def split: option.splits)
  qed
qed simp

subsection \<open>Escaped paths\<close>

lemma unescape_plain: "c \<noteq> CHR ''%'' \<Longrightarrow> path_unescape (c # rest) = map_option ((#) c) (path_unescape rest)"
  by simp

lemma unescape_path_escaped: "path_unescape (path_escaped c @ rest) = map_option ((#) c) (path_unescape rest)"
proof -
  have "of_char c div 16 < (16::nat)" using nat_of_char_less_256 [of c] by linarith
  moreover have "char_of (of_char c div 16 * 16 + of_char c mod 16 :: nat) = c" by simp
  moreover have "c \<noteq> CHR ''%''" if "path_plain c"
    using that by (auto simp: path_plain_def unreserved_def)
  ultimately show ?thesis by (auto simp: path_escaped_def hex_round_trip)
qed

lemma unescape_PathEscape: "path_unescape (PathEscape s @ rest) = map_option ((@) s) (path_unescape rest)"
  by (induction s) (simp_all add: PathEscape_def unescape_path_escaped option.map_comp comp_def option.map_ident)

text \<open>An escape has no mark of a URL in it.\<close>

definition url_mark :: "char \<Rightarrow> bool" where
  "url_mark c \<longleftrightarrow> c \<in> {CHR ''?'', CHR ''#'', CHR ''/''}"

lemma no_mark: "c \<in> set (PathEscape s) \<Longrightarrow> \<not> url_mark c"
proof -
  have hex: "upper_hex n \<in> set ''0123456789ABCDEF''" for n
    unfolding upper_hex_def by (rule nth_mem) simp
  have "list_all (\<lambda>c. \<not> url_mark c) ''0123456789ABCDEF''" by code_simp
  then have "\<not> url_mark (upper_hex n)" for n using hex [of n] unfolding list_all_iff by blast
  then show "c \<in> set (PathEscape s) \<Longrightarrow> \<not> url_mark c"
    by (auto simp: PathEscape_def path_escaped_def path_plain_def unreserved_def url_mark_def split: if_splits)
qed

lemma slash_join: "concat (map (\<lambda>s. CHR ''/'' # s) ss) = (if ss = [] then [] else CHR ''/'' # join_with ''/'' ss)"
proof (induction ss)
  case (Cons s ss)
  then show ?case by (cases ss) (simp_all add: join_with_def)
qed simp

lemma unescape_segments:
  "path_unescape (concat (map (\<lambda>s. CHR ''/'' # PathEscape s) ss) @ rest)
     = map_option ((@) (concat (map (\<lambda>s. CHR ''/'' # s) ss))) (path_unescape rest)"
  by (induction ss)
    (simp_all add: unescape_PathEscape option.map_comp comp_def option.map_ident del: path_unescape.simps(2)
      add: unescape_plain)

lemma encodeFilePath_slash: "CHR ''/'' # encodeFilePath p = concat (map (\<lambda>s. CHR ''/'' # PathEscape s) (split_at CHR ''/'' p))"
proof -
  have "concat (map (\<lambda>s. CHR ''/'' # s) (map PathEscape (split_at CHR ''/'' p)))
      = CHR ''/'' # join_with ''/'' (map PathEscape (split_at CHR ''/'' p))"
    by (simp only: slash_join) (simp add: split_at_never_empty)
  then show ?thesis by (simp add: encodeFilePath_def joinPath_def comp_def)
qed

lemma slash_tail: "CHR ''/'' # p = concat (map (\<lambda>s. CHR ''/'' # s) (split_at CHR ''/'' p))"
  by (simp add: slash_join split_at_never_empty join_split)

text \<open>A fixed part of a path needs no escape.\<close>

fun const_ok :: "shape \<Rightarrow> bool" where
  "const_ok (Const s) = (list_all (\<lambda>c. path_plain c) s)"
| "const_ok _ = True"

lemma plain_is_escaped: "list_all path_plain s \<Longrightarrow> PathEscape s = s"
  by (induction s) (simp_all add: PathEscape_def path_escaped_def)

lemma escaped_segments:
  "const_ok s \<Longrightarrow> CHR ''/'' # shape_escaped x s = concat (map (\<lambda>t. CHR ''/'' # PathEscape t) (shape_segments x s))"
  by (cases s) (simp_all add: plain_is_escaped encodeFilePath_slash)

lemma escaped_path:
  "list_all const_ok ss \<Longrightarrow> concat (map (\<lambda>s. CHR ''/'' # shape_escaped x s) ss)
     = concat (map (\<lambda>t. CHR ''/'' # PathEscape t) (concat (map (shape_segments x) ss)))"
  by (induction ss) (simp_all add: escaped_segments [simplified])

definition query_start :: "string \<Rightarrow> bool" where
  "query_start q \<longleftrightarrow> q = [] \<or> hd q = CHR ''?''"

lemma query_start_simps [simp]:
  "query_start []" "query_start (CHR ''?'' # q)" "query_start (if e = [] then [] else CHR ''?'' # e)"
  "query_start (let e = x in if e = [] then [] else ''?'' @ e)"
  by (simp_all add: query_start_def Let_def)

lemma before_query:
  assumes "query_start q" "\<forall>c \<in> set s. c \<noteq> CHR ''?''"
  shows "takeWhile (\<lambda>c. c \<noteq> CHR ''?'') (s @ q) = s"
  using assms by (cases q) (auto simp: query_start_def takeWhile_append)

lemma sent_shape:
  assumes "list_all const_ok ss" "query_start q"
    and "''/api/v1'' @ op_path ac = concat (map (\<lambda>s. CHR ''/'' # shape_escaped x s) ss) @ q"
  shows "sent_path ac = Some (concat (map (\<lambda>t. CHR ''/'' # t) (concat (map (shape_segments x) ss))))"
proof -
  let ?e = "concat (map (\<lambda>t. CHR ''/'' # PathEscape t) (concat (map (shape_segments x) ss)))"
  have "\<forall>c \<in> set ?e. c \<noteq> CHR ''?''"
  proof
    fix c assume "c \<in> set ?e"
    then have "c = CHR ''/'' \<or> (\<exists>t. c \<in> set (PathEscape t))" by (auto split: if_splits)
    then show "c \<noteq> CHR ''?''" using no_mark [of c] by (auto simp: url_mark_def)
  qed
  then have "takeWhile (\<lambda>c. c \<noteq> CHR ''?'') (?e @ q) = ?e" by (rule before_query [OF assms(2)])
  moreover have "''/api/v1'' @ op_path ac = ?e @ q" using assms(3) unfolding escaped_path [OF assms(1)] .
  ultimately show ?thesis
    using unescape_segments [of "concat (map (shape_segments x) ss)" "[]"] unfolding sent_path_def by simp
qed

subsection \<open>Clean paths\<close>

lemma split_segments:
  "list_all (\<lambda>s. CHR ''/'' \<notin> set s) ss \<Longrightarrow> split_at CHR ''/'' (concat (map (\<lambda>s. CHR ''/'' # s) ss)) = [] # ss"
proof (induction ss)
  case (Cons s ss)
  have "split_at CHR ''/'' (s @ concat (map (\<lambda>s. CHR ''/'' # s) ss)) = s # ss"
  proof (cases ss)
    case Nil
    then show ?thesis using Cons.prems by (simp add: split_at_none)
  next
    case more: (Cons t ts)
    have "split_at CHR ''/'' (concat (map (\<lambda>s. CHR ''/'' # s) ss)) = [] # ss" using Cons by simp
    then have "split_at CHR ''/'' (t @ concat (map (\<lambda>s. CHR ''/'' # s) ts)) = t # ts" by (simp add: more)
    then show ?thesis using Cons.prems split_at_mark [of "CHR ''/''" s] by (simp add: more)
  qed
  then show ?case by simp
qed simp

lemma clean_keeps: "list_all plain_segment ss \<Longrightarrow> foldl clean_step st ss = rev ss @ st"
  by (induction ss arbitrary: st) (auto simp: plain_segment_def clean_step_def)

lemma clean_segments_path:
  assumes "list_all plain_segment ss" "ss \<noteq> []" "e = [] \<or> e = [[]]"
  shows "clean_path (concat (map (\<lambda>s. CHR ''/'' # s) (ss @ e)))"
proof -
  have "list_all (\<lambda>s. CHR ''/'' \<notin> set s) ss"
    by (rule list.pred_mono_strong [OF assms(1)]) (simp add: plain_segment_def)
  then have "list_all (\<lambda>s. CHR ''/'' \<notin> set s) (ss @ e)" using assms(3) by auto
  then have split: "split_at CHR ''/'' (concat (map (\<lambda>s. CHR ''/'' # s) (ss @ e))) = [] # ss @ e"
    by (rule split_segments)
  have "clean_segments (concat (map (\<lambda>s. CHR ''/'' # s) (ss @ e))) = ss"
    unfolding clean_segments_def split using assms(3)
    by (auto simp: clean_keeps [OF assms(1)] clean_step_def)
  then have "CleanRooted (concat (map (\<lambda>s. CHR ''/'' # s) (ss @ e))) = concat (map (\<lambda>s. CHR ''/'' # s) ss)"
    using assms(2) unfolding CleanRooted_def rooted_def slash_join by simp
  then show ?thesis using assms(3) unfolding clean_path_def by auto
qed

section \<open>The calls and their handlers\<close>

text \<open>Every operation of the client, with the handler it is meant for and the variables that handler
  reads from the path. The identifiers are \<open>a\<close> and \<open>b\<close>, the path of a file \<open>f\<close>, a port \<open>n\<close>.\<close>

definition client_calls ::
  "string \<Rightarrow> string \<Rightarrow> string \<Rightarrow> int \<Rightarrow> string \<Rightarrow> string \<Rightarrow> string list \<Rightarrow> json \<Rightarrow> json list
   \<Rightarrow> (api_call \<times> string \<times> (string \<times> string) list) list" where
  "client_calls a b f n c d ids j js =
     [(Client_CreateSandbox j, ''handleCreateSandbox'', []),
      (Client_GetSandbox a, ''handleGetSandbox'', [(''id'', a)]),
      (Client_DeleteSandbox a, ''handleDeleteSandbox'', [(''id'', a)]),
      (Client_StopSandbox a, ''handleStopSandbox'', [(''id'', a)]),
      (Client_ResumeSandbox a, ''handleResumeSandbox'', [(''id'', a)]),
      (Client_CloneSandbox a j, ''handleCloneSandbox'', [(''id'', a)]),
      (Client_ExecCommand a j, ''handleExecCommand'', [(''id'', a)]),
      (Client_PatchSandbox a j, ''handlePatchSandbox'', [(''id'', a)]),
      (Client_ListPorts a, ''handleListPorts'', [(''id'', a)]),
      (Client_GetSharing a, ''handleGetSharing'', [(''id'', a)]),
      (Client_ShareSandbox a j, ''handleShareSandbox'', [(''id'', a)]),
      (Client_RevokeShare a b, ''handleRevokeShare'', [(''id'', a), (''userId'', b)]),
      (Client_CreateShareLink a j, ''handleCreateShareLink'', [(''id'', a)]),
      (Client_ListBackups a, ''handleListBackups'', [(''id'', a)]),
      (Client_CreateBackup a j, ''handleCreateBackup'', [(''id'', a)]),
      (Client_RestoreBackup a b j, ''handleRestoreBackup'', [(''id'', a), (''snapshotName'', b)]),
      (Client_DeleteBackup a b, ''handleDeleteBackup'', [(''id'', a), (''snapshotName'', b)]),
      (Client_ListTemplates, ''handleListTemplates'', []),
      (Client_GetTemplate a, ''handleGetTemplate'', [(''name'', a)]),
      (Client_CreateTemplate j, ''handleCreateTemplate'', []),
      (Client_UpdateTemplate a j, ''handleUpdateTemplate'', [(''name'', a)]),
      (Client_DeleteTemplate a, ''handleDeleteTemplate'', [(''name'', a)]),
      (Client_GetWarmPoolStatus, ''handleGetWarmPoolStatus'', []),
      (Client_SetWarmPoolConfig j, ''handleSetWarmPoolConfig'', []),
      (Client_GetClusterStatus, ''handleGetClusterStatus'', []),
      (Client_GetClusterNodes, ''handleGetClusterNodes'', []),
      (Client_GetHeadroomConfig, ''handleGetHeadroomConfig'', []),
      (Client_SetHeadroomConfig j, ''handleSetHeadroomConfig'', []),
      (Client_ListPolicies, ''handleListPolicies'', []),
      (Client_SetClusterPolicy j, ''handleUpsertClusterPolicy'', []),
      (Client_GetPolicy a, ''handleGetPolicy'', [(''namespace'', a)]),
      (Client_SetPolicy a j, ''handleSetPolicy'', [(''namespace'', a)]),
      (Client_DeletePolicy a, ''handleDeletePolicy'', [(''namespace'', a)]),
      (Client_ListAuditEvents, ''handleListAuditEvents'', []),
      (Client_GetUsageAnalytics, ''handleGetUsageAnalytics'', []),
      (Client_GetCostEstimates, ''handleGetCostEstimates'', []),
      (Client_AdminListSandboxes, ''handleAdminListSandboxes'', []),
      (Client_AdminListSharing, ''handleAdminListSharing'', []),
      (Client_CreateWebhook j, ''handleCreateWebhook'', []),
      (Client_ListWebhooks, ''handleListWebhooks'', []),
      (Client_DeleteWebhook a, ''handleDeleteWebhook'', [(''id'', a)]),
      (Client_GetWebhookDeliveries a, ''handleGetWebhookDeliveries'', [(''id'', a)]),
      (Client_GetCurrentUser, ''handleGetMe'', []), (Client_GetPreferences, ''handleGetPreferences'', []),
      (Client_UpdatePreferences j, ''handleUpdatePreferences'', []),
      (Client_ListAPIKeys, ''handleListAPIKeys'', []), (Client_CreateAPIKey j, ''handleCreateAPIKey'', []),
      (Client_RevokeAPIKey a, ''handleRevokeAPIKey'', [(''keyId'', a)]),
      (Client_ListSandboxes c d, ''handleListSandboxes'', []),
      (Client_BulkCreateSandboxes js, ''handleBulkCreate'', []),
      (Client_BulkAction c ids, ''handleBulkAction'', []),
      (Client_ListFiles a c, ''handleListFiles'', [(''id'', a)]),
      (Client_GetFile a f, ''handleGetFile'', [(''id'', a), (''path'', f)]),
      (Client_PutFile a f d, ''handlePutFile'', [(''id'', a), (''path'', f)]),
      (Client_ForwardPort a n c, ''handleForwardPort'', [(''id'', a)]),
      (Client_RemovePort a n, ''handleRemovePort'', [(''id'', a), (''port'', show_int n)]),
      (Client_GetEffectivePolicy c, ''handleGetEffectivePolicy'', [])]"

text \<open>The same table by shapes, below \<open>/api/v1\<close>.\<close>

definition sandbox_shapes :: "(string \<times> shape list \<times> string \<times> (string \<times> shape) list) list" where
  "sandbox_shapes =
     [(''POST'', [Const ''sandboxes''], ''handleCreateSandbox'', []),
      (''GET'', [Const ''sandboxes'', Arg 0], ''handleGetSandbox'', [(''id'', Arg 0)]),
      (''DELETE'', [Const ''sandboxes'', Arg 0], ''handleDeleteSandbox'', [(''id'', Arg 0)]),
      (''POST'', [Const ''sandboxes'', Arg 0, Const ''stop''], ''handleStopSandbox'', [(''id'', Arg 0)]),
      (''POST'', [Const ''sandboxes'', Arg 0, Const ''resume''], ''handleResumeSandbox'', [(''id'', Arg 0)]),
      (''POST'', [Const ''sandboxes'', Arg 0, Const ''clone''], ''handleCloneSandbox'', [(''id'', Arg 0)]),
      (''POST'', [Const ''sandboxes'', Arg 0, Const ''exec''], ''handleExecCommand'', [(''id'', Arg 0)]),
      (''PATCH'', [Const ''sandboxes'', Arg 0], ''handlePatchSandbox'', [(''id'', Arg 0)]),
      (''GET'', [Const ''sandboxes'', Arg 0, Const ''ports''], ''handleListPorts'', [(''id'', Arg 0)]),
      (''GET'', [Const ''sandboxes'', Arg 0, Const ''share''], ''handleGetSharing'', [(''id'', Arg 0)]),
      (''POST'', [Const ''sandboxes'', Arg 0, Const ''share''], ''handleShareSandbox'', [(''id'', Arg 0)])]"

definition owner_shapes :: "(string \<times> shape list \<times> string \<times> (string \<times> shape) list) list" where
  "owner_shapes =
     [(''DELETE'', [Const ''sandboxes'', Arg 0, Const ''share'', Arg 1], ''handleRevokeShare'', [(''id'', Arg 0), (''userId'', Arg 1)]),
      (''POST'', [Const ''sandboxes'', Arg 0, Const ''share-links''], ''handleCreateShareLink'', [(''id'', Arg 0)]),
      (''GET'', [Const ''sandboxes'', Arg 0, Const ''backups''], ''handleListBackups'', [(''id'', Arg 0)]),
      (''POST'', [Const ''sandboxes'', Arg 0, Const ''backups''], ''handleCreateBackup'', [(''id'', Arg 0)]),
      (''POST'', [Const ''sandboxes'', Arg 0, Const ''backups'', Arg 1, Const ''restore''], ''handleRestoreBackup'', [(''id'', Arg 0), (''snapshotName'', Arg 1)]),
      (''DELETE'', [Const ''sandboxes'', Arg 0, Const ''backups'', Arg 1], ''handleDeleteBackup'', [(''id'', Arg 0), (''snapshotName'', Arg 1)]),
      (''GET'', [Const ''templates''], ''handleListTemplates'', []),
      (''GET'', [Const ''templates'', Arg 0], ''handleGetTemplate'', [(''name'', Arg 0)]),
      (''POST'', [Const ''templates''], ''handleCreateTemplate'', []),
      (''PUT'', [Const ''templates'', Arg 0], ''handleUpdateTemplate'', [(''name'', Arg 0)]),
      (''DELETE'', [Const ''templates'', Arg 0], ''handleDeleteTemplate'', [(''name'', Arg 0)])]"

definition console_shapes :: "(string \<times> shape list \<times> string \<times> (string \<times> shape) list) list" where
  "console_shapes =
     [(''GET'', [Const ''warmpool'', Const ''status''], ''handleGetWarmPoolStatus'', []),
      (''PUT'', [Const ''warmpool'', Const ''config''], ''handleSetWarmPoolConfig'', []),
      (''GET'', [Const ''cluster'', Const ''status''], ''handleGetClusterStatus'', []),
      (''GET'', [Const ''cluster'', Const ''nodes''], ''handleGetClusterNodes'', []),
      (''GET'', [Const ''cluster'', Const ''headroom''], ''handleGetHeadroomConfig'', []),
      (''PUT'', [Const ''cluster'', Const ''headroom''], ''handleSetHeadroomConfig'', []),
      (''GET'', [Const ''governance'', Const ''policies''], ''handleListPolicies'', []),
      (''PUT'', [Const ''governance'', Const ''policies''], ''handleUpsertClusterPolicy'', []),
      (''GET'', [Const ''governance'', Const ''policies'', Arg 0], ''handleGetPolicy'', [(''namespace'', Arg 0)]),
      (''PUT'', [Const ''governance'', Const ''policies'', Arg 0], ''handleSetPolicy'', [(''namespace'', Arg 0)]),
      (''DELETE'', [Const ''governance'', Const ''policies'', Arg 0], ''handleDeletePolicy'', [(''namespace'', Arg 0)]),
      (''GET'', [Const ''audit'', Const ''events''], ''handleListAuditEvents'', []),
      (''GET'', [Const ''analytics'', Const ''usage''], ''handleGetUsageAnalytics'', []),
      (''GET'', [Const ''analytics'', Const ''costs''], ''handleGetCostEstimates'', []),
      (''GET'', [Const ''admin'', Const ''sandboxes''], ''handleAdminListSandboxes'', []),
      (''GET'', [Const ''admin'', Const ''sharing''], ''handleAdminListSharing'', [])]"

definition user_shapes :: "(string \<times> shape list \<times> string \<times> (string \<times> shape) list) list" where
  "user_shapes =
     [(''POST'', [Const ''webhooks''], ''handleCreateWebhook'', []),
      (''GET'', [Const ''webhooks''], ''handleListWebhooks'', []),
      (''DELETE'', [Const ''webhooks'', Arg 0], ''handleDeleteWebhook'', [(''id'', Arg 0)]),
      (''GET'', [Const ''webhooks'', Arg 0, Const ''deliveries''], ''handleGetWebhookDeliveries'', [(''id'', Arg 0)]),
      (''GET'', [Const ''user'', Const ''me''], ''handleGetMe'', []),
      (''GET'', [Const ''user'', Const ''preferences''], ''handleGetPreferences'', []),
      (''PUT'', [Const ''user'', Const ''preferences''], ''handleUpdatePreferences'', []),
      (''GET'', [Const ''user'', Const ''api-keys''], ''handleListAPIKeys'', []),
      (''POST'', [Const ''user'', Const ''api-keys''], ''handleCreateAPIKey'', []),
      (''DELETE'', [Const ''user'', Const ''api-keys'', Arg 0], ''handleRevokeAPIKey'', [(''keyId'', Arg 0)])]"

definition other_shapes :: "(string \<times> shape list \<times> string \<times> (string \<times> shape) list) list" where
  "other_shapes =
     [(''GET'', [Const ''sandboxes''], ''handleListSandboxes'', []),
      (''POST'', [Const ''sandboxes'', Const ''bulk''], ''handleBulkCreate'', []),
      (''POST'', [Const ''sandboxes'', Const ''bulk-action''], ''handleBulkAction'', []),
      (''GET'', [Const ''sandboxes'', Arg 0, Const ''files'', Const ''''], ''handleListFiles'', [(''id'', Arg 0)]),
      (''GET'', [Const ''sandboxes'', Arg 0, Const ''files'', Tail 2], ''handleGetFile'', [(''id'', Arg 0), (''path'', Tail 2)]),
      (''PUT'', [Const ''sandboxes'', Arg 0, Const ''files'', Tail 2], ''handlePutFile'', [(''id'', Arg 0), (''path'', Tail 2)]),
      (''POST'', [Const ''sandboxes'', Arg 0, Const ''ports''], ''handleForwardPort'', [(''id'', Arg 0)]),
      (''DELETE'', [Const ''sandboxes'', Arg 0, Const ''ports'', Arg 3], ''handleRemovePort'', [(''id'', Arg 0), (''port'', Arg 3)]),
      (''GET'', [Const ''governance'', Const ''effective''], ''handleGetEffectivePolicy'', [])]"

definition call_shapes :: "(string \<times> shape list \<times> string \<times> (string \<times> shape) list) list" where
  "call_shapes = sandbox_shapes @ owner_shapes @ console_shapes @ user_shapes @ other_shapes"

definition api_shape :: "shape list \<Rightarrow> shape list" where
  "api_shape ss = Const ''api'' # Const ''v1'' # ss"

text \<open>Only the last segment may be empty, and what is fixed is neither empty nor a dot otherwise.\<close>

fun well_formed :: "shape list \<Rightarrow> bool" where
  "well_formed [] = True"
| "well_formed (Const s # ss) = (list_all path_plain s \<and> (if s = [] then ss = [] else s \<notin> {''.'', ''..''}) \<and> well_formed ss)"
| "well_formed (Arg n # ss) = well_formed ss"
| "well_formed (Tail n # ss) = well_formed ss"

definition shape_arrives ::
  "parsed_route list \<Rightarrow> string \<times> shape list \<times> string \<times> (string \<times> shape) list \<Rightarrow> bool" where
  "shape_arrives rts e =
     (case e of (meth, ss, h, b) \<Rightarrow>
        shape_route meth (Const [] # api_shape ss) rts = Some (h, b) \<and> well_formed ss)"

lemma sandbox_shapes_arrive: "list_all (shape_arrives (map parsed_route routes)) sandbox_shapes"
  by code_simp

lemma owner_shapes_arrive: "list_all (shape_arrives (map parsed_route routes)) owner_shapes"
  by code_simp

lemma console_shapes_arrive: "list_all (shape_arrives (map parsed_route routes)) console_shapes"
  by code_simp

lemma user_shapes_arrive: "list_all (shape_arrives (map parsed_route routes)) user_shapes"
  by code_simp

lemma other_shapes_arrive: "list_all (shape_arrives (map parsed_route routes)) other_shapes"
  by code_simp

lemma shapes_arrive: "list_all (shape_arrives (map parsed_route routes)) call_shapes"
  by (simp only: call_shapes_def list_all_append sandbox_shapes_arrive owner_shapes_arrive console_shapes_arrive user_shapes_arrive other_shapes_arrive)

lemma well_formed_const: "well_formed ss \<Longrightarrow> list_all const_ok ss"
  by (induction ss rule: well_formed.induct) simp_all

lemma slash_escaped: "\<not> path_plain CHR ''/''"
  by code_simp

lemma no_slash: "list_all path_plain s \<Longrightarrow> CHR ''/'' \<notin> set s"
  using slash_escaped by (auto simp: list_all_iff)

lemma well_formed_segments:
  "well_formed ss \<Longrightarrow> list_all (shape_ok x) ss \<Longrightarrow>
   \<exists>segs e. concat (map (shape_segments x) ss) = segs @ e \<and> list_all plain_segment segs \<and> (e = [] \<or> e = [[]])"
proof (induction ss rule: well_formed.induct)
  case (2 s ss)
  show ?case
  proof (cases "s = []")
    case True
    then have "concat (map (shape_segments x) (Const s # ss)) = [] @ [[]]" using 2 by simp
    then show ?thesis by (metis list.pred_inject(1))
  next
    case False
    then obtain segs e where se: "concat (map (shape_segments x) ss) = segs @ e" "list_all plain_segment segs"
      "e = [] \<or> e = [[]]" using 2 by auto
    have "plain_segment s" using 2 False no_slash by (simp add: plain_segment_def)
    then have "concat (map (shape_segments x) (Const s # ss)) = (s # segs) @ e \<and> list_all plain_segment (s # segs)"
      using se by simp
    then show ?thesis using se(3) by blast
  qed
next
  case (3 n ss)
  then obtain segs e where se: "concat (map (shape_segments x) ss) = segs @ e" "list_all plain_segment segs"
    "e = [] \<or> e = [[]]" by auto
  have "concat (map (shape_segments x) (Arg n # ss)) = (x n # segs) @ e \<and> list_all plain_segment (x n # segs)"
    using se 3 by simp
  then show ?case using se(3) by blast
next
  case (4 n ss)
  then obtain segs e where se: "concat (map (shape_segments x) ss) = segs @ e" "list_all plain_segment segs"
    "e = [] \<or> e = [[]]" by auto
  have "list_all plain_segment (split_at CHR ''/'' (x n))"
    using 4 by (auto simp: plain_file_path_def list_all_iff)
  then have "concat (map (shape_segments x) (Tail n # ss)) = (split_at CHR ''/'' (x n) @ segs) @ e
      \<and> list_all plain_segment (split_at CHR ''/'' (x n) @ segs)"
    using se by simp
  then show ?case using se(3) by blast
qed simp

lemma plain_api: "plain_segment ''api'' \<and> plain_segment ''v1''"
  by (simp add: plain_segment_def)

lemma shape_reaches:
  assumes doc: "documented_matching M" and arrives: "shape_arrives (map parsed_route routes) (op_method ac, ss, h, b)"
    and args: "list_all (shape_ok x) ss" and q: "query_start q"
    and path: "op_path ac = concat (map (\<lambda>s. CHR ''/'' # shape_escaped x s) ss) @ q"
  shows "reaches M ac h (map_of (bound x b))"
proof -
  let ?all = "concat (map (shape_segments x) (api_shape ss))"
  let ?p = "concat (map (\<lambda>t. CHR ''/'' # t) ?all)"
  have formed: "well_formed ss" and route: "shape_route (op_method ac) (Const [] # api_shape ss) (map parsed_route routes) = Some (h, b)"
    using arrives by (simp_all add: shape_arrives_def)
  have fixed: "list_all const_ok (api_shape ss)"
    using well_formed_const [OF formed] by (simp add: api_shape_def path_plain_def unreserved_def)
  have "''/api/v1'' @ op_path ac = concat (map (\<lambda>s. CHR ''/'' # shape_escaped x s) (api_shape ss)) @ q"
    by (simp add: path api_shape_def)
  then have sent: "sent_path ac = Some ?p" by (rule sent_shape [OF fixed q])
  obtain segs e where se: "concat (map (shape_segments x) ss) = segs @ e" "list_all plain_segment segs"
    "e = [] \<or> e = [[]]" using well_formed_segments [OF formed args] by blast
  have all: "?all = (''api'' # ''v1'' # segs) @ e" using se(1) by (simp add: api_shape_def)
  have clean: "clean_path ?p"
    unfolding all by (rule clean_segments_path) (use se plain_api in simp_all)
  have "list_all (\<lambda>s. CHR ''/'' \<notin> set s) (''api'' # ''v1'' # segs)"
    using se(2) by (auto simp: list_all_iff plain_segment_def)
  then have "list_all (\<lambda>s. CHR ''/'' \<notin> set s) ?all" unfolding all using se(3) by auto
  then have "split_at CHR ''/'' ?p = [] # ?all" by (rule split_segments)
  then have split: "split_at CHR ''/'' ?p = concat (map (shape_segments x) (Const [] # api_shape ss))" by simp
  have "list_all (shape_ok x) (Const [] # api_shape ss)" using args by (simp add: api_shape_def)
  from shape_route_sound [OF doc [unfolded documented_matching_def] this split route]
  show ?thesis using sent clean unfolding reaches_def by blast
qed

definition described ::
  "(nat \<Rightarrow> string) \<Rightarrow> api_call \<times> string \<times> (string \<times> string) list \<Rightarrow> string \<times> shape list \<times> string \<times> (string \<times> shape) list \<Rightarrow> bool" where
  "described x c e \<longleftrightarrow>
     (case (c, e) of ((ac, h, v), (meth, ss, h', b)) \<Rightarrow>
        op_method ac = meth \<and> h = h' \<and> v = bound x b \<and> list_all (shape_ok x) ss
        \<and> (\<exists>q. query_start q \<and> concat (map (\<lambda>s. CHR ''/'' # shape_escaped x s) ss) @ q = op_path ac))"

lemma described_reaches:
  assumes "documented_matching M" "list_all2 (described x) cs es" "list_all (shape_arrives (map parsed_route routes)) es"
  shows "list_all (\<lambda>(ac, h, v). reaches M ac h (map_of v)) cs"
  using assms(2,3)
proof (induction cs es rule: list_all2_induct)
  case (Cons c cs e es)
  obtain ac h v where c: "c = (ac, h, v)" by (cases c)
  obtain meth ss h' b where e: "e = (meth, ss, h', b)" by (cases e)
  obtain q where "query_start q" "op_path ac = concat (map (\<lambda>s. CHR ''/'' # shape_escaped x s) ss) @ q"
    "op_method ac = meth" "h = h'" "v = bound x b" "list_all (shape_ok x) ss"
    using Cons.hyps(1) by (auto simp: described_def c e)
  moreover have "shape_arrives (map parsed_route routes) (meth, ss, h', b)" using Cons.prems by (simp add: e)
  ultimately have "reaches M ac h (map_of v)" using shape_reaches [OF assms(1), of ac ss h b x q] by simp
  then show ?case using Cons by (simp add: c)
qed simp

definition call_args :: "string \<Rightarrow> string \<Rightarrow> string \<Rightarrow> int \<Rightarrow> nat \<Rightarrow> string" where
  "call_args a b f n k = [a, b, f, show_int n] ! k"

lemma call_args_simps [simp]:
  "call_args a b f n 0 = a" "call_args a b f n (Suc 0) = b" "call_args a b f n 2 = f" "call_args a b f n 3 = show_int n"
  by (simp_all add: call_args_def)

lemma digits_plain: "list_all is_digit s \<Longrightarrow> list_all path_plain s"
proof -
  have "list_all path_plain ''0123456789''" by code_simp
  then show "list_all is_digit s \<Longrightarrow> list_all path_plain s"
    unfolding list_all_iff is_digit_def by blast
qed

lemma port_plain: "0 \<le> n \<Longrightarrow> plain_segment (show_int n) \<and> PathEscape (show_int n) = show_int n"
proof -
  assume "0 \<le> n"
  then have digits: "list_all is_digit (show_int n)" by (rule show_int_digits)
  moreover have "show_int n \<noteq> []" using \<open>0 \<le> n\<close> hd_show_nat by (simp add: show_int_nat)
  moreover have "s \<noteq> ''.'' \<and> s \<noteq> ''..''" if "list_all is_digit s" for s
    using that by (auto simp: is_digit_def)
  moreover have "list_all path_plain (show_int n)" using digits by (rule digits_plain)
  ultimately show ?thesis using plain_is_escaped no_slash by (simp add: plain_segment_def)
qed

lemmas call_defs =
    Client_CreateSandbox_def Client_GetSandbox_def Client_DeleteSandbox_def Client_StopSandbox_def
    Client_ResumeSandbox_def Client_CloneSandbox_def Client_ExecCommand_def Client_PatchSandbox_def
    Client_ListPorts_def Client_GetSharing_def Client_ShareSandbox_def Client_RevokeShare_def
    Client_CreateShareLink_def Client_ListBackups_def Client_CreateBackup_def Client_RestoreBackup_def
    Client_DeleteBackup_def Client_ListTemplates_def Client_GetTemplate_def Client_CreateTemplate_def
    Client_UpdateTemplate_def Client_DeleteTemplate_def Client_GetWarmPoolStatus_def
    Client_SetWarmPoolConfig_def Client_GetClusterStatus_def Client_GetClusterNodes_def
    Client_GetHeadroomConfig_def Client_SetHeadroomConfig_def Client_ListPolicies_def
    Client_SetClusterPolicy_def Client_GetPolicy_def Client_SetPolicy_def Client_DeletePolicy_def
    Client_ListAuditEvents_def Client_GetUsageAnalytics_def Client_GetCostEstimates_def
    Client_AdminListSandboxes_def Client_AdminListSharing_def Client_CreateWebhook_def
    Client_ListWebhooks_def Client_DeleteWebhook_def Client_GetWebhookDeliveries_def
    Client_GetCurrentUser_def Client_GetPreferences_def Client_UpdatePreferences_def
    Client_ListAPIKeys_def Client_CreateAPIKey_def Client_RevokeAPIKey_def Client_ListSandboxes_def
    Client_BulkCreateSandboxes_def Client_BulkAction_def Client_ListFiles_def Client_GetFile_def
    Client_PutFile_def Client_ForwardPort_def Client_RemovePort_def Client_GetEffectivePolicy_def

lemma calls_described:
  assumes "plain_segment a" "plain_segment b" "plain_file_path f" "0 \<le> n"
  shows "list_all2 (described (call_args a b f n)) (client_calls a b f n c d ids j js) call_shapes"
  unfolding client_calls_def call_shapes_def sandbox_shapes_def owner_shapes_def console_shapes_def
    user_shapes_def other_shapes_def append.simps
  by (intro list.rel_intros)
    (use assms port_plain [of n] in \<open>simp_all add: described_def bound_def call_defs Client_Get_def
      Client_Post_def Client_Put_def Client_Patch_def Client_Delete_def\<close>)



text \<open>A path that begins with a slash is sent with two slashes in a row, which the multiplexer redirects;
  the same holds for an identity that begins with one.\<close>

lemma absolute_paths_are_redirected:
  "sent_path (Client_PutFile ''demo'' ''/workspace/a.py'' d) = Some ''/api/v1/sandboxes/demo/files//workspace/a.py''"
  "\<not> clean_path ''/api/v1/sandboxes/demo/files//workspace/a.py''"
  "sent_path (Client_RevokeShare ''demo'' ''/staff'') = Some ''/api/v1/sandboxes/demo/share//staff''"
  "\<not> clean_path ''/api/v1/sandboxes/demo/share//staff''"
  by code_simp+

text \<open>The queries arrive too.\<close>

lemma queries_arrive: "parse_query (encode_values [(''path'', v)]) = [(''path'', v)]"
  "parse_query (encode_values [(''namespace'', v)]) = [(''namespace'', v)]"
  "parse_query (encode_values [(''namespace'', v), (''status'', w)]) = [(''namespace'', v), (''status'', w)]"
proof -
  have pair: "parse_pair (pair_text (k, v)) = Some (k, v)" if "k \<in> {''path'', ''namespace'', ''status''}" for k v
    unfolding pair_text_def fst_conv snd_conv by (rule query_pair) (use that in auto)
  have free: "CHR ''&'' \<notin> set (pair_text (k, v))" if "k \<in> {''path'', ''namespace'', ''status''}" for k v
    using that escape_chars by (fastforce simp: pair_text_def)
  show "parse_query (encode_values [(''path'', v)]) = [(''path'', v)]"
    "parse_query (encode_values [(''namespace'', v)]) = [(''namespace'', v)]"
    using pair free by (simp_all add: parse_query_def encode_values_def join_with_def split_at_none map_filter_def)
  show "parse_query (encode_values [(''namespace'', v), (''status'', w)]) = [(''namespace'', v), (''status'', w)]"
    using pair free by (simp add: parse_query_def encode_values_def join_with_def split_at_none split_at_mark map_filter_def)
qed

section \<open>What a caller learns\<close>

text \<open>An error reply of the router comes out as the error of its status and message.\<close>

definition answering :: "client_env \<Rightarrow> reply \<Rightarrow> string \<Rightarrow> wire_response \<Rightarrow> bool" where
  "answering X rp raw r \<longleftrightarrow>
     ws_status r = rp_status rp \<and> ws_body r = Inr raw \<and> raw \<noteq> []
     \<and> (\<exists>kvs. rp_body rp = JObj kvs \<and> ce_object X raw = Inr (map_of kvs))"

lemma refusals_are_reported:
  assumes "\<And>req. ce_build X req = None" "\<And>req. ce_transport X req = Inr r"
    and "answering X (respondError status msg) raw r" "status div 100 \<noteq> 2" "msg \<noteq> []"
    and "\<And>j. \<exists>t. ce_marshal X j = Inr t"
  shows "\<exists>m. fst (call_json X dc c ac) = Inl (APIError status msg (Some m))"
proof -
  have "decodeAPIError X status raw = APIError status msg (Some (map_of [(''error'', JText msg)]))"
    using assms(3,5) by (auto simp: answering_def respondError_def decodeAPIError_def text_field_def)
  moreover have "ws_status r = status" "ws_body r = Inr raw"
    using assms(3) by (auto simp: answering_def respondError_def)
  moreover obtain marshal where "\<And>j. ce_marshal X j = Inr (marshal j)" using assms(6) by metis
  ultimately show ?thesis
    using assms(1,2,4,6)
    by (auto simp: call_json_def client_Do_def DoRawUpload_def exchange_def split: op_body.split sum.split)
qed

text \<open>A caller sees a result only of an answer of class 2xx, and no operation is repeated.\<close>

lemma result_needs_success:
  assumes "fst (call_json X dc c ac) = Inr v"
  shows "\<exists>req r. ce_transport X req = Inr r \<and> ws_status r div 100 = 2 \<and> wq_method req = op_method ac
           \<and> wq_url req = ac_base c @ op_path ac"
  using assms
  by (auto simp: call_json_def client_Do_def DoRawUpload_def exchange_def
      split: op_body.splits sum.splits option.splits if_splits intro!: exI)

text \<open>Each deprecated endpoint is warned of at most once, however many answers arrive.\<close>

fun warnings_of :: "client_env \<Rightarrow> wire_response list \<Rightarrow> api_client \<Rightarrow> (string \<times> string) list" where
  "warnings_of X [] c = []"
| "warnings_of X (r # rs) c =
     map (\<lambda>w. (ws_method r @ '' '' @ ws_path r, w)) (fst (warnIfDeprecated X r c))
     @ warnings_of X rs (snd (warnIfDeprecated X r c))"

lemma warned_once:
  "distinct (map fst (warnings_of X rs c)) \<and> set (map fst (warnings_of X rs c)) \<inter> ac_warned c = {}"
proof (induction rs arbitrary: c)
  case (Cons r rs)
  show ?case
    using Cons [of c] Cons [of "c\<lparr>ac_warned := insert (ws_method r @ '' '' @ ws_path r) (ac_warned c)\<rparr>"]
    by (auto simp: warnIfDeprecated_def Let_def)
qed simp

end
