(* ===== verification/Spec2Isabelle.thy ===== *)
theory Spec2Isabelle
  imports Lifecycle Templates Governance Admission Crypto Pod_Builder Sandbox_Secrets Warm_Pool
    Claim_Safety Reconciler Reconcile_Safety Api_Keys Oidc Access_Control Router_Safety Batch_Safety
    Sharing_Safety Key_Handlers Webhook_Addresses Webhook_Safety Webhook_Handlers Backups Rate_Limit
    Routes Ports File_Safety Exec_Safety Agent_Safety Terminals Runtime Console Client
begin

text \<open>
  A verification library for AgentTier, a Kubernetes platform that runs sandboxes for people
  and AI agents. The program is written in Go. A controller turns \<open>Sandbox\<close> objects into pods; a
  router serves the REST API, runs commands and terminals in the pods and delivers previews of their
  ports; a runtime inside each pod carries out what the router asks; an admission webhook guards the
  objects; and a governance package holds the policies that all of them consult.

  \<^bold>\<open>How the code is modelled.\<close> Go structs are records and string enumerations datatypes, with
  the field and function names of the source (\<open>K8s_Types\<close>, \<open>Api_Types\<close>, \<open>Documents\<close>). Strings
  are byte lists; 32-bit and 64-bit integers and durations are \<open>int\<close> with the wrap-around
  written out (\<open>Prelude\<close>); hashing uses 32-bit words (\<open>Crypto\<close>). A pure function of the code is
  a HOL function. A function that talks to the API server, the clock, the random source, the
  event recorder, a pod or another HTTP server is a program over the state monad (\<open>Prelude\<close>,
  \<open>Api_Calls\<close>): it sends a \<open>request\<close>, an environment \<open>E\<close> answers, and the log keeps every call
  with its answer. \<open>E\<close> is a parameter, so a theorem of the form \<open>traces m P\<close> holds for every
  behaviour of the cluster: conflicts, missing objects, transport errors, an answer of the
  wrong kind, any clock. Errors are the left side of a sum. Where a property needs an API
  server that keeps its word (a write is echoed, an update is accepted at the current version
  only), that is a named hypothesis with a small server that satisfies it. \<open>Guards\<close> holds the
  calculus for properties of one call and of what came before it (\<open>guarded\<close>, \<open>upholds\<close>).

  \<^bold>\<open>The controller.\<close>

  \<^item> \<open>Lifecycle\<close>: \<open>pkg/controller/state_machine.go\<close>, \<open>timeout.go\<close> and the pure part of
    \<open>lifecycle.go\<close>: which action is allowed in which phase, timeouts, requeue delays, restart
    backoff, classification of pod failures. The lemmas give the closed form of each.
  \<^item> \<open>Templates\<close>: \<open>pkg/controller/template_resolver.go\<close>: resolution of a template reference
    along its parents, with the depth bound of ten as the termination measure, the merge of the
    chain and of sandbox, template and controller defaults. The merges are instances of the
    locale \<open>keyed_merge\<close>.
  \<^item> \<open>Governance\<close>: \<open>pkg/governance/policy.go\<close> and \<open>engine.go\<close>: Go's duration parser, policies,
    their ConfigMap store (locale \<open>policy_store\<close>, interpreted on the code's table), usage
    counting and the checks, against a declarative list of rules.
  \<^item> \<open>Admission\<close>: \<open>pkg/controller/webhook/sandbox_webhook.go\<close>.
  \<^item> \<open>Crypto\<close>: base64, hexadecimal and SHA-256 as the code uses them.
  \<^item> \<open>Pod_Builder\<close>: \<open>pkg/controller/pod_builder.go\<close>, \<open>pvc.go\<close> and \<open>networkpolicy.go\<close>: the objects
    built for a sandbox and the operations that ensure they exist. The network lemmas read a
    policy as the traffic it permits.
  \<^item> \<open>Sandbox_Secrets\<close>: \<open>pkg/apikeystore/store.go\<close>, \<open>runtime_token.go\<close>, \<open>scoped_key.go\<close>: the secrets
    of a sandbox, minted, found again and revoked.
  \<^item> \<open>Warm_Pool\<close>: \<open>pkg/controller/warmpool/pool.go\<close>: the pool of pods started ahead of demand.
    \<open>Claim_Safety\<close>: claims that run side by side. A history interleaves the calls of any number of
    actors on one API server (\<open>serves\<close>); the calls of a claimer are those of a run of \<open>Claim\<close>.
  \<^item> \<open>Reconciler\<close>: \<open>pkg/controller/sandbox_controller.go\<close> and the direct operations of
    \<open>lifecycle.go\<close>: every handler of the reconcile loop. After a successful write the code goes
    on with the object that the server returned, and so does the model.
  \<^item> \<open>Reconcile_Safety\<close>: what the reconcile loop guarantees. \<open>before\<close> states the order of calls,
    \<open>status_step\<close> is the phase graph that the statuses written by one dispatch follow.
  \<^item> \<open>Webhook_State\<close>, \<open>Webhook_Delivery\<close>: \<open>pkg/controller/webhook_delivery\<close>: subscriptions, cursor
    and delivery state, the check of a URL, signing, and one pass of the deliverer.
    \<open>Webhook_Addresses\<close> reads the table of refused networks as ranges of numbers; \<open>Webhook_Safety\<close>
    says to whom a pass posts and how it moves the cursor.
  \<^item> \<open>Backups\<close>: \<open>pkg/controller/backup/scheduler.go\<close> and \<open>pkg/router/backup_handlers.go\<close>.

  \<^bold>\<open>The router\<close> (\<open>pkg/router\<close>).

  \<^item> \<open>Api_Keys\<close>: \<open>auth/apikey.go\<close> and the listing half of the key store. \<open>ValidateKey\<close> is the whole
    validation; \<open>key_section\<close> splits it where the code gives up the lock of the cache, and \<open>key_runs\<close>
    lets the sections of any number of validations interleave with evictions. The cache is the locale
    \<open>key_cache\<close>, interpreted on the code's list.
  \<^item> \<open>Oidc\<close>: \<open>auth/oidc.go\<close>: bearer tokens, their signature, claims and the key set.
  \<^item> \<open>Access_Control\<close>: \<open>middleware.go\<close>, \<open>scopedkey_middleware.go\<close> and the access checks of
    \<open>handlers.go\<close>: who the caller is, which routes a sandbox-scoped key may use, how a sandbox is
    looked up, and who owns it or may open its terminal.
  \<^item> \<open>Rate_Limit\<close>: \<open>ratelimit.go\<close>. \<open>Routes\<close>: the table of routes of \<open>server.go\<close> and
    \<open>agent/handler.go\<close> and the chain of middleware in front of each handler.
  \<^item> \<open>Http\<close>, \<open>Sandbox_Handlers\<close>, \<open>Bulk_Handlers\<close>, \<open>Sharing\<close>, \<open>Key_Handlers\<close>, \<open>Webhook_Handlers\<close>,
    \<open>Console\<close>: the handlers of \<open>handlers.go\<close>, \<open>bulk_handlers.go\<close>, \<open>patch_handlers.go\<close>,
    \<open>apikey_handlers.go\<close>, \<open>webhook_handlers.go\<close>, \<open>webhook_store.go\<close>, \<open>events.go\<close>, \<open>sharelinks\<close>,
    \<open>cluster_status.go\<close>, \<open>headroom.go\<close> and \<open>deprecation.go\<close>. A handler maps claims and a decoded body
    to a program that returns the reply.
  \<^item> \<open>Router_Safety\<close>, \<open>Batch_Safety\<close>, \<open>Sharing_Safety\<close>: what the handlers guarantee together.
  \<^item> \<open>Ports\<close>: \<open>portforward\<close> and its handlers. \<open>Files\<close>: the file handlers and \<open>archive.go\<close>, with
    \<open>File_Safety\<close> on what a shell reads from their command lines. \<open>Shell\<close>: the words of a command line,
    and the quoting of \<open>agent/invoke.go\<close>.
  \<^item> \<open>Exec_Dispatch\<close>: \<open>exec_dispatch.go\<close>, \<open>terminal/bridge.go\<close> and \<open>sandboxhttp/client.go\<close>: a command
    goes over the exec stream of the pod or to its runtime. \<open>Agent_Stream\<close>, \<open>Agent_Configure\<close>,
    \<open>Agent_Invoke\<close>: \<open>agent/sse.go\<close>, \<open>configure.go\<close>, \<open>invoke.go\<close>. \<open>Exec_Safety\<close> and \<open>Agent_Safety\<close> say
    where commands run, what else these handlers write and who may cancel.
  \<^item> \<open>Terminals\<close>: \<open>terminal/protocol.go\<close>, \<open>session.go\<close>, \<open>manager.go\<close> and \<open>pty_dispatch.go\<close>: frames, a
    session, the table of sessions as a step relation in which terminations run in several critical
    sections, and the ferry to the runtime.

  \<^bold>\<open>Beside them.\<close>

  \<^item> \<open>Runtime\<close>: \<open>pkg/sandboxruntime\<close>: authorisation, commands, invocations, terminals and the life of
    a terminal as a step relation, related to the router's half of each protocol.
  \<^item> \<open>Client\<close>: \<open>pkg/agenttierclient\<close>: the call of each operation, how a request is made and its reply
    read, and the route each call takes in the router's table.

  \<^bold>\<open>Bounds.\<close> No definition uses fuel. Resolution recurses on the distance to the depth bound,
  a claim on its three attempts, the write of an agent's status on its attempts, a delivery on its
  five, and the remaining loops on lists.

  \<^bold>\<open>Parameters.\<close> What is not part of the repository is an argument. Of Go's library and of
  imported packages: \<open>PQ\<close> is \<open>resource.ParseQuantity\<close>, \<open>UP\<close> parses a URL and \<open>MJ\<close> is
  \<open>json.Marshal\<close> of a delivery, \<open>token_env\<close> decodes and verifies bearer tokens, \<open>bucket_ops\<close> is the
  token bucket of the rate limiter, a \<open>matcher\<close> matches a path against the template of a route
  (\<open>documented_matching\<close> states its documentation), \<open>runtime_codec\<close>, \<open>console_codec\<close> and
  \<open>client_env\<close> hold the JSON and the transport of the runtime's client, of the console's handlers and of
  the client library, and the reading of tar and the writing of zip are arguments of the archive. Matching
  of label selectors and of address blocks is an argument of the network lemmas. Where Go leaves an
  order open, the order is an argument: \<open>order\<close> for the namespaces of a batch, \<open>ties\<close> for events of one
  time, \<open>arrange\<close> for subscriptions, \<open>by_path\<close> for the files of a configuration. JSON documents in
  ConfigMaps and Secrets are typed values (\<open>Documents\<close>), and a request body is the value that
  \<open>encoding/json\<close> decodes, or its error text. The processes of the runtime are answers of \<open>E\<close>.

  \<^bold>\<open>Limits of the model.\<close> A handler is a run of its own: where several requests share memory, the
  operations that hold a lock are single steps (\<open>key_runs\<close>, the sessions of \<open>Terminals\<close>), and only
  there interleavings are considered. The expiry of a bearer token is an integer without the bounds of
  the conversion from floating point. The governance store that the router is built with is always
  there, so the handlers' tests for a missing one are left out; the agent's resolver keeps its test.
  Slots and the register of invocations go by the name of a sandbox without its namespace, as in the
  code.

  \<^bold>\<open>Not modelled.\<close> The transport of streams (WebSocket, exec, server-sent events) below their
  frames, tickers that repeat a pass, logging, metrics and tracing; the page over cluster nodes
  (\<open>cluster_nodes.go\<close>); the optional SQL back end (\<open>pkg/storage\<close>); the command line (\<open>cmd/cli\<close>), notifications, telemetry, installation of the CRDs,
  generated deep copies and the entry points.
\<close>

end
